(* ===== verification/JS_Prelude.thy ===== *)
theory JS_Prelude
  imports Complex_Main
begin

text \<open>
  Shared vocabulary of the development: the JavaScript values and string
  operations the sources use, and the generic lemmas the component theories
  rest on. A JavaScript string is a \<^typ>\<open>string\<close>, that is a list of code
  units restricted to Latin-1 (0..255); \<open>substring\<close>, \<open>split\<close>, \<open>join\<close>,
  \<open>includes\<close>, \<open>startsWith\<close>, \<open>trim\<close>, \<open>toLowerCase\<close> and the white-space and
  digit classes of regular expressions are defined on it. Two interfaces used by
  several components are stated here as locales: \<open>machine\<close> (a step function and
  an invariant) and \<open>codec\<close> (an encoder with a decoder that inverts it).
\<close>

named_theorems str_simps \<open>evaluation of the string operations\<close>
named_theorems machine_defs \<open>definitions of the handlers of the state machines\<close>

section \<open>Character classes\<close>

definition is_digit :: "char \<Rightarrow> bool" where
  "is_digit c \<longleftrightarrow> c \<in> set ''0123456789''"

definition is_space :: "char \<Rightarrow> bool" where
  "is_space c \<longleftrightarrow> c \<in> set [CHR 0x20, CHR 0x09, CHR 0x0A, CHR 0x0B, CHR 0x0C, CHR 0x0D, CHR 0xA0]"

definition is_alpha :: "char \<Rightarrow> bool" where
  "is_alpha c \<longleftrightarrow> c \<in> set ''ABCDEFGHIJKLMNOPQRSTUVWXYZabcdefghijklmnopqrstuvwxyz''"

definition is_word :: "char \<Rightarrow> bool" where
  "is_word c \<longleftrightarrow> is_digit c \<or> is_alpha c \<or> c = CHR ''_''"

text \<open>What a dot of a regular expression does not match.\<close>

definition line_end :: "char \<Rightarrow> bool" where
  "line_end c \<longleftrightarrow> c = CHR 0x0A \<or> c = CHR 0x0D"

definition newline :: char where
  "newline = CHR 0x0A"

fun to_lower :: "char \<Rightarrow> char" where
  "to_lower c = (let n = of_char c :: nat in
     if 65 \<le> n \<and> n \<le> 90 \<or> 192 \<le> n \<and> n \<le> 222 \<and> n \<noteq> 215 then char_of (n + 32) else c)"

definition toLowerCase :: "string \<Rightarrow> string" where
  "toLowerCase s = map to_lower s"

lemma is_word_digit [simp]: "is_digit c \<Longrightarrow> is_word c"
  by (simp add: is_word_def)

lemma length_toLowerCase [simp]: "length (toLowerCase s) = length s"
  by (simp add: toLowerCase_def)

section \<open>Substrings\<close>

text \<open>\<open>s.substring(i, j)\<close> for \<open>i \<le> j\<close>, and \<open>s.substring(i)\<close> as \<^const>\<open>drop\<close>.\<close>

definition substring :: "nat \<Rightarrow> nat \<Rightarrow> string \<Rightarrow> string" where
  "substring i j s = take (j - i) (drop i s)"

fun starts_with :: "string \<Rightarrow> string \<Rightarrow> bool" where
  "starts_with s [] = True"
| "starts_with [] (p # ps) = False"
| "starts_with (c # cs) (p # ps) = (c = p \<and> starts_with cs ps)"

definition ends_with :: "string \<Rightarrow> string \<Rightarrow> bool" where
  "ends_with s p = starts_with (rev s) (rev p)"

fun str_includes :: "string \<Rightarrow> string \<Rightarrow> bool" where
  "str_includes [] t = (t = [])"
| "str_includes (c # cs) t = (starts_with (c # cs) t \<or> str_includes cs t)"

lemma starts_with_iff: "starts_with s p \<longleftrightarrow> (\<exists>r. s = p @ r)"
  by (induction s p rule: starts_with.induct) auto

lemma starts_with_append [simp]: "starts_with (p @ r) p"
  by (auto simp: starts_with_iff)

lemma includes_iff: "str_includes s t \<longleftrightarrow> (\<exists>a b. s = a @ t @ b)"
proof (induction s)
  case (Cons c cs)
  show ?case
  proof
    assume "str_includes (c # cs) t"
    then consider "starts_with (c # cs) t" | "str_includes cs t"
      by auto
    then show "\<exists>a b. c # cs = a @ t @ b"
    proof cases
      case 1
      then show ?thesis unfolding starts_with_iff by (metis append_Nil)
    next
      case 2
      with Cons obtain a b where "cs = a @ t @ b" by auto
      then show ?thesis by (metis append_Cons)
    qed
  next
    assume "\<exists>a b. c # cs = a @ t @ b"
    then obtain a b where ab: "c # cs = a @ t @ b" by blast
    show "str_includes (c # cs) t"
    proof (cases a)
      case Nil
      with ab show ?thesis by (metis append_Nil starts_with_append str_includes.simps(2))
    next
      case (Cons x xs)
      with ab have "cs = xs @ t @ b" by simp
      with Cons.IH show ?thesis by auto
    qed
  qed
qed auto

text \<open>\<open>trim()\<close>: white space removed at both ends.\<close>

definition trim_left :: "string \<Rightarrow> string" where
  "trim_left s = dropWhile is_space s"

definition trim_right :: "string \<Rightarrow> string" where
  "trim_right s = rev (dropWhile is_space (rev s))"

definition trim :: "string \<Rightarrow> string" where
  "trim s = trim_right (trim_left s)"

text \<open>\<open>x ?? d\<close>, and \<open>x || d\<close> where every given value is true.\<close>

definition or_else :: "'a \<Rightarrow> 'a option \<Rightarrow> 'a" where
  "or_else d x = (case x of None \<Rightarrow> d | Some y \<Rightarrow> y)"

section \<open>split and join\<close>

text \<open>\<open>s.split(c)\<close> for a one-character separator: never the empty list.\<close>

fun split_on :: "char \<Rightarrow> string \<Rightarrow> string list" where
  "split_on c [] = [[]]"
| "split_on c (x # xs) = (if x = c then [] # split_on c xs
     else (case split_on c xs of [] \<Rightarrow> [[x]] | w # ws \<Rightarrow> (x # w) # ws))"

fun join :: "string \<Rightarrow> string list \<Rightarrow> string" where
  "join sep [] = []"
| "join sep [w] = w"
| "join sep (w # v # ws) = w @ sep @ join sep (v # ws)"

lemma split_on_not_Nil [simp]: "split_on c s \<noteq> []"
  by (induction s) (auto split: list.splits)

lemma split_on_no_sep: "c \<notin> set s \<Longrightarrow> split_on c s = [s]"
  by (induction s) auto

lemma split_on_append_sep: "split_on c (a @ c # b) = split_on c a @ split_on c b"
proof (induction a)
  case (Cons x a)
  then show ?case
    by (cases "split_on c a") auto
qed simp

lemma split_on_parts_no_sep: "w \<in> set (split_on c s) \<Longrightarrow> c \<notin> set w"
  by (induction s arbitrary: w) (auto split: list.splits if_splits)

lemma join_Cons: "ws \<noteq> [] \<Longrightarrow> join sep (w # ws) = w @ sep @ join sep ws"
  by (cases ws) auto

lemma join_split_on: "join [c] (split_on c s) = s"
proof (induction s)
  case (Cons x s)
  show ?case
  proof (cases "split_on c s")
    case (Cons w ws)
    then show ?thesis
      using Cons.IH by (cases ws) (auto simp: join_Cons)
  qed simp
qed simp

lemma split_on_join:
  "ws \<noteq> [] \<Longrightarrow> (\<And>w. w \<in> set ws \<Longrightarrow> c \<notin> set w) \<Longrightarrow> split_on c (join [c] ws) = ws"
proof (induction ws rule: induct_list012)
  case (2 w)
  then show ?case by (simp add: split_on_no_sep)
next
  case (3 w v ws)
  then show ?case by (simp add: split_on_append_sep split_on_no_sep)
qed simp

lemma length_split_on: "length (split_on c s) = Suc (count_list s c)"
  by (induction s) (auto split: list.splits)

lemma join_append:
  "xs \<noteq> [] \<Longrightarrow> ys \<noteq> [] \<Longrightarrow> join sep (xs @ ys) = join sep xs @ sep @ join sep ys"
  by (induction xs rule: induct_list012) (auto simp: join_Cons)

lemma set_split_on: "w \<in> set (split_on c s) \<Longrightarrow> set w \<subseteq> set s"
  by (induction s arbitrary: w) (force split: list.splits if_splits)+

lemma set_join_subset: "c \<in> set (join sep ws) \<Longrightarrow> c \<in> set sep \<or> (\<exists>w \<in> set ws. c \<in> set w)"
  by (induction ws rule: induct_list012) auto

section \<open>Lists\<close>

text \<open>\<open>xs.findIndex(p)\<close>: the first index whose element satisfies \<open>p\<close>, \<^const>\<open>None\<close> for -1.\<close>

fun find_index :: "('a \<Rightarrow> bool) \<Rightarrow> 'a list \<Rightarrow> nat option" where
  "find_index p [] = None"
| "find_index p (x # xs) = (if p x then Some 0 else map_option Suc (find_index p xs))"

lemma find_index_Some:
  "find_index p xs = Some i \<Longrightarrow> i < length xs \<and> p (xs ! i) \<and> (\<forall>j < i. \<not> p (xs ! j))"
proof (induction xs arbitrary: i)
  case (Cons x xs)
  then show ?case by (auto split: if_splits simp: nth_Cons split: nat.splits)
qed simp

lemma find_index_None: "find_index p xs = None \<longleftrightarrow> (\<forall>x \<in> set xs. \<not> p x)"
  by (induction xs) auto

lemma find_index_least:
  "i < length xs \<Longrightarrow> p (xs ! i) \<Longrightarrow> \<exists>j \<le> i. find_index p xs = Some j"
proof (induction xs arbitrary: i)
  case (Cons x xs)
  then show ?case by (cases i) fastforce+
qed simp

text \<open>\<open>xs.filter((_, j) => j !== i)\<close>: the list without its element at an index.\<close>

definition remove_at :: "nat \<Rightarrow> 'a list \<Rightarrow> 'a list" where
  "remove_at i xs = take i xs @ drop (Suc i) xs"

lemma length_remove_at: "length (remove_at i xs) = (if i < length xs then length xs - 1 else length xs)"
  by (auto simp: remove_at_def)

lemma nth_remove_at_less: "j < i \<Longrightarrow> j < length xs \<Longrightarrow> remove_at i xs ! j = xs ! j"
  by (simp add: remove_at_def nth_append)

lemma nth_remove_at_ge:
  "i \<le> j \<Longrightarrow> Suc j < length xs \<Longrightarrow> remove_at i xs ! j = xs ! Suc j"
  by (simp add: remove_at_def nth_append min_def)

text \<open>Scanning up to the first character that ends a run.\<close>

lemma scan_stop:
  assumes "\<And>c. c \<in> set a \<Longrightarrow> P c" "\<not> P x"
  shows "takeWhile P (a @ x # r) = a" "dropWhile P (a @ x # r) = x # r"
  using assms by (simp_all add: takeWhile_append2 dropWhile_append2)

lemma until_char:
  assumes "c \<notin> set a"
  shows "takeWhile (\<lambda>x. x \<noteq> c) (a @ c # r) = a" "dropWhile (\<lambda>x. x \<noteq> c) (a @ c # r) = c # r"
  using assms by (induction a) auto

section \<open>White space at the ends and words\<close>

lemma trim_id:
  assumes "s = [] \<or> \<not> is_space (hd s) \<and> \<not> is_space (last s)"
  shows "trim s = s" "trim_left s = s" "trim_right s = s"
proof -
  have "dropWhile is_space s = s" using assms by (cases s) auto
  moreover have "dropWhile is_space (rev s) = rev s"
    using assms by (cases s rule: rev_cases) auto
  ultimately show "trim s = s" "trim_left s = s" "trim_right s = s"
    by (simp_all add: trim_def trim_left_def trim_right_def)
qed

lemma trim_left_space: "is_space c \<Longrightarrow> trim_left (c # s) = trim_left s"
  by (simp add: trim_left_def)

definition tight :: "string \<Rightarrow> bool" where
  "tight s \<longleftrightarrow> s \<noteq> [] \<and> \<not> is_space (hd s) \<and> \<not> is_space (last s)"

lemma tight_trim: "tight s \<Longrightarrow> trim s = s" "tight s \<Longrightarrow> trim_left s = s" "tight s \<Longrightarrow> trim_right s = s"
  by (simp_all add: tight_def trim_id)

lemma is_space_blank [simp]: "is_space CHR '' ''"
  by (simp add: is_space_def)

text \<open>
  \<open>s.split(/[gaps]+/).filter(Boolean)\<close>: the maximal runs of characters that are no
  gaps.
\<close>

function words_by :: "(char \<Rightarrow> bool) \<Rightarrow> string \<Rightarrow> string list" where
  "words_by p [] = []"
| "words_by p (c # cs) = (if p c then words_by p cs
     else takeWhile (\<lambda>x. \<not> p x) (c # cs) # words_by p (dropWhile (\<lambda>x. \<not> p x) (c # cs)))"
  by pat_completeness auto

termination
proof (relation "measure (length \<circ> snd)")
  show "((p, dropWhile (\<lambda>x. \<not> p x) (c # cs)), p, c # cs) \<in> measure (length \<circ> snd)" if "\<not> p c"
    for p :: "char \<Rightarrow> bool" and c cs
    using length_dropWhile_le [of "\<lambda>x. \<not> p x" cs] that by (simp add: less_Suc_eq_le)
qed simp_all

lemma words_by_gap: "p c \<Longrightarrow> words_by p (c # cs) = words_by p cs"
  by simp

lemma while_all:
  "list_all q w \<Longrightarrow> takeWhile q w = w" "list_all q w \<Longrightarrow> dropWhile q w = []"
  by (auto simp: list_all_iff)

lemma words_by_word:
  assumes "w \<noteq> []" "list_all (\<lambda>x. \<not> p x) w" "p c"
  shows "words_by p w = [w]" "words_by p (w @ c # r) = w # words_by p r"
proof -
  obtain d ds where w: "w = d # ds" using assms(1) by (cases w) auto
  have "takeWhile (\<lambda>x. \<not> p x) (w @ c # r) = w" "dropWhile (\<lambda>x. \<not> p x) (w @ c # r) = c # r"
    using assms(2,3) by (simp_all add: takeWhile_append2 dropWhile_append2 list_all_iff)
  then show "words_by p w = [w]" "words_by p (w @ c # r) = w # words_by p r"
    using assms by (simp_all add: w while_all)
qed

lemma words_by_join:
  assumes "p c" "list_all (\<lambda>w. w \<noteq> [] \<and> list_all (\<lambda>x. \<not> p x) w) ws"
  shows "words_by p (join [c] ws) = ws"
  using assms(2)
proof (induction ws rule: induct_list012)
  case (2 w)
  then show ?case using words_by_word(1) [of w p c] assms(1) by simp
next
  case (3 w v ws)
  then show ?case using words_by_word(2) [of w p c] assms(1) by simp
qed simp

lemma words_by_only_gaps: "list_all p t \<Longrightarrow> words_by p t = []"
  by (induction t) auto

lemma words_by_gaps: "list_all p t \<Longrightarrow> words_by p (s @ t) = words_by p s"
proof (induction p s rule: words_by.induct)
  case (1 p)
  then show ?case by (simp add: words_by_only_gaps)
next
  case (2 p c cs)
  have t: "takeWhile (\<lambda>x. \<not> p x) t = []" "dropWhile (\<lambda>x. \<not> p x) t = t"
    using "2.prems" by (cases t; simp)+
  show ?case
  proof (cases "p c \<or> (\<exists>x \<in> set cs. p x)")
    case True
    with 2 show ?thesis by (auto simp: takeWhile_append dropWhile_append)
  next
    case False
    then have "list_all (\<lambda>x. \<not> p x) (c # cs)" by (simp add: list_all_iff)
    then show ?thesis
      using False t "2.prems" by (simp add: takeWhile_append dropWhile_append words_by_only_gaps while_all)
  qed
qed

lemma words_by_trim:
  assumes "\<And>c. is_space c \<Longrightarrow> p c"
  shows "words_by p (trim s) = words_by p s"
proof -
  let ?u = "trim_left s"
  have "words_by p ?u = words_by p s"
    using assms by (induction s) (auto simp: trim_left_def)
  moreover have "?u = trim_right ?u @ rev (takeWhile is_space (rev ?u))"
    by (metis rev_append rev_rev_ident takeWhile_dropWhile_id trim_right_def)
  moreover have "list_all p (rev (takeWhile is_space (rev ?u)))"
    using assms by (auto simp: list_all_iff dest: set_takeWhileD)
  ultimately show ?thesis by (metis trim_def words_by_gaps)
qed

section \<open>Interfaces\<close>

text \<open>
  A component that handles events one at a time: \<open>init\<close> is its first state,
  \<open>step\<close> its handler, \<open>ok\<close> the environment's promise about an event in a state
  (a click hits something that is on the screen) and \<open>inv\<close> what holds between
  events. Whatever sequence of permitted events arrives, the invariant holds.
\<close>

fun permitted :: "('s \<Rightarrow> 'e \<Rightarrow> bool) \<Rightarrow> ('s \<Rightarrow> 'e \<Rightarrow> 's) \<Rightarrow> 's \<Rightarrow> 'e list \<Rightarrow> bool" where
  "permitted ok step s [] = True"
| "permitted ok step s (e # es) = (ok s e \<and> permitted ok step (step s e) es)"

locale machine =
  fixes step :: "'s \<Rightarrow> 'e \<Rightarrow> 's"
    and ok :: "'s \<Rightarrow> 'e \<Rightarrow> bool"
    and inv :: "'s \<Rightarrow> bool"
  assumes inv_step: "inv s \<Longrightarrow> ok s e \<Longrightarrow> inv (step s e)"
begin

lemma inv_run: "inv s \<Longrightarrow> permitted ok step s es \<Longrightarrow> inv (foldl step s es)"
  by (induction es arbitrary: s) (auto intro: inv_step)

lemma inv_prefix:
  "inv s \<Longrightarrow> permitted ok step s (es @ fs) \<Longrightarrow> inv (foldl step s es)"
proof (induction es arbitrary: s)
  case (Cons e es)
  then show ?case by (auto intro: inv_step)
qed simp

end

lemma permitted_all: "permitted (\<lambda>_ _. True) f s es"
  by (induction es arbitrary: s) simp_all

text \<open>An encoder and a partial decoder that recovers every encoded value.\<close>

locale codec =
  fixes enc :: "'a \<Rightarrow> 'b"
    and dec :: "'b \<Rightarrow> 'a option"
    and dom_enc :: "'a \<Rightarrow> bool"
  assumes dec_enc: "dom_enc x \<Longrightarrow> dec (enc x) = Some x"
begin

lemma enc_inj: "dom_enc x \<Longrightarrow> dom_enc y \<Longrightarrow> enc x = enc y \<Longrightarrow> x = y"
  using dec_enc by (metis option.inject)

end

end
