(* ===== verification/Format.thy ===== *)
theory Format
  imports JS_Prelude
begin

text \<open>
  The text helpers of the explorer (\<open>bundle.js\<close>, line 486): addresses, counts with
  thousands separators, terminal colours, URL prefixes, and the split of a location
  into the explorer's path and sub-path.
\<close>

section \<open>Addresses\<close>

text \<open>\<open>/^[a-z0-9_-]{43}$/i\<close>\<close>

definition is_address_char :: "char \<Rightarrow> bool" where
  "is_address_char c \<longleftrightarrow> is_alpha c \<or> is_digit c \<or> c = CHR ''_'' \<or> c = CHR ''-''"

definition checkValidAddress :: "string \<Rightarrow> bool" where
  "checkValidAddress s \<longleftrightarrow> s \<noteq> [] \<and> length s = 43 \<and> list_all is_address_char s"

definition formatAddress :: "string \<Rightarrow> bool \<Rightarrow> string" where
  "formatAddress s wrap = (if s = [] then []
     else if \<not> checkValidAddress s then s
     else let short = substring 0 5 s @ ''...'' @ substring 36 (length s) s
          in if wrap then ''('' @ short @ '')'' else short)"

lemma formatAddress_invalid: "\<not> checkValidAddress s \<Longrightarrow> formatAddress s w = s"
  by (simp add: formatAddress_def)

lemma formatAddress_valid:
  "checkValidAddress s \<Longrightarrow> formatAddress s False = take 5 s @ ''...'' @ drop 36 s"
  by (auto simp: formatAddress_def checkValidAddress_def substring_def)

lemma length_formatAddress: "checkValidAddress s \<Longrightarrow> length (formatAddress s False) = 15"
  by (simp add: formatAddress_valid) (simp add: checkValidAddress_def)

section \<open>Counts\<close>

subsection \<open>Number(s)\<close>

text \<open>
  The conversion of a string to a number, as far as \<open>!Number(s)\<close> looks at it:
  whether the result is neither \<open>NaN\<close> nor zero. A decimal literal
  \<open>m * 10^e\<close> rounds to zero when it is at most half the least positive double.
\<close>

definition is_hex_digit :: "char \<Rightarrow> bool" where
  "is_hex_digit c \<longleftrightarrow> c \<in> set ''0123456789abcdefABCDEF''"

fun digit_val :: "char \<Rightarrow> nat" where
  "digit_val c = of_char c - 48"

definition digits_val :: "string \<Rightarrow> nat" where
  "digits_val s = foldl (\<lambda>n c. 10 * n + digit_val c) 0 s"

definition exponent_of :: "string \<Rightarrow> int option" where
  "exponent_of s = (case s of
       [] \<Rightarrow> Some 0
     | c # t \<Rightarrow> if c \<noteq> CHR ''e'' \<and> c \<noteq> CHR ''E'' then None
         else (case t of
             [] \<Rightarrow> None
           | d # ds \<Rightarrow>
               if (d = CHR ''+'' \<or> d = CHR ''-'') then
                 (if ds \<noteq> [] \<and> list_all is_digit ds
                  then Some ((if d = CHR ''-'' then - 1 else 1) * int (digits_val ds)) else None)
               else if list_all is_digit t then Some (int (digits_val t)) else None))"

definition nonzero_decimal :: "nat \<Rightarrow> int \<Rightarrow> bool" where
  "nonzero_decimal m e \<longleftrightarrow> m \<noteq> 0 \<and> (if e \<ge> 0 then True else 10 ^ nat (- e) < m * 2 ^ 1075)"

definition decimal_truthy :: "string \<Rightarrow> bool" where
  "decimal_truthy s = (let ip = takeWhile is_digit s; r = dropWhile is_digit s in
     (case r of
        c # t \<Rightarrow> if c = CHR ''.'' then
            (let fp = takeWhile is_digit t in
             ip @ fp \<noteq> [] \<and> (case exponent_of (dropWhile is_digit t) of
                None \<Rightarrow> False
              | Some e \<Rightarrow> nonzero_decimal (digits_val (ip @ fp)) (e - int (length fp))))
          else ip \<noteq> [] \<and> (case exponent_of r of
                None \<Rightarrow> False | Some e \<Rightarrow> nonzero_decimal (digits_val ip) e)
      | [] \<Rightarrow> ip \<noteq> [] \<and> digits_val ip \<noteq> 0))"

definition prefixed_truthy :: "string \<Rightarrow> bool" where
  "prefixed_truthy s = (case s of
       z # x # ds \<Rightarrow> z = CHR ''0'' \<and> ds \<noteq> [] \<and> list_ex (\<lambda>c. c \<noteq> CHR ''0'') ds \<and>
         (x \<in> set ''xX'' \<and> list_all is_hex_digit ds \<or>
          x \<in> set ''oO'' \<and> list_all (\<lambda>c. c \<in> set ''01234567'') ds \<or>
          x \<in> set ''bB'' \<and> list_all (\<lambda>c. c \<in> set ''01'') ds)
     | _ \<Rightarrow> False)"

definition number_truthy :: "string \<Rightarrow> bool" where
  "number_truthy s = (let t = trim s;
       u = (case t of c # r \<Rightarrow> if c = CHR ''+'' \<or> c = CHR ''-'' then r else t | [] \<Rightarrow> [])
     in prefixed_truthy t \<or> u = ''Infinity'' \<or> decimal_truthy u)"

subsection \<open>Thousands separators\<close>

text \<open>
  \<open>replace(/\B(?=(\d{3})+(?!\d))/g, ",")\<close>: a comma goes before a character when the
  run of digits that starts there has a length divisible by three and the character
  before is a word character.
\<close>

fun add_commas :: "bool \<Rightarrow> string \<Rightarrow> string" where
  "add_commas w [] = []"
| "add_commas w (c # cs) = (let n = length (takeWhile is_digit (c # cs)) in
     if w \<and> n > 0 \<and> n mod 3 = 0 then CHR '','' # c # add_commas (is_word c) cs
     else c # add_commas (is_word c) cs)"

text \<open>The position after the last character other than \<open>0\<close> among the first six.\<close>

definition last_nonzero :: "string \<Rightarrow> nat" where
  "last_nonzero f = foldl (\<lambda>e v. if f ! v \<noteq> CHR ''0'' then v + 1 else e) 0
     [0 ..< min (length f) 6]"

definition format_fraction :: "string \<Rightarrow> string" where
  "format_fraction f = (let e = last_nonzero f in
     if e = 0 then ''00''
     else let g = substring 0 e f in
       if length g > 2 \<and> substring 0 2 g \<noteq> ''00'' then substring 0 2 g else g)"

definition formatCount :: "string \<Rightarrow> string" where
  "formatCount s = (if s = ''0'' \<or> \<not> number_truthy s then ''0''
     else if CHR ''.'' \<in> set s then
       (case split_on CHR ''.'' s of
          ip # fp # ps \<Rightarrow> join ''.'' (add_commas False ip # format_fraction fp # ps)
        | ps \<Rightarrow> join ''.'' ps)
     else add_commas False s)"

subsection \<open>The reference: groups of three from the right\<close>

fun chunks :: "nat \<Rightarrow> 'a list \<Rightarrow> 'a list list" where
  "chunks n xs = (if n = 0 \<or> xs = [] then [] else take n xs # chunks n (drop n xs))"

declare chunks.simps [simp del]

definition thousands :: "string \<Rightarrow> string" where
  "thousands s = (let k = length s mod 3 in
     join '','' (if k = 0 then chunks 3 s else take k s # chunks 3 (drop k s)))"

lemma takeWhile_digits: "list_all is_digit s \<Longrightarrow> takeWhile is_digit s = s"
  by (auto simp: list_all_iff)

lemma add_commas_digits:
  assumes "list_all is_digit (c # cs)"
  shows "add_commas w (c # cs) =
    (if w \<and> length (c # cs) mod 3 = 0 then '','' else []) @ c # add_commas True cs"
  using assms by (simp add: takeWhile_digits list_all_iff)

lemma chunks_Cons: "xs \<noteq> [] \<Longrightarrow> chunks 3 xs = take 3 xs # chunks 3 (drop 3 xs)"
  by (subst chunks.simps) simp

lemma chunks_Nil [simp]: "chunks n [] = []"
  by (subst chunks.simps) simp

lemma chunks_eq_Nil [simp]: "chunks 3 xs = [] \<longleftrightarrow> xs = []"
  by (subst chunks.simps) simp

lemma add_commas_True_groups:
  assumes "list_all is_digit s" "length s mod 3 = 0" "s \<noteq> []"
  shows "add_commas True s = '','' @ join '','' (chunks 3 s)"
  using assms
proof (induction s rule: length_induct)
  case (1 s)
  then obtain a b c t where s: "s = a # b # c # t"
    by (cases s; cases "tl s"; cases "tl (tl s)") auto
  have t: "list_all is_digit t" "length t mod 3 = 0"
    using 1 s by auto
  have dig: "list_all is_digit (a # b # c # t)" "list_all is_digit (b # c # t)"
    "list_all is_digit (c # t)" using 1 s by auto
  have len: "length (a # b # c # t) mod 3 = 0" "length (b # c # t) mod 3 = 2"
    "length (c # t) mod 3 = 1" using t(2) by (simp_all only: list.size, presburger+)
  have "add_commas True (a # b # c # t) = '','' @ a # add_commas True (b # c # t)"
    by (simp only: add_commas_digits [OF dig(1)] len) simp
  also have "add_commas True (b # c # t) = b # add_commas True (c # t)"
    by (simp only: add_commas_digits [OF dig(2)] len) simp
  also have "add_commas True (c # t) = c # add_commas True t"
    by (simp only: add_commas_digits [OF dig(3)] len) simp
  finally have step: "add_commas True s = '','' @ [a, b, c] @ add_commas True t"
    using s by simp
  show ?case
  proof (cases "t = []")
    case True
    then show ?thesis using step s by (simp add: chunks_Cons)
  next
    case False
    with 1 s t have "add_commas True t = '','' @ join '','' (chunks 3 t)" by simp
    with step s False show ?thesis by (simp add: chunks_Cons join_Cons)
  qed
qed

lemma add_commas_thousands:
  assumes "list_all is_digit s" "s \<noteq> []"
  shows "add_commas False s = thousands s"
proof -
  obtain a t where s: "s = a # t" using assms(2) by (cases s) auto
  consider (zero) "length s mod 3 = 0" | (one) "length s mod 3 = 1" | (two) "length s mod 3 = 2"
    by linarith
  then show ?thesis
  proof cases
    case zero
    have "add_commas False s = a # add_commas True t"
      using add_commas_digits [of a t False] assms s by simp
    moreover have "add_commas True s = '','' @ a # add_commas True t"
      using add_commas_digits [of a t True] assms s zero by simp
    moreover have "add_commas True s = '','' @ join '','' (chunks 3 s)"
      by (rule add_commas_True_groups [OF assms(1) zero assms(2)])
    ultimately show ?thesis by (simp add: thousands_def zero)
  next
    case one
    then have t: "length t mod 3 = 0" using s by simp presburger
    have "add_commas False s = a # add_commas True t"
      using add_commas_digits [of a t False] assms s by simp
    then show ?thesis
      using assms s one add_commas_True_groups [of t] t
      by (cases "t = []") (simp_all add: thousands_def join_Cons)
  next
    case two
    then obtain b u where t: "t = b # u" using s by (cases t) auto
    then have u: "length u mod 3 = 0" "length (b # u) mod 3 = 1"
      using two s by (simp; presburger)+
    have "add_commas False s = a # add_commas True (b # u)"
      using add_commas_digits [of a t False] assms s t by simp
    also have "add_commas True (b # u) = b # add_commas True u"
      using add_commas_digits [of b u True] assms s t u by simp
    finally show ?thesis
      using assms s t two add_commas_True_groups [of u] u
      by (cases "u = []") (simp_all add: thousands_def join_Cons numeral_2_eq_2)
  qed
qed

text \<open>Only separators are added: without them the digits are unchanged.\<close>

lemma add_commas_erase:
  "CHR '','' \<notin> set s \<Longrightarrow> filter (\<lambda>c. c \<noteq> CHR '','') (add_commas w s) = s"
  by (induction s arbitrary: w) (auto simp: Let_def)

lemma digits_no_other: "list_all is_digit s \<Longrightarrow> \<not> is_digit c \<Longrightarrow> c \<notin> set s"
  by (auto simp: list_all_iff)

lemma not_digit [simp]: "\<not> is_digit CHR ''.''" "\<not> is_digit CHR '',''"
  by (simp_all add: is_digit_def)

lemma dropWhile_digits: "list_all is_digit s \<Longrightarrow> dropWhile is_digit s = []"
  by (auto simp: list_all_iff)

lemma digit_not_space: "is_digit c \<Longrightarrow> \<not> is_space c"
  by (auto simp: is_digit_def is_space_def)

lemma trim_digits: "list_all is_digit s \<Longrightarrow> trim s = s"
proof (cases "s = []")
  case False
  assume d: "list_all is_digit s"
  then have "dropWhile is_space s = s"
    using False by (cases s) (auto simp: digit_not_space)
  moreover have "dropWhile is_space (rev s) = rev s"
    using False d by (cases s rule: rev_cases) (auto simp: digit_not_space)
  ultimately show ?thesis by (simp add: trim_def trim_left_def trim_right_def)
qed (simp add: trim_def trim_left_def trim_right_def)

lemma foldl_digits_zero:
  "foldl (\<lambda>n c. 10 * n + digit_val c) m s = 0 \<longleftrightarrow> m = 0 \<and> (\<forall>c \<in> set s. digit_val c = 0)"
  by (induction s arbitrary: m) auto

lemma digit_val_zero: "is_digit c \<Longrightarrow> digit_val c = 0 \<longleftrightarrow> c = CHR ''0''"
  by (auto simp: is_digit_def)

lemma digits_val_zero:
  "list_all is_digit s \<Longrightarrow> digits_val s = 0 \<longleftrightarrow> list_all (\<lambda>c. c = CHR ''0'') s"
  by (auto simp: digits_val_def foldl_digits_zero list_all_iff digit_val_zero
      simp del: digit_val.simps)

lemma number_truthy_digits:
  assumes "list_all is_digit s" "s \<noteq> []"
  shows "number_truthy s \<longleftrightarrow> \<not> list_all (\<lambda>c. c = CHR ''0'') s"
proof -
  obtain c t where s: "s = c # t" using assms(2) by (cases s) auto
  have c: "c \<noteq> CHR ''+''" "c \<noteq> CHR ''-''" "c \<noteq> CHR ''I''"
    using assms(1) s by (auto simp: is_digit_def)
  have "\<not> prefixed_truthy s"
    using assms(1) s by (auto simp: prefixed_truthy_def is_digit_def split: list.splits)
  moreover have "s \<noteq> ''Infinity''" using s c by auto
  moreover have "decimal_truthy s \<longleftrightarrow> digits_val s \<noteq> 0"
    using assms by (simp add: decimal_truthy_def takeWhile_digits dropWhile_digits Let_def)
  ultimately show ?thesis
    using c s digits_val_zero [OF assms(1)] trim_digits [OF assms(1)]
    by (auto simp: number_truthy_def Let_def)
qed

lemma nonzero_decimal_bound:
  assumes "m \<noteq> 0" "- 300 \<le> e"
  shows "nonzero_decimal m e"
proof (cases "e \<ge> 0")
  case False
  have "(10 :: nat) ^ nat (- e) \<le> 10 ^ (3 * 100)"
    using assms(2) by (intro power_increasing) auto
  also have "\<dots> = (10 ^ 3) ^ 100" by (rule power_mult)
  also have "\<dots> \<le> (2 ^ 10) ^ 100" by (rule power_mono) simp_all
  also have "\<dots> = 2 ^ (10 * 100)" by (rule power_mult [symmetric])
  also have "\<dots> < (2 :: nat) ^ 1075" by (rule power_strict_increasing) simp_all
  also have "\<dots> \<le> m * 2 ^ 1075" using assms(1) by (cases m) simp_all
  finally show ?thesis using assms(1) by (simp add: nonzero_decimal_def)
qed (use assms in \<open>simp add: nonzero_decimal_def\<close>)

lemma trim_ends:
  assumes "s \<noteq> []" "\<not> is_space (hd s)" "\<not> is_space (last s)"
  shows "trim s = s"
proof -
  have "dropWhile is_space s = s" using assms by (cases s) auto
  moreover have "dropWhile is_space (rev s) = rev s"
    using assms by (cases s rule: rev_cases) auto
  ultimately show ?thesis by (simp add: trim_def trim_left_def trim_right_def)
qed

lemma number_truthy_decimal:
  assumes "list_all is_digit ip" "ip \<noteq> []" "list_all is_digit fp" "fp \<noteq> []"
    "length fp \<le> 300" "\<not> list_all (\<lambda>c. c = CHR ''0'') (ip @ fp)"
  shows "number_truthy (ip @ ''.'' @ fp)"
proof -
  obtain c t where ip: "ip = c # t" using assms(2) by (cases ip) auto
  have c: "c \<noteq> CHR ''+''" "c \<noteq> CHR ''-''" "is_digit c"
    using assms(1) ip by (auto simp: is_digit_def)
  have "is_digit (last fp)" using assms(3,4) by (simp add: list_all_iff)
  then have tr: "trim (ip @ ''.'' @ fp) = ip @ ''.'' @ fp"
    using c(3) assms(4) ip by (intro trim_ends) (auto simp: digit_not_space)
  have tw: "takeWhile is_digit (ip @ CHR ''.'' # fp) = ip"
    "dropWhile is_digit (ip @ CHR ''.'' # fp) = CHR ''.'' # fp"
    using assms(1) by (simp_all add: list_all_iff takeWhile_append dropWhile_append3)
  have "digits_val (ip @ fp) \<noteq> 0"
    using assms by (simp only: digits_val_zero list_all_append simp_thms)
  then have "nonzero_decimal (digits_val (ip @ fp)) (- int (length fp))"
    using assms(5) by (intro nonzero_decimal_bound) auto
  then have "decimal_truthy (ip @ ''.'' @ fp)"
    using assms(2,3)
    by (simp add: decimal_truthy_def tw takeWhile_digits dropWhile_digits Let_def
        exponent_of_def)
  moreover have "trim (c # t @ CHR ''.'' # fp) = c # t @ CHR ''.'' # fp"
    using tr ip by simp
  ultimately show ?thesis using c(1,2) ip by (simp add: number_truthy_def Let_def)
qed

lemma last_nonzero_fold:
  "(let e = foldl (\<lambda>e v. if P v then v + 1 else e) 0 [0 ..< n] in
     e \<le> n \<and> (if e = 0 then \<forall>v < n. \<not> P v else P (e - 1)))"
  by (induction n) (auto simp: Let_def less_Suc_eq split: if_splits)

lemma format_fraction_cases:
  "if \<forall>c \<in> set (take 6 f). c = CHR ''0'' then format_fraction f = ''00''
   else (\<exists>n. 0 < n \<and> n \<le> 6 \<and> n \<le> length f \<and> format_fraction f = take n f)"
proof -
  let ?P = "\<lambda>v. f ! v \<noteq> CHR ''0''" and ?n = "min (length f) 6"
  have "let e = last_nonzero f in e \<le> ?n \<and> (if e = 0 then \<forall>v < ?n. \<not> ?P v else ?P (e - 1))"
    unfolding last_nonzero_def by (rule last_nonzero_fold)
  then have e: "last_nonzero f \<le> ?n"
    "if last_nonzero f = 0 then \<forall>v < ?n. \<not> ?P v else ?P (last_nonzero f - 1)"
    unfolding Let_def by blast+
  have all: "(\<forall>c \<in> set (take 6 f). c = CHR ''0'') \<longleftrightarrow> (\<forall>v < ?n. \<not> ?P v)"
    by (auto simp: in_set_conv_nth all_set_conv_all_nth)
  show ?thesis
  proof (cases "last_nonzero f = 0")
    case True
    then show ?thesis using e all by (simp add: format_fraction_def)
  next
    case False
    then have "last_nonzero f - 1 < ?n" "?P (last_nonzero f - 1)" using e by auto
    then have some: "\<not> (\<forall>c \<in> set (take 6 f). c = CHR ''0'')" using all by blast
    have "format_fraction f = take (last_nonzero f) f \<or>
        last_nonzero f > 2 \<and> format_fraction f = take 2 f"
      using False e(1) by (auto simp: format_fraction_def Let_def substring_def min_def)
    moreover have "last_nonzero f \<le> 6" "last_nonzero f \<le> length f" using e(1) by auto
    ultimately have "\<exists>n. 0 < n \<and> n \<le> 6 \<and> n \<le> length f \<and> format_fraction f = take n f"
      using False by (elim disjE) (rule exI [of _ "last_nonzero f"], simp, rule exI [of _ 2], simp)
    with some show ?thesis by (simp only: if_False)
  qed
qed

section \<open>Terminal colours and URL prefixes\<close>

text \<open>\<open>replace(/\x1B\[[0-9;]*m/g, "")\<close>\<close>

definition is_param :: "char \<Rightarrow> bool" where
  "is_param c \<longleftrightarrow> is_digit c \<or> c = CHR '';''"

definition after_escape :: "string \<Rightarrow> string option" where
  "after_escape s = (case s of
       e # b # t \<Rightarrow> if e = CHR 0x1B \<and> b = CHR ''['' then
           (case dropWhile is_param t of
              m # r \<Rightarrow> if m = CHR ''m'' then Some r else None
            | [] \<Rightarrow> None)
         else None
     | _ \<Rightarrow> None)"

lemma after_escape_shorter: "after_escape s = Some r \<Longrightarrow> length r < length s"
proof -
  assume "after_escape s = Some r"
  then obtain e b t where s: "s = e # b # t" "dropWhile is_param t = CHR ''m'' # r"
    by (auto simp: after_escape_def split: list.splits if_splits)
  then have "length (CHR ''m'' # r) \<le> length t" using length_dropWhile_le by metis
  with s show ?thesis by simp
qed

function strip_ansi :: "string \<Rightarrow> string" where
  "strip_ansi s = (case s of
       [] \<Rightarrow> []
     | c # cs \<Rightarrow> (case after_escape s of Some r \<Rightarrow> strip_ansi r | None \<Rightarrow> c # strip_ansi cs))"
  by auto
termination
  by (relation "measure length") (auto dest: after_escape_shorter)

declare strip_ansi.simps [simp del]

definition stripAnsiChars :: "string \<Rightarrow> string option" where
  "stripAnsiChars s = (if s = [] then None else Some (strip_ansi s))"

definition stripUrlProtocol :: "string \<Rightarrow> string" where
  "stripUrlProtocol s = (if starts_with s ''https://'' then drop 8 s
     else if starts_with s ''http://'' then drop 7 s else s)"

definition formatRequiredField :: "string \<Rightarrow> string" where
  "formatRequiredField s = s @ '' *''"

text \<open>A text is a sequence of plain pieces and colour sequences.\<close>

datatype ansi_piece = Plain string | Colour string

fun piece_text :: "ansi_piece \<Rightarrow> string" where
  "piece_text (Plain t) = t"
| "piece_text (Colour ps) = CHR 0x1B # ''['' @ ps @ ''m''"

fun piece_plain :: "ansi_piece \<Rightarrow> string" where
  "piece_plain (Plain t) = t"
| "piece_plain (Colour ps) = []"

fun well_formed_piece :: "ansi_piece \<Rightarrow> bool" where
  "well_formed_piece (Plain t) = (CHR 0x1B \<notin> set t)"
| "well_formed_piece (Colour ps) = list_all is_param ps"

lemma strip_ansi_Nil [simp]: "strip_ansi [] = []"
  by (simp add: strip_ansi.simps)

lemma strip_ansi_plain: "CHR 0x1B \<notin> set t \<Longrightarrow> strip_ansi (t @ r) = t @ strip_ansi r"
proof (induction t)
  case (Cons c cs)
  then have "after_escape (c # cs @ r) = None"
    by (auto simp: after_escape_def split: list.splits)
  with Cons show ?case by (simp add: strip_ansi.simps [of "c # cs @ r"])
qed simp

lemma strip_ansi_colour:
  assumes "list_all is_param ps"
  shows "strip_ansi (piece_text (Colour ps) @ r) = strip_ansi r"
proof -
  have "dropWhile is_param (ps @ ''m'' @ r) = ''m'' @ r"
    using assms by (induction ps) (auto simp: is_param_def is_digit_def)
  then have "after_escape (piece_text (Colour ps) @ r) = Some r"
    by (simp add: after_escape_def)
  then show ?thesis by (simp add: strip_ansi.simps [of "CHR 0x1B # CHR ''['' # ps @ CHR ''m'' # r"])
qed

lemma strip_ansi_pieces:
  "list_all well_formed_piece ps \<Longrightarrow>
    strip_ansi (concat (map piece_text ps)) = concat (map piece_plain ps)"
proof (induction ps)
  case (Cons p ps)
  then show ?case
    using strip_ansi_colour by (cases p) (auto simp: strip_ansi_plain)
qed simp

section \<open>Properties\<close>

text \<open>
  C20. A count of digits only is shown as its digits in groups of three from the
  right with a comma between them, and as \<open>0\<close> when it is zero; taking the commas
  out gives the count back.
\<close>

theorem formatCount_integer:
  assumes "list_all is_digit s" "s \<noteq> []"
  shows "formatCount s = (if list_all (\<lambda>c. c = CHR ''0'') s then ''0'' else thousands s) \<and>
    filter (\<lambda>c. c \<noteq> CHR '','') (thousands s) = s"
proof -
  have "CHR ''.'' \<notin> set s" "CHR '','' \<notin> set s"
    using assms(1) by (simp_all add: digits_no_other)
  then show ?thesis
    using add_commas_thousands [OF assms] add_commas_erase [of s False]
    by (auto simp: formatCount_def number_truthy_digits [OF assms])
qed

lemma formatCount_integer_witness: "formatCount ''1234567'' = ''1,234,567''"
  by (subst formatCount_integer [THEN conjunct1]) code_simp+

text \<open>
  A count that is not zero, with a fraction of at most 300 digits, keeps its integer digits, grouped, and shows a
  fraction of at most six digits that is cut, never rounded: \<open>00\<close> when the first
  six digits are zero, else a leading part of the fraction.
\<close>

lemma formatCount_decimal:
  assumes "list_all is_digit ip" "ip \<noteq> []" "list_all is_digit fp" "fp \<noteq> []"
    and "length fp \<le> 300" "\<not> list_all (\<lambda>c. c = CHR ''0'') (ip @ fp)"
  shows "\<exists>f. formatCount (ip @ ''.'' @ fp) = thousands ip @ ''.'' @ f \<and>
    (if \<forall>c \<in> set (take 6 fp). c = CHR ''0'' then f = ''00''
     else (\<exists>n. 0 < n \<and> n \<le> 6 \<and> n \<le> length fp \<and> f = take n fp))"
proof -
  have "CHR ''.'' \<notin> set ip" "CHR ''.'' \<notin> set fp"
    using assms by (simp_all add: digits_no_other)
  then have "split_on CHR ''.'' (ip @ ''.'' @ fp) = [ip, fp]"
    by (simp add: split_on_append_sep split_on_no_sep)
  moreover have "ip @ ''.'' @ fp \<noteq> ''0''" by (cases ip) auto
  ultimately have "formatCount (ip @ ''.'' @ fp) = thousands ip @ ''.'' @ format_fraction fp"
    using number_truthy_decimal [OF assms] add_commas_thousands [OF assms(1,2)]
    by (simp add: formatCount_def)
  then show ?thesis using format_fraction_cases [of fp] by blast
qed

text \<open>
  Removing the terminal colours of a text leaves exactly its plain pieces, in
  their order.
\<close>

lemma strip_ansi_keeps_text:
  assumes "list_all well_formed_piece ps" "concat (map piece_text ps) \<noteq> []"
  shows "stripAnsiChars (concat (map piece_text ps)) = Some (concat (map piece_plain ps))"
  using assms by (simp add: stripAnsiChars_def strip_ansi_pieces)

text \<open>
  An address is shortened to its first five and last seven characters (fifteen
  in all, and two more in parentheses), and any other text is shown as it is.
\<close>

lemma formatAddress_shape:
  "formatAddress s w = (if checkValidAddress s
     then (if w then ''('' else []) @ take 5 s @ ''...'' @ drop 36 s @ (if w then '')'' else [])
     else s) \<and>
   (checkValidAddress s \<longrightarrow> length (formatAddress s w) = (if w then 17 else 15))"
  by (auto simp: formatAddress_def checkValidAddress_def substring_def)

lemma formatAddress_shape_witness:
  "length (formatAddress (replicate 43 CHR ''a'') True) = 17"
  using formatAddress_shape [of "replicate 43 CHR ''a''" True]
  by (simp add: checkValidAddress_def is_address_char_def is_alpha_def list_all_iff)

end
