(* ===== verification/Explorer.thy ===== *)
theory Explorer
  imports Format
begin

text \<open>
  The explorer's tab bar: the component \<open>Explorer\<close> of \<open>bundle.js\<close> (line 10174) as a
  state machine. Its state is what the component keeps in \<open>useState\<close>, its events are
  the callbacks and effects React runs: the location effect, a request that reports
  its path (\<open>H1t\<close>), a click on a tab (\<open>G1t\<close>), a new tab (\<open>V1t\<close>), the close button
  of a tab (\<open>ept\<close>), clearing (\<open>X1t\<close>) and the time-outs. Every \<open>navigate\<close> the handlers
  make is recorded; the router answers it with a location event of its own.
  Tab ids made from the clock are arguments of the events.
\<close>

section \<open>The path of a location\<close>

text \<open>
  \<open>extractDetailsFromPath\<close>: the second segment is the path, the rest the sub-path;
  empty segments and a fragment (up to the end of its line) are dropped.
\<close>

definition strip_fragment :: "string \<Rightarrow> string" where
  "strip_fragment s = takeWhile (\<lambda>c. c \<noteq> CHR ''#'') s
     @ dropWhile (\<lambda>c. \<not> line_end c) (dropWhile (\<lambda>c. c \<noteq> CHR ''#'') s)"

definition path_segments :: "string \<Rightarrow> string list" where
  "path_segments s = filter (\<lambda>w. w \<noteq> []) (split_on CHR ''/'' (strip_fragment s))"

definition extractDetailsFromPath :: "string \<Rightarrow> string \<times> string" where
  "extractDetailsFromPath s = (let segs = path_segments s;
       p = (if length segs > 1 then segs ! 1 else []);
       rest = join ''/'' (drop 2 segs)
     in (p, if rest = [] then [] else CHR ''/'' # rest))"

section \<open>State\<close>

text \<open>A field that is \<open>null\<close> or absent is \<^const>\<open>None\<close>.\<close>

record tab =
  tid :: string
  kind :: "string option"
  variant :: "string option"
  basePath :: "string option"
  path :: "string option"
  label :: string
  tabId :: string

record explorer =
  tabs :: "tab list"
  active :: nat
  clear_modal :: bool
  busy :: bool
  mounted :: bool
  skip_effect :: bool
  navigated :: "string list"

definition explorer_url :: string where
  "explorer_url = ''/explorer/''"

definition Mainnet :: string where
  "Mainnet = ''ao.N.1''"

text \<open>The three blank tabs: at first, from the new-tab button, and after a reset.\<close>

definition blank_tab :: "string \<Rightarrow> tab" where
  "blank_tab k = \<lparr>tid = [], kind = None, variant = None, basePath = None, path = None,
     label = [], tabId = k\<rparr>"

definition cleared_tab :: "string \<Rightarrow> tab" where
  "cleared_tab k = \<lparr>tid = [], kind = None, variant = None, basePath = Some [], path = Some [],
     label = [], tabId = k\<rparr>"

definition location_tab :: "string \<Rightarrow> string \<Rightarrow> string \<Rightarrow> tab" where
  "location_tab p sub k = \<lparr>tid = p, kind = Some ''path'', variant = Some Mainnet,
     basePath = Some (p @ sub), path = Some (p @ sub), label = p, tabId = k\<rparr>"

definition text_of :: "string option \<Rightarrow> string" where
  "text_of v = (case v of None \<Rightarrow> ''undefined'' | Some s \<Rightarrow> s)"

definition shows_location :: "string \<Rightarrow> string \<Rightarrow> tab \<Rightarrow> bool" where
  "shows_location p sub t = (if kind t = Some ''process'' then tid t = p
     else path t = Some (p @ sub))"

definition initial_tabs :: "tab list option \<Rightarrow> string \<Rightarrow> tab list" where
  "initial_tabs stored k = (case stored of
       Some ts \<Rightarrow> if length ts > 0 then ts else [blank_tab k]
     | None \<Rightarrow> [blank_tab k])"

definition initial_explorer :: "tab list option \<Rightarrow> string \<Rightarrow> string \<Rightarrow> explorer" where
  "initial_explorer stored pathname k = (let ts = initial_tabs stored k;
       (p, sub) = extractDetailsFromPath pathname
     in \<lparr>tabs = ts,
         active = (if p \<noteq> [] then (case find_index (shows_location p sub) ts of
                     Some i \<Rightarrow> i | None \<Rightarrow> 0) else 0),
         clear_modal = False, busy = False, mounted = False, skip_effect = False,
         navigated = []\<rparr>)"

section \<open>Handlers\<close>

definition navigate :: "string \<Rightarrow> explorer \<Rightarrow> explorer" where
  "navigate target s = s\<lparr>navigated := navigated s @ [target]\<rparr>"

text \<open>The effect on \<open>[location.pathname, mounted]\<close>.\<close>

definition open_location :: "string \<Rightarrow> string \<Rightarrow> string \<Rightarrow> explorer \<Rightarrow> explorer" where
  "open_location p sub k s =
     navigate (explorer_url @ p @ sub)
       (if length (tabs s) = 1 \<and> tid (tabs s ! 0) = [] then
          s\<lparr>tabs := (tabs s)[0 := location_tab p sub k], active := 0\<rparr>
        else s\<lparr>tabs := tabs s @ [location_tab p sub k], active := length (tabs s)\<rparr>)"

definition update_location :: "nat \<Rightarrow> string \<Rightarrow> string \<Rightarrow> explorer \<Rightarrow> explorer" where
  "update_location i p sub s = (let t = tabs s ! i; full = p @ sub;
       changed = (path t \<noteq> Some full \<or> basePath t \<noteq> Some p);
       inner = (Some full \<noteq> basePath t);
       s1 = (if changed \<and> inner
             then s\<lparr>tabs := (tabs s)[i := t\<lparr>basePath := Some p, path := Some full\<rparr>]\<rparr> else s)
     in if mounted s1 \<and> active s1 \<noteq> i then s1\<lparr>active := i\<rparr> else s1)"

definition on_location :: "string \<Rightarrow> string \<Rightarrow> explorer \<Rightarrow> explorer" where
  "on_location pathname k s =
     (if skip_effect s then s\<lparr>skip_effect := False\<rparr>
      else let (p, sub) = extractDetailsFromPath pathname in
        if p \<noteq> [] then
          (case find_index (shows_location p sub) (tabs s) of
             Some i \<Rightarrow> update_location i p sub s
           | None \<Rightarrow> if mounted s then open_location p sub k s else s)
        else if mounted s \<and> length (tabs s) > 0 \<and> tid (tabs s ! 0) \<noteq> []
             \<and> path (tabs s ! 0) \<noteq> None \<and> path (tabs s ! 0) \<noteq> Some []
          then navigate (explorer_url @ text_of (path (tabs s ! 0))) s
        else s)"

text \<open>\<open>H1t\<close>: the request of tab \<open>i\<close> reports what it found.\<close>

definition on_path_change :: "nat \<Rightarrow> tab \<Rightarrow> explorer \<Rightarrow> explorer" where
  "on_path_change i info s = (if busy s then s else
     navigate (explorer_url @ text_of (path info))
       (s\<lparr>skip_effect := True,
          tabs := (if i < length (tabs s)
            then (tabs s)[i := info\<lparr>tabId := (if tabId (tabs s ! i) \<noteq> [] then tabId (tabs s ! i)
                                              else tabId info)\<rparr>]
            else tabs s @ [info])\<rparr>))"

text \<open>\<open>G1t\<close>\<close>

definition on_click :: "nat \<Rightarrow> explorer \<Rightarrow> explorer" where
  "on_click i s = (let s1 = s\<lparr>active := i\<rparr>; t = tabs s ! i in
     if tid t = [] then s1
     else if path t \<noteq> None \<and> path t \<noteq> Some [] \<and> path t \<noteq> Some (tid t)
       then navigate (explorer_url @ text_of (path t)) s1
     else navigate (explorer_url @ tid t) s1)"

text \<open>\<open>V1t\<close>\<close>

definition on_new_tab :: "string \<Rightarrow> explorer \<Rightarrow> explorer" where
  "on_new_tab k s = s\<lparr>busy := True, tabs := tabs s @ [blank_tab k], active := length (tabs s)\<rparr>"

text \<open>\<open>X1t\<close>\<close>

definition on_clear :: "string \<Rightarrow> explorer \<Rightarrow> explorer" where
  "on_clear k s = navigate explorer_url
     (s\<lparr>busy := True, tabs := [cleared_tab k], active := 0, clear_modal := False\<rparr>)"

text \<open>\<open>ept\<close>\<close>

definition next_active :: "nat \<Rightarrow> nat \<Rightarrow> nat \<Rightarrow> nat" where
  "next_active i a n = (if i < a then a - 1
     else if i = a then (if n > i then i else n - 1) else a)"

definition on_close :: "nat \<Rightarrow> string \<Rightarrow> explorer \<Rightarrow> explorer" where
  "on_close i k s = (let rest = remove_at i (tabs s);
       a = next_active i (active s) (length rest);
       s1 = s\<lparr>busy := True, tabs := (if rest \<noteq> [] then rest else [cleared_tab k]), active := a\<rparr>
     in if rest \<noteq> [] then
          navigate (explorer_url @ (if a < length rest
             then (case path (rest ! a) of None \<Rightarrow> [] | Some x \<Rightarrow> x) else [])) s1
        else on_clear k s1)"

lemmas handler_defs [machine_defs] =
  navigate_def open_location_def update_location_def on_location_def on_path_change_def
  on_click_def on_new_tab_def on_clear_def on_close_def

section \<open>The machine\<close>

datatype event =
    Mount
  | Location string string
  | PathChange nat tab
  | ClickTab nat
  | NewTabClick string
  | CloseTab nat string
  | AskClear
  | CancelClear
  | ConfirmClear string
  | BusyTimeout

fun explorer_step :: "explorer \<Rightarrow> event \<Rightarrow> explorer" where
  "explorer_step s Mount = s\<lparr>mounted := True\<rparr>"
| "explorer_step s (Location pn k) = on_location pn k s"
| "explorer_step s (PathChange i info) = on_path_change i info s"
| "explorer_step s (ClickTab i) = on_click i s"
| "explorer_step s (NewTabClick k) = on_new_tab k s"
| "explorer_step s (CloseTab i k) = on_close i k s"
| "explorer_step s AskClear = s\<lparr>clear_modal := True\<rparr>"
| "explorer_step s CancelClear = s\<lparr>clear_modal := False\<rparr>"
| "explorer_step s (ConfirmClear k) = on_clear k s"
| "explorer_step s BusyTimeout = s\<lparr>busy := False\<rparr>"

text \<open>A click can only hit a tab that is shown, and the modal's button needs the modal.\<close>

fun explorer_ok :: "explorer \<Rightarrow> event \<Rightarrow> bool" where
  "explorer_ok s (ClickTab i) = (i < length (tabs s))"
| "explorer_ok s (CloseTab i k) = (i < length (tabs s))"
| "explorer_ok s (ConfirmClear k) = clear_modal s"
| "explorer_ok s CancelClear = clear_modal s"
| "explorer_ok s _ = True"

definition explorer_inv :: "explorer \<Rightarrow> bool" where
  "explorer_inv s \<longleftrightarrow> tabs s \<noteq> [] \<and> active s < length (tabs s)"

lemma length_tabs_navigate [simp]: "tabs (navigate t s) = tabs s" "active (navigate t s) = active s"
  "mounted (navigate t s) = mounted s" "skip_effect (navigate t s) = skip_effect s"
  "busy (navigate t s) = busy s" "navigated (navigate t s) = navigated s @ [t]"
  by (simp_all add: navigate_def)

lemma find_index_less: "find_index p xs = Some i \<Longrightarrow> i < length xs"
  using find_index_Some by blast

lemma next_active_less:
  "i < Suc n \<Longrightarrow> a < Suc n \<Longrightarrow> n > 0 \<Longrightarrow> next_active i a n < n"
  by (auto simp: next_active_def)

lemma explorer_inv_location: "explorer_inv s \<Longrightarrow> explorer_inv (on_location pn k s)"
  by (auto simp: explorer_inv_def on_location_def update_location_def open_location_def Let_def
      dest: find_index_less split: prod.splits option.splits)

lemma explorer_inv_close:
  assumes "explorer_inv s" "i < length (tabs s)"
  shows "explorer_inv (on_close i k s)"
proof (cases "remove_at i (tabs s) = []")
  case True
  then show ?thesis by (simp add: on_close_def on_clear_def Let_def explorer_inv_def)
next
  case False
  then have "length (remove_at i (tabs s)) > 0" by blast
  then have "next_active i (active s) (length (remove_at i (tabs s)))
      < length (remove_at i (tabs s))"
    using assms by (intro next_active_less) (auto simp: length_remove_at explorer_inv_def)
  with False show ?thesis by (simp add: on_close_def Let_def explorer_inv_def)
qed

interpretation tabbar: machine explorer_step explorer_ok explorer_inv
proof unfold_locales
  fix s e assume "explorer_inv s" "explorer_ok s e"
  then show "explorer_inv (explorer_step s e)"
    by (cases e) (auto simp: explorer_inv_location explorer_inv_close,
        auto simp: explorer_inv_def on_path_change_def on_click_def on_new_tab_def on_clear_def
          Let_def)
qed

lemma explorer_inv_initial: "explorer_inv (initial_explorer stored pn k)"
  by (auto simp: explorer_inv_def initial_explorer_def initial_tabs_def Let_def
      dest: find_index_less split: prod.splits option.splits)

section \<open>Lemmas on the location effect\<close>

lemma find_index_update:
  "find_index P xs = Some i \<Longrightarrow> P y \<Longrightarrow> find_index P (xs[i := y]) = Some i"
proof (induction xs arbitrary: i)
  case (Cons x xs)
  then show ?case by (cases i) (auto split: if_splits)
qed simp

lemma find_index_append_new:
  "find_index P xs = None \<Longrightarrow> P y \<Longrightarrow> find_index P (xs @ [y]) = Some (length xs)"
  by (induction xs) (auto split: if_splits)

lemma shows_location_tab [simp]: "shows_location p sub (location_tab p sub k)"
  by (simp add: shows_location_def location_tab_def)

text \<open>
  A tab is settled on a location when it is the first that shows it, it is the
  active one, and the effect has nothing to update in it.
\<close>

definition settled :: "string \<Rightarrow> string \<Rightarrow> explorer \<Rightarrow> bool" where
  "settled p sub s \<longleftrightarrow> find_index (shows_location p sub) (tabs s) = Some (active s) \<and>
     (path (tabs s ! active s) = Some (p @ sub) \<and> basePath (tabs s ! active s) = Some p
      \<or> basePath (tabs s ! active s) = Some (p @ sub))"

lemma settled_fixpoint:
  assumes "settled p sub s" "\<not> skip_effect s" "p \<noteq> []" "extractDetailsFromPath pn = (p, sub)"
  shows "on_location pn k s = s"
  using assms by (auto simp: settled_def on_location_def update_location_def Let_def)

lemma update_location_settled:
  assumes "find_index (shows_location p sub) (tabs s) = Some i" "mounted s"
  shows "settled p sub (update_location i p sub s)"
proof -
  let ?t = "tabs s ! i"
  have i: "i < length (tabs s)" "shows_location p sub ?t"
    using find_index_Some [OF assms(1)] by auto
  have "shows_location p sub (?t\<lparr>basePath := Some p, path := Some (p @ sub)\<rparr>)"
    using i(2) by (auto simp: shows_location_def split: if_splits)
  note upd = find_index_update [OF assms(1) this]
  show ?thesis
    using assms i upd by (auto simp: settled_def update_location_def Let_def)
qed

lemma open_location_settled:
  assumes "find_index (shows_location p sub) (tabs s) = None"
  shows "settled p sub (open_location p sub k s)"
proof (cases "length (tabs s) = 1 \<and> tid (tabs s ! 0) = []")
  case True
  then obtain t where "tabs s = [t]" by (auto simp: length_Suc_conv)
  with True show ?thesis by (simp add: settled_def open_location_def) (simp add: location_tab_def)
next
  case False
  then have "tabs (open_location p sub k s) = tabs s @ [location_tab p sub k]"
    "active (open_location p sub k s) = length (tabs s)"
    by (auto simp: open_location_def)
  then show ?thesis
    using find_index_append_new [OF assms, of "location_tab p sub k"]
    by (simp add: settled_def) (simp add: location_tab_def)
qed

lemma on_location_skip [simp]:
  "skip_effect (update_location i p sub s) = skip_effect s"
  "skip_effect (open_location p sub k s) = skip_effect s"
  "mounted (update_location i p sub s) = mounted s"
  "mounted (open_location p sub k s) = mounted s"
  by (auto simp: update_location_def open_location_def Let_def)

lemma on_location_settled:
  assumes "mounted s" "\<not> skip_effect s" "extractDetailsFromPath pn = (p, sub)" "p \<noteq> []"
  shows "settled p sub (on_location pn k s)" "\<not> skip_effect (on_location pn k s)"
  using assms by (auto simp: on_location_def update_location_settled open_location_settled
      split: option.splits)

subsection \<open>Paths\<close>

lemma strip_fragment_plain: "\<not> list_ex line_end s \<Longrightarrow> strip_fragment s = takeWhile (\<lambda>c. c \<noteq> CHR ''#'') s"
  by (auto simp: strip_fragment_def list_ex_iff dropWhile_eq_Nil_conv dest: set_dropWhileD)

lemma path_segments_no_sep:
  "w \<in> set (path_segments s) \<Longrightarrow> w \<noteq> [] \<and> CHR ''/'' \<notin> set w"
  by (auto simp: path_segments_def split_on_parts_no_sep)

lemma path_segments_chars:
  assumes "\<not> list_ex line_end s" "w \<in> set (path_segments s)"
  shows "\<not> list_ex line_end w" "CHR ''#'' \<notin> set w"
proof -
  have "set w \<subseteq> set (takeWhile (\<lambda>c. c \<noteq> CHR ''#'') s)"
    using assms set_split_on by (auto simp: path_segments_def strip_fragment_plain)
  then show "\<not> list_ex line_end w" "CHR ''#'' \<notin> set w"
    using assms(1) by (auto simp: list_ex_iff dest: set_takeWhileD)
qed

lemma strip_fragment_id: "CHR ''#'' \<notin> set s \<Longrightarrow> strip_fragment s = s"
proof -
  assume a: "CHR ''#'' \<notin> set s"
  have "takeWhile (\<lambda>c. c \<noteq> CHR ''#'') s = s" unfolding takeWhile_eq_all_conv using a by metis
  moreover have "dropWhile (\<lambda>c. c \<noteq> CHR ''#'') s = []" unfolding dropWhile_eq_Nil_conv using a by metis
  ultimately show ?thesis by (simp only: strip_fragment_def dropWhile.simps append_Nil2)
qed

lemma extract_explorer_url:
  assumes "ws \<noteq> []" "\<And>w. w \<in> set ws \<Longrightarrow> w \<noteq> [] \<and> CHR ''/'' \<notin> set w \<and> CHR ''#'' \<notin> set w"
  shows "path_segments (explorer_url @ join ''/'' ws) = ''explorer'' # ws"
proof -
  have "CHR ''#'' \<notin> set (explorer_url @ join ''/'' ws)"
    using assms(2) by (auto simp: explorer_url_def dest!: set_join_subset)
  from strip_fragment_id [OF this] have "path_segments (explorer_url @ join ''/'' ws)
      = filter (\<lambda>w. w \<noteq> []) (split_on CHR ''/'' (explorer_url @ join ''/'' ws))"
    by (simp only: path_segments_def)
  also have "\<dots> = filter (\<lambda>w. w \<noteq> []) (split_on CHR ''/'' (''/explorer'' @ CHR ''/'' # join ''/'' ws))"
    by (simp add: explorer_url_def)
  also have "\<dots> = ''explorer'' # filter (\<lambda>w. w \<noteq> []) ws"
    using assms by (subst split_on_append_sep) (simp add: split_on_join)
  also have "filter (\<lambda>w. w \<noteq> []) ws = ws" using assms(2) by (simp add: filter_id_conv)
  finally show ?thesis .
qed

lemma extract_details_of_segments:
  "path_segments s = a # p # rest \<Longrightarrow> extractDetailsFromPath s =
     (p, if join ''/'' rest = [] then [] else CHR ''/'' # join ''/'' rest)"
  by (simp add: extractDetailsFromPath_def Let_def)

lemma join_eq_Nil: "(\<And>w. w \<in> set ws \<Longrightarrow> w \<noteq> []) \<Longrightarrow> join sep ws = [] \<longleftrightarrow> ws = []"
  by (cases ws; cases "tl ws") auto

lemma extract_details_cases:
  assumes "extractDetailsFromPath s = (p, sub)" "p \<noteq> []"
  obtains a rest where "path_segments s = a # p # rest" "p @ sub = join ''/'' (p # rest)"
proof -
  let ?g = "path_segments s"
  have "length ?g > 1" using assms by (auto simp: extractDetailsFromPath_def Let_def split: if_splits)
  then obtain a q rest where g: "?g = a # q # rest"
    by (cases ?g; cases "tl ?g") auto
  have "join ''/'' rest = [] \<longleftrightarrow> rest = []"
    using path_segments_no_sep [of _ s] g by (intro join_eq_Nil) auto
  then show ?thesis
    using that g extract_details_of_segments [OF g] assms by (auto simp: join_Cons)
qed

lemma extract_details_clean_segments:
  assumes "extractDetailsFromPath s = (p, sub)" "p \<noteq> []"
    and "\<And>w. w \<in> set (path_segments s) \<Longrightarrow> CHR ''#'' \<notin> set w"
  shows "extractDetailsFromPath (explorer_url @ p @ sub) = (p, sub)"
proof -
  obtain a rest where g: "path_segments s = a # p # rest" "p @ sub = join ''/'' (p # rest)"
    using extract_details_cases assms(1,2) by metis
  have "path_segments (explorer_url @ p @ sub) = ''explorer'' # p # rest"
    unfolding g(2) using path_segments_no_sep [of _ s] assms(3) g(1)
    by (intro extract_explorer_url) auto
  from extract_details_of_segments [OF this] extract_details_of_segments [OF g(1)] assms(1)
  show ?thesis by simp
qed

lemma extract_details_explorer_url:
  assumes "extractDetailsFromPath s = (p, sub)" "p \<noteq> []" "\<not> list_ex line_end s"
  shows "extractDetailsFromPath (explorer_url @ p @ sub) = (p, sub)"
  using extract_details_clean_segments [OF assms(1,2)] path_segments_chars [OF assms(3)] by blast

section \<open>Properties\<close>

text \<open>
  Whatever sequence of clicks, requests, location changes and time-outs the
  explorer receives from its first state, with any tabs stored by an earlier
  visit, there is at least one tab and the active index is that of a tab.
\<close>

theorem explorer_always_valid:
  assumes "permitted explorer_ok explorer_step (initial_explorer stored pn k) es"
  shows "tabs (foldl explorer_step (initial_explorer stored pn k) es) \<noteq> [] \<and>
    active (foldl explorer_step (initial_explorer stored pn k) es)
      < length (tabs (foldl explorer_step (initial_explorer stored pn k) es))"
  using tabbar.inv_run [OF explorer_inv_initial assms] by (simp add: explorer_inv_def)

lemma explorer_always_valid_witness:
  "active (foldl explorer_step (initial_explorer None ''/explorer'' ''a'')
     [Mount, NewTabClick ''b'', ClickTab 0, CloseTab 0 ''c'', CloseTab 0 ''d'']) < 1"
  using explorer_always_valid [of None "''/explorer''" "''a''"
      "[Mount, NewTabClick ''b'', ClickTab 0, CloseTab 0 ''c'', CloseTab 0 ''d'']"]
  by (simp add: initial_explorer_def initial_tabs_def machine_defs extractDetailsFromPath_def
      path_segments_def strip_fragment_def Let_def remove_at_def next_active_def blank_tab_def
      cleared_tab_def)

text \<open>
  Closing a tab other than the active one keeps the same tab active; closing the
  active one activates its right neighbour, or the left one when there is none; the
  other tabs keep their order, and closing the only tab leaves one empty tab.
\<close>

theorem close_tab_activates:
  fixes k
  assumes "explorer_inv s" "i < length (tabs s)"
  defines "s' \<equiv> on_close i k s"
  shows "if length (tabs s) = 1 then tabs s' = [cleared_tab k] \<and> active s' = 0
    else tabs s' = remove_at i (tabs s) \<and>
      tabs s' ! active s' =
        (if i \<noteq> active s then tabs s ! active s
         else if Suc i < length (tabs s) then tabs s ! Suc i else tabs s ! (i - 1))"
proof (cases "length (tabs s) = 1")
  case True
  then have "remove_at i (tabs s) = []" using assms by (simp add: remove_at_def)
  with True show ?thesis by (simp add: s'_def on_close_def on_clear_def Let_def)
next
  case False
  have len: "length (remove_at i (tabs s)) = length (tabs s) - 1"
    using assms by (simp add: length_remove_at)
  moreover have "length (tabs s) > 1" using False assms by linarith
  ultimately have ne: "remove_at i (tabs s) \<noteq> []" by force
  have a: "active s < length (tabs s)" using assms by (simp add: explorer_inv_def)
  have last: "length (tabs s) - Suc (Suc 0) = active s - Suc 0"
    if "\<not> Suc (active s) < length (tabs s)" using that a by linarith
  have "remove_at i (tabs s) ! next_active i (active s) (length (remove_at i (tabs s))) =
      (if i \<noteq> active s then tabs s ! active s
       else if Suc i < length (tabs s) then tabs s ! Suc i else tabs s ! (i - 1))"
    using a assms(2) False len
    by (auto simp: next_active_def nth_remove_at_less nth_remove_at_ge last)
  with False ne show ?thesis by (simp add: s'_def on_close_def Let_def)
qed

lemma close_tab_activates_witness:
  "tabs (on_close 0 ''k'' (on_new_tab ''b'' (initial_explorer None [] ''a''))) = [blank_tab ''b'']"
  using close_tab_activates [of "on_new_tab ''b'' (initial_explorer None [] ''a'')" 0 "''k''"]
  by (simp add: explorer_inv_def on_new_tab_def initial_explorer_def initial_tabs_def
      extractDetailsFromPath_def path_segments_def strip_fragment_def Let_def remove_at_def)

text \<open>
  The location effect opens the location and settles at once: after it the
  active tab is the first that shows the location, and running the effect again,
  for the same location or for the one the effect itself navigates to, changes
  nothing (so the effect and the router cannot chase each other).
\<close>

theorem location_effect_settles:
  fixes k
  assumes "mounted s" "\<not> skip_effect s" "\<not> list_ex line_end pn"
    and "extractDetailsFromPath pn = (p, sub)" "p \<noteq> []"
  defines "s' \<equiv> on_location pn k s"
  shows "find_index (shows_location p sub) (tabs s') = Some (active s') \<and>
    on_location pn k' s' = s' \<and> on_location (explorer_url @ p @ sub) k' s' = s'"
  using on_location_settled [OF assms(1,2,4,5), of k]
    settled_fixpoint [OF _ _ assms(5) assms(4)]
    settled_fixpoint [OF _ _ assms(5) extract_details_explorer_url [OF assms(4,5,3)]]
  by (auto simp: s'_def settled_def)

lemma location_effect_settles_witness:
  "(let s = (initial_explorer None [] ''a'')\<lparr>mounted := True\<rparr>;
        s' = on_location ''/explorer/abc/now'' ''k'' s
    in on_location ''/explorer/abc/now'' ''l'' s' = s' \<and> active s' = 0)"
  using location_effect_settles [of "(initial_explorer None [] ''a'')\<lparr>mounted := True\<rparr>"
      "''/explorer/abc/now''" "''abc''" "''/now''" "''k''" "''l''"]
  by (simp add: initial_explorer_def initial_tabs_def extractDetailsFromPath_def path_segments_def
      strip_fragment_def line_end_def on_location_def open_location_def update_location_def
      shows_location_def location_tab_def blank_tab_def Let_def navigate_def)

text \<open>
  C21. The address the explorer builds for a location names the same location: the
  path and sub-path read back from it are those it was built from.
\<close>

theorem explorer_url_roundtrip:
  assumes "\<not> list_ex line_end s" "fst (extractDetailsFromPath s) \<noteq> []"
  shows "extractDetailsFromPath
      (explorer_url @ fst (extractDetailsFromPath s) @ snd (extractDetailsFromPath s))
    = extractDetailsFromPath s"
  using extract_details_explorer_url [of s] assms by (cases "extractDetailsFromPath s") auto

lemma explorer_url_roundtrip_witness:
  "extractDetailsFromPath (explorer_url @ ''abc'' @ ''/now/x'') = (''abc'', ''/now/x'')"
  using explorer_url_roundtrip [of "''//explorer//abc/now//x/#top''"]
  by (simp add: extractDetailsFromPath_def path_segments_def strip_fragment_def line_end_def Let_def)

text \<open>
  Reloading the page at the location the effect has settled on restores the
  session: the stored tabs are the tabs, and the active tab is the same one.
\<close>

theorem reload_restores:
  fixes k
  assumes "mounted s" "\<not> skip_effect s"
    and "extractDetailsFromPath pn = (p, sub)" "p \<noteq> []"
  defines "s' \<equiv> on_location pn k s"
  shows "tabs (initial_explorer (Some (tabs s')) pn k') = tabs s' \<and>
    active (initial_explorer (Some (tabs s')) pn k') = active s'"
proof -
  have "find_index (shows_location p sub) (tabs s') = Some (active s')"
    using on_location_settled(1) [OF assms(1-4), of k] by (simp add: s'_def settled_def)
  moreover from this have "tabs s' \<noteq> []" by force
  ultimately show ?thesis
    using assms(3,4) by (simp add: initial_explorer_def initial_tabs_def Let_def)
qed

lemma reload_restores_witness:
  "active (initial_explorer (Some (tabs (on_location ''/explorer/abc'' ''k''
     \<lparr>tabs = [blank_tab ''a'', blank_tab ''b''], active = 0, clear_modal = False, busy = False,
       mounted = True, skip_effect = False, navigated = []\<rparr>))) ''/explorer/abc'' ''l'') = 2"
  using reload_restores [of "\<lparr>tabs = [blank_tab ''a'', blank_tab ''b''], active = 0,
       clear_modal = False, busy = False, mounted = True, skip_effect = False, navigated = []\<rparr>"
      "''/explorer/abc''" "''abc''" "[]" "''k''" "''l''"]
  by (simp add: extractDetailsFromPath_def path_segments_def strip_fragment_def Let_def
      on_location_def open_location_def shows_location_def location_tab_def blank_tab_def)

text \<open>
  A second tab on the same location cannot be brought to the front by a click
  made at another location: the click activates it, and the location effect that the
  navigation of the click causes goes back to the first tab that shows the location.
\<close>

theorem duplicate_tab_loses_click:
  assumes "mounted s" "\<not> skip_effect s" "\<not> list_ex line_end pn"
    and "extractDetailsFromPath pn = (p, sub)" "p \<noteq> []"
    and "j < i" "i < length (tabs s)" "shows_location p sub (tabs s ! j)"
    and "tabs s ! i = location_tab p sub k"
  shows "active (explorer_step s (ClickTab i)) = i \<and>
    active (foldl explorer_step s [ClickTab i, Location (explorer_url @ p @ sub) k']) \<le> j"
proof -
  let ?c = "on_click i s"
  have c: "tabs ?c = tabs s" "mounted ?c" "\<not> skip_effect ?c" "active ?c = i"
    using assms by (auto simp: on_click_def Let_def)
  obtain m where m: "m \<le> j" "find_index (shows_location p sub) (tabs s) = Some m"
    using find_index_least [of j "tabs s" "shows_location p sub"] assms by auto
  have e: "extractDetailsFromPath (explorer_url @ p @ sub) = (p, sub)"
    using extract_details_explorer_url assms by blast
  show ?thesis
    using c m e assms(5,6) by (auto simp: on_location_def update_location_def Let_def)
qed

lemma duplicate_tab_loses_click_witness:
  "active (foldl explorer_step \<lparr>tabs = [location_tab ''abc'' [] ''k'', location_tab ''abc'' [] ''l''],
       active = 0, clear_modal = False, busy = False, mounted = True, skip_effect = False,
       navigated = []\<rparr> [ClickTab 1, Location (explorer_url @ ''abc'') ''m'']) \<le> 0"
  using duplicate_tab_loses_click [of "\<lparr>tabs = [location_tab ''abc'' [] ''k'',
       location_tab ''abc'' [] ''l''], active = 0, clear_modal = False, busy = False,
       mounted = True, skip_effect = False, navigated = []\<rparr>" "''/explorer/abc''" "''abc''" "[]"
      0 1 "''l''" "''m''"]
  by (simp add: extractDetailsFromPath_def path_segments_def strip_fragment_def line_end_def Let_def
      del: foldl_Cons)

text \<open>
  A request that reports its path changes only its own tab, which keeps its
  identity, does not move the active index, and the location change it causes is
  absorbed whatever the location is; while the bar is busy the report is dropped.
\<close>

theorem path_report_is_local:
  assumes "i < length (tabs s)"
  shows "if busy s then explorer_step s (PathChange i info) = s
    else (let s' = foldl explorer_step s [PathChange i info, Location pn k] in
      active s' = active s \<and> \<not> skip_effect s' \<and> length (tabs s') = length (tabs s) \<and>
      (\<forall>j. j \<noteq> i \<longrightarrow> tabs s' ! j = tabs s ! j) \<and>
      path (tabs s' ! i) = path info \<and>
      (tabId (tabs s ! i) \<noteq> [] \<longrightarrow> tabId (tabs s' ! i) = tabId (tabs s ! i)))"
  using assms by (auto simp: on_path_change_def on_location_def Let_def navigate_def)

lemma path_report_is_local_witness:
  "tabId (tabs (foldl explorer_step (initial_explorer None [] ''a'')
     [PathChange 0 (location_tab ''p'' [] ''b''), Location [] ''c'']) ! 0) = ''a''"
  using path_report_is_local [of 0 "initial_explorer None [] ''a''" "location_tab ''p'' [] ''b''"
      "[]" "''c''"]
  by (simp add: initial_explorer_def initial_tabs_def extractDetailsFromPath_def path_segments_def
      strip_fragment_def Let_def blank_tab_def)

end
