(* ===== verification/Autocomplete.thy ===== *)
theory Autocomplete
  imports JS_Prelude "HOL-Library.Char_ord" "HOL-Library.List_Lexorder"
begin

text \<open>
  Device names and their completion in the explorer's input: the device list
  (of \<open>fetchDeviceNames\<close>, \<open>getDeviceNameListSync\<close>, \<open>searchDeviceNamesSync\<close>, line 486 of
  \<open>bundle.js\<close>) and the hook \<open>useDeviceAutocomplete\<close> (line 871) as a state machine
  over the keys, the typed text and the mouse. The hook's caller keeps the text and
  the cursor; the effect that searches runs when one of them changes.
\<close>

section \<open>Devices\<close>

text \<open>The module of a device: a text, something else, or missing; no code looks at it.\<close>

datatype device_module = ModuleText string | OtherModule | NoModule

record device =
  module :: device_module
  dev_name :: string

definition FALLBACK_DEVICE_NAMES :: "(string \<times> device) list" where
  "FALLBACK_DEVICE_NAMES = [
    (''1'', \<lparr>module = ModuleText ''dev_apply'', dev_name = ''~apply@1.0''\<rparr>),
    (''2'', \<lparr>module = ModuleText ''dev_codec_ans104'', dev_name = ''~ans104@1.0''\<rparr>),
    (''3'', \<lparr>module = ModuleText ''dev_cu'', dev_name = ''~compute@1.0''\<rparr>),
    (''4'', \<lparr>module = ModuleText ''dev_cache'', dev_name = ''~cache@1.0''\<rparr>),
    (''5'', \<lparr>module = ModuleText ''dev_cacheviz'', dev_name = ''~cacheviz@1.0''\<rparr>),
    (''6'', \<lparr>module = ModuleText ''dev_cron'', dev_name = ''~cron@1.0''\<rparr>),
    (''7'', \<lparr>module = ModuleText ''dev_dedup'', dev_name = ''~dedup@1.0''\<rparr>),
    (''8'', \<lparr>module = ModuleText ''dev_delegated_compute'', dev_name = ''~delegated-compute@1.0''\<rparr>),
    (''9'', \<lparr>module = ModuleText ''dev_faff'', dev_name = ''~faff@1.0''\<rparr>),
    (''10'', \<lparr>module = ModuleText ''dev_codec_flat'', dev_name = ''~flat@1.0''\<rparr>),
    (''11'', \<lparr>module = ModuleText ''dev_genesis_wasm'', dev_name = ''~genesis-wasm@1.0''\<rparr>),
    (''12'', \<lparr>module = ModuleText ''dev_green_zone'', dev_name = ''~greenzone@1.0''\<rparr>),
    (''13'', \<lparr>module = ModuleText ''dev_codec_httpsig'', dev_name = ''~httpsig@1.0''\<rparr>),
    (''14'', \<lparr>module = ModuleText ''dev_hyperbuddy'', dev_name = ''~hyperbuddy@1.0''\<rparr>),
    (''15'', \<lparr>module = ModuleText ''dev_codec_json'', dev_name = ''~json@1.0''\<rparr>),
    (''16'', \<lparr>module = ModuleText ''dev_json_iface'', dev_name = ''~json-iface@1.0''\<rparr>),
    (''17'', \<lparr>module = ModuleText ''dev_local_name'', dev_name = ''~local-name@1.0''\<rparr>),
    (''18'', \<lparr>module = ModuleText ''dev_lookup'', dev_name = ''~lookup@1.0''\<rparr>),
    (''19'', \<lparr>module = ModuleText ''dev_lua'', dev_name = ''~lua@5.3a''\<rparr>),
    (''20'', \<lparr>module = ModuleText ''dev_manifest'', dev_name = ''~manifest@1.0''\<rparr>),
    (''21'', \<lparr>module = ModuleText ''dev_message'', dev_name = ''~message@1.0''\<rparr>),
    (''22'', \<lparr>module = ModuleText ''dev_meta'', dev_name = ''~meta@1.0''\<rparr>),
    (''23'', \<lparr>module = ModuleText ''dev_monitor'', dev_name = ''~monitor@1.0''\<rparr>),
    (''24'', \<lparr>module = ModuleText ''dev_multipass'', dev_name = ''~multipass@1.0''\<rparr>),
    (''25'', \<lparr>module = ModuleText ''dev_name'', dev_name = ''~name@1.0''\<rparr>),
    (''26'', \<lparr>module = ModuleText ''dev_node_process'', dev_name = ''~node-process@1.0''\<rparr>),
    (''27'', \<lparr>module = ModuleText ''dev_p4'', dev_name = ''~p4@1.0''\<rparr>),
    (''28'', \<lparr>module = ModuleText ''dev_patch'', dev_name = ''~patch@1.0''\<rparr>),
    (''29'', \<lparr>module = ModuleText ''dev_poda'', dev_name = ''~poda@1.0''\<rparr>),
    (''30'', \<lparr>module = ModuleText ''dev_process'', dev_name = ''~process@1.0''\<rparr>),
    (''31'', \<lparr>module = ModuleText ''dev_profile'', dev_name = ''~profile@1.0''\<rparr>),
    (''32'', \<lparr>module = ModuleText ''dev_push'', dev_name = ''~push@1.0''\<rparr>),
    (''33'', \<lparr>module = ModuleText ''dev_relay'', dev_name = ''~relay@1.0''\<rparr>),
    (''34'', \<lparr>module = ModuleText ''dev_router'', dev_name = ''~router@1.0''\<rparr>),
    (''35'', \<lparr>module = ModuleText ''dev_scheduler'', dev_name = ''~scheduler@1.0''\<rparr>),
    (''36'', \<lparr>module = ModuleText ''dev_simple_pay'', dev_name = ''~simple-pay@1.0''\<rparr>),
    (''37'', \<lparr>module = ModuleText ''dev_snp'', dev_name = ''~snp@1.0''\<rparr>),
    (''38'', \<lparr>module = ModuleText ''dev_stack'', dev_name = ''~stack@1.0''\<rparr>),
    (''39'', \<lparr>module = ModuleText ''dev_codec_structured'', dev_name = ''~structured@1.0''\<rparr>),
    (''40'', \<lparr>module = ModuleText ''dev_test'', dev_name = ''~test-device@1.0''\<rparr>),
    (''41'', \<lparr>module = ModuleText ''dev_volume'', dev_name = ''~volume@1.0''\<rparr>),
    (''42'', \<lparr>module = ModuleText ''dev_codec_tx'', dev_name = ''~tx@1.0''\<rparr>),
    (''43'', \<lparr>module = ModuleText ''dev_wasi'', dev_name = ''~wasi@1.0''\<rparr>),
    (''44'', \<lparr>module = ModuleText ''dev_wasm'', dev_name = ''~wasm64@1.0''\<rparr>),
    (''45'', \<lparr>module = ModuleText ''dev_whois'', dev_name = ''~whois@1.0''\<rparr>)]"

text \<open>
  The cache of \<open>fetchDeviceNames\<close> and the list of its names. Of an answer the entries that have a
  name are kept, with a tilde in front; an entry is a key with its module and its name,
  \<^const>\<open>None\<close> for a value or a name that is missing or empty. Assigning the key \<open>__proto__\<close> makes no
  entry. Which answers come to the cache, and when, is in \<^theory_text>\<open>Devices\<close>.
\<close>

record device_cache =
  deviceNamesCache :: "(string \<times> device) list option"
  deviceNamesList :: "string list"

definition with_tilde :: "string \<Rightarrow> string" where
  "with_tilde n = (if starts_with n ''~'' then n else CHR ''~'' # n)"

fun named_devices :: "(string \<times> device_module \<times> string option) list \<Rightarrow> (string \<times> device) list" where
  "named_devices [] = []"
| "named_devices ((k, m, n) # es) = (case n of
       Some (c # cs) \<Rightarrow> if k = ''__proto__'' then named_devices es
         else (k, \<lparr>module = m, dev_name = with_tilde (c # cs)\<rparr>) # named_devices es
     | _ \<Rightarrow> named_devices es)"

definition device_names :: "(string \<times> device) list \<Rightarrow> string list" where
  "device_names ds = sort (map (dev_name \<circ> snd) ds)"

definition getDeviceNameListSync :: "device_cache \<Rightarrow> string list" where
  "getDeviceNameListSync c = (if deviceNamesList c \<noteq> [] then deviceNamesList c
     else sort (filter (\<lambda>n. n \<noteq> []) (map (dev_name \<circ> snd) FALLBACK_DEVICE_NAMES)))"

definition searchDeviceNamesSync :: "string list \<Rightarrow> string \<Rightarrow> string list" where
  "searchDeviceNamesSync names q = (if q = [] then [] else
     let low = toLowerCase q in
       if list_ex (\<lambda>n. n \<noteq> [] \<and> toLowerCase n = low) names then []
       else take 10 (filter (\<lambda>n. n \<noteq> [] \<and> str_includes (toLowerCase n) low) names))"

section \<open>The completion of the segment at the cursor\<close>

text \<open>Where the segment around the cursor starts and ends (the two loops of \<open>sot\<close>).\<close>

fun seg_start :: "string \<Rightarrow> nat \<Rightarrow> nat" where
  "seg_start v 0 = 0"
| "seg_start v (Suc g) = (if g < length v \<and> v ! g = CHR ''/'' then Suc g else seg_start v g)"

definition seg_end :: "string \<Rightarrow> nat \<Rightarrow> nat" where
  "seg_end v c = (case find_index ((=) (CHR ''/'')) (drop c v) of Some i \<Rightarrow> c + i | None \<Rightarrow> length v)"

definition complete_at :: "string \<Rightarrow> string \<Rightarrow> nat \<Rightarrow> string" where
  "complete_at opt v c = take (seg_start v c) v @ opt @ drop (seg_end v c) v"

text \<open>What is submitted after a completion by key (\<open>oot\<close>).\<close>

definition submit_at :: "string \<Rightarrow> string \<Rightarrow> nat \<Rightarrow> string" where
  "submit_at opt v c = (let dir = join ''/'' (butlast (split_on CHR ''/'' (take c v)));
       rest = (case find_index ((=) (CHR ''/'')) (drop c v) of Some i \<Rightarrow> c + i
               | None \<Rightarrow> if c < length v then length v else c)
     in (if dir \<noteq> [] then dir @ ''/'' else []) @ opt @ drop rest v)"

text \<open>The piece that is searched: the last segment before the cursor.\<close>

definition query_at :: "string \<Rightarrow> nat \<Rightarrow> string" where
  "query_at v c = last (split_on CHR ''/'' (take c v))"

section \<open>The hook\<close>

record dropdown =
  input_value :: string
  cursor :: nat
  shown :: bool
  options :: "string list"
  selected :: int
  submitted :: "string list"

definition suggest :: "string list \<Rightarrow> dropdown \<Rightarrow> dropdown" where
  "suggest names s = (if input_value s = [] \<or> cursor s = 0 then s\<lparr>shown := False, options := []\<rparr>
     else let q = query_at (input_value s) (cursor s) in
       if q \<noteq> [] then
         (let found = searchDeviceNamesSync names q in
           if length found > 0 then s\<lparr>options := found, shown := True, selected := 0\<rparr>
           else s\<lparr>shown := False, options := []\<rparr>)
       else s\<lparr>shown := False, options := []\<rparr>)"

definition set_input :: "string list \<Rightarrow> string \<Rightarrow> nat \<Rightarrow> dropdown \<Rightarrow> dropdown" where
  "set_input names v c s = (if input_value s = v \<and> cursor s = c then s
     else suggest names (s\<lparr>input_value := v, cursor := c\<rparr>))"

definition acceptAutocomplete :: "string list \<Rightarrow> string \<Rightarrow> dropdown \<Rightarrow> dropdown" where
  "acceptAutocomplete names opt s =
     set_input names (complete_at opt (input_value s) (cursor s))
       (seg_start (input_value s) (cursor s) + length opt)
       (s\<lparr>shown := False, selected := - 1\<rparr>)"

definition accept_and_submit :: "string list \<Rightarrow> string \<Rightarrow> dropdown \<Rightarrow> dropdown" where
  "accept_and_submit names opt s = (acceptAutocomplete names opt s)
     \<lparr>submitted := submitted s @ [submit_at opt (input_value s) (cursor s)]\<rparr>"

datatype dropdown_event =
    Typed string nat
  | ArrowDown
  | ArrowUp
  | TabKey
  | EnterKey
  | EscapeKey
  | OutsideClick
  | Pick nat

definition handleKeyDown :: "string list \<Rightarrow> dropdown_event \<Rightarrow> dropdown \<Rightarrow> dropdown" where
  "handleKeyDown names k s = (if shown s \<and> length (options s) > 0 then
     (case k of
        ArrowDown \<Rightarrow> s\<lparr>selected := (if selected s < int (length (options s)) - 1
                        then selected s + 1 else 0)\<rparr>
      | ArrowUp \<Rightarrow> s\<lparr>selected := (if selected s > 0 then selected s - 1
                      else int (length (options s)) - 1)\<rparr>
      | TabKey \<Rightarrow> accept_and_submit names (options s ! nat (selected s)) s
      | EnterKey \<Rightarrow> if selected s \<ge> 0
          then accept_and_submit names (options s ! nat (selected s)) s else s
      | EscapeKey \<Rightarrow> s\<lparr>shown := False\<rparr>
      | _ \<Rightarrow> s) else s)"

fun dropdown_step :: "string list \<Rightarrow> dropdown \<Rightarrow> dropdown_event \<Rightarrow> dropdown" where
  "dropdown_step names s (Typed v c) = set_input names v c s"
| "dropdown_step names s OutsideClick = s\<lparr>shown := False\<rparr>"
| "dropdown_step names s (Pick i) = acceptAutocomplete names (options s ! i) s"
| "dropdown_step names s k = handleKeyDown names k s"

text \<open>The browser reports a cursor inside the text, and only shown options can be picked.\<close>

fun dropdown_ok :: "dropdown \<Rightarrow> dropdown_event \<Rightarrow> bool" where
  "dropdown_ok s (Typed v c) = (c \<le> length v)"
| "dropdown_ok s (Pick i) = (shown s \<and> i < length (options s))"
| "dropdown_ok s _ = True"

definition initial_dropdown :: dropdown where
  "initial_dropdown = \<lparr>input_value = [], cursor = 0, shown = False, options = [], selected = - 1,
     submitted = []\<rparr>"

text \<open>
  A shown list is not empty and a valid index is selected, so \<open>options[selected]\<close>
  is never \<open>undefined\<close>; what is offered are device names.
\<close>

definition dropdown_inv :: "string list \<Rightarrow> dropdown \<Rightarrow> bool" where
  "dropdown_inv names s \<longleftrightarrow> cursor s \<le> length (input_value s) \<and>
     set (options s) \<subseteq> set names \<and> length (options s) \<le> 10 \<and>
     (shown s \<longrightarrow> options s \<noteq> [] \<and> 0 \<le> selected s \<and> selected s < int (length (options s)))"

section \<open>Lemmas\<close>

lemma search_subset: "set (searchDeviceNamesSync names q) \<subseteq> set names"
  by (auto simp: searchDeviceNamesSync_def Let_def dest: in_set_takeD)

lemma search_length: "length (searchDeviceNamesSync names q) \<le> 10"
  by (simp add: searchDeviceNamesSync_def Let_def)

lemma seg_start_le: "seg_start v c \<le> c"
  by (induction v c rule: seg_start.induct) auto

lemma seg_end_bounds: "c \<le> length v \<Longrightarrow> c \<le> seg_end v c \<and> seg_end v c \<le> length v"
  by (auto simp: seg_end_def dest: find_index_Some split: option.splits)

text \<open>The names may be other ones at each search, as long as all are among \<open>all\<close>.\<close>

lemma suggest_inv:
  "set names \<subseteq> set all \<Longrightarrow> cursor s \<le> length (input_value s) \<Longrightarrow> dropdown_inv all (suggest names s)"
  using search_subset [of names] search_length [of names]
  by (fastforce simp: suggest_def dropdown_inv_def Let_def)

lemma set_input_inv:
  assumes "set names \<subseteq> set all" "dropdown_inv all s" "c \<le> length v"
  shows "dropdown_inv all (set_input names v c s)"
  using assms suggest_inv [OF assms(1), of "s\<lparr>input_value := v, cursor := c\<rparr>"] by (simp add: set_input_def)

lemma accept_inv:
  assumes "set names \<subseteq> set all" "dropdown_inv all s"
  shows "dropdown_inv all (acceptAutocomplete names opt s)"
proof -
  have "seg_start (input_value s) (cursor s) \<le> length (input_value s)"
    using seg_start_le [of "input_value s" "cursor s"] assms by (simp add: dropdown_inv_def)
  moreover have "dropdown_inv all (s\<lparr>shown := False, selected := - 1\<rparr>)"
    using assms by (simp add: dropdown_inv_def)
  ultimately show ?thesis
    unfolding acceptAutocomplete_def by (intro set_input_inv [OF assms(1)]) (auto simp: complete_at_def)
qed

lemma accept_and_submit_inv:
  "set names \<subseteq> set all \<Longrightarrow> dropdown_inv all s \<Longrightarrow> dropdown_inv all (accept_and_submit names opt s)"
  using accept_inv [of names all s opt] by (simp add: accept_and_submit_def dropdown_inv_def)

lemma handleKeyDown_inv:
  "set names \<subseteq> set all \<Longrightarrow> dropdown_inv all s \<Longrightarrow> dropdown_inv all (handleKeyDown names k s)"
  by (cases k) (auto simp: handleKeyDown_def accept_and_submit_inv, auto simp: dropdown_inv_def)

lemma dropdown_step_inv:
  assumes "set names \<subseteq> set all" "dropdown_inv all s" "dropdown_ok s e"
  shows "dropdown_inv all (dropdown_step names s e)"
  using assms by (cases e) (simp_all add: set_input_inv accept_inv handleKeyDown_inv,
      simp_all add: dropdown_inv_def)

lemma dropdown_inv_step: "dropdown_inv names s \<Longrightarrow> dropdown_ok s e \<Longrightarrow> dropdown_inv names (dropdown_step names s e)"
  by (rule dropdown_step_inv) simp_all

interpretation completion: machine "dropdown_step names" dropdown_ok "dropdown_inv names" for names
  by unfold_locales (rule dropdown_inv_step)

lemma dropdown_inv_initial [simp]: "dropdown_inv names initial_dropdown"
  by (simp add: dropdown_inv_def initial_dropdown_def)

subsection \<open>Segments\<close>

lemma seg_start_split:
  assumes "c \<le> length v"
  shows "seg_start v c \<le> c \<and> (seg_start v c = 0 \<or> v ! (seg_start v c - 1) = CHR ''/'') \<and>
    (\<forall>j. seg_start v c \<le> j \<and> j < c \<longrightarrow> v ! j \<noteq> CHR ''/'')"
  using assms
proof (induction v c rule: seg_start.induct)
  case (2 v g)
  then show ?case by (auto simp: le_Suc_eq less_Suc_eq)
qed simp

text \<open>The text is a prefix of whole segments, the segment of the cursor, and the rest.\<close>

lemma segment_decomposition:
  assumes "c \<le> length v"
  obtains pre a b post where "v = pre @ a @ b @ post" "take c v = pre @ a"
    "pre = [] \<or> (\<exists>d. pre = d @ ''/'')" "CHR ''/'' \<notin> set a" "CHR ''/'' \<notin> set b"
    "post = [] \<or> (\<exists>r. post = CHR ''/'' # r)"
    "length pre = seg_start v c" "drop (seg_end v c) v = post" "drop c v = b @ post"
proof -
  let ?m = "seg_start v c" and ?e = "seg_end v c"
  note m = seg_start_split [OF assms] and e = seg_end_bounds [OF assms]
  let ?pre = "take ?m v" and ?a = "drop ?m (take c v)" and ?b = "take (?e - c) (drop c v)"
    and ?post = "drop ?e v"
  have bp: "drop c v = ?b @ ?post"
    using e append_take_drop_id [of "?e - c" "drop c v"] by simp
  have pa: "take c v = ?pre @ ?a"
    using m append_take_drop_id [of ?m "take c v"] by (simp add: min_def)
  have "?pre = [] \<or> (\<exists>d. ?pre = d @ ''/'')"
  proof (cases "?m = 0")
    case False
    then obtain n where n: "?m = Suc n" by (cases ?m) auto
    then have "n < length v" using m assms by linarith
    then have "take (Suc n) v = take n v @ [v ! n]" by (rule take_Suc_conv_app_nth)
    moreover have "v ! n = CHR ''/''" using m n by simp
    ultimately show ?thesis using n by auto
  qed simp
  moreover have "CHR ''/'' \<notin> set ?a"
    using m assms by (auto simp: in_set_conv_nth)
  moreover have "CHR ''/'' \<notin> set ?b \<and> (?post = [] \<or> (\<exists>r. ?post = CHR ''/'' # r))"
  proof (cases "find_index ((=) (CHR ''/'')) (drop c v)")
    case None
    then have "?e = length v" by (simp add: seg_end_def)
    moreover have "CHR ''/'' \<notin> set (drop c v)"
      using None unfolding find_index_None by blast
    then have "CHR ''/'' \<notin> set ?b" using in_set_takeD by fast
    ultimately show ?thesis by simp
  next
    case (Some i)
    then have i: "?e = c + i" "i < length (drop c v)" "drop c v ! i = CHR ''/''"
      "\<forall>j < i. drop c v ! j \<noteq> CHR ''/''"
      using find_index_Some [OF Some] by (auto simp: seg_end_def)
    then have "?post = CHR ''/'' # drop (Suc (c + i)) v"
      using Cons_nth_drop_Suc [of "c + i" v] by simp
    moreover have "CHR ''/'' \<notin> set ?b"
      using i by (auto simp: in_set_conv_nth)
    ultimately show ?thesis by blast
  qed
  moreover have "v = ?pre @ ?a @ ?b @ ?post"
    using pa bp append_take_drop_id [of c v] by (metis append.assoc)
  moreover have "length ?pre = ?m" using m assms by simp
  ultimately show ?thesis using that pa bp by blast
qed

lemma split_on_snoc_sep: "split_on c (d @ c # a) = split_on c d @ split_on c a"
  by (rule split_on_append_sep)

lemma split_on_prefix:
  assumes "c \<notin> set x" "pre = [] \<or> (\<exists>d. pre = d @ [c])" "post = [] \<or> (\<exists>r. post = c # r)"
  shows "split_on c (pre @ x @ post) =
    butlast (split_on c pre) @ x # (if post = [] then [] else tl (split_on c post))"
proof -
  have "split_on c (x @ post) = x # (if post = [] then [] else tl (split_on c post))"
    using assms(1,3) by (auto simp: split_on_no_sep split_on_append_sep)
  moreover have "split_on c (pre @ y) = butlast (split_on c pre) @ split_on c y" for y
    using assms(2) by (auto simp: split_on_append_sep butlast_append)
  ultimately show ?thesis by simp
qed

section \<open>Properties\<close>

text \<open>
  Searching the devices: at most ten names are offered, each from the list and
  with the query as a part of it whatever the case; a name typed in full offers
  nothing; and with fewer than ten offers nothing that matches is missing.
\<close>

lemma search_offers_matches:
  fixes names q
  defines "found \<equiv> searchDeviceNamesSync names q"
  assumes "q \<noteq> []"
  shows "length found \<le> 10 \<and>
    (\<forall>n \<in> set found. n \<in> set names \<and> (\<exists>a b. toLowerCase n = a @ toLowerCase q @ b)) \<and>
    (if \<exists>n \<in> set names. n \<noteq> [] \<and> toLowerCase n = toLowerCase q then found = []
     else length found < 10 \<longrightarrow>
       (\<forall>n \<in> set names. (\<exists>a b. toLowerCase n = a @ toLowerCase q @ b) \<longrightarrow> n \<in> set found))"
proof -
  have "\<not> str_includes (toLowerCase []) (toLowerCase q)"
    using assms(2) by (cases q) (simp_all add: toLowerCase_def)
  then show ?thesis
    using assms(2) by (auto simp: found_def searchDeviceNamesSync_def Let_def list_ex_iff
        includes_iff [symmetric] dest: in_set_takeD)
qed

text \<open>
  C1. Whatever is typed, pressed or clicked, when the list of completions is shown
  it is not empty, a valid entry of it is selected (so the entry that Tab and Enter
  accept exists), it has at most ten entries and all of them are device names.
\<close>

theorem dropdown_selection_valid:
  assumes "permitted dropdown_ok (dropdown_step names) initial_dropdown es"
    and "shown (foldl (dropdown_step names) initial_dropdown es)"
  defines "s \<equiv> foldl (dropdown_step names) initial_dropdown es"
  shows "options s \<noteq> [] \<and> length (options s) \<le> 10 \<and>
    0 \<le> selected s \<and> nat (selected s) < length (options s) \<and>
    options s ! nat (selected s) \<in> set names"
proof -
  have inv: "dropdown_inv names s"
    unfolding s_def by (rule completion.inv_run [OF dropdown_inv_initial assms(1)])
  then have "nat (selected s) < length (options s)"
    using assms(2) by (simp add: dropdown_inv_def s_def nat_less_iff)
  then have "options s ! nat (selected s) \<in> set (options s)" by simp
  with inv show ?thesis using assms(2) by (auto simp: dropdown_inv_def s_def)
qed

lemma dropdown_selection_valid_witness:
  "nat (selected (foldl (dropdown_step [''~meta@1.0'', ''~name@1.0'']) initial_dropdown
      [Typed ''/~'' 2, ArrowUp, ArrowUp, ArrowDown])) < 2"
  using dropdown_selection_valid [of "[''~meta@1.0'', ''~name@1.0'']"
      "[Typed ''/~'' 2, ArrowUp, ArrowUp, ArrowDown]"]
  by (simp add: initial_dropdown_def set_input_def suggest_def query_at_def handleKeyDown_def
      searchDeviceNamesSync_def toLowerCase_def Let_def)

text \<open>
  C2. Accepting a completion replaces the segment of the path the cursor is in,
  on both sides of the cursor, and leaves every other segment as it was.
\<close>

theorem completion_replaces_segment:
  assumes "c \<le> length v" "CHR ''/'' \<notin> set opt"
  shows "split_on CHR ''/'' (complete_at opt v c) =
    (split_on CHR ''/'' v)[count_list (take c v) CHR ''/'' := opt]"
proof -
  obtain pre a b post where d: "v = pre @ a @ b @ post" "take c v = pre @ a"
    "pre = [] \<or> (\<exists>d. pre = d @ ''/'')" "CHR ''/'' \<notin> set a" "CHR ''/'' \<notin> set b"
    "post = [] \<or> (\<exists>r. post = CHR ''/'' # r)" "length pre = seg_start v c"
    "drop (seg_end v c) v = post"
    using segment_decomposition [OF assms(1)] by metis
  let ?tl = "if post = [] then [] else tl (split_on CHR ''/'' post)"
    and ?hd = "butlast (split_on CHR ''/'' pre)"
  have "complete_at opt v c = pre @ opt @ post"
    using d(7,8) d(1) by (simp add: complete_at_def)
  then have "split_on CHR ''/'' (complete_at opt v c) = ?hd @ opt # ?tl"
    using split_on_prefix [OF assms(2) d(3,6)] by simp
  moreover have "split_on CHR ''/'' v = ?hd @ (a @ b) # ?tl"
    using split_on_prefix [OF _ d(3,6), of "a @ b"] d(1,4,5) by simp
  moreover have "length ?hd = count_list (take c v) CHR ''/''"
    using d(4) by (simp add: d(2) length_split_on count_notin)
  ultimately show ?thesis by (simp add: list_update_append)
qed

lemma completion_replaces_segment_witness:
  "split_on CHR ''/'' (complete_at ''~meta@1.0'' ''/~me/info'' 3) = [[], ''~meta@1.0'', ''info'']"
  using completion_replaces_segment [of 3 "''/~me/info''" "''~meta@1.0''"] by simp

text \<open>
  What Tab and Enter submit is the completed text, except when the completed
  segment is the first of an absolute path: then the leading slash is lost.
\<close>

lemma submit_drops_leading_slash:
  assumes "c \<le> length v"
  shows "submit_at opt v c =
    (if seg_start v c = 1 then tl (complete_at opt v c) else complete_at opt v c)"
proof -
  obtain pre a b post where d: "v = pre @ a @ b @ post" "take c v = pre @ a"
    "pre = [] \<or> (\<exists>d. pre = d @ ''/'')" "CHR ''/'' \<notin> set a" "CHR ''/'' \<notin> set b"
    "post = [] \<or> (\<exists>r. post = CHR ''/'' # r)" "length pre = seg_start v c"
    "drop (seg_end v c) v = post" "drop c v = b @ post"
    using segment_decomposition [OF assms] by metis
  have c: "complete_at opt v c = pre @ opt @ post"
    using d(7,8) d(1) by (simp add: complete_at_def)
  have rest: "(case find_index ((=) (CHR ''/'')) (drop c v) of Some i \<Rightarrow> c + i
      | None \<Rightarrow> if c < length v then length v else c) = seg_end v c"
    using assms by (auto simp: seg_end_def split: option.splits)
  have s: "submit_at opt v c = (let dir = join ''/'' (butlast (split_on CHR ''/'' (pre @ a)))
      in (if dir \<noteq> [] then dir @ ''/'' else []) @ opt @ post)"
    by (simp add: submit_at_def Let_def rest d(2,8))
  show ?thesis
  proof (cases "pre = []")
    case True
    then show ?thesis using d(4,7) c s by (simp add: split_on_no_sep)
  next
    case False
    then obtain e where e: "pre = e @ ''/''" using d(3) by blast
    then have "join ''/'' (butlast (split_on CHR ''/'' (pre @ a))) = e"
      using d(4) by (simp add: split_on_append_sep split_on_no_sep join_split_on)
    then show ?thesis using s c e d(7) by (cases e) (auto simp: Let_def)
  qed
qed

text \<open>
  Accepting a completion closes the list: the search the new text causes finds
  the accepted name typed in full and offers nothing.
\<close>

lemma accept_closes_list:
  assumes "cursor s \<le> length (input_value s)" "opt \<in> set names" "CHR ''/'' \<notin> set opt"
  shows "\<not> shown (acceptAutocomplete names opt s)"
proof -
  let ?v = "input_value s" and ?c = "cursor s"
  obtain pre a b post where d: "?v = pre @ a @ b @ post"
    "pre = [] \<or> (\<exists>d. pre = d @ ''/'')" "length pre = seg_start ?v ?c"
    "drop (seg_end ?v ?c) ?v = post"
    using segment_decomposition [OF assms(1)] by metis
  have v: "complete_at opt ?v ?c = pre @ opt @ post"
    using d by (simp add: complete_at_def)
  have "query_at (pre @ opt @ post) (length pre + length opt) = opt"
    using d(2) assms(3) by (auto simp: query_at_def split_on_append_sep split_on_no_sep)
  moreover have "searchDeviceNamesSync names opt = []"
    using assms(2) by (auto simp: searchDeviceNamesSync_def Let_def list_ex_iff)
  ultimately show ?thesis
    by (simp add: acceptAutocomplete_def set_input_def suggest_def Let_def v d(3) [symmetric])
qed

end
