(* ===== verification/Base64.thy ===== *)
theory Base64
  imports Format "HOL-Library.Word"
begin

text \<open>
  Base64 as the browser and the sources use it: \<open>btoa\<close> and \<open>atob\<close> on binary strings,
  the URL-safe encoding of \<open>script.js\<close> (\<open>base64_encode\<close>, \<open>base64_url_encode\<close>,
  \<open>generate_hash\<close>) and the decoder \<open>base64UrlToUint8Array\<close> of \<open>bundle.js\<close> (line 3843)
  with its padding loop. A \<open>Uint8Array\<close> is a list of 8-bit words.
\<close>

section \<open>btoa and atob\<close>

definition b64_alphabet :: string where
  "b64_alphabet = ''ABCDEFGHIJKLMNOPQRSTUVWXYZabcdefghijklmnopqrstuvwxyz0123456789+/''"

definition b64_char :: "nat \<Rightarrow> char" where
  "b64_char k = b64_alphabet ! k"

definition b64_index :: "char \<Rightarrow> nat option" where
  "b64_index c = find_index (\<lambda>x. x = c) b64_alphabet"

definition code :: "char \<Rightarrow> nat" where
  "code c = of_char c"

fun b64_body :: "string \<Rightarrow> string" where
  "b64_body [] = []"
| "b64_body [a] = [b64_char (code a div 4), b64_char (code a mod 4 * 16)]"
| "b64_body [a, b] = [b64_char (code a div 4), b64_char (code a mod 4 * 16 + code b div 16),
     b64_char (code b mod 16 * 4)]"
| "b64_body (a # b # c # r) = b64_char (code a div 4)
     # b64_char (code a mod 4 * 16 + code b div 16)
     # b64_char (code b mod 16 * 4 + code c div 64) # b64_char (code c mod 64) # b64_body r"

definition btoa :: "string \<Rightarrow> string" where
  "btoa s = b64_body s @ replicate ((3 - length s mod 3) mod 3) CHR ''=''"

text \<open>
  \<open>atob\<close>: white space is dropped, up to two padding characters at the end of a
  text whose length is a multiple of four are dropped, and what is left must be
  letters of the alphabet, not one more than a multiple of four.
\<close>

definition is_b64_space :: "char \<Rightarrow> bool" where
  "is_b64_space c \<longleftrightarrow> c \<in> set [CHR 0x20, CHR 0x09, CHR 0x0A, CHR 0x0C, CHR 0x0D]"

definition strip_pad :: "string \<Rightarrow> string" where
  "strip_pad s = take (length s - min 2 (length (takeWhile ((=) CHR ''='') (rev s)))) s"

fun b64_decode :: "nat list \<Rightarrow> string" where
  "b64_decode (x # y # z # w # r) = char_of (x * 4 + y div 16) # char_of (y mod 16 * 16 + z div 4)
     # char_of (z mod 4 * 64 + w) # b64_decode r"
| "b64_decode [x, y, z] = [char_of (x * 4 + y div 16), char_of (y mod 16 * 16 + z div 4)]"
| "b64_decode [x, y] = [char_of (x * 4 + y div 16)]"
| "b64_decode _ = []"

definition atob :: "string \<Rightarrow> string option" where
  "atob s = (let t = filter (\<lambda>c. \<not> is_b64_space c) s;
       u = (if length t mod 4 = 0 then strip_pad t else t)
     in if length u mod 4 = 1 \<or> \<not> list_all (\<lambda>c. b64_index c \<noteq> None) u then None
        else Some (b64_decode (map (\<lambda>c. the (b64_index c)) u)))"

section \<open>The URL-safe variant\<close>

definition to_url_char :: "char \<Rightarrow> char" where
  "to_url_char c = (if c = CHR ''+'' then CHR ''-'' else if c = CHR ''/'' then CHR ''_'' else c)"

definition from_url_char :: "char \<Rightarrow> char" where
  "from_url_char c = (if c = CHR ''-'' then CHR ''+'' else if c = CHR ''_'' then CHR ''/'' else c)"

definition base64_encode :: "string \<Rightarrow> string" where
  "base64_encode raw = btoa raw"

definition base64_url_encode :: "string \<Rightarrow> string" where
  "base64_url_encode raw = filter (\<lambda>c. c \<noteq> CHR ''='') (map to_url_char (base64_encode raw))"

text \<open>The random bytes are an argument.\<close>

definition generate_hash :: "8 word list \<Rightarrow> string" where
  "generate_hash random = base64_url_encode (map (\<lambda>w. char_of (unat w)) random)"

text \<open>\<open>for (; s.length % 4; ) s += "="\<close>\<close>

function pad_loop :: "string \<Rightarrow> string" where
  "pad_loop s = (if length s mod 4 \<noteq> 0 then pad_loop (s @ ''='') else s)"
  by auto
termination
  by (relation "measure (\<lambda>s. (4 - length s mod 4) mod 4)") (auto simp: mod_Suc, presburger?)

declare pad_loop.simps [simp del]

datatype b64_error = InvalidBase64 string

definition base64UrlToUint8Array :: "string \<Rightarrow> b64_error + 8 word list" where
  "base64UrlToUint8Array s = (case atob (pad_loop (map from_url_char s)) of
       None \<Rightarrow> Inl (InvalidBase64 s)
     | Some bin \<Rightarrow> Inr (map of_char bin))"

section \<open>Lemmas\<close>

lemma code_less [simp]: "code c < 256"
  by (simp add: code_def)

lemma char_of_code [simp]: "char_of (code c) = c"
  by (simp add: code_def)

lemma b64_index_char [simp]: "k < 64 \<Longrightarrow> b64_index (b64_char k) = Some k"
proof -
  have "\<forall>k \<in> set [0 ..< 64]. b64_index (b64_char k) = Some k"
    by code_simp
  then show "k < 64 \<Longrightarrow> b64_index (b64_char k) = Some k" by simp
qed

lemma b64_char_plain:
  assumes "k < 64"
  shows "b64_char k \<noteq> CHR ''=''" "\<not> is_b64_space (b64_char k)"
    "from_url_char (to_url_char (b64_char k)) = b64_char k"
    "to_url_char (b64_char k) \<noteq> CHR ''=''" "is_address_char (to_url_char (b64_char k))"
proof -
  have "\<forall>k \<in> set [0 ..< 64]. b64_char k \<noteq> CHR ''='' \<and> \<not> is_b64_space (b64_char k) \<and>
      from_url_char (to_url_char (b64_char k)) = b64_char k \<and>
      to_url_char (b64_char k) \<noteq> CHR ''='' \<and> is_address_char (to_url_char (b64_char k))"
    by code_simp
  then show "b64_char k \<noteq> CHR ''=''" "\<not> is_b64_space (b64_char k)"
    "from_url_char (to_url_char (b64_char k)) = b64_char k"
    "to_url_char (b64_char k) \<noteq> CHR ''=''" "is_address_char (to_url_char (b64_char k))"
    using assms by simp_all
qed

lemma sextets [simp]:
  "code a div 4 < 64" "code a mod 4 * 16 < 64" "code a mod 4 * 16 + code b div 16 < 64"
  "code b mod 16 * 4 < 64" "code b mod 16 * 4 + code c div 64 < 64" "code c mod 64 < 64"
  using code_less [of a] code_less [of b] code_less [of c] by (simp_all, linarith+)

definition in_b64 :: "char \<Rightarrow> bool" where
  "in_b64 c \<longleftrightarrow> (\<exists>k < 64. c = b64_char k)"

lemma in_b64_char [simp]: "k < 64 \<Longrightarrow> in_b64 (b64_char k)"
  by (auto simp: in_b64_def)

lemma b64_body_chars: "c \<in> set (b64_body s) \<Longrightarrow> in_b64 c"
  by (induction s rule: b64_body.induct) auto

definition b64_len :: "nat \<Rightarrow> nat" where
  "b64_len n = n div 3 * 4 + (case n mod 3 of 0 \<Rightarrow> 0 | Suc 0 \<Rightarrow> 2 | _ \<Rightarrow> 3)"

lemma length_b64_body: "length (b64_body s) = b64_len (length s)"
  by (induction s rule: b64_body.induct) (simp_all add: b64_len_def)

lemma unpack:
  fixes x y n :: nat
  assumes "y < n"
  shows "(x * n + y) div n = x" "(x * n + y) mod n = y"
  using assms by simp_all

lemma unpack_code [simp]:
  "(code a mod 4 * 16 + code b div 16) div 16 = code a mod 4"
  "(code b mod 16 * 4 + code c div 64) div 4 = code b mod 16"
  "code b div 16 mod 16 = code b div 16" "code c div 64 mod 4 = code c div 64"
  using code_less [of b] code_less [of c] by (intro unpack mod_less; linarith)+

lemma b64_decode_body: "b64_decode (map (\<lambda>c. the (b64_index c)) (b64_body s)) = s"
  by (induction s rule: b64_body.induct) simp_all

lemma mod4_cases:
  fixes n :: nat
  obtains q where "n = 4 * q" | q where "n = Suc (4 * q)" | q where "n = Suc (Suc (4 * q))"
    | q where "n = Suc (Suc (Suc (4 * q)))"
proof -
  have n: "n = 4 * (n div 4) + n mod 4" by simp
  consider "n mod 4 = 0" | "n mod 4 = Suc 0" | "n mod 4 = Suc (Suc 0)"
    | "n mod 4 = Suc (Suc (Suc 0))" by linarith
  then show ?thesis using that n by cases auto
qed

lemma mod4_simps [simp]:
  "Suc (4 * q) mod 4 = 1" "Suc (Suc (4 * q)) mod 4 = 2" "Suc (Suc (Suc (4 * q))) mod 4 = 3"
  for q :: nat
  by (simp_all add: mod_Suc)

lemma pad_loop_cases:
  "length s = 4 * q \<Longrightarrow> pad_loop s = s"
  "length s = Suc (Suc (Suc (4 * q))) \<Longrightarrow> pad_loop s = s @ ''=''"
  "length s = Suc (Suc (4 * q)) \<Longrightarrow> pad_loop s = s @ ''==''"
  "length s = Suc (4 * q) \<Longrightarrow> pad_loop s = s @ ''===''"
proof -
  show 0: "pad_loop s = s" if "length s = 4 * q" for s q
    using that by (simp add: pad_loop.simps [of s])
  show 1: "pad_loop s = s @ ''=''" if "length s = Suc (Suc (Suc (4 * q)))" for s q
    using that 0 [of "s @ ''=''" "Suc q"] by (simp add: pad_loop.simps [of s])
  show 2: "pad_loop s = s @ ''==''" if "length s = Suc (Suc (4 * q))" for s q
    using that 1 [of "s @ ''=''" q] by (simp add: pad_loop.simps [of s])
  show "length s = Suc (4 * q) \<Longrightarrow> pad_loop s = s @ ''===''"
    using 2 [of "s @ ''=''" q] by (simp add: pad_loop.simps [of s])
qed

lemma pad_loop_eq: "pad_loop s = s @ replicate ((4 - length s mod 4) mod 4) CHR ''=''"
proof (cases "length s" rule: mod4_cases)
  case (1 q)
  have "(4 - length s mod 4) mod 4 = 0" unfolding 1 by simp
  then show ?thesis using pad_loop_cases(1) [OF 1] by (simp only: replicate.simps append_Nil2)
next
  case (2 q)
  have "(4 - length s mod 4) mod 4 = Suc (Suc (Suc 0))" unfolding 2 by simp
  then show ?thesis using pad_loop_cases(4) [OF 2] by (simp only: replicate.simps append_Nil2)
next
  case (3 q)
  have "(4 - length s mod 4) mod 4 = Suc (Suc 0)" unfolding 3 by simp
  then show ?thesis using pad_loop_cases(3) [OF 3] by (simp only: replicate.simps append_Nil2)
next
  case (4 q)
  have "(4 - length s mod 4) mod 4 = Suc 0" unfolding 4 by simp
  then show ?thesis using pad_loop_cases(2) [OF 4] by (simp only: replicate.simps append_Nil2)
qed

lemma b64_len_cases:
  obtains q where "n = 3 * q" "b64_len n = 4 * q" | q where "n = Suc (3 * q)" "b64_len n = 4 * q + 2"
    | q where "n = Suc (Suc (3 * q))" "b64_len n = 4 * q + 3"
proof -
  have n: "n = 3 * (n div 3) + n mod 3" by simp
  consider "n mod 3 = 0" | "n mod 3 = Suc 0" | "n mod 3 = Suc (Suc 0)" by linarith
  then show ?thesis using that n by cases (auto simp: b64_len_def)
qed

lemma mod3_simps [simp]:
  "Suc (3 * q) mod 3 = 1" "Suc (Suc (3 * q)) mod 3 = 2" for q :: nat
  by (simp_all add: mod_Suc)

lemma padding_counts:
  "(4 - b64_len n mod 4) mod 4 = (3 - n mod 3) mod (3 :: nat)"
  "(b64_len n + (3 - n mod 3) mod 3) mod 4 = (0 :: nat)"
  "b64_len n mod 4 \<noteq> (1 :: nat)"
  by (cases n rule: b64_len_cases; simp only: mod3_simps mod4_simps mod_mult_self1_is_0
        mod_mult_self2_is_0 mod_mult_self1 mod_mult_self4 mod_add_self2; simp; fail)+

lemma pad_loop_body: "pad_loop (b64_body s) = btoa s"
  by (simp add: pad_loop_eq btoa_def length_b64_body padding_counts)

lemma b64_body_no_pad: "CHR ''='' \<notin> set (b64_body s)"
  using b64_body_chars b64_char_plain(1) by (force simp: in_b64_def)

lemma takeWhile_pad:
  assumes "CHR ''='' \<notin> set b"
  shows "takeWhile ((=) CHR ''='') (replicate k CHR ''='' @ rev b) = replicate k CHR ''=''"
proof -
  have "takeWhile ((=) CHR ''='') (rev b) = []"
    using assms by (cases b rule: rev_cases) auto
  then show ?thesis by (induction k) simp_all
qed

lemma strip_pad_btoa: "strip_pad (btoa s) = b64_body s"
proof -
  have "(3 - length s mod 3) mod 3 < (3 :: nat)" by simp
  then have "min 2 ((3 - length s mod 3) mod 3) = (3 - length s mod 3) mod 3" by linarith
  then show ?thesis
    by (simp add: strip_pad_def btoa_def takeWhile_pad [OF b64_body_no_pad])
qed

lemma btoa_no_space: "filter (\<lambda>c. \<not> is_b64_space c) (btoa s) = btoa s"
proof -
  have "\<not> is_b64_space c" if "c \<in> set (btoa s)" for c
  proof (cases "c \<in> set (b64_body s)")
    case True
    then show ?thesis using b64_body_chars b64_char_plain(2) by (auto simp: in_b64_def)
  next
    case False
    with that have "c = CHR ''=''" by (auto simp: btoa_def split: if_splits)
    then show ?thesis by (simp add: is_b64_space_def)
  qed
  then show ?thesis by (simp add: filter_id_conv)
qed

lemma atob_btoa: "atob (btoa s) = Some s"
proof -
  have "length (btoa s) mod 4 = 0" by (simp add: btoa_def length_b64_body padding_counts)
  moreover have "list_all (\<lambda>c. b64_index c \<noteq> None) (b64_body s)"
  proof -
    have "b64_index c \<noteq> None" if "c \<in> set (b64_body s)" for c
      using b64_body_chars [OF that] by (auto simp: in_b64_def)
    then show ?thesis by (simp add: list_all_iff)
  qed
  ultimately show ?thesis
    by (simp add: atob_def Let_def btoa_no_space strip_pad_btoa length_b64_body padding_counts(3)
        b64_decode_body del: One_nat_def)
qed

lemma base64_url_encode_body: "base64_url_encode s = map to_url_char (b64_body s)"
proof -
  have "filter (\<lambda>c. c \<noteq> CHR ''='') (map to_url_char (b64_body s)) = map to_url_char (b64_body s)"
    using b64_body_chars b64_char_plain(4) by (force simp: in_b64_def filter_id_conv)
  then show ?thesis
    by (simp add: base64_url_encode_def base64_encode_def btoa_def filter_empty_conv to_url_char_def)
qed

lemma from_url_encode: "map from_url_char (base64_url_encode s) = b64_body s"
  using b64_body_chars b64_char_plain(3)
  by (force simp: base64_url_encode_body in_b64_def intro!: map_idI)

lemma base64UrlToUint8Array_encode:
  "base64UrlToUint8Array (base64_url_encode s) = Inr (map of_char s)"
  by (simp add: base64UrlToUint8Array_def from_url_encode pad_loop_body atob_btoa)

definition binary_string :: "8 word list \<Rightarrow> string" where
  "binary_string bs = map (\<lambda>w. char_of (unat w)) bs"

lemma of_char_binary [simp]: "map of_char (binary_string bs) = bs"
proof -
  have "of_char (char_of (unat w) :: char) = w" for w :: "8 word"
  proof -
    have "unat w < 256" using unsigned_less [of w, where ?'a = nat] by simp
    then have "of_nat (of_char (char_of (unat w) :: char) :: nat) = w"
      by (simp only: of_char_of mod_less) simp
    then show ?thesis by (simp only: of_nat_of_char)
  qed
  then show ?thesis by (simp add: binary_string_def comp_def)
qed

interpretation b64url: codec "base64_url_encode \<circ> binary_string"
  "\<lambda>s. case base64UrlToUint8Array s of Inl _ \<Rightarrow> None | Inr bs \<Rightarrow> Some bs" "\<lambda>_. True"
  by unfold_locales (simp add: base64UrlToUint8Array_encode)

lemma base64_url_encode_shape:
  "length (base64_url_encode s) = b64_len (length s) \<and>
   list_all is_address_char (base64_url_encode s)"
  using b64_body_chars b64_char_plain(5)
  by (force simp: base64_url_encode_body length_b64_body list_all_iff in_b64_def)

section \<open>Properties\<close>

text \<open>
  C22. Decoding undoes the URL-safe encoding of any bytes, through the padding loop
  and \<open>atob\<close>; so two different byte strings have different encodings.
\<close>

theorem base64url_roundtrip:
  "base64UrlToUint8Array (base64_url_encode (binary_string bs)) = Inr bs \<and>
   inj (base64_url_encode \<circ> binary_string)"
  using b64url.enc_inj by (auto simp: base64UrlToUint8Array_encode inj_def)

text \<open>
  The padding loop ends after at most three rounds: it appends exactly the
  characters that make the length a multiple of four, for any text.
\<close>

lemma padding_loop_ends:
  "\<exists>k \<le> 3. pad_loop s = s @ replicate k CHR ''='' \<and> length (pad_loop s) mod 4 = 0"
proof -
  have "(4 - n mod 4) mod 4 \<le> 3" "(n + (4 - n mod 4) mod 4) mod 4 = 0" for n :: nat
    by (cases n rule: mod4_cases; simp)+
  then show ?thesis by (auto simp: pad_loop_eq)
qed

text \<open>
  The hash the start page animates is a well-formed address whatever the
  32 random bytes are, and the bytes can be read back from it.
\<close>

lemma generate_hash_valid:
  assumes "length random = 32"
  shows "checkValidAddress (generate_hash random) \<and>
    base64UrlToUint8Array (generate_hash random) = Inr random"
proof -
  have "generate_hash random = base64_url_encode (binary_string random)"
    by (simp add: generate_hash_def binary_string_def)
  moreover have "length (binary_string random) = 32" using assms by (simp add: binary_string_def)
  ultimately show ?thesis
    using base64_url_encode_shape [of "binary_string random"]
    by (auto simp: checkValidAddress_def base64UrlToUint8Array_encode b64_len_def)
qed

end
