(* ===== verification/Der.thy ===== *)
theory Der
  imports JS_Prelude "HOL-Library.Word"
begin

text \<open>
  The DER writer that turns a public key into the form the browser imports
  (\<open>encodeDERLength\<close>, \<open>createDERInteger\<close>, \<open>createDERSequence\<close>, \<open>wrapPKCS1InSPKI\<close>,
  \<open>createRSASPKIFromRaw\<close>, \<open>wrapRSAKeyInSPKI\<close>, \<open>importRSAPublicKey\<close>; \<open>bundle.js\<close>, line
  3844). The functions fill a \<open>Uint8Array\<close> of a size computed beforehand; a store
  past its end is dropped and \<open>set\<close> past its end throws, which is \<^const>\<open>None\<close>
  here. A reader of DER says what the written bytes mean.
\<close>

type_synonym bytes = "8 word list"

section \<open>Filling a buffer\<close>

type_synonym writer = "bytes \<times> nat"

definition new_buffer :: "nat \<Rightarrow> writer" where
  "new_buffer n = (replicate n 0, 0)"

text \<open>\<open>buf[off++] = b\<close>\<close>

definition put :: "8 word \<Rightarrow> writer \<Rightarrow> writer" where
  "put b w = ((fst w)[snd w := b], snd w + 1)"

text \<open>\<open>buf.set(xs, off), off += xs.length\<close>\<close>

definition put_all :: "bytes \<Rightarrow> writer \<Rightarrow> writer option" where
  "put_all xs w = (case w of (buf, off) \<Rightarrow>
     if off + length xs \<le> length buf
     then Some (take off buf @ xs @ drop (off + length xs) buf, off + length xs) else None)"

definition filled :: "writer option \<Rightarrow> bytes option" where
  "filled w = map_option fst w"

definition and_then :: "'a option \<Rightarrow> ('a \<Rightarrow> 'b option) \<Rightarrow> 'b option" where
  "and_then x f = (case x of None \<Rightarrow> None | Some v \<Rightarrow> f v)"

section \<open>The writer\<close>

definition encodeDERLength :: "nat \<Rightarrow> bytes" where
  "encodeDERLength n = (if n < 128 then [of_nat n]
     else if n < 256 then [129, of_nat n]
     else if n < 65536 then [130, of_nat (n div 2 ^ 8), of_nat n]
     else [131, of_nat (n div 2 ^ 16), of_nat (n div 2 ^ 8), of_nat n])"

definition createDERInteger :: "bytes \<Rightarrow> bytes option" where
  "createDERInteger m = (let high = (m \<noteq> [] \<and> m ! 0 \<ge> 128);
       len = length m + (if high then 1 else 0);
       l = encodeDERLength len;
       w = put 2 (new_buffer (1 + length l + len))
     in filled (and_then (put_all l w) (\<lambda>w. put_all m (if high then put 0 w else w))))"

definition createDERSequence :: "bytes \<Rightarrow> bytes option" where
  "createDERSequence body = (let l = encodeDERLength (length body);
       w = put 48 (new_buffer (1 + length l + length body))
     in filled (and_then (put_all l w) (put_all body)))"

definition rsa_algorithm :: bytes where
  "rsa_algorithm = [48, 13, 6, 9, 42, 134, 72, 134, 247, 13, 1, 1, 1, 5, 0]"

definition wrapPKCS1InSPKI :: "bytes \<Rightarrow> bytes option" where
  "wrapPKCS1InSPKI key = (let ed = 1 + length key; vv = encodeDERLength ed;
       bits = 1 + length vv + ed; ap = length rsa_algorithm + bits; op = encodeDERLength ap;
       total = 1 + length op + ap
     in filled (and_then (put_all op (put 48 (new_buffer total))) (\<lambda>w.
        and_then (put_all rsa_algorithm w) (\<lambda>w.
        and_then (put_all vv (put 3 w)) (\<lambda>w.
        put_all key (put 0 w))))))"

text \<open>The same with a check of its own before the last copy.\<close>

definition wrapRSAKeyInSPKI :: "bytes \<Rightarrow> bytes option" where
  "wrapRSAKeyInSPKI key = (let ed = 1 + length key; vv = encodeDERLength ed;
       bits = 1 + length vv + ed; ap = length rsa_algorithm + bits; op = encodeDERLength ap;
       total = 1 + length op + ap
     in filled (and_then (put_all op (put 48 (new_buffer total))) (\<lambda>w.
        and_then (put_all rsa_algorithm w) (\<lambda>w.
        and_then (put_all vv (put 3 w)) (\<lambda>w.
        let w = put 0 w in
          if snd w + length key > length (fst w) then None else put_all key w)))))"

definition createRSASPKIFromRaw :: "bytes \<Rightarrow> bytes option" where
  "createRSASPKIFromRaw modulus =
     and_then (createDERInteger modulus) (\<lambda>vv.
     and_then (createDERInteger [1, 0, 1]) (\<lambda>Ql.
     and_then (put_all vv (new_buffer (length vv + length Ql))) (\<lambda>w.
     and_then (filled (put_all Ql w)) (\<lambda>ap.
     and_then (createDERSequence ap) wrapRSAKeyInSPKI))))"

text \<open>
  \<open>importRSAPublicKey\<close>, over the browser's \<open>crypto.subtle.importKey\<close>: a function of
  the bytes, the algorithm and the hash that gives a key or fails.
\<close>

definition rsa_hash :: "string \<Rightarrow> string" where
  "rsa_hash alg = (if str_includes (toLowerCase alg) ''sha512'' then ''SHA-512''
     else if str_includes (toLowerCase alg) ''sha384'' then ''SHA-384'' else ''SHA-256'')"

definition rsa_scheme :: "string \<Rightarrow> string" where
  "rsa_scheme alg = (if str_includes (toLowerCase alg) ''pss'' then ''RSA-PSS''
     else ''RSASSA-PKCS1-v1_5'')"

definition first_of :: "'a option \<Rightarrow> 'a option \<Rightarrow> 'a option" where
  "first_of x y = (case x of None \<Rightarrow> y | Some v \<Rightarrow> Some v)"

definition importRSAPublicKey ::
  "(bytes \<Rightarrow> string \<Rightarrow> string \<Rightarrow> 'k option) \<Rightarrow> bytes \<Rightarrow> string \<Rightarrow> 'k option" where
  "importRSAPublicKey import_key key alg = (let imp = (\<lambda>b. import_key b (rsa_scheme alg) (rsa_hash alg))
     in first_of (imp key) (if length key \<ge> 256 then
          first_of (if key ! 0 = 48 then and_then (wrapPKCS1InSPKI key) imp else None)
            (first_of (and_then (createRSASPKIFromRaw key) imp)
              (and_then (wrapRSAKeyInSPKI key) imp))
        else None))"

section \<open>Reading DER\<close>

definition be_val :: "bytes \<Rightarrow> nat" where
  "be_val bs = foldl (\<lambda>n b. n * 256 + unat b) 0 bs"

fun der_length :: "bytes \<Rightarrow> (nat \<times> bytes) option" where
  "der_length [] = None"
| "der_length (b # r) = (if b < 128 then Some (unat b, r)
     else let k = unat b - 128 in
       if k = 0 \<or> k > length r then None else Some (be_val (take k r), drop k r))"

text \<open>A tag, a length and so many bytes: the contents and what follows them.\<close>

definition der_element :: "8 word \<Rightarrow> bytes \<Rightarrow> (bytes \<times> bytes) option" where
  "der_element t bs = (case bs of [] \<Rightarrow> None | b # r \<Rightarrow> if b \<noteq> t then None else
     and_then (der_length r) (\<lambda>(n, q). if n \<le> length q then Some (take n q, drop n q) else None))"

definition der_only :: "8 word \<Rightarrow> bytes \<Rightarrow> bytes option" where
  "der_only t bs = and_then (der_element t bs) (\<lambda>(c, r). if r = [] then Some c else None)"

text \<open>SubjectPublicKeyInfo: a sequence of the algorithm and a bit string without unused bits.\<close>

definition spki_key :: "bytes \<Rightarrow> bytes option" where
  "spki_key bs = and_then (der_only 48 bs) (\<lambda>c.
     if take 15 c \<noteq> rsa_algorithm then None else
     and_then (der_only 3 (drop 15 c)) (\<lambda>b. case b of [] \<Rightarrow> None
       | u # k \<Rightarrow> if u = 0 then Some k else None))"

text \<open>RSAPublicKey: a sequence of the modulus and the exponent.\<close>

definition rsa_key :: "bytes \<Rightarrow> (nat \<times> nat) option" where
  "rsa_key bs = and_then (der_only 48 bs) (\<lambda>c.
     and_then (der_element 2 c) (\<lambda>(m, r).
     and_then (der_only 2 r) (\<lambda>e. Some (be_val m, be_val e))))"

section \<open>Lemmas on the buffer\<close>

text \<open>A buffer of \<open>n\<close> bytes of which the bytes \<open>c\<close> have been written.\<close>

definition part :: "bytes \<Rightarrow> nat \<Rightarrow> writer" where
  "part c n = (c @ replicate (n - length c) 0, length c)"

lemma new_buffer_part: "new_buffer n = part [] n"
  by (simp add: new_buffer_def part_def)

lemma put_part: "length c < n \<Longrightarrow> put b (part c n) = part (c @ [b]) n"
  by (cases "n - length c")
    (auto simp: put_def part_def list_update_append Suc_diff_Suc [symmetric])

lemma put_all_part:
  "length c + length xs \<le> n \<Longrightarrow> put_all xs (part c n) = Some (part (c @ xs) n)"
  by (auto simp: put_all_def part_def)

lemma filled_part: "length c = n \<Longrightarrow> filled (Some (part c n)) = Some c"
  by (simp add: filled_def part_def)

lemma and_then_simps [simp]: "and_then (Some v) f = f v" "and_then None f = None"
  by (simp_all add: and_then_def)

lemmas buffer_simps = new_buffer_part put_part put_all_part filled_part

lemma createDERSequence_eq:
  "createDERSequence body = Some (48 # encodeDERLength (length body) @ body)"
  by (simp add: createDERSequence_def Let_def buffer_simps)

definition der_integer_body :: "bytes \<Rightarrow> bytes" where
  "der_integer_body m = (if m \<noteq> [] \<and> m ! 0 \<ge> 128 then 0 # m else m)"

lemma createDERInteger_eq:
  "createDERInteger m =
    Some (2 # encodeDERLength (length (der_integer_body m)) @ der_integer_body m)"
  by (simp add: createDERInteger_def der_integer_body_def Let_def buffer_simps)

definition spki :: "bytes \<Rightarrow> bytes" where
  "spki key = (let bits = 3 # encodeDERLength (Suc (length key)) @ 0 # key in
     48 # encodeDERLength (15 + length bits) @ rsa_algorithm @ bits)"

lemma length_rsa_algorithm [simp]: "length rsa_algorithm = 15"
  by (simp add: rsa_algorithm_def)

lemma wrapPKCS1InSPKI_eq: "wrapPKCS1InSPKI key = Some (spki key)"
  by (simp add: wrapPKCS1InSPKI_def spki_def Let_def buffer_simps)

lemma snd_part [simp]: "snd (part c n) = length c"
  by (simp add: part_def)

lemma fst_part: "length c \<le> n \<Longrightarrow> length (fst (part c n)) = n"
  by (simp add: part_def)

lemma wrapRSAKeyInSPKI_eq: "wrapRSAKeyInSPKI key = Some (spki key)"
  by (simp add: wrapRSAKeyInSPKI_def spki_def Let_def buffer_simps fst_part)

section \<open>Lemmas on the reader\<close>

lemma unat_of_nat_8 [simp]: "unat (of_nat n :: 8 word) = n mod 256"
  by (simp add: unsigned_of_nat take_bit_eq_mod)

lemma of_nat_less_128: "n < 128 \<Longrightarrow> (of_nat n :: 8 word) < 128"
  by (simp add: word_less_nat_alt)

lemma be_digits:
  "n < 256 ^ 2 \<Longrightarrow> n div 256 mod 256 * 256 + n mod 256 = n"
  "n < 256 ^ 3 \<Longrightarrow> (n div 65536 mod 256 * 256 + n div 256 mod 256) * 256 + n mod 256 = n"
  for n :: nat
proof -
  show "n < 256 ^ 2 \<Longrightarrow> n div 256 mod 256 * 256 + n mod 256 = n" by simp
  assume n: "n < 256 ^ 3"
  have "n div 65536 = n div 256 div 256" by (simp add: div_mult2_eq [symmetric])
  moreover have "n div 256 div 256 < 256" using n by simp
  ultimately show "(n div 65536 mod 256 * 256 + n div 256 mod 256) * 256 + n mod 256 = n" by simp
qed

lemma der_length_long:
  "der_length (129 # x # r) = Some (unat x, r)"
  "der_length (130 # x # y # r) = Some (unat x * 256 + unat y, r)"
  "der_length (131 # x # y # z # r) = Some ((unat x * 256 + unat y) * 256 + unat z, r)"
  by (simp_all add: be_val_def take_Cons' drop_Cons')

lemma encodeDERLength_cases:
  obtains "n < 128" "encodeDERLength n = [of_nat n]"
  | "128 \<le> n" "n < 256" "encodeDERLength n = [129, of_nat n]"
  | "256 \<le> n" "n < 256 ^ 2" "encodeDERLength n = [130, of_nat (n div 256), of_nat n]"
  | "256 ^ 2 \<le> n" "encodeDERLength n = [131, of_nat (n div 65536), of_nat (n div 256), of_nat n]"
  using that by (cases "n < 128"; cases "n < 256"; cases "n < 65536") (simp_all add: encodeDERLength_def)

lemma der_length_encode:
  assumes "n < 256 ^ 3"
  shows "der_length (encodeDERLength n @ r) = Some (n, r)"
proof (cases n rule: encodeDERLength_cases)
  case 1
  then show ?thesis by (simp add: of_nat_less_128)
next
  case 2
  then show ?thesis by (simp add: der_length_long be_val_def)
next
  case 3
  then show ?thesis using be_digits(1) [OF 3(2)] by (simp only: append.simps der_length_long
        unat_of_nat_8)
next
  case 4
  then show ?thesis using be_digits(2) [OF assms] by (simp only: append.simps der_length_long
        unat_of_nat_8)
qed

lemma der_element_encode:
  "length c < 256 ^ 3 \<Longrightarrow> der_element t (t # encodeDERLength (length c) @ c @ r) = Some (c, r)"
  by (simp add: der_element_def der_length_encode)

lemma der_only_encode:
  "length c < 256 ^ 3 \<Longrightarrow> der_only t (t # encodeDERLength (length c) @ c) = Some c"
  using der_element_encode [of c t "[]"] by (simp add: der_only_def)

lemma length_encodeDERLength: "length (encodeDERLength n) \<le> 4"
  by (simp add: encodeDERLength_def)

lemma spki_key_spki:
  assumes "length key < 256 ^ 3 - 21"
  shows "spki_key (spki key) = Some key"
proof -
  let ?bits = "3 # encodeDERLength (Suc (length key)) @ 0 # key"
  have "length ?bits \<le> length key + 6"
    using length_encodeDERLength [of "Suc (length key)"] by simp
  then have "der_only 48 (spki key) = Some (rsa_algorithm @ ?bits)"
    using assms der_only_encode [of "rsa_algorithm @ ?bits" 48] by (simp add: spki_def Let_def)
  moreover have "der_only 3 ?bits = Some (0 # key)"
    using assms der_only_encode [of "0 # key" 3] by simp
  ultimately show ?thesis by (simp add: spki_key_def)
qed

lemma be_val_zero: "be_val (0 # m) = be_val m"
  by (simp add: be_val_def)

lemma be_val_der_integer_body: "be_val (der_integer_body m) = be_val m"
  by (simp add: der_integer_body_def be_val_zero)

interpretation der_len: codec encodeDERLength
  "\<lambda>bs. case der_length bs of Some (n, []) \<Rightarrow> Some n | _ \<Rightarrow> None" "\<lambda>n. n < 256 ^ 3"
  using der_length_encode [of _ "[]"] by unfold_locales simp

lemma be_val_less: "be_val bs < 256 ^ length bs"
proof (induction bs rule: rev_induct)
  case (snoc b bs)
  have "unat b < 256" using unsigned_less [of b, where ?'a = nat] by simp
  then show ?case using snoc by (simp add: be_val_def)
qed (simp add: be_val_def)

lemma length_encode_bound: "1 \<le> k \<Longrightarrow> n < 256 ^ k \<Longrightarrow> length (encodeDERLength n) \<le> k + 1"
proof -
  assume k: "1 \<le> k" "n < 256 ^ k"
  consider "k = 1" | "k = 2" | "k \<ge> 3" using k(1) by linarith
  then show ?thesis using k by cases (auto simp: encodeDERLength_def)
qed

lemma der_length_minimal:
  assumes "der_length bs = Some (n, [])"
  shows "length (encodeDERLength n) \<le> length bs"
proof (cases bs)
  case (Cons b r)
  show ?thesis
  proof (cases "b < 128")
    case True
    then have "n < 128" using assms Cons unat_mono [of b 128] by simp
    then show ?thesis using Cons by (simp add: encodeDERLength_def)
  next
    case False
    then have "n = be_val r" "1 \<le> length r"
      using assms Cons by (auto simp: Let_def split: if_splits)
    then show ?thesis using length_encode_bound [OF _ be_val_less [of r]] Cons by simp
  qed
qed (use assms in simp)

section \<open>Properties\<close>

text \<open>
  A DER length below 2^24 is read back from what \<open>encodeDERLength\<close> writes,
  whatever follows it, and no other way of writing it is shorter.
\<close>

theorem der_length_canonical:
  assumes "n < 256 ^ 3"
  shows "der_length (encodeDERLength n @ r) = Some (n, r) \<and>
    (\<forall>bs. der_length bs = Some (n, []) \<longrightarrow> length (encodeDERLength n) \<le> length bs)"
  using der_length_encode [OF assms] der_length_minimal by blast

lemma der_length_canonical_witness:
  "der_length (encodeDERLength 300 @ [7]) = Some (300, [7])"
  using der_length_canonical [of 300 "[7]"] by simp

text \<open>
  Wrapping a PKCS#1 key for import: both wrapping functions compute the same
  bytes and never write past their buffer, and the key read back from the
  SubjectPublicKeyInfo they build is the key that was put in.
\<close>

lemma wrap_key_roundtrip:
  "wrapPKCS1InSPKI key = wrapRSAKeyInSPKI key \<and>
   (\<exists>bs. wrapPKCS1InSPKI key = Some bs \<and>
     (length key < 256 ^ 3 - 21 \<longrightarrow> spki_key bs = Some key))"
  using spki_key_spki by (auto simp: wrapPKCS1InSPKI_eq wrapRSAKeyInSPKI_eq)

text \<open>
  A raw modulus becomes a SubjectPublicKeyInfo of an RSA key whose modulus is
  the unsigned number of those bytes and whose exponent is 65537; the two integers
  are written with a leading zero byte exactly when they would read as negative.
\<close>

theorem raw_modulus_key:
  assumes "length m < 256 ^ 3 - 40"
  shows "\<exists>bs. createRSASPKIFromRaw m = Some bs \<and>
    and_then (spki_key bs) rsa_key = Some (be_val m, 65537) \<and>
    (der_integer_body m = [] \<or> der_integer_body m ! 0 < 128)"
proof -
  let ?e = "[1, 0, 1] :: bytes"
  let ?M = "2 # encodeDERLength (length (der_integer_body m)) @ der_integer_body m"
    and ?E = "2 # encodeDERLength (length (der_integer_body ?e)) @ der_integer_body ?e"
  let ?seq = "48 # encodeDERLength (length (?M @ ?E)) @ ?M @ ?E"
  have e: "der_integer_body ?e = ?e" by (simp add: der_integer_body_def word_le_nat_alt)
  have lb: "length (der_integer_body m) \<le> length m + 1" by (simp add: der_integer_body_def)
  have lm: "length ?M \<le> length m + 6"
    using lb length_encodeDERLength [of "length (der_integer_body m)"] by simp
  have le: "length ?E = 5" by (simp add: e encodeDERLength_def)
  have lME: "length (?M @ ?E) \<le> length m + 11" using lm le by simp
  then have ls: "length ?seq \<le> length m + 16"
    using length_encodeDERLength [of "length (?M @ ?E)"] by simp
  have "createRSASPKIFromRaw m = Some (spki ?seq)"
    by (simp add: createRSASPKIFromRaw_def createDERInteger_eq createDERSequence_eq
        wrapRSAKeyInSPKI_eq buffer_simps ac_simps)
  moreover have "spki_key (spki ?seq) = Some ?seq"
    using ls assms by (intro spki_key_spki) linarith
  moreover have "rsa_key ?seq = Some (be_val m, 65537)"
  proof -
    have "der_only 48 ?seq = Some (?M @ ?E)"
      using lME assms by (intro der_only_encode) linarith
    moreover have "der_element 2 (?M @ ?E) = Some (der_integer_body m, ?E)"
      using lb assms der_element_encode [of "der_integer_body m" 2 ?E] by simp
    moreover have "der_only 2 ?E = Some ?e"
      using der_only_encode [of ?e 2] by (simp add: e)
    moreover have "be_val ?e = 65537" by (simp add: be_val_def)
    ultimately show ?thesis by (simp add: rsa_key_def be_val_der_integer_body)
  qed
  moreover have "der_integer_body m = [] \<or> der_integer_body m ! 0 < 128"
    by (auto simp: der_integer_body_def)
  ultimately show ?thesis by auto
qed

lemma raw_modulus_key_witness:
  "\<exists>bs. createRSASPKIFromRaw [200, 1] = Some bs \<and>
    and_then (spki_key bs) rsa_key = Some (200 * 256 + 1, 65537)"
  using raw_modulus_key [of "[200, 1]"] by (auto simp: be_val_def)

text \<open>
  Importing an RSA key: for a key that starts as a DER sequence the last attempt
  repeats the first wrapping, so only three imports can make a difference; a key
  below 256 bytes is imported as it is or not at all.
\<close>

lemma import_attempts:
  "importRSAPublicKey imp key alg =
    (let f = (\<lambda>b. imp b (rsa_scheme alg) (rsa_hash alg)) in
     if length key < 256 then f key
     else if key ! 0 = 48 then first_of (f key) (first_of (f (spki key))
       (and_then (createRSASPKIFromRaw key) f))
     else first_of (f key) (first_of (and_then (createRSASPKIFromRaw key) f) (f (spki key))))"
  by (auto simp: importRSAPublicKey_def wrapPKCS1InSPKI_eq wrapRSAKeyInSPKI_eq first_of_def Let_def
      split: option.splits)

end
