(* ===== verification/HttpSig.thy ===== *)
theory HttpSig
  imports Base64 Der "HOL-Library.AList"
begin

text \<open>
  HTTP message signatures in the request view of the explorer (\<open>bundle.js\<close>, lines
  3844 to 3846): reading \<open>signature-input\<close> headers with the regular expressions of
  \<open>parseSignatureInput\<close>, the choice of key and parameters for verification, headers
  to text and back, the headers a signature covers, the signer shown for a
  signature and the message id derived from a commitment. The digest, the key
  import and the verification of the browser are arguments.
\<close>

section \<open>parseSignatureInput\<close>

text \<open>\<open>split(/\s*,\s*/)\<close>: white space is dropped on the sides of a comma only.\<close>

fun trim_inner :: "string list \<Rightarrow> string list" where
  "trim_inner [] = []"
| "trim_inner [w] = [trim_left w]"
| "trim_inner (w # v # ws) = trim w # trim_inner (v # ws)"

definition split_commas :: "string \<Rightarrow> string list" where
  "split_commas s = (case split_on CHR '','' s of
       [] \<Rightarrow> [] | [w] \<Rightarrow> [w] | w # v # ws \<Rightarrow> trim_right w # trim_inner (v # ws))"

text \<open>The text before the first \<open>=\<close>; with none, \<open>slice(0, -1)\<close> drops the last character.\<close>

definition label_of :: "string \<Rightarrow> string" where
  "label_of s = trim (if CHR ''='' \<in> set s then takeWhile (\<lambda>c. c \<noteq> CHR ''='') s else butlast s)"

text \<open>\<open>/=\(\s*([^)]+)\s*\)/\<close>, up to the white space at the start of the group.\<close>

fun paren_group :: "string \<Rightarrow> string option" where
  "paren_group (e # p # t) = (let g = takeWhile (\<lambda>c. c \<noteq> CHR '')'') t in
     if e = CHR ''='' \<and> p = CHR ''('' \<and> g \<noteq> [] \<and> CHR '')'' \<in> set t then Some g
     else paren_group (p # t))"
| "paren_group _ = None"

text \<open>\<open>matchAll(/"([^"]+)"/g)\<close>\<close>

definition is_quote :: "char \<Rightarrow> bool" where
  "is_quote c \<longleftrightarrow> c = CHR 0x22"

function quoted :: "string \<Rightarrow> string list" where
  "quoted s = (case s of [] \<Rightarrow> [] | c # cs \<Rightarrow>
     (let w = takeWhile (\<lambda>c. \<not> is_quote c) cs; r = dropWhile (\<lambda>c. \<not> is_quote c) cs in
       if is_quote c \<and> w \<noteq> [] \<and> r \<noteq> [] then w # quoted (tl r) else quoted cs))"
  by auto
termination
  by (relation "measure length")
    (auto simp: less_Suc_eq_le intro: le_trans [OF diff_le_self] length_dropWhile_le)

declare quoted.simps [simp del]

text \<open>\<open>/;\s*([^=;\s]+)\s*=\s*"([^"]*)"/g\<close>: the parameter at a position, and all of them.\<close>

definition is_key_char :: "char \<Rightarrow> bool" where
  "is_key_char c \<longleftrightarrow> c \<noteq> CHR ''='' \<and> c \<noteq> CHR '';'' \<and> \<not> is_space c"

definition param_at :: "string \<Rightarrow> (string \<times> string \<times> string) option" where
  "param_at s = (case s of [] \<Rightarrow> None | c # t \<Rightarrow> if c \<noteq> CHR '';'' then None else
     (let u = dropWhile is_space t; k = takeWhile is_key_char u;
          r = dropWhile is_space (dropWhile is_key_char u)
      in if k = [] then None else case r of [] \<Rightarrow> None | e # r2 \<Rightarrow> if e \<noteq> CHR ''='' then None else
        (case dropWhile is_space r2 of [] \<Rightarrow> None | q # v \<Rightarrow> if \<not> is_quote q then None else
          (let x = takeWhile (\<lambda>c. \<not> is_quote c) v; z = dropWhile (\<lambda>c. \<not> is_quote c) v in
            if z = [] then None else Some (k, x, tl z)))))"

lemma param_at_shorter: "param_at s = Some (k, v, r) \<Longrightarrow> length r < length s"
proof -
  assume a: "param_at s = Some (k, v, r)"
  then obtain c t e r2 q x where s: "s = c # t"
    "dropWhile is_space (dropWhile is_key_char (dropWhile is_space t)) = e # r2"
    "dropWhile is_space r2 = q # x" "r = tl (dropWhile (\<lambda>c. \<not> is_quote c) x)"
    by (auto simp: param_at_def Let_def split: list.splits if_splits)
  have "length r \<le> length (dropWhile (\<lambda>c. \<not> is_quote c) x)" unfolding s(4) by simp
  also have "\<dots> \<le> length x" by (rule length_dropWhile_le)
  also have "\<dots> < length (dropWhile is_space r2)" unfolding s(3) by simp
  also have "\<dots> \<le> length r2" by (rule length_dropWhile_le)
  also have "\<dots> < length (dropWhile is_space (dropWhile is_key_char (dropWhile is_space t)))"
    unfolding s(2) by simp
  also have "\<dots> \<le> length (dropWhile is_key_char (dropWhile is_space t))"
    by (rule length_dropWhile_le)
  also have "\<dots> \<le> length (dropWhile is_space t)" by (rule length_dropWhile_le)
  also have "\<dots> \<le> length t" by (rule length_dropWhile_le)
  finally show ?thesis by (simp add: s(1))
qed

function sig_params :: "string \<Rightarrow> (string \<times> string) list" where
  "sig_params s = (case s of [] \<Rightarrow> [] | c # cs \<Rightarrow>
     (case param_at s of Some (k, v, r) \<Rightarrow> (k, v) # sig_params r | None \<Rightarrow> sig_params cs))"
  by auto
termination
  by (relation "measure length") (auto dest: param_at_shorter)

declare sig_params.simps [simp del]

record sig_input =
  sig_label :: string
  sig_fields :: "string list"
  alg :: string
  keyid :: string
  sig_tag :: "string option"

text \<open>A parameter that occurs twice has its last value.\<close>

definition last_param :: "(string \<times> string) list \<Rightarrow> string \<Rightarrow> string" where
  "last_param ps k = (case map_of (rev ps) k of None \<Rightarrow> [] | Some v \<Rightarrow> v)"

definition parse_signature :: "string \<Rightarrow> sig_input" where
  "parse_signature s = (let ps = sig_params s in
     \<lparr>sig_label = label_of s,
      sig_fields = (case paren_group s of None \<Rightarrow> [] | Some g \<Rightarrow> quoted g),
      alg = last_param ps ''alg'', keyid = last_param ps ''keyid'',
      sig_tag = (let t = last_param ps ''tag'' in if t = [] then None else Some t)\<rparr>)"

definition parseSignatureInput :: "string \<Rightarrow> sig_input list" where
  "parseSignatureInput s = map parse_signature (split_commas s)"

section \<open>Choosing the signature and its key\<close>

definition chosen_signature :: "sig_input list \<Rightarrow> sig_input option" where
  "chosen_signature sigs = (case find_index (\<lambda>x. toLowerCase (alg x) \<noteq> ''hmac-sha256'') sigs of
       Some i \<Rightarrow> Some (sigs ! i)
     | None \<Rightarrow> if sigs = [] then None else Some (sigs ! 0))"

text \<open>\<open>publickey:\<close> and \<open>constant:\<close> in front of a key id.\<close>

definition bare_keyid :: "string \<Rightarrow> string" where
  "bare_keyid k = (if starts_with k ''publickey:'' then drop 10 k
     else if starts_with k ''constant:'' then drop 9 k else k)"

text \<open>
  What \<open>createKeyLookup\<close> does for the signature the library asks about: nothing for
  an HMAC, else an import by the family of the algorithm, which is that of the
  request when it has one and that of the chosen signature otherwise.
\<close>

datatype key_request =
    NoKey
  | ImportRSA "8 word list" string
  | ImportECDSA "8 word list"
  | ImportEd25519 "8 word list"
  | ImportFailed string

definition last_bytes :: "nat \<Rightarrow> 'a list \<Rightarrow> 'a list" where
  "last_bytes n xs = drop (length xs - n) xs"

definition createKeyLookup ::
  "sig_input \<Rightarrow> string option \<Rightarrow> string \<Rightarrow> b64_error + key_request" where
  "createKeyLookup chosen req_alg req_keyid =
     (let ed = (case req_alg of None \<Rightarrow> [] | Some a \<Rightarrow> toLowerCase a) in
      if ed \<noteq> [] \<and> str_includes ed ''hmac'' then Inr NoKey
      else case base64UrlToUint8Array (bare_keyid req_keyid) of Inl e \<Rightarrow> Inl e
        | Inr key \<Rightarrow> (let ap = (if ed \<noteq> [] then ed else toLowerCase (alg chosen)) in
           Inr (if str_includes ap ''rsa'' then ImportRSA key ap
            else if str_includes ap ''ecdsa'' then ImportECDSA key
            else if str_includes ap ''ed25519''
              then ImportEd25519 (if length key = 32 then key else last_bytes 32 key)
            else ImportFailed ap)))"

datatype verify_params =
    RSA_PSS nat
  | RSA_PKCS1
  | ECDSA_Hash string
  | Ed25519_Plain
  | NoParams

definition verify_params :: "string \<Rightarrow> verify_params" where
  "verify_params ap = (if str_includes ap ''rsa-pss'' then
       RSA_PSS (if str_includes ap ''sha512'' then 64 else if str_includes ap ''sha384'' then 48 else 32)
     else if str_includes ap ''rsa'' then RSA_PKCS1
     else if str_includes ap ''ecdsa'' then
       ECDSA_Hash (if str_includes ap ''sha512'' then ''SHA-512''
         else if str_includes ap ''sha384'' then ''SHA-384'' else ''SHA-256'')
     else if str_includes ap ''ed25519'' then Ed25519_Plain else NoParams)"

section \<open>Headers\<close>

definition joinHeaders :: "(string \<times> string) list \<Rightarrow> string" where
  "joinHeaders hs = join [newline] (map (\<lambda>(k, v). k @ '': '' @ v) hs)"

definition header_line :: "string \<Rightarrow> (string \<times> string) option" where
  "header_line l = (case find_index ((=) (CHR '':'')) l of
       Some (Suc i) \<Rightarrow> Some (toLowerCase (trim (take (Suc i) l)), trim (drop (Suc (Suc i)) l))
     | _ \<Rightarrow> None)"

fun read_lines :: "string list \<Rightarrow> (string \<times> string) list \<Rightarrow> (string \<times> string) list" where
  "read_lines [] m = m"
| "read_lines (l # ls) m = (case header_line l of
       None \<Rightarrow> read_lines ls m | Some (k, v) \<Rightarrow> read_lines ls (AList.update k v m))"

definition parseHeaders :: "string \<Rightarrow> (string \<times> string) list" where
  "parseHeaders s = read_lines (split_on newline s) []"

fun keep_fields :: "string list \<Rightarrow> (string \<times> string) list \<Rightarrow> (string \<times> string) list
    \<Rightarrow> (string \<times> string) list" where
  "keep_fields [] hs m = m"
| "keep_fields (f # fs) hs m = (case map_of hs f of
       None \<Rightarrow> keep_fields fs hs m | Some v \<Rightarrow> keep_fields fs hs (AList.update f v m))"

definition filterSignedHeaders :: "(string \<times> string) list \<Rightarrow> string \<Rightarrow> (string \<times> string) list" where
  "filterSignedHeaders hs input = (case parseSignatureInput input of
       [] \<Rightarrow> hs | x # xs \<Rightarrow> keep_fields (sig_fields x) hs [])"

section \<open>Signer and message id\<close>

definition getSignerAddress :: "string \<Rightarrow> string" where
  "getSignerAddress input = (case parseSignatureInput input of [] \<Rightarrow> ''Unknown'' | x # xs \<Rightarrow>
     if keyid x = [] then ''Unknown''
     else case base64UrlToUint8Array (bare_keyid (keyid x)) of Inl e \<Rightarrow> ''Unknown''
       | Inr key \<Rightarrow> (let op = base64_url_encode (binary_string key)
           in if length op > 43 then take 43 op else op))"

text \<open>\<open>matchAll(/;name="([^"]+)"/g)\<close>, of which the last match is taken.\<close>

definition attr_at :: "string \<Rightarrow> string \<Rightarrow> (string \<times> string) option" where
  "attr_at name s = (let p = CHR '';'' # name @ ''='' @ [CHR 0x22] in
     if starts_with s p then
       (let t = drop (length p) s; v = takeWhile (\<lambda>c. \<not> is_quote c) t;
            z = dropWhile (\<lambda>c. \<not> is_quote c) t
        in if v \<noteq> [] \<and> z \<noteq> [] then Some (v, tl z) else None)
     else None)"

lemma attr_at_shorter: "attr_at n s = Some (v, r) \<Longrightarrow> length r < length s"
proof -
  assume a: "attr_at n s = Some (v, r)"
  let ?p = "CHR '';'' # n @ ''='' @ [CHR 0x22]"
  have s: "starts_with s ?p" "r = tl (dropWhile (\<lambda>c. \<not> is_quote c) (drop (length ?p) s))"
    using a by (auto simp: attr_at_def Let_def split: if_splits)
  then obtain t where t: "s = ?p @ t" by (auto simp: starts_with_iff)
  have "length r \<le> length (dropWhile (\<lambda>c. \<not> is_quote c) (drop (length ?p) s))" unfolding s(2) by simp
  also have "\<dots> \<le> length (drop (length ?p) s)" by (rule length_dropWhile_le)
  also have "\<dots> < length s" using t by simp
  finally show ?thesis .
qed

function attr_values :: "string \<Rightarrow> string \<Rightarrow> string list" where
  "attr_values n s = (case s of [] \<Rightarrow> [] | c # cs \<Rightarrow>
     (case attr_at n s of Some (v, r) \<Rightarrow> v # attr_values n r | None \<Rightarrow> attr_values n cs))"
  by auto
termination
  by (relation "measure (length \<circ> snd)") (auto dest: attr_at_shorter)

declare attr_values.simps [simp del]

definition last_attr :: "string \<Rightarrow> string \<Rightarrow> string option" where
  "last_attr n s = (let vs = attr_values n s in if vs = [] then None else Some (last vs))"

definition getSignatureAlg :: "string \<Rightarrow> string option" where
  "getSignatureAlg s = last_attr ''alg'' s"

definition getSignatureKeyId :: "string \<Rightarrow> string option" where
  "getSignatureKeyId s = last_attr ''keyid'' s"

datatype id_error = NotACommitment | BadEncoding

text \<open>\<open>replace(/=+$/, "")\<close>\<close>

definition drop_trailing_pad :: "string \<Rightarrow> string" where
  "drop_trailing_pad s = rev (dropWhile (\<lambda>c. c = CHR ''='') (rev s))"

definition getMessageIdFromSig ::
  "(8 word list \<Rightarrow> 8 word list) \<Rightarrow> string \<Rightarrow> id_error + string" where
  "getMessageIdFromSig sha256 sig = (let c = hd (split_on CHR '':'' sig) in
     if \<not> starts_with c ''comm-'' then Inl NotACommitment
     else (let body = drop 5 c;
               padded = map from_url_char body @ replicate ((4 - length body mod 4) mod 4) CHR ''=''
       in case atob padded of None \<Rightarrow> Inl BadEncoding
          | Some bin \<Rightarrow> Inr (drop_trailing_pad
              (map to_url_char (btoa (binary_string (sha256 (map of_char bin))))))))"

section \<open>Lemmas on signatures\<close>

lemma split_join_comma:
  assumes "ws \<noteq> []" "\<And>w. w \<in> set ws \<Longrightarrow> CHR '','' \<notin> set w"
  shows "split_on CHR '','' (join '', '' ws) = hd ws # map ((#) CHR '' '') (tl ws)"
  using assms
proof (induction ws rule: induct_list012)
  case (2 w)
  then show ?case by (simp add: split_on_no_sep)
next
  case (3 w v ws)
  have "split_on CHR '','' (CHR '' '' # join '', '' (v # ws)) = map ((#) CHR '' '') (v # ws)"
    using 3 by (cases "split_on CHR '','' (join '', '' (v # ws))") auto
  then show ?case using 3 by (simp add: split_on_append_sep split_on_no_sep)
qed simp

lemma trim_inner_spaced:
  "(\<And>w. w \<in> set ws \<Longrightarrow> tight w) \<Longrightarrow> trim_inner (map ((#) CHR '' '') ws) = ws"
proof (induction ws rule: induct_list012)
  case (3 w v ws)
  then have "trim (CHR '' '' # w) = w"
    using tight_trim [of w] by (simp add: trim_def trim_left_space)
  with 3 show ?case by simp
qed (simp_all add: trim_left_space tight_trim)

lemma split_commas_join:
  assumes "ws \<noteq> []" "\<And>w. w \<in> set ws \<Longrightarrow> CHR '','' \<notin> set w \<and> tight w"
  shows "split_commas (join '', '' ws) = ws"
proof -
  have sp: "split_on CHR '','' (join '', '' ws) = hd ws # map ((#) CHR '' '') (tl ws)"
    using assms by (intro split_join_comma) auto
  show ?thesis
  proof (cases ws)
    case (Cons w vs)
    then have "trim_inner (map ((#) CHR '' '') vs) = vs" "trim_right w = w"
      using assms by (auto simp: tight_trim trim_inner_spaced)
    then show ?thesis using Cons sp by (cases vs) (simp_all add: split_commas_def)
  qed (use assms in simp)
qed

lemma quoted_simps:
  "quoted [] = []"
  "\<not> is_quote c \<Longrightarrow> quoted (c # r) = quoted r"
  "w \<noteq> [] \<Longrightarrow> list_all (\<lambda>c. \<not> is_quote c) w \<Longrightarrow> quoted (CHR 0x22 # w @ CHR 0x22 # r) = w # quoted r"
  by (simp_all add: quoted.simps takeWhile_append2 dropWhile_append2 list_all_iff is_quote_def Let_def)

definition dq :: "string \<Rightarrow> string" where
  "dq w = CHR 0x22 # w @ [CHR 0x22]"

lemma quoted_join:
  "(\<And>w. w \<in> set ws \<Longrightarrow> w \<noteq> [] \<and> list_all (\<lambda>c. \<not> is_quote c) w) \<Longrightarrow>
    quoted (join '' '' (map dq ws)) = ws"
proof (induction ws rule: induct_list012)
  case (2 w)
  then show ?case using quoted_simps(3) [of w "[]"] by (simp add: dq_def quoted_simps(1))
next
  case (3 w v ws)
  have "quoted (dq w @ CHR '' '' # join '' '' (map dq (v # ws))) =
      w # quoted (CHR '' '' # join '' '' (map dq (v # ws)))"
    using 3 quoted_simps(3) [of w] by (simp add: dq_def)
  then show ?case using 3 by (simp add: quoted_simps(2) is_quote_def)
qed (simp add: quoted_simps)

lemma sig_params_other: "c \<noteq> CHR '';'' \<Longrightarrow> sig_params (c # r) = sig_params r"
  by (simp add: sig_params.simps [of "c # r"] param_at_def)

lemma sig_params_skip: "CHR '';'' \<notin> set a \<Longrightarrow> sig_params (a @ r) = sig_params r"
  by (induction a) (auto simp: sig_params_other)

lemma sig_params_Nil [simp]: "sig_params [] = []"
  by (simp add: sig_params.simps)

definition param_text :: "string \<times> string \<Rightarrow> string" where
  "param_text kv = CHR '';'' # fst kv @ CHR ''='' # dq (snd kv)"

lemma param_at_text:
  assumes "k \<noteq> []" "list_all is_key_char k" "list_all (\<lambda>c. \<not> is_quote c) v"
  shows "param_at (param_text (k, v) @ r) = Some (k, v, r)"
proof -
  have k: "dropWhile is_space (k @ CHR ''='' # dq v @ r) = k @ CHR ''='' # dq v @ r"
    "takeWhile is_key_char (k @ CHR ''='' # dq v @ r) = k"
    "dropWhile is_key_char (k @ CHR ''='' # dq v @ r) = CHR ''='' # dq v @ r"
    using assms(1,2) scan_stop [of k is_key_char "CHR ''=''" "dq v @ r"]
    by (cases k; simp add: list_all_iff is_key_char_def)+
  have v: "takeWhile (\<lambda>c. \<not> is_quote c) (v @ CHR 0x22 # r) = v"
    "dropWhile (\<lambda>c. \<not> is_quote c) (v @ CHR 0x22 # r) = CHR 0x22 # r"
    using assms(3) by (intro scan_stop; simp add: list_all_iff is_quote_def)+
  show ?thesis
    using assms(1) k v
    by (simp add: param_at_def param_text_def dq_def Let_def is_space_def is_quote_def)
qed

lemma sig_params_text:
  "(\<And>k v. (k, v) \<in> set ps \<Longrightarrow> k \<noteq> [] \<and> list_all is_key_char k \<and> list_all (\<lambda>c. \<not> is_quote c) v) \<Longrightarrow>
    sig_params (concat (map param_text ps)) = ps"
proof (induction ps)
  case (Cons kv ps)
  obtain k v where kv: "kv = (k, v)" by (cases kv)
  then have "param_at (param_text (k, v) @ concat (map param_text ps)) =
      Some (k, v, concat (map param_text ps))"
    using Cons.prems [of k v] by (intro param_at_text) auto
  moreover have "param_text (k, v) @ concat (map param_text ps) \<noteq> []" by (simp add: param_text_def)
  ultimately have "sig_params (param_text (k, v) @ concat (map param_text ps)) =
      (k, v) # sig_params (concat (map param_text ps))"
    by (subst sig_params.simps) (auto split: list.splits)
  moreover have "sig_params (concat (map param_text ps)) = ps"
    by (rule Cons.IH) (rule Cons.prems, simp)
  ultimately show ?case using kv by simp
qed simp

lemma paren_group_skip:
  "CHR ''='' \<notin> set a \<Longrightarrow> paren_group (a @ CHR ''='' # r) = paren_group (CHR ''='' # r)"
proof (induction a)
  case (Cons c a)
  then show ?case by (cases a) auto
qed simp

lemma paren_group_found:
  assumes "CHR ''='' \<notin> set a" "g \<noteq> []" "CHR '')'' \<notin> set g"
  shows "paren_group (a @ CHR ''='' # CHR ''('' # g @ CHR '')'' # r) = Some g"
proof -
  have "takeWhile (\<lambda>c. c \<noteq> CHR '')'') (g @ CHR '')'' # r) = g"
    using assms(3) by (intro scan_stop) auto
  then show ?thesis using assms by (simp add: paren_group_skip)
qed

subsection \<open>Writing a signature input\<close>

definition signature_text :: "sig_input \<Rightarrow> string" where
  "signature_text x = sig_label x @ CHR ''='' # CHR ''('' # join '' '' (map dq (sig_fields x)) @ CHR '')'' #
     concat (map param_text ([(''alg'', alg x), (''keyid'', keyid x)] @
       (case sig_tag x of None \<Rightarrow> [] | Some t \<Rightarrow> [(''tag'', t)])))"

definition plain_text :: "string \<Rightarrow> bool" where
  "plain_text w \<longleftrightarrow> list_all (\<lambda>c. \<not> is_quote c \<and> c \<noteq> CHR '','') w"

definition plain_field :: "string \<Rightarrow> bool" where
  "plain_field w \<longleftrightarrow> w \<noteq> [] \<and> plain_text w \<and> list_all (\<lambda>c. c \<noteq> CHR '';'' \<and> c \<noteq> CHR '')'') w"

definition plain_signature :: "sig_input \<Rightarrow> bool" where
  "plain_signature x \<longleftrightarrow> tight (sig_label x) \<and>
     list_all (\<lambda>c. c \<noteq> CHR ''='' \<and> c \<noteq> CHR '','' \<and> c \<noteq> CHR '';'') (sig_label x) \<and>
     sig_fields x \<noteq> [] \<and> list_all plain_field (sig_fields x) \<and>
     plain_text (alg x) \<and> plain_text (keyid x) \<and>
     (case sig_tag x of None \<Rightarrow> True | Some t \<Rightarrow> t \<noteq> [] \<and> plain_text t)"

lemma set_join_dq: "c \<in> set (join '' '' (map dq ws)) \<Longrightarrow>
    c = CHR '' '' \<or> c = CHR 0x22 \<or> (\<exists>w \<in> set ws. c \<in> set w)"
  by (induction ws rule: induct_list012) (auto simp: dq_def)

lemma not_in_join_dq:
  "c \<noteq> CHR '' '' \<Longrightarrow> c \<noteq> CHR 0x22 \<Longrightarrow> (\<And>w. w \<in> set ws \<Longrightarrow> c \<notin> set w) \<Longrightarrow>
    c \<notin> set (join '' '' (map dq ws))"
  using set_join_dq by blast

lemma join_dq_Nil: "join '' '' (map dq ws) = [] \<longleftrightarrow> ws = []"
  by (cases ws; cases "tl ws") (simp_all add: dq_def)

lemma plain_field_chars:
  assumes "plain_field w"
  shows "CHR '')'' \<notin> set w" "CHR '';'' \<notin> set w" "CHR '','' \<notin> set w"
  using assms by (auto simp: plain_field_def plain_text_def list_all_iff)

lemma plain_signature_fields:
  "plain_signature x \<Longrightarrow> w \<in> set (sig_fields x) \<Longrightarrow> plain_field w"
  by (simp add: plain_signature_def list_all_iff)

definition key_name :: "string \<Rightarrow> bool" where
  "key_name k \<longleftrightarrow> k \<noteq> [] \<and> list_all is_key_char k"

lemma key_names: "key_name ''alg''" "key_name ''keyid''" "key_name ''tag''"
  by code_simp+

lemma parse_signature_text:
  assumes "plain_signature x"
  shows "parse_signature (signature_text x) = x"
proof -
  let ?g = "join '' '' (map dq (sig_fields x))"
  let ?ps = "[(''alg'', alg x), (''keyid'', keyid x)] @
       (case sig_tag x of None \<Rightarrow> [] | Some t \<Rightarrow> [(''tag'', t)])"
  have lab: "CHR ''='' \<notin> set (sig_label x)" "CHR '';'' \<notin> set (sig_label x)"
    using assms by (auto simp: plain_signature_def list_all_iff)
  have fld: "CHR '')'' \<notin> set w" "CHR '';'' \<notin> set w" if "w \<in> set (sig_fields x)" for w
    using plain_signature_fields [OF assms that] plain_field_chars by blast+
  have "?g \<noteq> []" using assms by (simp add: join_dq_Nil plain_signature_def)
  moreover have "CHR '')'' \<notin> set ?g" using fld(1) by (intro not_in_join_dq) simp_all
  moreover have "CHR '';'' \<notin> set ?g" using fld(2) by (intro not_in_join_dq) simp_all
  ultimately have g: "?g \<noteq> []" "CHR '')'' \<notin> set ?g" "CHR '';'' \<notin> set ?g" by blast+
  have "sig_params (signature_text x) = ?ps"
  proof -
    let ?a = "sig_label x @ CHR ''='' # CHR ''('' # ?g @ [CHR '')'']"
    have "CHR '';'' \<notin> set ?a" using lab g by simp
    then have "sig_params (?a @ concat (map param_text ?ps)) = sig_params (concat (map param_text ?ps))"
      by (rule sig_params_skip)
    moreover have "signature_text x = ?a @ concat (map param_text ?ps)"
      by (simp add: signature_text_def)
    ultimately have "sig_params (signature_text x) = sig_params (concat (map param_text ?ps))"
      by (simp only:)
    moreover have "sig_params (concat (map param_text ?ps)) = ?ps"
    proof (rule sig_params_text)
      fix k v assume "(k, v) \<in> set ?ps"
      then have "key_name k \<and> plain_text v"
        using assms key_names
        by (cases "sig_tag x") (simp_all add: plain_signature_def, (elim disjE conjE, simp_all)+)
      then show "k \<noteq> [] \<and> list_all is_key_char k \<and> list_all (\<lambda>c. \<not> is_quote c) v"
        by (simp add: plain_text_def key_name_def list_all_iff)
    qed
    ultimately show ?thesis by simp
  qed
  moreover have "paren_group (signature_text x) = Some ?g"
    unfolding signature_text_def by (rule paren_group_found [OF lab(1) g(1,2)])
  moreover have "quoted ?g = sig_fields x"
    using assms by (intro quoted_join)
      (auto simp: plain_signature_def plain_field_def plain_text_def list_all_iff)
  moreover have "label_of (signature_text x) = sig_label x"
  proof -
    have "takeWhile (\<lambda>c. c \<noteq> CHR ''='') (signature_text x) = sig_label x"
      unfolding signature_text_def using lab(1) by (intro scan_stop) auto
    then show ?thesis using assms by (simp add: label_of_def plain_signature_def tight_trim)
      (simp add: signature_text_def)
  qed
  ultimately show ?thesis
    using assms by (cases x) (auto simp: parse_signature_def Let_def last_param_def
        plain_signature_def split: option.splits)
qed

lemma signature_text_tight:
  assumes "plain_signature x"
  shows "CHR '','' \<notin> set (signature_text x)" "tight (signature_text x)"
proof -
  show "CHR '','' \<notin> set (signature_text x)"
  proof -
    have "CHR '','' \<notin> set (join '' '' (map dq (sig_fields x)))"
      using plain_signature_fields [OF assms] plain_field_chars(3)
      by (intro not_in_join_dq) simp_all
    moreover have "CHR '','' \<notin> set (sig_label x)"
      using assms by (auto simp: plain_signature_def list_all_iff)
    moreover have plain: "plain_text t \<Longrightarrow> CHR '','' \<notin> set t" for t
      by (auto simp: plain_text_def list_all_iff)
    ultimately show ?thesis
      using assms plain
      by (cases "sig_tag x") (simp_all add: signature_text_def param_text_def dq_def plain_signature_def)
  qed
  have "last (signature_text x) = CHR 0x22"
    by (auto simp: signature_text_def param_text_def dq_def split: option.splits)
  then show "tight (signature_text x)"
    using assms by (auto simp: plain_signature_def tight_def signature_text_def is_space_def)
qed

section \<open>Lemmas on headers\<close>

definition plain_header :: "string \<times> string \<Rightarrow> bool" where
  "plain_header h \<longleftrightarrow> tight (fst h) \<and> toLowerCase (fst h) = fst h \<and>
     CHR '':'' \<notin> set (fst h) \<and> newline \<notin> set (fst h) \<and> newline \<notin> set (snd h) \<and>
     (snd h = [] \<or> tight (snd h))"

lemma find_index_colon:
  "CHR '':'' \<notin> set k \<Longrightarrow> find_index ((=) (CHR '':'')) (k @ CHR '':'' # r) = Some (length k)"
  by (induction k) auto

lemma trim_spaced: "snd h = [] \<or> tight (snd h) \<Longrightarrow> trim (CHR '' '' # snd h) = snd h"
  by (auto simp: trim_def trim_left_space tight_trim) (simp_all add: trim_left_def trim_right_def)

lemma header_line_text:
  assumes "plain_header h"
  shows "header_line (fst h @ '': '' @ snd h) = Some h"
proof -
  obtain c k where k: "fst h = c # k" using assms by (cases "fst h") (auto simp: plain_header_def tight_def)
  then have "find_index ((=) (CHR '':'')) (fst h @ '': '' @ snd h) = Some (Suc (length k))"
    using assms find_index_colon [of "fst h" "CHR '' '' # snd h"] by (simp add: plain_header_def)
  then show ?thesis
    using assms k trim_spaced [of h] tight_trim(1) [of "fst h"]
    by (cases h) (simp add: header_line_def plain_header_def)
qed

lemma read_lines_headers:
  "list_all plain_header hs \<Longrightarrow>
    map_of (read_lines (map (\<lambda>(k, v). k @ '': '' @ v) hs) m) = map_of m ++ map_of (rev hs)"
proof (induction hs arbitrary: m)
  case (Cons h hs)
  then have "header_line (case h of (k, v) \<Rightarrow> k @ '': '' @ v) = Some h"
    using header_line_text by (cases h) auto
  then show ?case
    using Cons by (cases h) (auto simp: update_conv' map_add_def fun_eq_iff split: option.splits)
qed simp

lemma map_of_keep_fields:
  "map_of (keep_fields fs hs m) k =
    (if k \<in> set fs \<and> map_of hs k \<noteq> None then map_of hs k else map_of m k)"
  by (induction fs arbitrary: m) (auto simp: update_conv' split: option.splits)

section \<open>Signature headers and message ids\<close>

lemma parse_signature_texts:
  assumes "xs \<noteq> []" "list_all plain_signature xs"
  shows "parseSignatureInput (join '', '' (map signature_text xs)) = xs"
proof -
  have "split_commas (join '', '' (map signature_text xs)) = map signature_text xs"
    using assms signature_text_tight by (intro split_commas_join) (auto simp: list_all_iff)
  moreover have "map (parse_signature \<circ> signature_text) xs = xs"
    using assms(2) by (intro map_idI) (simp add: list_all_iff parse_signature_text)
  ultimately show ?thesis by (simp add: parseSignatureInput_def)
qed

lemma drop_trailing_pad_url: "drop_trailing_pad (map to_url_char (btoa s)) = base64_url_encode s"
proof -
  have "CHR ''='' \<notin> set (map to_url_char (b64_body s))"
    using b64_body_chars b64_char_plain(4) by (force simp: in_b64_def)
  then have "dropWhile (\<lambda>c. c = CHR ''='') (rev (map to_url_char (b64_body s)))
      = rev (map to_url_char (b64_body s))"
    by (cases "b64_body s" rule: rev_cases) auto
  moreover have "dropWhile (\<lambda>c. c = CHR ''='') (replicate k CHR ''='' @ r)
      = dropWhile (\<lambda>c. c = CHR ''='') r" for k r by (induction k) simp_all
  ultimately show ?thesis
    by (simp add: drop_trailing_pad_def btoa_def base64_url_encode_body to_url_char_def)
qed

lemma starts_with_first_part: "starts_with (hd (split_on c s)) p \<Longrightarrow> starts_with s p"
proof -
  have "s = hd (split_on c s) @ drop (length (hd (split_on c s))) s"
    using join_split_on [of c s] by (cases "split_on c s"; cases "tl (split_on c s)")
      (auto simp: join_Cons)
  then show "starts_with (hd (split_on c s)) p \<Longrightarrow> starts_with s p"
    by (metis append.assoc starts_with_iff)
qed

lemma message_id_url:
  "getMessageIdFromSig sha256 (''comm-'' @ base64_url_encode (binary_string sig) @ '':'' @ rest)
      = Inr (base64_url_encode (binary_string (sha256 sig)))"
proof -
  let ?e = "base64_url_encode (binary_string sig)"
  have "\<not> is_address_char CHR '':''" by code_simp
  then have "CHR '':'' \<notin> set ?e"
    using base64_url_encode_shape [of "binary_string sig"] by (auto simp: list_all_iff)
  then have "hd (split_on CHR '':'' (''comm-'' @ ?e @ '':'' @ rest)) = ''comm-'' @ ?e"
    by (simp add: split_on_append_sep split_on_no_sep)
  moreover have "map from_url_char ?e @ replicate ((4 - length ?e mod 4) mod 4) CHR ''=''
      = btoa (binary_string sig)"
    using pad_loop_eq [of "b64_body (binary_string sig)"] pad_loop_body
      base64_url_encode_shape [of "binary_string sig"]
    by (simp add: from_url_encode length_b64_body)
  ultimately show ?thesis by (simp add: getMessageIdFromSig_def atob_btoa drop_trailing_pad_url)
qed

lemma parse_joined_headers:
  assumes "hs \<noteq> []" "list_all plain_header hs"
  shows "map_of (parseHeaders (joinHeaders hs)) = map_of (rev hs)"
proof -
  have "split_on newline (joinHeaders hs) = map (\<lambda>(k, v). k @ '': '' @ v) hs"
    unfolding joinHeaders_def using assms
    by (intro split_on_join) (auto simp: list_all_iff plain_header_def newline_def)
  then show ?thesis
    using read_lines_headers [OF assms(2), of "[]"] by (simp add: parseHeaders_def)
qed

lemma join_ends:
  assumes "ws \<noteq> []" "hd ws \<noteq> []" "last ws \<noteq> []"
  shows "join sep ws \<noteq> []" "hd (join sep ws) = hd (hd ws)" "last (join sep ws) = last (last ws)"
proof -
  obtain w vs where ws: "ws = w # vs" using assms(1) by (cases ws) auto
  show "join sep ws \<noteq> []" "hd (join sep ws) = hd (hd ws)"
    using assms ws by (cases vs; simp)+
  obtain us v where us: "ws = us @ [v]" using assms(1) by (cases ws rule: rev_cases) auto
  then show "last (join sep ws) = last (last ws)"
    using assms(3) by (cases "us = []") (simp_all add: join_append)
qed

lemma joinHeaders_trim:
  assumes "hs \<noteq> []" "list_all plain_header hs" "snd (last hs) \<noteq> []"
  shows "trim (joinHeaders hs) = joinHeaders hs"
proof -
  let ?ws = "map (\<lambda>(k, v). k @ '': '' @ v) hs"
  have h: "plain_header (hd hs)" "plain_header (last hs)" using assms(1,2) by (simp_all add: list_all_iff)
  have w: "hd ?ws = fst (hd hs) @ '': '' @ snd (hd hs)" "last ?ws = fst (last hs) @ '': '' @ snd (last hs)"
    using assms(1) by (simp_all add: hd_map last_map case_prod_beta)
  have ne: "?ws \<noteq> []" "hd ?ws \<noteq> []" "last ?ws \<noteq> []" using assms(1) w by simp_all
  have "hd (hd ?ws) = hd (fst (hd hs))" "last (last ?ws) = last (snd (last hs))"
    using h assms(3) unfolding w by (auto simp: plain_header_def tight_def)
  then have "tight (joinHeaders hs)"
    using join_ends [OF ne, of "[newline]"] h assms(3)
    unfolding joinHeaders_def tight_def plain_header_def by metis
  then show ?thesis by (rule tight_trim(1))
qed

lemma filter_signed_texts:
  assumes "list_all plain_signature (x # xs)"
  shows "map_of (filterSignedHeaders hs (join '', '' (map signature_text (x # xs)))) =
    map_of hs |` set (sig_fields x)"
  using parse_signature_texts [of "x # xs"] assms
  by (auto simp: filterSignedHeaders_def map_of_keep_fields restrict_map_def fun_eq_iff)

section \<open>Properties\<close>

text \<open>
  Reading a \<open>signature-input\<close> header recovers every signature written in it:
  labels, covered fields, algorithm, key id and tag, for any number of signatures
  whose texts have no quotes or commas.
\<close>

theorem parse_signature_input_roundtrip:
  assumes "xs \<noteq> []" "list_all plain_signature xs"
  shows "parseSignatureInput (join '', '' (map signature_text xs)) = xs"
  using assms by (rule parse_signature_texts)

definition sample_signature :: sig_input where
  "sample_signature = \<lparr>sig_label = ''sig1'', sig_fields = [''@path'', ''date''],
     alg = ''rsa-pss-sha512'', keyid = ''publickey:AQAB'', sig_tag = None\<rparr>"

lemma sample_fields [simp]: "sig_fields sample_signature = [''@path'', ''date'']"
  by (simp add: sample_signature_def)

lemma plain_sample_signature: "plain_signature sample_signature"
  by code_simp

lemma parse_signature_input_roundtrip_witness:
  "parseSignatureInput (join '', '' (map signature_text [sample_signature, sample_signature])) =
    [sample_signature, sample_signature]"
  using parse_signature_input_roundtrip [of "[sample_signature, sample_signature]"]
  by (simp add: plain_sample_signature)

text \<open>
  Headers written as text and read again: every header has its value, the last
  one when a name occurs twice, and no header is added.
\<close>

lemma headers_roundtrip:
  assumes "hs \<noteq> []" "list_all plain_header hs"
  shows "map_of (parseHeaders (joinHeaders hs)) = map_of (rev hs)"
  using assms by (rule parse_joined_headers)

text \<open>
  The headers shown as signed are exactly the headers the first signature
  covers, with their values.
\<close>

lemma signed_headers_covered:
  assumes "list_all plain_signature (x # xs)"
  shows "map_of (filterSignedHeaders hs (join '', '' (map signature_text (x # xs)))) =
    map_of hs |` set (sig_fields x)"
  using assms by (rule filter_signed_texts)

text \<open>
  The signer shown for a signature is the start of the key itself: for a key id
  that encodes at least 32 bytes, with or without its prefix, it is the first 43
  characters of the encoded key, a well-formed address but not a digest of the key.
\<close>

theorem signer_is_key_prefix:
  assumes "list_all plain_signature (x # xs)" "length key \<ge> 32"
    and "keyid x = ''publickey:'' @ base64_url_encode (binary_string key)"
  shows "getSignerAddress (join '', '' (map signature_text (x # xs))) =
      take 43 (base64_url_encode (binary_string key)) \<and>
    checkValidAddress (getSignerAddress (join '', '' (map signature_text (x # xs))))"
proof -
  let ?k = "base64_url_encode (binary_string key)"
  have "length ?k \<ge> b64_len 32"
  proof -
    have "length ?k = b64_len (length key)"
      using base64_url_encode_shape [of "binary_string key"] by (simp add: binary_string_def)
    moreover have "b64_len 32 \<le> b64_len (length key)"
    proof (cases "length key \<ge> 33")
      case True
      then have "11 \<le> length key div 3" using div_le_mono [of 33 "length key" 3] by simp
      then show ?thesis by (simp add: b64_len_def)
    next
      case False
      then have "length key = 32" using assms(2) by simp
      then show ?thesis by simp
    qed
    ultimately show ?thesis by simp
  qed
  then have len: "length ?k \<ge> 43" by (simp add: b64_len_def)
  have "getSignerAddress (join '', '' (map signature_text (x # xs))) = take 43 ?k"
    using parse_signature_texts [of "x # xs"] assms(1,3) len
    by (simp add: getSignerAddress_def bare_keyid_def base64UrlToUint8Array_encode Let_def
        del: list.map)
  then show ?thesis
    using len base64_url_encode_shape [of "binary_string key"]
    by (auto simp: checkValidAddress_def list_all_iff dest: in_set_takeD)
qed

lemma signer_is_key_prefix_witness:
  "checkValidAddress (getSignerAddress (join '', '' (map signature_text
     [sample_signature\<lparr>keyid := ''publickey:'' @ base64_url_encode (binary_string (replicate 32 0))\<rparr>])))"
proof -
  have "plain_signature (sample_signature\<lparr>keyid := ''publickey:'' @
      base64_url_encode (binary_string (replicate 32 0))\<rparr>)" by code_simp
  then show ?thesis
    by (intro signer_is_key_prefix [of _ _ "replicate 32 0", THEN conjunct2]) simp_all
qed

text \<open>
  The message id derived from a commitment \<open>comm-<signature>:...\<close> is the
  encoded digest of the decoded signature, always a well-formed address; anything
  else in front of the colon is rejected.
\<close>

theorem message_id_of_commitment:
  assumes "\<And>b. length (sha256 b) = 32"
  shows "getMessageIdFromSig sha256 (''comm-'' @ base64_url_encode (binary_string sig) @ '':'' @ rest)
      = Inr (base64_url_encode (binary_string (sha256 sig))) \<and>
    (\<forall>s i. getMessageIdFromSig sha256 s = Inr i \<longrightarrow> checkValidAddress i) \<and>
    (\<forall>s. \<not> starts_with s ''comm-'' \<longrightarrow> getMessageIdFromSig sha256 s = Inl NotACommitment)"
proof (intro conjI allI impI)
  show "checkValidAddress i" if id: "getMessageIdFromSig sha256 s = Inr i" for s i
  proof -
    obtain bin where "i = base64_url_encode (binary_string (sha256 bin))"
      using id drop_trailing_pad_url
      by (auto simp: getMessageIdFromSig_def Let_def split: if_splits option.splits)
    then show ?thesis
      using base64_url_encode_shape [of "binary_string (sha256 bin)"] assms [of bin]
      by (auto simp: checkValidAddress_def binary_string_def b64_len_def)
  qed
  show "getMessageIdFromSig sha256 s = Inl NotACommitment" if "\<not> starts_with s ''comm-''" for s
    using that starts_with_first_part by (auto simp: getMessageIdFromSig_def Let_def)
qed (rule message_id_url)

lemma message_id_of_commitment_witness:
  "checkValidAddress (case getMessageIdFromSig (\<lambda>_. replicate 32 5)
     (''comm-'' @ base64_url_encode (binary_string [1, 2, 3]) @ '':'' @ ''x'') of Inr i \<Rightarrow> i | Inl _ \<Rightarrow> [])"
  using message_id_of_commitment [of "\<lambda>_. replicate 32 5" "[1, 2, 3]" "''x''"] by auto

text \<open>
  A signature is verified with a public key whenever there is one: the signature
  chosen is never the HMAC when another is present, and for a key id that encodes
  a key the lookup imports exactly those bytes, under the algorithm of the request.
\<close>

lemma key_lookup_imports_key:
  assumes "x \<in> set sigs" "toLowerCase (alg x) \<noteq> ''hmac-sha256''"
    and "keyid_text = ''publickey:'' @ base64_url_encode (binary_string key)"
    and "\<not> str_includes (toLowerCase a) ''hmac''" "str_includes (toLowerCase a) ''rsa''"
  shows "\<exists>c. chosen_signature sigs = Some c \<and> c \<in> set sigs \<and> toLowerCase (alg c) \<noteq> ''hmac-sha256'' \<and>
    createKeyLookup c (Some a) keyid_text = Inr (ImportRSA key (toLowerCase a))"
proof -
  obtain i where i: "find_index (\<lambda>x. toLowerCase (alg x) \<noteq> ''hmac-sha256'') sigs = Some i"
    using assms(1,2) find_index_None [of "\<lambda>x. toLowerCase (alg x) \<noteq> ''hmac-sha256''" sigs] by auto
  have "toLowerCase a \<noteq> []" using assms(5) by (cases "toLowerCase a") auto
  then have "createKeyLookup (sigs ! i) (Some a) keyid_text = Inr (ImportRSA key (toLowerCase a))"
    using assms(3-5) by (simp add: createKeyLookup_def bare_keyid_def base64UrlToUint8Array_encode Let_def)
  then show ?thesis
    using find_index_Some [OF i] i by (intro exI [of _ "sigs ! i"]) (simp add: chosen_signature_def)
qed

end
