(* ===== verification/Machines.thy ===== *)
theory Machines
  imports JS_Prelude
begin

text \<open>
  Contracts between machines: a machine with its first state and the states it
  reaches, a machine that contains another one as a part, and the facts such a whole gets
  from its part. The components that are put together from others interpret them.
\<close>

section \<open>Reachable states\<close>

inductive reachable :: "('s \<Rightarrow> 'e \<Rightarrow> bool) \<Rightarrow> ('s \<Rightarrow> 'e \<Rightarrow> 's) \<Rightarrow> 's \<Rightarrow> 's \<Rightarrow> bool"
  for ok step s0 where
  start: "reachable ok step s0 s0"
| step: "reachable ok step s0 s \<Longrightarrow> ok s e \<Longrightarrow> reachable ok step s0 (step s e)"

lemma permitted_append:
  "permitted ok step s (es @ fs) \<longleftrightarrow> permitted ok step s es \<and> permitted ok step (foldl step s es) fs"
  by (induction es arbitrary: s) auto

lemma reachable_run:
  "reachable ok step s0 s \<Longrightarrow> permitted ok step s es \<Longrightarrow> reachable ok step s0 (foldl step s es)"
  by (induction es arbitrary: s) (auto intro: reachable.step)

lemma reachable_iff:
  "reachable ok step s0 s \<longleftrightarrow> (\<exists>es. permitted ok step s0 es \<and> s = foldl step s0 es)"
proof
  assume "reachable ok step s0 s"
  then show "\<exists>es. permitted ok step s0 es \<and> s = foldl step s0 es"
  proof induction
    case start
    show ?case by (intro exI [of _ "[]"]) simp
  next
    case (step s e)
    then obtain es where "permitted ok step s0 es" "s = foldl step s0 es" by blast
    then show ?case using step.hyps(2) by (intro exI [of _ "es @ [e]"]) (simp add: permitted_append)
  qed
qed (auto intro: reachable_run reachable.start)

section \<open>Contracts\<close>

locale started = machine step ok inv
  for step :: "'s \<Rightarrow> 'e \<Rightarrow> 's" and ok inv +
  fixes first :: 's
  assumes inv_first: "inv first"
begin

lemma inv_reached: "reachable ok step first s \<Longrightarrow> inv s"
  by (induction rule: reachable.induct) (auto intro: inv_first inv_step)

lemma inv_trace: "permitted ok step first es \<Longrightarrow> inv (foldl step first es)"
  by (rule inv_reached) (auto simp: reachable_iff)

end

text \<open>
  A whole with a part: \<open>part\<close> reads the part off a state, \<open>passed\<close> tells the events that reach
  it, and every step of the whole moves the part by these events, which the part
  may be given.
\<close>

locale embedding =
  fixes step :: "'s \<Rightarrow> 'e \<Rightarrow> 's" and ok :: "'s \<Rightarrow> 'e \<Rightarrow> bool" and first :: 's
    and pstep :: "'p \<Rightarrow> 'f \<Rightarrow> 'p" and pok :: "'p \<Rightarrow> 'f \<Rightarrow> bool" and pfirst :: 'p
    and part :: "'s \<Rightarrow> 'p" and passed :: "'s \<Rightarrow> 'e \<Rightarrow> 'f list"
  assumes part_first: "part first = pfirst"
    and part_step: "ok s e \<Longrightarrow> part (step s e) = foldl pstep (part s) (passed s e)"
    and passed_ok: "ok s e \<Longrightarrow> permitted pok pstep (part s) (passed s e)"
begin

lemma part_reached: "reachable ok step first s \<Longrightarrow> reachable pok pstep pfirst (part s)"
proof (induction rule: reachable.induct)
  case start
  show ?case by (simp add: part_first reachable.start)
next
  case (step s e)
  then show ?case using reachable_run [OF step.IH passed_ok] by (simp add: part_step)
qed

end

text \<open>What holds of the part alone holds of it in the whole.\<close>

locale embedded_machine = embedding step ok first pstep pok pfirst part passed + alone: started pstep pok pinv pfirst
  for step :: "'s \<Rightarrow> 'e \<Rightarrow> 's" and ok first and pstep :: "'p \<Rightarrow> 'f \<Rightarrow> 'p" and pok pfirst part passed pinv

sublocale embedded_machine \<subseteq> whole: started step ok "\<lambda>s. pinv (part s)" first
proof
  show "pinv (part first)" by (simp add: part_first alone.inv_first)
  show "pinv (part (step s e))" if "pinv (part s)" "ok s e" for s e
    using alone.inv_run [OF that(1) passed_ok] part_step that(2) by simp
qed

end
