(* ===== verification/Requests.thy ===== *)
theory Requests
  imports HttpSig Explorer Machines
begin

text \<open>
  A request of the explorer (\<open>useHyperBeamRequest\<close>, line 3846 of \<open>bundle.js\<close>): the
  state a tab shows, how a request starts and what its answer makes of it. Requests
  are asynchronous, so that answers may come in any order. The verification of a
  signature and the SHA-256 digest are arguments.
\<close>

section \<open>The state of a request\<close>

record answer =
  ok :: bool
  answer_headers :: "(string \<times> string) list"
  answer_signature :: "string option"

record hb_request =
  loading :: bool
  response :: "answer option"
  req_type :: "string option"
  req_variant :: "string option"
  shown_headers :: "(string \<times> string) list option"
  links :: "(string \<times> string) list option"
  signature :: "string option"
  signer :: "string option"
  signature_valid :: "bool option"
  signature_alg :: "string option"
  signature_keyid :: "string option"
  message_id :: "string option"
  failed :: bool
  has_content :: bool
  submitted_path :: string

definition reset_request :: hb_request where
  "reset_request = \<lparr>loading = False, response = None, req_type = None, req_variant = None,
     shown_headers = None, links = None, signature = None, signer = None, signature_valid = None,
     signature_alg = None, signature_keyid = None, message_id = None, failed = False,
     has_content = False, submitted_path = []\<rparr>"

text \<open>The start of \<open>submitRequest\<close>: nothing happens for an empty path.\<close>

definition submit_path :: "string \<Rightarrow> hb_request \<Rightarrow> hb_request" where
  "submit_path loc r = (if loc = [] then r else r\<lparr>loading := True, failed := False\<rparr>)"

definition request_failed :: "hb_request \<Rightarrow> hb_request" where
  "request_failed r = r\<lparr>loading := False, failed := True, has_content := False\<rparr>"

text \<open>
  What is read off an answer: its headers, and for a signed one the signer, the
  validity, the algorithm, the key and the message id.
\<close>

definition answer_fields :: "answer \<Rightarrow> (string \<times> string) list" where
  "answer_fields a = parseHeaders (trim (joinHeaders (answer_headers a)))"

definition signature_input :: "answer \<Rightarrow> string" where
  "signature_input a = (case map_of (answer_fields a) ''signature-input'' of Some t \<Rightarrow> t | None \<Rightarrow> [])"

definition visible_headers :: "answer \<Rightarrow> (string \<times> string) list" where
  "visible_headers a = (if signature_input a \<noteq> []
     then filterSignedHeaders (answer_fields a) (signature_input a) else answer_fields a)"

definition link_headers :: "answer \<Rightarrow> (string \<times> string) list" where
  "link_headers a = filter (\<lambda>(k, v). str_includes k ''+link'') (answer_fields a)"

definition answer_type :: "answer \<Rightarrow> string" where
  "answer_type a = (case map_of (visible_headers a) ''type'' of
       Some t \<Rightarrow> toLowerCase t | None \<Rightarrow> ''path'')"

definition answer_variant :: "answer \<Rightarrow> string" where
  "answer_variant a = (case map_of (visible_headers a) ''variant'' of Some t \<Rightarrow> t | None \<Rightarrow> Mainnet)"

definition request_answered ::
    "(8 word list \<Rightarrow> 8 word list) \<Rightarrow> (string \<Rightarrow> string \<Rightarrow> answer \<Rightarrow> bool) \<Rightarrow>
     string \<Rightarrow> answer \<Rightarrow> hb_request \<Rightarrow> hb_request" where
  "request_answered sha256 verify loc a r = (let inp = signature_input a in
     r\<lparr>loading := False, response := Some a, req_type := Some (answer_type a),
       req_variant := Some (answer_variant a), shown_headers := Some (visible_headers a),
       links := Some (link_headers a), signature := answer_signature a,
       signer := (case answer_signature a of None \<Rightarrow> None
         | Some _ \<Rightarrow> Some (if inp \<noteq> [] then getSignerAddress inp else ''Unknown'')),
       signature_valid := (case answer_signature a of None \<Rightarrow> None
         | Some sig \<Rightarrow> Some (if inp \<noteq> [] then verify sig inp a else False)),
       signature_alg := (if answer_signature a \<noteq> None \<and> inp \<noteq> [] then getSignatureAlg inp else None),
       signature_keyid := (if answer_signature a \<noteq> None \<and> inp \<noteq> [] then getSignatureKeyId inp else None),
       message_id := (if answer_type a = ''process'' then Some loc
         else (case answer_signature a of None \<Rightarrow> None
           | Some sig \<Rightarrow> (case getMessageIdFromSig sha256 sig of Inl _ \<Rightarrow> None | Inr i \<Rightarrow> Some i))),
       failed := False, has_content := True, submitted_path := loc\<rparr>)"

section \<open>Requests in any order\<close>

text \<open>
  A request in flight is known by its path. \<open>Answered loc None\<close> is an exception of
  the request for the path \<open>loc\<close>.
\<close>

datatype request_event =
    Submit string
  | Answered string "answer option"
  | Reset

fun request_step ::
    "(8 word list \<Rightarrow> 8 word list) \<Rightarrow> (string \<Rightarrow> string \<Rightarrow> answer \<Rightarrow> bool) \<Rightarrow>
     hb_request \<Rightarrow> request_event \<Rightarrow> hb_request" where
  "request_step sha256 verify r (Submit loc) = submit_path loc r"
| "request_step sha256 verify r (Answered loc None) = request_failed r"
| "request_step sha256 verify r (Answered loc (Some a)) =
     (if ok a then request_answered sha256 verify loc a r else request_failed r)"
| "request_step sha256 verify r Reset = reset_request"

text \<open>What a reader is shown: the path and the answer it belongs to.\<close>

definition shown_answer :: "hb_request \<Rightarrow> (string \<times> answer) option" where
  "shown_answer r = map_option (Pair (submitted_path r)) (response r)"

fun last_answer :: "(string \<times> answer) option \<Rightarrow> request_event list \<Rightarrow> (string \<times> answer) option" where
  "last_answer x [] = x"
| "last_answer x (Answered loc (Some a) # es) = last_answer (if ok a then Some (loc, a) else x) es"
| "last_answer x (Reset # es) = last_answer None es"
| "last_answer x (e # es) = last_answer x es"

definition request_inv :: "hb_request \<Rightarrow> bool" where
  "request_inv r \<longleftrightarrow> \<not> (failed r \<and> (loading r \<or> has_content r)) \<and>
     (has_content r \<longrightarrow> response r \<noteq> None) \<and> (response r = None \<longleftrightarrow> shown_headers r = None) \<and>
     (\<forall>a. response r = Some a \<longrightarrow> shown_headers r = Some (visible_headers a) \<and>
        signature r = answer_signature a \<and> (signer r = None \<longleftrightarrow> answer_signature a = None) \<and>
        (signature_valid r = None \<longleftrightarrow> answer_signature a = None))"

lemma request_inv_step: "request_inv r \<Longrightarrow> request_inv (request_step sha256 verify r e)"
  by (cases "(sha256, verify, r, e)" rule: request_step.cases)
    (auto simp: request_inv_def submit_path_def request_failed_def request_answered_def reset_request_def
      Let_def split: option.splits)

interpretation requests: started "request_step sha256 verify" "\<lambda>_ _. True" request_inv reset_request
  for sha256 verify
proof
  show "request_inv reset_request" by (simp add: request_inv_def reset_request_def)
qed (rule request_inv_step)

lemma shown_answer_step:
  "shown_answer (foldl (request_step sha256 verify) r es) = last_answer (shown_answer r) es"
proof (induction es arbitrary: r)
  case (Cons e es)
  show ?case
    using Cons.IH [of "request_step sha256 verify r e"]
    by (cases "(sha256, verify, r, e)" rule: request_step.cases)
      (auto simp: shown_answer_def submit_path_def request_failed_def request_answered_def
        reset_request_def Let_def)
qed simp

section \<open>Properties\<close>

text \<open>
  Whatever requests are sent and in whatever order they are answered, the state
  holds the answer that came last, with its own path, headers and signature; an error is
  never shown with content or while loading. The hook itself does not order the answers:
  that the one sent last comes last is up to the tab (see \<^theory_text>\<open>RequestTab\<close>).
\<close>

theorem last_answer_shown:
  "shown_answer (foldl (request_step sha256 verify) reset_request es) = last_answer None es \<and>
   request_inv (foldl (request_step sha256 verify) reset_request es)"
proof
  show "shown_answer (foldl (request_step sha256 verify) reset_request es) = last_answer None es"
    by (simp add: shown_answer_step) (simp add: shown_answer_def reset_request_def)
  show "request_inv (foldl (request_step sha256 verify) reset_request es)"
    by (rule requests.inv_trace [OF permitted_all])
qed

text \<open>
  A signed answer is shown as it was sent: from headers with a plain
  \<open>signature-input\<close> the tab shows the headers its first signature covers, with their
  values, the signer of that signature, the result of the verification for exactly
  those texts, and as message id the digest of the commitment.
\<close>

theorem signed_answer_shown:
  assumes "ok a" "answer_headers a \<noteq> []" "list_all plain_header (answer_headers a)"
    and "snd (last (answer_headers a)) \<noteq> []"
    and "map_of (rev (answer_headers a)) ''signature-input'' =
      Some (join '', '' (map signature_text (x # xs)))" "list_all plain_signature (x # xs)"
    and "answer_signature a = Some (''comm-'' @ base64_url_encode (binary_string sig) @ '':'' @ rest)"
    and "map_of (rev (answer_headers a)) ''type'' = None"
  shows "let r' = request_step sha256 verify r (Answered loc (Some a));
             inp = join '', '' (map signature_text (x # xs))
    in map_option map_of (shown_headers r') = Some (map_of (rev (answer_headers a)) |` set (sig_fields x)) \<and>
      signer r' = Some (getSignerAddress inp) \<and>
      signature_valid r' = Some (verify (''comm-'' @ base64_url_encode (binary_string sig) @ '':'' @ rest) inp a) \<and>
      message_id r' = Some (base64_url_encode (binary_string (sha256 sig))) \<and>
      submitted_path r' = loc"
proof -
  let ?inp = "join '', '' (map signature_text (x # xs))"
  have fields: "map_of (answer_fields a) = map_of (rev (answer_headers a))"
    using assms(2-4) by (simp add: answer_fields_def joinHeaders_trim parse_joined_headers)
  have "?inp \<noteq> []"
    using join_ends(1) [of "map signature_text (x # xs)" "'', ''"] assms(6) signature_text_tight
    by (simp add: tight_def list_all_iff last_map)
  then have inp: "signature_input a = ?inp" "?inp \<noteq> []"
    using assms(5) by (simp_all add: signature_input_def fields)
  have vis: "map_of (visible_headers a) = map_of (rev (answer_headers a)) |` set (sig_fields x)"
    using filter_signed_texts [OF assms(6), of "answer_fields a"] inp
    by (simp add: visible_headers_def fields del: list.map)
  have "answer_type a = ''path''" using vis assms(8) by (simp add: answer_type_def restrict_map_def)
  then show ?thesis
    using assms(1,7) inp vis
    using message_id_url [of sha256 sig rest]
    by (simp add: request_answered_def Let_def del: list.map)
qed

definition sample_answer :: answer where
  "sample_answer = \<lparr>ok = True,
     answer_headers = [(''date'', ''1''), (''signature-input'', signature_text sample_signature)],
     answer_signature = Some (''comm-'' @ base64_url_encode (binary_string [1]) @ '':'' @ [])\<rparr>"

lemma signed_answer_shown_witness:
  "submitted_path (request_step id (\<lambda>_ _ _. True) reset_request (Answered ''p'' (Some sample_answer))) = ''p''"
proof -
  have "plain_header (''date'', ''1'')" "plain_header (''signature-input'', signature_text sample_signature)"
    by code_simp+
  moreover have "signature_text sample_signature \<noteq> []" by code_simp
  ultimately show ?thesis
    using signed_answer_shown [of sample_answer sample_signature "[]" "[1]" "[]" id "\<lambda>_ _ _. True" reset_request "''p''"]
    by (simp add: sample_answer_def plain_sample_signature Let_def)
qed

end
