(* ===== verification/Router_Paths.thy ===== *)
theory Router_Paths
  imports JS_Prelude
begin

text \<open>
  Targets of the hash router as the bundle has them (line 244): a target is read into
  a pathname, a search and a hash (\<open>parsePath\<close>) and written back (\<open>createPath\<close>), and it is
  resolved against the pathname of the matching route (\<open>resolveTo\<close>, \<open>resolvePath\<close>,
  \<open>resolvePathname\<close>). The warnings on the console are left out.
\<close>

section \<open>Targets\<close>

text \<open>A part that is not given is \<^const>\<open>None\<close>, the value \<open>undefined\<close> of the source.\<close>

record partial_path =
  pp_pathname :: "string option"
  pp_search :: "string option"
  pp_hash :: "string option"

record full_path =
  p_pathname :: string
  p_search :: string
  p_hash :: string

text \<open>\<open>indexOf\<close> with \<open>substr\<close>: what stands before a mark, and the mark with the rest.\<close>

definition cut_at :: "char \<Rightarrow> string \<Rightarrow> string \<times> string option" where
  "cut_at c s = (if c \<in> set s then (takeWhile (\<lambda>x. x \<noteq> c) s, Some (dropWhile (\<lambda>x. x \<noteq> c) s))
     else (s, None))"

definition parsePath :: "string \<Rightarrow> partial_path" where
  "parsePath t = (let (t1, h) = cut_at CHR ''#'' t; (t2, q) = cut_at CHR ''?'' t1
     in \<lparr>pp_pathname = (if t2 = [] then None else Some t2), pp_search = q, pp_hash = h\<rparr>)"

text \<open>The mark is added when it is missing; a mark alone is dropped.\<close>

definition with_mark :: "char \<Rightarrow> string \<Rightarrow> string" where
  "with_mark c s = (if s = [] \<or> s = [c] then [] else if hd s = c then s else c # s)"

definition normalizeSearch :: "string \<Rightarrow> string" where
  "normalizeSearch s = with_mark CHR ''?'' s"

definition normalizeHash :: "string \<Rightarrow> string" where
  "normalizeHash s = with_mark CHR ''#'' s"

definition createPath :: "partial_path \<Rightarrow> string" where
  "createPath p = or_else ''/'' (pp_pathname p)
     @ with_mark CHR ''?'' (or_else [] (pp_search p)) @ with_mark CHR ''#'' (or_else [] (pp_hash p))"

definition given_path :: "full_path \<Rightarrow> partial_path" where
  "given_path p = \<lparr>pp_pathname = Some (p_pathname p), pp_search = Some (p_search p),
     pp_hash = Some (p_hash p)\<rparr>"

section \<open>Resolving\<close>

text \<open>\<open>replace(/\/\/+/g, "/")\<close>\<close>

fun single_slashes :: "string \<Rightarrow> string" where
  "single_slashes (c # d # s) = (if c = CHR ''/'' \<and> d = c then single_slashes (d # s)
     else c # single_slashes (d # s))"
| "single_slashes s = s"

definition dot_step :: "string list \<Rightarrow> string \<Rightarrow> string list" where
  "dot_step ed w = (if w = ''..'' then (if length ed > 1 then butlast ed else ed)
     else if w \<noteq> ''.'' then ed @ [w] else ed)"

text \<open>\<open>replace(/\/+$/, "")\<close>\<close>

definition strip_slashes :: "string \<Rightarrow> string" where
  "strip_slashes s = rev (dropWhile (\<lambda>c. c = CHR ''/'') (rev s))"

definition joinPaths :: "string list \<Rightarrow> string" where
  "joinPaths ps = single_slashes (join ''/'' ps)"

definition normalizePathname :: "string \<Rightarrow> string" where
  "normalizePathname s = CHR ''/'' # dropWhile (\<lambda>c. c = CHR ''/'') (strip_slashes s)"

definition resolvePathname :: "string \<Rightarrow> string \<Rightarrow> string" where
  "resolvePathname u from = (let ed = foldl dot_step (split_on CHR ''/'' (strip_slashes from)) (split_on CHR ''/'' u)
     in if length ed > 1 then join ''/'' ed else ''/'')"

text \<open>\<open>/^(?:[a-z][a-z0-9+.-]*:|\/\/)/i\<close>\<close>

definition scheme_char :: "char \<Rightarrow> bool" where
  "scheme_char c \<longleftrightarrow> is_alpha c \<or> is_digit c \<or> c \<in> set ''+.-''"

definition isAbsoluteUrl :: "string \<Rightarrow> bool" where
  "isAbsoluteUrl s \<longleftrightarrow> starts_with s ''//'' \<or>
     (case s of [] \<Rightarrow> False | c # r \<Rightarrow> is_alpha c \<and>
       (case dropWhile scheme_char r of [] \<Rightarrow> False | d # _ \<Rightarrow> d = CHR '':''))"

definition resolvePath :: "partial_path \<Rightarrow> string \<Rightarrow> full_path" where
  "resolvePath to from =
     \<lparr>p_pathname = (case pp_pathname to of
          None \<Rightarrow> from
        | Some u \<Rightarrow> if u = [] then from
            else if isAbsoluteUrl u then u
            else (let u = single_slashes u in
              if starts_with u ''/'' then resolvePathname (drop 1 u) ''/'' else resolvePathname u from)),
      p_search = normalizeSearch (or_else [] (pp_search to)),
      p_hash = normalizeHash (or_else [] (pp_hash to))\<rparr>"

text \<open>
  A target is a text or an object; an object whose pathname or search contains a mark
  that belongs elsewhere is refused.
\<close>

datatype target = ToText string | ToParts partial_path

datatype path_error = InvalidPath char string

definition target_parts :: "target \<Rightarrow> path_error + partial_path" where
  "target_parts t = (case t of
       ToText s \<Rightarrow> Inr (parsePath s)
     | ToParts p \<Rightarrow>
         if CHR ''?'' \<in> set (or_else [] (pp_pathname p)) then Inl (InvalidPath CHR ''?'' ''pathname'')
         else if CHR ''#'' \<in> set (or_else [] (pp_pathname p)) then Inl (InvalidPath CHR ''#'' ''pathname'')
         else if CHR ''#'' \<in> set (or_else [] (pp_search p)) then Inl (InvalidPath CHR ''#'' ''search'')
         else Inr p)"

text \<open>Leading segments \<open>..\<close> climb the routes, unless the target is relative to the path.\<close>

fun climb :: "string list \<Rightarrow> int \<Rightarrow> string list \<times> int" where
  "climb (w # ws) i = (if w = ''..'' then climb ws (i - 1) else (w # ws, i))"
| "climb [] i = ([], i)"

definition route_base :: "partial_path \<Rightarrow> string option \<Rightarrow> string list \<Rightarrow> string \<Rightarrow> bool \<Rightarrow> partial_path \<times> string" where
  "route_base parts op routes here by_path = (case op of
       None \<Rightarrow> (parts, here)
     | Some u \<Rightarrow>
         (let last_route = int (length routes) - 1;
              base = (\<lambda>i. if i \<ge> 0 then routes ! nat i else ''/'')
          in if \<not> by_path \<and> starts_with u ''..''
             then (let (us, i) = climb (split_on CHR ''/'' u) last_route
                   in (parts\<lparr>pp_pathname := Some (join ''/'' us)\<rparr>, base i))
             else (parts, base last_route)))"

definition resolveTo :: "target \<Rightarrow> string list \<Rightarrow> string \<Rightarrow> bool \<Rightarrow> path_error + full_path" where
  "resolveTo t routes here by_path = (case target_parts t of
       Inl e \<Rightarrow> Inl e
     | Inr parts \<Rightarrow>
         (let empty = (t = ToText [] \<or> pp_pathname parts = Some []);
              op = (if empty then Some ''/'' else pp_pathname parts);
              path = (case route_base parts op routes here by_path of (p, from) \<Rightarrow> resolvePath p from);
              u = or_else [] op;
              slash = (u \<noteq> [] \<and> u \<noteq> ''/'' \<and> ends_with u ''/'');
              here_slash = ((empty \<or> u = ''.'') \<and> ends_with here ''/'')
          in Inr (if \<not> ends_with (p_pathname path) ''/'' \<and> (slash \<or> here_slash)
                  then path\<lparr>p_pathname := p_pathname path @ ''/''\<rparr> else path)))"

text \<open>
  The matches below which a link is rendered: the ones with a path of their own, and of
  each the base, or with the flag \<open>v7_relativeSplatPath\<close> the whole pathname of the last.
\<close>

record route_match =
  rm_path :: "string option"
  rm_pathname :: string
  rm_base :: string

definition getPathContributingMatches :: "route_match list \<Rightarrow> route_match list" where
  "getPathContributingMatches ms = (case ms of [] \<Rightarrow> []
     | m # r \<Rightarrow> m # filter (\<lambda>x. or_else [] (rm_path x) \<noteq> []) r)"

definition getResolveToMatches :: "route_match list \<Rightarrow> bool \<Rightarrow> string list" where
  "getResolveToMatches ms v7 = (let ed = getPathContributingMatches ms in
     if v7 \<and> ed \<noteq> [] then map rm_base (butlast ed) @ [rm_pathname (last ed)] else map rm_base ed)"

text \<open>A segment the router leaves alone.\<close>

definition clean_segment :: "string \<Rightarrow> bool" where
  "clean_segment w \<longleftrightarrow> w \<noteq> [] \<and> list_all (\<lambda>c. c \<noteq> CHR ''/'' \<and> c \<noteq> CHR ''#'' \<and> c \<noteq> CHR ''?'') w \<and>
     w \<noteq> ''.'' \<and> w \<noteq> ''..''"

lemma clean_segmentD:
  "clean_segment w \<Longrightarrow> w \<noteq> [] \<and> CHR ''/'' \<notin> set w \<and> CHR ''#'' \<notin> set w \<and> CHR ''?'' \<notin> set w"
  unfolding clean_segment_def list_all_iff by metis

section \<open>Lemmas\<close>

lemma single_slashes_set: "set (single_slashes s) \<subseteq> set s"
  by (induction s rule: single_slashes.induct) auto

lemma single_slashes_word:
  "CHR ''/'' \<notin> set w \<Longrightarrow> single_slashes (w @ s) = w @ single_slashes s"
proof (induction w)
  case (Cons c w)
  then show ?case by (cases "w @ s") auto
qed simp

lemma single_slashes_join:
  "list_all (\<lambda>w. w \<noteq> [] \<and> CHR ''/'' \<notin> set w) ws \<Longrightarrow> ws \<noteq> [] \<Longrightarrow>
   single_slashes (CHR ''/'' # join ''/'' ws) = CHR ''/'' # join ''/'' ws"
proof (induction ws rule: induct_list012)
  case (2 w)
  then obtain c r where w: "w = c # r" "c \<noteq> CHR ''/''" by (cases w) auto
  then show ?case using 2 single_slashes_word [of w "[]"] by simp
next
  case (3 w v ws)
  then obtain c r where w: "w = c # r" "c \<noteq> CHR ''/''" by (cases w) auto
  have "single_slashes (w @ CHR ''/'' # join ''/'' (v # ws)) = w @ CHR ''/'' # join ''/'' (v # ws)"
    using 3 single_slashes_word [of w "CHR ''/'' # join ''/'' (v # ws)"] by simp
  then show ?case using w by (simp add: join_Cons)
qed simp

lemma dots_clean: "list_all clean_segment ws \<Longrightarrow> foldl dot_step ed ws = ed @ ws"
  by (induction ws arbitrary: ed) (auto simp: dot_step_def clean_segment_def)

lemma set_dots: "set (foldl dot_step ed ws) \<subseteq> set ed \<union> {w \<in> set ws. w \<noteq> ''.'' \<and> w \<noteq> ''..''}"
proof (induction ws arbitrary: ed)
  case (Cons w ws)
  have "set (dot_step ed w) \<subseteq> set ed \<union> {v. v = w \<and> w \<noteq> ''.'' \<and> w \<noteq> ''..''}"
    by (auto simp: dot_step_def dest: in_set_butlastD)
  then show ?case using Cons.IH [of "dot_step ed w"] by fastforce
qed simp

lemma dots_not_Nil: "ed \<noteq> [] \<Longrightarrow> foldl dot_step ed ws \<noteq> []"
proof (induction ws arbitrary: ed)
  case (Cons w ws)
  have "length ed > 1 \<Longrightarrow> butlast ed \<noteq> []" by (cases ed) auto
  then have "dot_step ed w \<noteq> []" using Cons.prems by (auto simp: dot_step_def)
  then show ?case using Cons.IH by simp
qed simp

lemma clean_join_chars:
  assumes "list_all clean_segment ws"
  shows "CHR ''#'' \<notin> set (CHR ''/'' # join ''/'' ws)" "CHR ''?'' \<notin> set (CHR ''/'' # join ''/'' ws)"
proof -
  have no: "c \<notin> set (CHR ''/'' # join ''/'' ws)"
    if "c \<noteq> CHR ''/''" "\<And>w. w \<in> set ws \<Longrightarrow> c \<notin> set w" for c
    using that set_join_subset [of c "''/''" ws] by auto
  have ws: "clean_segment w" if "w \<in> set ws" for w using that assms by (simp add: list_all_iff)
  show "CHR ''#'' \<notin> set (CHR ''/'' # join ''/'' ws)"
    using ws clean_segmentD by (intro no) (simp, blast)
  show "CHR ''?'' \<notin> set (CHR ''/'' # join ''/'' ws)"
    using ws clean_segmentD by (intro no) (simp, blast)
qed

lemma join_root: "ws \<noteq> [] \<Longrightarrow> join ''/'' ([] # ws) = CHR ''/'' # join ''/'' ws"
  by (simp add: join_Cons)

subsection \<open>Marks\<close>

lemma cut_at_none: "c \<notin> set s \<Longrightarrow> cut_at c s = (s, None)"
  by (simp add: cut_at_def)

lemma cut_at_some: "c \<notin> set a \<Longrightarrow> cut_at c (a @ c # r) = (a, Some (c # r))"
  by (simp add: cut_at_def until_char)

lemma cut_at_glue:
  assumes "cut_at c s = (a, b)"
  shows "a @ or_else [] b = s" "c \<notin> set a" "b = Some t \<Longrightarrow> t \<noteq> [] \<and> hd t = c"
proof -
  have "hd (dropWhile (\<lambda>x. x \<noteq> c) s) = c" if "c \<in> set s"
    using hd_dropWhile [of "\<lambda>x. x \<noteq> c" s] that by (auto simp: dropWhile_eq_Nil_conv)
  then show "a @ or_else [] b = s" "c \<notin> set a" "b = Some t \<Longrightarrow> t \<noteq> [] \<and> hd t = c"
    using assms by (auto simp: cut_at_def or_else_def dropWhile_eq_Nil_conv dest: set_takeWhileD split: if_splits)
qed

definition marked :: "char \<Rightarrow> string \<Rightarrow> bool" where
  "marked c s \<longleftrightarrow> s = [] \<or> hd s = c \<and> s \<noteq> [c]"

lemma with_mark_id: "marked c s \<Longrightarrow> with_mark c s = s"
  by (auto simp: marked_def with_mark_def)

lemma marked_with_mark: "marked c (with_mark c s)"
  by (auto simp: marked_def with_mark_def)

text \<open>A location as the router writes it.\<close>

definition plain_path :: "full_path \<Rightarrow> bool" where
  "plain_path p \<longleftrightarrow> p_pathname p \<noteq> [] \<and> CHR ''?'' \<notin> set (p_pathname p) \<and> CHR ''#'' \<notin> set (p_pathname p) \<and>
     CHR ''#'' \<notin> set (p_search p) \<and> marked CHR ''?'' (p_search p) \<and> marked CHR ''#'' (p_hash p)"

definition some_text :: "string \<Rightarrow> string option" where
  "some_text s = (if s = [] then None else Some s)"

lemma marked_cases: "marked c s \<Longrightarrow> s = [] \<or> (\<exists>r. s = c # r)"
  by (cases s) (auto simp: marked_def)

lemma cut_at_marked:
  assumes "c \<notin> set a" "marked c s"
  shows "cut_at c (a @ s) = (a, some_text s)"
  using marked_cases [OF assms(2)] assms(1) by (auto simp: cut_at_none cut_at_some some_text_def)

lemma parse_create:
  assumes "plain_path p"
  shows "parsePath (createPath (given_path p)) =
    \<lparr>pp_pathname = Some (p_pathname p), pp_search = some_text (p_search p), pp_hash = some_text (p_hash p)\<rparr>"
  using assms
  by (auto simp: plain_path_def parsePath_def createPath_def given_path_def or_else_def with_mark_id
      cut_at_marked [of "CHR ''#''" "p_pathname p @ p_search p", simplified] cut_at_marked)

lemma create_parse:
  assumes "parsePath t = p" "pp_pathname p \<noteq> None" "pp_search p \<noteq> Some ''?''" "pp_hash p \<noteq> Some ''#''"
  shows "createPath p = t"
proof -
  obtain t1 h where h: "cut_at CHR ''#'' t = (t1, h)" by (cases "cut_at CHR ''#'' t") auto
  obtain t2 q where q: "cut_at CHR ''?'' t1 = (t2, q)" by (cases "cut_at CHR ''?'' t1") auto
  note glue = cut_at_glue [OF h] cut_at_glue [OF q]
  have p: "p = \<lparr>pp_pathname = Some t2, pp_search = q, pp_hash = h\<rparr>"
    using assms(1,2) h q by (auto simp: parsePath_def split: if_splits)
  have "marked CHR ''#'' (or_else [] h)" "marked CHR ''?'' (or_else [] q)"
    using glue assms(3,4) p by (auto simp: marked_def or_else_def split: option.splits)
  then have "with_mark CHR ''#'' (or_else [] h) = or_else [] h" "with_mark CHR ''?'' (or_else [] q) = or_else [] q"
    by (simp_all only: with_mark_id)
  then show ?thesis using glue p by (simp add: createPath_def or_else_def append.assoc [symmetric])
qed

subsection \<open>Segments\<close>

fun no_double :: "string \<Rightarrow> bool" where
  "no_double (c # d # s) \<longleftrightarrow> \<not> (c = CHR ''/'' \<and> d = CHR ''/'') \<and> no_double (d # s)"
| "no_double s = True"

lemma single_slashes_hd: "single_slashes (c # s) = [] \<longleftrightarrow> False" "hd (single_slashes (c # s)) = c"
proof -
  have "single_slashes (c # s) \<noteq> [] \<and> hd (single_slashes (c # s)) = c"
    by (induction s arbitrary: c) auto
  then show "single_slashes (c # s) = [] \<longleftrightarrow> False" "hd (single_slashes (c # s)) = c" by auto
qed

lemma no_double_Cons: "no_double (c # s) \<longleftrightarrow> (s \<noteq> [] \<longrightarrow> \<not> (c = CHR ''/'' \<and> hd s = CHR ''/'') \<and> no_double s)"
  by (cases s) auto

lemma no_double_single: "no_double (single_slashes s)"
proof (induction s rule: single_slashes.induct)
  case (1 c d s)
  then show ?case by (auto simp: no_double_Cons [of c] single_slashes_hd)
qed auto

lemma split_segment: "CHR ''/'' \<notin> set w \<Longrightarrow> split_on CHR ''/'' (w @ CHR ''/'' # r) = w # split_on CHR ''/'' r"
  by (simp add: split_on_append_sep split_on_no_sep)

lemma no_double_segments:
  "no_double s \<Longrightarrow> s = [] \<or> hd s \<noteq> CHR ''/'' \<Longrightarrow> list_all (\<lambda>w. w \<noteq> []) (butlast (split_on CHR ''/'' s))"
proof (induction s rule: length_induct)
  case (1 s)
  show ?case
  proof (cases "CHR ''/'' \<in> set s")
    case False
    then show ?thesis by (simp add: split_on_no_sep)
  next
    case True
    then obtain w r where s: "s = w @ CHR ''/'' # r" "CHR ''/'' \<notin> set w"
      by (meson split_list_first)
    then have w: "w \<noteq> []" using "1.prems"(2) by (cases w) auto
    have d: "no_double (a @ b) \<Longrightarrow> no_double b" for a b
      by (induction a) (auto simp: no_double_Cons)
    have "no_double r \<and> (r = [] \<or> hd r \<noteq> CHR ''/'')"
      using d [of w "CHR ''/'' # r"] "1.prems"(1) s(1) by (cases r) auto
    moreover have "length r < length s" using s by simp
    ultimately have "list_all (\<lambda>w. w \<noteq> []) (butlast (split_on CHR ''/'' r))" using "1.IH" by blast
    then show ?thesis using s w by (simp add: split_segment)
  qed
qed

text \<open>A segment that names something.\<close>

definition naming :: "string \<Rightarrow> bool" where
  "naming w \<longleftrightarrow> w \<noteq> [] \<and> w \<noteq> ''.'' \<and> w \<noteq> ''..''"

text \<open>
  A path of the site: it starts with one slash, has no empty segment but the last and
  no dots.
\<close>

definition site_path :: "string \<Rightarrow> bool" where
  "site_path s \<longleftrightarrow> (case split_on CHR ''/'' s of
       e # ws \<Rightarrow> e = [] \<and> ws \<noteq> [] \<and> list_all naming (butlast ws) \<and> (last ws = [] \<or> naming (last ws))
     | [] \<Rightarrow> False)"

lemma dot_step_naming:
  assumes "list_all naming fs" "w \<noteq> []"
  obtains gs where "dot_step ([] # fs) w = [] # gs" "list_all naming gs"
proof -
  have "butlast ([] # fs) = [] # butlast fs \<and> list_all naming (butlast fs)" if "fs \<noteq> []"
    using assms(1) that by (auto simp: list_all_iff dest: in_set_butlastD)
  then have "\<exists>gs. dot_step ([] # fs) w = [] # gs \<and> list_all naming gs"
    using assms by (cases "fs = []") (auto simp: dot_step_def naming_def)
  then show thesis using that by blast
qed

lemma dots_naming:
  assumes "list_all naming fs" "list_all (\<lambda>w. w \<noteq> []) ws"
  obtains gs where "foldl dot_step ([] # fs) ws = [] # gs" "list_all naming gs"
proof -
  have "\<exists>gs. foldl dot_step ([] # fs) ws = [] # gs \<and> list_all naming gs"
    using assms
  proof (induction ws arbitrary: fs)
    case (Cons w ws)
    obtain hs where "dot_step ([] # fs) w = [] # hs" "list_all naming hs"
      using dot_step_naming [of fs w] Cons.prems by auto
    then show ?case using Cons.IH [of hs] Cons.prems by auto
  qed simp
  then show thesis using that by blast
qed

text \<open>The segments of a resolved pathname, from a base whose segments name something.\<close>

lemma dots_result:
  assumes "list_all naming fs" "list_all (\<lambda>w. w \<noteq> []) (butlast us)" "us \<noteq> []"
  obtains gs where "foldl dot_step ([] # fs) us = [] # gs"
    "list_all naming (butlast gs)" "gs = [] \<or> last gs = [] \<or> naming (last gs)"
proof -
  obtain hs where hs: "foldl dot_step ([] # fs) (butlast us) = [] # hs" "list_all naming hs"
    using dots_naming [OF assms(1,2)] by blast
  have fold: "foldl dot_step ([] # fs) us = dot_step ([] # hs) (last us)"
    using hs(1) assms(3) foldl_append [of dot_step "[] # fs" "butlast us" "[last us]"] by simp
  show thesis
  proof (cases "last us = []")
    case True
    then show thesis using that [of "hs @ [[]]"] hs(2) fold by (simp add: dot_step_def)
  next
    case False
    then obtain gs where "dot_step ([] # hs) (last us) = [] # gs" "list_all naming gs"
      using dot_step_naming [OF hs(2)] by blast
    then show thesis
      using that [of gs] fold by (cases gs rule: rev_cases) auto
  qed
qed

lemma strip_slashes_id: "s = [] \<or> last s \<noteq> CHR ''/'' \<Longrightarrow> strip_slashes s = s"
  by (cases s rule: rev_cases) (auto simp: strip_slashes_def)

lemma strip_slashes_snoc: "strip_slashes (s @ ''/'') = strip_slashes s"
  by (simp add: strip_slashes_def)

lemma split_on_parts_join:
  "s = join ''/'' (split_on CHR ''/'' s)"
  by (simp add: join_split_on)

lemma last_join: "ws \<noteq> [] \<Longrightarrow> last ws \<noteq> [] \<Longrightarrow> join sep ws \<noteq> [] \<and> last (join sep ws) = last (last ws)"
  by (induction ws rule: induct_list012) (auto simp: join_Cons)

lemma site_path_base:
  assumes "site_path s"
  obtains fs where "split_on CHR ''/'' (strip_slashes s) = [] # fs" "list_all naming fs"
proof -
  obtain ws where ws: "split_on CHR ''/'' s = [] # ws" "ws \<noteq> []" "list_all naming (butlast ws)"
    "last ws = [] \<or> naming (last ws)"
    using assms by (auto simp: site_path_def split: list.splits)
  have s: "s = join ''/'' ([] # ws)" using split_on_parts_join [of s] ws(1) by simp
  have no: "CHR ''/'' \<notin> set w" if "w \<in> set ([] # ws)" for w
    using split_on_parts_no_sep [of w "CHR ''/''" s] that ws(1) by simp
  show thesis
  proof (cases "last ws = []")
    case False
    have "last s \<noteq> CHR ''/''"
      using last_join [of "[] # ws" "''/''"] ws(2) False no [of "last ws"] s
      by (metis last_ConsR last_in_set list.set_intros(2) list.simps(3))
    moreover have "list_all naming ws"
      using ws False by (cases ws rule: rev_cases) auto
    ultimately show thesis using that [of ws] ws(1) strip_slashes_id by metis
  next
    case True
    define bs where "bs = butlast ws"
    have w: "ws = bs @ [[]]" using ws(2) True bs_def by (metis append_butlast_last_id)
    have s': "s = join ''/'' ([] # bs) @ ''/''" using s w join_append [of "[] # bs" "[[]]" "''/''"] by simp
    have nm: "list_all naming bs" using ws(3) bs_def by simp
    have "join ''/'' ([] # bs) = [] \<or> last (join ''/'' ([] # bs)) \<noteq> CHR ''/''"
    proof (cases "bs = []")
      case False
      then have b: "last bs \<in> set bs" "last bs \<noteq> []" using nm by (auto simp: list_all_iff naming_def)
      then have "last (join ''/'' ([] # bs)) = last (last bs)"
        using last_join [of "[] # bs" "''/''"] False by simp
      moreover have "last (last bs) \<in> set (last bs)" using b(2) by simp
      ultimately show ?thesis using no [of "last bs"] b(1) w by auto
    qed simp
    then have "strip_slashes s = join ''/'' ([] # bs)" using s' by (simp add: strip_slashes_snoc strip_slashes_id)
    then have "split_on CHR ''/'' (strip_slashes s) = [] # bs"
      using no w by (simp only:) (rule split_on_join, auto)
    then show thesis using that nm by blast
  qed
qed

lemma site_path_join:
  assumes "list_all naming (butlast gs)" "gs \<noteq> []" "last gs = [] \<or> naming (last gs)"
    "\<And>w. w \<in> set gs \<Longrightarrow> CHR ''/'' \<notin> set w"
  shows "site_path (join ''/'' ([] # gs))"
proof -
  have "split_on CHR ''/'' (join ''/'' ([] # gs)) = [] # gs" using assms(4) by (intro split_on_join) auto
  then show ?thesis using assms by (simp add: site_path_def)
qed

lemma root_site [simp]: "site_path ''/''"
  by code_simp

lemma resolvePathname_site:
  assumes "site_path from" "no_double u" "u = [] \<or> hd u \<noteq> CHR ''/''"
  shows "site_path (resolvePathname u from)"
proof -
  obtain fs where fs: "split_on CHR ''/'' (strip_slashes from) = [] # fs" "list_all naming fs"
    using site_path_base [OF assms(1)] by blast
  obtain gs where gs: "foldl dot_step ([] # fs) (split_on CHR ''/'' u) = [] # gs"
    "list_all naming (butlast gs)" "gs = [] \<or> last gs = [] \<or> naming (last gs)"
    using dots_result [OF fs(2) no_double_segments [OF assms(2,3)]] by auto
  have "w \<in> set gs \<Longrightarrow> CHR ''/'' \<notin> set w" for w
    using set_dots [of "[] # fs" "split_on CHR ''/'' u"] gs(1) fs(1)
      split_on_parts_no_sep [of w "CHR ''/''" u] split_on_parts_no_sep [of w "CHR ''/''" "strip_slashes from"] by auto
  then show ?thesis
    using gs fs site_path_join [of gs] by (auto simp: resolvePathname_def Let_def)
qed

lemma resolvePath_site:
  assumes "site_path from" "\<not> isAbsoluteUrl (or_else [] (pp_pathname to))"
  shows "site_path (p_pathname (resolvePath to from))"
proof (cases "pp_pathname to")
  case (Some u)
  let ?u = "single_slashes u"
  have "site_path (resolvePathname (drop 1 ?u) ''/'')" if st: "starts_with ?u ''/''"
  proof -
    obtain r where "?u = CHR ''/'' # r" using st by (cases ?u) auto
    then show ?thesis
      using no_double_single [of u] by (intro resolvePathname_site) (auto simp: no_double_Cons)
  qed
  moreover have "site_path (resolvePathname ?u from)" if st: "\<not> starts_with ?u ''/''"
  proof -
    have "?u = [] \<or> hd ?u \<noteq> CHR ''/''" using st by (cases ?u) simp_all
    then show ?thesis using assms(1) no_double_single by (intro resolvePathname_site)
  qed
  ultimately show ?thesis
    using assms Some by (simp add: resolvePath_def or_else_def Let_def)
qed (use assms in \<open>simp add: resolvePath_def\<close>)

subsection \<open>Resolving a target\<close>

lemma site_path_slash:
  assumes "site_path s" "\<not> ends_with s ''/''"
  shows "site_path (s @ ''/'')"
proof -
  obtain ws where ws: "split_on CHR ''/'' s = [] # ws" "ws \<noteq> []" "list_all naming (butlast ws)"
    "last ws = [] \<or> naming (last ws)"
    using assms(1) by (auto simp: site_path_def split: list.splits)
  have "naming (last ws)"
  proof (rule ccontr)
    assume "\<not> naming (last ws)"
    then have "ws = butlast ws @ [[]]" using ws(2,4) by (metis append_butlast_last_id)
    then have "s = join ''/'' ([] # butlast ws) @ ''/''"
      using ws(1) split_on_parts_join [of s] join_append [of "[] # butlast ws" "[[]]" "''/''"] by simp
    then show False using assms(2) by (metis ends_with_def rev_append rev_rev_ident starts_with_append)
  qed
  then have "list_all naming ws" using ws(2,3) by (cases ws rule: rev_cases) auto
  then show ?thesis
    using ws(1) split_on_append_sep [of "CHR ''/''" s "[]"] by (simp add: site_path_def)
qed

lemma climb_segments: "set (fst (climb ws i)) \<subseteq> set ws"
  by (induction ws i rule: climb.induct) auto

lemma climb_suffix: "\<exists>vs. ws = vs @ fst (climb ws i)"
proof (induction ws i rule: climb.induct)
  case (1 w ws i)
  show ?case
  proof (cases "w = ''..''")
    case True
    then obtain vs where "ws = vs @ fst (climb ws (i - 1))" using 1 by blast
    then have "w # ws = (w # vs) @ fst (climb (w # ws) i)" using True by simp
    then show ?thesis by blast
  qed simp
qed simp

lemma climb_dots:
  "ws = [] \<or> hd ws \<noteq> ''..'' \<Longrightarrow> climb (replicate k ''..'' @ ws) i = (ws, i - int k)"
proof (induction k arbitrary: i)
  case 0
  then show ?case by (cases ws) auto
next
  case (Suc k)
  then show ?case using Suc.IH [of "i - 1"] by simp
qed

text \<open>A text that could not be taken for an address of another site.\<close>

definition local_text :: "string \<Rightarrow> bool" where
  "local_text u \<longleftrightarrow> CHR '':'' \<notin> set u \<and> no_double u"

lemma local_not_absolute: "local_text u \<Longrightarrow> \<not> isAbsoluteUrl u"
proof
  assume u: "local_text u" "isAbsoluteUrl u"
  have "\<not> starts_with u ''//''"
  proof
    assume "starts_with u ''//''"
    then obtain r where "u = ''//'' @ r" unfolding starts_with_iff by blast
    then show False using u(1) by (simp add: local_text_def)
  qed
  then have a: "case u of [] \<Rightarrow> False | c # r \<Rightarrow> is_alpha c \<and>
      (case dropWhile scheme_char r of [] \<Rightarrow> False | d # _ \<Rightarrow> d = CHR '':'')"
    using u(2) unfolding isAbsoluteUrl_def by blast
  then obtain c r where u': "u = c # r" by (cases u) simp_all
  with a obtain q where q: "dropWhile scheme_char r = CHR '':'' # q"
    by (cases "dropWhile scheme_char r") simp_all
  have "CHR '':'' \<in> set (dropWhile scheme_char r)" unfolding q by simp
  then have "CHR '':'' \<in> set u" unfolding u' by (auto dest: set_dropWhileD)
  then show False using u(1) unfolding local_text_def by blast
qed

lemma no_double_suffix: "no_double (a @ b) \<Longrightarrow> no_double b"
  by (induction a) (auto simp: no_double_Cons)

lemma local_suffix: "local_text (a @ b) \<Longrightarrow> local_text b"
  using no_double_suffix by (auto simp: local_text_def)

lemma local_parts:
  assumes "local_text u"
  shows "local_text (join ''/'' (fst (climb (split_on CHR ''/'' u) i)))"
proof -
  obtain vs where vs: "split_on CHR ''/'' u = vs @ fst (climb (split_on CHR ''/'' u) i)"
    using climb_suffix by blast
  let ?w = "fst (climb (split_on CHR ''/'' u) i)"
  have u: "u = join ''/'' (vs @ ?w)" using vs join_split_on [of "CHR ''/''" u] by simp
  show ?thesis
  proof (cases "vs = [] \<or> ?w = []")
    case True
    then show ?thesis using assms u by (auto simp: local_text_def)
  next
    case False
    then have "u = (join ''/'' vs @ ''/'') @ join ''/'' ?w" using u by (simp add: join_append)
    then show ?thesis using assms local_suffix by metis
  qed
qed

definition parts_local :: "partial_path \<Rightarrow> bool" where
  "parts_local p \<longleftrightarrow> local_text (or_else [] (pp_pathname p))"

lemma nth_all: "list_all P xs \<Longrightarrow> i < length xs \<Longrightarrow> P (xs ! i)"
  by (simp add: list_all_length)

lemma single_slashes_clean:
  assumes "list_all clean_segment ws" "ws \<noteq> []"
  shows "single_slashes (join ''/'' ws) = join ''/'' ws" "hd (join ''/'' ws) \<noteq> CHR ''/''"
    "join ''/'' ws \<noteq> []"
proof -
  have w: "w \<noteq> [] \<and> CHR ''/'' \<notin> set w" if "w \<in> set ws" for w
    using assms(1) that clean_segmentD by (auto simp: list_all_iff)
  obtain v vs where v: "ws = v # vs" using assms(2) by (cases ws) auto
  then obtain c r where c: "v = c # r" "c \<noteq> CHR ''/''" using w [of v] by (cases v) auto
  have h: "\<exists>r'. join ''/'' ws = c # r'" using v c by (cases vs) auto
  then show "hd (join ''/'' ws) \<noteq> CHR ''/''" "join ''/'' ws \<noteq> []" using c(2) by auto
  have "single_slashes (CHR ''/'' # join ''/'' ws) = CHR ''/'' # join ''/'' ws"
    using w assms(2) by (intro single_slashes_join) (auto simp: list_all_iff)
  then show "single_slashes (join ''/'' ws) = join ''/'' ws" using h c(2) by auto
qed

lemma clean_last:
  assumes "list_all clean_segment ws" "ws \<noteq> []"
  shows "\<not> ends_with (join ''/'' (vs @ ws)) ''/''"
proof -
  have l: "clean_segment (last ws)" using assms by (simp add: list_all_iff)
  then have n: "last ws \<noteq> []" "CHR ''/'' \<notin> set (last ws)" using clean_segmentD by auto
  have "last (join ''/'' (vs @ ws)) = last (last ws)" "join ''/'' (vs @ ws) \<noteq> []"
    using last_join [of "vs @ ws" "''/''"] assms(2) n(1) by simp_all
  then have "last (join ''/'' (vs @ ws)) \<noteq> CHR ''/''" "join ''/'' (vs @ ws) \<noteq> []"
    using n by (metis last_in_set)+
  then show ?thesis
    by (cases "join ''/'' (vs @ ws)" rule: rev_cases) (simp_all add: ends_with_def)
qed

lemma resolve_clean:
  assumes "list_all clean_segment ws" "ws \<noteq> []"
  shows "resolvePathname (join ''/'' ws) from = strip_slashes from @ ''/'' @ join ''/'' ws"
proof -
  have nz: "list_all (\<lambda>w. w \<noteq> [] \<and> CHR ''/'' \<notin> set w) ws"
    using assms(1) clean_segmentD by (auto simp: list_all_iff)
  have "split_on CHR ''/'' (join ''/'' ws) = ws"
    using assms(2) nz by (intro split_on_join) (auto simp: list_all_iff)
  moreover have "length (split_on CHR ''/'' (strip_slashes from) @ ws) > 1"
    using assms(2) by (cases "split_on CHR ''/'' (strip_slashes from)"; cases ws) auto
  ultimately show ?thesis
    using assms by (simp add: resolvePathname_def dots_clean join_append join_split_on Let_def)
qed

lemma route_base_site:
  assumes "route_base parts op routes here by_path = (p, from)" "list_all site_path routes" "site_path here"
    "local_text (or_else [] op)" "parts_local parts"
  shows "site_path from \<and> \<not> isAbsoluteUrl (or_else [] (pp_pathname p))"
proof (cases op)
  case None
  then show ?thesis using assms by (auto simp: route_base_def parts_local_def local_not_absolute)
next
  case (Some u)
  have base: "site_path (if i \<ge> 0 then routes ! nat i else ''/'')" if "i < int (length routes)" for i
    using assms(2) that by (auto intro: nth_all)
  have low: "snd (climb ws j) \<le> j" for ws j
    by (induction ws j rule: climb.induct) force+
  show ?thesis
  proof (cases "\<not> by_path \<and> starts_with u ''..''")
    case True
    obtain us i where c: "climb (split_on CHR ''/'' u) (int (length routes) - 1) = (us, i)" by fastforce
    have "local_text u" using assms(4) Some by (simp add: or_else_def)
    then have "\<not> isAbsoluteUrl (join ''/'' us)"
      using local_parts [of u "int (length routes) - 1"] c local_not_absolute by simp
    moreover have "i < int (length routes)" using low [of "split_on CHR ''/'' u" "int (length routes) - 1"] c by simp
    ultimately show ?thesis
      using assms(1) base Some True c by (auto simp: route_base_def Let_def or_else_def)
  next
    case False
    then show ?thesis
      using assms(1,5) base [of "int (length routes) - 1"] Some
      by (auto simp: route_base_def Let_def parts_local_def local_not_absolute)
  qed
qed

lemma dotted_chars:
  assumes "list_all clean_segment ws" "w \<in> set (replicate k ''..'' @ ws)"
  shows "CHR ''/'' \<notin> set w" "CHR ''?'' \<notin> set w" "CHR ''#'' \<notin> set w"
proof -
  have "w = ''..'' \<or> clean_segment w" using assms by (auto simp: list_all_iff)
  then show "CHR ''/'' \<notin> set w" "CHR ''?'' \<notin> set w" "CHR ''#'' \<notin> set w"
    using clean_segmentD [of w] by auto
qed

lemma dotted_not_dot:
  assumes "list_all clean_segment ws" "ws \<noteq> []"
  shows "join ''/'' (replicate k ''..'' @ ws) \<noteq> [] \<and> join ''/'' (replicate k ''..'' @ ws) \<noteq> ''.''"
proof -
  have l: "last ws \<noteq> [] \<and> last ws \<noteq> ''.''"
    using assms clean_segmentD [of "last ws"] by (auto simp: list_all_iff clean_segment_def)
  show ?thesis
  proof (cases "replicate k ''..'' @ ws = [last ws]")
    case True
    then show ?thesis using l by simp
  next
    case False
    moreover have "last (replicate k ''..'' @ ws) = last ws" using assms(2) by simp
    ultimately obtain x y zs where "replicate k ''..'' @ ws = x # y # zs"
      using assms(2) by (metis append_is_Nil_conv last.simps list.exhaust)
    then have "CHR ''/'' \<in> set (join ''/'' (replicate k ''..'' @ ws))" by (cases zs) auto
    then show ?thesis by auto
  qed
qed

lemma dotted_target:
  assumes "list_all clean_segment ws" "ws \<noteq> []"
  shows "parsePath (join ''/'' (replicate k ''..'' @ ws)) =
    \<lparr>pp_pathname = Some (join ''/'' (replicate k ''..'' @ ws)), pp_search = None, pp_hash = None\<rparr>"
proof -
  let ?u = "join ''/'' (replicate k ''..'' @ ws)"
  have "CHR ''#'' \<notin> set ?u"
    using dotted_chars(3) [OF assms(1)] set_join_subset [of "CHR ''#''" "''/''"] by fastforce
  moreover have "CHR ''?'' \<notin> set ?u"
    using dotted_chars(2) [OF assms(1)] set_join_subset [of "CHR ''?''" "''/''"] by fastforce
  ultimately show ?thesis
    using dotted_not_dot [OF assms] by (simp add: parsePath_def cut_at_none)
qed

lemma route_base_dots:
  assumes "list_all clean_segment ws" "ws \<noteq> []"
    "pp_pathname parts = Some (join ''/'' (replicate k ''..'' @ ws))"
  shows "route_base parts (pp_pathname parts) routes here False =
    (parts\<lparr>pp_pathname := Some (join ''/'' ws)\<rparr>,
     if k < length routes then routes ! (length routes - 1 - k) else ''/'')"
proof -
  let ?u = "join ''/'' (replicate k ''..'' @ ws)"
  have "hd ws \<noteq> ''..''" using assms(1,2) by (cases ws) (auto simp: clean_segment_def)
  moreover have "split_on CHR ''/'' ?u = replicate k ''..'' @ ws"
    using assms(2) dotted_chars(1) [OF assms(1)] by (intro split_on_join) auto
  ultimately have c: "climb (split_on CHR ''/'' ?u) i = (ws, i - int k)" for i
    using climb_dots [of ws k i] by simp
  have "starts_with ?u ''..''" if "k > 0"
    using that assms(2) by (cases k) (simp_all add: join_Cons)
  then have "k = 0" if "\<not> starts_with ?u ''..''" using that by blast
  moreover have "nat (int (length routes) - 1 - int k) = length routes - 1 - k" by simp
  moreover have "(int (length routes) - 1 - int k \<ge> 0) = (k < length routes)" by auto
  ultimately show ?thesis
    using c [of "int (length routes) - 1"] assms(3)
    by (cases "starts_with ?u ''..''") (auto simp: route_base_def Let_def)
qed

section \<open>Properties\<close>

text \<open>
  C31. A location is written as a text from which it is read back, and no other text is
  read as that location.
\<close>

theorem locations_read_back:
  assumes "plain_path p"
  shows "parsePath (createPath (given_path p)) = \<lparr>pp_pathname = Some (p_pathname p),
      pp_search = some_text (p_search p), pp_hash = some_text (p_hash p)\<rparr>
    \<and> (\<forall>t. parsePath t = parsePath (createPath (given_path p)) \<longrightarrow> t = createPath (given_path p))"
proof (intro conjI allI impI)
  let ?q = "\<lparr>pp_pathname = Some (p_pathname p), pp_search = some_text (p_search p),
    pp_hash = some_text (p_hash p)\<rparr>"
  show q: "parsePath (createPath (given_path p)) = ?q" by (rule parse_create [OF assms])
  fix t
  assume "parsePath t = parsePath (createPath (given_path p))"
  then have "parsePath t = ?q" using q by simp
  moreover have "some_text (p_search p) \<noteq> Some ''?''" "some_text (p_hash p) \<noteq> Some ''#''"
    using assms by (auto simp: plain_path_def marked_def some_text_def)
  ultimately have "createPath ?q = t" by (intro create_parse) simp_all
  moreover have "or_else [] (some_text s) = s" for s by (simp add: or_else_def some_text_def)
  ultimately show "t = createPath (given_path p)"
    by (simp add: createPath_def given_path_def or_else_def [of _ "Some _"])
qed

lemma locations_read_back_witness:
  "parsePath ''/explorer/x?a=1#top'' =
     \<lparr>pp_pathname = Some ''/explorer/x'', pp_search = Some ''?a=1'', pp_hash = Some ''#top''\<rparr>"
proof -
  let ?p = "\<lparr>p_pathname = ''/explorer/x'', p_search = ''?a=1'', p_hash = ''#top''\<rparr>"
  have "plain_path ?p" by code_simp
  moreover have "createPath (given_path ?p) = ''/explorer/x?a=1#top''" by code_simp
  ultimately show ?thesis using locations_read_back [of ?p] by (simp add: some_text_def)
qed

text \<open>
  C9. A target without a colon and without a doubled slash stays on the site: resolved
  against routes of the site, climbing or not, it is a path that starts with one slash
  and has no dots and no empty segment before its last.
\<close>

theorem resolved_stays_on_site:
  assumes "list_all site_path routes" "site_path here" "target_parts t = Inr parts" "parts_local parts"
  shows "\<exists>r. resolveTo t routes here by_path = Inr r \<and> site_path (p_pathname r)"
proof -
  define start where "start = (if t = ToText [] \<or> pp_pathname parts = Some [] then Some ''/'' else pp_pathname parts)"
  obtain p fr where b: "route_base parts start routes here by_path = (p, fr)"
    by (cases "route_base parts start routes here by_path") auto
  have "local_text (or_else [] start)"
    using assms(4) by (simp add: start_def parts_local_def or_else_def local_text_def)
  then have "site_path fr \<and> \<not> isAbsoluteUrl (or_else [] (pp_pathname p))"
    using route_base_site [OF b] assms by blast
  then have "site_path (p_pathname (resolvePath p fr))" by (blast intro: resolvePath_site)
  then show ?thesis
    unfolding resolveTo_def assms(3) sum.case Let_def start_def [symmetric] b prod.case
    using site_path_slash by auto
qed

lemma resolved_stays_on_site_witness:
  "\<exists>r. resolveTo (ToText ''../../../etc/./x'') [''/'', ''/explorer/''] ''/explorer/a'' False = Inr r
     \<and> site_path (p_pathname r)"
  by (rule resolved_stays_on_site [of _ _ _ "parsePath ''../../../etc/./x''"])
    (code_simp, code_simp, simp add: target_parts_def, code_simp)



text \<open>
  A colon or a doubled slash behind a leading \<open>..\<close> is not seen by the test for an
  address of another site until the dots are gone.
\<close>

lemma dots_hide_address:
  "resolveTo (ToText ''../javascript:x'') [''/'', ''/explorer''] ''/explorer'' False =
     Inr \<lparr>p_pathname = ''javascript:x'', p_search = [], p_hash = []\<rparr>"
  by code_simp

end
