(* ===== verification/Routing.thy ===== *)
theory Routing
  imports Explorer Router_Paths
begin

text \<open>
  The explorer together with the router of the page: every \<open>navigate\<close> of the tab bar
  is resolved by the router (\<open>target_path\<close>, \<open>root_path\<close>, \<open>root_pathname\<close> and
  \<open>resolve_target\<close> of the bundle, lines 244 and 245), and the location effect of the tab
  bar runs when the resolved path differs from the one before, since the path is a
  dependency of the effect. The targets are absolute. The percent-encoding a browser
  applies to the fragment is left out.
\<close>

section \<open>The router\<close>

text \<open>The path of a target, without its fragment and its query.\<close>

definition target_path :: "string \<Rightarrow> string" where
  "target_path t = takeWhile (\<lambda>c. c \<noteq> CHR ''?'') (takeWhile (\<lambda>c. c \<noteq> CHR ''#'') t)"

text \<open>Relative to the root, whose segments are one empty text.\<close>

definition root_pathname :: "string \<Rightarrow> string" where
  "root_pathname u = (let ed = foldl dot_step [[]] (split_on CHR ''/'' u)
     in if length ed > 1 then join ''/'' ed else ''/'')"

text \<open>A path that starts with two slashes counts as absolute and is taken as it is.\<close>

definition root_path :: "string \<Rightarrow> string" where
  "root_path u = (if starts_with u ''//'' then u else root_pathname (drop 1 (single_slashes u)))"

definition resolve_target :: "string \<Rightarrow> string" where
  "resolve_target t = (let u = target_path t; r = root_path u in
     if \<not> ends_with r ''/'' \<and> u \<noteq> ''/'' \<and> ends_with u ''/'' then r @ ''/'' else r)"

section \<open>The page\<close>

record page =
  bar :: explorer
  at_path :: string

text \<open>A new location: the effect runs when the path is another one.\<close>

definition arrive :: "string \<Rightarrow> string \<Rightarrow> page \<Rightarrow> page" where
  "arrive k q pg = (if q = at_path pg then pg else \<lparr>bar = on_location q k (bar pg), at_path = q\<rparr>)"

text \<open>The last target that the tab bar has asked for is resolved and delivered.\<close>

definition deliver :: "(string \<Rightarrow> string) \<Rightarrow> string \<Rightarrow> page \<Rightarrow> page" where
  "deliver resolve k pg = (if navigated (bar pg) = [] then pg
     else arrive k (resolve (last (navigated (bar pg)))) (pg\<lparr>bar := (bar pg)\<lparr>navigated := []\<rparr>\<rparr>))"

text \<open>
  What happens to the page: a link or the search field leads to a target, or something
  happens to the tab bar. Mounting runs the location effect at the present path.
\<close>

datatype page_event = Visit string | Act event

fun page_act :: "(string \<Rightarrow> string) \<Rightarrow> string \<Rightarrow> page \<Rightarrow> page_event \<Rightarrow> page" where
  "page_act resolve k pg (Visit t) = arrive k (resolve t) pg"
| "page_act resolve k pg (Act Mount) =
     pg\<lparr>bar := on_location (at_path pg) k (explorer_step (bar pg) Mount)\<rparr>"
| "page_act resolve k pg (Act e) = pg\<lparr>bar := explorer_step (bar pg) e\<rparr>"

text \<open>An event with three deliveries, which are enough (theorem routing_settles).\<close>

definition page_step :: "(string \<Rightarrow> string) \<Rightarrow> string \<Rightarrow> page \<Rightarrow> page_event \<Rightarrow> page" where
  "page_step resolve k pg e = deliver resolve k (deliver resolve k (deliver resolve k (page_act resolve k pg e)))"

text \<open>Targets lie below the explorer's path; locations reach the tab bar by the router only.\<close>

fun page_ok :: "page \<Rightarrow> page_event \<Rightarrow> bool" where
  "page_ok pg (Visit t) = starts_with t explorer_url"
| "page_ok pg (Act (Location pn k)) = False"
| "page_ok pg (Act e) = explorer_ok (bar pg) e"

text \<open>Every event comes with the clock's text for the tab it may open.\<close>

definition page_run :: "page \<Rightarrow> string \<times> page_event \<Rightarrow> page" where
  "page_run pg x = page_step resolve_target (fst x) pg (snd x)"

text \<open>The first render, and the location effect before the mounted flag is set.\<close>

definition first_page :: "tab list option \<Rightarrow> string \<Rightarrow> string \<Rightarrow> page" where
  "first_page stored pn k = \<lparr>bar = on_location pn k (initial_explorer stored pn k), at_path = pn\<rparr>"

definition page_inv :: "page \<Rightarrow> bool" where
  "page_inv pg \<longleftrightarrow> explorer_inv (bar pg) \<and> navigated (bar pg) = []"

section \<open>Lemmas on the router\<close>

lemma target_path_id: "CHR ''#'' \<notin> set t \<Longrightarrow> CHR ''?'' \<notin> set t \<Longrightarrow> target_path t = t"
  using takeWhile_eq_all_conv [of "\<lambda>c. c \<noteq> CHR ''#''" t] takeWhile_eq_all_conv [of "\<lambda>c. c \<noteq> CHR ''?''" t]
  unfolding target_path_def by metis

lemma target_path_chars: "CHR ''#'' \<notin> set (target_path t)" "CHR ''?'' \<notin> set (target_path t)"
  by (auto simp: target_path_def dest!: set_takeWhileD)

lemma target_path_query: "CHR ''#'' \<notin> set u \<Longrightarrow> CHR ''?'' \<notin> set u \<Longrightarrow> target_path (u @ CHR ''?'' # q) = u"
proof -
  assume a: "CHR ''#'' \<notin> set u" "CHR ''?'' \<notin> set u"
  have "takeWhile (\<lambda>c. c \<noteq> CHR ''#'') (u @ CHR ''?'' # q) =
      u @ CHR ''?'' # takeWhile (\<lambda>c. c \<noteq> CHR ''#'') q"
    using a(1) by (subst takeWhile_append2) auto
  moreover have "takeWhile (\<lambda>c. c \<noteq> CHR ''?'') (u @ CHR ''?'' # r) = u" for r
    using a(2) by (subst takeWhile_append2) auto
  ultimately show ?thesis by (simp only: target_path_def)
qed

text \<open>A path of clean segments is resolved to itself.\<close>

lemma resolve_target_clean:
  assumes "list_all clean_segment ws" "ws \<noteq> []"
  shows "resolve_target (CHR ''/'' # join ''/'' ws) = CHR ''/'' # join ''/'' ws"
proof -
  let ?t = "CHR ''/'' # join ''/'' ws"
  have nz: "list_all (\<lambda>w. w \<noteq> [] \<and> CHR ''/'' \<notin> set w) ws"
    using assms(1) clean_segmentD by (auto simp: list_all_iff)
  have p: "target_path ?t = ?t" using clean_join_chars [OF assms(1)] by (intro target_path_id)
  have "\<not> starts_with ?t ''//''"
  proof -
    obtain w vs where ws: "ws = w # vs" using assms(2) by (cases ws) auto
    then obtain c r where "w = c # r" "c \<noteq> CHR ''/''" using nz by (cases w) auto
    then show ?thesis using ws by (cases vs) auto
  qed
  moreover have "split_on CHR ''/'' (join ''/'' ws) = ws"
    using assms(2) nz by (intro split_on_join) (auto simp: list_all_iff)
  ultimately have r: "root_path ?t = ?t"
    using assms nz by (simp add: root_path_def single_slashes_join root_pathname_def dots_clean
        join_root Let_def)
  show ?thesis unfolding resolve_target_def p r Let_def by (rule if_not_P) blast
qed

text \<open>Whatever the router reports for an absolute target consists of clean segments.\<close>

lemma resolved_segments:
  assumes "starts_with t ''/''" "\<not> starts_with t ''//''" "w \<in> set (path_segments (resolve_target t))"
  shows "clean_segment w"
proof -
  let ?u = "target_path t"
  define ed where "ed = foldl dot_step [[]] (split_on CHR ''/'' (drop 1 (single_slashes ?u)))"
  have u: "\<not> starts_with ?u ''//''"
    using assms(2) takeWhile_dropWhile_id [of "\<lambda>c. c \<noteq> CHR ''?''" "takeWhile (\<lambda>c. c \<noteq> CHR ''#'') t"]
      takeWhile_dropWhile_id [of "\<lambda>c. c \<noteq> CHR ''#''" t]
    unfolding target_path_def starts_with_iff by (metis append.assoc)
  have ed: "v = [] \<or> clean_segment v" "CHR ''/'' \<notin> set v" if "v \<in> set ed" for v
  proof -
    have v: "v = [] \<or> v \<in> set (split_on CHR ''/'' (drop 1 (single_slashes ?u))) \<and> v \<noteq> ''.'' \<and> v \<noteq> ''..''"
      using that set_dots [of "[[]]"] unfolding ed_def by auto
    then show "CHR ''/'' \<notin> set v" by (auto simp: split_on_parts_no_sep)
    moreover have "set v \<subseteq> set ?u"
      using v set_split_on [of v "CHR ''/''" "drop 1 (single_slashes ?u)"] single_slashes_set [of ?u]
      by (auto dest: in_set_dropD)
    ultimately show "v = [] \<or> clean_segment v"
      using v target_path_chars [of t] unfolding clean_segment_def list_all_iff by blast
  qed
  have ne: "ed \<noteq> []" unfolding ed_def by (intro dots_not_Nil) simp
  have sj: "split_on CHR ''/'' (join ''/'' ed) = ed"
    using ne ed(2) by (intro split_on_join)
  have r: "root_path ?u = (if length ed > 1 then join ''/'' ed else ''/'')"
    using u by (simp add: root_path_def root_pathname_def ed_def)
  have parts: "set (split_on CHR ''/'' (resolve_target t)) \<subseteq> insert [] (set ed)"
    unfolding resolve_target_def Let_def r using sj by (auto simp: split_on_append_sep)
  have "CHR ''#'' \<notin> set (resolve_target t)"
  proof
    assume "CHR ''#'' \<in> set (resolve_target t)"
    then have "CHR ''#'' \<in> set (join ''/'' ed)" unfolding resolve_target_def Let_def r by (auto split: if_splits)
    then obtain v where "v \<in> set ed" "CHR ''#'' \<in> set v" by (auto dest: set_join_subset)
    then show False using ed(1) clean_segmentD by force
  qed
  then show ?thesis
    using assms(3) parts ed(1) by (auto simp: path_segments_def strip_fragment_id)
qed

lemma explorer_target: "starts_with t explorer_url \<Longrightarrow> starts_with t ''/'' \<and> \<not> starts_with t ''//''"
  by (auto simp: starts_with_iff explorer_url_def)

section \<open>Lemmas on the location effect\<close>

text \<open>The effect asks for a target when it opens a tab, or when the location names no path.\<close>

lemma on_location_navigated:
  assumes "extractDetailsFromPath pn = (p, sub)" "navigated s = []"
  obtains "navigated (on_location pn k s) = []"
  | "p \<noteq> []" "navigated (on_location pn k s) = [explorer_url @ p @ sub]"
    "find_index (shows_location p sub) (tabs (on_location pn k s)) \<noteq> None"
  | "tabs (on_location pn k s) = tabs s"
    "navigated (on_location pn k s) = [explorer_url @ text_of (path (tabs s ! 0))]"
proof (cases "skip_effect s \<or> \<not> mounted s")
  case True
  then have "navigated (on_location pn k s) = []"
    using assms by (auto simp: on_location_def update_location_def Let_def split: option.splits)
  then show ?thesis using that(1) by blast
next
  case False
  show ?thesis
  proof (cases "p = []")
    case True
    then show ?thesis
      using that(1,3) False assms by (cases "on_location pn k s = s") (auto simp: on_location_def split: if_splits)
  next
    case p: False
    show ?thesis
    proof (cases "find_index (shows_location p sub) (tabs s)")
      case None
      then have o: "on_location pn k s = open_location p sub k s"
        using False p assms(1) by (simp add: on_location_def)
      have "find_index (shows_location p sub) (tabs (open_location p sub k s)) \<noteq> None"
        using open_location_settled [OF None, of k] unfolding settled_def by fastforce
      moreover have "navigated (open_location p sub k s) = [explorer_url @ p @ sub]"
        using assms(2) by (simp add: open_location_def)
      ultimately show ?thesis using that(2) p o by simp
    next
      case (Some i)
      then have "navigated (on_location pn k s) = []"
        using False p assms by (auto simp: on_location_def update_location_def Let_def)
      then show ?thesis using that(1) by blast
    qed
  qed
qed

lemma on_location_shown:
  assumes "extractDetailsFromPath pn = (p, sub)" "p \<noteq> []" "navigated s = []"
    and "find_index (shows_location p sub) (tabs s) \<noteq> None"
  shows "navigated (on_location pn k s) = []"
  using assms by (auto simp: on_location_def update_location_def Let_def)

lemma explorer_step_navigated:
  assumes "navigated s = []" "\<And>pn k. e \<noteq> Location pn k"
  shows "navigated (explorer_step s e) = [] \<or> (\<exists>x. navigated (explorer_step s e) = [explorer_url @ x])"
  using assms by (cases e) (auto simp: on_path_change_def on_click_def on_new_tab_def on_close_def on_clear_def Let_def)

section \<open>The contract of a router\<close>

text \<open>
  A router sends the targets of the tab bar to paths; a path and sub-path read off such
  a location are read off again after a tab has been opened for them.
\<close>

locale router =
  fixes resolve :: "string \<Rightarrow> string"
    and target :: "string \<Rightarrow> bool"
  assumes target_below: "target (explorer_url @ x)"
    and resolve_stable: "target t \<Longrightarrow> extractDetailsFromPath (resolve t) = (p, sub) \<Longrightarrow> p \<noteq> [] \<Longrightarrow>
      extractDetailsFromPath (resolve (explorer_url @ p @ sub)) = (p, sub)"
begin

definition quiet :: "page \<Rightarrow> bool" where
  "quiet pg \<longleftrightarrow> navigated (bar pg) = []"

definition opened :: "page \<Rightarrow> bool" where
  "opened pg \<longleftrightarrow> (\<exists>p sub. p \<noteq> [] \<and> extractDetailsFromPath (resolve (explorer_url @ p @ sub)) = (p, sub) \<and>
     navigated (bar pg) = [explorer_url @ p @ sub] \<and>
     find_index (shows_location p sub) (tabs (bar pg)) \<noteq> None)"

definition home :: "page \<Rightarrow> bool" where
  "home pg \<longleftrightarrow> navigated (bar pg) = [explorer_url @ text_of (path (tabs (bar pg) ! 0))]"

definition stays_home :: "page \<Rightarrow> bool" where
  "stays_home pg \<longleftrightarrow> home pg \<and> at_path pg = resolve (explorer_url @ text_of (path (tabs (bar pg) ! 0)))"

lemmas stages = quiet_def opened_def home_def stays_home_def

lemma effect_stages:
  fixes k
  assumes "target t" "navigated b = []"
  defines "pg \<equiv> \<lparr>bar = on_location (resolve t) k b, at_path = resolve t\<rparr>"
  shows "quiet pg \<or> opened pg \<or> home pg \<and> tabs (bar pg) = tabs b"
proof -
  obtain p sub where e: "extractDetailsFromPath (resolve t) = (p, sub)" by fastforce
  show ?thesis
    using e assms(2)
  proof (cases rule: on_location_navigated [where k = k])
    case 2
    then show ?thesis
      using resolve_stable [OF assms(1) e] by (auto simp: stages pg_def)
  qed (simp_all add: stages pg_def)
qed

lemma arrive_stages:
  assumes "target t" "quiet pg"
  shows "quiet (arrive k (resolve t) pg) \<or> opened (arrive k (resolve t) pg) \<or>
    home (arrive k (resolve t) pg) \<and> tabs (bar (arrive k (resolve t) pg)) = tabs (bar pg)
      \<and> at_path (arrive k (resolve t) pg) = resolve t"
  using effect_stages [OF assms(1), of "bar pg" k] assms(2) by (auto simp: arrive_def quiet_def)

lemma deliver_quiet: "quiet pg \<Longrightarrow> deliver resolve k pg = pg"
  by (simp add: deliver_def quiet_def)

lemma deliver_pending:
  "navigated (bar pg) = [t] \<Longrightarrow>
   deliver resolve k pg = arrive k (resolve t) (pg\<lparr>bar := (bar pg)\<lparr>navigated := []\<rparr>\<rparr>)"
  by (simp add: deliver_def)

lemma deliver_opened: "opened pg \<Longrightarrow> quiet (deliver resolve k pg)"
  unfolding opened_def
  by (auto simp: deliver_pending arrive_def quiet_def on_location_shown)

lemma deliver_stays_home: "stays_home pg \<Longrightarrow> quiet (deliver resolve k pg)"
  by (simp add: stages deliver_pending arrive_def)

lemma deliver_home:
  assumes "home pg"
  shows "quiet (deliver resolve k pg) \<or> opened (deliver resolve k pg) \<or> stays_home (deliver resolve k pg)"
proof -
  let ?x = "text_of (path (tabs (bar pg) ! 0))" and ?pg = "pg\<lparr>bar := (bar pg)\<lparr>navigated := []\<rparr>\<rparr>"
  have d: "deliver resolve k pg = arrive k (resolve (explorer_url @ ?x)) ?pg"
    using assms by (intro deliver_pending) (simp add: home_def)
  have q: "quiet ?pg" by (simp add: quiet_def)
  have "tabs (bar ?pg) = tabs (bar pg)" by simp
  then show ?thesis
    unfolding d stays_home_def using arrive_stages [OF target_below q, of k ?x] by metis
qed

lemma deliver_any:
  assumes "navigated (bar pg) = [explorer_url @ x]"
  shows "quiet (deliver resolve k pg) \<or> opened (deliver resolve k pg) \<or> home (deliver resolve k pg)"
  using arrive_stages [OF target_below, of "pg\<lparr>bar := (bar pg)\<lparr>navigated := []\<rparr>\<rparr>" k] assms
  by (auto simp: deliver_pending quiet_def)

lemma three_deliveries:
  assumes "quiet pg \<or> (\<exists>x. navigated (bar pg) = [explorer_url @ x])"
  shows "quiet (deliver resolve k (deliver resolve k (deliver resolve k pg)))"
  using assms
proof
  assume "\<exists>x. navigated (bar pg) = [explorer_url @ x]"
  then consider "quiet (deliver resolve k pg)" | "opened (deliver resolve k pg)" | "home (deliver resolve k pg)"
    using deliver_any by blast
  then show ?thesis
  proof cases
    case 3
    then show ?thesis
      using deliver_home [OF 3, of k] deliver_opened deliver_stays_home deliver_quiet by metis
  qed (simp_all add: deliver_quiet deliver_opened)
qed (simp add: deliver_quiet)

end

interpretation hash_router: router resolve_target "\<lambda>t. starts_with t explorer_url"
proof
  show "starts_with (explorer_url @ x) explorer_url" for x by simp
next
  fix t p sub
  assume t: "starts_with t explorer_url" "extractDetailsFromPath (resolve_target t) = (p, sub)" "p \<noteq> []"
  have clean: "clean_segment w" if "w \<in> set (path_segments (resolve_target t))" for w
    using resolved_segments that explorer_target [OF t(1)] by blast
  obtain a rest where g: "path_segments (resolve_target t) = a # p # rest" "p @ sub = join ''/'' (p # rest)"
    using extract_details_cases [OF t(2,3)] by metis
  have "explorer_url @ p @ sub = CHR ''/'' # join ''/'' (''explorer'' # p # rest)"
    unfolding g(2) by (simp add: explorer_url_def)
  moreover have "list_all clean_segment (''explorer'' # p # rest)"
    using clean g(1) by (auto simp: list_all_iff clean_segment_def)
  ultimately have "resolve_target (explorer_url @ p @ sub) = explorer_url @ p @ sub"
    using resolve_target_clean [of "''explorer'' # p # rest"] by simp
  moreover have "extractDetailsFromPath (explorer_url @ p @ sub) = (p, sub)"
    using clean clean_segmentD by (intro extract_details_clean_segments [OF t(2,3)]) blast
  ultimately show "extractDetailsFromPath (resolve_target (explorer_url @ p @ sub)) = (p, sub)" by simp
qed

lemma on_location_pending:
  "navigated s = [] \<Longrightarrow> navigated (on_location pn k s) = [] \<or>
     (\<exists>x. navigated (on_location pn k s) = [explorer_url @ x])"
  by (cases "extractDetailsFromPath pn", erule on_location_navigated) auto

lemma page_act_pending:
  assumes "navigated (bar pg) = []" "page_ok pg e"
  shows "navigated (bar (page_act resolve k pg e)) = [] \<or>
    (\<exists>x. navigated (bar (page_act resolve k pg e)) = [explorer_url @ x])"
proof (cases e)
  case (Visit t)
  then show ?thesis using on_location_pending assms by (simp add: arrive_def)
next
  case (Act a)
  show ?thesis
  proof (cases "a = Mount")
    case True
    then show ?thesis using Act on_location_pending assms by simp
  next
    case False
    moreover have "a \<noteq> Location pn l" for pn l using assms(2) Act by auto
    ultimately show ?thesis
      using Act explorer_step_navigated [OF assms(1), of a] by (cases a) auto
  qed
qed

lemma page_step_quiet:
  assumes "navigated (bar pg) = []" "page_ok pg e"
  shows "navigated (bar (page_step resolve_target k pg e)) = []"
  using hash_router.three_deliveries [of "page_act resolve_target k pg e" k] page_act_pending [OF assms]
  by (simp add: page_step_def hash_router.quiet_def)

lemma page_act_inv:
  assumes "explorer_inv (bar pg)" "page_ok pg e"
  shows "explorer_inv (bar (page_act resolve k pg e))"
proof (cases e)
  case (Visit t)
  then show ?thesis using assms by (simp add: arrive_def explorer_inv_location)
next
  case (Act a)
  then have "explorer_inv (explorer_step (bar pg) a)"
    using assms by (cases a) (simp_all add: tabbar.inv_step del: explorer_step.simps)
  then show ?thesis using Act by (cases a) (simp_all add: explorer_inv_location)
qed

lemma deliver_inv: "explorer_inv (bar pg) \<Longrightarrow> explorer_inv (bar (deliver resolve k pg))"
  using explorer_inv_location [of "(bar pg)\<lparr>navigated := []\<rparr>"]
  by (simp add: deliver_def arrive_def explorer_inv_def)

interpretation routed_page: machine page_run "\<lambda>pg x. page_ok pg (snd x)" page_inv
  by unfold_locales
    (simp add: page_inv_def page_run_def page_step_quiet, simp add: page_step_def deliver_inv page_act_inv)

lemma page_inv_first: "page_inv (first_page stored pn k)"
proof -
  let ?s = "initial_explorer stored pn k"
  have "mounted ?s = False" "navigated ?s = []"
    by (simp_all add: initial_explorer_def Let_def split: prod.splits)
  then have "navigated (on_location pn k ?s) = []"
    by (auto simp: on_location_def update_location_def Let_def split: prod.splits option.splits)
  then show ?thesis
    by (simp add: page_inv_def first_page_def explorer_inv_location explorer_inv_initial)
qed

text \<open>The router at a path of clean segments, and at one with a query.\<close>

definition below :: "string list \<Rightarrow> string" where
  "below ws = explorer_url @ join ''/'' ws"

lemma below_root: "ws \<noteq> [] \<Longrightarrow> below ws = CHR ''/'' # join ''/'' (''explorer'' # ws)"
  by (simp add: below_def explorer_url_def join_Cons)

lemma clean_explorer: "list_all clean_segment ws \<Longrightarrow> list_all clean_segment (''explorer'' # ws)"
  by (simp add: clean_segment_def)

lemma resolve_below:
  assumes "list_all clean_segment ws" "ws \<noteq> []"
  shows "resolve_target (below ws) = below ws" "resolve_target (below ws @ CHR ''?'' # q) = below ws"
proof -
  note c = clean_explorer [OF assms(1)]
  show r: "resolve_target (below ws) = below ws"
    unfolding below_root [OF assms(2)] using c by (intro resolve_target_clean) simp_all
  have n: "CHR ''#'' \<notin> set (below ws)" "CHR ''?'' \<notin> set (below ws)"
    unfolding below_root [OF assms(2)] using clean_join_chars [OF c] by blast+
  show "resolve_target (below ws @ CHR ''?'' # q) = below ws"
    using r by (simp only: resolve_target_def target_path_query [OF n] target_path_id [OF n])
qed

lemma extract_below:
  assumes "list_all clean_segment (p # rest)"
  shows "extractDetailsFromPath (below (p # rest)) = (p, if rest = [] then [] else CHR ''/'' # join ''/'' rest)"
proof -
  have c: "w \<noteq> [] \<and> CHR ''/'' \<notin> set w \<and> CHR ''#'' \<notin> set w" if "w \<in> set (p # rest)" for w
    using that assms clean_segmentD unfolding list_all_iff by blast
  then have "path_segments (below (p # rest)) = ''explorer'' # p # rest"
    unfolding below_def by (intro extract_explorer_url) auto
  moreover have "join ''/'' rest = [] \<longleftrightarrow> rest = []" using c by (intro join_eq_Nil) auto
  ultimately show ?thesis by (simp add: extract_details_of_segments)
qed

lemma click_target:
  assumes "tid (tabs b ! i) \<noteq> []" "path (tabs b ! i) = Some x" "x \<noteq> []" "navigated b = []"
  shows "on_click i b = b\<lparr>active := i, navigated := [explorer_url @ x]\<rparr>"
  using assms by (simp add: on_click_def navigate_def text_of_def Let_def)

lemma page_click:
  assumes "tid (tabs (bar pg) ! i) \<noteq> []" "path (tabs (bar pg) ! i) = Some x" "x \<noteq> []"
    "navigated (bar pg) = []"
  shows "page_step resolve_target k pg (Act (ClickTab i)) =
    deliver resolve_target k (deliver resolve_target k
      (arrive k (resolve_target (explorer_url @ x)) (pg\<lparr>bar := (bar pg)\<lparr>active := i\<rparr>\<rparr>)))"
proof -
  have n: "(bar pg)\<lparr>active := i, navigated := []\<rparr> = (bar pg)\<lparr>active := i\<rparr>" using assms(4) by simp
  show ?thesis
    using click_target [OF assms] n by (simp add: page_step_def deliver_def)
qed

section \<open>Properties\<close>

text \<open>
  However the explorer is visited and clicked from its first render on, three
  deliveries by the router after each event are enough: no target is left to navigate
  to, so that the tab bar and the router do not chase each other, and the active index
  is that of a tab.
\<close>

theorem routing_settles:
  assumes "permitted (\<lambda>pg x. page_ok pg (snd x)) page_run (first_page stored pn k0) es"
  shows "let pg = foldl page_run (first_page stored pn k0) es in
    navigated (bar pg) = [] \<and> deliver resolve_target k pg = pg \<and> active (bar pg) < length (tabs (bar pg))"
  using routed_page.inv_run [OF page_inv_first assms]
  by (simp add: page_inv_def explorer_inv_def Let_def hash_router.deliver_quiet hash_router.quiet_def)

text \<open>
  A click on the first tab that shows a location whose segments the router leaves
  alone ends at that location with the tab active, and the paths of all tabs are kept.
\<close>

theorem click_shows_tab:
  fixes k
  assumes "mounted (bar pg)" "\<not> skip_effect (bar pg)" "navigated (bar pg) = []"
    and "list_all clean_segment (p # rest)" "path (tabs (bar pg) ! i) = Some (join ''/'' (p # rest))"
    and "tid (tabs (bar pg) ! i) \<noteq> []"
    and "find_index (shows_location p (if rest = [] then [] else CHR ''/'' # join ''/'' rest))
      (tabs (bar pg)) = Some i"
  defines "pg' \<equiv> page_step resolve_target k pg (Act (ClickTab i))"
  shows "active (bar pg') = i \<and> at_path pg' = below (p # rest) \<and>
    map path (tabs (bar pg')) = map path (tabs (bar pg)) \<and> navigated (bar pg') = []"
proof -
  let ?x = "join ''/'' (p # rest)" and ?sub = "if rest = [] then [] else CHR ''/'' # join ''/'' rest"
  let ?b = "(bar pg)\<lparr>active := i\<rparr>" and ?q = "below (p # rest)"
  have x1: "?x = p @ ?sub" by (cases rest) (simp_all add: join_Cons)
  have "p \<noteq> []" using assms(4) by (simp add: clean_segment_def)
  then have x: "?x = p @ ?sub" "p \<noteq> []" "?x \<noteq> []" unfolding x1 by simp_all
  have u: "update_location i p ?sub ?b = ?b \<or>
      update_location i p ?sub ?b = ?b\<lparr>tabs := (tabs ?b)[i := (tabs ?b ! i)\<lparr>basePath := Some p, path := Some ?x\<rparr>]\<rparr>"
    using assms(1) x(1) by (simp add: update_location_def Let_def)
  have l: "on_location ?q k ?b = update_location i p ?sub ?b"
    using extract_below [OF assms(4)] x(2) assms(2,7) by (simp add: on_location_def)
  have pg': "pg' = deliver resolve_target k (deliver resolve_target k (arrive k ?q (pg\<lparr>bar := ?b\<rparr>)))"
    using page_click [OF assms(6,5) x(3) assms(3)] resolve_below(1) [OF assms(4)]
    by (simp add: pg'_def below_def)
  have m: "(map path (tabs (bar pg)))[i := Some ?x] = map path (tabs (bar pg))"
    using list_update_id [of "map path (tabs (bar pg))" i] find_index_less [OF assms(7)] assms(5)
    by simp
  define pa where "pa = arrive k ?q (pg\<lparr>bar := ?b\<rparr>)"
  have pa: "active (bar pa) = i" "at_path pa = ?q" "navigated (bar pa) = []"
    "map path (tabs (bar pa)) = map path (tabs (bar pg))"
    using u l m assms(3) by (auto simp: pa_def arrive_def map_update)
  have "pg' = pa"
    using pa(3) by (simp add: pg' pa_def [symmetric] hash_router.deliver_quiet hash_router.quiet_def)
  then show ?thesis using pa by simp
qed

lemma click_shows_tab_witness:
  "active (bar (page_step resolve_target ''k'' \<lparr>bar = \<lparr>tabs = [location_tab ''a'' [] ''x'', location_tab ''b'' ''/c'' ''y''],
     active = 0, clear_modal = False, busy = False, mounted = True, skip_effect = False, navigated = []\<rparr>,
     at_path = ''/explorer/a''\<rparr> (Act (ClickTab 1)))) = 1"
  using click_shows_tab [of "\<lparr>bar = \<lparr>tabs = [location_tab ''a'' [] ''x'', location_tab ''b'' ''/c'' ''y''],
     active = 0, clear_modal = False, busy = False, mounted = True, skip_effect = False, navigated = []\<rparr>,
     at_path = ''/explorer/a''\<rparr>" "''b''" "[''c'']" 1 "''k''"]
  by (simp add: location_tab_def shows_location_def clean_segment_def)

lemma routing_settles_witness:
  "navigated (bar (foldl page_run (first_page None ''/explorer/abc'' ''a'')
     [(''b'', Act Mount), (''c'', Visit ''/explorer//x/../y?z''), (''d'', Act (ClickTab 0))])) = []"
  using routing_settles [of None "''/explorer/abc''" "''a''" "[(''b'', Act Mount),
      (''c'', Visit ''/explorer//x/../y?z''), (''d'', Act (ClickTab 0))]" "[]"]
    routed_page.inv_run [OF page_inv_first, of None "''/explorer/abc''" "''a''" "[(''b'', Act Mount),
      (''c'', Visit ''/explorer//x/../y?z'')]"]
  by (simp add: Let_def explorer_url_def page_inv_def explorer_inv_def)

text \<open>
  When a request reports the path the page is already at, nothing is navigated to and
  the flag that was to absorb the location change stays set: the next target that is
  visited changes the location, but no tab is opened or activated for it.
\<close>

theorem report_swallows_next_visit:
  fixes k k' :: string and i :: nat
  assumes "\<not> busy (bar pg)" "navigated (bar pg) = []"
    and "resolve_target (explorer_url @ text_of (path info)) = at_path pg" "resolve_target t \<noteq> at_path pg"
  defines "pg1 \<equiv> page_run pg (k, Act (PathChange i info))"
  defines "pg2 \<equiv> page_run pg1 (k', Visit t)"
  shows "at_path pg1 = at_path pg \<and> at_path pg2 = resolve_target t \<and>
    tabs (bar pg2) = tabs (bar pg1) \<and> active (bar pg2) = active (bar pg)"
proof -
  let ?b = "on_path_change i info (bar pg)"
  have b: "navigated ?b = [explorer_url @ text_of (path info)]" "skip_effect ?b"
    "active ?b = active (bar pg)"
    using assms(1,2) by (simp_all add: on_path_change_def)
  have pg1: "pg1 = \<lparr>bar = ?b\<lparr>navigated := []\<rparr>, at_path = at_path pg\<rparr>"
    using b(1) assms(3) by (simp add: pg1_def page_run_def page_step_def deliver_def arrive_def)
  have "pg2 = \<lparr>bar = ?b\<lparr>navigated := [], skip_effect := False\<rparr>, at_path = resolve_target t\<rparr>"
    using assms(4) b(2)
    by (simp add: pg2_def pg1 page_run_def page_step_def deliver_def arrive_def on_location_def)
  then show ?thesis using b(3) pg1 by simp
qed

lemma report_swallows_next_visit_witness:
  "let pg = page_run (page_run \<lparr>bar = \<lparr>tabs = [location_tab ''abc'' [] ''k''], active = 0, clear_modal = False,
       busy = False, mounted = True, skip_effect = False, navigated = []\<rparr>, at_path = ''/explorer/abc''\<rparr>
     (''l'', Act (PathChange 0 ((location_tab ''abc'' [] ''k'')\<lparr>tid := ''id''\<rparr>))))
     (''m'', Visit ''/explorer/xyz'') in at_path pg = ''/explorer/xyz'' \<and> active (bar pg) = 0"
  using report_swallows_next_visit [of "\<lparr>bar = \<lparr>tabs = [location_tab ''abc'' [] ''k''], active = 0,
       clear_modal = False, busy = False, mounted = True, skip_effect = False, navigated = []\<rparr>,
       at_path = ''/explorer/abc''\<rparr>" "(location_tab ''abc'' [] ''k'')\<lparr>tid := ''id''\<rparr>" "''/explorer/xyz''"
      "''l''" 0 "''m''"]
  resolve_below(1) [of "[''abc'']"] resolve_below(1) [of "[''xyz'']"]
  by (simp add: location_tab_def text_of_def below_def explorer_url_def clean_segment_def Let_def)

text \<open>
  A tab whose path has a query is not found again by a click on it from another
  location: the location the router reports has no query, so that a second tab without
  it is opened and shown instead.
\<close>

theorem query_tab_opens_another:
  fixes k :: string
  assumes "mounted (bar pg)" "\<not> skip_effect (bar pg)" "navigated (bar pg) = []"
    and "list_all clean_segment (p # rest)" "path (tabs (bar pg) ! i) = Some (join ''/'' (p # rest) @ CHR ''?'' # q)"
    and "tid (tabs (bar pg) ! i) \<noteq> []" "i < length (tabs (bar pg))" "at_path pg \<noteq> below (p # rest)"
  defines "sub \<equiv> if rest = [] then [] else CHR ''/'' # join ''/'' rest"
  defines "b' \<equiv> bar (page_step resolve_target k pg (Act (ClickTab i)))"
  assumes "find_index (shows_location p sub) (tabs (bar pg)) = None" "length (tabs (bar pg)) > 1"
  shows "tabs b' = tabs (bar pg) @ [location_tab p sub k] \<and> active b' = length (tabs (bar pg))"
proof -
  let ?b = "(bar pg)\<lparr>active := i\<rparr>" and ?q = "below (p # rest)"
  have e: "extractDetailsFromPath ?q = (p, sub)" using extract_below [OF assms(4)] by (simp add: sub_def)
  have p: "p \<noteq> []" using assms(4) by (simp add: clean_segment_def)
  have u: "explorer_url @ p @ sub = ?q" by (cases rest) (simp_all add: below_def sub_def join_Cons)
  have l: "on_location ?q k ?b = open_location p sub k ?b"
    using e p assms(1,2,11) by (simp add: on_location_def)
  let ?pa = "\<lparr>bar = open_location p sub k ?b, at_path = ?q\<rparr>"
  have a: "arrive k ?q (pg\<lparr>bar := ?b\<rparr>) = ?pa" using assms(8) l by (simp add: arrive_def)
  have o: "navigated (bar ?pa) = [?q]" "tabs (bar ?pa) = tabs (bar pg) @ [location_tab p sub k]"
    "active (bar ?pa) = length (tabs (bar pg))"
    using assms(3,12) u by (simp_all add: open_location_def)
  have d: "deliver resolve_target k ?pa = ?pa\<lparr>bar := (bar ?pa)\<lparr>navigated := []\<rparr>\<rparr>"
    using o(1) resolve_below(1) [OF assms(4)] by (simp add: deliver_def arrive_def)
  have b': "b' = (bar ?pa)\<lparr>navigated := []\<rparr>"
    using page_click [OF assms(6,5) _ assms(3), of k] resolve_below(2) [OF assms(4), of q] a d
    by (simp add: b'_def below_def) (simp add: deliver_def)
  show ?thesis using o unfolding b' by simp
qed

lemma query_tab_opens_another_witness:
  "length (tabs (bar (page_step resolve_target ''k'' \<lparr>bar = \<lparr>tabs = [location_tab ''a'' [] ''x'',
     (location_tab ''b'' [] ''y'')\<lparr>path := Some ''b?c''\<rparr>], active = 0, clear_modal = False, busy = False,
     mounted = True, skip_effect = False, navigated = []\<rparr>, at_path = ''/explorer/a''\<rparr> (Act (ClickTab 1))))) = 3"
  using query_tab_opens_another [of "\<lparr>bar = \<lparr>tabs = [location_tab ''a'' [] ''x'',
     (location_tab ''b'' [] ''y'')\<lparr>path := Some ''b?c''\<rparr>], active = 0, clear_modal = False, busy = False,
     mounted = True, skip_effect = False, navigated = []\<rparr>, at_path = ''/explorer/a''\<rparr>" "''b''" "[]" 1 "''c''" "''k''"]
  by (simp add: location_tab_def shows_location_def clean_segment_def below_def explorer_url_def)

end
