(* ===== verification/Router_Match.thy ===== *)
theory Router_Match
  imports Router_Paths "HOL-Library.AList" "HOL-Library.Multiset" "HOL-Library.Product_Lexorder"
begin

text \<open>
  Which route a path is shown by (line 244 of the bundle): the tree of routes is
  flattened into branches (\<open>flattenRoutes\<close>, \<open>explodeOptionalSegments\<close>), the branches
  are ranked by a score (\<open>computeScore\<close>, \<open>compareIndexes\<close>, \<open>rankRouteBranches\<close>), and the
  first one that matches is taken (\<open>compilePath\<close>, \<open>matchPath\<close>, \<open>matchRouteBranch\<close>,
  \<open>matchRoutes\<close>). A pattern is compiled to the pieces of its regular expression, which
  is run with backtracking in the order of the language. Left out are the warnings and
  patterns with a question mark that does not end a parameter, for which \<open>compilePath\<close>
  is \<^const>\<open>None\<close>. \<open>decodeURIComponent\<close> is an argument.
\<close>

section \<open>Routes and branches\<close>

datatype route = Route (route_path: "string option") (route_index: bool) (route_sensitive: bool)
    (route_children: "route list")

record route_meta =
  relativePath :: string
  caseSensitive :: bool
  childrenIndex :: nat
  meta_route :: route

record branch =
  branch_path :: string
  score :: int
  routesMeta :: "route_meta list"

datatype route_error = OutsideParent string string | IndexWithChildren string

subsection \<open>Scores\<close>

text \<open>\<open>/^:[\w-]+$/\<close>\<close>

definition name_char :: "char \<Rightarrow> bool" where
  "name_char c \<longleftrightarrow> is_word c \<or> c = CHR ''-''"

definition param_segment :: "string \<Rightarrow> bool" where
  "param_segment w = (case w of [] \<Rightarrow> False | c # r \<Rightarrow> c = CHR '':'' \<and> r \<noteq> [] \<and> list_all name_char r)"

definition segment_value :: "string \<Rightarrow> int" where
  "segment_value w = (if param_segment w then 3 else if w = [] then 1 else 10)"

definition computeScore :: "string \<Rightarrow> bool \<Rightarrow> int" where
  "computeScore p index = (let ed = split_on CHR ''/'' p;
       start = int (length ed) + (if list_ex (\<lambda>w. w = ''*'') ed then - 2 else 0) + (if index then 2 else 0)
     in start + sum_list (map segment_value (filter (\<lambda>w. w \<noteq> ''*'') ed)))"

text \<open>Siblings keep their order; other branches of one score are not compared.\<close>

definition compareIndexes :: "nat list \<Rightarrow> nat list \<Rightarrow> int" where
  "compareIndexes a b = (if length a = length b \<and> butlast a = butlast b
     then int (last a) - int (last b) else 0)"

definition compare_branches :: "branch \<Rightarrow> branch \<Rightarrow> int" where
  "compare_branches a b = (if score a \<noteq> score b then score b - score a
     else compareIndexes (map childrenIndex (routesMeta a)) (map childrenIndex (routesMeta b)))"

text \<open>A stable sort: an element goes behind those it does not precede.\<close>

fun insert_branch :: "branch \<Rightarrow> branch list \<Rightarrow> branch list" where
  "insert_branch x [] = [x]"
| "insert_branch x (y # ys) = (if compare_branches x y < 0 then x # y # ys else y # insert_branch x ys)"

definition rankRouteBranches :: "branch list \<Rightarrow> branch list" where
  "rankRouteBranches bs = foldl (\<lambda>acc x. insert_branch x acc) [] bs"

subsection \<open>Flattening\<close>

definition is_optional :: "string \<Rightarrow> bool" where
  "is_optional w = ends_with w ''?''"

definition required :: "string \<Rightarrow> string" where
  "required w = (if is_optional w then butlast w else w)"

fun explode_segments :: "string list \<Rightarrow> string list" where
  "explode_segments [] = []"
| "explode_segments [w] = (if is_optional w then [required w, []] else [required w])"
| "explode_segments (w # v # ws) = (let op = explode_segments (v # ws);
       all = map (\<lambda>r. if r = [] then required w else required w @ ''/'' @ r) op
         @ (if is_optional w then op else [])
     in map (\<lambda>r. if starts_with (join ''/'' (w # v # ws)) ''/'' \<and> r = [] then ''/'' else r) all)"

definition explodeOptionalSegments :: "string \<Rightarrow> string list" where
  "explodeOptionalSegments p = explode_segments (split_on CHR ''/'' p)"

fun in_order :: "('e + 'a list) list \<Rightarrow> 'e + 'a list" where
  "in_order [] = Inr []"
| "in_order (Inl e # r) = Inl e"
| "in_order (Inr x # r) = map_sum id ((@) x) (in_order r)"

definition relative_paths :: "route \<Rightarrow> string list" where
  "relative_paths r = (let p = or_else [] (route_path r) in
     if CHR ''?'' \<in> set p then explodeOptionalSegments p else [p])"

definition below_parent :: "string \<Rightarrow> string \<Rightarrow> route_error + string" where
  "below_parent parent rel = (if starts_with rel ''/''
     then (if starts_with rel parent then Inr (drop (length parent) rel) else Inl (OutsideParent rel parent))
     else Inr rel)"

definition own_branch :: "route \<Rightarrow> string \<Rightarrow> route_meta list \<Rightarrow> branch list" where
  "own_branch r p metas = (if route_path r = None \<and> \<not> route_index r then []
     else [\<lparr>branch_path = p, score = computeScore p (route_index r), routesMeta = metas\<rparr>])"

function flattenRoutes :: "route list \<Rightarrow> nat \<Rightarrow> route_meta list \<Rightarrow> string \<Rightarrow> route_error + branch list" where
  "flattenRoutes [] i parents parent = Inr []"
| "flattenRoutes (r # rs) i parents parent = in_order
     (map (\<lambda>rel. case below_parent parent rel of
         Inl e \<Rightarrow> Inl e
       | Inr rel' \<Rightarrow>
           (let p = joinPaths [parent, rel'];
                metas = parents @ [\<lparr>relativePath = rel', caseSensitive = route_sensitive r,
                  childrenIndex = i, meta_route = r\<rparr>]
            in if route_children r \<noteq> [] \<and> route_index r then Inl (IndexWithChildren p)
               else in_order [flattenRoutes (route_children r) 0 metas p, Inr (own_branch r p metas)]))
       (relative_paths r)
      @ [flattenRoutes rs (i + 1) parents parent])"
  by pat_completeness auto

termination
proof (relation "measure (\<lambda>(rs, _). size_list size rs)", goal_cases)
  case (2 r rs i parents parent x xa xb xc)
  then show ?case by (cases r) simp
qed simp_all

section \<open>Patterns\<close>

datatype piece = Lit char | Param bool

datatype path_end = SplatAll | SplatRest | Slashes | Boundary | Anywhere

record compiled =
  pieces :: "piece list"
  path_end :: path_end
  param_names :: "(string \<times> bool) list"

text \<open>
  \<open>/:name\<close> and \<open>/:name?\<close> become a group for a segment, any other character stands for
  itself.
\<close>

function pieces_of :: "string \<Rightarrow> (piece list \<times> (string \<times> bool) list) option" where
  "pieces_of [] = Some ([], [])"
| "pieces_of (c # s) = (let name = takeWhile name_char (drop 1 s); rest = dropWhile name_char (drop 1 s) in
     if c = CHR ''/'' \<and> starts_with s '':'' \<and> name \<noteq> [] then
       (let opt = starts_with rest ''?'' in
        map_option (\<lambda>(ps, ns). (Param opt # ps, (name, opt) # ns)) (pieces_of (if opt then drop 1 rest else rest)))
     else if c = CHR ''?'' then None
     else map_option (\<lambda>(ps, ns). (Lit c # ps, ns)) (pieces_of s))"
  by pat_completeness auto

termination
proof (relation "measure length", goal_cases)
  case (2 c s x xa xb)
  have "length (dropWhile name_char (drop 1 s)) \<le> length s"
    using length_dropWhile_le [of name_char "drop 1 s"] by simp
  then show ?case using 2 by (auto simp: less_Suc_eq_le intro: le_trans [OF diff_le_self])
qed simp_all

text \<open>\<open>replace(/\/*\*?$/, "").replace(/^\/*/, "/")\<close>\<close>

definition pattern_body :: "string \<Rightarrow> string" where
  "pattern_body p = CHR ''/'' # dropWhile (\<lambda>c. c = CHR ''/'')
     (strip_slashes (if ends_with p ''*'' then butlast p else p))"

definition compilePath :: "string \<Rightarrow> bool \<Rightarrow> compiled option" where
  "compilePath p whole = map_option (\<lambda>(ps, ns). \<lparr>pieces = ps,
       path_end = (if ends_with p ''*'' then (if p = ''*'' \<or> p = ''/*'' then SplatAll else SplatRest)
         else if whole then Slashes
         else if p \<noteq> [] \<and> p \<noteq> ''/'' then Boundary else Anywhere),
       param_names = ns @ (if ends_with p ''*'' then [(''*'', False)] else [])\<rparr>)
     (pieces_of (pattern_body p))"

subsection \<open>Running a pattern\<close>

definition same_char :: "bool \<Rightarrow> char \<Rightarrow> char \<Rightarrow> bool" where
  "same_char sensitive a b \<longleftrightarrow> (if sensitive then a = b else to_lower a = to_lower b)"

definition segment_length :: "string \<Rightarrow> nat" where
  "segment_length s = length (takeWhile (\<lambda>c. c \<noteq> CHR ''/'') s)"

text \<open>The ways to take at least one character of a segment, the longest first.\<close>

definition longest_first :: "string \<Rightarrow> (string \<times> string) list" where
  "longest_first s = map (\<lambda>n. (take n s, drop n s)) (rev [1 ..< Suc (segment_length s)])"

text \<open>All ways to match the pieces, in the order in which they are tried.\<close>

fun run_pieces :: "bool \<Rightarrow> piece list \<Rightarrow> string \<Rightarrow> (string option list \<times> string) list" where
  "run_pieces cs [] s = [([], s)]"
| "run_pieces cs (Lit c # ps) s = (case s of [] \<Rightarrow> []
     | x # xs \<Rightarrow> if same_char cs c x then run_pieces cs ps xs else [])"
| "run_pieces cs (Param opt # ps) s =
     (let group = (\<lambda>t. concat (map (\<lambda>(v, r). map (\<lambda>(vs, u). (Some v # vs, u)) (run_pieces cs ps r)) (longest_first t)));
          skip = (\<lambda>t. map (\<lambda>(vs, u). (None # vs, u)) (run_pieces cs ps t));
          slash = (case s of [] \<Rightarrow> [] | x # xs \<Rightarrow> if x = CHR ''/'' then [xs] else [])
      in if opt then concat (map (\<lambda>t. group t @ skip t) (slash @ [s])) else concat (map group slash))"

text \<open>The end of the pattern: the groups it adds and what it leaves, if it matches.\<close>

fun finish :: "path_end \<Rightarrow> string \<Rightarrow> (string option list \<times> string) option" where
  "finish SplatAll s = (if list_ex line_end s then None else Some ([Some s], []))"
| "finish SplatRest s = (case s of
      x # y # r \<Rightarrow> if x = CHR ''/'' \<and> \<not> list_ex line_end (y # r) then Some ([Some (y # r)], [])
         else if list_all (\<lambda>c. c = CHR ''/'') s then Some ([None], []) else None
    | _ \<Rightarrow> if list_all (\<lambda>c. c = CHR ''/'') s then Some ([None], []) else None)"
| "finish Slashes s = (if list_all (\<lambda>c. c = CHR ''/'') s then Some ([], []) else None)"
| "finish Boundary s = (if s = [] \<or> hd s = CHR ''/'' then Some ([], s) else None)"
| "finish Anywhere s = Some ([], s)"

fun first_match :: "path_end \<Rightarrow> (string option list \<times> string) list \<Rightarrow> (string option list \<times> string) option" where
  "first_match e [] = None"
| "first_match e ((vs, r) # ms) = (case finish e r of
       Some (vs', left) \<Rightarrow> Some (vs @ vs', left) | None \<Rightarrow> first_match e ms)"

subsection \<open>Matching a path\<close>

record path_match =
  m_params :: "(string \<times> string option) list"
  m_pathname :: string
  m_base :: string

text \<open>\<open>replace(/(.)\/+$/, "$1")\<close>\<close>

definition trim_base :: "string \<Rightarrow> string" where
  "trim_base s = (let t = strip_slashes s in
     if t = s then s else if t = [] then ''/'' else if line_end (last t) then t @ ''/'' else t)"

text \<open>\<open>replace(/%2F/g, "/")\<close>\<close>

fun unescape_slashes :: "string \<Rightarrow> string" where
  "unescape_slashes (a # b # c # s) = (if [a, b, c] = ''%2F'' then CHR ''/'' # unescape_slashes s
     else a # unescape_slashes (b # c # s))"
| "unescape_slashes s = s"

definition param_value :: "bool \<Rightarrow> string option \<Rightarrow> string option" where
  "param_value opt v = (if opt \<and> or_else [] v = [] then None else Some (unescape_slashes (or_else [] v)))"

definition matchPath :: "string \<Rightarrow> bool \<Rightarrow> bool \<Rightarrow> string \<Rightarrow> path_match option" where
  "matchPath p sensitive whole s = (case compilePath p whole of None \<Rightarrow> None
     | Some c \<Rightarrow> (case first_match (path_end c) (run_pieces sensitive (pieces c) s) of
         None \<Rightarrow> None
       | Some (vs, left) \<Rightarrow>
           (let ap = take (length s - length left) s;
                nvs = zip (param_names c) vs;
                base = foldl (\<lambda>b ((n, opt), v). if n = ''*''
                  then trim_base (take (length ap - length (or_else [] v)) ap) else b) (trim_base ap) nvs
            in Some \<lparr>m_params = foldl (\<lambda>ps ((n, opt), v). AList.update n (param_value opt v) ps) [] nvs,
                 m_pathname = ap, m_base = base\<rparr>)))"

section \<open>Matching the routes\<close>

record shown_route =
  s_params :: "(string \<times> string option) list"
  s_pathname :: string
  s_base :: string
  s_route :: route

text \<open>
  The segments of a branch are matched from the outermost on, each against what the ones
  before have left. All results share one object of parameters.
\<close>

fun match_metas :: "route_meta list \<Rightarrow> string \<Rightarrow> string \<Rightarrow> (string \<times> string option) list
    \<Rightarrow> ((string \<times> string \<times> route) list \<times> (string \<times> string option) list) option" where
  "match_metas [] ap s ps = Some ([], ps)"
| "match_metas (m # ms) ap s ps =
     (let rest = (if ap = ''/'' then s else if drop (length ap) s = [] then ''/'' else drop (length ap) s)
      in case matchPath (relativePath m) (caseSensitive m) (ms = []) rest of
        None \<Rightarrow> None
      | Some r \<Rightarrow>
          map_option (\<lambda>(rs, ps'). ((joinPaths [ap, m_pathname r],
              normalizePathname (joinPaths [ap, m_base r]), meta_route m) # rs, ps'))
            (match_metas ms (if m_base r \<noteq> ''/'' then joinPaths [ap, m_base r] else ap) s
              (foldl (\<lambda>acc (k, v). AList.update k v acc) ps (m_params r))))"

definition matchRouteBranch :: "branch \<Rightarrow> string \<Rightarrow> shown_route list option" where
  "matchRouteBranch b s = map_option (\<lambda>(rs, ps). map (\<lambda>(pn, base, r).
       \<lparr>s_params = ps, s_pathname = pn, s_base = base, s_route = r\<rparr>) rs)
     (match_metas (routesMeta b) ''/'' s [])"

definition stripBasename :: "string \<Rightarrow> string \<Rightarrow> string option" where
  "stripBasename s base = (if base = ''/'' then Some s
     else if \<not> starts_with (toLowerCase s) (toLowerCase base) then None
     else let n = (if ends_with base ''/'' then length base - 1 else length base)
       in if n < length s \<and> s ! n \<noteq> CHR ''/'' then None
          else Some (if drop n s = [] then ''/'' else drop n s))"

definition escape_slashes :: "string \<Rightarrow> string" where
  "escape_slashes s = concat (map (\<lambda>c. if c = CHR ''/'' then ''%2F'' else [c]) s)"

definition decodePath :: "(string \<Rightarrow> string option) \<Rightarrow> string \<Rightarrow> string" where
  "decodePath decodeURIComponent s = (case those (map decodeURIComponent (split_on CHR ''/'' s)) of
       None \<Rightarrow> s | Some ws \<Rightarrow> join ''/'' (map escape_slashes ws))"

fun first_branch :: "branch list \<Rightarrow> string \<Rightarrow> shown_route list option" where
  "first_branch [] s = None"
| "first_branch (b # bs) s = (case matchRouteBranch b s of Some m \<Rightarrow> Some m | None \<Rightarrow> first_branch bs s)"

definition matchRoutes :: "(string \<Rightarrow> string option) \<Rightarrow> route list \<Rightarrow> string \<Rightarrow> string
    \<Rightarrow> route_error + shown_route list option" where
  "matchRoutes decodeURIComponent routes pathname base =
     (case stripBasename (if pathname = [] then ''/'' else pathname) base of
        None \<Rightarrow> Inr None
      | Some s \<Rightarrow> (case flattenRoutes routes 0 [] [] of
            Inl e \<Rightarrow> Inl e
          | Inr bs \<Rightarrow> Inr (first_branch (rankRouteBranches bs) (decodePath decodeURIComponent s))))"


section \<open>Lemmas\<close>

subsection \<open>Optional segments\<close>

text \<open>The choices of segments: an optional one is kept, without its mark, or left out.\<close>

fun kept :: "string list \<Rightarrow> string list list" where
  "kept [] = [[]]"
| "kept (w # ws) = map ((#) (required w)) (kept ws) @ (if is_optional w then kept ws else [])"

definition good_segment :: "string \<Rightarrow> bool" where
  "good_segment w \<longleftrightarrow> required w \<noteq> [] \<and> CHR ''/'' \<notin> set w"

lemma kept_good:
  "list_all good_segment ws \<Longrightarrow> k \<in> set (kept ws) \<Longrightarrow> w \<in> set k \<Longrightarrow> w \<noteq> []"
  by (induction ws arbitrary: k) (auto simp: good_segment_def split: if_splits)

lemma length_kept: "length (kept ws) = 2 ^ length (filter is_optional ws)"
  by (induction ws) auto

lemma good_first:
  assumes "good_segment w"
  shows "\<not> starts_with (join ''/'' (w # ws)) ''/''"
proof -
  have "w \<noteq> []" using assms by (auto simp: good_segment_def required_def is_optional_def split: if_splits)
  then obtain c r where "w = c # r" "c \<noteq> CHR ''/''" using assms by (cases w) (auto simp: good_segment_def)
  then show ?thesis by (cases ws) auto
qed

lemma join_no_empty:
  "(\<And>w. w \<in> set k \<Longrightarrow> w \<noteq> []) \<Longrightarrow> join ''/'' k = [] \<longleftrightarrow> k = []"
  by (cases k; cases "tl k") auto

lemma explode_relative:
  "list_all good_segment ws \<Longrightarrow> ws \<noteq> [] \<Longrightarrow> explode_segments ws = map (join ''/'') (kept ws)"
proof (induction ws rule: explode_segments.induct)
  case (3 w v ws)
  let ?op = "kept (v # ws)"
  have op: "explode_segments (v # ws) = map (join ''/'') ?op" using 3 by simp
  have ne: "join ''/'' k = [] \<longleftrightarrow> k = []" if "k \<in> set ?op" for k
    using kept_good [of "v # ws" k] that "3.prems"(1) by (intro join_no_empty) auto
  have "map (\<lambda>r. if r = [] then required w else required w @ ''/'' @ r) (map (join ''/'') ?op)
      = map (join ''/'') (map ((#) (required w)) ?op)"
    using ne by (auto simp: join_Cons)
  moreover have "\<not> starts_with (join ''/'' (w # v # ws)) ''/''"
    using "3.prems" by (intro good_first) simp
  ultimately show ?case by (auto simp: op Let_def)
qed simp_all

lemma explode_absolute:
  assumes "list_all good_segment ws" "ws \<noteq> []"
  shows "explode_segments ([] # ws) = map (\<lambda>k. CHR ''/'' # join ''/'' k) (kept ws)"
proof -
  obtain v vs where ws: "ws = v # vs" using assms(2) by (cases ws) auto
  have r: "required [] = []" "\<not> is_optional []" by (simp_all add: required_def is_optional_def ends_with_def)
  have "explode_segments ([] # v # vs) = map (\<lambda>r. if r = [] then ''/'' else r)
      (map (\<lambda>r. if r = [] then [] else ''/'' @ r) (explode_segments (v # vs)))"
    using r by (simp add: Let_def)
  also have "\<dots> = map (\<lambda>k. CHR ''/'' # join ''/'' k) (kept (v # vs))"
    using explode_relative [OF assms] by (auto simp: ws comp_def)
  finally show ?thesis by (simp add: ws)
qed

subsection \<open>Ranking\<close>

lemma insert_branch_mset: "mset (insert_branch x bs) = add_mset x (mset bs)"
  by (induction bs) auto

definition descending :: "branch list \<Rightarrow> bool" where
  "descending bs \<longleftrightarrow> sorted_wrt (\<lambda>a b. score a \<ge> score b) bs"

lemma compare_score:
  "compare_branches x y < 0 \<Longrightarrow> score x \<ge> score y" "\<not> compare_branches x y < 0 \<Longrightarrow> score y \<ge> score x"
  by (auto simp: compare_branches_def split: if_splits)

lemma insert_branch_descending: "descending bs \<Longrightarrow> descending (insert_branch x bs)"
proof (induction bs)
  case (Cons y bs)
  have "set (insert_branch x bs) = insert x (set bs)"
    using insert_branch_mset [of x bs] by (metis set_mset_add_mset_insert set_mset_mset)
  then show ?case
    using Cons compare_score [of x y] by (auto simp: descending_def)
qed (simp add: descending_def)

lemma rank_fold:
  "descending acc \<Longrightarrow> descending (foldl (\<lambda>acc x. insert_branch x acc) acc bs)
    \<and> mset (foldl (\<lambda>acc x. insert_branch x acc) acc bs) = mset acc + mset bs"
  by (induction bs arbitrary: acc) (auto simp: insert_branch_descending insert_branch_mset)

lemma rank_descending: "descending (rankRouteBranches bs)"
  using rank_fold [of "[]" bs] by (simp add: rankRouteBranches_def descending_def)

lemma rank_mset [simp]: "mset (rankRouteBranches bs) = mset bs"
  using rank_fold [of "[]" bs] by (simp add: rankRouteBranches_def descending_def)

lemma rank_set [simp]: "set (rankRouteBranches bs) = set bs"
  by (metis rank_mset set_mset_mset)

lemma first_branch_None: "first_branch bs s = None \<longleftrightarrow> (\<forall>b \<in> set bs. matchRouteBranch b s = None)"
  by (induction bs) (auto split: option.splits)

lemma first_branch_best:
  "descending bs \<Longrightarrow> first_branch bs s = Some m \<Longrightarrow> \<exists>b \<in> set bs. matchRouteBranch b s = Some m
     \<and> (\<forall>c \<in> set bs. matchRouteBranch c s \<noteq> None \<longrightarrow> score c \<le> score b)"
proof (induction bs)
  case (Cons b bs)
  show ?case
  proof (cases "matchRouteBranch b s")
    case None
    then show ?thesis using Cons by (auto simp: descending_def)
  next
    case (Some m')
    then show ?thesis using Cons.prems by (auto simp: descending_def)
  qed
qed simp

text \<open>The order of the branches of a list of routes without nesting.\<close>

definition flat :: "branch \<Rightarrow> bool" where
  "flat b \<longleftrightarrow> length (routesMeta b) = 1"

definition branch_key :: "branch \<Rightarrow> int \<times> nat" where
  "branch_key b = (- score b, childrenIndex (hd (routesMeta b)))"

lemma compare_flat:
  assumes "flat a" "flat b"
  shows "compare_branches a b \<le> 0 \<longleftrightarrow> branch_key a \<le> branch_key b"
    "compare_branches a b < 0 \<longleftrightarrow> branch_key a < branch_key b"
proof -
  obtain x where x: "routesMeta a = [x]" using assms(1) by (cases "routesMeta a") (auto simp: flat_def)
  obtain y where y: "routesMeta b = [y]" using assms(2) by (cases "routesMeta b") (auto simp: flat_def)
  show "compare_branches a b \<le> 0 \<longleftrightarrow> branch_key a \<le> branch_key b"
    "compare_branches a b < 0 \<longleftrightarrow> branch_key a < branch_key b"
    by (auto simp: compare_branches_def compareIndexes_def branch_key_def x y)
qed

lemma insert_branch_sorted:
  "list_all flat (x # bs) \<Longrightarrow> sorted (map branch_key bs) \<Longrightarrow> sorted (map branch_key (insert_branch x bs))"
proof (induction bs)
  case (Cons y bs)
  have "set (insert_branch x bs) = insert x (set bs)"
    using insert_branch_mset [of x bs] by (metis set_mset_add_mset_insert set_mset_mset)
  then show ?case using Cons compare_flat(2) [of x y] by auto
qed simp

lemma rank_fold_sorted:
  "list_all flat (acc @ bs) \<Longrightarrow> sorted (map branch_key acc) \<Longrightarrow>
   sorted (map branch_key (foldl (\<lambda>acc x. insert_branch x acc) acc bs))"
proof (induction bs arbitrary: acc)
  case (Cons b bs)
  have "set (insert_branch b acc) = insert b (set acc)"
    using insert_branch_mset [of b acc] by (metis set_mset_add_mset_insert set_mset_mset)
  then show ?case using Cons insert_branch_sorted [of b acc] by (simp add: list_all_iff)
qed simp

lemma rank_sorted: "list_all flat bs \<Longrightarrow> sorted (map branch_key (rankRouteBranches bs))"
  using rank_fold_sorted [of "[]" bs] by (simp add: rankRouteBranches_def)

text \<open>A branch is put behind those it ties with.\<close>

lemma insert_branch_stable:
  assumes "list_all flat (x # bs)" "sorted (map branch_key bs)"
  shows "filter (\<lambda>b. k = branch_key b) (insert_branch x bs)
    = filter (\<lambda>b. k = branch_key b) bs @ (if k = branch_key x then [x] else [])"
  using assms
proof (induction bs)
  case (Cons y ys)
  show ?case
  proof (cases "compare_branches x y < 0")
    case True
    then have "branch_key x < branch_key y" using Cons.prems(1) compare_flat(2) by auto
    then have "\<forall>b \<in> set (y # ys). branch_key x < branch_key b" using Cons.prems(2) by auto
    then have "k = branch_key x \<Longrightarrow> filter (\<lambda>b. k = branch_key b) (y # ys) = []"
      unfolding filter_empty_conv by force
    then show ?thesis using True by auto
  qed (use Cons in auto)
qed simp

lemma rank_fold_stable:
  "list_all flat (acc @ bs) \<Longrightarrow> sorted (map branch_key acc) \<Longrightarrow>
   filter (\<lambda>b. k = branch_key b) (foldl (\<lambda>acc x. insert_branch x acc) acc bs)
     = filter (\<lambda>b. k = branch_key b) (acc @ bs)"
proof (induction bs arbitrary: acc)
  case (Cons b bs)
  have "set (insert_branch b acc) = insert b (set acc)"
    using insert_branch_mset [of b acc] by (metis set_mset_add_mset_insert set_mset_mset)
  then show ?case
    using Cons insert_branch_sorted [of b acc] insert_branch_stable [of b acc k] by (simp add: list_all_iff)
qed simp

lemma rank_stable:
  "list_all flat bs \<Longrightarrow> filter (\<lambda>b. k = branch_key b) (rankRouteBranches bs) = filter (\<lambda>b. k = branch_key b) bs"
  using rank_fold_stable [of "[]" bs k] by (simp add: rankRouteBranches_def)

subsection \<open>Patterns of plain segments\<close>

datatype pattern_segment = Static string | Dynamic string

fun segment_text :: "pattern_segment \<Rightarrow> string" where
  "segment_text (Static w) = w"
| "segment_text (Dynamic n) = CHR '':'' # n"

fun segment_fill :: "(string \<Rightarrow> string) \<Rightarrow> pattern_segment \<Rightarrow> string" where
  "segment_fill f (Static w) = w"
| "segment_fill f (Dynamic n) = f n"

definition under_root :: "string list \<Rightarrow> string" where
  "under_root ws = concat (map ((#) CHR ''/'') ws)"

definition segment_names :: "pattern_segment list \<Rightarrow> string list" where
  "segment_names segs = concat (map (\<lambda>x. case x of Static w \<Rightarrow> [] | Dynamic n \<Rightarrow> [n]) segs)"

fun segment_pieces :: "pattern_segment \<Rightarrow> piece list" where
  "segment_pieces (Static w) = map Lit (CHR ''/'' # w)"
| "segment_pieces (Dynamic n) = [Param False]"

definition value_char :: "char \<Rightarrow> bool" where
  "value_char c \<longleftrightarrow> c \<noteq> CHR ''/''"

definition static_char :: "char \<Rightarrow> bool" where
  "static_char c \<longleftrightarrow> c \<noteq> CHR ''/'' \<and> c \<noteq> CHR ''?'' \<and> c \<noteq> CHR ''*'' \<and> c \<noteq> CHR '':''"

fun plain_segment :: "(string \<Rightarrow> string) \<Rightarrow> pattern_segment \<Rightarrow> bool" where
  "plain_segment f (Static w) \<longleftrightarrow> w \<noteq> [] \<and> list_all static_char w"
| "plain_segment f (Dynamic n) \<longleftrightarrow> n \<noteq> [] \<and> list_all name_char n \<and> f n \<noteq> [] \<and> list_all value_char (f n)"

lemma special_name_char: "\<not> name_char CHR ''/''" "\<not> name_char CHR ''?''" "\<not> name_char CHR ''*''"
  by code_simp+

lemma pieces_of_static:
  "list_all static_char w \<Longrightarrow>
    pieces_of (w @ s) = map_option (\<lambda>(ps, ns). (map Lit w @ ps, ns)) (pieces_of s)"
proof (induction w)
  case (Cons c w)
  then show ?case
    by (cases "pieces_of s") (auto simp: static_char_def)
next
  case Nil
  then show ?case by (cases "pieces_of s") auto
qed

lemma pieces_of_segment:
  assumes "plain_segment f x" "s = [] \<or> hd s = CHR ''/''"
  shows "pieces_of (CHR ''/'' # segment_text x @ s) = map_option (\<lambda>(ps, ns). (segment_pieces x @ ps,
    (case x of Static w \<Rightarrow> [] | Dynamic n \<Rightarrow> [(n, False)]) @ ns)) (pieces_of s)"
proof (cases x)
  case (Static w)
  then obtain c r where w: "w = c # r" "static_char c" using assms(1) by (cases w) auto
  then have "\<not> starts_with (w @ s) '':''" by (auto simp: static_char_def)
  then show ?thesis
    using pieces_of_static [of w s] Static assms(1)
    by (cases "pieces_of s") (auto simp: Let_def)
next
  case (Dynamic n)
  have "takeWhile name_char (n @ s) = n" "dropWhile name_char (n @ s) = s"
    using Dynamic assms special_name_char(1)
    by (cases s; auto simp: takeWhile_append dropWhile_append list_all_iff takeWhile_eq_all_conv)+
  moreover have "\<not> starts_with s ''?''" using assms(2) by (cases s) auto
  ultimately show ?thesis
    using Dynamic assms(1) by (simp add: Let_def)
qed

lemma under_root_Cons: "under_root (w # ws) = CHR ''/'' # w @ under_root ws"
  by (simp add: under_root_def)

lemma under_root_hd: "under_root ws = [] \<or> hd (under_root ws) = CHR ''/''"
  by (cases ws) (simp_all add: under_root_def)

lemma pieces_of_segments:
  "list_all (plain_segment f) segs \<Longrightarrow> pieces_of (under_root (map segment_text segs))
    = Some (concat (map segment_pieces segs), map (\<lambda>n. (n, False)) (segment_names segs))"
proof (induction segs)
  case (Cons x segs)
  then show ?case
    using pieces_of_segment [of f x "under_root (map segment_text segs)"] under_root_hd
    by (auto simp: under_root_Cons segment_names_def split: pattern_segment.splits)
qed (simp add: under_root_def segment_names_def)

lemma run_static: "run_pieces cs (map Lit w @ ps) (w @ s) = run_pieces cs ps s"
  by (induction w) (simp_all add: same_char_def)

lemma longest_first_segment:
  assumes "v \<noteq> []" "list_all value_char v" "s = [] \<or> hd s = CHR ''/''"
  shows "\<exists>tl. longest_first (v @ s) = (v, s) # tl"
proof -
  have "takeWhile (\<lambda>c. c \<noteq> CHR ''/'') (v @ s) = v"
    using assms(2,3) by (cases s) (auto simp: takeWhile_append value_char_def list_all_iff takeWhile_eq_all_conv)
  then have "segment_length (v @ s) = length v" by (simp add: segment_length_def)
  then show ?thesis using assms(1) by (cases v) (simp_all add: longest_first_def)
qed

definition path_text :: "(string \<Rightarrow> string) \<Rightarrow> pattern_segment list \<Rightarrow> string" where
  "path_text f segs = under_root (map (segment_fill f) segs)"

lemma run_segments:
  assumes "list_all (plain_segment f) segs" "s = [] \<or> hd s = CHR ''/''"
  shows "\<exists>tl. run_pieces cs (concat (map segment_pieces segs)) (path_text f segs @ s)
    = (map (\<lambda>n. Some (f n)) (segment_names segs), s) # tl"
  using assms(1)
proof (induction segs)
  case (Cons x segs)
  let ?ps = "concat (map segment_pieces segs)" and ?r = "path_text f segs @ s"
  obtain tl where tl: "run_pieces cs ?ps ?r = (map (\<lambda>n. Some (f n)) (segment_names segs), s) # tl"
    using Cons by auto
  have path: "path_text f (x # segs) @ s = CHR ''/'' # segment_fill f x @ ?r"
    by (simp add: path_text_def under_root_Cons)
  show ?case
  proof (cases x)
    case (Static w)
    have "run_pieces cs (map Lit (CHR ''/'' # w) @ ?ps) ((CHR ''/'' # w) @ ?r) = run_pieces cs ?ps ?r"
      by (rule run_static)
    then show ?thesis using tl path Static by (simp add: segment_names_def)
  next
    case (Dynamic n)
    have "?r = [] \<or> hd ?r = CHR ''/''"
      using assms(2) under_root_hd [of "map (segment_fill f) segs"]
      by (cases "path_text f segs") (auto simp: path_text_def)
    then obtain tl' where "longest_first (f n @ ?r) = (f n, ?r) # tl'"
      using longest_first_segment [of "f n" ?r] Dynamic Cons.prems by auto
    then show ?thesis using tl path Dynamic by (simp add: segment_names_def)
  qed
qed (simp add: path_text_def under_root_def segment_names_def)

lemma under_root_last:
  assumes "list_all (\<lambda>w. w \<noteq> [] \<and> last w \<noteq> CHR ''/'') ws" "ws \<noteq> []"
  shows "under_root ws \<noteq> [] \<and> last (under_root ws) \<noteq> CHR ''/''"
  using assms
proof (induction ws)
  case (Cons w ws)
  then show ?case by (cases "ws = []") (auto simp: under_root_def)
qed simp

lemma fill_last: "plain_segment f x \<Longrightarrow> segment_fill f x \<noteq> [] \<and> last (segment_fill f x) \<noteq> CHR ''/''"
proof (cases x)
  case (Static w)
  then show "plain_segment f x \<Longrightarrow> ?thesis"
    using last_in_set [of w] by (auto simp: list_all_iff static_char_def)
next
  case (Dynamic n)
  then show "plain_segment f x \<Longrightarrow> ?thesis"
    using last_in_set [of "f n"] by (auto simp: list_all_iff value_char_def)
qed

lemma text_last:
  assumes "plain_segment f x"
  shows "segment_text x \<noteq> [] \<and> last (segment_text x) \<noteq> CHR ''/'' \<and> last (segment_text x) \<noteq> CHR ''*''
    \<and> hd (segment_text x) \<noteq> CHR ''/''"
proof (cases x)
  case (Static w)
  then show ?thesis
    using assms last_in_set [of w] hd_in_set [of w] by (auto simp: list_all_iff static_char_def)
next
  case (Dynamic n)
  then have n: "n \<noteq> []" "name_char (last n)" using assms by (simp_all add: list_all_iff)
  then have "last n \<noteq> CHR ''/''" "last n \<noteq> CHR ''*''" using special_name_char by metis+
  then show ?thesis using Dynamic n(1) by simp
qed

definition pattern_text :: "pattern_segment list \<Rightarrow> string" where
  "pattern_text segs = under_root (map segment_text segs)"

lemma pattern_ends:
  assumes "list_all (plain_segment f) segs" "segs \<noteq> []"
  shows "\<not> ends_with (pattern_text segs) ''*''" "strip_slashes (pattern_text segs) = pattern_text segs"
    "CHR ''/'' # dropWhile (\<lambda>c. c = CHR ''/'') (pattern_text segs) = pattern_text segs"
proof -
  obtain x xs where x: "segs = x # xs" using assms(2) by (cases segs) auto
  have l: "segment_text y \<noteq> [] \<and> last (segment_text y) \<noteq> CHR ''/'' \<and> last (segment_text y) \<noteq> CHR ''*''"
    if "y \<in> set segs" for y
    using assms(1) that text_last [of f y] by (simp add: list_all_iff)
  have last: "last (pattern_text segs) = last (segment_text (last segs))"
    using assms(2) l
  proof (induction segs)
    case (Cons y ys)
    then show ?case
      by (cases "ys = []") (auto simp: pattern_text_def under_root_Cons under_root_def)
  qed simp
  have ne: "pattern_text segs \<noteq> []" by (simp add: pattern_text_def x under_root_Cons)
  show "strip_slashes (pattern_text segs) = pattern_text segs"
    using last l [of "last segs"] assms(2) by (simp add: strip_slashes_id)
  show "\<not> ends_with (pattern_text segs) ''*''"
    using last l [of "last segs"] assms(2) ne
    by (cases "pattern_text segs" rule: rev_cases) (auto simp: ends_with_def)
  have h: "segment_text x \<noteq> [] \<and> hd (segment_text x) \<noteq> CHR ''/''"
    using text_last [of f x] assms(1) x by simp
  then show "CHR ''/'' # dropWhile (\<lambda>c. c = CHR ''/'') (pattern_text segs) = pattern_text segs"
    by (cases "segment_text x") (auto simp: pattern_text_def x under_root_Cons)
qed

lemma compile_plain:
  assumes "list_all (plain_segment f) segs" "segs \<noteq> []"
  shows "compilePath (pattern_text segs) whole = Some \<lparr>pieces = concat (map segment_pieces segs),
    path_end = (if whole then Slashes else Boundary),
    param_names = map (\<lambda>n. (n, False)) (segment_names segs)\<rparr>"
proof -
  have "pattern_text segs \<noteq> [] \<and> pattern_text segs \<noteq> ''/''"
    using pattern_ends(2) [OF assms] assms text_last [of f "hd segs"]
    by (cases segs) (auto simp: pattern_text_def under_root_Cons)
  then show ?thesis
    using pattern_ends [OF assms] pieces_of_segments [OF assms(1)]
    by (simp add: compilePath_def pattern_body_def pattern_text_def)
qed

lemma compile_splat:
  assumes "list_all (plain_segment f) segs" "segs \<noteq> []"
  shows "compilePath (pattern_text segs @ ''/*'') whole = Some \<lparr>pieces = concat (map segment_pieces segs),
    path_end = SplatRest,
    param_names = map (\<lambda>n. (n, False)) (segment_names segs) @ [(''*'', False)]\<rparr>"
proof -
  have "ends_with (pattern_text segs @ ''/*'') ''*''" by (simp add: ends_with_def)
  moreover have "pattern_text segs \<noteq> []"
    using assms by (cases segs) (auto simp: pattern_text_def under_root_Cons)
  moreover have "strip_slashes (butlast (pattern_text segs @ ''/*'')) = pattern_text segs"
    using pattern_ends(2) [OF assms] strip_slashes_snoc [of "pattern_text segs"] by (simp add: butlast_append)
  ultimately show ?thesis
    using pattern_ends(3) [OF assms] pieces_of_segments [OF assms(1)]
    by (simp add: compilePath_def pattern_body_def pattern_text_def)
qed

lemma updates_distinct:
  "distinct ns \<Longrightarrow> set ns \<inter> fst ` set acc = {} \<Longrightarrow>
   foldl (\<lambda>ps ((n, opt), v). AList.update n (param_value opt v) ps) acc (zip (map (\<lambda>n. (n, False)) ns) (map (\<lambda>n. Some (f n)) ns))
   = acc @ map (\<lambda>n. (n, Some (unescape_slashes (f n)))) ns"
proof (induction ns arbitrary: acc)
  case (Cons n ns)
  have "AList.update n v acc = acc @ [(n, v)]" for v
    using Cons.prems(2) by (induction acc) auto
  then show ?case using Cons by (auto simp: param_value_def or_else_def)
qed simp

lemma update_new: "k \<notin> set ns \<Longrightarrow> AList.update k v (map (\<lambda>n. (n, g n)) ns) = map (\<lambda>n. (n, g n)) ns @ [(k, v)]"
  by (induction ns) auto

lemma base_fold:
  "''*'' \<notin> set ns \<Longrightarrow> foldl (\<lambda>b ((n, opt), v). if n = ''*'' then g v else b) b
     (zip (map (\<lambda>n. (n, False)) ns) (map (\<lambda>n. Some (f n)) ns)) = b"
  by (induction ns arbitrary: b) auto

lemma names_no_star: "list_all (plain_segment f) segs \<Longrightarrow> ''*'' \<notin> set (segment_names segs)"
proof
  assume "list_all (plain_segment f) segs" "''*'' \<in> set (segment_names segs)"
  then have "list_all name_char ''*''"
    by (auto simp: segment_names_def list_all_iff split: pattern_segment.splits)
  then show False using special_name_char by simp
qed

lemma path_ends:
  assumes "list_all (plain_segment f) segs" "segs \<noteq> []"
  shows "path_text f segs \<noteq> []" "strip_slashes (path_text f segs) = path_text f segs"
    "trim_base (path_text f segs) = path_text f segs"
proof -
  have "list_all (\<lambda>w. w \<noteq> [] \<and> last w \<noteq> CHR ''/'') (map (segment_fill f) segs)"
    using assms(1) fill_last by (auto simp: list_all_iff)
  then have l: "path_text f segs \<noteq> [] \<and> last (path_text f segs) \<noteq> CHR ''/''"
    using under_root_last assms(2) by (simp add: path_text_def)
  then show "path_text f segs \<noteq> []" "strip_slashes (path_text f segs) = path_text f segs"
    "trim_base (path_text f segs) = path_text f segs"
    by (simp_all add: strip_slashes_id trim_base_def)
qed

lemma match_splat:
  assumes "list_all (plain_segment f) segs" "segs \<noteq> []" "distinct (segment_names segs)"
    "r \<noteq> []" "\<not> list_ex line_end (path_text f segs @ r)"
  shows "matchPath (pattern_text segs @ ''/*'') sensitive whole (path_text f segs @ ''/'' @ r) = Some
    \<lparr>m_params = map (\<lambda>n. (n, Some (unescape_slashes (f n)))) (segment_names segs)
       @ [(''*'', Some (unescape_slashes r))],
     m_pathname = path_text f segs @ ''/'' @ r, m_base = path_text f segs\<rparr>"
proof -
  let ?ns = "segment_names segs" and ?p = "path_text f segs"
  obtain tl where tl: "run_pieces sensitive (concat (map segment_pieces segs)) (?p @ ''/'' @ r)
      = (map (\<lambda>n. Some (f n)) ?ns, ''/'' @ r) # tl"
    using run_segments [OF assms(1), of "''/'' @ r" sensitive] by auto
  have fin: "finish SplatRest (CHR ''/'' # r) = Some ([Some r], [])"
    using assms(4,5) by (cases r) auto
  have star: "AList.update ''*'' v (map (\<lambda>n. (n, Some (unescape_slashes (f n)))) ?ns)
      = map (\<lambda>n. (n, Some (unescape_slashes (f n)))) ?ns @ [(''*'', v)]" for v
    using names_no_star [OF assms(1)] by (rule update_new)
  have "\<not> line_end (last ?p)"
    using assms(5) path_ends(1) [OF assms(1,2)] last_in_set [of ?p] by (auto simp: list_ex_iff)
  then have base: "trim_base (?p @ ''/'') = ?p"
    using path_ends [OF assms(1,2)] by (simp add: trim_base_def strip_slashes_snoc)
  show ?thesis
    using compile_splat [OF assms(1,2), of whole] tl fin star base
      updates_distinct [OF assms(3), of "[]" f] base_fold [OF names_no_star [OF assms(1)]]
    by (simp add: matchPath_def Let_def param_value_def or_else_def)
qed

text \<open>Slashes that the router has written into a value are read back.\<close>

lemma unescape_Cons:
  "\<not> starts_with (c # w) ''%2F'' \<Longrightarrow> unescape_slashes (c # w) = c # unescape_slashes w"
  by (cases w; cases "tl w") auto

lemma escape_slashes_simps [simp]:
  "escape_slashes [] = []" "escape_slashes (c # s) = (if c = CHR ''/'' then ''%2F'' else [c]) @ escape_slashes s"
  by (simp_all add: escape_slashes_def)

lemma escape_starts:
  assumes "d \<noteq> CHR ''%''"
  shows "(\<exists>u. escape_slashes t = d # u) \<longleftrightarrow> d \<noteq> CHR ''/'' \<and> (\<exists>r. t = d # r)"
  using assms by (cases t) auto

lemma unescape_escape: "\<not> str_includes s ''%2F'' \<Longrightarrow> unescape_slashes (escape_slashes s) = s"
proof (induction s)
  case (Cons c t)
  show ?case
  proof (cases "c = CHR ''/''")
    case False
    have "\<not> starts_with (c # escape_slashes t) ''%2F''"
    proof
      assume "starts_with (c # escape_slashes t) ''%2F''"
      then obtain u where u: "c = CHR ''%''" "escape_slashes t = CHR ''2'' # CHR ''F'' # u"
        by (auto simp: starts_with_iff)
      then obtain r where r: "t = CHR ''2'' # r" using escape_starts [of "CHR ''2''" t] by auto
      then have "\<exists>v. escape_slashes r = CHR ''F'' # v" using u(2) by simp
      then obtain q where "r = CHR ''F'' # q" using escape_starts [of "CHR ''F''" r] by auto
      then show False using Cons.prems u(1) r by simp
    qed
    then show ?thesis using unescape_Cons Cons False by simp
  qed (use Cons in simp)
qed simp

section \<open>Properties\<close>

text \<open>
  C7. A pattern of plain segments matches the path made by putting values for its
  parameters, with the slashes in a value written as the router writes them, and gives back
  exactly these values; only a value that contains \<open>%2F\<close> itself is excluded.
\<close>

theorem parameters_read_back:
  assumes "list_all (plain_segment (\<lambda>n. escape_slashes (g n))) segs" "segs \<noteq> []" "distinct (segment_names segs)"
    and "\<forall>n \<in> set (segment_names segs). \<not> str_includes (g n) ''%2F''"
  shows "matchPath (pattern_text segs) sensitive whole (path_text (\<lambda>n. escape_slashes (g n)) segs) = Some
    \<lparr>m_params = map (\<lambda>n. (n, Some (g n))) (segment_names segs),
     m_pathname = path_text (\<lambda>n. escape_slashes (g n)) segs, m_base = path_text (\<lambda>n. escape_slashes (g n)) segs\<rparr>"
proof -
  let ?f = "\<lambda>n. escape_slashes (g n)"
  have v: "map (\<lambda>n. (n, Some (unescape_slashes (?f n)))) (segment_names segs) = map (\<lambda>n. (n, Some (g n))) (segment_names segs)"
    using assms(4) unescape_escape by auto
  obtain tl where "run_pieces sensitive (concat (map segment_pieces segs)) (path_text ?f segs)
      = (map (\<lambda>n. Some (?f n)) (segment_names segs), []) # tl"
    using run_segments [OF assms(1), of "[]" sensitive] by auto
  then show ?thesis
    using compile_plain [OF assms(1,2), of whole] path_ends [OF assms(1,2)] v
      updates_distinct [OF assms(3), of "[]" ?f] base_fold [OF names_no_star [OF assms(1)]]
    by (cases whole) (simp_all add: matchPath_def Let_def)
qed

lemma parameters_read_back_witness:
  "matchPath ''/tx/:id/:part'' False True ''/tx/a%2Fb/2'' = Some
    \<lparr>m_params = [(''id'', Some ''a/b''), (''part'', Some ''2'')], m_pathname = ''/tx/a%2Fb/2'', m_base = ''/tx/a%2Fb/2''\<rparr>"
proof -
  let ?g = "\<lambda>n. if n = ''id'' then ''a/b'' else ''2''"
  let ?s = "[Static ''tx'', Dynamic ''id'', Dynamic ''part'']"
  have p: "list_all (plain_segment (\<lambda>n. escape_slashes (?g n))) ?s" "distinct (segment_names ?s)"
    "\<forall>n \<in> set (segment_names ?s). \<not> str_includes (?g n) ''%2F''" by code_simp+
  have "pattern_text ?s = ''/tx/:id/:part''" "path_text (\<lambda>n. escape_slashes (?g n)) ?s = ''/tx/a%2Fb/2''"
    "map (\<lambda>n. (n, Some (?g n))) (segment_names ?s) = [(''id'', Some ''a/b''), (''part'', Some ''2'')]"
    by code_simp+
  then show ?thesis using parameters_read_back [OF p(1) _ p(2,3), of False True] by simp
qed



text \<open>
  C6. The branch a path is shown by matches it, and no branch that matches it has a
  higher score; nothing is shown exactly when no branch matches.
\<close>

theorem best_branch_shown:
  assumes "flattenRoutes routes 0 [] [] = Inr bs"
  shows "case matchRoutes decode routes (CHR ''/'' # s) ''/'' of
      Inl e \<Rightarrow> False
    | Inr None \<Rightarrow> (\<forall>b \<in> set bs. matchRouteBranch b (decodePath decode (CHR ''/'' # s)) = None)
    | Inr (Some m) \<Rightarrow> (\<exists>b \<in> set bs. matchRouteBranch b (decodePath decode (CHR ''/'' # s)) = Some m
        \<and> (\<forall>c \<in> set bs. matchRouteBranch c (decodePath decode (CHR ''/'' # s)) \<noteq> None \<longrightarrow> score c \<le> score b))"
proof -
  let ?p = "decodePath decode (CHR ''/'' # s)"
  have m: "matchRoutes decode routes (CHR ''/'' # s) ''/'' = Inr (first_branch (rankRouteBranches bs) ?p)"
    by (simp add: matchRoutes_def stripBasename_def assms)
  show ?thesis
  proof (cases "first_branch (rankRouteBranches bs) ?p")
    case None
    then have "\<forall>b \<in> set bs. matchRouteBranch b ?p = None" by (simp add: first_branch_None)
    then show ?thesis by (simp add: m None)
  next
    case (Some r)
    then show ?thesis using first_branch_best [OF rank_descending Some] by (simp add: m Some)
  qed
qed

text \<open>The routes of a page with a splat, a parameter and a static path.\<close>

definition sample_routes :: "route list" where
  "sample_routes = [Route (Some ''*'') False False [], Route (Some ''/explorer/*'') False False [],
     Route (Some ''/explorer'') False False []]"

definition sample_branches :: "branch list" where
  "sample_branches = (case flattenRoutes sample_routes 0 [] [] of Inl e \<Rightarrow> [] | Inr bs \<Rightarrow> bs)"

lemma best_branch_shown_witness:
  "\<exists>b \<in> set sample_branches. score b = 13 \<and>
     matchRoutes Some sample_routes ''/explorer'' ''/'' = Inr (matchRouteBranch b ''/explorer'')"
proof -
  have f: "flattenRoutes sample_routes 0 [] [] = Inr sample_branches" by code_simp
  have d: "decodePath Some ''/explorer'' = ''/explorer''" by code_simp
  have s: "list_all (\<lambda>b. score b \<le> 13) sample_branches" by code_simp
  have top: "list_ex (\<lambda>b. score b = 13 \<and> matchRouteBranch b ''/explorer'' \<noteq> None) sample_branches" by code_simp
  obtain m where m: "matchRoutes Some sample_routes ''/explorer'' ''/'' = Inr (Some m)"
  proof -
    have "matchRoutes Some sample_routes ''/explorer'' ''/'' = Inr (first_branch (rankRouteBranches sample_branches) ''/explorer'')"
      by (simp add: matchRoutes_def stripBasename_def f d)
    then show thesis
      using that top first_branch_None [of "rankRouteBranches sample_branches" "''/explorer''"]
      by (cases "first_branch (rankRouteBranches sample_branches) ''/explorer''") (auto simp: list_ex_iff)
  qed
  from best_branch_shown [OF f, of Some "''explorer''"]
  obtain b where b: "b \<in> set sample_branches" "matchRouteBranch b ''/explorer'' = Some m"
    "\<forall>c \<in> set sample_branches. matchRouteBranch c ''/explorer'' \<noteq> None \<longrightarrow> score c \<le> score b"
    using m d by auto
  then have "score b = 13" using s top by (force simp: list_all_iff list_ex_iff)
  then show ?thesis using b m by auto
qed

text \<open>
  C29. For a list of routes without nesting the ranking is the stable sort by falling score,
  and by the position in the list where the scores agree; the branches that one route with optional
  segments stands for have one position and keep their order.
\<close>

theorem flat_ranking_is_sort:
  assumes "list_all flat bs"
  shows "rankRouteBranches bs = sort_key (\<lambda>b. (- score b, childrenIndex (hd (routesMeta b)))) bs"
proof -
  have "sort_key branch_key bs = rankRouteBranches bs"
    using rank_stable [OF assms] rank_sorted [OF assms] by (intro properties_for_sort_key) simp_all
  then show ?thesis by (simp add: branch_key_def [abs_def])
qed

lemma flat_ranking_is_sort_witness:
  "rankRouteBranches sample_branches = rev sample_branches"
proof -
  have f: "list_all flat sample_branches" by code_simp
  have "sort_key (\<lambda>b. (- score b, childrenIndex (hd (routesMeta b)))) sample_branches = rev sample_branches" by code_simp
  then show ?thesis using flat_ranking_is_sort [OF f] by simp
qed

text \<open>
  C30. A path with optional segments stands for one path for each choice of them, in the
  order that keeps the segments first.
\<close>

theorem optional_segments_expand:
  assumes "list_all good_segment ws" "ws \<noteq> []"
  shows "explodeOptionalSegments (CHR ''/'' # join ''/'' ws) = map (\<lambda>k. CHR ''/'' # join ''/'' k) (kept ws)
    \<and> length (kept ws) = 2 ^ length (filter is_optional ws)"
proof -
  have "split_on CHR ''/'' (join ''/'' ws) = ws"
    using assms by (intro split_on_join) (auto simp: list_all_iff good_segment_def)
  then show ?thesis
    using explode_absolute [OF assms] by (simp add: explodeOptionalSegments_def length_kept)
qed

lemma optional_segments_expand_witness:
  "explodeOptionalSegments ''/a?/b/c?'' = [''/a/b/c'', ''/a/b'', ''/b/c'', ''/b'']"
proof -
  have "list_all good_segment [''a?'', ''b'', ''c?'']" by code_simp
  moreover have "map (\<lambda>k. CHR ''/'' # join ''/'' k) (kept [''a?'', ''b'', ''c?'']) = [''/a/b/c'', ''/a/b'', ''/b/c'', ''/b'']"
    by code_simp
  ultimately show ?thesis using optional_segments_expand [of "[''a?'', ''b'', ''c?'']"] by simp
qed

end
