(* ===== verification/Router_Nested.thy ===== *)
theory Router_Nested
  imports Router_Match
begin

text \<open>
  Routes inside routes: a branch whose routes have plain patterns, each relative to the
  one around it, shows every route of the branch at its own part of the path, with the
  parameters of all of them (\<open>matchRouteBranch\<close> and \<open>compilePath\<close>, line 244 of \<open>bundle.js\<close>).
\<close>

section \<open>Texts of segments\<close>

definition word_segment :: "string \<Rightarrow> bool" where
  "word_segment w \<longleftrightarrow> w \<noteq> [] \<and> CHR ''/'' \<notin> set w"

lemma plain_word: "plain_segment f x \<Longrightarrow> word_segment (segment_fill f x)"
  by (cases x) (auto simp: word_segment_def list_all_iff static_char_def value_char_def)

lemma single_slashes_under_root:
  "list_all word_segment ws \<Longrightarrow> single_slashes (under_root ws @ t) = under_root ws @ single_slashes t"
proof (induction ws)
  case (Cons w ws)
  then obtain c r where w: "w = c # r" "c \<noteq> CHR ''/''" "CHR ''/'' \<notin> set (c # r)"
    by (cases w) (auto simp: word_segment_def)
  have "single_slashes ((c # r) @ under_root ws @ t) = (c # r) @ under_root ws @ single_slashes t"
    using single_slashes_word [OF w(3)] Cons by simp
  then show ?case using w by (simp add: under_root_Cons)
qed (simp add: under_root_def)

lemma join_below:
  assumes "list_all word_segment ds" "list_all word_segment ws" "ws \<noteq> []"
  shows "joinPaths [if ds = [] then ''/'' else under_root ds, under_root ws] = under_root (ds @ ws)"
proof -
  obtain u where u: "under_root ws = CHR ''/'' # u" using assms(3) by (cases ws) (auto simp: under_root_Cons)
  have s: "single_slashes (CHR ''/'' # u) = CHR ''/'' # u"
    using single_slashes_under_root [OF assms(2), of "[]"] u by simp
  have "under_root (ds @ ws) = under_root ds @ under_root ws" by (simp add: under_root_def)
  moreover have "single_slashes (under_root ds @ CHR ''/'' # CHR ''/'' # u) = under_root ds @ CHR ''/'' # u"
    using single_slashes_under_root [OF assms(1), of "CHR ''/'' # CHR ''/'' # u"] s by simp
  moreover have "under_root [] = []" by (simp add: under_root_def)
  ultimately show ?thesis
    using s u by (cases "ds = []") (simp_all add: joinPaths_def)
qed

lemma normalize_under_root:
  assumes "list_all word_segment ws" "ws \<noteq> []"
  shows "normalizePathname (under_root ws) = under_root ws"
proof -
  have "list_all (\<lambda>w. w \<noteq> [] \<and> last w \<noteq> CHR ''/'') ws"
    using assms(1) last_in_set unfolding list_all_iff word_segment_def by metis
  then have "strip_slashes (under_root ws) = under_root ws"
    using under_root_last [OF _ assms(2)] by (simp add: strip_slashes_id)
  then show ?thesis
    using assms by (cases ws; cases "hd ws")
      (auto simp: normalizePathname_def under_root_Cons word_segment_def)
qed

section \<open>One route\<close>

lemma strip_slashes_last:
  assumes "strip_slashes s = s" "s \<noteq> []"
  shows "last s \<noteq> CHR ''/''"
proof -
  have "dropWhile (\<lambda>c. c = CHR ''/'') (rev s) = rev s"
    using arg_cong [OF assms(1), of rev] by (simp add: strip_slashes_def)
  then show ?thesis using assms(2) by (auto simp: dropWhile_eq_self_iff hd_rev)
qed

lemma compile_relative:
  assumes "list_all (plain_segment f) segs" "segs \<noteq> []"
  shows "compilePath (drop 1 (pattern_text segs)) whole = compilePath (pattern_text segs) whole"
proof -
  obtain x xs where x: "segs = x # xs" using assms(2) by (cases segs) auto
  define q where "q = segment_text x @ under_root (map segment_text xs)"
  have p: "pattern_text segs = CHR ''/'' # q" by (simp add: pattern_text_def x q_def under_root_Cons)
  have q: "q \<noteq> []" "hd q \<noteq> CHR ''/''"
    using text_last [of f x] assms(1) by (auto simp: x q_def)
  note e = pattern_ends [OF assms, unfolded p]
  have s: "\<not> ends_with q ''*''" using e(1) q(1) by (cases q rule: rev_cases) (auto simp: ends_with_def)
  have l: "last q \<noteq> CHR ''/''"
    using strip_slashes_last [OF e(2)] q(1) by simp
  then have "strip_slashes q = q" using q(1) by (simp add: strip_slashes_id)
  moreover have "dropWhile (\<lambda>c. c = CHR ''/'') q = q" using q by (cases q) auto
  moreover have "q \<noteq> ''/''" using q(2) by auto
  ultimately show ?thesis
    using e s q by (simp add: compilePath_def pattern_body_def p)
qed

lemma match_prefix:
  assumes "list_all (plain_segment f) segs" "segs \<noteq> []" "distinct (segment_names segs)"
    "if whole then s = [] else s = [] \<or> hd s = CHR ''/''"
  shows "matchPath (drop 1 (pattern_text segs)) sensitive whole (path_text f segs @ s) = Some
    \<lparr>m_params = map (\<lambda>n. (n, Some (unescape_slashes (f n)))) (segment_names segs),
     m_pathname = path_text f segs, m_base = path_text f segs\<rparr>"
proof -
  obtain tl where "run_pieces sensitive (concat (map segment_pieces segs)) (path_text f segs @ s)
      = (map (\<lambda>n. Some (f n)) (segment_names segs), s) # tl"
    using run_segments [OF assms(1), of s sensitive] assms(4) by (auto split: if_splits)
  then show ?thesis
    using compile_relative [OF assms(1,2), of whole] compile_plain [OF assms(1,2), of whole] path_ends [OF assms(1,2)]
      updates_distinct [OF assms(3), of "[]" f] base_fold [OF names_no_star [OF assms(1)]] assms(4)
    by (cases whole) (auto simp: matchPath_def Let_def)
qed

section \<open>A branch of routes\<close>

text \<open>The path of each level, and the parameters of a list of segments.\<close>

fun levels :: "(string \<Rightarrow> string) \<Rightarrow> pattern_segment list \<Rightarrow> pattern_segment list list \<Rightarrow> string list" where
  "levels f outer [] = []"
| "levels f outer (g # gs) = path_text f (outer @ g) # levels f (outer @ g) gs"

definition level_params :: "(string \<Rightarrow> string) \<Rightarrow> pattern_segment list \<Rightarrow> (string \<times> string option) list" where
  "level_params f segs = map (\<lambda>n. (n, Some (unescape_slashes (f n)))) (segment_names segs)"

definition relative_to :: "pattern_segment list \<Rightarrow> route_meta \<Rightarrow> bool" where
  "relative_to segs m \<longleftrightarrow> relativePath m = drop 1 (pattern_text segs)"

lemma segment_names_append: "segment_names (xs @ ys) = segment_names xs @ segment_names ys"
  by (simp add: segment_names_def)

lemma path_text_append: "path_text f (xs @ ys) = path_text f xs @ path_text f ys"
  by (simp add: path_text_def under_root_def)

lemma path_text_start: "path_text f xs = [] \<or> hd (path_text f xs) = CHR ''/''"
  unfolding path_text_def by (rule under_root_hd)

lemma updates_new:
  "distinct (map fst qs) \<Longrightarrow> fst ` set qs \<inter> fst ` set ps = {} \<Longrightarrow>
    foldl (\<lambda>acc (k, v). AList.update k v acc) ps qs = ps @ qs"
proof (induction qs arbitrary: ps)
  case (Cons q qs)
  obtain k v where q: "q = (k, v)" by (cases q)
  have "AList.update k v ps = ps @ [(k, v)]"
    using Cons.prems(2) by (induction ps) (auto simp: q)
  then show ?case using Cons by (auto simp: q)
qed simp

lemma level_params_fst: "map fst (level_params f segs) = segment_names segs"
  by (simp add: level_params_def comp_def)

lemma level_params_keys: "fst ` set (level_params f segs) = set (segment_names segs)"
  by (simp add: level_params_def image_image)

lemma match_levels:
  assumes "list_all2 relative_to gs ms" "list_all (\<lambda>g. g \<noteq> [] \<and> list_all (plain_segment f) g) gs"
    "list_all (plain_segment f) outer" "distinct (segment_names (outer @ concat gs))"
  shows "match_metas ms (if outer = [] then ''/'' else path_text f outer) (path_text f (outer @ concat gs)) (level_params f outer)
    = Some (map2 (\<lambda>t m. (t, t, meta_route m)) (levels f outer gs) ms, level_params f (outer @ concat gs))"
  using assms
proof (induction gs ms arbitrary: outer rule: list_all2_induct)
  case (Cons g gs m ms)
  let ?ap = "if outer = [] then ''/'' else path_text f outer" and ?rest = "path_text f (concat gs)"
  have g: "g \<noteq> []" "list_all (plain_segment f) g" using Cons.prems by simp_all
  have og: "list_all (plain_segment f) (outer @ g)" "outer @ g \<noteq> []" using g Cons.prems by simp_all
  have names: "distinct (segment_names g)" "set (segment_names g) \<inter> set (segment_names outer) = {}"
    using Cons.prems(3) by (auto simp: segment_names_append)
  have words: "list_all word_segment (map (segment_fill f) xs)" if "list_all (plain_segment f) xs" for xs
    using that plain_word by (auto simp: list_all_iff)
  have nonempty: "path_text f g \<noteq> []" using path_ends(1) [OF g(2,1)] .
  have left: "(if ?ap = ''/'' then path_text f (outer @ concat (g # gs))
      else if drop (length ?ap) (path_text f (outer @ concat (g # gs))) = [] then ''/''
      else drop (length ?ap) (path_text f (outer @ concat (g # gs)))) = path_text f g @ ?rest"
  proof (cases "outer = []")
    case True
    then show ?thesis by (simp add: path_text_append)
  next
    case False
    have "path_text f outer \<noteq> ''/''"
      using path_ends(2) [OF Cons.prems(2) False] by (auto simp: strip_slashes_def)
    then show ?thesis using False nonempty by (simp add: path_text_append)
  qed
  have join: "joinPaths [?ap, path_text f g] = path_text f (outer @ g)"
    using join_below [OF words [OF Cons.prems(2)] words [OF g(2)]] g(1)
    by (simp add: path_text_def split: if_splits)
  have norm: "normalizePathname (path_text f (outer @ g)) = path_text f (outer @ g)"
    using normalize_under_root [OF words [OF og(1)]] og(2) by (simp add: path_text_def)
  have base: "path_text f g \<noteq> ''/''"
    using path_ends(2) [OF g(2,1)] by (auto simp: strip_slashes_def)
  have params: "foldl (\<lambda>acc (k, v). AList.update k v acc) (level_params f outer) (level_params f g) = level_params f (outer @ g)"
    using updates_new [of "level_params f g" "level_params f outer"] names
    by (simp add: level_params_fst level_params_keys) (simp add: level_params_def segment_names_append)
  have match: "matchPath (relativePath m) (caseSensitive m) (ms = []) (path_text f g @ ?rest) = Some
    \<lparr>m_params = level_params f g, m_pathname = path_text f g, m_base = path_text f g\<rparr>"
    using match_prefix [OF g(2,1) names(1), of "ms = []" ?rest "caseSensitive m"] Cons.hyps path_text_start [of f "concat gs"]
    by (cases "ms = []") (auto simp: relative_to_def level_params_def path_text_def under_root_def)
  have ih: "match_metas ms (path_text f (outer @ g)) (path_text f (outer @ concat (g # gs))) (level_params f (outer @ g))
    = Some (map2 (\<lambda>t m. (t, t, meta_route m)) (levels f (outer @ g) gs) ms, level_params f (outer @ concat (g # gs)))"
    using Cons.IH [of "outer @ g"] Cons.prems og by (simp split: if_splits)
  show ?case
    unfolding match_metas.simps Let_def left match option.case path_match.simps params join norm
    using base ih by simp
qed simp

section \<open>Properties\<close>

text \<open>
  C8. A branch of routes inside each other, each with plain segments of its own, matches the
  path made by putting values for all the parameters. Every route of the branch is shown
  at the part of the path up to its own segments, and each sees the parameters of all.
\<close>

theorem nested_routes_read_back:
  assumes "list_all2 relative_to gs (routesMeta b)"
    and "list_all (\<lambda>g. g \<noteq> [] \<and> list_all (plain_segment f) g) gs" "distinct (segment_names (concat gs))"
  shows "matchRouteBranch b (path_text f (concat gs)) = Some (map2 (\<lambda>t m.
    \<lparr>s_params = map (\<lambda>n. (n, Some (unescape_slashes (f n)))) (segment_names (concat gs)),
     s_pathname = t, s_base = t, s_route = meta_route m\<rparr>) (levels f [] gs) (routesMeta b))"
  using match_levels [OF assms(1,2), of "[]"] assms(3)
  by (auto simp: matchRouteBranch_def level_params_def segment_names_def zip_map1 split_def)

text \<open>Documents of a version inside a tab, with a parameter at each level.\<close>

definition docs_route :: route where
  "docs_route = Route (Some '':page'') False False []"

definition nested_branch :: branch where
  "nested_branch = \<lparr>branch_path = ''/tab/:id/docs/:page'', score = 0, routesMeta =
     [\<lparr>relativePath = ''tab/:id'', caseSensitive = False, childrenIndex = 0,
        meta_route = Route (Some ''tab/:id'') False False [docs_route]\<rparr>,
      \<lparr>relativePath = ''docs/:page'', caseSensitive = False, childrenIndex = 0, meta_route = docs_route\<rparr>]\<rparr>"

theorem nested_routes_read_back_witness:
  "map_option (map (\<lambda>r. (s_base r, s_params r))) (matchRouteBranch nested_branch ''/tab/7/docs/intro'')
   = Some [(''/tab/7'', [(''id'', Some ''7''), (''page'', Some ''intro'')]),
           (''/tab/7/docs/intro'', [(''id'', Some ''7''), (''page'', Some ''intro'')])]"
proof -
  let ?gs = "[[Static ''tab'', Dynamic ''id''], [Static ''docs'', Dynamic ''page'']]"
  let ?f = "\<lambda>n. if n = ''id'' then ''7'' else ''intro''"
  have "list_all2 relative_to ?gs (routesMeta nested_branch)"
    unfolding nested_branch_def list_all2_Cons list_all2_Nil relative_to_def by code_simp
  moreover have "list_all (\<lambda>g. g \<noteq> [] \<and> list_all (plain_segment ?f) g) ?gs" "distinct (segment_names (concat ?gs))"
    by code_simp+
  moreover have "path_text ?f (concat ?gs) = ''/tab/7/docs/intro''" "segment_names (concat ?gs) = [''id'', ''page'']"
    "levels ?f [] ?gs = [''/tab/7'', ''/tab/7/docs/intro'']" "unescape_slashes ''7'' = ''7''"
    "unescape_slashes ''intro'' = ''intro''"
    by code_simp+
  ultimately show ?thesis
    using nested_routes_read_back [of ?gs nested_branch ?f] by (simp add: nested_branch_def)
qed

end
