(* ===== verification/Router_History.thy ===== *)
theory Router_History
  imports Router_Paths
begin

text \<open>
  The history of the hash router (\<open>createHashHistory\<close> with \<open>getUrlBasedHistory\<close>, line 244
  of the bundle) above the session history of the browser: a list of entries with a
  cursor, of which each carries the fragment of its address and the state stored with it.
  The handlers are functions on the state; what the user, the application and the
  browser do is a step relation. An address is written as the URL standard
  writes a fragment and read back in this form; the failure of \<open>pushState\<close> is left out.
\<close>

section \<open>Fragments\<close>

text \<open>
  What the browser makes of a text behind the hash: blanks at the end, tabs and line breaks are
  dropped, and the other characters of the fragment percent-encode set (controls, blanks, \<open>"\<close>, \<open><\<close>,
  \<open>>\<close>, \<open>`\<close> and everything behind the tilde) are written as their UTF-8 bytes. A percent sign stays.
\<close>

definition fragment_char :: "char \<Rightarrow> bool" where
  "fragment_char c \<longleftrightarrow> (let n = of_char c :: nat in 32 < n \<and> n < 127) \<and> c \<notin> {CHR 0x22, CHR ''<'', CHR ''>'', CHR 0x60}"

definition hex_upper :: "nat \<Rightarrow> char" where
  "hex_upper d = ''0123456789ABCDEF'' ! d"

definition percent_byte :: "nat \<Rightarrow> string" where
  "percent_byte n = [CHR ''%'', hex_upper (n div 16), hex_upper (n mod 16)]"

definition percent_char :: "char \<Rightarrow> string" where
  "percent_char c = (if fragment_char c then [c] else (let n = of_char c :: nat in
     if n < 128 then percent_byte n else percent_byte (192 + n div 64) @ percent_byte (128 + n mod 64)))"

definition percent_encode :: "string \<Rightarrow> string" where
  "percent_encode s = concat (map percent_char s)"

definition is_blank :: "char \<Rightarrow> bool" where
  "is_blank c \<longleftrightarrow> (of_char c :: nat) \<le> 32"

definition dropped_char :: "char \<Rightarrow> bool" where
  "dropped_char c \<longleftrightarrow> c = CHR 0x09 \<or> c = CHR 0x0A \<or> c = CHR 0x0D"

definition written_fragment :: "string \<Rightarrow> string" where
  "written_fragment s = percent_encode (filter (Not \<circ> dropped_char) (rev (dropWhile is_blank (rev s))))"

definition percent_path :: "full_path \<Rightarrow> full_path" where
  "percent_path p = \<lparr>p_pathname = percent_encode (p_pathname p), p_search = percent_encode (p_search p),
     p_hash = percent_encode (p_hash p)\<rparr>"

text \<open>A text of which nothing is dropped.\<close>

definition kept_text :: "string \<Rightarrow> bool" where
  "kept_text s \<longleftrightarrow> list_all (Not \<circ> dropped_char) s \<and> (s = [] \<or> \<not> is_blank (last s))"

section \<open>The state\<close>

text \<open>\<open>{usr, key, idx}\<close>; an entry that the router did not make has no state.\<close>

record entry_state =
  st_usr :: "string option"
  st_key :: string
  st_idx :: "int option"

record history_entry =
  frag :: string
  entry_state :: "entry_state option"

datatype action = Pop | Push | Replace

record location = full_path +
  l_state :: "string option"
  l_key :: string

record told_move =
  r_action :: action
  r_location :: location
  r_delta :: "int option"

record url_history =
  entries :: "history_entry list"
  cursor :: nat
  action :: action
  index :: "int option"
  listening :: bool
  reports :: "told_move list"

definition current :: "url_history \<Rightarrow> history_entry" where
  "current h = entries h ! cursor h"

text \<open>\<open>eot\<close>: the number stored with the present entry.\<close>

definition stored_index :: "url_history \<Rightarrow> int option" where
  "stored_index h = (case entry_state (current h) of None \<Rightarrow> None | Some st \<Rightarrow> st_idx st)"

text \<open>\<open>createHashLocation\<close>\<close>

definition hash_location :: "history_entry \<Rightarrow> location" where
  "hash_location e = (let p = parsePath (frag e); pn = or_else ''/'' (pp_pathname p) in
     \<lparr>p_pathname = (if \<not> starts_with pn ''/'' \<and> \<not> starts_with pn ''.'' then CHR ''/'' # pn else pn),
      p_search = or_else [] (pp_search p), p_hash = or_else [] (pp_hash p),
      l_state = (case entry_state e of None \<Rightarrow> None
        | Some st \<Rightarrow> if st_usr st = Some [] then None else st_usr st),
      l_key = (case entry_state e of None \<Rightarrow> ''default''
        | Some st \<Rightarrow> if st_key st = [] then ''default'' else st_key st)\<rparr>)"

definition location_now :: "url_history \<Rightarrow> location" where
  "location_now h = hash_location (current h)"

section \<open>The handlers\<close>

definition tell :: "action \<Rightarrow> int option \<Rightarrow> url_history \<Rightarrow> url_history" where
  "tell a d h = (if listening h then h\<lparr>reports := reports h @ [\<lparr>r_action = a, r_location = location_now h, r_delta = d\<rparr>]\<rparr>
     else h)"

text \<open>The browser drops what lies ahead of the cursor when an entry is added.\<close>

definition add_entry :: "history_entry \<Rightarrow> url_history \<Rightarrow> url_history" where
  "add_entry e h = h\<lparr>entries := take (Suc (cursor h)) (entries h) @ [e], cursor := Suc (cursor h)\<rparr>"

text \<open>\<open>null + 1\<close> is 1 and \<open>n - null\<close> is \<open>n\<close>.\<close>

definition number :: "int option \<Rightarrow> int" where
  "number i = (case i of None \<Rightarrow> 0 | Some n \<Rightarrow> n)"

definition made_entry :: "full_path \<Rightarrow> string option \<Rightarrow> string \<Rightarrow> int option \<Rightarrow> history_entry" where
  "made_entry to usr key i = \<lparr>frag = written_fragment (createPath (given_path to)),
     entry_state = Some \<lparr>st_usr = usr, st_key = key, st_idx = i\<rparr>\<rparr>"

definition history_push :: "bool \<Rightarrow> full_path \<Rightarrow> string option \<Rightarrow> string \<Rightarrow> url_history \<Rightarrow> url_history" where
  "history_push v5 to usr key h = (let i = Some (number (stored_index h) + 1);
       h1 = add_entry (made_entry to usr key i) (h\<lparr>action := Push, index := i\<rparr>)
     in if v5 then tell Push (Some 1) h1 else h1)"

definition history_replace :: "bool \<Rightarrow> full_path \<Rightarrow> string option \<Rightarrow> string \<Rightarrow> url_history \<Rightarrow> url_history" where
  "history_replace v5 to usr key h = (let i = stored_index h;
       h1 = h\<lparr>action := Replace, index := i, entries := (entries h)[cursor h := made_entry to usr key i]\<rparr>
     in if v5 then tell Replace (Some 0) h1 else h1)"

text \<open>\<open>oot\<close>, which is attached to \<open>popstate\<close> while somebody listens.\<close>

definition on_popstate :: "url_history \<Rightarrow> url_history" where
  "on_popstate h = (if \<not> listening h then h else
     (let i = stored_index h; d = (case i of None \<Rightarrow> None | Some n \<Rightarrow> Some (n - number (index h)))
      in tell Pop d (h\<lparr>action := Pop, index := i\<rparr>)))"

text \<open>The browser moves the cursor when there is an entry, then \<open>popstate\<close> is fired.\<close>

definition in_reach :: "int \<Rightarrow> url_history \<Rightarrow> bool" where
  "in_reach n h \<longleftrightarrow> 0 \<le> int (cursor h) + n \<and> int (cursor h) + n < int (length (entries h))"

definition history_go :: "int \<Rightarrow> url_history \<Rightarrow> url_history" where
  "history_go n h = (if n \<noteq> 0 \<and> in_reach n h then on_popstate (h\<lparr>cursor := nat (int (cursor h) + n)\<rparr>) else h)"

text \<open>
  An address with another fragment typed by the user, or followed by a plain link; the fragment is
  given as it stands in the address.
\<close>

definition typed_address :: "string \<Rightarrow> url_history \<Rightarrow> url_history" where
  "typed_address f h = (if f = frag (current h) then h
     else on_popstate (add_entry \<lparr>frag = f, entry_state = None\<rparr> h))"

text \<open>One listener; a second one is refused.\<close>

definition history_listen :: "url_history \<Rightarrow> string + url_history" where
  "history_listen h = (if listening h then Inl ''A history only accepts one active listener''
     else Inr (h\<lparr>listening := True\<rparr>))"

definition history_unlisten :: "url_history \<Rightarrow> url_history" where
  "history_unlisten h = h\<lparr>listening := False\<rparr>"

text \<open>The page is opened at a fragment; an entry without a number gets the number zero.\<close>

definition create_history :: "history_entry \<Rightarrow> url_history" where
  "create_history e =
     (case (case entry_state e of None \<Rightarrow> None | Some st \<Rightarrow> st_idx st) of
        Some i \<Rightarrow> \<lparr>entries = [e], cursor = 0, action = Pop, index = Some i, listening = False, reports = []\<rparr>
      | None \<Rightarrow>
          \<lparr>entries = [e\<lparr>entry_state := Some (case entry_state e of
               None \<Rightarrow> \<lparr>st_usr = None, st_key = [], st_idx = Some 0\<rparr> | Some st \<Rightarrow> st\<lparr>st_idx := Some 0\<rparr>)\<rparr>],
           cursor = 0, action = Pop, index = Some 0, listening = False, reports = []\<rparr>)"

section \<open>What can happen\<close>

text \<open>The first listener joins, then the application and the buttons of the browser act.\<close>

inductive visited :: "bool \<Rightarrow> url_history \<Rightarrow> bool" for v5 where
  opened: "history_listen (create_history e) = Inr h \<Longrightarrow> visited v5 h"
| pushed: "visited v5 h \<Longrightarrow> visited v5 (history_push v5 to usr key h)"
| replaced: "visited v5 h \<Longrightarrow> visited v5 (history_replace v5 to usr key h)"
| gone: "visited v5 h \<Longrightarrow> visited v5 (history_go n h)"

inductive_cases visitedE: "visited v5 h"

section \<open>Lemmas\<close>

text \<open>The numbers stored with the entries count them, and the index is that of the cursor.\<close>

definition numbered :: "int \<Rightarrow> url_history \<Rightarrow> bool" where
  "numbered b h \<longleftrightarrow> cursor h < length (entries h) \<and> listening h \<and> index h = Some (b + int (cursor h)) \<and>
     (\<forall>i < length (entries h). map_option st_idx (entry_state (entries h ! i)) = Some (Some (b + int i)))"

named_theorems history_simps \<open>the handlers of the history\<close>

lemmas handlers [history_simps] = history_push_def history_replace_def history_go_def on_popstate_def
  add_entry_def made_entry_def tell_def in_reach_def Let_def

lemma numbered_stored: "numbered b h \<Longrightarrow> stored_index h = Some (b + int (cursor h))"
  by (auto simp: numbered_def stored_index_def current_def split: option.splits)

lemma numbered_created: "history_listen (create_history e) = Inr h \<Longrightarrow> \<exists>b. numbered b h"
  by (force simp: history_listen_def create_history_def numbered_def split: option.splits if_splits)

lemma numbered_push: "numbered b h \<Longrightarrow> numbered b (history_push v5 to usr key h)"
  using numbered_stored [of b h]
  by (auto simp: numbered_def history_simps number_def nth_append min_def less_Suc_eq)

lemma numbered_replace: "numbered b h \<Longrightarrow> numbered b (history_replace v5 to usr key h)"
  using numbered_stored [of b h]
  by (auto simp: numbered_def history_simps nth_list_update)

lemma numbered_go: "numbered b h \<Longrightarrow> numbered b (history_go n h)"
  using numbered_stored [of b "h\<lparr>cursor := nat (int (cursor h) + n), index := Some (b + int (nat (int (cursor h) + n)))\<rparr>"]
  by (auto simp: numbered_def history_simps stored_index_def current_def)

lemma visited_numbered: "visited v5 h \<Longrightarrow> \<exists>b. numbered b h"
  by (induction rule: visited.induct)
    (auto dest: numbered_created numbered_push numbered_replace numbered_go)

subsection \<open>Written locations\<close>

lemma hex_upper_mark: "d < 16 \<Longrightarrow> hex_upper d \<noteq> CHR ''#'' \<and> hex_upper d \<noteq> CHR ''?''"
  by (simp add: hex_upper_def numeral_eq_Suc less_Suc_eq) (elim disjE; simp)

lemma percent_char_not_Nil: "percent_char c \<noteq> []"
  by (simp add: percent_char_def percent_byte_def Let_def)

lemma percent_byte_mark: "n < 256 \<Longrightarrow> CHR ''#'' \<notin> set (percent_byte n) \<and> CHR ''?'' \<notin> set (percent_byte n)"
  using hex_upper_mark [OF less_mult_imp_div_less [of n 16 16]] hex_upper_mark [of "n mod 16"]
  by (auto simp: percent_byte_def)

lemma percent_char_mark:
  assumes "d = CHR ''#'' \<or> d = CHR ''?''"
  shows "d \<in> set (percent_char c) \<longleftrightarrow> c = d"
proof (cases "fragment_char c")
  case False
  have n: "(of_char c :: nat) < 256" by (rule nat_of_char_less_256)
  have "percent_char c = percent_byte (of_char c) \<or>
      percent_char c = percent_byte (192 + of_char c div 64) @ percent_byte (128 + of_char c mod 64)"
    using False by (simp add: percent_char_def Let_def)
  moreover have "CHR ''#'' \<notin> set (percent_byte k) \<and> CHR ''?'' \<notin> set (percent_byte k)"
    if "k \<in> {of_char c, 192 + of_char c div 64, 128 + of_char c mod 64}" for k
    using that n div_le_dividend [of "of_char c" 64] less_mult_imp_div_less [of "of_char c" 4 64] by (intro percent_byte_mark) auto
  ultimately have "d \<notin> set (percent_char c)" using assms by (elim disjE) auto
  moreover have "c \<noteq> d" using assms False by (auto simp: fragment_char_def)
  ultimately show ?thesis by simp
qed (auto simp: percent_char_def)

lemma percent_encode_simps [simp]:
  "percent_encode [] = []" "percent_encode (c # s) = percent_char c @ percent_encode s"
  "percent_encode (s @ t) = percent_encode s @ percent_encode t"
  by (simp_all add: percent_encode_def)

lemma percent_encode_Nil [simp]: "percent_encode s = [] \<longleftrightarrow> s = []"
  by (cases s) (simp_all add: percent_char_not_Nil)

lemma percent_encode_mark: "d = CHR ''#'' \<or> d = CHR ''?'' \<Longrightarrow> d \<in> set (percent_encode s) \<longleftrightarrow> d \<in> set s"
  by (induction s) (auto simp: percent_char_mark)

lemma percent_char_plain: "fragment_char c \<Longrightarrow> percent_char c = [c]"
  by (simp add: percent_char_def)

lemma percent_encode_plain: "list_all fragment_char s \<Longrightarrow> percent_encode s = s"
  by (induction s) (simp_all add: percent_char_plain)

lemma special_fragment_char: "fragment_char CHR ''/''" "fragment_char CHR ''#''" "fragment_char CHR ''?''"
  by (simp_all add: fragment_char_def)

lemma percent_encode_hd: "fragment_char c \<Longrightarrow> percent_encode (c # s) = c # percent_encode s"
  by (simp add: percent_char_plain)

lemma marked_percent:
  assumes "marked c s" "fragment_char c"
  shows "marked c (percent_encode s)"
  using assms by (cases s) (auto simp: marked_def percent_char_plain)

lemma plain_percent: "plain_path p \<Longrightarrow> plain_path (percent_path p)"
  by (simp add: plain_path_def percent_path_def percent_encode_mark marked_percent special_fragment_char)

lemma created_percent:
  assumes "plain_path p"
  shows "percent_encode (createPath (given_path p)) = createPath (given_path (percent_path p))"
proof -
  have "createPath (given_path q) = p_pathname q @ p_search q @ p_hash q" if "plain_path q" for q
    using that by (simp add: plain_path_def createPath_def given_path_def or_else_def with_mark_id)
  from this [OF assms] this [OF plain_percent [OF assms]] show ?thesis by (simp add: percent_path_def)
qed

lemma written_kept:
  assumes "kept_text s"
  shows "written_fragment s = percent_encode s"
proof -
  have "rev (dropWhile is_blank (rev s)) = s"
    using assms by (cases s rule: rev_cases) (auto simp: kept_text_def)
  moreover have "filter (Not \<circ> dropped_char) s = s"
    using assms by (simp add: kept_text_def list_all_iff)
  ultimately show ?thesis by (simp add: written_fragment_def)
qed

lemma made_location:
  assumes "plain_path to" "starts_with (p_pathname to) ''/''" "usr \<noteq> Some []" "key \<noteq> []"
    and "kept_text (createPath (given_path to))"
  shows "hash_location (made_entry to usr key i) = full_path.extend (percent_path to) \<lparr>l_state = usr, l_key = key\<rparr>"
proof -
  let ?to = "percent_path to"
  have "or_else [] (some_text t) = t" for t by (simp add: or_else_def some_text_def)
  moreover have "starts_with (p_pathname ?to) ''/''"
    using assms(2) by (cases "p_pathname to") (auto simp: percent_path_def percent_char_plain special_fragment_char)
  moreover have "frag (made_entry to usr key i) = createPath (given_path ?to)"
    by (simp add: made_entry_def written_kept [OF assms(5)] created_percent [OF assms(1)])
  ultimately show ?thesis
    using parse_create [OF plain_percent [OF assms(1)]] assms(3,4)
    by (cases ?to) (simp add: hash_location_def made_entry_def or_else_def [of _ "Some _"] full_path.defs Let_def)
qed

lemma push_then_back:
  assumes "numbered b h"
  shows "cursor (history_go (- 1) (history_push v5 to usr key h)) = cursor h"
    "current (history_go (- 1) (history_push v5 to usr key h)) = current h"
    "current (history_push v5 to usr key h) = made_entry to usr key (Some (number (stored_index h) + 1))"
    "length (entries (history_push v5 to usr key h)) = cursor h + 2"
  using assms by (auto simp: numbered_def history_simps current_def nth_append min_def)

section \<open>Properties\<close>

text \<open>
  C10. Whatever the application has pushed and replaced and however the user has moved,
  a move by some entries is told to the listener with exactly that distance and the
  location it leads to.
\<close>

theorem moves_told_with_distance:
  assumes "visited v5 h" "n \<noteq> 0" "in_reach n h"
  shows "reports (history_go n h) = reports h @
    [\<lparr>r_action = Pop, r_location = location_now (history_go n h), r_delta = Some n\<rparr>]"
proof -
  obtain b where b: "numbered b h" using visited_numbered [OF assms(1)] by blast
  let ?c = "nat (int (cursor h) + n)"
  have c: "int ?c = int (cursor h) + n" "?c < length (entries h)" using assms(3) by (auto simp: in_reach_def)
  then have "map_option st_idx (entry_state (entries h ! ?c)) = Some (Some (b + int ?c))"
    using b by (auto simp: numbered_def)
  then have "stored_index (h\<lparr>cursor := ?c\<rparr>) = Some (b + int ?c)"
    by (auto simp: stored_index_def current_def)
  then show ?thesis
    using assms(2,3) b c by (auto simp: numbered_def history_go_def on_popstate_def tell_def Let_def
        number_def location_now_def current_def)
qed

definition opened_page :: url_history where
  "opened_page = (create_history \<lparr>frag = ''/'', entry_state = None\<rparr>)\<lparr>listening := True\<rparr>"

definition page_at :: "string \<Rightarrow> full_path" where
  "page_at p = \<lparr>p_pathname = p, p_search = [], p_hash = []\<rparr>"

lemma opened_page_visited: "visited v5 opened_page"
  by (rule visited.opened [of "\<lparr>frag = ''/'', entry_state = None\<rparr>"])
    (simp add: opened_page_def history_listen_def create_history_def)

lemma moves_told_with_distance_witness:
  "map r_delta (reports (history_go (- 2) (history_push True (page_at ''/nodes'') None ''k2''
     (history_push True (page_at ''/explorer'') None ''k1'' opened_page)))) = [Some 1, Some 1, Some (- 2)]"
proof -
  let ?h = "history_push True (page_at ''/nodes'') None ''k2''
     (history_push True (page_at ''/explorer'') None ''k1'' opened_page)"
  have "visited True ?h" by (intro visited.pushed opened_page_visited)
  moreover have "in_reach (- 2) ?h" "map r_delta (reports ?h) = [Some 1, Some 1]" by code_simp+
  ultimately show ?thesis using moves_told_with_distance [of True ?h "- 2"] by simp
qed

text \<open>
  C32. A pushed location is the one shown, percent-encoded as the browser writes a fragment, going
  back shows the location before it, and what lay ahead is gone. Only texts of which the
  browser drops something (tabs, line breaks, blanks at the end) are excluded.
\<close>

theorem pushed_location_shown:
  assumes "visited v5 h" "plain_path to" "starts_with (p_pathname to) ''/''" "usr \<noteq> Some []" "key \<noteq> []"
    and "kept_text (createPath (given_path to))"
  shows "location_now (history_push v5 to usr key h) = full_path.extend (percent_path to) \<lparr>l_state = usr, l_key = key\<rparr>
    \<and> location_now (history_go (- 1) (history_push v5 to usr key h)) = location_now h
    \<and> length (entries (history_push v5 to usr key h)) = cursor h + 2"
proof -
  obtain b where "numbered b h" using visited_numbered [OF assms(1)] by blast
  note facts = push_then_back [OF this, of v5 to usr key]
  show ?thesis using facts made_location [OF assms(2-6)] by (simp add: location_now_def)
qed

lemma pushed_location_shown_witness:
  "location_now (history_push True (page_at ''/a b'') None ''k1'' opened_page)
     = \<lparr>p_pathname = ''/a%20b'', p_search = [], p_hash = [], l_state = None, l_key = ''k1''\<rparr>"
proof -
  have p: "plain_path (page_at ''/a b'')" "starts_with (p_pathname (page_at ''/a b'')) ''/''"
    "kept_text (createPath (given_path (page_at ''/a b'')))" by code_simp+
  have e: "percent_path (page_at ''/a b'') = page_at ''/a%20b''" by code_simp
  from pushed_location_shown [OF opened_page_visited p(1,2) _ _ p(3), of None "''k1''" True]
  show ?thesis unfolding e by (simp add: full_path.defs page_at_def)
qed

text \<open>
  C33. An address typed by the user has no number: after the next push, going back past
  it tells the listener the number of the entry instead of the distance.
\<close>

theorem typed_address_loses_count:
  assumes "visited v5 h" "f \<noteq> frag (current h)" "index h = Some k"
  shows "let g = history_go (- 1) (history_go (- 1) (history_push v5 to usr key (typed_address f h)))
    in cursor g = cursor h \<and> r_delta (last (reports g)) = Some k"
proof -
  obtain b where b: "numbered b h" using visited_numbered [OF assms(1)] by blast
  let ?c = "cursor h" and ?e = "entries h"
  have h: "?c < length ?e" "listening h" "map_option st_idx (entry_state (?e ! ?c)) = Some (Some k)"
    using b assms(3) by (auto simp: numbered_def)
  define h1 where "h1 = typed_address f h"
  define h2 where "h2 = history_push v5 to usr key h1"
  define h3 where "h3 = history_go (- 1) h2"
  define h4 where "h4 = history_go (- 1) h3"
  have h1: "entries h1 = take (Suc ?c) ?e @ [\<lparr>frag = f, entry_state = None\<rparr>]" "cursor h1 = Suc ?c" "listening h1"
    using h assms(2) by (auto simp: h1_def typed_address_def history_simps)
  have l1: "length (entries h1) = Suc (Suc ?c)" using h1(1) h(1) by simp
  have "stored_index h1 = None" using h1 h(1) by (simp add: stored_index_def current_def nth_append)
  then have h2: "entries h2 = entries h1 @ [made_entry to usr key (Some 1)]" "cursor h2 = Suc (Suc ?c)" "listening h2"
    using h1 l1 by (auto simp: h2_def history_simps number_def)
  have "in_reach (- 1) h2" using h2 l1 by (simp add: in_reach_def)
  moreover have "stored_index (h2\<lparr>cursor := Suc ?c\<rparr>) = None"
    using h2 h1 h(1) by (simp add: stored_index_def current_def nth_append)
  moreover have "nat (int (cursor h2) + - 1) = Suc ?c" using h2 by simp
  ultimately have h3: "entries h3 = entries h2" "cursor h3 = Suc ?c" "listening h3" "index h3 = None"
    using h2 by (simp_all add: h3_def history_go_def on_popstate_def tell_def Let_def)
  have "in_reach (- 1) h3" using h3 h2 l1 by (simp add: in_reach_def)
  moreover have "stored_index (h3\<lparr>cursor := ?c\<rparr>) = Some k"
    using h3 h2 h1 h by (auto simp: stored_index_def current_def nth_append split: option.splits)
  moreover have "nat (int (cursor h3) + - 1) = ?c" using h3 by simp
  ultimately have "cursor h4 = ?c \<and> r_delta (last (reports h4)) = Some k"
    using h3 by (simp add: h4_def history_go_def on_popstate_def tell_def Let_def number_def)
  then show ?thesis by (simp add: h1_def h2_def h3_def h4_def Let_def)
qed

lemma typed_address_loses_count_witness:
  "r_delta (last (reports (history_go (- 1) (history_go (- 1) (history_push True (page_at ''/nodes'') None ''k2''
     (typed_address ''/x'' opened_page)))))) = Some 0"
proof -
  have "''/x'' \<noteq> frag (current opened_page)" "index opened_page = Some 0" by code_simp+
  from typed_address_loses_count [OF opened_page_visited this, of True "page_at ''/nodes''" None "''k2''"]
  show ?thesis by (simp add: Let_def)
qed

end
