(* ===== verification/Router_Page.thy ===== *)
theory Router_Page
  imports Router_Match Router_History "HOL-Library.Sublist"
begin

text \<open>
  The router on the page (\<open>bundle.js\<close>, lines 244 and 246): routes made of elements
  (\<open>createRoutesFromChildren\<close>), the component \<open>Router\<close> with its base name, the routes
  below a route (\<open>useRoutes\<close>), the hooks \<open>useResolvedPath\<close>, \<open>useHref\<close> and \<open>useNavigate\<close>,
  the components \<open>Link\<close> and \<open>NavLink\<close>, and \<open>HashRouter\<close>, which shows what the history of
  \<open>Router_History\<close> has told last. There is no data router. The encoding of a pathname and
  the parsing of a URL by the browser are arguments.
\<close>

section \<open>Routes as elements\<close>

datatype element = NoElement | Group "element list" | RouteElement "string option" bool bool "element list"
  | OtherElement string

datatype element_error = NotARoute string | IndexHasChildren

fun createRoutesFromChildren :: "element list \<Rightarrow> element_error + route list" where
  "createRoutesFromChildren [] = Inr []"
| "createRoutesFromChildren (NoElement # es) = createRoutesFromChildren es"
| "createRoutesFromChildren (Group gs # es) = (case createRoutesFromChildren gs of
       Inl e \<Rightarrow> Inl e
     | Inr rs \<Rightarrow> map_sum id (\<lambda>qs. rs @ qs) (createRoutesFromChildren es))"
| "createRoutesFromChildren (RouteElement p i c cs # es) = (if i \<and> cs \<noteq> [] then Inl IndexHasChildren
     else (case createRoutesFromChildren cs of
         Inl e \<Rightarrow> Inl e
       | Inr rs \<Rightarrow> map_sum id (\<lambda>qs. Route p i c rs # qs) (createRoutesFromChildren es)))"
| "createRoutesFromChildren (OtherElement n # es) = Inl (NotARoute n)"

section \<open>Locations and matches below a route\<close>

definition router_basename :: "string \<Rightarrow> string" where
  "router_basename b = CHR ''/'' # dropWhile (\<lambda>c. c = CHR ''/'') b"

definition router_location :: "string \<Rightarrow> location \<Rightarrow> location option" where
  "router_location b l = map_option (\<lambda>p. l\<lparr>p_pathname := p\<rparr>) (stripBasename (p_pathname l) (router_basename b))"

text \<open>\<open>replace(/^\//, "")\<close>\<close>

definition drop_slash :: "string \<Rightarrow> string" where
  "drop_slash s = (if starts_with s ''/'' then drop 1 s else s)"

text \<open>What a route leaves of a path for the routes below it.\<close>

definition remaining_path :: "string \<Rightarrow> string \<Rightarrow> string" where
  "remaining_path base pathname = (let p = (if pathname = [] then ''/'' else pathname) in
     if base = ''/'' then p
     else CHR ''/'' # join ''/'' (drop (length (split_on CHR ''/'' (drop_slash base))) (split_on CHR ''/'' (drop_slash p))))"

definition parent_base :: "shown_route list \<Rightarrow> string" where
  "parent_base outer = (if outer = [] then ''/'' else s_base (last outer))"

definition below :: "(string \<Rightarrow> string) \<Rightarrow> shown_route list \<Rightarrow> shown_route \<Rightarrow> shown_route" where
  "below enc outer m = m\<lparr>
     s_params := foldl (\<lambda>acc (k, v). AList.update k v acc) (if outer = [] then [] else s_params (last outer)) (s_params m),
     s_pathname := joinPaths [parent_base outer, enc (s_pathname m)],
     s_base := (if s_base m = ''/'' then parent_base outer else joinPaths [parent_base outer, enc (s_base m)])\<rparr>"

definition useRoutes :: "(string \<Rightarrow> string option) \<Rightarrow> (string \<Rightarrow> string) \<Rightarrow> shown_route list \<Rightarrow> route list \<Rightarrow> string
    \<Rightarrow> route_error + shown_route list option" where
  "useRoutes decode enc outer routes pathname =
     map_sum id (map_option (\<lambda>ms. outer @ map (below enc outer) ms))
       (matchRoutes decode routes (remaining_path (parent_base outer) pathname) ''/'')"

text \<open>\<open>_renderMatches\<close>: each element is rendered with the matches from the outermost to its own.\<close>

definition render_matches :: "shown_route list \<Rightarrow> shown_route list \<Rightarrow> shown_route list list" where
  "render_matches outer ms = map (\<lambda>i. outer @ take (Suc i) ms) [0..<length ms]"

section \<open>Targets on the page\<close>

record nav_context =
  nav_basename :: string
  nav_v7 :: bool
  nav_matches :: "shown_route list"
  nav_location :: location

definition match_info :: "shown_route \<Rightarrow> route_match" where
  "match_info m = \<lparr>rm_path = route_path (s_route m), rm_pathname = s_pathname m, rm_base = s_base m\<rparr>"

definition useResolvedPath :: "nav_context \<Rightarrow> target \<Rightarrow> bool \<Rightarrow> path_error + full_path" where
  "useResolvedPath c t by_path = resolveTo t (getResolveToMatches (map match_info (nav_matches c)) (nav_v7 c))
     (p_pathname (nav_location c)) by_path"

definition with_basename :: "string \<Rightarrow> full_path \<Rightarrow> full_path" where
  "with_basename b p = (if b = ''/'' then p
     else p\<lparr>p_pathname := (if p_pathname p = ''/'' then b else joinPaths [b, p_pathname p])\<rparr>)"

text \<open>The address of the document stands before the fragment when it has a base element.\<close>

definition useHref :: "string \<Rightarrow> nav_context \<Rightarrow> target \<Rightarrow> bool \<Rightarrow> path_error + string" where
  "useHref document c t by_path = map_sum id (\<lambda>p. document @ ''#'' @ createPath (given_path (with_basename (nav_basename c) p)))
     (useResolvedPath c t by_path)"

record nav_options =
  o_replace :: bool
  o_state :: "string option"
  o_by_path :: bool

datatype destination = By int | To target

text \<open>Before the first effect \<open>navigate\<close> does nothing; the key is the one the history makes.\<close>

definition navigate :: "bool \<Rightarrow> nav_context \<Rightarrow> destination \<Rightarrow> nav_options \<Rightarrow> string \<Rightarrow> url_history
    \<Rightarrow> path_error + url_history" where
  "navigate active c d opts key h = (if \<not> active then Inr h else (case d of
       By n \<Rightarrow> Inr (history_go n h)
     | To t \<Rightarrow> map_sum id (\<lambda>p. (if o_replace opts then history_replace else history_push) True
           (with_basename (nav_basename c) p) (o_state opts) key h) (useResolvedPath c t (o_by_path opts))))"

section \<open>Links\<close>

record click =
  button :: nat
  modified :: bool
  prevented_before :: bool

record link =
  lk_to :: target
  lk_replace :: "bool option"
  lk_state :: "string option"
  lk_frame :: string
  lk_by_path :: bool
  lk_reload :: bool

definition shouldProcessLinkClick :: "click \<Rightarrow> string \<Rightarrow> bool" where
  "shouldProcessLinkClick e frame \<longleftrightarrow> button e = 0 \<and> (frame = [] \<or> frame = ''_self'') \<and> \<not> modified e"

text \<open>
  A URL of the own origin below the base name becomes a path; any other URL makes the link
  external. A URL is its origin, pathname, search and hash; the page has an origin and a
  protocol.
\<close>

definition link_target :: "(string \<Rightarrow> (string \<times> string \<times> string \<times> string) option) \<Rightarrow> string \<times> string \<Rightarrow> string \<Rightarrow> target
    \<Rightarrow> target \<times> bool" where
  "link_target url site b t = (case t of
       ToText s \<Rightarrow> if \<not> isAbsoluteUrl s then (t, False)
         else (case url (if starts_with s ''//'' then snd site @ s else s) of
             None \<Rightarrow> (t, False)
           | Some (origin, pn, se, ha) \<Rightarrow> (case stripBasename pn b of
               Some p \<Rightarrow> if origin = fst site then (ToText (p @ se @ ha), False) else (t, True)
             | None \<Rightarrow> (t, True)))
     | _ \<Rightarrow> (t, False))"

text \<open>The handler of a link: whether the default is prevented afterwards, and the history.\<close>

definition link_click :: "nav_context \<Rightarrow> target \<times> bool \<Rightarrow> link \<Rightarrow> click \<Rightarrow> string \<Rightarrow> url_history
    \<Rightarrow> path_error + (bool \<times> url_history)" where
  "link_click c t l e key h =
     (if snd t \<or> lk_reload l \<or> prevented_before e \<or> \<not> shouldProcessLinkClick e (lk_frame l) then Inr (prevented_before e, h)
      else case useResolvedPath c (fst t) (lk_by_path l) of
          Inl x \<Rightarrow> Inl x
        | Inr p \<Rightarrow>
            (let r = (case lk_replace l of Some b \<Rightarrow> b
                 | None \<Rightarrow> createPath (given_path (full_path.truncate (nav_location c))) = createPath (given_path p))
             in map_sum id (Pair True) (navigate True c (To (fst t))
                  \<lparr>o_replace = r, o_state = lk_state l, o_by_path = lk_by_path l\<rparr> key h)))"

definition nav_active :: "bool \<Rightarrow> bool \<Rightarrow> string \<Rightarrow> string \<Rightarrow> bool" where
  "nav_active sensitive exact to_path here_path = (let a = (if sensitive then to_path else toLowerCase to_path);
       here = (if sensitive then here_path else toLowerCase here_path);
       n = (if a \<noteq> ''/'' \<and> ends_with a ''/'' then length a - 1 else length a)
     in here = a \<or> \<not> exact \<and> starts_with here a \<and> n < length here \<and> here ! n = CHR ''/'')"

section \<open>HashRouter\<close>

record router_page =
  rp_history :: url_history
  rp_action :: action
  rp_location :: location

text \<open>The state is made with the history; then the component listens.\<close>

definition open_router :: "history_entry \<Rightarrow> string + router_page" where
  "open_router e = map_sum id (\<lambda>h. \<lparr>rp_history = h, rp_action = action (create_history e),
     rp_location = location_now (create_history e)\<rparr>) (history_listen (create_history e))"

text \<open>Everything the history tells sets the state.\<close>

definition told :: "url_history \<Rightarrow> router_page \<Rightarrow> router_page" where
  "told h pg = (let pg1 = pg\<lparr>rp_history := h\<rparr> in
     case drop (length (reports (rp_history pg))) (reports h) of
       [] \<Rightarrow> pg1
     | m # ms \<Rightarrow> pg1\<lparr>rp_action := r_action (last (m # ms)), rp_location := r_location (last (m # ms))\<rparr>)"

text \<open>
  A page has a base name, a flag and a table of routes, read by \<open>decode\<close> and \<open>enc\<close>. A link
  or a component stands below the outermost \<open>k\<close> of the routes shown.
\<close>

record site =
  site_basename :: string
  site_v7 :: bool
  site_routes :: "route list"

definition shown_matches :: "(string \<Rightarrow> string option) \<Rightarrow> (string \<Rightarrow> string) \<Rightarrow> site \<Rightarrow> location \<Rightarrow> shown_route list" where
  "shown_matches decode enc w l = (case useRoutes decode enc [] (site_routes w) (p_pathname l) of
       Inr (Some ms) \<Rightarrow> ms | _ \<Rightarrow> [])"

definition context_at :: "(string \<Rightarrow> string option) \<Rightarrow> (string \<Rightarrow> string) \<Rightarrow> site \<Rightarrow> nat \<Rightarrow> router_page \<Rightarrow> nav_context option" where
  "context_at decode enc w k pg = map_option (\<lambda>l. \<lparr>nav_basename = router_basename (site_basename w), nav_v7 = site_v7 w,
       nav_matches = take k (shown_matches decode enc w l), nav_location = l\<rparr>)
     (router_location (site_basename w) (rp_location pg))"

datatype router_event = ClickLink nat "target \<times> bool" link click string
  | CallNavigate nat destination nav_options string | MoveBy int | TypeAddress string

definition router_step :: "(string \<Rightarrow> string option) \<Rightarrow> (string \<Rightarrow> string) \<Rightarrow> site \<Rightarrow> router_page \<Rightarrow> router_event \<Rightarrow> router_page" where
  "router_step decode enc w pg ev = (case ev of
       ClickLink k t l e key \<Rightarrow> (case context_at decode enc w k pg of None \<Rightarrow> pg
         | Some c \<Rightarrow> (case link_click c t l e key (rp_history pg) of Inl x \<Rightarrow> pg | Inr (p, h) \<Rightarrow> told h pg))
     | CallNavigate k d opts key \<Rightarrow> (case context_at decode enc w k pg of None \<Rightarrow> pg
         | Some c \<Rightarrow> (case navigate True c d opts key (rp_history pg) of Inl x \<Rightarrow> pg | Inr h \<Rightarrow> told h pg))
     | MoveBy n \<Rightarrow> told (history_go n (rp_history pg)) pg
     | TypeAddress f \<Rightarrow> told (typed_address f (rp_history pg)) pg)"

section \<open>Lemmas\<close>

text \<open>An operation of the history changes nothing or tells where it leads to.\<close>

definition tells :: "url_history \<Rightarrow> url_history \<Rightarrow> bool" where
  "tells h h' \<longleftrightarrow> h' = h \<or> listening h' \<and> cursor h' < length (entries h') \<and>
     (\<exists>m. reports h' = reports h @ [m] \<and> r_action m = action h' \<and> r_location m = location_now h')"

definition ready :: "url_history \<Rightarrow> bool" where
  "ready h \<longleftrightarrow> listening h \<and> cursor h < length (entries h)"

lemma tells_push: "ready h \<Longrightarrow> tells h (history_push True to usr key h)"
  by (auto simp: tells_def ready_def history_simps location_now_def current_def min_def nth_append)

lemma tells_replace: "ready h \<Longrightarrow> tells h (history_replace True to usr key h)"
  by (auto simp: tells_def ready_def history_simps location_now_def current_def)

lemma tells_go: "ready h \<Longrightarrow> tells h (history_go n h)"
  by (auto simp: tells_def ready_def history_simps location_now_def current_def)

lemma tells_typed: "ready h \<Longrightarrow> tells h (typed_address f h)"
  by (auto simp: tells_def ready_def typed_address_def history_simps location_now_def current_def min_def nth_append)

lemma tells_refl: "tells h h"
  by (simp add: tells_def)

lemma map_sum_Inr: "map_sum id f x = Inr y \<longleftrightarrow> (\<exists>z. x = Inr z \<and> y = f z)"
  by (cases x) auto

lemma tells_navigate: "ready h \<Longrightarrow> navigate active c d opts key h = Inr h' \<Longrightarrow> tells h h'"
  using tells_push [of h] tells_replace [of h] tells_go [of h] tells_refl [of h]
  by (auto simp: navigate_def map_sum_Inr split: if_splits destination.splits)

definition synced :: "router_page \<Rightarrow> bool" where
  "synced pg \<longleftrightarrow> ready (rp_history pg) \<and> rp_location pg = location_now (rp_history pg)
     \<and> rp_action pg = action (rp_history pg)"

lemma told_synced: "synced pg \<Longrightarrow> tells (rp_history pg) h \<Longrightarrow> synced (told h pg)"
  by (auto simp: synced_def tells_def told_def ready_def Let_def)

lemma tells_click: "ready h \<Longrightarrow> link_click c t l e key h = Inr (p, h') \<Longrightarrow> tells h h'"
  using tells_refl [of h] tells_navigate [of h]
  by (auto simp: link_click_def Let_def map_sum_Inr split: if_splits sum.splits)

lemma synced_step: "synced pg \<Longrightarrow> synced (router_step decode enc w pg ev)"
proof (cases ev)
  case (ClickLink k t l e key)
  then show "synced pg \<Longrightarrow> ?thesis"
    using told_synced [of pg] tells_click [of "rp_history pg"]
    by (auto simp: router_step_def synced_def [of pg] split: option.split sum.split)
next
  case (CallNavigate k d opts key)
  then show "synced pg \<Longrightarrow> ?thesis"
    using told_synced [of pg] tells_navigate [of "rp_history pg"]
    by (auto simp: router_step_def synced_def [of pg] split: option.split sum.split)
qed (auto simp: router_step_def synced_def [of pg] intro: told_synced tells_go tells_typed)

interpretation router: machine "router_step decode enc w" "\<lambda>pg ev. True" synced for decode enc w
  by unfold_locales (rule synced_step)

lemma opened_synced: "open_router e = Inr pg \<Longrightarrow> synced pg"
  by (auto simp: open_router_def history_listen_def synced_def ready_def create_history_def location_now_def current_def
      map_sum_def split: sum.splits option.splits if_splits)

lemma router_run: "open_router e = Inr pg \<Longrightarrow> synced (foldl (router_step decode enc w) pg es)"
  by (rule router.inv_run [OF opened_synced permitted_all])

text \<open>Pushing and going back, from any entry.\<close>

lemma back_after_push:
  assumes "ready h"
  shows "current (history_go (- 1) (history_push v5 to usr key h)) = current h"
    "length (entries (history_push v5 to usr key h)) = cursor h + 2"
    "current (history_push v5 to usr key h) = made_entry to usr key (Some (number (stored_index h) + 1))"
  using assms by (auto simp: ready_def history_simps current_def nth_append min_def)

lemma current_replace:
  assumes "ready h"
  shows "current (history_replace v5 to usr key h) = made_entry to usr key (stored_index h)"
    "length (entries (history_replace v5 to usr key h)) = length (entries h)"
  using assms by (auto simp: ready_def history_simps current_def)

lemma under_root_join: "ws \<noteq> [] \<Longrightarrow> under_root ws = CHR ''/'' # join ''/'' ws"
  by (induction ws rule: induct_list012) (auto simp: under_root_def join_Cons)

lemma remaining_below:
  assumes "ws \<noteq> []" "\<And>w. w \<in> set ws \<Longrightarrow> w \<noteq> [] \<and> CHR ''/'' \<notin> set w"
  shows "remaining_path (CHR ''/'' # join ''/'' ws) (CHR ''/'' # join ''/'' ws @ CHR ''/'' # r) = CHR ''/'' # r"
proof -
  have "split_on CHR ''/'' (join ''/'' ws) = ws" using assms by (intro split_on_join) auto
  then show ?thesis
    using assms by (cases "join ''/'' ws = []")
      (auto simp: remaining_path_def drop_slash_def Let_def split_on_append_sep join_split_on)
qed

text \<open>What the page shows after the history has told something.\<close>

lemma told_shows:
  assumes "tells (rp_history pg) h" "h \<noteq> rp_history pg"
  shows "rp_history (told h pg) = h" "rp_location (told h pg) = location_now h" "rp_action (told h pg) = action h"
  using assms by (auto simp: tells_def told_def Let_def)

lemma context_at_root:
  assumes "site_basename w = ''/''" "context_at decode enc w k pg = Some c"
  shows "nav_basename c = ''/''" "nav_location c = rp_location pg"
  using assms by (auto simp: context_at_def router_location_def router_basename_def stripBasename_def)

lemma click_taken:
  assumes "shouldProcessLinkClick e (lk_frame l)" "\<not> lk_reload l" "\<not> prevented_before e"
    "useResolvedPath c t (lk_by_path l) = Inr p" "nav_basename c = ''/''"
  shows "link_click c (t, False) l e key h = Inr (True,
    (if case lk_replace l of Some b \<Rightarrow> b
        | None \<Rightarrow> createPath (given_path (full_path.truncate (nav_location c))) = createPath (given_path p)
     then history_replace else history_push) True p (lk_state l) key h)"
  using assms by (simp add: link_click_def navigate_def with_basename_def Let_def)

lemma told_more: "reports h' = reports h @ [m] \<Longrightarrow> h' \<noteq> h"
  by auto

lemma push_new: "ready h \<Longrightarrow> history_push True to usr key h \<noteq> h \<and> action (history_push True to usr key h) = Push"
  by (auto simp: ready_def history_simps intro!: told_more)

lemma replace_new: "ready h \<Longrightarrow> history_replace True to usr key h \<noteq> h \<and> action (history_replace True to usr key h) = Replace"
  by (auto simp: ready_def history_simps intro!: told_more)

section \<open>Properties\<close>

text \<open>
  C14. Whatever links are clicked, whatever is navigated to, and however the user moves or
  changes the address: the location and the action of the page are those of the entry the
  browser is at.
\<close>

theorem page_shows_address:
  "case open_router e of
     Inl x \<Rightarrow> False
   | Inr pg \<Rightarrow> rp_location (foldl (router_step decode enc w) pg es)
         = location_now (rp_history (foldl (router_step decode enc w) pg es))
       \<and> rp_action (foldl (router_step decode enc w) pg es) = action (rp_history (foldl (router_step decode enc w) pg es))"
proof (cases "open_router e")
  case (Inl x)
  then show ?thesis
    by (auto simp: open_router_def history_listen_def create_history_def split: option.splits)
next
  case (Inr pg)
  then show ?thesis using router_run [OF Inr, of decode enc w es] by (simp add: synced_def)
qed

lemma click_shown:
  assumes "open_router e0 = Inr pg0" and pg: "pg = foldl (router_step decode enc w) pg0 es"
    and "site_basename w = ''/''" "context_at decode enc w k pg = Some c"
    and "shouldProcessLinkClick e (lk_frame l)" "\<not> lk_reload l" "\<not> prevented_before e"
    and "useResolvedPath c t (lk_by_path l) = Inr p"
    and "plain_path p" "starts_with (p_pathname p) ''/''" "lk_state l \<noteq> Some []" "key \<noteq> []"
    and "kept_text (createPath (given_path p))"
  shows "let q = router_step decode enc w pg (ClickLink k (t, False) l e key);
      again = (case lk_replace l of Some b \<Rightarrow> b
        | None \<Rightarrow> createPath (given_path (full_path.truncate (rp_location pg))) = createPath (given_path p))
    in rp_location q = full_path.extend (percent_path p) \<lparr>l_state = lk_state l, l_key = key\<rparr>
      \<and> (if again then rp_action q = Replace \<and> length (entries (rp_history q)) = length (entries (rp_history pg))
         else rp_action q = Push \<and> length (entries (rp_history q)) = cursor (rp_history pg) + 2
           \<and> rp_location (router_step decode enc w q (MoveBy (- 1))) = rp_location pg)"
proof -
  let ?h = "rp_history pg" and ?m = "full_path.extend (percent_path p) \<lparr>l_state = lk_state l, l_key = key\<rparr>"
  have s: "synced pg" unfolding pg using router_run [OF assms(1)] .
  then have ready: "ready ?h" and loc: "rp_location pg = location_now ?h" by (simp_all add: synced_def)
  note c = context_at_root [OF assms(3,4)]
  define again where "again \<longleftrightarrow> (case lk_replace l of Some b \<Rightarrow> b
    | None \<Rightarrow> createPath (given_path (full_path.truncate (rp_location pg))) = createPath (given_path p))"
  define h where "h = (if again then history_replace else history_push) True p (lk_state l) key ?h"
  define q where "q = router_step decode enc w pg (ClickLink k (t, False) l e key)"
  have "link_click c (t, False) l e key ?h = Inr (True, h)"
    unfolding h_def again_def c(2) [symmetric] by (rule click_taken [OF assms(5-8) c(1)])
  then have q: "q = told h pg"
    by (simp add: q_def router_step_def assms(4))
  have made: "hash_location (made_entry p (lk_state l) key i) = ?m" for i
    by (rule made_location [OF assms(9-13)])
  show ?thesis
  proof (cases again)
    case True
    then have h: "h = history_replace True p (lk_state l) key ?h" by (simp add: h_def)
    note t = told_shows [OF tells_replace [OF ready], of p "lk_state l" key, folded h q]
    have "rp_location q = ?m" "rp_action q = Replace" "length (entries (rp_history q)) = length (entries ?h)"
      using t replace_new [OF ready, of p "lk_state l" key] current_replace [OF ready, of True p "lk_state l" key]
      by (simp_all add: h location_now_def made)
    then show ?thesis using True by (simp add: again_def q_def [symmetric] Let_def)
  next
    case False
    then have h: "h = history_push True p (lk_state l) key ?h" by (simp add: h_def)
    note t = told_shows [OF tells_push [OF ready], of p "lk_state l" key, folded h q]
    note b = back_after_push [OF ready, of True p "lk_state l" key, folded h]
    have shown: "rp_history q = h" "rp_location q = ?m" "rp_action q = Push" "length (entries (rp_history q)) = cursor ?h + 2"
      using t push_new [OF ready, of p "lk_state l" key] b by (simp_all add: h [symmetric] location_now_def made)
    have "synced (router_step decode enc w q (MoveBy (- 1)))"
      unfolding q_def by (rule synced_step [OF synced_step [OF s]])
    moreover have "rp_history (router_step decode enc w q (MoveBy (- 1))) = history_go (- 1) h"
      by (simp add: router_step_def told_def shown(1) Let_def split: list.split)
    ultimately have "rp_location (router_step decode enc w q (MoveBy (- 1))) = rp_location pg"
      using b(1) loc by (simp add: synced_def location_now_def)
    then show ?thesis using False shown by (simp add: again_def q_def [symmetric] Let_def)
  qed
qed

text \<open>
  C5. An ordinary click on a link of the application is taken over by the page: it shows
  the location the target resolves to, percent-encoded as the browser writes a fragment, in a new entry from which one step back leads to
  the old location, or at the place of the old entry when the target is the old location
  or the link says so.
\<close>

theorem click_shows_target:
  assumes "open_router e0 = Inr pg0" and pg: "pg = foldl (router_step decode enc w) pg0 es"
    and "site_basename w = ''/''" "context_at decode enc w k pg = Some c"
    and "shouldProcessLinkClick e (lk_frame l)" "\<not> lk_reload l" "\<not> prevented_before e"
    and "useResolvedPath c t (lk_by_path l) = Inr p"
    and "plain_path p" "starts_with (p_pathname p) ''/''" "lk_state l \<noteq> Some []" "key \<noteq> []"
    and "kept_text (createPath (given_path p))"
  shows "let q = router_step decode enc w pg (ClickLink k (t, False) l e key);
      again = (case lk_replace l of Some b \<Rightarrow> b
        | None \<Rightarrow> createPath (given_path (full_path.truncate (rp_location pg))) = createPath (given_path p))
    in rp_location q = full_path.extend (percent_path p) \<lparr>l_state = lk_state l, l_key = key\<rparr>
      \<and> (if again then rp_action q = Replace \<and> length (entries (rp_history q)) = length (entries (rp_history pg))
         else rp_action q = Push \<and> length (entries (rp_history q)) = cursor (rp_history pg) + 2
           \<and> rp_location (router_step decode enc w q (MoveBy (- 1))) = rp_location pg)"
  using assms by (rule click_shown)

text \<open>A page of one route below which a link leads to a sibling of the location.\<close>

definition sample_site :: site where
  "sample_site = \<lparr>site_basename = ''/'', site_v7 = False,
     site_routes = [Route (Some ''/explorer/*'') False False []]\<rparr>"

definition sample_entry :: history_entry where
  "sample_entry = \<lparr>frag = ''/explorer/x'', entry_state = None\<rparr>"

definition sample_link :: link where
  "sample_link = \<lparr>lk_to = ToText ''y'', lk_replace = None, lk_state = None, lk_frame = [], lk_by_path = False,
     lk_reload = False\<rparr>"

theorem click_shows_target_witness:
  "map_sum id (\<lambda>pg. p_pathname (rp_location (router_step Some id sample_site pg (ClickLink 1 (ToText ''y z'', False) sample_link
      \<lparr>button = 0, modified = False, prevented_before = False\<rparr> ''k'')))) (open_router sample_entry) = Inr ''/explorer/y%20z''"
proof -
  let ?e = "\<lparr>button = 0, modified = False, prevented_before = False\<rparr>"
  obtain pg0 where o: "open_router sample_entry = Inr pg0"
    by (auto simp: open_router_def history_listen_def create_history_def sample_entry_def)
  have l: "map_sum id rp_location (open_router sample_entry) = Inr \<lparr>p_pathname = ''/explorer/x'', p_search = [], p_hash = [],
      l_state = None, l_key = ''default''\<rparr>" by code_simp
  then have loc: "rp_location pg0 = \<lparr>p_pathname = ''/explorer/x'', p_search = [], p_hash = [], l_state = None, l_key = ''default''\<rparr>"
    unfolding o by simp
  obtain c where c: "context_at Some id sample_site 1 pg0 = Some c"
    by (auto simp: context_at_def router_location_def sample_site_def router_basename_def stripBasename_def)
  let ?l = "\<lparr>p_pathname = ''/explorer/x'', p_search = [], p_hash = [], l_state = None, l_key = ''default''\<rparr> :: location"
  have c_def: "c = \<lparr>nav_basename = ''/'', nav_v7 = False, nav_matches = take 1 (shown_matches Some id sample_site ?l), nav_location = ?l\<rparr>"
    using c by (auto simp: context_at_def router_location_def sample_site_def router_basename_def stripBasename_def loc)
  have p: "useResolvedPath c (ToText ''y z'') (lk_by_path sample_link) = Inr \<lparr>p_pathname = ''/explorer/y z'', p_search = [], p_hash = []\<rparr>"
    unfolding c_def by code_simp
  have side: "site_basename sample_site = ''/''" "shouldProcessLinkClick ?e (lk_frame sample_link)" "\<not> lk_reload sample_link"
    "\<not> prevented_before ?e" "plain_path \<lparr>p_pathname = ''/explorer/y z'', p_search = [], p_hash = []\<rparr>"
    "starts_with (p_pathname \<lparr>p_pathname = ''/explorer/y z'', p_search = [], p_hash = []\<rparr>) ''/''"
    "lk_state sample_link \<noteq> Some []" "''k'' \<noteq> []"
    "kept_text (createPath (given_path \<lparr>p_pathname = ''/explorer/y z'', p_search = [], p_hash = []\<rparr>))"
    by code_simp+
  have enc: "percent_path \<lparr>p_pathname = ''/explorer/y z'', p_search = [], p_hash = []\<rparr>
      = \<lparr>p_pathname = ''/explorer/y%20z'', p_search = [], p_hash = []\<rparr>" by code_simp
  have start: "pg0 = foldl (router_step Some id sample_site) pg0 []" by simp
  show ?thesis
    using click_shows_target [OF o start side(1) c side(2-4) p side(5-9)] unfolding o enc
    by (simp add: Let_def full_path.defs)
qed

text \<open>
  C37. The routes below a route whose pattern ends in a star see the part of the path that
  the star has taken, as a path of its own.
\<close>

theorem descendants_see_splat:
  assumes "list_all (plain_segment f) segs" "segs \<noteq> []" "distinct (segment_names segs)"
    "r \<noteq> []" "\<not> list_ex line_end (path_text f segs @ r)"
  shows "\<exists>m. matchPath (pattern_text segs @ ''/*'') sensitive whole (path_text f segs @ ''/'' @ r) = Some m
    \<and> map_of (m_params m) ''*'' = Some (Some (unescape_slashes r))
    \<and> remaining_path (m_base m) (path_text f segs @ ''/'' @ r) = ''/'' @ r"
proof -
  let ?ws = "map (segment_fill f) segs"
  have ws: "w \<noteq> [] \<and> CHR ''/'' \<notin> set w" if m: "w \<in> set ?ws" for w
  proof -
    obtain x where x: "x \<in> set segs" "w = segment_fill f x" using m by auto
    then have "plain_segment f x" using assms(1) by (simp add: list_all_iff)
    then show ?thesis by (cases x) (auto simp: x(2) list_all_iff static_char_def value_char_def)
  qed
  have "path_text f segs = CHR ''/'' # join ''/'' ?ws"
    using assms(2) by (simp add: path_text_def under_root_join)
  then have "remaining_path (path_text f segs) (path_text f segs @ ''/'' @ r) = ''/'' @ r"
    using remaining_below [of ?ws r] ws assms(2) by auto
  moreover have "map_of (map (\<lambda>n. (n, Some (unescape_slashes (f n)))) (segment_names segs)
       @ [(''*'', Some (unescape_slashes r))]) ''*'' = Some (Some (unescape_slashes r))"
    using names_no_star [OF assms(1)] by (auto simp: map_add_def dest: map_of_SomeD split: option.split)
  ultimately show ?thesis using match_splat [OF assms, of sensitive whole] by simp
qed

theorem descendants_see_splat_witness:
  "remaining_path ''/docs/v1'' ''/docs/v1/a/b'' = ''/a/b''"
proof -
  let ?s = "[Static ''docs'', Dynamic ''version'']"
  let ?f = "\<lambda>n. ''v1''"
  have p: "list_all (plain_segment ?f) ?s" "distinct (segment_names ?s)"
    "\<not> list_ex line_end (path_text ?f ?s @ ''a/b'')" by code_simp+
  have "path_text ?f ?s = ''/docs/v1''" "path_text ?f ?s @ ''/'' @ ''a/b'' = ''/docs/v1/a/b''" by code_simp+
  moreover obtain m where m: "matchPath (pattern_text ?s @ ''/*'') False True (path_text ?f ?s @ ''/'' @ ''a/b'') = Some m"
    "remaining_path (m_base m) (path_text ?f ?s @ ''/'' @ ''a/b'') = ''/'' @ ''a/b''"
    using descendants_see_splat [OF p(1) _ p(2) _ p(3), of False True] by auto
  moreover have "map_option m_base (matchPath (pattern_text ?s @ ''/*'') False True (path_text ?f ?s @ ''/'' @ ''a/b''))
      = Some ''/docs/v1''" by code_simp
  ultimately show ?thesis by simp
qed

lemma active_above:
  assumes "list_all (\<lambda>w. w \<noteq> [] \<and> CHR ''/'' \<notin> set w) ws" "ws \<noteq> []" "list_all (\<lambda>w. w \<noteq> [] \<and> CHR ''/'' \<notin> set w) vs"
  shows "nav_active True False (CHR ''/'' # join ''/'' ws) (CHR ''/'' # join ''/'' vs) \<longleftrightarrow> prefix ws vs"
proof -
  let ?a = "CHR ''/'' # join ''/'' ws" and ?h = "CHR ''/'' # join ''/'' vs"
  have seg: "CHR ''/'' \<notin> set w \<and> w \<noteq> []" if "w \<in> set ws \<union> set vs" for w
    using that assms unfolding list_all_iff by blast
  have sw: "split_on CHR ''/'' (join ''/'' ws) = ws" using assms(2) seg by (intro split_on_join) auto
  have last: "\<not> ends_with ?a ''/''"
    using last_join [OF assms(2), of "''/''"] seg [of "last ws"] assms(2)
    by (cases "join ''/'' ws" rule: rev_cases) (auto simp: ends_with_def dest: last_in_set)
  have act: "nav_active True False ?a ?h \<longleftrightarrow> ?h = ?a \<or> (\<exists>r. ?h = ?a @ CHR ''/'' # r)"
    using last by (auto simp: nav_active_def Let_def starts_with_iff nth_append Cons_eq_append_conv neq_Nil_conv)
  show ?thesis
  proof (cases "vs = []")
    case True
    then show ?thesis using act seg [of "hd ws"] assms(2) last_join [OF assms(2), of "''/''"] seg [of "last ws"] by auto
  next
    case False
    then have sv: "split_on CHR ''/'' (join ''/'' vs) = vs" using seg by (intro split_on_join) auto
    have "(\<exists>r. join ''/'' vs = join ''/'' ws @ CHR ''/'' # r) \<longleftrightarrow> (\<exists>us. us \<noteq> [] \<and> vs = ws @ us)"
    proof
      assume "\<exists>r. join ''/'' vs = join ''/'' ws @ CHR ''/'' # r"
      then obtain r where "join ''/'' vs = join ''/'' ws @ CHR ''/'' # r" by blast
      then have "vs = ws @ split_on CHR ''/'' r" using sv sw split_on_append_sep by metis
      then show "\<exists>us. us \<noteq> [] \<and> vs = ws @ us" using split_on_not_Nil by blast
    next
      assume "\<exists>us. us \<noteq> [] \<and> vs = ws @ us"
      then obtain us where "us \<noteq> []" "vs = ws @ us" by blast
      then have "join ''/'' vs = join ''/'' ws @ CHR ''/'' # join ''/'' us" using assms(2) by (simp add: join_append)
      then show "\<exists>r. join ''/'' vs = join ''/'' ws @ CHR ''/'' # r" by blast
    qed
    moreover have "join ''/'' vs = join ''/'' ws \<longleftrightarrow> vs = ws" using sv sw by metis
    ultimately show ?thesis unfolding act by (auto simp: prefix_def)
  qed
qed

lemma active_exactly:
  assumes "list_all (\<lambda>w. w \<noteq> [] \<and> CHR ''/'' \<notin> set w) ws" "ws \<noteq> []" "list_all (\<lambda>w. w \<noteq> [] \<and> CHR ''/'' \<notin> set w) vs"
  shows "nav_active True True (CHR ''/'' # join ''/'' ws) (CHR ''/'' # join ''/'' vs) \<longleftrightarrow> ws = vs"
proof -
  have "ws = vs" if "join ''/'' ws = join ''/'' vs"
  proof -
    have "split_on CHR ''/'' (join ''/'' us) = us" if "us \<noteq> []" "us \<in> {ws, vs}" for us
      using that assms by (intro split_on_join) (auto simp: list_all_iff)
    moreover have "vs \<noteq> []"
      using \<open>join ''/'' ws = join ''/'' vs\<close> assms(1,2) by (cases ws; cases "tl ws") auto
    ultimately show ?thesis using \<open>join ''/'' ws = join ''/'' vs\<close> assms(2) by (metis insertCI)
  qed
  then show ?thesis by (auto simp: nav_active_def Let_def)
qed

lemma lower_slash: "to_lower c = CHR ''/'' \<longleftrightarrow> c = CHR ''/''"
proof
  assume a: "to_lower c = CHR ''/''"
  show "c = CHR ''/''"
  proof (rule ccontr)
    assume n: "c \<noteq> CHR ''/''"
    let ?n = "of_char c :: nat"
    have c: "65 \<le> ?n \<and> ?n \<le> 222" "to_lower c = char_of (?n + 32)"
      using a n by (auto simp: Let_def split: if_splits)
    have "of_char (to_lower c) = ?n + 32" unfolding c(2) using c(1) by simp
    then show False using a c(1) by simp
  qed
qed simp

lemma lower_join: "toLowerCase (CHR ''/'' # join ''/'' ws) = CHR ''/'' # join ''/'' (map toLowerCase ws)"
proof -
  have "to_lower CHR ''/'' = CHR ''/''" by (simp add: lower_slash)
  then show ?thesis by (induction ws rule: induct_list012) (simp_all add: toLowerCase_def)
qed

lemma lower_clean:
  "list_all clean_segment ws \<Longrightarrow> list_all (\<lambda>w. w \<noteq> [] \<and> CHR ''/'' \<notin> set w) (map toLowerCase ws)"
proof -
  have "toLowerCase w \<noteq> [] \<and> CHR ''/'' \<notin> set (toLowerCase w)" if "clean_segment w" for w
    using clean_segmentD [OF that] by (auto simp: toLowerCase_def image_iff dest!: lower_slash [THEN iffD1, OF sym] simp del: to_lower.simps)
  then show "list_all clean_segment ws \<Longrightarrow> ?thesis" by (simp add: list_all_iff)
qed

lemma clean_plain: "list_all clean_segment ws \<Longrightarrow> list_all (\<lambda>w. w \<noteq> [] \<and> CHR ''/'' \<notin> set w) ws"
  by (auto simp: list_all_iff dest: clean_segmentD)



end
