(* ===== verification/Token.thy ===== *)
theory Token
  imports Base64
begin

text \<open>
  Session tokens (\<open>bundle.js\<close>, lines 1289 and 1316): \<open>base64UrlDecode\<close> reads URL-safe
  base64 as UTF-8, \<open>jwtDecode\<close> reads a part of a token as JSON, and
  \<open>decodeProfileFromToken\<close> drops the claims that are not about the user. Decoded texts are
  lists of 16-bit code units, as numbers; reading JSON is an argument.
\<close>

section \<open>UTF-8\<close>

type_synonym code_units = "nat list"

definition continues :: "nat \<Rightarrow> bool" where
  "continues b \<longleftrightarrow> 128 \<le> b \<and> b < 192"

text \<open>A code point above the basic plane is a pair of surrogates.\<close>

definition utf16 :: "nat \<Rightarrow> code_units" where
  "utf16 p = (if p < 65536 then [p]
     else [55296 + (p - 65536) div 1024, 56320 + (p - 65536) mod 1024])"

text \<open>
  What \<open>decodeURIComponent\<close> makes of bytes written as \<open>%XX\<close>: longer forms than needed,
  surrogates and points beyond the last one are refused.
\<close>

fun decode_bytes :: "nat list \<Rightarrow> code_units option" where
  "decode_bytes [] = Some []"
| "decode_bytes (a # r) =
     (if a < 128 then map_option ((#) a) (decode_bytes r)
      else if a < 194 then None
      else if a < 224 then (case r of
          b # r' \<Rightarrow> if continues b then map_option ((@) (utf16 ((a - 192) * 64 + (b - 128)))) (decode_bytes r') else None
        | _ \<Rightarrow> None)
      else if a < 240 then (case r of
          b # c # r' \<Rightarrow> (let p = (a - 224) * 4096 + (b - 128) * 64 + (c - 128) in
            if continues b \<and> continues c \<and> 2048 \<le> p \<and> \<not> (55296 \<le> p \<and> p < 57344)
            then map_option ((@) (utf16 p)) (decode_bytes r') else None)
        | _ \<Rightarrow> None)
      else if a < 245 then (case r of
          b # c # d # r' \<Rightarrow> (let p = (a - 240) * 262144 + (b - 128) * 4096 + (c - 128) * 64 + (d - 128) in
            if continues b \<and> continues c \<and> continues d \<and> 65536 \<le> p \<and> p < 1114112
            then map_option ((@) (utf16 p)) (decode_bytes r') else None)
        | _ \<Rightarrow> None)
      else None)"

section \<open>Tokens\<close>

text \<open>
  \<open>b64DecodeUnicode\<close> writes every byte but line ends as \<open>%XX\<close>, which leaves them to be
  read as they are.
\<close>

definition b64DecodeUnicode :: "string \<Rightarrow> code_units option" where
  "b64DecodeUnicode s = (case atob s of None \<Rightarrow> None | Some bin \<Rightarrow> decode_bytes (map code bin))"

datatype decode_error = WrongLength | NotBase64

text \<open>Bytes that are no UTF-8 are taken as they are.\<close>

definition base64UrlDecode :: "string \<Rightarrow> decode_error + code_units" where
  "base64UrlDecode s = (let t = map from_url_char s; n = length t mod 4 in
     if n = 1 then Inl WrongLength
     else let u = t @ (if n = 2 then ''=='' else if n = 3 then ''='' else [])
       in case b64DecodeUnicode u of
            Some text \<Rightarrow> Inr text
          | None \<Rightarrow> (case atob u of None \<Rightarrow> Inl NotBase64 | Some bin \<Rightarrow> Inr (map code bin)))"

text \<open>The number of a part counts from one.\<close>

datatype token_error = MissingPart nat | InvalidBase64Part nat decode_error | InvalidJsonPart nat

definition jwtDecode :: "(code_units \<Rightarrow> 'v option) \<Rightarrow> bool \<Rightarrow> string \<Rightarrow> token_error + 'v" where
  "jwtDecode parse header token = (let ps = split_on CHR ''.'' token; n = (if header then 0 else 1) in
     if n \<ge> length ps then Inl (MissingPart (n + 1))
     else case base64UrlDecode (ps ! n) of
         Inl e \<Rightarrow> Inl (InvalidBase64Part (n + 1) e)
       | Inr text \<Rightarrow> (case parse text of None \<Rightarrow> Inl (InvalidJsonPart (n + 1)) | Some v \<Rightarrow> Inr v))"

text \<open>The claims of a token are an object; the value of a claim is a text or something else.\<close>

datatype claim = TextClaim string | OtherClaim

type_synonym claims = "(string \<times> claim) list"

definition session_claims :: "string list" where
  "session_claims = [''nonce'', ''sid'', ''aud'', ''iss'', ''iat'', ''exp'', ''updated_at'']"

definition decodeProfileFromToken :: "(code_units \<Rightarrow> claims option) \<Rightarrow> string \<Rightarrow> token_error + claims" where
  "decodeProfileFromToken parse token =
     map_sum id (filter (\<lambda>(k, v). k \<notin> set session_claims)) (jwtDecode parse False token)"

section \<open>Lemmas\<close>

text \<open>The encoding of a code point, as RFC 3629 has it.\<close>

definition scalar :: "nat \<Rightarrow> bool" where
  "scalar p \<longleftrightarrow> p < 55296 \<or> 57344 \<le> p \<and> p < 1114112"

definition utf8_of :: "nat \<Rightarrow> nat list" where
  "utf8_of p = (if p < 128 then [p]
     else if p < 2048 then [192 + p div 64, 128 + p mod 64]
     else if p < 65536 then [224 + p div 4096, 128 + p div 64 mod 64, 128 + p mod 64]
     else [240 + p div 262144, 128 + p div 4096 mod 64, 128 + p div 64 mod 64, 128 + p mod 64])"

lemma div_steps: "p div 4096 = p div 64 div 64" "p div 262144 = p div 64 div 64 div 64" for p :: nat
  by (simp_all add: div_mult2_eq [symmetric])

lemma digits64: "p = p div 64 * 64 + p mod 64" for p :: nat
  by simp

lemma decode_scalar:
  assumes "scalar p"
  shows "decode_bytes (utf8_of p @ r) = map_option ((@) (utf16 p)) (decode_bytes r)"
proof -
  consider "p < 128" | "128 \<le> p" "p < 2048" | "2048 \<le> p" "p < 65536" | "65536 \<le> p" by linarith
  then show ?thesis
  proof cases
    case 1
    then show ?thesis by (cases "decode_bytes r") (simp_all add: utf8_of_def utf16_def)
  next
    case 2
    then have "2 \<le> p div 64" "p div 64 < 32" by simp_all
    then show ?thesis using 2 by (simp add: utf8_of_def continues_def)
  next
    case 3
    have q: "p div 4096 < 16" using 3 by simp
    have e: "p div 4096 * 4096 + p div 64 mod 64 * 64 + p mod 64 = p"
      unfolding div_steps using digits64 [of p] digits64 [of "p div 64"] by linarith
    have "\<not> (55296 \<le> p \<and> p < 57344)" using assms by (auto simp: scalar_def)
    then show ?thesis using 3 q e
      by (simp add: utf8_of_def continues_def Let_def)
  next
    case 4
    then have lt: "p < 1114112" using assms by (auto simp: scalar_def)
    then have q: "p div 262144 < 5" by simp
    have e: "p div 262144 * 262144 + p div 4096 mod 64 * 4096 + p div 64 mod 64 * 64 + p mod 64 = p"
      unfolding div_steps using digits64 [of p] digits64 [of "p div 64"] digits64 [of "p div 64 div 64"] by linarith
    show ?thesis using 4 lt q e
      by (simp add: utf8_of_def continues_def Let_def)
  qed
qed

lemma decode_text:
  "list_all scalar ps \<Longrightarrow> decode_bytes (concat (map utf8_of ps)) = Some (concat (map utf16 ps))"
  by (induction ps) (simp_all add: decode_scalar)

lemma utf8_byte: "scalar p \<Longrightarrow> list_all (\<lambda>b. b < 256) (utf8_of p)"
proof -
  assume "scalar p"
  then have "p < 1114112" by (auto simp: scalar_def)
  then have "p div 262144 < 5" "p < 65536 \<Longrightarrow> p div 4096 < 16" "p < 2048 \<Longrightarrow> p div 64 < 32" by simp_all
  moreover have "(x :: nat) mod 64 < 64" for x by simp
  ultimately show ?thesis by (auto simp: utf8_of_def)
qed

text \<open>A text is encoded as a token part by its bytes.\<close>

definition byte_string :: "nat list \<Rightarrow> string" where
  "byte_string bs = map char_of bs"

lemma codes_of_bytes: "list_all (\<lambda>b. b < 256) bs \<Longrightarrow> map code (byte_string bs) = bs"
  by (induction bs) (auto simp: byte_string_def code_def)

lemma url_length: "length (base64_url_encode s) = b64_len (length s)"
  by (simp add: base64_url_encode_body length_b64_body)

lemma pad_three:
  fixes m :: nat
  assumes "m < 4" "m \<noteq> 1"
  shows "(if m = 2 then ''=='' else if m = 3 then ''='' else []) = replicate ((4 - m) mod 4) CHR ''=''"
proof -
  from assms consider "m = 0" | "m = 2" | "m = 3" by linarith
  then show ?thesis by cases (simp_all add: numeral_2_eq_2)
qed

lemma base64UrlDecode_encode:
  "base64UrlDecode (base64_url_encode s) =
    Inr (case decode_bytes (map code s) of Some t \<Rightarrow> t | None \<Rightarrow> map code s)"
proof -
  let ?b = "b64_body s"
  let ?pad = "if length ?b mod 4 = 2 then ''=='' else if length ?b mod 4 = 3 then ''='' else []"
  have len: "length ?b mod 4 \<noteq> 1"
    unfolding length_b64_body by (rule padding_counts(3))
  have "?b @ replicate ((4 - length ?b mod 4) mod 4) CHR ''='' = btoa s"
    using pad_loop_body [of s] pad_loop_eq [of ?b] by simp
  moreover have "?pad = replicate ((4 - length ?b mod 4) mod 4) CHR ''=''"
    by (rule pad_three [OF _ len]) simp
  ultimately have u: "?b @ ?pad = btoa s" by (simp only:)
  show ?thesis
    unfolding base64UrlDecode_def from_url_encode Let_def if_not_P [OF len] u b64DecodeUnicode_def atob_btoa
    by (simp split: option.splits)
qed

section \<open>Properties\<close>

text \<open>
  C17. The claims of a token are read back: for the three parts of a token whose second
  is the URL-safe base64 of the UTF-8 of a text, the text is what is read as JSON, and
  the profile is its claims without those of the session.
\<close>

theorem token_claims_read:
  assumes "list_all scalar ps" "CHR ''.'' \<notin> set header"
  shows "decodeProfileFromToken parse
      (header @ ''.'' @ base64_url_encode (byte_string (concat (map utf8_of ps))) @ ''.'' @ signature)
    = (case parse (concat (map utf16 ps)) of
         None \<Rightarrow> Inl (InvalidJsonPart 2)
       | Some claims \<Rightarrow> Inr (filter (\<lambda>(k, v). k \<notin> set session_claims) claims))"
proof -
  let ?p = "base64_url_encode (byte_string (concat (map utf8_of ps)))"
  have bytes: "list_all (\<lambda>b. b < 256) (concat (map utf8_of ps))"
    using assms(1) utf8_byte by (induction ps) auto
  have dec: "base64UrlDecode ?p = Inr (concat (map utf16 ps))"
    using decode_text [OF assms(1)] by (simp add: base64UrlDecode_encode codes_of_bytes [OF bytes])
  have "\<not> is_address_char CHR ''.''" by code_simp
  then have "CHR ''.'' \<notin> set ?p"
    using base64_url_encode_shape by (metis list_all_iff)
  then have "split_on CHR ''.'' (header @ ''.'' @ ?p @ ''.'' @ signature)
      = header # ?p # split_on CHR ''.'' signature"
    using assms(2) by (simp add: split_on_append_sep split_on_no_sep)
  then show ?thesis
    by (simp add: decodeProfileFromToken_def jwtDecode_def dec Let_def split: option.splits)
qed

text \<open>A text with a character of each length, and a reader of JSON that knows only it.\<close>

definition only_text :: "code_units \<Rightarrow> claims \<Rightarrow> code_units \<Rightarrow> claims option" where
  "only_text t cs u = (if u = t then Some cs else None)"

lemma token_claims_read_witness:
  "decodeProfileFromToken (only_text [233, 8364, 55357, 56832] [(''sub'', TextClaim ''x''), (''exp'', OtherClaim)])
     ''e30.w6nigqzwn5iA.x'' = Inr [(''sub'', TextClaim ''x'')]"
proof -
  let ?parse = "only_text [233, 8364, 55357, 56832] [(''sub'', TextClaim ''x''), (''exp'', OtherClaim)]"
  have ps: "list_all scalar [233, 8364, 128512]" "CHR ''.'' \<notin> set ''e30''" by (simp_all add: scalar_def)
  have b: "concat (map utf8_of [233, 8364, 128512]) = [195, 169, 226, 130, 172, 240, 159, 152, 128]"
    by (simp add: utf8_of_def)
  have u: "concat (map utf16 [233, 8364, 128512]) = [233, 8364, 55357, 56832]"
    by (simp add: utf16_def)
  have l: "''e30'' @ ''.'' @ base64_url_encode (byte_string [195, 169, 226, 130, 172, 240, 159, 152, 128]) @ ''.'' @ ''x''
      = ''e30.w6nigqzwn5iA.x''" by code_simp
  have r: "(case ?parse [233, 8364, 55357, 56832] of
         None \<Rightarrow> Inl (InvalidJsonPart 2)
       | Some claims \<Rightarrow> Inr (filter (\<lambda>(k, v). k \<notin> set session_claims) claims)) = Inr [(''sub'', TextClaim ''x'')]"
    by (simp add: only_text_def session_claims_def)
  show ?thesis using token_claims_read [OF ps, of ?parse "''x''"] unfolding b u l r .
qed

text \<open>
  A text is refused only for its length or for characters that are not base64;
  everything else is decoded, bytes that are no UTF-8 as they are.
\<close>

theorem decoding_total:
  "case base64UrlDecode s of
     Inl WrongLength \<Rightarrow> length s mod 4 = 1
   | Inl NotBase64 \<Rightarrow> atob (pad_loop (map from_url_char s)) = None
   | Inr t \<Rightarrow> (\<exists>bin. atob (pad_loop (map from_url_char s)) = Some bin
       \<and> (decode_bytes (map code bin) = Some t \<or> decode_bytes (map code bin) = None \<and> t = map code bin))"
proof (cases "length s mod 4 = 1")
  case True
  then show ?thesis by (simp add: base64UrlDecode_def)
next
  case False
  let ?t = "map from_url_char s"
  have "?t @ replicate ((4 - length ?t mod 4) mod 4) CHR ''='' = pad_loop ?t" by (simp add: pad_loop_eq)
  moreover have "(if length ?t mod 4 = 2 then ''=='' else if length ?t mod 4 = 3 then ''='' else [])
      = replicate ((4 - length ?t mod 4) mod 4) CHR ''=''"
    by (rule pad_three) (use False in simp_all)
  ultimately have u: "?t @ (if length ?t mod 4 = 2 then ''=='' else if length ?t mod 4 = 3 then ''='' else []) = pad_loop ?t"
    by (simp only:)
  have len: "length ?t mod 4 \<noteq> 1" using False by simp
  show ?thesis
    unfolding base64UrlDecode_def Let_def if_not_P [OF len] u b64DecodeUnicode_def
    by (simp split: option.splits)
qed

end
