(* ===== verification/JS_Value.thy ===== *)
theory JS_Value
  imports JS_Prelude
begin

text \<open>
  JavaScript values as far as the style functions and the view code inspect them,
  with the operators they use. An expression evaluates to a \<open>js\<close>: an error (the
  \<open>TypeError\<close> of a property access or a method call on \<open>undefined\<close> or \<open>null\<close>)
  or a value. Numbers are exact rationals: the numbers of the sources modelled on
  this type are decimals with a finite expansion.
\<close>

datatype jserr = TypeError string

datatype jsval =
    Undef
  | Null
  | JBool bool
  | JNum rat
  | JNaN
  | JStr string
  | JObj "(string \<times> jsval) list"

type_synonym js = "jserr + jsval"

section \<open>Conversions\<close>

fun truthy :: "jsval \<Rightarrow> bool" where
  "truthy Undef = False"
| "truthy Null = False"
| "truthy (JBool b) = b"
| "truthy (JNum n) = (n \<noteq> 0)"
| "truthy JNaN = False"
| "truthy (JStr s) = (s \<noteq> [])"
| "truthy (JObj _) = True"

definition nullish_val :: "jsval \<Rightarrow> bool" where
  "nullish_val v \<longleftrightarrow> v = Undef \<or> v = Null"

fun digit_char :: "nat \<Rightarrow> char" where
  "digit_char n = char_of (48 + n)"

fun nat_to_string :: "nat \<Rightarrow> string" where
  "nat_to_string n = (if n < 10 then [digit_char n]
     else nat_to_string (n div 10) @ [digit_char (n mod 10)])"

declare nat_to_string.simps [simp del]

text \<open>The digits after the decimal point, at most \<open>fuel\<close> of them.\<close>

fun frac_digits :: "nat \<Rightarrow> rat \<Rightarrow> string" where
  "frac_digits 0 r = []"
| "frac_digits (Suc fuel) r = (if r = 0 then []
     else digit_char (nat \<lfloor>10 * r\<rfloor>) # frac_digits fuel (10 * r - of_int \<lfloor>10 * r\<rfloor>))"

definition num_to_string :: "rat \<Rightarrow> string" where
  "num_to_string r = (let a = \<bar>r\<bar>; i = \<lfloor>a\<rfloor>; f = a - of_int i in
     (if r < 0 then ''-'' else []) @ nat_to_string (nat i) @
     (if f = 0 then [] else CHR ''.'' # frac_digits 20 f))"

fun to_str :: "jsval \<Rightarrow> string" where
  "to_str Undef = ''undefined''"
| "to_str Null = ''null''"
| "to_str (JBool b) = (if b then ''true'' else ''false'')"
| "to_str (JNum n) = num_to_string n"
| "to_str JNaN = ''NaN''"
| "to_str (JStr s) = s"
| "to_str (JObj _) = ''[object Object]''"

section \<open>Operators\<close>

definition bind_js :: "js \<Rightarrow> (jsval \<Rightarrow> js) \<Rightarrow> js" where
  "bind_js e f = (case e of Inl err \<Rightarrow> Inl err | Inr v \<Rightarrow> f v)"

fun member :: "jsval \<Rightarrow> string \<Rightarrow> js" where
  "member Undef k = Inl (TypeError k)"
| "member Null k = Inl (TypeError k)"
| "member (JObj kvs) k = Inr (case map_of kvs k of None \<Rightarrow> Undef | Some v \<Rightarrow> v)"
| "member v k = Inr Undef"

text \<open>A chain of property accesses \<open>v.k1.k2\<close>\<dots>\<close>

fun path_at :: "jsval \<Rightarrow> string list \<Rightarrow> js" where
  "path_at v [] = Inr v"
| "path_at v (k # ks) = (case member v k of Inl e \<Rightarrow> Inl e | Inr w \<Rightarrow> path_at w ks)"

definition mem :: "js \<Rightarrow> string \<Rightarrow> js" where
  "mem e k = bind_js e (\<lambda>v. member v k)"

definition ternary :: "js \<Rightarrow> js \<Rightarrow> js \<Rightarrow> js" where
  "ternary c a b = bind_js c (\<lambda>v. if truthy v then a else b)"

definition js_or :: "js \<Rightarrow> js \<Rightarrow> js" where
  "js_or a b = bind_js a (\<lambda>v. if truthy v then Inr v else b)"

definition js_and :: "js \<Rightarrow> js \<Rightarrow> js" where
  "js_and a b = bind_js a (\<lambda>v. if truthy v then b else Inr v)"

definition nullish :: "js \<Rightarrow> js \<Rightarrow> js" where
  "nullish a b = bind_js a (\<lambda>v. if nullish_val v then b else Inr v)"

definition if_nullish :: "js \<Rightarrow> js \<Rightarrow> js \<Rightarrow> js" where
  "if_nullish c a b = bind_js c (\<lambda>v. if nullish_val v then a else b)"

text \<open>The comma operator, \<open>===\<close>, negation, and a parameter's default value.\<close>

definition comma :: "js \<Rightarrow> js \<Rightarrow> js" where
  "comma a b = bind_js a (\<lambda>_. b)"

definition strict_eq :: "js \<Rightarrow> js \<Rightarrow> js" where
  "strict_eq a b = bind_js a (\<lambda>v. bind_js b (\<lambda>w. Inr (JBool (v = w \<and> v \<noteq> JNaN))))"

definition js_not :: "js \<Rightarrow> js" where
  "js_not a = bind_js a (\<lambda>v. Inr (JBool (\<not> truthy v)))"

definition dflt :: "js \<Rightarrow> js \<Rightarrow> js" where
  "dflt a d = bind_js a (\<lambda>v. if v = Undef then d else Inr v)"

text \<open>\<open>v.toString()\<close>: a method call, so it fails on \<open>undefined\<close> and \<open>null\<close>.\<close>

definition to_string :: "js \<Rightarrow> js" where
  "to_string a = bind_js a (\<lambda>v. if nullish_val v then Inl (TypeError ''toString'')
     else Inr (JStr (to_str v)))"

text \<open>A template literal; an \<open>undefined\<close> part prints as the word.\<close>

fun tmpl :: "js list \<Rightarrow> js" where
  "tmpl [] = Inr (JStr [])"
| "tmpl (e # es) = bind_js e (\<lambda>v. bind_js (tmpl es) (\<lambda>w. Inr (JStr (to_str v @ to_str w))))"

text \<open>
  Arithmetic on numbers; any other operand of the expressions modelled here
  converts to \<open>NaN\<close> (\<open>undefined\<close>) or to a number (\<open>null\<close>, booleans).
\<close>

fun to_num :: "jsval \<Rightarrow> rat option" where
  "to_num (JNum n) = Some n"
| "to_num Null = Some 0"
| "to_num (JBool b) = Some (if b then 1 else 0)"
| "to_num _ = None"

definition num_op :: "(rat \<Rightarrow> rat \<Rightarrow> rat) \<Rightarrow> jsval \<Rightarrow> jsval \<Rightarrow> jsval" where
  "num_op f v w = (case (to_num v, to_num w) of (Some x, Some y) \<Rightarrow> JNum (f x y) | _ \<Rightarrow> JNaN)"

definition arith :: "(rat \<Rightarrow> rat \<Rightarrow> rat) \<Rightarrow> js \<Rightarrow> js \<Rightarrow> js" where
  "arith f a b = bind_js a (\<lambda>v. bind_js b (\<lambda>w. Inr (num_op f v w)))"

definition js_plus :: "js \<Rightarrow> js \<Rightarrow> js" where
  "js_plus = arith (+)"

definition js_minus :: "js \<Rightarrow> js \<Rightarrow> js" where
  "js_minus = arith (-)"

definition js_times :: "js \<Rightarrow> js \<Rightarrow> js" where
  "js_times = arith (*)"

definition js_leq :: "js \<Rightarrow> js \<Rightarrow> js" where
  "js_leq a b = bind_js a (\<lambda>v. bind_js b (\<lambda>w. Inr (JBool (case (to_num v, to_num w) of
     (Some x, Some y) \<Rightarrow> x \<le> y | _ \<Rightarrow> False))))"

section \<open>When an expression yields a value\<close>

text \<open>The expression does not throw, and its value is not \<open>undefined\<close>.\<close>

definition resolved :: "js \<Rightarrow> bool" where
  "resolved r \<longleftrightarrow> (case r of Inl _ \<Rightarrow> False | Inr v \<Rightarrow> v \<noteq> Undef)"

definition no_throw :: "js \<Rightarrow> bool" where
  "no_throw r \<longleftrightarrow> (case r of Inl _ \<Rightarrow> False | Inr _ \<Rightarrow> True)"

lemma bind_js_simps [simp]:
  "bind_js (Inr v) f = f v" "bind_js (Inl e) f = Inl e"
  by (simp_all add: bind_js_def)

lemma resolved_simps [simp]:
  "resolved (Inr v) \<longleftrightarrow> v \<noteq> Undef" "\<not> resolved (Inl e)"
  by (simp_all add: resolved_def)

lemma no_throw_simps [simp]:
  "no_throw (Inr v)" "\<not> no_throw (Inl e)"
  by (simp_all add: no_throw_def)

lemma resolved_if: "resolved (if c then a else b) \<longleftrightarrow> (c \<longrightarrow> resolved a) \<and> (\<not> c \<longrightarrow> resolved b)"
  by simp

lemma no_throw_if: "no_throw (if c then a else b) \<longleftrightarrow> (c \<longrightarrow> no_throw a) \<and> (\<not> c \<longrightarrow> no_throw b)"
  by simp

lemma resolved_no_throw: "resolved r \<Longrightarrow> no_throw r"
  by (cases r) auto

lemma no_throw_tmpl: "(\<And>e. e \<in> set es \<Longrightarrow> no_throw e) \<Longrightarrow> \<exists>s. tmpl es = Inr (JStr s)"
proof (induction es)
  case (Cons e es)
  then obtain s v where "tmpl es = Inr (JStr s)" "e = Inr v"
    by (metis list.set_intros no_throw_simps(2) sum.exhaust)
  then show ?case by simp
qed simp

text \<open>Evaluation of the operators on values, for the simplifier.\<close>

lemma js_eval_simps [simp]:
  "mem (Inr v) k = member v k"
  "ternary (Inr v) a b = (if truthy v then a else b)"
  "js_or (Inr v) a = (if truthy v then Inr v else a)"
  "js_and (Inr v) a = (if truthy v then a else Inr v)"
  "nullish (Inr v) a = (if nullish_val v then a else Inr v)"
  "if_nullish (Inr v) a b = (if nullish_val v then a else b)"
  "comma (Inr v) a = a"
  "strict_eq (Inr v) (Inr w) = Inr (JBool (v = w \<and> v \<noteq> JNaN))"
  "js_not (Inr v) = Inr (JBool (\<not> truthy v))"
  "dflt (Inr v) a = (if v = Undef then a else Inr v)"
  "to_string (Inr v) = (if nullish_val v then Inl (TypeError ''toString'') else Inr (JStr (to_str v)))"
  "js_plus (Inr v) (Inr w) = Inr (num_op (+) v w)"
  "js_minus (Inr v) (Inr w) = Inr (num_op (-) v w)"
  "js_times (Inr v) (Inr w) = Inr (num_op (*) v w)"
  by (simp_all add: js_plus_def js_minus_def js_times_def arith_def mem_def ternary_def js_or_def js_and_def nullish_def if_nullish_def comma_def
      strict_eq_def js_not_def dflt_def to_string_def)

lemma num_op_not_Undef [simp]: "num_op f v w \<noteq> Undef" "\<not> nullish_val (num_op f v w)"
  by (simp_all add: num_op_def nullish_val_def split: option.splits)

lemma js_leq_runs [simp]: "no_throw (js_leq (Inr v) (Inr w))"
  by (simp add: js_leq_def)

lemma comma_runs [simp]: "no_throw a \<Longrightarrow> comma a b = b"
  by (cases a) (simp_all add: comma_def)

lemma nullish_not_truthy [simp]: "nullish_val v \<Longrightarrow> \<not> truthy v"
  by (auto simp: nullish_val_def)

lemma truthy_not_Undef: "truthy v \<Longrightarrow> v \<noteq> Undef"
  by auto

lemma not_nullish_not_Undef: "\<not> nullish_val v \<Longrightarrow> v \<noteq> Undef"
  by (simp add: nullish_val_def)

end
