(* ===== verification/Styled_Components.thy ===== *)
theory Styled_Components
  imports JS_Value
begin

text \<open>
  The part of the styled-components library the explorer is built on that decides
  what an interpolation contributes to a style sheet (\<open>_e$3\<close>, \<open>be$3\<close> in
  \<open>bundle.js\<close>), and the form in which the \<open>qe$2.tag`...`\<close> templates of the
  explorer are translated: a template is a tag with a list of declarations,
  nested rules and mixins, whose interpolations are functions of the component's
  props, references to other components, key frames or assets embedded by the
  build. White space between tokens is collapsed and CSS comments are dropped.
\<close>

section \<open>Templates\<close>

text \<open>
  The props a styled component is rendered with: the \<open>theme\<close> of the enclosing
  provider and the attributes; an attribute that is not given is \<^const>\<open>Undef\<close>.
\<close>

record props =
  theme :: jsval
  attr :: "string \<Rightarrow> jsval"

datatype part =
    S string
  | F "props \<Rightarrow> js"
  | C string
  | K string
  | A string

datatype css =
    Decl string "part list"
  | Rule "part list" "css list"
  | Mixin "props \<Rightarrow> js"

datatype tag =
    Elem string
  | Global
  | Extends styled
and styled = Styled tag "css list"

definition theme_at :: "props \<Rightarrow> string list \<Rightarrow> js" where
  "theme_at p ks = path_at (theme p) ks"

definition prop_of :: "props \<Rightarrow> string \<Rightarrow> js" where
  "prop_of p k = Inr (attr p k)"

section \<open>What an interpolation contributes\<close>

text \<open>\<open>be$3\<close>: the values that contribute nothing.\<close>

definition is_falsish :: "jsval \<Rightarrow> bool" where
  "is_falsish v \<longleftrightarrow> v = Undef \<or> v = Null \<or> v = JBool False \<or> v = JStr []"

text \<open>\<open>Ee$3\<close>: a camel-case property name in hyphens, with the \<open>ms\<close> prefix corrected.\<close>

definition is_upper :: "char \<Rightarrow> bool" where
  "is_upper c \<longleftrightarrow> 65 \<le> (of_char c :: nat) \<and> (of_char c :: nat) \<le> 90"

definition hyphenate :: "string \<Rightarrow> string" where
  "hyphenate s = (if list_ex is_upper s
     then (let h = concat (map (\<lambda>c. if is_upper c then [CHR ''-'', to_lower c] else [c]) s)
           in if starts_with h ''ms-'' then CHR ''-'' # h else h)
     else s)"

text \<open>
  A plain object contributes its entries as declarations, and a nested one a
  nested rule; a number that is not zero gets the unit \<open>px\<close> unless its property
  is in the library's table of properties without a unit.
\<close>

definition entry_value :: "(string \<Rightarrow> bool) \<Rightarrow> string \<Rightarrow> jsval \<Rightarrow> string" where
  "entry_value unitless k v = (case v of
       JNum n \<Rightarrow> if n = 0 \<or> unitless k \<or> starts_with k ''--'' then num_to_string n
                else num_to_string n @ ''px''
     | JBool _ \<Rightarrow> []
     | _ \<Rightarrow> trim (to_str v))"

fun entry_chunk :: "(string \<Rightarrow> bool) \<Rightarrow> string \<Rightarrow> jsval \<Rightarrow> string"
  and entry_chunks :: "(string \<Rightarrow> bool) \<Rightarrow> (string \<times> jsval) list \<Rightarrow> string" where
  "entry_chunk u k (JObj kvs) = k @ '' {'' @ entry_chunks u kvs @ ''}''"
| "entry_chunk u k v = (if is_falsish v then []
     else hyphenate k @ '': '' @ entry_value u k v @ '';'')"
| "entry_chunks u [] = []"
| "entry_chunks u ((k, v) # kvs) = entry_chunk u k v @ entry_chunks u kvs"

fun flatten_val :: "(string \<Rightarrow> bool) \<Rightarrow> jsval \<Rightarrow> string" where
  "flatten_val u (JObj kvs) = entry_chunks u kvs"
| "flatten_val u v = (if is_falsish v then [] else to_str v)"

text \<open>
  The \<open>css\<close> helper (\<open>Ae$2\<close>): a template whose interpolations are flattened the
  same way, so that a missing value contributes nothing.
\<close>

fun css_tmpl :: "js list \<Rightarrow> js" where
  "css_tmpl [] = Inr (JStr [])"
| "css_tmpl (e # es) = bind_js e (\<lambda>v. bind_js (css_tmpl es) (\<lambda>w.
     Inr (JStr (flatten_val (\<lambda>_. False) v @ to_str w))))"

section \<open>The style sheet of a component\<close>

text \<open>
  What the library and the build supply: the class of a component, the generated
  name of a key-frames rule, the data of an embedded asset, the unitless table.
\<close>

record sheet =
  class_of :: "string \<Rightarrow> string"
  keyframes_name :: "string \<Rightarrow> string"
  asset :: "string \<Rightarrow> string"
  unitless :: "string \<Rightarrow> bool"

type_synonym css_text = "jserr + string"

fun append_text :: "css_text \<Rightarrow> css_text \<Rightarrow> css_text" where
  "append_text (Inl e) _ = Inl e"
| "append_text (Inr s) (Inl e) = Inl e"
| "append_text (Inr s) (Inr t) = Inr (s @ t)"

fun flatten_js :: "sheet \<Rightarrow> js \<Rightarrow> css_text" where
  "flatten_js e (Inl err) = Inl err"
| "flatten_js e (Inr v) = Inr (flatten_val (unitless e) v)"

fun render_part :: "sheet \<Rightarrow> props \<Rightarrow> part \<Rightarrow> css_text" where
  "render_part e p (S s) = Inr s"
| "render_part e p (F f) = flatten_js e (f p)"
| "render_part e p (C c) = Inr (CHR ''.'' # class_of e c)"
| "render_part e p (K k) = Inr (keyframes_name e k)"
| "render_part e p (A a) = Inr (asset e a)"

fun render_parts :: "sheet \<Rightarrow> props \<Rightarrow> part list \<Rightarrow> css_text" where
  "render_parts e p [] = Inr []"
| "render_parts e p (x # xs) = append_text (render_part e p x) (render_parts e p xs)"

fun render_css :: "sheet \<Rightarrow> props \<Rightarrow> css \<Rightarrow> css_text"
  and render_body :: "sheet \<Rightarrow> props \<Rightarrow> css list \<Rightarrow> css_text" where
  "render_css e p (Decl n ps) =
     append_text (Inr (n @ '': '')) (append_text (render_parts e p ps) (Inr '';''))"
| "render_css e p (Rule sel body) =
     append_text (render_parts e p sel)
       (append_text (Inr '' {'') (append_text (render_body e p body) (Inr ''}'')))"
| "render_css e p (Mixin f) = flatten_js e (f p)"
| "render_body e p [] = Inr []"
| "render_body e p (c # cs) = append_text (render_css e p c) (render_body e p cs)"

text \<open>An extended component starts from the rules of the component it extends.\<close>

fun render :: "sheet \<Rightarrow> props \<Rightarrow> styled \<Rightarrow> css_text" where
  "render e p (Styled (Extends b) cs) = append_text (render e p b) (render_body e p cs)"
| "render e p (Styled (Elem t) cs) = render_body e p cs"
| "render e p (Styled Global cs) = render_body e p cs"

section \<open>Soundness of a template\<close>

text \<open>
  \<open>runs p s\<close>: no interpolation of the template throws. \<open>resolves p s\<close>: moreover
  none that stands in a selector or in the value of a declaration is
  \<open>undefined\<close>; such an interpolation would leave the declaration without a value.
\<close>

fun part_runs :: "props \<Rightarrow> part \<Rightarrow> bool" where
  "part_runs p (F f) = no_throw (f p)"
| "part_runs p _ = True"

fun part_resolves :: "props \<Rightarrow> part \<Rightarrow> bool" where
  "part_resolves p (F f) = resolved (f p)"
| "part_resolves p _ = True"

fun css_runs :: "props \<Rightarrow> css \<Rightarrow> bool"
  and body_runs :: "props \<Rightarrow> css list \<Rightarrow> bool" where
  "css_runs p (Decl n ps) = list_all (part_runs p) ps"
| "css_runs p (Rule sel body) = (list_all (part_runs p) sel \<and> body_runs p body)"
| "css_runs p (Mixin f) = no_throw (f p)"
| "body_runs p [] = True"
| "body_runs p (c # cs) = (css_runs p c \<and> body_runs p cs)"

fun css_resolves :: "props \<Rightarrow> css \<Rightarrow> bool"
  and body_resolves :: "props \<Rightarrow> css list \<Rightarrow> bool" where
  "css_resolves p (Decl n ps) = list_all (part_resolves p) ps"
| "css_resolves p (Rule sel body) = (list_all (part_resolves p) sel \<and> body_resolves p body)"
| "css_resolves p (Mixin f) = no_throw (f p)"
| "body_resolves p [] = True"
| "body_resolves p (c # cs) = (css_resolves p c \<and> body_resolves p cs)"

fun runs :: "props \<Rightarrow> styled \<Rightarrow> bool" where
  "runs p (Styled (Extends b) cs) = (runs p b \<and> body_runs p cs)"
| "runs p (Styled (Elem t) cs) = body_runs p cs"
| "runs p (Styled Global cs) = body_runs p cs"

fun resolves :: "props \<Rightarrow> styled \<Rightarrow> bool" where
  "resolves p (Styled (Extends b) cs) = (resolves p b \<and> body_resolves p cs)"
| "resolves p (Styled (Elem t) cs) = body_resolves p cs"
| "resolves p (Styled Global cs) = body_resolves p cs"

lemma append_text_Inr [simp]: "append_text (Inr s) (Inr t) = Inr (s @ t)"
  by simp

lemma render_parts_runs: "list_all (part_runs p) ps \<Longrightarrow> \<exists>s. render_parts e p ps = Inr s"
proof (induction ps)
  case (Cons x xs)
  then obtain t where "render_parts e p xs = Inr t" by auto
  moreover obtain s where "render_part e p x = Inr s"
  proof (cases x)
    case (F f)
    with Cons.prems that show ?thesis by (cases "f p") auto
  qed (use that in auto)
  ultimately show ?case by simp
qed simp

lemma render_css_runs:
  "css_runs p c \<Longrightarrow> \<exists>s. render_css e p c = Inr s"
  "body_runs p cs \<Longrightarrow> \<exists>s. render_body e p cs = Inr s"
proof (induction c and cs rule: render_css_render_body.induct)
  case (1 e p n ps)
  then obtain s where "render_parts e p ps = Inr s" using render_parts_runs by fastforce
  then show ?case by simp
next
  case (2 e p sel body)
  then obtain s t where "render_parts e p sel = Inr s" "render_body e p body = Inr t"
    using render_parts_runs by fastforce
  then show ?case by simp
next
  case (3 e p f)
  then show ?case by (cases "f p") auto
next
  case (4 e p)
  then show ?case by simp
next
  case (5 e p c cs)
  then obtain s t where "render_css e p c = Inr s" "render_body e p cs = Inr t" by auto
  then show ?case by simp
qed

lemma render_runs: "runs p s \<Longrightarrow> \<exists>t. render e p s = Inr t"
proof (induction p s rule: runs.induct)
  case (1 p b cs)
  then obtain s t where "render e p b = Inr s" "render_body e p cs = Inr t"
    using render_css_runs(2) by fastforce
  then show ?case by simp
qed (auto dest: render_css_runs(2))

lemma part_resolves_runs: "part_resolves p x \<Longrightarrow> part_runs p x"
  by (cases x) (auto intro: resolved_no_throw)

lemma css_resolves_runs:
  "css_resolves p c \<Longrightarrow> css_runs p c"
  "body_resolves p cs \<Longrightarrow> body_runs p cs"
  by (induction c and cs rule: css_runs_body_runs.induct)
    (auto simp: list_all_iff intro: part_resolves_runs)

lemma resolves_runs: "resolves p s \<Longrightarrow> runs p s"
  by (induction p s rule: runs.induct) (auto intro: css_resolves_runs)

lemma css_tmpl_runs:
  "no_throw (css_tmpl [])"
  "no_throw (css_tmpl (Inr v # es)) = no_throw (css_tmpl es)"
  by (cases "css_tmpl es"; simp)+

end
