(* ===== verification/Theme.thy ===== *)
theory Theme
  imports Styled_Components
begin

text \<open>
  The palettes (\<open>lightTheme\<close>, \<open>darkTheme\<close>), the theme object the provider builds
  from a palette (\<open>theme\<close>), the layout constants (\<open>STYLING\<close>), the transitions and
  the two size helpers \<open>getHeight\<close>, \<open>getWidth\<close> of \<open>bundle.js\<close>, with the lookup
  lemmas that say which string of the palette each path of the theme holds.
\<close>

named_theorems theme_lookups \<open>the string at each path of the theme\<close>
named_theorems missing_lookups \<open>paths of the styles that the theme does not have\<close>

section \<open>Palettes\<close>

record editor_colors =
  ed_primary :: string
  ed_alt1 :: string
  ed_alt2 :: string
  ed_alt3 :: string
  ed_alt4 :: string
  ed_alt5 :: string
  ed_alt6 :: string
  ed_alt7 :: string
  ed_alt8 :: string
  ed_alt9 :: string
  ed_alt10 :: string

record action_colors =
  act_eval :: string
  act_info :: string
  act_balance :: string
  act_transfer :: string
  act_creditNotice :: string
  act_debitNotice :: string
  act_none :: string
  act_other :: string

record palette =
  scheme :: string
  positive1 :: string
  caution1 :: string
  negative1 :: string
  negative2 :: string
  neutral1 :: string
  neutral2 :: string
  neutral3 :: string
  neutral4 :: string
  neutral5 :: string
  neutral7 :: string
  neutral8 :: string
  neutral9 :: string
  neutralA1 :: string
  neutralA2 :: string
  neutralA3 :: string
  neutralA4 :: string
  neutralA5 :: string
  neutralA6 :: string
  overlay1 :: string
  overlay2 :: string
  shadow1 :: string
  primary1 :: string
  primary2 :: string
  light1 :: string
  light2 :: string
  light3 :: string
  dark1 :: string
  dark2 :: string
  link1 :: string
  link2 :: string
  editor :: editor_colors
  actions :: action_colors

definition lightTheme :: palette where
  "lightTheme = \<lparr>
    scheme = ''light'',
    positive1 = ''#64B686'',
    caution1 = ''#EECA00'',
    negative1 = ''#F16A82'',
    negative2 = ''#EE4463'',
    neutral1 = ''#f5f5f5'',
    neutral2 = ''#F0F0F0'',
    neutral3 = ''#E9E9E9'',
    neutral4 = ''#D9D9D9'',
    neutral5 = ''#A8A8A8'',
    neutral7 = ''#787878'',
    neutral8 = ''#565656'',
    neutral9 = ''#333333'',
    neutralA1 = ''#181818'',
    neutralA2 = ''#2A2A2A'',
    neutralA3 = ''#404040'',
    neutralA4 = ''#505050'',
    neutralA5 = ''#444444'',
    neutralA6 = ''#A0A0A0'',
    overlay1 = ''rgb(0, 0, 0, .45)'',
    overlay2 = ''rgb(0, 0, 0, .5)'',
    shadow1 = ''rgb(220, 220, 220, .5)'',
    primary1 = ''#000000'',
    primary2 = ''#333333'',
    light1 = ''#FFFFFF'',
    light2 = ''#F2F2F2'',
    light3 = ''#B0B0B0'',
    dark1 = ''#121212'',
    dark2 = ''#2A2A2A'',
    link1 = ''#0074E4'',
    link2 = ''#009AF7'',
    editor = \<lparr>ed_primary = ''#DA615D'', ed_alt1 = ''#13ab8f'', ed_alt2 = ''#6AB586'', ed_alt3 = ''#00a66b'', ed_alt4 = ''#616ACC'', ed_alt5 = ''#3599b1'', ed_alt6 = ''#FF5722'', ed_alt7 = ''#6AB586'', ed_alt8 = ''#00BCD4'', ed_alt9 = ''#8BC34A'', ed_alt10 = ''#3a3a3a''\<rparr>,
    actions = \<lparr>act_eval = ''#b86ac2'', act_info = ''#b86ac2'', act_balance = ''#b86ac2'', act_transfer = ''#eb9330'', act_creditNotice = ''#51af88'', act_debitNotice = ''#d43b7a'', act_none = ''#474747'', act_other = ''#6086e3''\<rparr>\<rparr>"

definition darkTheme :: palette where
  "darkTheme = \<lparr>
    scheme = ''dark'',
    positive1 = ''#38BD80'',
    caution1 = ''#EECA00'',
    negative1 = ''#F16A82'',
    negative2 = ''#EE4463'',
    neutral1 = ''#171717'',
    neutral2 = ''#1D1D1D'',
    neutral3 = ''#2E2E2E'',
    neutral4 = ''#383838'',
    neutral5 = ''#444444'',
    neutral7 = ''#5E5E5E'',
    neutral8 = ''#6C6C6C'',
    neutral9 = ''#7A7A7A'',
    neutralA1 = ''#F2F2F2'',
    neutralA2 = ''#E0E0E0'',
    neutralA3 = ''#CECECE'',
    neutralA4 = ''#BCBCBC'',
    neutralA5 = ''#D9D9D9'',
    neutralA6 = ''#979797'',
    overlay1 = ''rgba(0, 0, 0, 0.45)'',
    overlay2 = ''rgba(0, 0, 0, 0.65)'',
    shadow1 = ''rgba(0, 0, 0, 0.4)'',
    primary1 = ''#666666'',
    primary2 = ''#888888'',
    light1 = ''#FFFFFF'',
    light2 = ''#EAEAEA'',
    light3 = ''#C2C2C2'',
    dark1 = ''#0C0C0C'',
    dark2 = ''#1A1A1A'',
    link1 = ''#009AF7'',
    link2 = ''#0074E4'',
    editor = \<lparr>ed_primary = ''#DA615D'', ed_alt1 = ''#62c1b1'', ed_alt2 = ''#6AB586'', ed_alt3 = ''#5bdcbf'', ed_alt4 = ''#616ACC'', ed_alt5 = ''#6EB9CB'', ed_alt6 = ''#FF5722'', ed_alt7 = ''#6AB586'', ed_alt8 = ''#00BCD4'', ed_alt9 = ''#8BC34A'', ed_alt10 = ''#bcbcbc''\<rparr>,
    actions = \<lparr>act_eval = ''#b86ac2'', act_info = ''#b86ac2'', act_balance = ''#b86ac2'', act_transfer = ''#eb9330'', act_creditNotice = ''#51af88'', act_debitNotice = ''#d43b7a'', act_none = ''#474747'', act_other = ''#6086e3''\<rparr>\<rparr>"

section \<open>The theme object\<close>

definition colors_accordion :: "palette \<Rightarrow> jsval" where
  "colors_accordion pal = JObj [
    (''background'', JStr (neutral1 pal)),
    (''hover'', JStr (neutral2 pal)),
    (''color'', JStr (neutralA1 pal))]"

definition colors_actions :: "palette \<Rightarrow> jsval" where
  "colors_actions pal = JObj [
    (''eval'', JStr (act_eval (actions pal))),
    (''info'', JStr (act_info (actions pal))),
    (''balance'', JStr (act_balance (actions pal))),
    (''transfer'', JStr (act_transfer (actions pal))),
    (''debitNotice'', JStr (act_debitNotice (actions pal))),
    (''creditNotice'', JStr (act_creditNotice (actions pal))),
    (''none'', JStr (act_none (actions pal))),
    (''other'', JStr (act_other (actions pal)))]"

definition colors_border :: "palette \<Rightarrow> jsval" where
  "colors_border pal = JObj [
    (''primary'', JStr (neutral4 pal)),
    (''alt1'', JStr (neutral3 pal)),
    (''alt2'', JStr (neutral7 pal)),
    (''alt3'', JStr (neutral8 pal)),
    (''alt4'', JStr (neutralA5 pal)),
    (''alt5'', JStr (primary1 pal)),
    (''alt6'', JStr (primary2 pal))]"

definition colors_button :: "palette \<Rightarrow> jsval" where
  "colors_button pal = JObj [
    (''primary'', JObj [
      (''background'', JStr (neutral1 pal)),
      (''border'', JStr (neutral5 pal)),
      (''color'', JStr (neutralA1 pal)),
      (''active'', JObj [
        (''background'', JStr (neutral4 pal)),
        (''border'', JStr (neutralA6 pal)),
        (''color'', JStr (neutralA1 pal))]),
      (''disabled'', JObj [
        (''background'', JStr (neutral3 pal)),
        (''border'', JStr (neutral5 pal)),
        (''color'', JStr (neutral7 pal))])]),
    (''alt1'', JObj [
      (''background'', JStr (neutral3 pal)),
      (''border'', JStr (neutral5 pal)),
      (''color'', JStr (neutralA1 pal)),
      (''active'', JObj [
        (''background'', JStr (primary1 pal)),
        (''border'', JStr (primary1 pal)),
        (''color'', JStr (light1 pal))]),
      (''disabled'', JObj [
        (''background'', JStr (neutral3 pal)),
        (''border'', JStr (neutral5 pal)),
        (''color'', JStr (neutral7 pal))])]),
    (''alt2'', JObj [
      (''background'', JStr (neutralA1 pal)),
      (''border'', JStr (neutralA1 pal)),
      (''color'', JStr (neutralA1 pal)),
      (''active'', JObj [
        (''background'', JStr (neutralA4 pal)),
        (''border'', JStr (neutralA4 pal)),
        (''color'', JStr (neutralA4 pal))]),
      (''disabled'', JObj [
        (''background'', JStr (neutral3 pal)),
        (''border'', JStr (neutral3 pal)),
        (''color'', JStr (neutral7 pal))])])]"

definition colors_checkbox :: "palette \<Rightarrow> jsval" where
  "colors_checkbox pal = JObj [
    (''active'', JObj [
      (''background'', JStr (primary1 pal))]),
    (''background'', JStr (neutral1 pal)),
    (''hover'', JStr (neutral3 pal)),
    (''disabled'', JStr (neutral5 pal))]"

definition colors_container :: "palette \<Rightarrow> jsval" where
  "colors_container pal = JObj [
    (''primary'', JObj [
      (''background'', JStr (neutral1 pal)),
      (''active'', JStr (neutral3 pal))]),
    (''alt1'', JObj [
      (''background'', JStr (neutral2 pal))]),
    (''alt2'', JObj [
      (''background'', JStr (neutral3 pal))]),
    (''alt3'', JObj [
      (''background'', JStr (neutral4 pal))]),
    (''alt4'', JObj [
      (''background'', JStr (neutral5 pal))]),
    (''alt5'', JObj [
      (''background'', JStr (neutralA4 pal))]),
    (''alt6'', JObj [
      (''background'', JStr (primary1 pal))]),
    (''alt7'', JObj [
      (''background'', JStr (neutralA3 pal))]),
    (''alt8'', JObj [
      (''background'', JStr (dark2 pal))]),
    (''alt9'', JObj [
      (''background'', JStr (primary1 pal))]),
    (''alt10'', JObj [
      (''background'', JStr (primary2 pal))])]"

definition colors_contrast :: "palette \<Rightarrow> jsval" where
  "colors_contrast pal = JObj [
    (''background'', JStr (dark2 pal)),
    (''border'', JStr (neutral9 pal)),
    (''color'', JStr (light1 pal))]"

definition colors_font :: "palette \<Rightarrow> jsval" where
  "colors_font pal = JObj [
    (''primary'', JStr (neutralA1 pal)),
    (''alt1'', JStr (neutralA5 pal)),
    (''alt2'', JStr (neutralA3 pal)),
    (''alt3'', JStr (neutral8 pal)),
    (''alt4'', JStr (neutral1 pal)),
    (''alt5'', JStr (primary1 pal)),
    (''light1'', JStr (light1 pal)),
    (''light2'', JStr (light2 pal)),
    (''light3'', JStr (light3 pal)),
    (''dark1'', JStr (dark1 pal)),
    (''dark2'', JStr (dark2 pal))]"

definition colors_form :: "palette \<Rightarrow> jsval" where
  "colors_form pal = JObj [
    (''background'', JStr (neutral1 pal)),
    (''border'', JStr (neutral5 pal)),
    (''invalid'', JObj [
      (''outline'', JStr (negative1 pal)),
      (''shadow'', JStr (negative2 pal))]),
    (''valid'', JObj [
      (''outline'', JStr (neutralA5 pal)),
      (''shadow'', JStr (neutralA6 pal))]),
    (''default'', JObj [
      (''outline'', JStr (neutralA5 pal)),
      (''shadow'', JStr (neutralA6 pal))]),
    (''disabled'', JObj [
      (''background'', JStr (neutral2 pal)),
      (''border'', JStr (neutral5 pal)),
      (''label'', JStr (neutralA2 pal))])]"

definition colors_gradient :: "palette \<Rightarrow> jsval" where
  "colors_gradient pal = JObj [
    (''start'', JStr (primary1 pal)),
    (''middle'', JStr (primary1 pal)),
    (''end'', JStr (primary2 pal))]"

definition colors_icon :: "palette \<Rightarrow> jsval" where
  "colors_icon pal = JObj [
    (''primary'', JObj [
      (''fill'', JStr (neutralA4 pal)),
      (''active'', JStr (neutral3 pal)),
      (''disabled'', JStr (neutralA3 pal))]),
    (''alt1'', JObj [
      (''fill'', JStr (neutral4 pal)),
      (''active'', JStr (neutral5 pal)),
      (''disabled'', JStr (neutral3 pal))]),
    (''alt2'', JObj [
      (''fill'', JStr (neutralA1 pal)),
      (''active'', JStr (neutralA4 pal)),
      (''disabled'', JStr (neutral3 pal))]),
    (''alt3'', JObj [
      (''fill'', JStr (neutralA2 pal)),
      (''active'', JStr (neutral1 pal)),
      (''disabled'', JStr (neutral3 pal))])]"

definition colors_indicator :: "palette \<Rightarrow> jsval" where
  "colors_indicator pal = JObj [
    (''active'', JStr (positive1 pal))]"

definition colors_link :: "palette \<Rightarrow> jsval" where
  "colors_link pal = JObj [
    (''color'', JStr (link1 pal)),
    (''active'', JStr (link2 pal))]"

definition colors_loader :: "palette \<Rightarrow> jsval" where
  "colors_loader pal = JObj [
    (''primary'', JStr (neutralA6 pal))]"

definition colors_overlay :: "palette \<Rightarrow> jsval" where
  "colors_overlay pal = JObj [
    (''primary'', JStr (overlay1 pal)),
    (''alt1'', JStr (overlay2 pal))]"

definition colors_editor :: "palette \<Rightarrow> jsval" where
  "colors_editor pal = JObj [
    (''primary'', JStr (ed_primary (editor pal))),
    (''alt1'', JStr (ed_alt1 (editor pal))),
    (''alt2'', JStr (ed_alt2 (editor pal))),
    (''alt3'', JStr (ed_alt3 (editor pal))),
    (''alt4'', JStr (ed_alt4 (editor pal))),
    (''alt5'', JStr (ed_alt5 (editor pal))),
    (''alt6'', JStr (ed_alt6 (editor pal))),
    (''alt7'', JStr (ed_alt7 (editor pal))),
    (''alt8'', JStr (ed_alt8 (editor pal))),
    (''alt9'', JStr (ed_alt9 (editor pal))),
    (''alt10'', JStr (ed_alt10 (editor pal)))]"

definition colors_row :: "palette \<Rightarrow> jsval" where
  "colors_row pal = JObj [
    (''active'', JObj [
      (''background'', JStr (neutral3 pal)),
      (''border'', JStr (neutral2 pal))]),
    (''hover'', JObj [
      (''background'', JStr (neutral2 pal))])]"

definition colors_scrollbar :: "palette \<Rightarrow> jsval" where
  "colors_scrollbar pal = JObj [
    (''track'', JStr (neutral2 pal)),
    (''thumb'', JStr (neutral5 pal))]"

definition colors_shadow :: "palette \<Rightarrow> jsval" where
  "colors_shadow pal = JObj [
    (''primary'', JStr (shadow1 pal))]"

definition colors_status :: "palette \<Rightarrow> jsval" where
  "colors_status pal = JObj [
    (''draft'', JStr (caution1 pal)),
    (''published'', JStr (positive1 pal))]"

definition colors_tabs :: "palette \<Rightarrow> jsval" where
  "colors_tabs pal = JObj [
    (''color'', JStr (neutralA4 pal)),
    (''active'', JObj [
      (''background'', JStr (primary1 pal)),
      (''color'', JStr (neutralA1 pal))])]"

definition colors_view :: "palette \<Rightarrow> jsval" where
  "colors_view pal = JObj [
    (''background'', JStr (neutral1 pal))]"

definition colors_warning :: "palette \<Rightarrow> jsval" where
  "colors_warning pal = JObj [
    (''primary'', JStr (negative1 pal)),
    (''alt1'', JStr (negative2 pal))]"

definition theme_colors :: "palette \<Rightarrow> jsval" where
  "theme_colors pal = JObj [
    (''accordion'', colors_accordion pal),
    (''actions'', colors_actions pal),
    (''border'', colors_border pal),
    (''button'', colors_button pal),
    (''checkbox'', colors_checkbox pal),
    (''container'', colors_container pal),
    (''contrast'', colors_contrast pal),
    (''font'', colors_font pal),
    (''form'', colors_form pal),
    (''gradient'', colors_gradient pal),
    (''icon'', colors_icon pal),
    (''indicator'', colors_indicator pal),
    (''link'', colors_link pal),
    (''loader'', colors_loader pal),
    (''overlay'', colors_overlay pal),
    (''editor'', colors_editor pal),
    (''row'', colors_row pal),
    (''scrollbar'', colors_scrollbar pal),
    (''shadow'', colors_shadow pal),
    (''status'', colors_status pal),
    (''tabs'', colors_tabs pal),
    (''view'', colors_view pal),
    (''warning'', colors_warning pal)]"

definition theme_typography :: jsval where
  "theme_typography = JObj [
    (''family'', JObj [
      (''primary'', JStr (CHR 0x27 # ''DM Sans'' @ [CHR 0x27] @ '', sans-serif'')),
      (''alt1'', JStr (CHR 0x27 # ''Geist Mono'' @ [CHR 0x27] @ '', monospace'')),
      (''alt2'', JStr (CHR 0x27 # ''Geist Mono'' @ [CHR 0x27] @ '', monospace''))]),
    (''size'', JObj [
      (''xxxSmall'', JStr ''11px''),
      (''xxSmall'', JStr ''13px''),
      (''xSmall'', JStr ''14px''),
      (''small'', JStr ''15px''),
      (''base'', JStr ''16px''),
      (''lg'', JStr ''18px''),
      (''xLg'', JStr ''24px''),
      (''xxLg'', JStr ''28px''),
      (''h1'', JStr ''clamp(36px, 3.5vw, 56px)''),
      (''h2'', JStr ''clamp(32px, 3.25vw, 50px)''),
      (''h4'', JStr ''clamp(28px, 2.5vw, 32px)'')]),
    (''weight'', JObj [
      (''light'', JStr ''300''),
      (''regular'', JStr ''400''),
      (''medium'', JStr ''500''),
      (''bold'', JStr ''600''),
      (''xBold'', JStr ''700'')])]"

definition STYLING :: jsval where
  "STYLING = JObj [
    (''cutoffs'', JObj [
      (''desktop'', JStr ''1250px''),
      (''initial'', JStr ''1024px''),
      (''max'', JStr ''1460px''),
      (''tablet'', JStr ''840px''),
      (''secondary'', JStr ''540px'')]),
    (''dimensions'', JObj [
      (''button'', JObj [
        (''height'', JStr ''32.5px''),
        (''width'', JStr ''fit-content'')]),
      (''action'', JObj [
        (''height'', JStr ''32.5px'')]),
      (''form'', JObj [
        (''small'', JStr ''37.5px''),
        (''max'', JStr ''45px'')]),
      (''indicator'', JObj [
        (''height'', JStr ''10px''),
        (''width'', JStr ''10px'')]),
      (''nav'', JObj [
        (''height'', JStr ''68px''),
        (''width'', JStr ''260px'')]),
      (''landingTab'', JObj [
        (''height'', JStr ''52px'')]),
      (''landingHeader'', JObj [
        (''padding'', JStr ''24px'')]),
      (''footer'', JObj [
        (''height'', JStr ''60px'')]),
      (''radius'', JObj [
        (''primary'', JStr ''0''),
        (''circle'', JStr ''50%'')])])]"

definition theme_of :: "palette \<Rightarrow> jsval" where
  "theme_of pal = JObj [
    (''scheme'', JStr (scheme pal)),
    (''colors'', theme_colors pal),
    (''typography'', theme_typography)]"

section \<open>Constants and helpers of the templates\<close>

definition transition1 :: string where
  "transition1 = ''150ms cubic-bezier(0, 0, 0.2, 1) 0ms''"

definition transition2 :: string where
  "transition2 = ''300ms cubic-bezier(0, 0, 0.2, 1) 0ms''"

definition transition3 :: string where
  "transition3 = ''450ms cubic-bezier(0, 0, 0.2, 1) 0ms''"

definition styling_at :: "string list \<Rightarrow> js" where
  "styling_at ks = path_at STYLING ks"

definition getHeight :: "js \<Rightarrow> js" where
  "getHeight h = ternary h (tmpl [to_string h, Inr (JStr ''px'')])
     (styling_at [''dimensions'', ''button'', ''height''])"

definition getWidth :: "js \<Rightarrow> js \<Rightarrow> js \<Rightarrow> js" where
  "getWidth noMinWidth w fullWidth = ternary fullWidth (Inr (JStr ''100%''))
     (ternary w (tmpl [w, Inr (JStr ''px'')]) (Inr (JStr ''fit-content'')))"

section \<open>Lookups\<close>

text \<open>The props of a component rendered under the theme of a palette.\<close>

definition themed :: "palette \<Rightarrow> (string \<Rightarrow> jsval) \<Rightarrow> props" where
  "themed pal a = \<lparr>theme = theme_of pal, attr = a\<rparr>"

lemma prop_of_themed [simp]: "prop_of (themed pal a) k = Inr (a k)"
  by (simp add: prop_of_def themed_def)

lemma theme_group_lookups:
  "member (theme_colors pal) ''accordion'' = Inr (colors_accordion pal)"
  "member (theme_colors pal) ''actions'' = Inr (colors_actions pal)"
  "member (theme_colors pal) ''border'' = Inr (colors_border pal)"
  "member (theme_colors pal) ''button'' = Inr (colors_button pal)"
  "member (theme_colors pal) ''checkbox'' = Inr (colors_checkbox pal)"
  "member (theme_colors pal) ''container'' = Inr (colors_container pal)"
  "member (theme_colors pal) ''contrast'' = Inr (colors_contrast pal)"
  "member (theme_colors pal) ''font'' = Inr (colors_font pal)"
  "member (theme_colors pal) ''form'' = Inr (colors_form pal)"
  "member (theme_colors pal) ''gradient'' = Inr (colors_gradient pal)"
  "member (theme_colors pal) ''icon'' = Inr (colors_icon pal)"
  "member (theme_colors pal) ''indicator'' = Inr (colors_indicator pal)"
  "member (theme_colors pal) ''link'' = Inr (colors_link pal)"
  "member (theme_colors pal) ''loader'' = Inr (colors_loader pal)"
  "member (theme_colors pal) ''overlay'' = Inr (colors_overlay pal)"
  "member (theme_colors pal) ''editor'' = Inr (colors_editor pal)"
  "member (theme_colors pal) ''row'' = Inr (colors_row pal)"
  "member (theme_colors pal) ''scrollbar'' = Inr (colors_scrollbar pal)"
  "member (theme_colors pal) ''shadow'' = Inr (colors_shadow pal)"
  "member (theme_colors pal) ''status'' = Inr (colors_status pal)"
  "member (theme_colors pal) ''tabs'' = Inr (colors_tabs pal)"
  "member (theme_colors pal) ''view'' = Inr (colors_view pal)"
  "member (theme_colors pal) ''warning'' = Inr (colors_warning pal)"
  by (simp_all add: theme_colors_def)

lemma theme_at_colors:
  "theme_at (themed pal a) (''colors'' # k # ks) =
     (case member (theme_colors pal) k of Inl e \<Rightarrow> Inl e | Inr v \<Rightarrow> path_at v ks)"
  by (simp add: theme_at_def themed_def theme_of_def)

lemma theme_at_typography:
  "theme_at (themed pal a) (''typography'' # ks) = path_at theme_typography ks"
  by (simp add: theme_at_def themed_def theme_of_def)

lemma theme_scheme [theme_lookups]:
  "theme_at (themed pal a) [''scheme''] = Inr (JStr (scheme pal))"
  by (simp_all add: theme_at_def themed_def theme_of_def)

lemma theme_colors_accordion [theme_lookups]:
  "theme_at (themed pal a) [''colors'', ''accordion'', ''background''] = Inr (JStr (neutral1 pal))"
  "theme_at (themed pal a) [''colors'', ''accordion'', ''hover''] = Inr (JStr (neutral2 pal))"
  "theme_at (themed pal a) [''colors'', ''accordion'', ''color''] = Inr (JStr (neutralA1 pal))"
  by (simp_all add: theme_at_colors theme_group_lookups colors_accordion_def)

lemma theme_colors_actions [theme_lookups]:
  "theme_at (themed pal a) [''colors'', ''actions'', ''eval''] = Inr (JStr (act_eval (actions pal)))"
  "theme_at (themed pal a) [''colors'', ''actions'', ''info''] = Inr (JStr (act_info (actions pal)))"
  "theme_at (themed pal a) [''colors'', ''actions'', ''balance''] = Inr (JStr (act_balance (actions pal)))"
  "theme_at (themed pal a) [''colors'', ''actions'', ''transfer''] = Inr (JStr (act_transfer (actions pal)))"
  "theme_at (themed pal a) [''colors'', ''actions'', ''debitNotice''] = Inr (JStr (act_debitNotice (actions pal)))"
  "theme_at (themed pal a) [''colors'', ''actions'', ''creditNotice''] = Inr (JStr (act_creditNotice (actions pal)))"
  "theme_at (themed pal a) [''colors'', ''actions'', ''none''] = Inr (JStr (act_none (actions pal)))"
  "theme_at (themed pal a) [''colors'', ''actions'', ''other''] = Inr (JStr (act_other (actions pal)))"
  by (simp_all add: theme_at_colors theme_group_lookups colors_actions_def)

lemma theme_colors_border [theme_lookups]:
  "theme_at (themed pal a) [''colors'', ''border'', ''primary''] = Inr (JStr (neutral4 pal))"
  "theme_at (themed pal a) [''colors'', ''border'', ''alt1''] = Inr (JStr (neutral3 pal))"
  "theme_at (themed pal a) [''colors'', ''border'', ''alt2''] = Inr (JStr (neutral7 pal))"
  "theme_at (themed pal a) [''colors'', ''border'', ''alt3''] = Inr (JStr (neutral8 pal))"
  "theme_at (themed pal a) [''colors'', ''border'', ''alt4''] = Inr (JStr (neutralA5 pal))"
  "theme_at (themed pal a) [''colors'', ''border'', ''alt5''] = Inr (JStr (primary1 pal))"
  "theme_at (themed pal a) [''colors'', ''border'', ''alt6''] = Inr (JStr (primary2 pal))"
  by (simp_all add: theme_at_colors theme_group_lookups colors_border_def)

lemma theme_colors_button [theme_lookups]:
  "theme_at (themed pal a) [''colors'', ''button'', ''primary'', ''background''] = Inr (JStr (neutral1 pal))"
  "theme_at (themed pal a) [''colors'', ''button'', ''primary'', ''border''] = Inr (JStr (neutral5 pal))"
  "theme_at (themed pal a) [''colors'', ''button'', ''primary'', ''color''] = Inr (JStr (neutralA1 pal))"
  "theme_at (themed pal a) [''colors'', ''button'', ''primary'', ''active'', ''background''] = Inr (JStr (neutral4 pal))"
  "theme_at (themed pal a) [''colors'', ''button'', ''primary'', ''active'', ''border''] = Inr (JStr (neutralA6 pal))"
  "theme_at (themed pal a) [''colors'', ''button'', ''primary'', ''active'', ''color''] = Inr (JStr (neutralA1 pal))"
  "theme_at (themed pal a) [''colors'', ''button'', ''primary'', ''disabled'', ''background''] = Inr (JStr (neutral3 pal))"
  "theme_at (themed pal a) [''colors'', ''button'', ''primary'', ''disabled'', ''border''] = Inr (JStr (neutral5 pal))"
  "theme_at (themed pal a) [''colors'', ''button'', ''primary'', ''disabled'', ''color''] = Inr (JStr (neutral7 pal))"
  "theme_at (themed pal a) [''colors'', ''button'', ''alt1'', ''background''] = Inr (JStr (neutral3 pal))"
  "theme_at (themed pal a) [''colors'', ''button'', ''alt1'', ''border''] = Inr (JStr (neutral5 pal))"
  "theme_at (themed pal a) [''colors'', ''button'', ''alt1'', ''color''] = Inr (JStr (neutralA1 pal))"
  "theme_at (themed pal a) [''colors'', ''button'', ''alt1'', ''active'', ''background''] = Inr (JStr (primary1 pal))"
  "theme_at (themed pal a) [''colors'', ''button'', ''alt1'', ''active'', ''border''] = Inr (JStr (primary1 pal))"
  "theme_at (themed pal a) [''colors'', ''button'', ''alt1'', ''active'', ''color''] = Inr (JStr (light1 pal))"
  "theme_at (themed pal a) [''colors'', ''button'', ''alt1'', ''disabled'', ''background''] = Inr (JStr (neutral3 pal))"
  "theme_at (themed pal a) [''colors'', ''button'', ''alt1'', ''disabled'', ''border''] = Inr (JStr (neutral5 pal))"
  "theme_at (themed pal a) [''colors'', ''button'', ''alt1'', ''disabled'', ''color''] = Inr (JStr (neutral7 pal))"
  "theme_at (themed pal a) [''colors'', ''button'', ''alt2'', ''background''] = Inr (JStr (neutralA1 pal))"
  "theme_at (themed pal a) [''colors'', ''button'', ''alt2'', ''border''] = Inr (JStr (neutralA1 pal))"
  "theme_at (themed pal a) [''colors'', ''button'', ''alt2'', ''color''] = Inr (JStr (neutralA1 pal))"
  "theme_at (themed pal a) [''colors'', ''button'', ''alt2'', ''active'', ''background''] = Inr (JStr (neutralA4 pal))"
  "theme_at (themed pal a) [''colors'', ''button'', ''alt2'', ''active'', ''border''] = Inr (JStr (neutralA4 pal))"
  "theme_at (themed pal a) [''colors'', ''button'', ''alt2'', ''active'', ''color''] = Inr (JStr (neutralA4 pal))"
  "theme_at (themed pal a) [''colors'', ''button'', ''alt2'', ''disabled'', ''background''] = Inr (JStr (neutral3 pal))"
  "theme_at (themed pal a) [''colors'', ''button'', ''alt2'', ''disabled'', ''border''] = Inr (JStr (neutral3 pal))"
  "theme_at (themed pal a) [''colors'', ''button'', ''alt2'', ''disabled'', ''color''] = Inr (JStr (neutral7 pal))"
  by (simp_all add: theme_at_colors theme_group_lookups colors_button_def)

lemma theme_colors_checkbox [theme_lookups]:
  "theme_at (themed pal a) [''colors'', ''checkbox'', ''active'', ''background''] = Inr (JStr (primary1 pal))"
  "theme_at (themed pal a) [''colors'', ''checkbox'', ''background''] = Inr (JStr (neutral1 pal))"
  "theme_at (themed pal a) [''colors'', ''checkbox'', ''hover''] = Inr (JStr (neutral3 pal))"
  "theme_at (themed pal a) [''colors'', ''checkbox'', ''disabled''] = Inr (JStr (neutral5 pal))"
  by (simp_all add: theme_at_colors theme_group_lookups colors_checkbox_def)

lemma theme_colors_container [theme_lookups]:
  "theme_at (themed pal a) [''colors'', ''container'', ''primary'', ''background''] = Inr (JStr (neutral1 pal))"
  "theme_at (themed pal a) [''colors'', ''container'', ''primary'', ''active''] = Inr (JStr (neutral3 pal))"
  "theme_at (themed pal a) [''colors'', ''container'', ''alt1'', ''background''] = Inr (JStr (neutral2 pal))"
  "theme_at (themed pal a) [''colors'', ''container'', ''alt2'', ''background''] = Inr (JStr (neutral3 pal))"
  "theme_at (themed pal a) [''colors'', ''container'', ''alt3'', ''background''] = Inr (JStr (neutral4 pal))"
  "theme_at (themed pal a) [''colors'', ''container'', ''alt4'', ''background''] = Inr (JStr (neutral5 pal))"
  "theme_at (themed pal a) [''colors'', ''container'', ''alt5'', ''background''] = Inr (JStr (neutralA4 pal))"
  "theme_at (themed pal a) [''colors'', ''container'', ''alt6'', ''background''] = Inr (JStr (primary1 pal))"
  "theme_at (themed pal a) [''colors'', ''container'', ''alt7'', ''background''] = Inr (JStr (neutralA3 pal))"
  "theme_at (themed pal a) [''colors'', ''container'', ''alt8'', ''background''] = Inr (JStr (dark2 pal))"
  "theme_at (themed pal a) [''colors'', ''container'', ''alt9'', ''background''] = Inr (JStr (primary1 pal))"
  "theme_at (themed pal a) [''colors'', ''container'', ''alt10'', ''background''] = Inr (JStr (primary2 pal))"
  by (simp_all add: theme_at_colors theme_group_lookups colors_container_def)

lemma theme_colors_contrast [theme_lookups]:
  "theme_at (themed pal a) [''colors'', ''contrast'', ''background''] = Inr (JStr (dark2 pal))"
  "theme_at (themed pal a) [''colors'', ''contrast'', ''border''] = Inr (JStr (neutral9 pal))"
  "theme_at (themed pal a) [''colors'', ''contrast'', ''color''] = Inr (JStr (light1 pal))"
  by (simp_all add: theme_at_colors theme_group_lookups colors_contrast_def)

lemma theme_colors_font [theme_lookups]:
  "theme_at (themed pal a) [''colors'', ''font'', ''primary''] = Inr (JStr (neutralA1 pal))"
  "theme_at (themed pal a) [''colors'', ''font'', ''alt1''] = Inr (JStr (neutralA5 pal))"
  "theme_at (themed pal a) [''colors'', ''font'', ''alt2''] = Inr (JStr (neutralA3 pal))"
  "theme_at (themed pal a) [''colors'', ''font'', ''alt3''] = Inr (JStr (neutral8 pal))"
  "theme_at (themed pal a) [''colors'', ''font'', ''alt4''] = Inr (JStr (neutral1 pal))"
  "theme_at (themed pal a) [''colors'', ''font'', ''alt5''] = Inr (JStr (primary1 pal))"
  "theme_at (themed pal a) [''colors'', ''font'', ''light1''] = Inr (JStr (light1 pal))"
  "theme_at (themed pal a) [''colors'', ''font'', ''light2''] = Inr (JStr (light2 pal))"
  "theme_at (themed pal a) [''colors'', ''font'', ''light3''] = Inr (JStr (light3 pal))"
  "theme_at (themed pal a) [''colors'', ''font'', ''dark1''] = Inr (JStr (dark1 pal))"
  "theme_at (themed pal a) [''colors'', ''font'', ''dark2''] = Inr (JStr (dark2 pal))"
  by (simp_all add: theme_at_colors theme_group_lookups colors_font_def)

lemma theme_colors_form [theme_lookups]:
  "theme_at (themed pal a) [''colors'', ''form'', ''background''] = Inr (JStr (neutral1 pal))"
  "theme_at (themed pal a) [''colors'', ''form'', ''border''] = Inr (JStr (neutral5 pal))"
  "theme_at (themed pal a) [''colors'', ''form'', ''invalid'', ''outline''] = Inr (JStr (negative1 pal))"
  "theme_at (themed pal a) [''colors'', ''form'', ''invalid'', ''shadow''] = Inr (JStr (negative2 pal))"
  "theme_at (themed pal a) [''colors'', ''form'', ''valid'', ''outline''] = Inr (JStr (neutralA5 pal))"
  "theme_at (themed pal a) [''colors'', ''form'', ''valid'', ''shadow''] = Inr (JStr (neutralA6 pal))"
  "theme_at (themed pal a) [''colors'', ''form'', ''default'', ''outline''] = Inr (JStr (neutralA5 pal))"
  "theme_at (themed pal a) [''colors'', ''form'', ''default'', ''shadow''] = Inr (JStr (neutralA6 pal))"
  "theme_at (themed pal a) [''colors'', ''form'', ''disabled'', ''background''] = Inr (JStr (neutral2 pal))"
  "theme_at (themed pal a) [''colors'', ''form'', ''disabled'', ''border''] = Inr (JStr (neutral5 pal))"
  "theme_at (themed pal a) [''colors'', ''form'', ''disabled'', ''label''] = Inr (JStr (neutralA2 pal))"
  by (simp_all add: theme_at_colors theme_group_lookups colors_form_def)

lemma theme_colors_gradient [theme_lookups]:
  "theme_at (themed pal a) [''colors'', ''gradient'', ''start''] = Inr (JStr (primary1 pal))"
  "theme_at (themed pal a) [''colors'', ''gradient'', ''middle''] = Inr (JStr (primary1 pal))"
  "theme_at (themed pal a) [''colors'', ''gradient'', ''end''] = Inr (JStr (primary2 pal))"
  by (simp_all add: theme_at_colors theme_group_lookups colors_gradient_def)

lemma theme_colors_icon [theme_lookups]:
  "theme_at (themed pal a) [''colors'', ''icon'', ''primary'', ''fill''] = Inr (JStr (neutralA4 pal))"
  "theme_at (themed pal a) [''colors'', ''icon'', ''primary'', ''active''] = Inr (JStr (neutral3 pal))"
  "theme_at (themed pal a) [''colors'', ''icon'', ''primary'', ''disabled''] = Inr (JStr (neutralA3 pal))"
  "theme_at (themed pal a) [''colors'', ''icon'', ''alt1'', ''fill''] = Inr (JStr (neutral4 pal))"
  "theme_at (themed pal a) [''colors'', ''icon'', ''alt1'', ''active''] = Inr (JStr (neutral5 pal))"
  "theme_at (themed pal a) [''colors'', ''icon'', ''alt1'', ''disabled''] = Inr (JStr (neutral3 pal))"
  "theme_at (themed pal a) [''colors'', ''icon'', ''alt2'', ''fill''] = Inr (JStr (neutralA1 pal))"
  "theme_at (themed pal a) [''colors'', ''icon'', ''alt2'', ''active''] = Inr (JStr (neutralA4 pal))"
  "theme_at (themed pal a) [''colors'', ''icon'', ''alt2'', ''disabled''] = Inr (JStr (neutral3 pal))"
  "theme_at (themed pal a) [''colors'', ''icon'', ''alt3'', ''fill''] = Inr (JStr (neutralA2 pal))"
  "theme_at (themed pal a) [''colors'', ''icon'', ''alt3'', ''active''] = Inr (JStr (neutral1 pal))"
  "theme_at (themed pal a) [''colors'', ''icon'', ''alt3'', ''disabled''] = Inr (JStr (neutral3 pal))"
  by (simp_all add: theme_at_colors theme_group_lookups colors_icon_def)

lemma theme_colors_indicator [theme_lookups]:
  "theme_at (themed pal a) [''colors'', ''indicator'', ''active''] = Inr (JStr (positive1 pal))"
  by (simp_all add: theme_at_colors theme_group_lookups colors_indicator_def)

lemma theme_colors_link [theme_lookups]:
  "theme_at (themed pal a) [''colors'', ''link'', ''color''] = Inr (JStr (link1 pal))"
  "theme_at (themed pal a) [''colors'', ''link'', ''active''] = Inr (JStr (link2 pal))"
  by (simp_all add: theme_at_colors theme_group_lookups colors_link_def)

lemma theme_colors_loader [theme_lookups]:
  "theme_at (themed pal a) [''colors'', ''loader'', ''primary''] = Inr (JStr (neutralA6 pal))"
  by (simp_all add: theme_at_colors theme_group_lookups colors_loader_def)

lemma theme_colors_overlay [theme_lookups]:
  "theme_at (themed pal a) [''colors'', ''overlay'', ''primary''] = Inr (JStr (overlay1 pal))"
  "theme_at (themed pal a) [''colors'', ''overlay'', ''alt1''] = Inr (JStr (overlay2 pal))"
  by (simp_all add: theme_at_colors theme_group_lookups colors_overlay_def)

lemma theme_colors_editor [theme_lookups]:
  "theme_at (themed pal a) [''colors'', ''editor'', ''primary''] = Inr (JStr (ed_primary (editor pal)))"
  "theme_at (themed pal a) [''colors'', ''editor'', ''alt1''] = Inr (JStr (ed_alt1 (editor pal)))"
  "theme_at (themed pal a) [''colors'', ''editor'', ''alt2''] = Inr (JStr (ed_alt2 (editor pal)))"
  "theme_at (themed pal a) [''colors'', ''editor'', ''alt3''] = Inr (JStr (ed_alt3 (editor pal)))"
  "theme_at (themed pal a) [''colors'', ''editor'', ''alt4''] = Inr (JStr (ed_alt4 (editor pal)))"
  "theme_at (themed pal a) [''colors'', ''editor'', ''alt5''] = Inr (JStr (ed_alt5 (editor pal)))"
  "theme_at (themed pal a) [''colors'', ''editor'', ''alt6''] = Inr (JStr (ed_alt6 (editor pal)))"
  "theme_at (themed pal a) [''colors'', ''editor'', ''alt7''] = Inr (JStr (ed_alt7 (editor pal)))"
  "theme_at (themed pal a) [''colors'', ''editor'', ''alt8''] = Inr (JStr (ed_alt8 (editor pal)))"
  "theme_at (themed pal a) [''colors'', ''editor'', ''alt9''] = Inr (JStr (ed_alt9 (editor pal)))"
  "theme_at (themed pal a) [''colors'', ''editor'', ''alt10''] = Inr (JStr (ed_alt10 (editor pal)))"
  by (simp_all add: theme_at_colors theme_group_lookups colors_editor_def)

lemma theme_colors_row [theme_lookups]:
  "theme_at (themed pal a) [''colors'', ''row'', ''active'', ''background''] = Inr (JStr (neutral3 pal))"
  "theme_at (themed pal a) [''colors'', ''row'', ''active'', ''border''] = Inr (JStr (neutral2 pal))"
  "theme_at (themed pal a) [''colors'', ''row'', ''hover'', ''background''] = Inr (JStr (neutral2 pal))"
  by (simp_all add: theme_at_colors theme_group_lookups colors_row_def)

lemma theme_colors_scrollbar [theme_lookups]:
  "theme_at (themed pal a) [''colors'', ''scrollbar'', ''track''] = Inr (JStr (neutral2 pal))"
  "theme_at (themed pal a) [''colors'', ''scrollbar'', ''thumb''] = Inr (JStr (neutral5 pal))"
  by (simp_all add: theme_at_colors theme_group_lookups colors_scrollbar_def)

lemma theme_colors_shadow [theme_lookups]:
  "theme_at (themed pal a) [''colors'', ''shadow'', ''primary''] = Inr (JStr (shadow1 pal))"
  by (simp_all add: theme_at_colors theme_group_lookups colors_shadow_def)

lemma theme_colors_status [theme_lookups]:
  "theme_at (themed pal a) [''colors'', ''status'', ''draft''] = Inr (JStr (caution1 pal))"
  "theme_at (themed pal a) [''colors'', ''status'', ''published''] = Inr (JStr (positive1 pal))"
  by (simp_all add: theme_at_colors theme_group_lookups colors_status_def)

lemma theme_colors_tabs [theme_lookups]:
  "theme_at (themed pal a) [''colors'', ''tabs'', ''color''] = Inr (JStr (neutralA4 pal))"
  "theme_at (themed pal a) [''colors'', ''tabs'', ''active'', ''background''] = Inr (JStr (primary1 pal))"
  "theme_at (themed pal a) [''colors'', ''tabs'', ''active'', ''color''] = Inr (JStr (neutralA1 pal))"
  by (simp_all add: theme_at_colors theme_group_lookups colors_tabs_def)

lemma theme_colors_view [theme_lookups]:
  "theme_at (themed pal a) [''colors'', ''view'', ''background''] = Inr (JStr (neutral1 pal))"
  by (simp_all add: theme_at_colors theme_group_lookups colors_view_def)

lemma theme_colors_warning [theme_lookups]:
  "theme_at (themed pal a) [''colors'', ''warning'', ''primary''] = Inr (JStr (negative1 pal))"
  "theme_at (themed pal a) [''colors'', ''warning'', ''alt1''] = Inr (JStr (negative2 pal))"
  by (simp_all add: theme_at_colors theme_group_lookups colors_warning_def)

lemma theme_typography_family [theme_lookups]:
  "theme_at (themed pal a) [''typography'', ''family'', ''primary''] = Inr (JStr (CHR 0x27 # ''DM Sans'' @ [CHR 0x27] @ '', sans-serif''))"
  "theme_at (themed pal a) [''typography'', ''family'', ''alt1''] = Inr (JStr (CHR 0x27 # ''Geist Mono'' @ [CHR 0x27] @ '', monospace''))"
  "theme_at (themed pal a) [''typography'', ''family'', ''alt2''] = Inr (JStr (CHR 0x27 # ''Geist Mono'' @ [CHR 0x27] @ '', monospace''))"
  by (simp_all add: theme_at_typography theme_typography_def)

lemma theme_typography_size [theme_lookups]:
  "theme_at (themed pal a) [''typography'', ''size'', ''xxxSmall''] = Inr (JStr ''11px'')"
  "theme_at (themed pal a) [''typography'', ''size'', ''xxSmall''] = Inr (JStr ''13px'')"
  "theme_at (themed pal a) [''typography'', ''size'', ''xSmall''] = Inr (JStr ''14px'')"
  "theme_at (themed pal a) [''typography'', ''size'', ''small''] = Inr (JStr ''15px'')"
  "theme_at (themed pal a) [''typography'', ''size'', ''base''] = Inr (JStr ''16px'')"
  "theme_at (themed pal a) [''typography'', ''size'', ''lg''] = Inr (JStr ''18px'')"
  "theme_at (themed pal a) [''typography'', ''size'', ''xLg''] = Inr (JStr ''24px'')"
  "theme_at (themed pal a) [''typography'', ''size'', ''xxLg''] = Inr (JStr ''28px'')"
  "theme_at (themed pal a) [''typography'', ''size'', ''h1''] = Inr (JStr ''clamp(36px, 3.5vw, 56px)'')"
  "theme_at (themed pal a) [''typography'', ''size'', ''h2''] = Inr (JStr ''clamp(32px, 3.25vw, 50px)'')"
  "theme_at (themed pal a) [''typography'', ''size'', ''h4''] = Inr (JStr ''clamp(28px, 2.5vw, 32px)'')"
  by (simp_all add: theme_at_typography theme_typography_def)

lemma theme_typography_weight [theme_lookups]:
  "theme_at (themed pal a) [''typography'', ''weight'', ''light''] = Inr (JStr ''300'')"
  "theme_at (themed pal a) [''typography'', ''weight'', ''regular''] = Inr (JStr ''400'')"
  "theme_at (themed pal a) [''typography'', ''weight'', ''medium''] = Inr (JStr ''500'')"
  "theme_at (themed pal a) [''typography'', ''weight'', ''bold''] = Inr (JStr ''600'')"
  "theme_at (themed pal a) [''typography'', ''weight'', ''xBold''] = Inr (JStr ''700'')"
  by (simp_all add: theme_at_typography theme_typography_def)

lemma theme_colors_editor_object [theme_lookups]:
  "\<exists>kvs. theme_at (themed pal a) [''colors'', ''editor''] = Inr (JObj kvs)"
  by (simp add: theme_at_colors theme_group_lookups colors_editor_def)

lemma theme_colors_editor_alt5 [theme_lookups]:
  "mem (theme_at (themed pal a) [''colors'', ''editor'']) ''alt5'' = Inr (JStr (ed_alt5 (editor pal)))"
  "if_nullish (theme_at (themed pal a) [''colors'', ''editor'']) r s = s"
  by (simp_all add: theme_at_colors theme_group_lookups colors_editor_def nullish_val_def)

text \<open>These paths occur in templates and name nothing the theme has.\<close>

lemma theme_missing [missing_lookups]:
  "theme_at (themed pal a) [''colors'', ''font'', ''primary'', ''alt1''] = Inr Undef"
  "theme_at (themed pal a) [''colors'', ''font'', ''primary'', ''alt4''] = Inr Undef"
  "theme_at (themed pal a) [''colors'', ''transparent''] = Inr Undef"
  "theme_at (themed pal a) [''colors'', ''indicator'', ''primary''] = Inr Undef"
  "theme_at (themed pal a) [''colors'', ''button'', ''primary'', ''alt1''] = Inr Undef"
  "theme_at (themed pal a) [''colors'', ''success''] = Inr Undef"
  "theme_at (themed pal a) [''colors'', ''button'', ''alt1'', ''hover''] = Inr Undef"
  "theme_at (themed pal a) [''colors'', ''button'', ''alt1'', ''label''] = Inr Undef"
  "theme_at (themed pal a) [''colors'', ''button'', ''alt1'', ''disabled'', ''label''] = Inr Undef"
  by (simp_all add: theme_at_colors theme_colors_def colors_font_def colors_indicator_def
      colors_button_def)

lemma styling_lookups [theme_lookups]:
  "styling_at [''cutoffs'', ''desktop''] = Inr (JStr ''1250px'')"
  "styling_at [''cutoffs'', ''initial''] = Inr (JStr ''1024px'')"
  "styling_at [''cutoffs'', ''max''] = Inr (JStr ''1460px'')"
  "styling_at [''cutoffs'', ''tablet''] = Inr (JStr ''840px'')"
  "styling_at [''cutoffs'', ''secondary''] = Inr (JStr ''540px'')"
  "styling_at [''dimensions'', ''button'', ''height''] = Inr (JStr ''32.5px'')"
  "styling_at [''dimensions'', ''button'', ''width''] = Inr (JStr ''fit-content'')"
  "styling_at [''dimensions'', ''action'', ''height''] = Inr (JStr ''32.5px'')"
  "styling_at [''dimensions'', ''form'', ''small''] = Inr (JStr ''37.5px'')"
  "styling_at [''dimensions'', ''form'', ''max''] = Inr (JStr ''45px'')"
  "styling_at [''dimensions'', ''indicator'', ''height''] = Inr (JStr ''10px'')"
  "styling_at [''dimensions'', ''indicator'', ''width''] = Inr (JStr ''10px'')"
  "styling_at [''dimensions'', ''nav'', ''height''] = Inr (JStr ''68px'')"
  "styling_at [''dimensions'', ''nav'', ''width''] = Inr (JStr ''260px'')"
  "styling_at [''dimensions'', ''landingTab'', ''height''] = Inr (JStr ''52px'')"
  "styling_at [''dimensions'', ''landingHeader'', ''padding''] = Inr (JStr ''24px'')"
  "styling_at [''dimensions'', ''footer'', ''height''] = Inr (JStr ''60px'')"
  "styling_at [''dimensions'', ''radius'', ''primary''] = Inr (JStr ''0'')"
  "styling_at [''dimensions'', ''radius'', ''circle''] = Inr (JStr ''50%'')"
  by (simp_all add: styling_at_def STYLING_def)

lemma getHeight_resolved [simp]: "resolved (getHeight (Inr v))"
  by (cases "truthy v") (auto simp: getHeight_def theme_lookups nullish_val_def)

lemma getWidth_resolved [simp]: "resolved (getWidth (Inr u) (Inr v) (Inr w))"
  by (simp add: getWidth_def)

lemmas size_runs [simp] =
  getHeight_resolved [THEN resolved_no_throw] getWidth_resolved [THEN resolved_no_throw]

text \<open>
  The attributes some components cannot do without: they call a method on them
  (\<open>size\<close>, \<open>width\<close>, \<open>height\<close>, \<open>dimensions.wrapper\<close>, \<open>dimensions.icon\<close>).
\<close>

definition sized :: "(string \<Rightarrow> jsval) \<Rightarrow> bool" where
  "sized a \<longleftrightarrow> \<not> nullish_val (a ''size'') \<and> \<not> nullish_val (a ''width'') \<and>
     \<not> nullish_val (a ''height'') \<and> (\<exists>w i. \<not> nullish_val w \<and> \<not> nullish_val i \<and>
     member (a ''dimensions'') ''wrapper'' = Inr w \<and> member (a ''dimensions'') ''icon'' = Inr i)"

definition given :: "(string \<Rightarrow> jsval) \<Rightarrow> bool" where
  "given a \<longleftrightarrow> sized a \<and> (\<forall>k. \<not> nullish_val (a k))"

lemma sizedE:
  assumes "sized a"
  obtains w i where "\<not> nullish_val (a ''size'')" "\<not> nullish_val (a ''width'')"
    "\<not> nullish_val (a ''height'')" "\<not> nullish_val w" "\<not> nullish_val i"
    "member (a ''dimensions'') ''wrapper'' = Inr w" "member (a ''dimensions'') ''icon'' = Inr i"
  using assms unfolding sized_def by blast

lemma given_sized: "given a \<Longrightarrow> sized a"
  by (simp add: given_def)

lemma given_simps:
  assumes "given a"
  shows "\<not> nullish_val (a k)" "a k \<noteq> Undef" "a k \<noteq> Null"
  using assms unfolding given_def nullish_val_def by auto

text \<open>Sizes: a number in pixels when one is given, the default of the layout otherwise.\<close>

lemma getHeight_given: "truthy v \<Longrightarrow> getHeight (Inr v) = Inr (JStr (to_str v @ ''px''))"
  by (cases v) (auto simp: getHeight_def nullish_val_def)

lemma getHeight_default: "\<not> truthy v \<Longrightarrow> getHeight (Inr v) = Inr (JStr ''32.5px'')"
  by (simp add: getHeight_def theme_lookups)

text \<open>An example of attributes: every attribute is given and the sizes are numbers.\<close>

definition all_given :: "string \<Rightarrow> jsval" where
  "all_given k = (if k = ''dimensions'' then JObj [(''wrapper'', JNum 23), (''icon'', JNum 13)]
     else if k = ''disabled'' then JBool False else JNum 1)"

lemma all_given_given: "given all_given"
  by (auto simp: given_def sized_def all_given_def nullish_val_def)

end
