(* ===== verification/Styles_Controls.thy ===== *)
theory Styles_Controls
  imports Theme
begin

text \<open>
  The styled components of the shared controls: loader, modal, buttons, copyable values, search input and form fields
  (\<open>src/html/hyperbuddy@1.0/bundle.js\<close>, lines 352 to 1891), in the order of the
  bundle. A component is named as its variable there, with \<open>_\<close> for \<open>$\<close>.
\<close>

section \<open>Templates\<close>

definition Wrapper_v :: styled where
  "Wrapper_v = Styled (Elem ''div'') [
    Decl ''height'' [S ''100%''],
    Decl ''width'' [S ''100%''],
    Decl ''position'' [S ''fixed''],
    Decl ''z-index'' [S ''11''],
    Decl ''top'' [S ''0''],
    Decl ''left'' [S ''0''],
    Decl ''background'' [F (\<lambda>p. theme_at p [''colors'', ''view'', ''background''])]]"

definition Container_6 :: styled where
  "Container_6 = Styled (Elem ''div'') [
    Decl ''width'' [F (\<lambda>p. ternary (prop_of p ''noPosition'') (Inr (JStr ''auto'')) (Inr (JStr ''50px'')))],
    Decl ''position'' [F (\<lambda>p. ternary (prop_of p ''noPosition'') (Inr (JStr ''static'')) (ternary (prop_of p ''relative'') (Inr (JStr ''relative'')) (Inr (JStr ''fixed''))))],
    Decl ''top'' [F (\<lambda>p. ternary (js_or (prop_of p ''noPosition'') (prop_of p ''relative'')) (Inr (JStr ''auto'')) (Inr (JStr ''50%'')))],
    Decl ''left'' [F (\<lambda>p. ternary (js_or (prop_of p ''noPosition'') (prop_of p ''relative'')) (Inr (JStr ''auto'')) (Inr (JStr ''50%'')))],
    Decl ''transform'' [F (\<lambda>p. ternary (prop_of p ''noPosition'') (Inr (JStr ''none'')) (ternary (prop_of p ''relative'') (Inr (JStr ''translate(0, 0)'')) (Inr (JStr ''translate(-50%, -50%)''))))],
    Decl ''margin'' [F (\<lambda>p. ternary (prop_of p ''noPosition'') (Inr (JStr ''7.5px 0 0 0'')) (ternary (prop_of p ''relative'') (Inr (JStr ''auto'')) (Inr (JStr ''0''))))],
    Decl ''z-index'' [S ''3'']]"

definition Blade :: styled where
  "Blade = Styled (Elem ''div'') [
    Decl ''background-color'' [F (\<lambda>p. ternary (prop_of p ''noPosition'') (theme_at p [''colors'', ''font'', ''light3'']) (theme_at p [''colors'', ''loader'', ''primary'']))],
    Decl ''position'' [S ''absolute''],
    Decl ''left'' [S ''0.4629em''],
    Decl ''bottom'' [S ''0''],
    Decl ''transform-origin'' [S ''center -0.2222em''],
    Decl ''-webkit-animation'' [K ''loaderKeyFrame'', S '' 0.75s linear infinite''],
    Decl ''animation'' [K ''loaderKeyFrame'', S '' 0.75s linear infinite'']]"

definition Spinner_1 :: styled where
  "Spinner_1 = Styled (Elem ''div'') [
    Decl ''font-size'' [F (\<lambda>p. tmpl [to_string (prop_of p ''size''), Inr (JStr ''px'')])],
    Decl ''position'' [S ''relative''],
    Decl ''display'' [S ''inline-block''],
    Decl ''width'' [S ''1em''],
    Decl ''height'' [S ''1em''],
    Decl ''position'' [F (\<lambda>p. ternary (prop_of p ''noPosition'') (Inr (JStr ''relative'')) (Inr (JStr ''absolute'')))],
    Decl ''left'' [F (\<lambda>p. ternary (prop_of p ''noPosition'') (Inr (JStr ''auto'')) (Inr (JStr ''0'')))],
    Decl ''right'' [F (\<lambda>p. ternary (prop_of p ''noPosition'') (Inr (JStr ''auto'')) (Inr (JStr ''0'')))],
    Decl ''top'' [F (\<lambda>p. ternary (prop_of p ''noPosition'') (Inr (JStr ''auto'')) (Inr (JStr ''0'')))],
    Decl ''bottom'' [F (\<lambda>p. ternary (prop_of p ''noPosition'') (Inr (JStr ''auto'')) (Inr (JStr ''0'')))],
    Decl ''margin'' [F (\<lambda>p. ternary (prop_of p ''noPosition'') (Inr (JStr ''0'')) (Inr (JStr ''auto'')))],
    Rule [S ''& '', C ''Blade'', S '':nth-child(1)''] [
      Decl ''transform'' [S ''rotate(0deg)''],
      Decl ''animation-delay'' [S ''-0.6875s''],
      Decl ''height'' [F (\<lambda>p. tmpl [to_string (prop_of p ''height''), Inr (JStr ''px'')])],
      Decl ''width'' [F (\<lambda>p. tmpl [to_string (prop_of p ''width''), Inr (JStr ''px'')])]],
    Rule [S ''& '', C ''Blade'', S '':nth-child(2)''] [
      Decl ''transform'' [S ''rotate(30deg)''],
      Decl ''animation-delay'' [S ''-0.625s''],
      Decl ''height'' [F (\<lambda>p. tmpl [to_string (prop_of p ''height''), Inr (JStr ''px'')])],
      Decl ''width'' [F (\<lambda>p. tmpl [to_string (prop_of p ''width''), Inr (JStr ''px'')])]],
    Rule [S ''& '', C ''Blade'', S '':nth-child(3)''] [
      Decl ''transform'' [S ''rotate(60deg)''],
      Decl ''animation-delay'' [S ''-0.5625s''],
      Decl ''height'' [F (\<lambda>p. tmpl [to_string (prop_of p ''height''), Inr (JStr ''px'')])],
      Decl ''width'' [F (\<lambda>p. tmpl [to_string (prop_of p ''width''), Inr (JStr ''px'')])]],
    Rule [S ''& '', C ''Blade'', S '':nth-child(4)''] [
      Decl ''transform'' [S ''rotate(90deg)''],
      Decl ''animation-delay'' [S ''-0.5s''],
      Decl ''height'' [F (\<lambda>p. tmpl [to_string (prop_of p ''height''), Inr (JStr ''px'')])],
      Decl ''width'' [F (\<lambda>p. tmpl [to_string (prop_of p ''width''), Inr (JStr ''px'')])]],
    Rule [S ''& '', C ''Blade'', S '':nth-child(5)''] [
      Decl ''transform'' [S ''rotate(120deg)''],
      Decl ''animation-delay'' [S ''-0.4375s''],
      Decl ''height'' [F (\<lambda>p. tmpl [to_string (prop_of p ''height''), Inr (JStr ''px'')])],
      Decl ''width'' [F (\<lambda>p. tmpl [to_string (prop_of p ''width''), Inr (JStr ''px'')])]],
    Rule [S ''& '', C ''Blade'', S '':nth-child(6)''] [
      Decl ''transform'' [S ''rotate(150deg)''],
      Decl ''animation-delay'' [S ''-0.375s''],
      Decl ''height'' [F (\<lambda>p. tmpl [to_string (prop_of p ''height''), Inr (JStr ''px'')])],
      Decl ''width'' [F (\<lambda>p. tmpl [to_string (prop_of p ''width''), Inr (JStr ''px'')])]],
    Rule [S ''& '', C ''Blade'', S '':nth-child(7)''] [
      Decl ''transform'' [S ''rotate(180deg)''],
      Decl ''animation-delay'' [S ''-0.3125s''],
      Decl ''height'' [F (\<lambda>p. tmpl [to_string (prop_of p ''height''), Inr (JStr ''px'')])],
      Decl ''width'' [F (\<lambda>p. tmpl [to_string (prop_of p ''width''), Inr (JStr ''px'')])]],
    Rule [S ''& '', C ''Blade'', S '':nth-child(8)''] [
      Decl ''transform'' [S ''rotate(210deg)''],
      Decl ''animation-delay'' [S ''-0.25s''],
      Decl ''height'' [F (\<lambda>p. tmpl [to_string (prop_of p ''height''), Inr (JStr ''px'')])],
      Decl ''width'' [F (\<lambda>p. tmpl [to_string (prop_of p ''width''), Inr (JStr ''px'')])]],
    Rule [S ''& '', C ''Blade'', S '':nth-child(9)''] [
      Decl ''transform'' [S ''rotate(240deg)''],
      Decl ''animation-delay'' [S ''-0.1875s''],
      Decl ''height'' [F (\<lambda>p. tmpl [to_string (prop_of p ''height''), Inr (JStr ''px'')])],
      Decl ''width'' [F (\<lambda>p. tmpl [to_string (prop_of p ''width''), Inr (JStr ''px'')])]],
    Rule [S ''& '', C ''Blade'', S '':nth-child(10)''] [
      Decl ''transform'' [S ''rotate(270deg)''],
      Decl ''animation-delay'' [S ''-0.125s''],
      Decl ''height'' [F (\<lambda>p. tmpl [to_string (prop_of p ''height''), Inr (JStr ''px'')])],
      Decl ''width'' [F (\<lambda>p. tmpl [to_string (prop_of p ''width''), Inr (JStr ''px'')])]],
    Rule [S ''& '', C ''Blade'', S '':nth-child(11)''] [
      Decl ''transform'' [S ''rotate(300deg)''],
      Decl ''animation-delay'' [S ''-0.0625s''],
      Decl ''height'' [F (\<lambda>p. tmpl [to_string (prop_of p ''height''), Inr (JStr ''px'')])],
      Decl ''width'' [F (\<lambda>p. tmpl [to_string (prop_of p ''width''), Inr (JStr ''px'')])]],
    Rule [S ''& '', C ''Blade'', S '':nth-child(12)''] [
      Decl ''transform'' [S ''rotate(330deg)''],
      Decl ''animation-delay'' [S ''0s''],
      Decl ''height'' [F (\<lambda>p. tmpl [to_string (prop_of p ''height''), Inr (JStr ''px'')])],
      Decl ''width'' [F (\<lambda>p. tmpl [to_string (prop_of p ''width''), Inr (JStr ''px'')])]]]"

definition Placeholder_6 :: styled where
  "Placeholder_6 = Styled (Elem ''div'') [
    Decl ''height'' [S ''100%''],
    Decl ''width'' [S ''100%''],
    Decl ''position'' [S ''relative''],
    Decl ''background'' [F (\<lambda>p. theme_at p [''colors'', ''container'', ''alt1'', ''background''])]]"

definition MessageWrapper_1 :: styled where
  "MessageWrapper_1 = Styled (Elem ''div'') [
    Decl ''max-width'' [S ''90vw''],
    Decl ''padding'' [S ''11.5px 40px !important''],
    Decl ''position'' [S ''absolute''],
    Decl ''top'' [S ''50%''],
    Decl ''left'' [S ''50%''],
    Decl ''transform'' [S ''translate(-50%, -50%)''],
    Decl ''display'' [S ''flex''],
    Decl ''justify-content'' [S ''center''],
    Decl ''align-items'' [S ''center''],
    Decl ''gap'' [S ''20px''],
    Decl ''border'' [S ''none !important''],
    Rule [S ''span''] [
      Decl ''font-size'' [F (\<lambda>p. theme_at p [''typography'', ''size'', ''xSmall'']), S '' !important'']]]"

definition Wrapper_u :: styled where
  "Wrapper_u = Styled (Elem ''div'') [
    Decl ''display'' [S ''flex''],
    Decl ''align-items'' [S ''center''],
    Decl ''gap'' [S ''5px''],
    Decl ''height'' [S ''100%''],
    Decl ''padding'' [S ''0 7.5px 0 8.5px''],
    Decl ''background'' [F (\<lambda>p. ternary (prop_of p ''disabled'') (theme_at p [''colors'', ''button'', ''primary'', ''disabled'', ''background'']) (theme_at p [''colors'', ''button'', ''primary'', ''alt1'']))],
    Decl ''border'' [S ''1px solid '', F (\<lambda>p. comma (prop_of p ''disabled'') (theme_at p [''colors'', ''border'', ''primary'']))],
    Decl ''border-radius'' [F (\<lambda>_. styling_at [''dimensions'', ''radius'', ''primary''])],
    Rule [S ''p''] [
      Decl ''color'' [F (\<lambda>p. ternary (prop_of p ''disabled'') (theme_at p [''colors'', ''button'', ''primary'', ''disabled'', ''color'']) (theme_at p [''colors'', ''button'', ''primary'', ''color''])), S '' !important''],
      Decl ''font-size'' [F (\<lambda>p. theme_at p [''typography'', ''size'', ''xxxSmall'']), S '' !important''],
      Decl ''font-family'' [F (\<lambda>p. theme_at p [''typography'', ''family'', ''alt1'']), S '' !important''],
      Decl ''max-width'' [S ''100% !important''],
      Decl ''white-space'' [S ''nowrap''],
      Decl ''letter-spacing'' [S ''-0.15px'']],
    Rule [S ''span''] [
      Decl ''color'' [F (\<lambda>p. ternary (prop_of p ''disabled'') (theme_at p [''colors'', ''button'', ''primary'', ''disabled'', ''color'']) (theme_at p [''colors'', ''button'', ''primary'', ''color''])), S '' !important''],
      Decl ''font-size'' [F (\<lambda>p. theme_at p [''typography'', ''size'', ''xxxSmall'']), S '' !important''],
      Decl ''display'' [S ''block''],
      Decl ''white-space'' [S ''nowrap'']],
    Rule [S ''svg''] [
      Decl ''height'' [S ''11.5px !important''],
      Decl ''width'' [S ''11.5px !important''],
      Decl ''margin'' [S ''2.5px 0 0 2.5px !important''],
      Decl ''color'' [F (\<lambda>p. ternary (prop_of p ''disabled'') (theme_at p [''colors'', ''button'', ''primary'', ''disabled'', ''color'']) (theme_at p [''colors'', ''button'', ''primary'', ''color''])), S '' !important''],
      Decl ''fill'' [F (\<lambda>p. ternary (prop_of p ''disabled'') (theme_at p [''colors'', ''button'', ''primary'', ''disabled'', ''color'']) (theme_at p [''colors'', ''button'', ''primary'', ''color''])), S '' !important'']],
    Rule [S ''&:hover''] [
      Decl ''cursor'' [F (\<lambda>p. ternary (prop_of p ''disabled'') (Inr (JStr ''default'')) (Inr (JStr ''pointer'')))],
      Decl ''background'' [F (\<lambda>p. ternary (prop_of p ''disabled'') (theme_at p [''colors'', ''button'', ''primary'', ''disabled'', ''background'']) (theme_at p [''colors'', ''button'', ''primary'', ''active'', ''background'']))],
      Rule [S ''p, span''] [
        Decl ''color'' [F (\<lambda>p. ternary (prop_of p ''disabled'') (theme_at p [''colors'', ''button'', ''primary'', ''disabled'', ''color'']) (theme_at p [''colors'', ''button'', ''primary'', ''active'', ''color''])), S '' !important'']],
      Rule [S ''svg''] [
        Decl ''color'' [F (\<lambda>p. ternary (prop_of p ''disabled'') (theme_at p [''colors'', ''button'', ''primary'', ''disabled'', ''color'']) (theme_at p [''colors'', ''button'', ''primary'', ''active'', ''color''])), S '' !important''],
        Decl ''fill'' [F (\<lambda>p. ternary (prop_of p ''disabled'') (theme_at p [''colors'', ''button'', ''primary'', ''disabled'', ''color'']) (theme_at p [''colors'', ''button'', ''primary'', ''active'', ''color''])), S '' !important'']]]]"

definition Tooltip_2 :: styled where
  "Tooltip_2 = Styled (Elem ''div'') [
    Decl ''position'' [S ''absolute''],
    Decl ''z-index'' [S ''2''],
    Decl ''display'' [S ''none''],
    Decl ''white-space'' [S ''nowrap''],
    Rule [F (\<lambda>p. ternary (strict_eq (prop_of p ''position'') (Inr (JStr ''top''))) (tmpl [Inr (JStr '' bottom: 100%; left: 50%; transform: translateX(-50%); margin-bottom: 5px; '')]) (ternary (strict_eq (prop_of p ''position'') (Inr (JStr ''bottom''))) (tmpl [Inr (JStr '' top: 100%; left: 50%; transform: translateX(-50%); margin-top: 5px; '')]) (ternary (strict_eq (prop_of p ''position'') (Inr (JStr ''left''))) (tmpl [Inr (JStr '' right: 100%; top: 50%; transform: translateY(-50%); margin-right: 5px; '')]) (ternary (strict_eq (prop_of p ''position'') (Inr (JStr ''right''))) (tmpl [Inr (JStr '' left: 100%; top: 50%; transform: translateY(-50%); margin-left: 5px; '')]) (ternary (strict_eq (prop_of p ''position'') (Inr (JStr ''top-left''))) (tmpl [Inr (JStr '' bottom: 100%; left: 0; margin-bottom: 5px; '')]) (ternary (strict_eq (prop_of p ''position'') (Inr (JStr ''top-right''))) (tmpl [Inr (JStr '' bottom: 100%; right: 0; margin-bottom: 5px; '')]) (ternary (strict_eq (prop_of p ''position'') (Inr (JStr ''bottom-left''))) (tmpl [Inr (JStr '' top: 100%; left: 0; margin-top: 5px; '')]) (ternary (strict_eq (prop_of p ''position'') (Inr (JStr ''bottom-right''))) (tmpl [Inr (JStr '' top: 100%; right: 0; margin-top: 5px; '')]) (tmpl [Inr (JStr '' top: 100%; left: 50%; transform: translateX(-50%); margin-top: 5px; '')]))))))))), S '' span''] [
      Decl ''display'' [S ''block''],
      Decl ''line-height'' [S ''1.65'']]]"

definition Wrapper_t :: styled where
  "Wrapper_t = Styled (Elem ''div'') [
    Decl ''position'' [S ''relative''],
    Decl ''height'' [S ''fit-content''],
    Decl ''width'' [S ''fit-content''],
    Rule [S ''&:hover''] [
      Rule [C ''Tooltip$2''] [
        Decl ''display'' [S ''block'']]]]"

definition Primary_1 :: styled where
  "Primary_1 = Styled (Elem ''button'') [
    Decl ''height'' [F (\<lambda>p. ternary (prop_of p ''dimensions'') (tmpl [to_string (mem (prop_of p ''dimensions'') ''wrapper''), Inr (JStr ''px'')]) (Inr (JStr ''42.5px'')))],
    Decl ''width'' [F (\<lambda>p. ternary (prop_of p ''dimensions'') (tmpl [to_string (mem (prop_of p ''dimensions'') ''wrapper''), Inr (JStr ''px'')]) (Inr (JStr ''42.5px'')))],
    Decl ''display'' [S ''flex''],
    Decl ''justify-content'' [S ''center''],
    Decl ''align-items'' [S ''center''],
    Decl ''padding'' [S ''4.5px 0 0 0 !important''],
    Decl ''pointer-events'' [F (\<lambda>p. ternary (prop_of p ''disabled'') (Inr (JStr ''none'')) (Inr (JStr ''all'')))],
    Rule [S ''svg''] [
      Decl ''height'' [F (\<lambda>p. ternary (prop_of p ''dimensions'') (tmpl [to_string (mem (prop_of p ''dimensions'') ''icon''), Inr (JStr ''px'')]) (Inr (JStr ''24.5px'')))],
      Decl ''width'' [F (\<lambda>p. ternary (prop_of p ''dimensions'') (tmpl [to_string (mem (prop_of p ''dimensions'') ''icon''), Inr (JStr ''px'')]) (Inr (JStr ''24.5px'')))],
      Decl ''color'' [F (\<lambda>p. ternary (prop_of p ''disabled'') (theme_at p [''colors'', ''icon'', ''primary'', ''disabled'']) (comma (prop_of p ''active'') (theme_at p [''colors'', ''icon'', ''primary'', ''fill''])))],
      Decl ''fill'' [F (\<lambda>p. ternary (prop_of p ''disabled'') (theme_at p [''colors'', ''icon'', ''primary'', ''disabled'']) (comma (prop_of p ''active'') (theme_at p [''colors'', ''icon'', ''primary'', ''fill''])))]],
    Rule [S ''&:hover''] [
      Decl ''background'' [F (\<lambda>p. theme_at p [''colors'', ''icon'', ''primary'', ''active''])]]]"

definition Alt1_1 :: styled where
  "Alt1_1 = Styled (Extends Primary_1) [
    Decl ''background'' [F (\<lambda>p. ternary (prop_of p ''active'') (theme_at p [''colors'', ''button'', ''primary'', ''active'', ''background'']) (ternary (prop_of p ''disabled'') (theme_at p [''colors'', ''button'', ''primary'', ''disabled'', ''background'']) (theme_at p [''colors'', ''button'', ''primary'', ''background''])))],
    Decl ''border'' [S ''1px solid '', F (\<lambda>p. ternary (prop_of p ''active'') (theme_at p [''colors'', ''button'', ''primary'', ''active'', ''border'']) (ternary (prop_of p ''disabled'') (theme_at p [''colors'', ''button'', ''primary'', ''disabled'', ''border'']) (theme_at p [''colors'', ''button'', ''primary'', ''border''])))],
    Rule [S ''svg''] [
      Decl ''height'' [F (\<lambda>p. ternary (prop_of p ''dimensions'') (tmpl [to_string (mem (prop_of p ''dimensions'') ''icon''), Inr (JStr ''px'')]) (Inr (JStr ''24.5px'')))],
      Decl ''width'' [F (\<lambda>p. ternary (prop_of p ''dimensions'') (tmpl [to_string (mem (prop_of p ''dimensions'') ''icon''), Inr (JStr ''px'')]) (Inr (JStr ''24.5px'')))],
      Decl ''color'' [F (\<lambda>p. ternary (prop_of p ''active'') (theme_at p [''colors'', ''button'', ''primary'', ''active'', ''color'']) (ternary (prop_of p ''disabled'') (theme_at p [''colors'', ''button'', ''primary'', ''disabled'', ''color'']) (theme_at p [''colors'', ''button'', ''primary'', ''color''])))],
      Decl ''fill'' [F (\<lambda>p. ternary (prop_of p ''active'') (theme_at p [''colors'', ''button'', ''primary'', ''active'', ''color'']) (ternary (prop_of p ''disabled'') (theme_at p [''colors'', ''button'', ''primary'', ''disabled'', ''color'']) (theme_at p [''colors'', ''button'', ''primary'', ''color''])))]],
    Rule [S ''&:hover''] [
      Decl ''background'' [F (\<lambda>p. ternary (prop_of p ''disabled'') (theme_at p [''colors'', ''button'', ''primary'', ''disabled'', ''background'']) (theme_at p [''colors'', ''button'', ''primary'', ''active'', ''background'']))],
      Rule [S ''svg''] [
        Decl ''color'' [F (\<lambda>p. ternary (prop_of p ''active'') (theme_at p [''colors'', ''button'', ''primary'', ''active'', ''color'']) (ternary (prop_of p ''disabled'') (theme_at p [''colors'', ''button'', ''primary'', ''disabled'', ''color'']) (theme_at p [''colors'', ''button'', ''primary'', ''active'', ''color''])))],
        Decl ''fill'' [F (\<lambda>p. ternary (prop_of p ''active'') (theme_at p [''colors'', ''button'', ''primary'', ''active'', ''color'']) (ternary (prop_of p ''disabled'') (theme_at p [''colors'', ''button'', ''primary'', ''disabled'', ''color'']) (theme_at p [''colors'', ''button'', ''primary'', ''active'', ''color''])))]]]]"

definition Ghost :: styled where
  "Ghost = Styled (Extends Primary_1) [
    Decl ''background'' [S ''transparent''],
    Decl ''border'' [S ''none''],
    Decl ''border-bottom'' [S ''none''],
    Rule [S ''svg''] [
      Decl ''height'' [F (\<lambda>p. ternary (prop_of p ''dimensions'') (tmpl [to_string (mem (prop_of p ''dimensions'') ''icon''), Inr (JStr ''px'')]) (Inr (JStr ''24.5px'')))],
      Decl ''width'' [F (\<lambda>p. ternary (prop_of p ''dimensions'') (tmpl [to_string (mem (prop_of p ''dimensions'') ''icon''), Inr (JStr ''px'')]) (Inr (JStr ''24.5px'')))],
      Decl ''color'' [F (\<lambda>p. ternary (prop_of p ''active'') (theme_at p [''colors'', ''font'', ''light1'']) (ternary (prop_of p ''disabled'') (theme_at p [''colors'', ''button'', ''primary'', ''disabled'', ''color'']) (theme_at p [''colors'', ''button'', ''primary'', ''color''])))],
      Decl ''fill'' [F (\<lambda>p. ternary (prop_of p ''active'') (theme_at p [''colors'', ''font'', ''light1'']) (ternary (prop_of p ''disabled'') (theme_at p [''colors'', ''button'', ''primary'', ''disabled'', ''color'']) (theme_at p [''colors'', ''button'', ''primary'', ''color''])))]],
    Rule [S ''&:hover''] [
      Decl ''background'' [S ''transparent''],
      Decl ''border'' [S ''none''],
      Decl ''border-bottom'' [S ''none''],
      Rule [S ''svg''] [
        Decl ''color'' [F (\<lambda>p. ternary (prop_of p ''active'') (theme_at p [''colors'', ''font'', ''light1'']) (ternary (prop_of p ''disabled'') (theme_at p [''colors'', ''button'', ''primary'', ''disabled'', ''color'']) (theme_at p [''colors'', ''button'', ''primary'', ''active'', ''color''])))],
        Decl ''fill'' [F (\<lambda>p. ternary (prop_of p ''active'') (theme_at p [''colors'', ''font'', ''light1'']) (ternary (prop_of p ''disabled'') (theme_at p [''colors'', ''button'', ''primary'', ''disabled'', ''color'']) (theme_at p [''colors'', ''button'', ''primary'', ''active'', ''color''])))]]]]"

definition Wrapper_s :: styled where
  "Wrapper_s = Styled (Elem ''div'') [
    Decl ''min-height'' [S ''100vh''],
    Decl ''height'' [S ''100%''],
    Decl ''width'' [S ''100%''],
    Decl ''position'' [S ''fixed''],
    Decl ''z-index'' [S ''15''],
    Decl ''top'' [S ''0''],
    Decl ''left'' [S ''0''],
    Decl ''background'' [F (\<lambda>p. theme_at p [''colors'', ''overlay'', ''primary''])],
    Decl ''animation'' [K ''open'', S '' '', F (\<lambda>_. Inr (JStr transition2))]]"

definition Container_5 :: styled where
  "Container_5 = Styled (Elem ''div'') [
    Decl ''width'' [S ''650px''],
    Decl ''max-width'' [F (\<lambda>p. ternary (prop_of p ''noHeader'') (Inr (JStr ''100%'')) (Inr (JStr ''90vw'')))],
    Decl ''background'' [F (\<lambda>p. ternary (prop_of p ''noHeader'') (Inr (JStr ''transparent'')) (theme_at p [''colors'', ''container'', ''primary'', ''background'']))],
    Decl ''border'' [S ''1.25px solid '', F (\<lambda>p. theme_at p [''colors'', ''border'', ''primary''])],
    Decl ''border-radius'' [F (\<lambda>_. styling_at [''dimensions'', ''radius'', ''primary''])],
    Decl ''margin'' [S ''20px auto'']]"

definition Header_a :: styled where
  "Header_a = Styled (Elem ''div'') [
    Decl ''height'' [S ''65px''],
    Decl ''width'' [S ''100%''],
    Decl ''display'' [S ''flex''],
    Decl ''justify-content'' [S ''space-between''],
    Decl ''align-items'' [S ''center''],
    Decl ''padding'' [S ''0 20px'']]"

definition LT_3 :: styled where
  "LT_3 = Styled (Elem ''div'') [
    Decl ''max-width'' [S ''75%''],
    Decl ''display'' [S ''flex''],
    Decl ''align-items'' [S ''center'']]"

definition Title_3 :: styled where
  "Title_3 = Styled (Elem ''p'') [
    Decl ''color'' [F (\<lambda>p. theme_at p [''colors'', ''font'', ''primary''])],
    Decl ''font-size'' [F (\<lambda>p. theme_at p [''typography'', ''size'', ''lg''])],
    Decl ''font-weight'' [F (\<lambda>p. theme_at p [''typography'', ''weight'', ''bold''])],
    Decl ''line-height'' [S ''calc('', F (\<lambda>p. theme_at p [''typography'', ''size'', ''lg'']), S '' + 5px)''],
    Decl ''white-space'' [S ''nowrap''],
    Decl ''overflow'' [S ''hidden''],
    Decl ''text-overflow'' [S ''ellipsis''],
    Decl ''margin'' [S ''2.5px 0 0 0'']]"

definition Close_2 :: styled where
  "Close_2 = Styled (Elem ''div'') [
    Decl ''padding'' [S ''2.5px 0 0 0'']]"

definition Body_3 :: styled where
  "Body_3 = Styled (Elem ''div'') [
    Decl ''max-height'' [S ''calc(100dvh - 110px)''],
    Decl ''width'' [S ''100%''],
    Decl ''scrollbar-color'' [S ''transparent transparent'']]"

definition Wrapper_r :: styled where
  "Wrapper_r = Styled (Elem ''div'') [
    Decl ''width'' [S ''100%''],
    Decl ''display'' [S ''flex''],
    Decl ''flex-direction'' [S ''column''],
    Decl ''position'' [S ''relative'']]"

definition TWrapper :: styled where
  "TWrapper = Styled (Elem ''div'') [
    Decl ''width'' [S ''100%''],
    Decl ''display'' [S ''flex''],
    Decl ''justify-content'' [S ''space-between''],
    Decl ''align-items'' [S ''center''],
    Decl ''padding'' [S ''0 2.5px 0 0''],
    Rule [S ''button''] [
      Rule [S ''svg''] [
        Decl ''margin'' [S ''0 0 1.5px 0'']]]]"

definition Label_2 :: styled where
  "Label_2 = Styled (Elem ''label'') [
    Decl ''color'' [F (\<lambda>p. theme_at p [''colors'', ''font'', ''alt1''])],
    Decl ''font-size'' [F (\<lambda>p. theme_at p [''typography'', ''size'', ''xxSmall''])],
    Decl ''font-weight'' [F (\<lambda>p. theme_at p [''typography'', ''weight'', ''bold''])],
    Decl ''margin'' [S ''0 0 7.5px 0'']]"

definition Tooltip_1 :: styled where
  "Tooltip_1 = Styled (Elem ''div'') [
    Decl ''padding'' [S ''0 20px 20px 20px''],
    Rule [S ''p''] [
      Decl ''font-size'' [F (\<lambda>p. theme_at p [''typography'', ''size'', ''xSmall''])],
      Decl ''line-height'' [S ''1.5''],
      Decl ''color'' [F (\<lambda>p. theme_at p [''colors'', ''font'', ''primary''])]]]"

definition Input_2 :: styled where
  "Input_2 = Styled (Elem ''input'') [
    Decl ''height'' [F (\<lambda>p. ternary (prop_of p ''sm'') (styling_at [''dimensions'', ''form'', ''small'']) (styling_at [''dimensions'', ''form'', ''max'']))],
    Decl ''color'' [F (\<lambda>p. ternary (prop_of p ''disabled'') (theme_at p [''colors'', ''button'', ''primary'', ''disabled'', ''color'']) (theme_at p [''colors'', ''font'', ''primary'']))],
    Decl ''font-family'' [F (\<lambda>p. theme_at p [''typography'', ''family'', ''primary''])],
    Decl ''font-size'' [F (\<lambda>p. theme_at p [''typography'', ''size'', ''small''])],
    Decl ''letter-spacing'' [S ''0.15px''],
    Decl ''background'' [F (\<lambda>p. theme_at p [''colors'', ''form'', ''background''])],
    Decl ''border'' [S ''1px solid '', F (\<lambda>p. ternary (prop_of p ''invalid'') (theme_at p [''colors'', ''form'', ''invalid'', ''outline'']) (theme_at p [''colors'', ''form'', ''border'']))],
    Decl ''border-radius'' [F (\<lambda>_. styling_at [''dimensions'', ''radius'', ''primary''])],
    Rule [S ''&:focus''] [
      Decl ''outline'' [S ''0''],
      Decl ''border'' [S ''1px solid '', F (\<lambda>p. ternary (prop_of p ''invalid'') (theme_at p [''colors'', ''form'', ''invalid'', ''outline'']) (theme_at p [''colors'', ''form'', ''default'', ''outline'']))],
      Decl ''outline'' [S ''0.5px solid '', F (\<lambda>p. ternary (prop_of p ''invalid'') (theme_at p [''colors'', ''form'', ''invalid'', ''outline'']) (theme_at p [''colors'', ''form'', ''default'', ''outline'']))],
      Decl ''transition'' [S ''box-shadow, border, outline 225ms ease-in-out'']],
    Rule [S ''&:disabled''] [
      Decl ''background'' [F (\<lambda>p. theme_at p [''colors'', ''form'', ''disabled'', ''background''])],
      Decl ''color'' [F (\<lambda>p. theme_at p [''colors'', ''form'', ''disabled'', ''label''])],
      Decl ''box-shadow'' [S ''none''],
      Decl ''border'' [S ''1px solid '', F (\<lambda>p. theme_at p [''colors'', ''form'', ''disabled'', ''border''])]]]"

definition EndTextContainer :: styled where
  "EndTextContainer = Styled (Elem ''div'') [
    Decl ''height'' [F (\<lambda>p. ternary (prop_of p ''sm'') (styling_at [''dimensions'', ''form'', ''small'']) (tmpl [Inr (JStr ''calc(''), styling_at [''dimensions'', ''form'', ''max''], Inr (JStr '' - 7.5px)'')]))],
    Decl ''height'' [S ''100%''],
    Decl ''max-width'' [S ''100px''],
    Decl ''position'' [S ''absolute''],
    Decl ''top'' [F (\<lambda>p. ternary (prop_of p ''sm'') (Inr (JStr ''42.5%'')) (Inr (JStr ''37.5%'')))],
    Decl ''right'' [S ''47.5px''],
    Decl ''transform'' [S ''translate(0, -50%)''],
    Decl ''display'' [S ''flex''],
    Decl ''justify-content'' [S ''center''],
    Decl ''align-items'' [S ''center''],
    Decl ''overflow-x'' [S ''hidden''],
    Decl ''text-overflow'' [S ''ellipsis''],
    Decl ''white-space'' [S ''nowrap''],
    Decl ''background'' [S ''transparent'']]"

definition EndText :: styled where
  "EndText = Styled (Elem ''span'') [
    Decl ''color'' [F (\<lambda>p. theme_at p [''colors'', ''font'', ''primary'', ''alt4''])],
    Decl ''font-size'' [F (\<lambda>p. ternary (prop_of p ''sm'') (theme_at p [''typography'', ''size'', ''small'']) (Inr (JStr ''19px'')))],
    Decl ''font-weight'' [F (\<lambda>p. theme_at p [''typography'', ''weight'', ''regular''])],
    Decl ''width'' [S ''100%'']]"

definition ErrorContainer_1 :: styled where
  "ErrorContainer_1 = Styled (Elem ''div'') [
    Decl ''margin'' [S ''8.5px 0 0 0''],
    Decl ''height'' [S ''25px''],
    Decl ''overflow-x'' [S ''hidden''],
    Decl ''text-overflow'' [S ''ellipsis''],
    Decl ''white-space'' [S ''nowrap'']]"

definition Error_2 :: styled where
  "Error_2 = Styled (Elem ''span'') [
    Decl ''font-size'' [F (\<lambda>p. theme_at p [''typography'', ''size'', ''xxSmall''])],
    Decl ''font-weight'' [F (\<lambda>p. theme_at p [''typography'', ''weight'', ''bold''])],
    Decl ''border-left'' [S ''2.75px solid '', F (\<lambda>p. theme_at p [''colors'', ''warning'', ''primary''])],
    Decl ''padding-left'' [S ''5px'']]"

definition Dropdown_1 :: styled where
  "Dropdown_1 = Styled (Elem ''div'') [
    Decl ''background'' [F (\<lambda>p. theme_at p [''colors'', ''container'', ''primary'', ''background''])],
    Decl ''border-radius'' [F (\<lambda>_. styling_at [''dimensions'', ''radius'', ''primary''])],
    Decl ''z-index'' [S ''999999''],
    Decl ''overflow'' [S ''hidden''],
    Decl ''outline'' [S ''0''],
    Decl ''outline'' [S ''0.5px solid '', F (\<lambda>p. theme_at p [''colors'', ''form'', ''default'', ''outline''])]]"

definition Option :: styled where
  "Option = Styled (Elem ''div'') [
    Decl ''padding'' [S ''10px 12.5px''],
    Decl ''cursor'' [S ''pointer''],
    Decl ''font-size'' [F (\<lambda>p. theme_at p [''typography'', ''size'', ''xSmall''])],
    Decl ''font-family'' [F (\<lambda>p. theme_at p [''typography'', ''family'', ''primary''])],
    Decl ''color'' [F (\<lambda>p. theme_at p [''colors'', ''font'', ''primary''])],
    Decl ''display'' [S ''flex''],
    Decl ''justify-content'' [S ''space-between''],
    Decl ''align-items'' [S ''center''],
    Decl ''background'' [F (\<lambda>p. ternary (prop_of p ''isSelected'') (theme_at p [''colors'', ''container'', ''alt2'', ''background'']) (Inr (JStr ''transparent'')))],
    Rule [S ''&:hover''] [
      Decl ''background'' [F (\<lambda>p. theme_at p [''colors'', ''container'', ''alt1'', ''background''])]]]"

definition TabHint :: styled where
  "TabHint = Styled (Elem ''span'') [
    Decl ''background'' [F (\<lambda>p. theme_at p [''colors'', ''container'', ''alt1'', ''background''])],
    Decl ''color'' [F (\<lambda>p. theme_at p [''colors'', ''font'', ''alt1''])],
    Decl ''border'' [S ''1px solid '', F (\<lambda>p. theme_at p [''colors'', ''border'', ''primary''])],
    Decl ''padding'' [S ''2px 6px''],
    Decl ''font-size'' [S ''10px''],
    Decl ''font-weight'' [S ''bold''],
    Decl ''text-transform'' [S ''uppercase''],
    Decl ''letter-spacing'' [S ''0.5px'']]"

definition Wrapper_q :: styled where
  "Wrapper_q = Styled (Elem ''div'') [
    Decl ''width'' [S ''100%''],
    Decl ''position'' [S ''relative'']]"

definition InputWrapper_2 :: styled where
  "InputWrapper_2 = Styled (Elem ''div'') [
    Decl ''width'' [S ''100%''],
    Decl ''position'' [S ''relative''],
    Rule [S ''input''] [
      Decl ''background'' [S ''transparent''],
      Decl ''padding'' [S ''10px 10px 10px 43.5px !important''],
      Decl ''height'' [F (\<lambda>_. styling_at [''dimensions'', ''form'', ''small'']), S '' !important''],
      Decl ''border'' [S ''1px solid '', F (\<lambda>p. ternary (strict_eq (prop_of p ''cacheStatus'') (Inr (JStr ''success''))) (theme_at p [''colors'', ''border'', ''primary'']) (ternary (strict_eq (prop_of p ''cacheStatus'') (Inr (JStr ''error''))) (theme_at p [''colors'', ''form'', ''invalid'', ''outline'']) (theme_at p [''colors'', ''border'', ''primary'']))), S '' !important'']],
    Rule [S ''svg''] [
      Decl ''height'' [S ''15px''],
      Decl ''width'' [S ''15px''],
      Decl ''color'' [F (\<lambda>p. theme_at p [''colors'', ''font'', ''alt1''])],
      Decl ''fill'' [F (\<lambda>p. theme_at p [''colors'', ''font'', ''alt1''])],
      Decl ''position'' [S ''absolute''],
      Decl ''z-index'' [S ''1''],
      Decl ''top'' [S ''11.5px''],
      Decl ''left'' [S ''14.5px'']]]"

definition SubmitWrapper :: styled where
  "SubmitWrapper = Styled (Elem ''div'') [
    Decl ''position'' [S ''absolute''],
    Decl ''top'' [S ''2.5px''],
    Decl ''right'' [S ''4.5px'']]"

definition Wrapper_p :: styled where
  "Wrapper_p = Styled (Elem ''div'') [
    Decl ''min-height'' [F (\<lambda>p. tmpl [to_string (mem (prop_of p ''dimensions'') ''wrapper''), Inr (JStr ''px'')])],
    Decl ''min-width'' [F (\<lambda>p. tmpl [to_string (mem (prop_of p ''dimensions'') ''wrapper''), Inr (JStr ''px'')])],
    Decl ''height'' [F (\<lambda>p. tmpl [to_string (mem (prop_of p ''dimensions'') ''wrapper''), Inr (JStr ''px'')])],
    Decl ''width'' [F (\<lambda>p. tmpl [to_string (mem (prop_of p ''dimensions'') ''wrapper''), Inr (JStr ''px'')])],
    Decl ''background'' [F (\<lambda>p. ternary (prop_of p ''hasOwner'') (theme_at p [''colors'', ''container'', ''primary'', ''background'']) (theme_at p [''colors'', ''icon'', ''alt1'', ''fill'']))],
    Decl ''background'' [S ''transparent''],
    Decl ''border'' [S ''1px solid '', F (\<lambda>p. theme_at p [''colors'', ''border'', ''primary''])],
    Decl ''border-radius'' [F (\<lambda>_. styling_at [''dimensions'', ''radius'', ''circle''])],
    Decl ''overflow'' [S ''hidden''],
    Decl ''display'' [S ''flex''],
    Decl ''justify-content'' [S ''center''],
    Decl ''align-items'' [S ''center''],
    Decl ''position'' [S ''relative''],
    Rule [S ''img''] [
      Decl ''height'' [S ''100%''],
      Decl ''width'' [S ''100%''],
      Decl ''object-fit'' [S ''cover'']],
    Rule [S ''svg''] [
      Decl ''min-height'' [F (\<lambda>p. tmpl [to_string (mem (prop_of p ''dimensions'') ''icon''), Inr (JStr ''px'')])],
      Decl ''min-width'' [F (\<lambda>p. tmpl [to_string (mem (prop_of p ''dimensions'') ''icon''), Inr (JStr ''px'')])],
      Decl ''height'' [F (\<lambda>p. tmpl [to_string (mem (prop_of p ''dimensions'') ''icon''), Inr (JStr ''px'')])],
      Decl ''width'' [F (\<lambda>p. tmpl [to_string (mem (prop_of p ''dimensions'') ''icon''), Inr (JStr ''px'')])],
      Decl ''padding'' [S ''2.5px 0 0 0px''],
      Decl ''color'' [F (\<lambda>p. theme_at p [''colors'', ''font'', ''primary''])],
      Decl ''fill'' [F (\<lambda>p. theme_at p [''colors'', ''font'', ''primary''])]],
    Decl ''pointer-events'' [S ''none''],
    Rule [S ''&:hover''] [
      Decl ''cursor'' [S ''default'']],
    Rule [S ''&:focus''] [
      Decl ''opacity'' [S ''1'']],
    Mixin (\<lambda>p. ternary (prop_of p ''hasCallback'') (tmpl [Inr (JStr ('' pointer-events: all; ::after { content: '' @ [CHR 0x22, CHR 0x22] @ ''; position: absolute; height: 100%; width: 100%; top: 0; left: 0; right: 0; bottom: 0; background-color: '')), theme_at p [''colors'', ''overlay'', ''alt1''], Inr (JStr ''; opacity: 0; transition: all 100ms; } &:hover::after { opacity: 1; } &:focus::after { opacity: 1; } &:hover { cursor: pointer; } '')]) (Inr (JStr [])))]"

definition Tooltip :: styled where
  "Tooltip = Styled (Elem ''div'') [
    Decl ''position'' [S ''absolute''],
    Decl ''top'' [F (\<lambda>p. ternary (prop_of p ''useBottom'') (Inr (JStr ''auto'')) (Inr (JStr ''-32.5px'')))],
    Decl ''bottom'' [F (\<lambda>p. ternary (prop_of p ''useBottom'') (Inr (JStr ''-32.5px'')) (Inr (JStr ''auto'')))],
    Decl ''left'' [S ''50%''],
    Decl ''transform'' [S ''translate(-50%, 0)''],
    Decl ''z-index'' [S ''2''],
    Decl ''display'' [S ''none'']]"

definition Wrapper_o :: styled where
  "Wrapper_o = Styled (Elem ''div'') [
    Decl ''position'' [S ''relative''],
    Decl ''width'' [S ''fit-content''],
    Rule [S ''&:hover''] [
      Rule [C ''Tooltip''] [
        Decl ''display'' [S ''block'']]],
    Rule [S ''.info''] [
      Decl ''padding'' [S ''0px 10px 3.5px 10px !important'']]]"

definition Primary :: styled where
  "Primary = Styled (Elem ''button'') [
    Decl ''position'' [S ''relative''],
    Decl ''background'' [F (\<lambda>p. ternary (prop_of p ''warning'') (theme_at p [''colors'', ''warning'', ''primary'']) (ternary (prop_of p ''active'') (theme_at p [''colors'', ''button'', ''primary'', ''active'', ''background'']) (theme_at p [''colors'', ''button'', ''primary'', ''background''])))],
    Decl ''min-height'' [F (\<lambda>p. getHeight (prop_of p ''height''))],
    Decl ''height'' [F (\<lambda>p. getHeight (prop_of p ''height''))],
    Decl ''min-width'' [F (\<lambda>p. getWidth (prop_of p ''noMinWidth'') (prop_of p ''width'') (prop_of p ''fullWidth''))],
    Decl ''width'' [F (\<lambda>p. getWidth (prop_of p ''noMinWidth'') (prop_of p ''width'') (prop_of p ''fullWidth''))],
    Decl ''max-width'' [F (\<lambda>p. ternary (prop_of p ''useMaxWidth'') (styling_at [''dimensions'', ''button'', ''width'']) (Inr (JStr ''100%'')))],
    Decl ''overflow'' [S ''hidden''],
    Decl ''text-overflow'' [S ''ellipsis''],
    Decl ''padding'' [S ''0 17.5px''],
    Decl ''display'' [S ''flex''],
    Decl ''align-items'' [S ''center''],
    Decl ''justify-content'' [S ''center''],
    Decl ''border'' [S ''1px solid '', F (\<lambda>p. ternary (prop_of p ''warning'') (theme_at p [''colors'', ''warning'', ''primary'']) (ternary (prop_of p ''active'') (theme_at p [''colors'', ''button'', ''primary'', ''active'', ''border'']) (theme_at p [''colors'', ''button'', ''primary'', ''border''])))],
    Rule [S ''&:hover''] [
      Decl ''background'' [F (\<lambda>p. ternary (prop_of p ''warning'') (theme_at p [''colors'', ''warning'', ''alt1'']) (theme_at p [''colors'', ''button'', ''primary'', ''active'', ''background'']))],
      Decl ''border'' [S ''1px solid '', F (\<lambda>p. ternary (prop_of p ''warning'') (theme_at p [''colors'', ''warning'', ''alt1'']) (theme_at p [''colors'', ''button'', ''primary'', ''active'', ''border'']))],
      Rule [S ''span''] [
        Decl ''color'' [F (\<lambda>p. ternary (prop_of p ''warning'') (theme_at p [''colors'', ''font'', ''light1'']) (theme_at p [''colors'', ''button'', ''primary'', ''active'', ''color''])), S '' !important'']],
      Rule [S ''svg''] [
        Decl ''fill'' [F (\<lambda>p. ternary (prop_of p ''warning'') (theme_at p [''colors'', ''font'', ''light1'']) (theme_at p [''colors'', ''button'', ''primary'', ''active'', ''color''])), S '' !important''],
        Decl ''color'' [F (\<lambda>p. ternary (prop_of p ''warning'') (theme_at p [''colors'', ''font'', ''light1'']) (theme_at p [''colors'', ''button'', ''primary'', ''active'', ''color''])), S '' !important'']]],
    Rule [S ''&:focus''] [
      Decl ''background'' [F (\<lambda>p. ternary (prop_of p ''warning'') (theme_at p [''colors'', ''warning'', ''alt1'']) (theme_at p [''colors'', ''button'', ''primary'', ''active'', ''background'']))],
      Decl ''border'' [S ''1px solid '', F (\<lambda>p. ternary (prop_of p ''warning'') (theme_at p [''colors'', ''warning'', ''alt1'']) (theme_at p [''colors'', ''button'', ''primary'', ''active'', ''border'']))],
      Rule [S ''span''] [
        Decl ''color'' [F (\<lambda>p. ternary (prop_of p ''warning'') (theme_at p [''colors'', ''font'', ''light1'']) (theme_at p [''colors'', ''button'', ''primary'', ''active'', ''color''])), S '' !important'']],
      Rule [S ''svg''] [
        Decl ''fill'' [F (\<lambda>p. ternary (prop_of p ''warning'') (theme_at p [''colors'', ''font'', ''light1'']) (theme_at p [''colors'', ''button'', ''primary'', ''active'', ''color''])), S '' !important''],
        Decl ''color'' [F (\<lambda>p. ternary (prop_of p ''warning'') (theme_at p [''colors'', ''font'', ''light1'']) (theme_at p [''colors'', ''button'', ''primary'', ''active'', ''color''])), S '' !important'']]],
    Rule [S ''&:disabled''] [
      Decl ''background'' [F (\<lambda>p. theme_at p [''colors'', ''button'', ''primary'', ''disabled'', ''background''])],
      Decl ''border'' [S ''1px solid '', F (\<lambda>p. theme_at p [''colors'', ''button'', ''primary'', ''disabled'', ''border''])],
      Rule [S ''span''] [
        Decl ''color'' [F (\<lambda>p. theme_at p [''colors'', ''button'', ''primary'', ''disabled'', ''color'']), S '' !important'']],
      Rule [S ''svg''] [
        Decl ''fill'' [F (\<lambda>p. theme_at p [''colors'', ''button'', ''primary'', ''disabled'', ''color'']), S '' !important''],
        Decl ''color'' [F (\<lambda>p. theme_at p [''colors'', ''button'', ''primary'', ''disabled'', ''color'']), S '' !important'']]],
    Rule [S ''span''] [
      Decl ''width'' [S ''fit-content''],
      Decl ''text-overflow'' [S ''ellipsis''],
      Decl ''overflow'' [S ''hidden''],
      Decl ''font-size'' [F (\<lambda>p. theme_at p [''typography'', ''size'', ''xxSmall'']), S '' !important''],
      Decl ''font-weight'' [F (\<lambda>p. theme_at p [''typography'', ''weight'', ''bold'']), S '' !important''],
      Decl ''font-family'' [F (\<lambda>p. theme_at p [''typography'', ''family'', ''primary'']), S '' !important''],
      Decl ''letter-spacing'' [S ''0.5px''],
      Decl ''color'' [F (\<lambda>p. ternary (prop_of p ''warning'') (theme_at p [''colors'', ''font'', ''light1'']) (ternary (prop_of p ''active'') (theme_at p [''colors'', ''button'', ''primary'', ''active'', ''color'']) (theme_at p [''colors'', ''button'', ''primary'', ''color'']))), S '' !important'']]]"

definition IconPrimary :: styled where
  "IconPrimary = Styled (Elem ''div'') [
    Rule [S ''svg''] [
      Decl ''height'' [S ''15.5px''],
      Decl ''width'' [S ''15.5px''],
      Decl ''padding'' [S ''2px 0 0 0''],
      Decl ''margin'' [F (\<lambda>p. ternary (prop_of p ''leftAlign'') (Inr (JStr ''1px 8px 0 0'')) (Inr (JStr ''2.5px 0 0 9.5px'')))],
      Decl ''color'' [F (\<lambda>p. ternary (prop_of p ''warning'') (theme_at p [''colors'', ''font'', ''light1'']) (ternary (prop_of p ''disabled'') (theme_at p [''colors'', ''button'', ''primary'', ''disabled'', ''color'']) (ternary (prop_of p ''active'') (theme_at p [''colors'', ''button'', ''primary'', ''active'', ''color'']) (theme_at p [''colors'', ''button'', ''primary'', ''color'']))))],
      Decl ''fill'' [F (\<lambda>p. ternary (prop_of p ''warning'') (theme_at p [''colors'', ''font'', ''light1'']) (ternary (prop_of p ''disabled'') (theme_at p [''colors'', ''button'', ''primary'', ''disabled'', ''color'']) (ternary (prop_of p ''active'') (theme_at p [''colors'', ''button'', ''primary'', ''active'', ''color'']) (theme_at p [''colors'', ''button'', ''primary'', ''color'']))))]]]"

definition Alt1 :: styled where
  "Alt1 = Styled (Extends Primary) [
    Decl ''background'' [F (\<lambda>p. ternary (prop_of p ''active'') (theme_at p [''colors'', ''button'', ''alt1'', ''active'', ''background'']) (theme_at p [''colors'', ''button'', ''alt1'', ''background'']))],
    Decl ''border'' [S ''1px solid '', F (\<lambda>p. ternary (prop_of p ''active'') (theme_at p [''colors'', ''button'', ''alt1'', ''active'', ''border'']) (theme_at p [''colors'', ''button'', ''alt1'', ''border'']))],
    Rule [S ''&:hover''] [
      Decl ''background'' [F (\<lambda>p. theme_at p [''colors'', ''button'', ''alt1'', ''active'', ''background''])],
      Decl ''border'' [S ''1px solid '', F (\<lambda>p. theme_at p [''colors'', ''button'', ''alt1'', ''active'', ''border''])],
      Rule [S ''span''] [
        Decl ''color'' [F (\<lambda>p. theme_at p [''colors'', ''button'', ''alt1'', ''active'', ''color'']), S '' !important'']],
      Rule [S ''svg''] [
        Decl ''fill'' [F (\<lambda>p. theme_at p [''colors'', ''button'', ''alt1'', ''active'', ''color'']), S '' !important''],
        Decl ''color'' [F (\<lambda>p. theme_at p [''colors'', ''button'', ''alt1'', ''active'', ''color'']), S '' !important'']]],
    Rule [S ''&:focus''] [
      Decl ''background'' [F (\<lambda>p. comma (prop_of p ''active'') (theme_at p [''colors'', ''button'', ''alt1'', ''active'', ''background'']))],
      Decl ''border'' [S ''1px solid '', F (\<lambda>p. theme_at p [''colors'', ''button'', ''alt1'', ''active'', ''border''])],
      Rule [S ''span''] [
        Decl ''color'' [F (\<lambda>p. theme_at p [''colors'', ''button'', ''alt1'', ''active'', ''color'']), S '' !important'']],
      Rule [S ''svg''] [
        Decl ''fill'' [F (\<lambda>p. theme_at p [''colors'', ''button'', ''alt1'', ''active'', ''color'']), S '' !important''],
        Decl ''color'' [F (\<lambda>p. theme_at p [''colors'', ''button'', ''alt1'', ''active'', ''color'']), S '' !important'']]],
    Rule [S ''&:disabled''] [
      Decl ''background'' [F (\<lambda>p. theme_at p [''colors'', ''button'', ''alt1'', ''disabled'', ''background''])],
      Decl ''border'' [S ''1px solid '', F (\<lambda>p. theme_at p [''colors'', ''button'', ''alt1'', ''disabled'', ''border''])],
      Rule [S ''span''] [
        Decl ''color'' [F (\<lambda>p. theme_at p [''colors'', ''button'', ''alt1'', ''disabled'', ''color'']), S '' !important'']],
      Rule [S ''svg''] [
        Decl ''fill'' [F (\<lambda>p. theme_at p [''colors'', ''button'', ''alt1'', ''disabled'', ''color'']), S '' !important''],
        Decl ''color'' [F (\<lambda>p. theme_at p [''colors'', ''button'', ''alt1'', ''disabled'', ''color'']), S '' !important'']]],
    Rule [S ''span''] [
      Decl ''width'' [S ''fit-content''],
      Decl ''text-overflow'' [S ''ellipsis''],
      Decl ''overflow'' [S ''hidden''],
      Decl ''color'' [F (\<lambda>p. theme_at p [''colors'', ''button'', ''alt1'', ''color'']), S '' !important'']]]"

definition IconAlt1 :: styled where
  "IconAlt1 = Styled (Extends IconPrimary) [
    Rule [S ''svg''] [
      Decl ''color'' [F (\<lambda>p. ternary (prop_of p ''disabled'') (theme_at p [''colors'', ''button'', ''alt1'', ''disabled'', ''color'']) (ternary (prop_of p ''active'') (theme_at p [''colors'', ''button'', ''alt1'', ''active'', ''color'']) (theme_at p [''colors'', ''button'', ''alt1'', ''color''])))]]]"

definition Alt2 :: styled where
  "Alt2 = Styled (Extends Alt1) [
    Decl ''height'' [S ''fit-content''],
    Decl ''min-height'' [S ''0''],
    Decl ''width'' [S ''fit-content''],
    Decl ''min-width'' [S ''0''],
    Decl ''padding'' [S ''0''],
    Decl ''background'' [S ''transparent !important''],
    Decl ''border'' [S ''none !important''],
    Decl ''border-radius'' [F (\<lambda>_. styling_at [''dimensions'', ''radius'', ''primary''])],
    Rule [S ''&:hover''] [
      Rule [S ''span''] [
        Decl ''color'' [F (\<lambda>p. theme_at p [''colors'', ''button'', ''alt2'', ''active'', ''color'']), S '' !important'']],
      Rule [S ''svg''] [
        Decl ''fill'' [F (\<lambda>p. theme_at p [''colors'', ''button'', ''alt2'', ''active'', ''color'']), S '' !important''],
        Decl ''color'' [F (\<lambda>p. theme_at p [''colors'', ''button'', ''alt2'', ''active'', ''color'']), S '' !important'']]],
    Rule [S ''&:focus''] [
      Rule [S ''span''] [
        Decl ''color'' [F (\<lambda>p. theme_at p [''colors'', ''button'', ''alt2'', ''active'', ''color'']), S '' !important'']],
      Rule [S ''svg''] [
        Decl ''fill'' [F (\<lambda>p. theme_at p [''colors'', ''button'', ''alt2'', ''active'', ''color'']), S '' !important''],
        Decl ''color'' [F (\<lambda>p. theme_at p [''colors'', ''button'', ''alt2'', ''active'', ''color'']), S '' !important'']]],
    Rule [S ''&:disabled''] [
      Decl ''background'' [F (\<lambda>p. theme_at p [''colors'', ''button'', ''alt2'', ''disabled'', ''background''])],
      Decl ''border'' [S ''1px solid '', F (\<lambda>p. theme_at p [''colors'', ''button'', ''alt2'', ''disabled'', ''border''])],
      Rule [S ''span''] [
        Decl ''color'' [F (\<lambda>p. theme_at p [''colors'', ''button'', ''alt2'', ''disabled'', ''color'']), S '' !important'']],
      Rule [S ''svg''] [
        Decl ''fill'' [F (\<lambda>p. theme_at p [''colors'', ''button'', ''alt2'', ''disabled'', ''color'']), S '' !important''],
        Decl ''color'' [F (\<lambda>p. theme_at p [''colors'', ''button'', ''alt2'', ''disabled'', ''color'']), S '' !important'']]],
    Rule [S ''span''] [
      Decl ''width'' [S ''fit-content''],
      Decl ''text-overflow'' [S ''ellipsis''],
      Decl ''overflow'' [S ''hidden''],
      Decl ''font-size'' [F (\<lambda>p. theme_at p [''typography'', ''size'', ''xxSmall'']), S '' !important''],
      Decl ''font-weight'' [F (\<lambda>p. theme_at p [''typography'', ''weight'', ''bold'']), S '' !important''],
      Decl ''text-decoration'' [S ''underline''],
      Decl ''text-decoration-thickness'' [S ''1.25px''],
      Decl ''color'' [F (\<lambda>p. ternary (prop_of p ''active'') (theme_at p [''colors'', ''button'', ''alt2'', ''active'', ''color'']) (theme_at p [''colors'', ''button'', ''alt2'', ''color''])), S '' !important'']]]"

definition IconAlt2 :: styled where
  "IconAlt2 = Styled (Extends IconAlt1) [
    Rule [S ''svg''] [
      Decl ''margin'' [F (\<lambda>p. ternary (prop_of p ''leftAlign'') (Inr (JStr ''3.5px 3.5px 0 0'')) (Inr (JStr ''3.5px 0 0 3.5px'')))],
      Decl ''color'' [F (\<lambda>p. ternary (prop_of p ''disabled'') (theme_at p [''colors'', ''button'', ''alt2'', ''disabled'', ''color'']) (ternary (prop_of p ''active'') (theme_at p [''colors'', ''button'', ''alt2'', ''active'', ''color'']) (theme_at p [''colors'', ''button'', ''alt2'', ''color''])))]]]"

definition Alt3 :: styled where
  "Alt3 = Styled (Extends Primary) [
    Decl ''min-height'' [S ''25px !important''],
    Decl ''height'' [S ''25px !important''],
    Decl ''padding'' [S ''4.5px 20px !important''],
    Decl ''border-radius'' [F (\<lambda>_. styling_at [''dimensions'', ''radius'', ''primary''])],
    Decl ''background'' [F (\<lambda>p. ternary (prop_of p ''warning'') (theme_at p [''colors'', ''warning'', ''primary'']) (ternary (prop_of p ''active'') (theme_at p [''colors'', ''button'', ''primary'', ''active'', ''background'']) (theme_at p [''colors'', ''button'', ''primary'', ''background''])))],
    Decl ''border'' [S ''1px solid '', F (\<lambda>p. ternary (prop_of p ''warning'') (theme_at p [''colors'', ''warning'', ''primary'']) (comma (prop_of p ''active'') (theme_at p [''colors'', ''button'', ''primary'', ''border''])))],
    Rule [S ''span''] [
      Decl ''font-size'' [F (\<lambda>p. theme_at p [''typography'', ''size'', ''xxSmall'']), S '' !important''],
      Decl ''font-weight'' [F (\<lambda>p. theme_at p [''typography'', ''weight'', ''bold'']), S '' !important''],
      Decl ''font-family'' [F (\<lambda>p. theme_at p [''typography'', ''family'', ''primary'']), S '' !important''],
      Decl ''letter-spacing'' [S ''0.35px''],
      Decl ''color'' [F (\<lambda>p. ternary (prop_of p ''warning'') (theme_at p [''colors'', ''font'', ''light1'']) (ternary (prop_of p ''active'') (theme_at p [''colors'', ''button'', ''primary'', ''active'', ''color'']) (theme_at p [''colors'', ''button'', ''primary'', ''color'']))), S '' !important'']],
    Rule [S ''&:hover''] [
      Decl ''background'' [F (\<lambda>p. ternary (prop_of p ''warning'') (theme_at p [''colors'', ''warning'', ''alt1'']) (theme_at p [''colors'', ''button'', ''primary'', ''active'', ''background'']))],
      Decl ''border'' [S ''1px solid '', F (\<lambda>p. ternary (prop_of p ''warning'') (theme_at p [''colors'', ''warning'', ''alt1'']) (theme_at p [''colors'', ''button'', ''primary'', ''active'', ''border'']))],
      Rule [S ''span''] [
        Decl ''color'' [F (\<lambda>p. ternary (prop_of p ''warning'') (theme_at p [''colors'', ''font'', ''light1'']) (theme_at p [''colors'', ''button'', ''primary'', ''active'', ''color''])), S '' !important'']],
      Rule [S ''svg''] [
        Decl ''fill'' [F (\<lambda>p. ternary (prop_of p ''warning'') (theme_at p [''colors'', ''font'', ''light1'']) (theme_at p [''colors'', ''button'', ''primary'', ''active'', ''color''])), S '' !important''],
        Decl ''color'' [F (\<lambda>p. ternary (prop_of p ''warning'') (theme_at p [''colors'', ''font'', ''light1'']) (theme_at p [''colors'', ''button'', ''primary'', ''active'', ''color''])), S '' !important'']]],
    Rule [S ''&:focus''] [
      Decl ''background'' [F (\<lambda>p. ternary (prop_of p ''warning'') (theme_at p [''colors'', ''warning'', ''alt1'']) (theme_at p [''colors'', ''button'', ''primary'', ''active'', ''background'']))],
      Decl ''border'' [S ''1px solid '', F (\<lambda>p. ternary (prop_of p ''warning'') (theme_at p [''colors'', ''warning'', ''alt1'']) (theme_at p [''colors'', ''button'', ''primary'', ''active'', ''border'']))],
      Rule [S ''span''] [
        Decl ''color'' [F (\<lambda>p. ternary (prop_of p ''warning'') (theme_at p [''colors'', ''font'', ''light1'']) (theme_at p [''colors'', ''button'', ''primary'', ''active'', ''color''])), S '' !important'']],
      Rule [S ''svg''] [
        Decl ''fill'' [F (\<lambda>p. ternary (prop_of p ''warning'') (theme_at p [''colors'', ''font'', ''light1'']) (theme_at p [''colors'', ''button'', ''primary'', ''active'', ''color''])), S '' !important''],
        Decl ''color'' [F (\<lambda>p. ternary (prop_of p ''warning'') (theme_at p [''colors'', ''font'', ''light1'']) (theme_at p [''colors'', ''button'', ''primary'', ''active'', ''color''])), S '' !important'']]],
    Rule [S ''&:disabled''] [
      Decl ''background'' [F (\<lambda>p. theme_at p [''colors'', ''button'', ''primary'', ''disabled'', ''background''])],
      Decl ''border'' [S ''1px solid '', F (\<lambda>p. theme_at p [''colors'', ''button'', ''primary'', ''disabled'', ''border''])],
      Rule [S ''span''] [
        Decl ''color'' [F (\<lambda>p. theme_at p [''colors'', ''button'', ''primary'', ''disabled'', ''color'']), S '' !important'']],
      Rule [S ''svg''] [
        Decl ''fill'' [F (\<lambda>p. theme_at p [''colors'', ''button'', ''primary'', ''disabled'', ''color'']), S '' !important''],
        Decl ''color'' [F (\<lambda>p. theme_at p [''colors'', ''button'', ''primary'', ''disabled'', ''color'']), S '' !important'']]]]"

definition IconAlt3 :: styled where
  "IconAlt3 = Styled (Extends IconPrimary) [
    Rule [S ''svg''] [
      Decl ''height'' [S ''13.5px''],
      Decl ''width'' [S ''13.5px''],
      Decl ''margin'' [F (\<lambda>p. ternary (prop_of p ''leftAlign'') (Inr (JStr ''2.5px 6.5px 0 0'')) (Inr (JStr ''2.5px 0 0 6.5px'')))],
      Decl ''color'' [F (\<lambda>p. ternary (prop_of p ''disabled'') (theme_at p [''colors'', ''button'', ''alt2'', ''disabled'', ''color'']) (ternary (prop_of p ''warning'') (theme_at p [''colors'', ''font'', ''light1'']) (ternary (prop_of p ''active'') (theme_at p [''colors'', ''button'', ''primary'', ''active'', ''color'']) (theme_at p [''colors'', ''button'', ''primary'', ''color'']))))],
      Decl ''fill'' [F (\<lambda>p. ternary (prop_of p ''disabled'') (theme_at p [''colors'', ''button'', ''alt2'', ''disabled'', ''color'']) (ternary (prop_of p ''warning'') (theme_at p [''colors'', ''font'', ''light1'']) (ternary (prop_of p ''active'') (theme_at p [''colors'', ''button'', ''primary'', ''active'', ''color'']) (theme_at p [''colors'', ''button'', ''primary'', ''color'']))))]]]"

definition Alt4 :: styled where
  "Alt4 = Styled (Extends Primary) [
    Decl ''min-height'' [S ''25px !important''],
    Decl ''height'' [S ''25px !important''],
    Decl ''padding'' [S ''0 10px !important''],
    Decl ''border-radius'' [F (\<lambda>_. styling_at [''dimensions'', ''radius'', ''primary''])],
    Decl ''background'' [F (\<lambda>p. ternary (prop_of p ''warning'') (theme_at p [''colors'', ''warning'', ''primary'']) (ternary (prop_of p ''active'') (theme_at p [''colors'', ''button'', ''alt1'', ''active'', ''background'']) (theme_at p [''colors'', ''button'', ''alt1'', ''background''])))],
    Decl ''border'' [S ''1px solid '', F (\<lambda>p. ternary (prop_of p ''warning'') (theme_at p [''colors'', ''warning'', ''primary'']) (ternary (prop_of p ''active'') (theme_at p [''colors'', ''button'', ''alt1'', ''active'', ''border'']) (theme_at p [''colors'', ''button'', ''alt1'', ''border''])))],
    Rule [S ''span''] [
      Decl ''font-size'' [F (\<lambda>p. theme_at p [''typography'', ''size'', ''xxxSmall'']), S '' !important''],
      Decl ''font-weight'' [F (\<lambda>p. theme_at p [''typography'', ''weight'', ''bold'']), S '' !important''],
      Decl ''color'' [F (\<lambda>p. ternary (js_or (prop_of p ''warning'') (prop_of p ''active'')) (theme_at p [''colors'', ''font'', ''light1'']) (theme_at p [''colors'', ''button'', ''alt1'', ''color''])), S '' !important'']],
    Rule [S ''&:hover''] [
      Decl ''background'' [F (\<lambda>p. ternary (prop_of p ''warning'') (theme_at p [''colors'', ''warning'', ''alt1'']) (theme_at p [''colors'', ''button'', ''alt1'', ''active'', ''background'']))],
      Decl ''border'' [S ''1px solid '', F (\<lambda>p. ternary (prop_of p ''warning'') (theme_at p [''colors'', ''warning'', ''alt1'']) (theme_at p [''colors'', ''button'', ''alt1'', ''active'', ''border'']))],
      Rule [S ''span''] [
        Decl ''color'' [F (\<lambda>p. ternary (prop_of p ''warning'') (theme_at p [''colors'', ''font'', ''light1'']) (theme_at p [''colors'', ''button'', ''alt1'', ''active'', ''color''])), S '' !important'']],
      Rule [S ''svg''] [
        Decl ''fill'' [F (\<lambda>p. ternary (prop_of p ''warning'') (theme_at p [''colors'', ''font'', ''light1'']) (theme_at p [''colors'', ''button'', ''alt1'', ''active'', ''color''])), S '' !important''],
        Decl ''color'' [F (\<lambda>p. ternary (prop_of p ''warning'') (theme_at p [''colors'', ''font'', ''light1'']) (theme_at p [''colors'', ''button'', ''alt1'', ''active'', ''color''])), S '' !important'']]],
    Rule [S ''&:focus''] [
      Decl ''background'' [F (\<lambda>p. ternary (prop_of p ''warning'') (theme_at p [''colors'', ''warning'', ''alt1'']) (theme_at p [''colors'', ''button'', ''alt1'', ''active'', ''background'']))],
      Decl ''border'' [S ''1px solid '', F (\<lambda>p. ternary (prop_of p ''warning'') (theme_at p [''colors'', ''warning'', ''alt1'']) (theme_at p [''colors'', ''button'', ''alt1'', ''active'', ''border'']))],
      Rule [S ''span''] [
        Decl ''color'' [F (\<lambda>p. ternary (prop_of p ''warning'') (theme_at p [''colors'', ''font'', ''light1'']) (theme_at p [''colors'', ''button'', ''alt1'', ''active'', ''color''])), S '' !important'']],
      Rule [S ''svg''] [
        Decl ''fill'' [F (\<lambda>p. ternary (prop_of p ''warning'') (theme_at p [''colors'', ''font'', ''light1'']) (theme_at p [''colors'', ''button'', ''alt1'', ''active'', ''color''])), S '' !important''],
        Decl ''color'' [F (\<lambda>p. ternary (prop_of p ''warning'') (theme_at p [''colors'', ''font'', ''light1'']) (theme_at p [''colors'', ''button'', ''alt1'', ''active'', ''color''])), S '' !important'']]],
    Rule [S ''&:disabled''] [
      Decl ''background'' [F (\<lambda>p. theme_at p [''colors'', ''button'', ''alt1'', ''disabled'', ''background''])],
      Decl ''border'' [S ''1px solid '', F (\<lambda>p. theme_at p [''colors'', ''button'', ''alt1'', ''disabled'', ''border''])],
      Rule [S ''span''] [
        Decl ''color'' [F (\<lambda>p. theme_at p [''colors'', ''button'', ''alt1'', ''disabled'', ''color'']), S '' !important'']],
      Rule [S ''svg''] [
        Decl ''fill'' [F (\<lambda>p. theme_at p [''colors'', ''button'', ''alt1'', ''disabled'', ''color'']), S '' !important''],
        Decl ''color'' [F (\<lambda>p. theme_at p [''colors'', ''button'', ''alt1'', ''disabled'', ''color'']), S '' !important'']]]]"

definition IconAlt4 :: styled where
  "IconAlt4 = Styled (Extends IconPrimary) [
    Rule [S ''svg''] [
      Decl ''height'' [S ''13.5px''],
      Decl ''width'' [S ''13.5px''],
      Decl ''margin'' [F (\<lambda>p. ternary (prop_of p ''leftAlign'') (Inr (JStr ''2.5px 6.5px 0 0'')) (Inr (JStr ''2.5px 0 0 6.5px'')))],
      Decl ''color'' [F (\<lambda>p. ternary (prop_of p ''disabled'') (theme_at p [''colors'', ''button'', ''alt2'', ''disabled'', ''color'']) (ternary (js_or (prop_of p ''warning'') (prop_of p ''active'')) (theme_at p [''colors'', ''font'', ''light1'']) (theme_at p [''colors'', ''button'', ''alt1'', ''color''])))],
      Decl ''fill'' [F (\<lambda>p. ternary (prop_of p ''disabled'') (theme_at p [''colors'', ''button'', ''alt2'', ''disabled'', ''color'']) (ternary (js_or (prop_of p ''warning'') (prop_of p ''active'')) (theme_at p [''colors'', ''font'', ''light1'']) (theme_at p [''colors'', ''button'', ''alt1'', ''color''])))]]]"

definition Wrapper_n :: styled where
  "Wrapper_n = Styled (Elem ''div'') [
    Decl ''width'' [S ''100%''],
    Decl ''display'' [S ''flex''],
    Decl ''align-items'' [S ''center''],
    Decl ''justify-content'' [S ''space-between'']]"

definition Label_1 :: styled where
  "Label_1 = Styled (Elem ''div'') [
    Rule [S ''p''] [
      Decl ''color'' [F (\<lambda>p. theme_at p [''colors'', ''font'', ''primary''])],
      Decl ''font-family'' [F (\<lambda>p. theme_at p [''typography'', ''family'', ''primary''])],
      Decl ''font-size'' [F (\<lambda>p. theme_at p [''typography'', ''size'', ''xxSmall''])],
      Decl ''font-weight'' [F (\<lambda>p. theme_at p [''typography'', ''weight'', ''bold''])],
      Decl ''text-transform'' [S ''uppercase''],
      Decl ''line-height'' [S ''1'']]]"

definition Options :: styled where
  "Options = Styled (Elem ''div'') [
    Decl ''width'' [S ''100%''],
    Decl ''display'' [S ''flex''],
    Decl ''align-items'' [S ''center''],
    Decl ''gap'' [S ''1.5px''],
    Decl ''padding'' [S ''1px''],
    Decl ''background'' [F (\<lambda>p. theme_at p [''colors'', ''container'', ''alt2'', ''background''])],
    Decl ''border'' [S ''1px solid '', F (\<lambda>p. theme_at p [''colors'', ''border'', ''primary''])],
    Rule [S ''button''] [
      Decl ''flex'' [S ''1''],
      Decl ''border'' [S ''none !important''],
      Decl ''transition'' [S ''all 100ms''],
      Rule [S ''span''] [
        Decl ''font-size'' [F (\<lambda>p. theme_at p [''typography'', ''size'', ''xxSmall'']), S '' !important'']],
      Rule [S ''svg''] [
        Decl ''margin'' [S ''1.5px 6.5px 0 0 !important'']],
      Rule [S ''&:disabled''] [
        Decl ''background'' [S ''transparent !important'']]]]"

definition WalletListContainer :: styled where
  "WalletListContainer = Styled (Elem ''div'') [
    Decl ''height'' [S ''100%''],
    Decl ''width'' [S ''100%''],
    Decl ''display'' [S ''flex''],
    Decl ''align-items'' [S ''center''],
    Decl ''justify-content'' [S ''center''],
    Decl ''gap'' [S ''20px''],
    Decl ''flex-wrap'' [S ''wrap''],
    Decl ''padding'' [S ''20px 0'']]"

definition WalletListItem :: styled where
  "WalletListItem = Styled (Elem ''button'') [
    Decl ''width'' [S ''200px''],
    Decl ''display'' [S ''flex''],
    Decl ''flex-direction'' [S ''column''],
    Decl ''align-items'' [S ''center''],
    Decl ''justify-content'' [S ''center''],
    Decl ''text-align'' [S ''center''],
    Decl ''padding'' [S ''15px''],
    Rule [S ''span''] [
      Decl ''color'' [F (\<lambda>p. theme_at p [''colors'', ''font'', ''primary''])],
      Decl ''font-size'' [F (\<lambda>p. theme_at p [''typography'', ''size'', ''base''])],
      Decl ''font-weight'' [F (\<lambda>p. theme_at p [''typography'', ''weight'', ''bold''])],
      Decl ''font-family'' [F (\<lambda>p. theme_at p [''typography'', ''family'', ''primary''])]],
    Rule [S ''&:hover''] [
      Decl ''background'' [F (\<lambda>p. theme_at p [''colors'', ''container'', ''primary'', ''active''])]]]"

definition WalletLogo :: styled where
  "WalletLogo = Styled (Elem ''div'') [
    Decl ''height'' [S ''35px''],
    Decl ''display'' [S ''flex''],
    Decl ''align-items'' [S ''center''],
    Decl ''justify-content'' [S ''center''],
    Rule [S ''img''] [
      Decl ''width'' [S ''30px''],
      Decl ''margin'' [S ''0 0 10px 0'']]]"

definition WalletLink :: styled where
  "WalletLink = Styled (Elem ''div'') [
    Decl ''margin'' [S ''10px 0''],
    Decl ''padding'' [S ''0 20px''],
    Decl ''text-align'' [S ''center''],
    Rule [S ''a, span''] [
      Decl ''font-size'' [F (\<lambda>p. theme_at p [''typography'', ''size'', ''small''])],
      Decl ''font-weight'' [F (\<lambda>p. theme_at p [''typography'', ''weight'', ''medium''])]],
    Rule [S ''span''] [
      Decl ''color'' [F (\<lambda>p. theme_at p [''colors'', ''font'', ''alt1''])]]]"

definition Wrapper_m :: styled where
  "Wrapper_m = Styled (Elem ''div'') [
    Decl ''height'' [S ''100%''],
    Decl ''width'' [S ''100%'']]"

definition PanelOverlay :: styled where
  "PanelOverlay = Styled (Elem ''div'') [
    Decl ''height'' [S ''100vh''],
    Decl ''width'' [S ''100%''],
    Decl ''position'' [S ''fixed''],
    Decl ''z-index'' [S ''6''],
    Decl ''top'' [S ''0''],
    Decl ''left'' [S ''0''],
    Decl ''background'' [F (\<lambda>p. theme_at p [''colors'', ''overlay'', ''primary''])],
    Decl ''animation'' [K ''open'', S '' '', F (\<lambda>_. Inr (JStr transition2))],
    Decl ''display'' [F (\<lambda>p. ternary (prop_of p ''open'') (Inr (JStr ''block'')) (Inr (JStr ''none'')))]]"

definition Container_4 :: styled where
  "Container_4 = Styled (Elem ''div'') [
    Decl ''height'' [S ''calc(100dvh - 20px)''],
    Decl ''width'' [F (\<lambda>p. ternary (prop_of p ''width'') (tmpl [to_string (prop_of p ''width''), Inr (JStr ''px'')]) (Inr (JStr ''fit-content'')))],
    Decl ''max-width'' [S ''calc(100vw - 20px)''],
    Decl ''position'' [S ''fixed''],
    Decl ''z-index'' [S ''10''],
    Decl ''overflow'' [S ''hidden''],
    Decl ''top'' [S ''10px''],
    Decl ''right'' [S ''10px''],
    Decl ''transform'' [S ''translateX('', F (\<lambda>p. ternary (prop_of p ''open'') (Inr (JStr ''0'')) (Inr (JStr ''105%''))), S '')''],
    Decl ''transition'' [S ''transform '', F (\<lambda>_. Inr (JStr transition2))],
    Decl ''border-radius'' [F (\<lambda>_. styling_at [''dimensions'', ''radius'', ''primary'']), S '' !important''],
    Rule [S ''@media (max-width: '', F (\<lambda>_. styling_at [''cutoffs'', ''secondary'']), S '')''] [
      Decl ''min-width'' [S ''82.5vw'']]]"

definition Header_9 :: styled where
  "Header_9 = Styled (Elem ''div'') [
    Decl ''height'' [S ''65px''],
    Decl ''width'' [S ''100%''],
    Decl ''display'' [S ''flex''],
    Decl ''justify-content'' [S ''space-between''],
    Decl ''align-items'' [S ''center''],
    Decl ''padding'' [S ''0 20px'']]"

definition LT :: styled where
  "LT = Styled (Elem ''div'') [
    Decl ''max-width'' [S ''75%''],
    Decl ''display'' [S ''flex''],
    Decl ''align-items'' [S ''center'']]"

definition Title_2 :: styled where
  "Title_2 = Styled (Elem ''p'') [
    Decl ''color'' [F (\<lambda>p. theme_at p [''colors'', ''font'', ''primary''])],
    Decl ''font-size'' [F (\<lambda>p. theme_at p [''typography'', ''size'', ''lg''])],
    Decl ''font-weight'' [F (\<lambda>p. theme_at p [''typography'', ''weight'', ''bold''])],
    Decl ''line-height'' [S ''calc('', F (\<lambda>p. theme_at p [''typography'', ''size'', ''lg'']), S '' + 5px)''],
    Decl ''white-space'' [S ''nowrap''],
    Decl ''overflow'' [S ''hidden''],
    Decl ''text-overflow'' [S ''ellipsis''],
    Decl ''margin'' [S ''2.5px 0 0 0'']]"

definition Close_1 :: styled where
  "Close_1 = Styled (Elem ''div'') [
    Decl ''padding'' [S ''2.5px 0 0 0'']]"

definition Body_2 :: styled where
  "Body_2 = Styled (Elem ''div'') [
    Decl ''height'' [S ''calc(100% - 65px)''],
    Decl ''width'' [S ''100%''],
    Decl ''overflow-y'' [S ''auto''],
    Decl ''scrollbar-color'' [S ''transparent transparent''],
    Decl ''position'' [S ''relative'']]"

section \<open>Soundness\<close>

text \<open>
  Whatever the palette, no template of the list throws, and with every attribute
  given no declaration is left without a value. \<open>Wrapper_u\<close> and \<open>EndText\<close> name a path the
  theme does not have and are left out; they are treated in \<open>Styles\<close>.
\<close>

definition controls_styles :: "styled list" where
  "controls_styles = [
    Wrapper_v, Container_6, Blade, Spinner_1, Placeholder_6, MessageWrapper_1,
    Tooltip_2, Wrapper_t, Primary_1, Alt1_1, Ghost, Wrapper_s, Container_5,
    Header_a, LT_3, Title_3, Close_2, Body_3, Wrapper_r, TWrapper, Label_2,
    Tooltip_1, Input_2, EndTextContainer, ErrorContainer_1, Error_2, Dropdown_1,
    Option, TabHint, Wrapper_q, InputWrapper_2, SubmitWrapper, Wrapper_p, Tooltip,
    Wrapper_o, Primary, IconPrimary, Alt1, IconAlt1, Alt2, IconAlt2, Alt3, IconAlt3,
    Alt4, IconAlt4, Wrapper_n, Label_1, Options, WalletListContainer,
    WalletListItem, WalletLogo, WalletLink, Wrapper_m, PanelOverlay, Container_4,
    Header_9, LT, Title_2, Close_1, Body_2]"

lemmas controls_styles_defs =
  Wrapper_v_def Container_6_def Blade_def Spinner_1_def Placeholder_6_def
  MessageWrapper_1_def Tooltip_2_def Wrapper_t_def Primary_1_def Alt1_1_def
  Ghost_def Wrapper_s_def Container_5_def Header_a_def LT_3_def Title_3_def
  Close_2_def Body_3_def Wrapper_r_def TWrapper_def Label_2_def Tooltip_1_def
  Input_2_def EndTextContainer_def ErrorContainer_1_def Error_2_def Dropdown_1_def
  Option_def TabHint_def Wrapper_q_def InputWrapper_2_def SubmitWrapper_def
  Wrapper_p_def Tooltip_def Wrapper_o_def Primary_def IconPrimary_def Alt1_def
  IconAlt1_def Alt2_def IconAlt2_def Alt3_def IconAlt3_def Alt4_def IconAlt4_def
  Wrapper_n_def Label_1_def Options_def WalletListContainer_def WalletListItem_def
  WalletLogo_def WalletLink_def Wrapper_m_def PanelOverlay_def Container_4_def
  Header_9_def LT_def Title_2_def Close_1_def Body_2_def

lemma controls_styles_run:
  assumes "sized a"
  shows "list_all (runs (themed pal a)) controls_styles"
  using assms by (elim sizedE)
    (simp add: controls_styles_def controls_styles_defs theme_lookups missing_lookups no_throw_if)

lemma controls_styles_resolve:
  assumes "given a"
  shows "list_all (resolves (themed pal a)) controls_styles"
  using given_sized [OF assms] by (elim sizedE)
    (simp add: controls_styles_def controls_styles_defs theme_lookups missing_lookups no_throw_if resolved_if
      given_simps [OF assms])

text \<open>
  All controls: those that resolve, and the button of the copyable value and the text at the
  end of a form field, which read colours that no palette has.
\<close>

definition all_controls :: "styled list" where
  "all_controls = controls_styles @ [Wrapper_u, EndText]"

lemma all_controls_run:
  assumes "sized a"
  shows "list_all (runs (themed pal a)) all_controls"
  using controls_styles_run [OF assms]
  by (simp add: all_controls_def Wrapper_u_def EndText_def theme_lookups missing_lookups no_throw_if)

lemma EndText_gap: "\<not> resolves (themed pal a) EndText"
  by (simp add: EndText_def theme_lookups missing_lookups)

lemma Wrapper_u_gap: "resolves (themed pal a) Wrapper_u \<longleftrightarrow> truthy (a ''disabled'')"
  by (cases "truthy (a ''disabled'')")
    (simp_all add: Wrapper_u_def theme_lookups missing_lookups ternary_def comma_def)

text \<open>
  C13. Every control of the explorer can be drawn: with all attributes given, and under any
  palette, its style sheet is made without an error, whatever the class names; and no declaration of it has
  an undefined value, except for exactly two controls, whose colour is missing in every palette: the
  text at the end of a form field, and the button of the copyable value unless it is disabled.
\<close>

theorem controls_can_be_drawn:
  assumes "given a" "s \<in> set all_controls"
  shows "(\<exists>t. render e (themed pal a) s = Inr t)
    \<and> (resolves (themed pal a) s \<longleftrightarrow> s \<noteq> EndText \<and> (s = Wrapper_u \<longrightarrow> truthy (a ''disabled'')))"
proof
  have "runs (themed pal a) s"
    using all_controls_run [OF given_sized [OF assms(1)], of pal] assms(2) by (simp add: list_all_iff)
  then show "\<exists>t. render e (themed pal a) s = Inr t" by (rule render_runs)
  have "resolves (themed pal a) s" if "s \<in> set controls_styles"
    using controls_styles_resolve [OF assms(1), of pal] that by (simp add: list_all_iff)
  then show "resolves (themed pal a) s \<longleftrightarrow> s \<noteq> EndText \<and> (s = Wrapper_u \<longrightarrow> truthy (a ''disabled''))"
    using assms(2) EndText_gap [of pal a] Wrapper_u_gap [of pal a] by (auto simp: all_controls_def)
qed

theorem controls_can_be_drawn_witness:
  "\<not> resolves (themed darkTheme all_given) EndText \<and>
   (\<exists>t. render \<lparr>class_of = id, keyframes_name = id, asset = id, unitless = (\<lambda>k. k = ''opacity'')\<rparr> (themed darkTheme all_given) EndText = Inr t)"
  using controls_can_be_drawn [where s = EndText, OF all_given_given] by (simp add: all_controls_def)

end
