(* ===== verification/Controls.thy ===== *)
theory Controls
  imports Format Styles_Controls
begin

text \<open>
  The controls of the explorer as components with state (\<open>bundle.js\<close>): portals and the
  scrolling of the page (line 246), \<open>Loader\<close> (481), \<open>Copyable\<close> (564), \<open>IconButton\<close>
  (685), \<open>Modal\<close> (728), \<open>FormField\<close> (811), \<open>AutocompleteDropdown\<close> (842), \<open>Avatar\<close>
  (933), \<open>Button\<close> (1249) and \<open>Toggle\<close> (1289). An effect runs when a component is
  mounted or a value it depends on has changed, and its cleanup before the next run and
  when it is unmounted. What the elements look like is in \<open>Styles_Controls\<close>.
\<close>

section \<open>Loaders, modals and the scrolling of the page\<close>

definition checkWindowCutoff :: "nat \<Rightarrow> nat \<Rightarrow> bool" where
  "checkWindowCutoff inner_width cutoff \<longleftrightarrow> inner_width > cutoff"

text \<open>A portal renders nothing before its first effect, and nothing without its node.\<close>

definition portal_children :: "bool \<Rightarrow> bool \<Rightarrow> 'a list \<Rightarrow> 'a list" where
  "portal_children mounted node_exists children = (if mounted \<and> node_exists then children else [])"

record loader_props =
  lp_sm :: bool
  lp_xSm :: bool
  lp_placeholder :: bool
  lp_message :: string
  lp_relative :: bool

datatype loader_view = PlaceholderView | MessageView string | InlineView rat | PageView

text \<open>The size of the spinner, for a loader that stands in the text.\<close>

definition loader_shown :: "loader_props \<Rightarrow> loader_view" where
  "loader_shown p = (if lp_placeholder p then PlaceholderView
     else if lp_message p \<noteq> [] then MessageView (lp_message p)
     else if lp_sm p then InlineView (79 / 4)
     else if lp_xSm p then InlineView (33 / 2)
     else if lp_relative p then InlineView (55 / 2)
     else PageView)"

definition covers_page :: "loader_props \<Rightarrow> bool" where
  "covers_page p \<longleftrightarrow> \<not> lp_sm p \<and> \<not> lp_xSm p \<and> \<not> lp_placeholder p"

text \<open>
  The style \<open>overflowY\<close> of the body, the counter \<open>modalOpenCounter\<close>, the mounted modals
  (whether each can be closed) and the mounted loaders, with whether the effect of each
  has left a cleanup.
\<close>

record scroll_state =
  overflowY :: string
  modalOpenCounter :: int
  modals :: "bool list"
  loaders :: "(loader_props \<times> bool) list"

text \<open>The pair of line 728 counts, the pair of line 246 does not.\<close>

definition showDocumentBody_1 :: "scroll_state \<Rightarrow> scroll_state" where
  "showDocumentBody_1 s = (let n = modalOpenCounter s - 1; s1 = s\<lparr>modalOpenCounter := n\<rparr>
     in if n = 0 then s1\<lparr>overflowY := ''auto''\<rparr> else s1)"

definition hideDocumentBody_1 :: "scroll_state \<Rightarrow> scroll_state" where
  "hideDocumentBody_1 s = s\<lparr>modalOpenCounter := modalOpenCounter s + 1, overflowY := ''hidden''\<rparr>"

definition hideDocumentBody_2 :: "scroll_state \<Rightarrow> scroll_state" where
  "hideDocumentBody_2 s = s\<lparr>overflowY := ''hidden''\<rparr>"

definition showDocumentBody_2 :: "scroll_state \<Rightarrow> scroll_state" where
  "showDocumentBody_2 s = s\<lparr>overflowY := ''auto''\<rparr>"

definition mount_modal :: "bool \<Rightarrow> scroll_state \<Rightarrow> scroll_state" where
  "mount_modal closable s = (hideDocumentBody_1 s)\<lparr>modals := modals s @ [closable]\<rparr>"

definition unmount_modal :: "nat \<Rightarrow> scroll_state \<Rightarrow> scroll_state" where
  "unmount_modal i s = (if i < length (modals s)
     then (showDocumentBody_1 s)\<lparr>modals := remove_at i (modals s)\<rparr> else s)"

text \<open>
  Every mounted modal listens to the keyboard: Escape is told to each that has a handler
  to close it, which takes it off the page.
\<close>

definition escape_key :: "scroll_state \<Rightarrow> scroll_state" where
  "escape_key s = (let n = length (filter id (modals s))
     in ((showDocumentBody_1 ^^ n) s)\<lparr>modals := filter Not (modals s)\<rparr>)"

definition loader_effect :: "loader_props \<Rightarrow> scroll_state \<Rightarrow> scroll_state" where
  "loader_effect p s = (if covers_page p then hideDocumentBody_2 s else s)"

definition loader_cleanup :: "bool \<Rightarrow> scroll_state \<Rightarrow> scroll_state" where
  "loader_cleanup held s = (if held then showDocumentBody_2 s else s)"

definition mount_loader :: "loader_props \<Rightarrow> scroll_state \<Rightarrow> scroll_state" where
  "mount_loader p s = (loader_effect p s)\<lparr>loaders := loaders s @ [(p, covers_page p)]\<rparr>"

text \<open>The effect depends on \<open>sm\<close> and \<open>xSm\<close> only.\<close>

definition update_loader :: "nat \<Rightarrow> loader_props \<Rightarrow> scroll_state \<Rightarrow> scroll_state" where
  "update_loader i p s = (if i < length (loaders s) then (case loaders s ! i of (q, held) \<Rightarrow>
       if lp_sm p = lp_sm q \<and> lp_xSm p = lp_xSm q then s\<lparr>loaders := (loaders s)[i := (p, held)]\<rparr>
       else (loader_effect p (loader_cleanup held s))\<lparr>loaders := (loaders s)[i := (p, covers_page p)]\<rparr>)
     else s)"

definition unmount_loader :: "nat \<Rightarrow> scroll_state \<Rightarrow> scroll_state" where
  "unmount_loader i s = (if i < length (loaders s)
     then (loader_cleanup (snd (loaders s ! i)) s)\<lparr>loaders := remove_at i (loaders s)\<rparr> else s)"

datatype overlay_event = MountModal bool | UnmountModal nat | EscapeKey
  | MountLoader loader_props | UpdateLoader nat loader_props | UnmountLoader nat

fun scroll_step :: "scroll_state \<Rightarrow> overlay_event \<Rightarrow> scroll_state" where
  "scroll_step s (MountModal c) = mount_modal c s"
| "scroll_step s (UnmountModal i) = unmount_modal i s"
| "scroll_step s EscapeKey = escape_key s"
| "scroll_step s (MountLoader p) = mount_loader p s"
| "scroll_step s (UpdateLoader i p) = update_loader i p s"
| "scroll_step s (UnmountLoader i) = unmount_loader i s"

definition empty_page :: scroll_state where
  "empty_page = \<lparr>overflowY = [], modalOpenCounter = 0, modals = [], loaders = []\<rparr>"

section \<open>Copyable\<close>

record copyable =
  copied :: bool
  clipboard :: "string option"
  writes :: "string list"
  timers :: "nat list"
  clock :: nat

datatype copy_format = NoFormat | Truncate | Address

text \<open>The text shown; a value that is not given cannot be truncated.\<close>

definition copyable_text :: "copy_format \<Rightarrow> string option \<Rightarrow> bool \<Rightarrow> string option" where
  "copyable_text f v wrap = (case f of
       Truncate \<Rightarrow> map_option (\<lambda>x. substring 0 36 x @ ''...'') v
     | _ \<Rightarrow> Some (formatAddress (or_else [] v) wrap))"

definition shown_copyable :: "copyable \<Rightarrow> copy_format \<Rightarrow> string option \<Rightarrow> bool \<Rightarrow> string option" where
  "shown_copyable s f v wrap = (if copied s then Some ''Copied!'' else copyable_text f v wrap)"

text \<open>A click writes the value; the handler is off while the text says that it was copied.\<close>

definition on_copy :: "string option \<Rightarrow> copyable \<Rightarrow> copyable" where
  "on_copy v s = (if copied s \<or> or_else [] v = [] then s else s\<lparr>writes := writes s @ [or_else [] v]\<rparr>)"

definition write_done :: "nat \<Rightarrow> copyable \<Rightarrow> copyable" where
  "write_done i s = (if i < length (writes s)
     then s\<lparr>clipboard := Some (writes s ! i), writes := remove_at i (writes s), copied := True,
            timers := timers s @ [clock s + 2000]\<rparr>
     else s)"

definition write_refused :: "nat \<Rightarrow> copyable \<Rightarrow> copyable" where
  "write_refused i s = s\<lparr>writes := remove_at i (writes s)\<rparr>"

text \<open>Time passes: the timers that are due take the notice away.\<close>

definition pass_time :: "nat \<Rightarrow> copyable \<Rightarrow> copyable" where
  "pass_time d s = (let t = clock s + d in
     s\<lparr>clock := t, timers := filter (\<lambda>x. x > t) (timers s),
       copied := (copied s \<and> \<not> list_ex (\<lambda>x. x \<le> t) (timers s))\<rparr>)"

datatype copy_event = CopyClick "string option" | WriteDone nat | WriteRefused nat | PassTime nat

fun copy_step :: "copyable \<Rightarrow> copy_event \<Rightarrow> copyable" where
  "copy_step s (CopyClick v) = on_copy v s"
| "copy_step s (WriteDone i) = write_done i s"
| "copy_step s (WriteRefused i) = write_refused i s"
| "copy_step s (PassTime d) = pass_time d s"

definition initial_copyable :: copyable where
  "initial_copyable = \<lparr>copied = False, clipboard = None, writes = [], timers = [], clock = 0\<rparr>"

section \<open>Buttons\<close>

text \<open>What a handler does with an event besides calling \<open>handlePress\<close>.\<close>

record press =
  prevented :: bool
  stopped :: bool
  pressed :: bool

definition icon_button_click :: press where
  "icon_button_click = \<lparr>prevented = True, stopped = True, pressed = True\<rparr>"

definition icon_button_wrapper :: "string \<Rightarrow> styled" where
  "icon_button_wrapper t = (if t = ''primary'' then Primary_1 else if t = ''alt1'' then Alt1_1
     else if t = ''ghost'' then Ghost else Primary_1)"

definition button_wrapper :: "string \<Rightarrow> styled \<times> styled" where
  "button_wrapper t = (if t = ''primary'' then (Primary, IconPrimary) else if t = ''alt1'' then (Alt1, IconAlt1)
     else if t = ''alt2'' then (Alt2, IconAlt2) else if t = ''alt3'' then (Alt3, IconAlt3)
     else if t = ''alt4'' then (Alt4, IconAlt4) else (Primary, IconPrimary))"

definition button_click :: press where
  "button_click = \<lparr>prevented = False, stopped = False, pressed = True\<rparr>"

text \<open>The handler of \<open>onKeyPress\<close> does not look at the key.\<close>

definition button_key_press :: "string \<Rightarrow> press" where
  "button_key_press key = \<lparr>prevented = True, stopped = True, pressed = True\<rparr>"

datatype button_part = Icon string | Label string

definition button_parts :: "string \<Rightarrow> bool \<Rightarrow> bool \<Rightarrow> string \<Rightarrow> button_part list" where
  "button_parts icon left loading label =
     (if icon \<noteq> [] \<and> left then [Icon icon] else [])
     @ [Label (if loading then ''Loading...'' else label)]
     @ (if icon \<noteq> [] \<and> \<not> left then [Icon icon] else [])"

text \<open>A toggle marks the options whose id is the active one up to case.\<close>

definition toggle_active :: "string \<Rightarrow> string list \<Rightarrow> bool list" where
  "toggle_active active ids = map (\<lambda>i. toLowerCase i = toLowerCase active) ids"

section \<open>Form fields\<close>

record form_field =
  ff_id :: string
  ff_name :: string
  ff_type :: string
  ff_value :: string
  ff_label :: string
  ff_required :: bool
  ff_tooltip :: string
  ff_hide_error :: bool
  ff_message :: string

text \<open>\<open>isNaN(Number(value))\<close> is an argument; an id made by React stands in for a missing one.\<close>

definition field_id :: "string \<Rightarrow> form_field \<Rightarrow> string" where
  "field_id made f = (if ff_id f \<noteq> [] then ff_id f else made)"

definition field_name :: "string \<Rightarrow> form_field \<Rightarrow> string" where
  "field_name made f = (if ff_name f \<noteq> [] then ff_name f else field_id made f)"

definition field_value :: "(string \<Rightarrow> bool) \<Rightarrow> form_field \<Rightarrow> string" where
  "field_value is_nan f = (if ff_type f = ''number'' \<and> is_nan (ff_value f) then [] else ff_value f)"

definition field_label :: "form_field \<Rightarrow> string option" where
  "field_label f = (if ff_label f = [] then None
     else Some (if ff_required f then formatRequiredField (ff_label f) else ff_label f))"

definition field_error :: "form_field \<Rightarrow> string option" where
  "field_error f = (if \<not> ff_hide_error f \<and> ff_message f \<noteq> [] then Some (ff_message f) else None)"

text \<open>The dialog of the tooltip, which stays open when the tooltip is gone for a while.\<close>

datatype tip_event = TipPress | TipClose

fun tip_step :: "bool \<Rightarrow> tip_event \<Rightarrow> bool" where
  "tip_step shown TipPress = (\<not> shown)"
| "tip_step shown TipClose = False"

definition tip_shown :: "form_field \<Rightarrow> bool \<Rightarrow> bool" where
  "tip_shown f shown \<longleftrightarrow> ff_tooltip f \<noteq> [] \<and> shown"

section \<open>The list of completions on the page\<close>

record rect =
  r_bottom :: int
  r_left :: int
  r_width :: int

record drop_position =
  d_top :: int
  d_left :: int
  d_width :: int

record placed =
  d_visible :: bool
  d_position :: drop_position

definition place :: "rect option \<Rightarrow> placed \<Rightarrow> placed" where
  "place r s = (case r of
       Some q \<Rightarrow> if d_visible s then s\<lparr>d_position := \<lparr>d_top = r_bottom q + 4, d_left = r_left q, d_width = r_width q\<rparr>\<rparr> else s
     | None \<Rightarrow> s)"

text \<open>Listeners for scrolling and resizing are attached while the list is visible.\<close>

datatype place_event = SetVisible bool "rect option" | Moved "rect option"

fun place_step :: "placed \<Rightarrow> place_event \<Rightarrow> placed" where
  "place_step s (SetVisible v r) = (if v = d_visible s then s else place r (s\<lparr>d_visible := v\<rparr>))"
| "place_step s (Moved r) = (if d_visible s then place r s else s)"

definition dropdown_items :: "bool \<Rightarrow> bool \<Rightarrow> int \<Rightarrow> string list \<Rightarrow> (string \<times> bool \<times> bool) list option" where
  "dropdown_items vis hint sel names = (if \<not> vis \<or> names = [] then None
     else Some (map (\<lambda>(i, n). (n, int i = sel, hint \<and> int i = sel)) (enumerate 0 names)))"

section \<open>Avatar\<close>

text \<open>The owner's thumbnail; the flag of a failed image is never taken back.\<close>

datatype avatar_view = Picture string | UserIcon

definition avatar_shown :: "bool \<Rightarrow> string option \<Rightarrow> avatar_view" where
  "avatar_shown failed thumbnail = (case thumbnail of
       Some t \<Rightarrow> if \<not> failed \<and> t \<noteq> [] \<and> checkValidAddress t then Picture (''https://arweave.net/'' @ t) else UserIcon
     | None \<Rightarrow> UserIcon)"

datatype avatar_event = ImageFailed | OwnerIs "string option"

fun avatar_step :: "bool \<times> string option \<Rightarrow> avatar_event \<Rightarrow> bool \<times> string option" where
  "avatar_step (failed, t) ImageFailed = (failed \<or> (case avatar_shown failed t of Picture _ \<Rightarrow> True | UserIcon \<Rightarrow> False), t)"
| "avatar_step (failed, t) (OwnerIs u) = (failed, u)"

section \<open>Lemmas\<close>

lemma show_one:
  "modalOpenCounter (showDocumentBody_1 s) = modalOpenCounter s - 1"
  "overflowY (showDocumentBody_1 s) = (if modalOpenCounter s = 1 then ''auto'' else overflowY s)"
  "modals (showDocumentBody_1 s) = modals s" "loaders (showDocumentBody_1 s) = loaders s"
  by (simp_all add: showDocumentBody_1_def Let_def)

lemma show_all:
  "modalOpenCounter ((showDocumentBody_1 ^^ n) s) = modalOpenCounter s - int n"
  "modals ((showDocumentBody_1 ^^ n) s) = modals s" "loaders ((showDocumentBody_1 ^^ n) s) = loaders s"
  by (induction n) (simp_all add: show_one)

lemma show_all_unlocks:
  "n \<noteq> 0 \<Longrightarrow> int n \<le> modalOpenCounter s \<Longrightarrow>
    overflowY ((showDocumentBody_1 ^^ n) s) = (if int n = modalOpenCounter s then ''auto'' else overflowY s)"
proof (induction n)
  case (Suc n)
  then show ?case by (cases "n = 0") (auto simp: show_one show_all)
qed simp

fun modal_only :: "overlay_event \<Rightarrow> bool" where
  "modal_only (MountModal c) = True"
| "modal_only (UnmountModal i) = True"
| "modal_only EscapeKey = True"
| "modal_only e = False"

definition counted :: "scroll_state \<Rightarrow> bool" where
  "counted s \<longleftrightarrow> modalOpenCounter s = int (length (modals s))"

definition locked_right :: "scroll_state \<Rightarrow> bool" where
  "locked_right s \<longleftrightarrow> counted s \<and> (overflowY s = ''hidden'' \<longleftrightarrow> modals s \<noteq> [])"

lemma filter_lengths: "length (filter id bs) + length (filter Not bs) = length bs"
  by (induction bs) auto

lemma escape_counted: "counted s \<Longrightarrow> counted (escape_key s)"
  using filter_lengths [of "modals s"]
  by (simp add: counted_def escape_key_def show_all Let_def)

lemma counted_step: "counted s \<Longrightarrow> counted (scroll_step s e)"
proof (cases e)
  case EscapeKey
  then show "counted s \<Longrightarrow> ?thesis" by (simp add: escape_counted)
qed (auto simp: counted_def mount_modal_def unmount_modal_def hideDocumentBody_1_def
      show_one mount_loader_def loader_effect_def hideDocumentBody_2_def update_loader_def
      loader_cleanup_def showDocumentBody_2_def unmount_loader_def length_remove_at Let_def split: prod.splits)

lemma escape_locked:
  assumes s: "locked_right s"
  shows "locked_right (escape_key s)"
proof -
  let ?n = "length (filter id (modals s))"
  have c: "modalOpenCounter s = int (length (modals s))" using s by (simp add: locked_right_def counted_def)
  have k: "counted (escape_key s)" using s escape_counted by (simp add: locked_right_def)
  show ?thesis
  proof (cases "?n = 0")
    case True
    then have "filter Not (modals s) = modals s" by (simp add: filter_empty_conv)
    then have "escape_key s = s" using True by (simp add: escape_key_def Let_def)
    then show ?thesis using s by simp
  next
    case False
    have "overflowY (escape_key s) = (if ?n = length (modals s) then ''auto'' else overflowY s)"
      using show_all_unlocks [OF False, of s] filter_lengths [of "modals s"] c
      by (simp add: escape_key_def Let_def)
    moreover have "modals (escape_key s) = [] \<longleftrightarrow> ?n = length (modals s)"
      using filter_lengths [of "modals s"] length_0_conv [of "filter Not (modals s)"]
      by (simp add: escape_key_def Let_def del: length_0_conv) linarith
    moreover have "overflowY s = ''hidden''" using s False by (auto simp: locked_right_def)
    ultimately show ?thesis using k by (simp add: locked_right_def)
  qed
qed

lemma locked_step: "locked_right s \<Longrightarrow> modal_only e \<Longrightarrow> locked_right (scroll_step s e)"
proof (cases e)
  case (UnmountModal i)
  then show "locked_right s \<Longrightarrow> ?thesis"
    by (auto simp: locked_right_def counted_def unmount_modal_def show_one remove_at_def)
next
  case EscapeKey
  then show "locked_right s \<Longrightarrow> ?thesis" by (simp add: escape_locked)
next
  case (MountModal c)
  then show "locked_right s \<Longrightarrow> ?thesis"
    by (simp add: locked_right_def counted_def mount_modal_def hideDocumentBody_1_def)
qed simp_all

interpretation page_scroll: machine scroll_step "\<lambda>s e. modal_only e" locked_right
  by unfold_locales (rule locked_step)

interpretation page_counter: machine scroll_step "\<lambda>s e. True" counted
  by unfold_locales (rule counted_step)

definition timers_ahead :: "copyable \<Rightarrow> bool" where
  "timers_ahead s \<longleftrightarrow> (\<forall>t \<in> set (timers s). clock s < t \<and> t \<le> clock s + 2000) \<and> (copied s \<longrightarrow> timers s \<noteq> [])"

lemma timers_pass:
  assumes "timers_ahead s"
  shows "timers_ahead (pass_time d s)"
proof -
  have "timers (pass_time d s) \<noteq> []" if "copied (pass_time d s)"
  proof -
    have "copied s" "\<not> list_ex (\<lambda>x. x \<le> clock s + d) (timers s)"
      using that by (simp_all add: pass_time_def Let_def)
    then have "\<forall>x \<in> set (timers s). clock s + d < x" by (auto simp: list_ex_iff)
    then have "timers (pass_time d s) = timers s" by (simp add: pass_time_def Let_def)
    then show ?thesis using assms \<open>copied s\<close> by (simp add: timers_ahead_def)
  qed
  moreover have "\<forall>t \<in> set (timers (pass_time d s)). clock (pass_time d s) < t \<and> t \<le> clock (pass_time d s) + 2000"
    using assms by (auto simp: timers_ahead_def pass_time_def Let_def)
  ultimately show ?thesis by (simp add: timers_ahead_def)
qed

lemma timers_step: "timers_ahead s \<Longrightarrow> timers_ahead (copy_step s e)"
proof (cases e)
  case (PassTime d)
  then show "timers_ahead s \<Longrightarrow> ?thesis" by (simp add: timers_pass)
qed (auto simp: timers_ahead_def on_copy_def write_done_def write_refused_def)

interpretation copy_notice: machine copy_step "\<lambda>s e. True" timers_ahead
  by unfold_locales (rule timers_step)

text \<open>Events that finish no write, and the time they take.\<close>

fun no_write :: "copy_event \<Rightarrow> bool" where
  "no_write (WriteDone i) = False"
| "no_write e = True"

fun lasts :: "copy_event \<Rightarrow> nat" where
  "lasts (PassTime d) = d"
| "lasts e = 0"

lemma no_write_step:
  "clock (copy_step s e) = clock s + lasts e"
  "no_write e \<Longrightarrow> set (timers (copy_step s e)) \<subseteq> set (timers s)"
  by (cases e; auto simp: on_copy_def write_done_def write_refused_def pass_time_def Let_def)+

lemma no_write_run:
  "clock (foldl copy_step s es) = clock s + sum_list (map lasts es)"
  "list_all no_write es \<Longrightarrow> set (timers (foldl copy_step s es)) \<subseteq> set (timers s)"
proof (induction es arbitrary: s)
  case (Cons e es)
  {
    case 1
    then show ?case using Cons.IH(1) by (simp add: no_write_step)
  next
    case 2
    then show ?case using Cons.IH(2) [of "copy_step s e"] no_write_step(2) [of e s] by auto
  }
qed simp_all

lemma copy_reachable: "timers_ahead (foldl copy_step initial_copyable es)"
  by (rule copy_notice.inv_run) (simp_all add: timers_ahead_def initial_copyable_def permitted_all)

section \<open>Properties\<close>

text \<open>
  C15. Whatever modals are opened, closed by their owner or by Escape, in any order, the
  counter is the number of the modals on the page, and the page can be scrolled exactly
  when there is none.
\<close>

theorem modals_lock_scrolling:
  assumes "list_all modal_only es"
  shows "modalOpenCounter (foldl scroll_step empty_page es) = int (length (modals (foldl scroll_step empty_page es)))
    \<and> (overflowY (foldl scroll_step empty_page es) = ''hidden'' \<longleftrightarrow> modals (foldl scroll_step empty_page es) \<noteq> [])"
proof -
  have "permitted (\<lambda>s e. modal_only e) scroll_step s es" for s
    using assms by (induction es arbitrary: s) simp_all
  then have "locked_right (foldl scroll_step empty_page es)"
    by (intro page_scroll.inv_run) (simp_all add: locked_right_def counted_def empty_page_def)
  then show ?thesis by (simp add: locked_right_def counted_def)
qed

theorem modals_lock_scrolling_witness:
  "modalOpenCounter (foldl scroll_step empty_page [MountModal True, MountModal False, MountModal True, EscapeKey])
     = int (length (modals (foldl scroll_step empty_page [MountModal True, MountModal False, MountModal True, EscapeKey])))
   \<and> modals (foldl scroll_step empty_page [MountModal True, MountModal False, MountModal True, EscapeKey]) = [False]
   \<and> overflowY (foldl scroll_step empty_page [MountModal True, MountModal False, MountModal True, EscapeKey]) = ''hidden''"
proof -
  have "modals (foldl scroll_step empty_page [MountModal True, MountModal False, MountModal True, EscapeKey]) = [False]"
    by code_simp
  then show ?thesis
    using modals_lock_scrolling [of "[MountModal True, MountModal False, MountModal True, EscapeKey]"] by simp
qed

text \<open>
  A loader that covers the page does not count: when it is taken off, the page can be
  scrolled again although every modal that was open still is, and the counter still says
  so. From then on the counter and the style disagree.
\<close>

theorem loader_unlocks_page:
  assumes "covers_page p" and "modals s \<noteq> []"
  shows "let s' = foldl scroll_step s [MountLoader p, UnmountLoader (length (loaders s))]
    in overflowY s' = ''auto'' \<and> modals s' = modals s \<and> modalOpenCounter s' = modalOpenCounter s
       \<and> loaders s' = loaders s"
  using assms by (simp add: mount_loader_def loader_effect_def unmount_loader_def loader_cleanup_def
    showDocumentBody_2_def hideDocumentBody_2_def remove_at_def)

theorem loader_unlocks_page_witness:
  "overflowY (foldl scroll_step (mount_modal True empty_page)
      [MountLoader \<lparr>lp_sm = False, lp_xSm = False, lp_placeholder = False, lp_message = [], lp_relative = False\<rparr>,
       UnmountLoader (length (loaders (mount_modal True empty_page)))]) = ''auto''
   \<and> overflowY (mount_modal True empty_page) = ''hidden''"
  using loader_unlocks_page [of "\<lparr>lp_sm = False, lp_xSm = False, lp_placeholder = False, lp_message = [], lp_relative = False\<rparr>"
      "mount_modal True empty_page"]
  by (simp add: Let_def covers_page_def mount_modal_def hideDocumentBody_1_def)

text \<open>
  C35. The notice that a value was copied always goes away: in any state the component can
  be in, once two seconds have passed in which no write to the clipboard has succeeded,
  whatever was clicked meanwhile, the value is shown again.
\<close>

theorem copied_notice_ends:
  assumes "list_all no_write fs" and "2000 \<le> sum_list (map lasts fs)"
  shows "shown_copyable (foldl copy_step initial_copyable (es @ fs)) f v wrap = copyable_text f v wrap"
proof -
  let ?s = "foldl copy_step initial_copyable es" and ?t = "foldl copy_step initial_copyable (es @ fs)"
  have a: "timers_ahead ?s" and b: "timers_ahead ?t" by (rule copy_reachable)+
  have sub: "set (timers ?t) \<subseteq> set (timers ?s)" and clk: "clock ?t = clock ?s + sum_list (map lasts fs)"
    using no_write_run [where s = ?s and es = fs] assms by simp_all
  have False if "x \<in> set (timers ?t)" for x
  proof -
    have "x \<le> clock ?s + 2000" using a sub that unfolding timers_ahead_def by blast
    moreover have "clock ?t < x" using b that unfolding timers_ahead_def by blast
    ultimately show False using clk assms(2) by linarith
  qed
  then have "timers ?t = []" by (metis last_in_set)
  then have "\<not> copied ?t" using b unfolding timers_ahead_def by blast
  then show ?thesis by (simp only: shown_copyable_def if_False)
qed

theorem copied_notice_ends_witness:
  "shown_copyable (foldl copy_step initial_copyable
      ([CopyClick (Some ''abc''), WriteDone 0] @ [PassTime 1500, CopyClick (Some ''abc''), PassTime 600])) Truncate (Some ''abc'') True
     = Some ''abc...''
   \<and> shown_copyable (foldl copy_step initial_copyable [CopyClick (Some ''abc''), WriteDone 0]) Truncate (Some ''abc'') True
     = Some ''Copied!''"
proof -
  have q: "list_all no_write [PassTime 1500, CopyClick (Some ''abc''), PassTime 600]"
    "2000 \<le> sum_list (map lasts [PassTime 1500, CopyClick (Some ''abc''), PassTime 600])" by simp_all
  have t: "copyable_text Truncate (Some ''abc'') True = Some ''abc...''" by code_simp
  have "copied (foldl copy_step initial_copyable [CopyClick (Some ''abc''), WriteDone 0])"
    by (simp add: initial_copyable_def on_copy_def write_done_def or_else_def)
  then have c: "shown_copyable (foldl copy_step initial_copyable [CopyClick (Some ''abc''), WriteDone 0]) Truncate
      (Some ''abc'') True = Some ''Copied!''"
    by (simp only: shown_copyable_def if_True)
  show ?thesis
    using copied_notice_ends [OF q, of "[CopyClick (Some ''abc''), WriteDone 0]" Truncate "Some ''abc''" True] c
    unfolding t by (rule conjI)
qed

text \<open>
  Of the options of a toggle, which differ up to case, the active one is marked and no
  other, in whatever case the active option is written.
\<close>

theorem toggle_marks_one:
  assumes "distinct (map toLowerCase ids)" and "i < length ids"
    and "toLowerCase active = toLowerCase (ids ! i)"
  shows "toggle_active active ids = (replicate (length ids) False)[i := True]"
proof (rule nth_equalityI)
  fix j assume j: "j < length (toggle_active active ids)"
  then have "toLowerCase (ids ! j) = toLowerCase (ids ! i) \<longleftrightarrow> j = i"
    using assms nth_eq_iff_index_eq [of "map toLowerCase ids" j i] by (simp add: toggle_active_def)
  then show "toggle_active active ids ! j = (replicate (length ids) False)[i := True] ! j"
    using j assms by (auto simp: toggle_active_def nth_list_update)
qed (simp add: toggle_active_def)

theorem toggle_marks_one_witness:
  "toggle_active ''HEADERS'' [''Body'', ''Headers'', ''Links''] = [False, True, False]"
  using toggle_marks_one [of "[''Body'', ''Headers'', ''Links'']" 1 "''HEADERS''"]
proof -
  have "distinct (map toLowerCase [''Body'', ''Headers'', ''Links''])"
    "toLowerCase ''HEADERS'' = toLowerCase ([''Body'', ''Headers'', ''Links''] ! 1)"
    by code_simp+
  then show ?thesis
    using toggle_marks_one [of "[''Body'', ''Headers'', ''Links'']" 1 "''HEADERS''"] by simp
qed

text \<open>
  Once a thumbnail has failed to load, the avatar shows the icon of a user for good:
  whoever its owner becomes, and whatever thumbnail that owner has.
\<close>

theorem avatar_failure_sticks:
  assumes "avatar_shown failed t = Picture u"
  shows "(\<lambda>(x, y). avatar_shown x y) (foldl avatar_step (failed, t) (ImageFailed # map OwnerIs owners)) = UserIcon"
proof -
  have "fst (foldl avatar_step (True, x) (map OwnerIs owners))" for x
    by (induction owners arbitrary: x) simp_all
  moreover have "avatar_shown True y = UserIcon" for y by (simp add: avatar_shown_def split: option.split)
  ultimately show ?thesis using assms by (auto simp: split_def)
qed

theorem avatar_failure_sticks_witness:
  "(\<lambda>(x, y). avatar_shown x y) (foldl avatar_step (False, Some (replicate 43 CHR ''a''))
      (ImageFailed # map OwnerIs [None, Some (replicate 43 CHR ''b'')])) = UserIcon
   \<and> avatar_shown False (Some (replicate 43 CHR ''b'')) = Picture (''https://arweave.net/'' @ replicate 43 CHR ''b'')"
proof -
  have "avatar_shown False (Some (replicate 43 CHR ''a'')) = Picture (''https://arweave.net/'' @ replicate 43 CHR ''a'')"
    "avatar_shown False (Some (replicate 43 CHR ''b'')) = Picture (''https://arweave.net/'' @ replicate 43 CHR ''b'')"
    by code_simp+
  then show ?thesis using avatar_failure_sticks by blast
qed

end
