(* ===== verification/Wallet.thy ===== *)
theory Wallet
  imports Token
begin

text \<open>
  The wallet of the explorer (\<open>bundle.js\<close>): the class \<open>Othent\<close> (line 1316) and the
  component \<open>ArweaveProvider\<close> with its list of wallets (line 1364). Every \<open>await\<close> of a
  handler leaves a task; the environment answers the tasks in any order. The object at
  \<open>window.arweaveWallet\<close> is a browser extension or Othent. What an extension, Othent's
  server and the balance endpoint answer comes with the events; exact fractions stand
  for the numbers of the balance.
\<close>

section \<open>The state\<close>

datatype provider = Extension | OthentKms

datatype task = Connecting provider | Addressing | HasAddress "string option" | OthentConnecting
  | Disconnecting "provider option" | BalanceOf string

text \<open>
  The fields of the component (\<open>Ql\<close>, \<open>op\<close>, \<open>rot\<close>, \<open>eot\<close>, \<open>aot\<close>), the storage, the global
  object, the session of Othent, and the tasks.
\<close>

record wallet_state =
  wallet :: "provider option"
  wallet_type :: "string option"
  modal_visible :: bool
  wallet_address :: "string option"
  ar_balance :: "rat option"
  stored_type :: "string option"
  injected :: "provider option"
  id_token :: "string option"
  user_info :: "claims option"
  tasks :: "task list"

definition arConnect :: string where "arConnect = ''arconnect''"
definition othent :: string where "othent = ''othent''"
definition wander :: string where "wander = ''wander''"

definition AR_WALLETS :: "string list" where
  "AR_WALLETS = [wander]"

section \<open>Othent\<close>

text \<open>\<open>Othent.connect\<close>: the stored token, or else the profile the server answers.\<close>

definition othent_connect :: "(code_units \<Rightarrow> claims option) \<Rightarrow> claims option \<Rightarrow> wallet_state \<Rightarrow> wallet_state option" where
  "othent_connect parse server s =
     (case (case id_token s of None \<Rightarrow> None
            | Some t \<Rightarrow> if t = [] then None
                else (case decodeProfileFromToken parse t of Inl e \<Rightarrow> None | Inr p \<Rightarrow> Some p)) of
        Some p \<Rightarrow> Some (s\<lparr>user_info := Some p\<rparr>)
      | None \<Rightarrow> (case server of None \<Rightarrow> None | Some p \<Rightarrow> Some (s\<lparr>user_info := Some p\<rparr>)))"

definition claimed_address :: "claims \<Rightarrow> string option" where
  "claimed_address cs = (case map_of cs ''walletAddress'' of Some (TextClaim a) \<Rightarrow> Some a | _ \<Rightarrow> None)"

text \<open>\<open>Othent.getActiveAddress\<close>, which throws without a session.\<close>

definition othent_address :: "wallet_state \<Rightarrow> string option option" where
  "othent_address s = map_option claimed_address (user_info s)"

text \<open>\<open>Othent.disconnect\<close>, once the server has answered.\<close>

definition othent_disconnected :: "wallet_state \<Rightarrow> wallet_state" where
  "othent_disconnected s = s\<lparr>id_token := None, injected := None\<rparr>"

section \<open>ArweaveProvider\<close>

text \<open>The effect that fetches the balance runs when the address has changed.\<close>

definition set_address :: "string option \<Rightarrow> wallet_state \<Rightarrow> wallet_state" where
  "set_address a s = s\<lparr>wallet_address := a,
     tasks := tasks s @ (if a \<noteq> wallet_address s \<and> or_else [] a \<noteq> [] then [BalanceOf (or_else [] a)] else [])\<rparr>"

definition await :: "task \<Rightarrow> wallet_state \<Rightarrow> wallet_state" where
  "await t s = s\<lparr>tasks := tasks s @ [t]\<rparr>"

text \<open>
  \<open>Qat\<close> with the address that its closure has seen: nothing happens without a wallet or
  with an address.
\<close>

definition connect_wallet :: "string option \<Rightarrow> wallet_state \<Rightarrow> wallet_state" where
  "connect_wallet seen s = (case injected s of None \<Rightarrow> s
     | Some p \<Rightarrow> if or_else [] seen = [] then await (Connecting p) s else s)"

definition ask_address :: "wallet_state \<Rightarrow> wallet_state" where
  "ask_address s = (case injected s of None \<Rightarrow> s
     | Some Extension \<Rightarrow> await Addressing s
     | Some OthentKms \<Rightarrow> (case othent_address s of None \<Rightarrow> s | Some a \<Rightarrow> await (HasAddress a) s))"

definition wallet_connected :: "string option \<Rightarrow> wallet_state \<Rightarrow> wallet_state" where
  "wallet_connected a s = (set_address a s)\<lparr>wallet := injected s, wallet_type := Some arConnect,
     modal_visible := False, stored_type := Some arConnect\<rparr>"

text \<open>\<open>Yat\<close>: Othent takes the place of an extension.\<close>

definition connect_othent :: "wallet_state \<Rightarrow> wallet_state" where
  "connect_othent s = await OthentConnecting (s\<lparr>injected := Some OthentKms\<rparr>)"

definition othent_connected :: "wallet_state \<Rightarrow> wallet_state" where
  "othent_connected s = (set_address (case user_info s of None \<Rightarrow> None | Some cs \<Rightarrow> claimed_address cs)
     (s\<lparr>wallet := injected s\<rparr>))\<lparr>wallet_type := Some othent, stored_type := Some othent\<rparr>"

text \<open>\<open>hot\<close>: the dialog closes before anything is answered.\<close>

definition handleConnect :: "string \<Rightarrow> string option \<Rightarrow> wallet_state \<Rightarrow> wallet_state" where
  "handleConnect t seen s = (if t = arConnect then connect_wallet seen s
     else if t = othent then connect_othent s
     else if injected s \<noteq> None then connect_wallet seen s else s)\<lparr>modal_visible := False\<rparr>"

text \<open>\<open>uot\<close>, on mounting, \<open>arweaveWalletLoaded\<close> and \<open>walletSwitch\<close>: the closure of the first render, without an address.\<close>

definition restore_wallet :: "wallet_state \<Rightarrow> wallet_state" where
  "restore_wallet s = (case stored_type s of None \<Rightarrow> s | Some t \<Rightarrow> if t = [] then s else handleConnect t None s)"

definition handleDisconnect :: "wallet_state \<Rightarrow> wallet_state" where
  "handleDisconnect s = await (Disconnecting (injected s))
     (if or_else [] (stored_type s) \<noteq> [] then s\<lparr>stored_type := None\<rparr> else s)"

definition wallet_cleared :: "wallet_state \<Rightarrow> wallet_state" where
  "wallet_cleared s = set_address None (s\<lparr>wallet := None\<rparr>)"

text \<open>An answer; one that does not fit is a failure.\<close>

datatype wallet_answer = Failure | Done | AnAddress "string option" | AProfile claims | Amount int

definition profile_of :: "wallet_answer \<Rightarrow> claims option" where
  "profile_of a = (case a of AProfile p \<Rightarrow> Some p | _ \<Rightarrow> None)"

fun resume :: "(code_units \<Rightarrow> claims option) \<Rightarrow> task \<Rightarrow> wallet_answer \<Rightarrow> wallet_state \<Rightarrow> wallet_state" where
  "resume parse (Connecting Extension) a s = (if a = Done then ask_address s else s)"
| "resume parse (Connecting OthentKms) a s = (case othent_connect parse (profile_of a) s of
     None \<Rightarrow> s | Some s' \<Rightarrow> ask_address s')"
| "resume parse Addressing a s = (case a of AnAddress x \<Rightarrow> wallet_connected x s | _ \<Rightarrow> s)"
| "resume parse (HasAddress x) a s = wallet_connected x s"
| "resume parse OthentConnecting a s = (case othent_connect parse (profile_of a) s of
     None \<Rightarrow> s | Some s' \<Rightarrow> othent_connected s')"
| "resume parse (Disconnecting None) a s = wallet_cleared s"
| "resume parse (Disconnecting (Some Extension)) a s = (if a = Done then wallet_cleared s else s)"
| "resume parse (Disconnecting (Some OthentKms)) a s = (if a = Done then wallet_cleared (othent_disconnected s) else s)"
| "resume parse (BalanceOf x) a s = (case a of Amount w \<Rightarrow> s\<lparr>ar_balance := Some (of_int w / 10 ^ 12)\<rparr> | _ \<Rightarrow> s)"

datatype wallet_event = Restore | ConnectTo string | Disconnect | Settle nat wallet_answer | ShowModal bool | Inject

fun wallet_step :: "(code_units \<Rightarrow> claims option) \<Rightarrow> wallet_state \<Rightarrow> wallet_event \<Rightarrow> wallet_state" where
  "wallet_step parse s Restore = restore_wallet s"
| "wallet_step parse s (ConnectTo t) = handleConnect t (wallet_address s) s"
| "wallet_step parse s Disconnect = handleDisconnect s"
| "wallet_step parse s (Settle i a) = (if i < length (tasks s)
     then resume parse (tasks s ! i) a (s\<lparr>tasks := remove_at i (tasks s)\<rparr>) else s)"
| "wallet_step parse s (ShowModal b) = s\<lparr>modal_visible := b\<rparr>"
| "wallet_step parse s Inject = s\<lparr>injected := Some Extension\<rparr>"

definition initial_wallet :: "string option \<Rightarrow> string option \<Rightarrow> provider option \<Rightarrow> wallet_state" where
  "initial_wallet stored token present = \<lparr>wallet = None, wallet_type = None, modal_visible = False,
     wallet_address = None, ar_balance = None, stored_type = stored, injected = present, id_token = token,
     user_info = None, tasks = []\<rparr>"

text \<open>A reload keeps the storage; the extension is injected again.\<close>

definition reload_wallet :: "wallet_state \<Rightarrow> wallet_state" where
  "reload_wallet s = initial_wallet (stored_type s) (id_token s) (Some Extension)"

section \<open>Lemmas\<close>

named_theorems wallet_simps \<open>the handlers of the wallet\<close>

lemmas wallet_handlers [wallet_simps] = restore_wallet_def handleConnect_def handleDisconnect_def
  connect_wallet_def ask_address_def wallet_connected_def set_address_def await_def
  wallet_cleared_def or_else_def

lemma wallet_constants [simp]: "arConnect \<noteq> othent" "othent \<noteq> arConnect" "wander \<noteq> arConnect" "wander \<noteq> othent"
  "arConnect \<noteq> []" "othent \<noteq> []" "wander \<noteq> []"
  by (simp_all add: arConnect_def othent_def wander_def)

text \<open>
  Without Othent: the wallet is the extension, it goes with an address and a type, and
  what is asked of it is asked while it is there.
\<close>

fun extension_task :: "task \<Rightarrow> bool" where
  "extension_task (Connecting p) = (p = Extension)"
| "extension_task (HasAddress a) = False"
| "extension_task OthentConnecting = False"
| "extension_task (Disconnecting p) = (p \<noteq> Some OthentKms)"
| "extension_task _ = True"

definition wallet_inv :: "wallet_state \<Rightarrow> bool" where
  "wallet_inv s \<longleftrightarrow> injected s \<noteq> Some OthentKms \<and> wallet s \<noteq> Some OthentKms
     \<and> (wallet s = None \<longleftrightarrow> wallet_address s = None)
     \<and> (wallet s \<noteq> None \<longrightarrow> wallet_type s = Some arConnect)
     \<and> wallet_address s \<noteq> Some [] \<and> stored_type s \<noteq> Some othent
     \<and> list_all extension_task (tasks s)
     \<and> (Addressing \<in> set (tasks s) \<longrightarrow> injected s \<noteq> None)"

text \<open>The user picks a wallet of the list, and an extension answers with an address.\<close>

fun wallet_ok :: "wallet_state \<Rightarrow> wallet_event \<Rightarrow> bool" where
  "wallet_ok s (ConnectTo t) = (t \<in> set AR_WALLETS)"
| "wallet_ok s (Settle i a) = (a \<noteq> AnAddress None \<and> a \<noteq> AnAddress (Some []))"
| "wallet_ok s e = True"

lemma provider_cases: "p \<noteq> Some OthentKms \<Longrightarrow> p = None \<or> p = Some Extension"
  by (metis option.exhaust provider.exhaust)

lemma set_remove_at: "set (remove_at i xs) \<subseteq> set xs"
  by (auto simp: remove_at_def dest: in_set_takeD in_set_dropD)

lemma wallet_inv_await:
  "wallet_inv s \<Longrightarrow> extension_task t \<Longrightarrow> (t = Addressing \<longrightarrow> injected s \<noteq> None) \<Longrightarrow> wallet_inv (await t s)"
  by (auto simp: wallet_inv_def await_def)

lemma wallet_inv_connect:
  assumes "wallet_inv s"
  shows "wallet_inv (connect_wallet seen s)"
proof (cases "injected s")
  case (Some p)
  then have "p = Extension" using assms provider_cases [of "injected s"] by (simp add: wallet_inv_def)
  moreover have "wallet_inv (await (Connecting Extension) s)" by (rule wallet_inv_await [OF assms]) simp_all
  ultimately show ?thesis using assms Some by (simp add: connect_wallet_def)
qed (use assms in \<open>simp add: connect_wallet_def\<close>)

lemma wallet_inv_modal: "wallet_inv (s\<lparr>modal_visible := b\<rparr>) \<longleftrightarrow> wallet_inv s"
  by (simp add: wallet_inv_def)

lemma wallet_inv_handleConnect: "wallet_inv s \<Longrightarrow> t \<noteq> othent \<Longrightarrow> wallet_inv (handleConnect t seen s)"
  by (simp add: handleConnect_def wallet_inv_modal wallet_inv_connect)

lemma wallet_inv_restore:
  assumes "wallet_inv s"
  shows "wallet_inv (restore_wallet s)"
proof (cases "stored_type s")
  case (Some t)
  then have "t \<noteq> othent" using assms by (auto simp: wallet_inv_def)
  then show ?thesis using wallet_inv_handleConnect [OF assms] assms Some by (simp add: restore_wallet_def)
qed (use assms in \<open>simp add: restore_wallet_def\<close>)

lemma wallet_inv_disconnect: "wallet_inv s \<Longrightarrow> wallet_inv (handleDisconnect s)"
  unfolding handleDisconnect_def
  by (rule wallet_inv_await) (auto simp: wallet_inv_def)

lemma wallet_inv_connected:
  "wallet_inv s \<Longrightarrow> injected s \<noteq> None \<Longrightarrow> a \<noteq> None \<Longrightarrow> a \<noteq> Some [] \<Longrightarrow> wallet_inv (wallet_connected a s)"
  by (auto simp: wallet_inv_def wallet_connected_def set_address_def)

lemma wallet_inv_cleared: "wallet_inv s \<Longrightarrow> wallet_inv (wallet_cleared s)"
  by (auto simp: wallet_inv_def wallet_cleared_def set_address_def or_else_def)

lemma wallet_inv_remove:
  "wallet_inv s \<Longrightarrow> wallet_inv (s\<lparr>tasks := remove_at i (tasks s)\<rparr>)"
  using set_remove_at [of i "tasks s"] by (auto simp: wallet_inv_def list_all_iff)

lemma wallet_inv_resume:
  assumes "wallet_inv s" "extension_task t" "t = Addressing \<Longrightarrow> injected s \<noteq> None"
    "a \<noteq> AnAddress None" "a \<noteq> AnAddress (Some [])"
  shows "wallet_inv (resume parse t a s)"
  using assms
proof (cases t)
  case (Connecting p)
  then have p: "p = Extension" using assms(2) by simp
  have "wallet_inv (ask_address s)"
    using provider_cases [of "injected s"] assms(1)
    by (auto simp: ask_address_def wallet_inv_def await_def split: option.splits)
  then show ?thesis using assms(1) Connecting p by simp
next
  case Addressing
  then show ?thesis using assms by (cases a) (auto intro!: wallet_inv_connected)
next
  case (Disconnecting p)
  then have "p = None \<or> p = Some Extension" using assms(2) provider_cases by simp
  then show ?thesis using assms(1) Disconnecting wallet_inv_cleared by auto
next
  case (BalanceOf x)
  then show ?thesis using assms(1) by (cases a) (auto simp: wallet_inv_def)
qed simp_all

lemma wallet_inv_step:
  assumes "wallet_inv s" "wallet_ok s e"
  shows "wallet_inv (wallet_step parse s e)"
proof (cases e)
  case (Settle i a)
  show ?thesis
  proof (cases "i < length (tasks s)")
    case True
    then have t: "tasks s ! i \<in> set (tasks s)" by simp
    then have "wallet_inv (resume parse (tasks s ! i) a (s\<lparr>tasks := remove_at i (tasks s)\<rparr>))"
      using assms Settle by (intro wallet_inv_resume wallet_inv_remove) (auto simp: wallet_inv_def list_all_iff)
    then show ?thesis using True Settle by simp
  qed (use assms Settle in simp)
next
  case Restore
  then show ?thesis using assms by (simp add: wallet_inv_restore)
next
  case (ConnectTo t)
  then show ?thesis using assms by (simp add: wallet_inv_handleConnect AR_WALLETS_def)
next
  case Disconnect
  then show ?thesis using assms by (simp add: wallet_inv_disconnect)
next
  case (ShowModal b)
  then show ?thesis using assms by (simp add: wallet_inv_modal)
next
  case Inject
  then show ?thesis using assms by (auto simp: wallet_inv_def)
qed

interpretation wallets: machine "wallet_step parse" wallet_ok wallet_inv
  by unfold_locales (rule wallet_inv_step)

lemma wallet_inv_initial:
  "stored \<noteq> Some othent \<Longrightarrow> present \<noteq> Some OthentKms \<Longrightarrow> wallet_inv (initial_wallet stored token present)"
  by (simp add: wallet_inv_def initial_wallet_def)

section \<open>Properties\<close>

text \<open>
  C11. As long as Othent is not involved, whatever the user does and in whatever order the
  wallet answers: there is a wallet exactly when there is an address, it is the
  extension, its type is arconnect, and nothing is pending that only Othent asks for.
\<close>

theorem wallet_well_formed:
  assumes "stored \<noteq> Some othent" "present \<noteq> Some OthentKms"
    "permitted wallet_ok (wallet_step parse) (initial_wallet stored token present) es"
  shows "let s = foldl (wallet_step parse) (initial_wallet stored token present) es in
    (wallet s = None \<longleftrightarrow> wallet_address s = None) \<and> wallet s \<noteq> Some OthentKms
    \<and> (wallet s = None \<or> wallet_type s = Some arConnect) \<and> list_all extension_task (tasks s)"
  using wallets.inv_run [OF wallet_inv_initial [OF assms(1,2)] assms(3)]
  by (auto simp: wallet_inv_def Let_def)

text \<open>A first visit: the dialog, the wallet of the list, its two answers.\<close>

definition first_visit :: "wallet_event list" where
  "first_visit = [ShowModal True, ConnectTo wander, Settle 0 Done, Settle 0 (AnAddress (Some ''a''))]"

definition no_reader :: "code_units \<Rightarrow> claims option" where
  "no_reader t = None"

lemma wallet_well_formed_witness:
  "let s = foldl (wallet_step no_reader) (initial_wallet None None (Some Extension)) first_visit
   in wallet s = Some Extension \<and> wallet_type s = Some arConnect"
proof -
  define s where "s = foldl (wallet_step no_reader) (initial_wallet None None (Some Extension)) first_visit"
  have p: "permitted wallet_ok (wallet_step no_reader) (initial_wallet None None (Some Extension)) first_visit"
    by code_simp
  have "(wallet s = None \<longleftrightarrow> wallet_address s = None) \<and> wallet s \<noteq> Some OthentKms
      \<and> (wallet s = None \<or> wallet_type s = Some arConnect)"
    using wallet_well_formed [of None "Some Extension", OF _ _ p] unfolding Let_def s_def by blast
  moreover have "wallet_address s \<noteq> None" unfolding s_def by code_simp
  ultimately have "wallet s = Some Extension \<and> wallet_type s = Some arConnect"
    using provider_cases [of "wallet s"] by auto
  then show ?thesis by (simp add: Let_def s_def)
qed

text \<open>
  C34. A connection survives a reload: the type that was stored leads the restored
  component to the same wallet and type, and to the address the wallet then gives.
\<close>

theorem reload_reconnects:
  assumes "injected s = Some Extension"
  shows "let c = wallet_connected (Some a) s;
      r = foldl (wallet_step parse) (reload_wallet c) [Restore, Settle 0 Done, Settle 0 (AnAddress (Some b))]
    in wallet r = wallet c \<and> wallet_type r = wallet_type c \<and> stored_type r = stored_type c
       \<and> wallet_address r = Some b \<and> (b = [] \<or> tasks r = [BalanceOf b])"
  using assms by (simp add: wallet_simps reload_wallet_def initial_wallet_def remove_at_def Let_def)

lemma reload_reconnects_witness:
  "wallet_address (foldl (wallet_step no_reader) (reload_wallet (wallet_connected (Some ''a'')
      (initial_wallet None None (Some Extension)))) [Restore, Settle 0 Done, Settle 0 (AnAddress (Some ''b''))]) = Some ''b''"
  using reload_reconnects [of "initial_wallet None None (Some Extension)" "''a''" no_reader "''b''"]
  by (simp add: initial_wallet_def Let_def)

text \<open>
  When the wallet refuses to disconnect it stays connected on the page, but it has
  been forgotten: after a reload nothing is asked of it.
\<close>

theorem refused_disconnect_forgets:
  assumes "injected s = Some Extension" "tasks s = []"
  shows "let d = foldl (wallet_step parse) s [Disconnect, Settle 0 Failure] in
    wallet d = wallet s \<and> wallet_address d = wallet_address s \<and> or_else [] (stored_type d) = []
    \<and> wallet_step parse (reload_wallet d) Restore = reload_wallet d"
  using assms
  by (auto simp: wallet_simps reload_wallet_def initial_wallet_def remove_at_def Let_def split: option.splits)

definition connected_page :: wallet_state where
  "connected_page = (initial_wallet (Some arConnect) None (Some Extension))\<lparr>wallet := Some Extension,
     wallet_address := Some ''a'', wallet_type := Some arConnect\<rparr>"

lemma refused_disconnect_forgets_witness:
  "wallet_address (foldl (wallet_step no_reader) connected_page [Disconnect, Settle 0 Failure]) = Some ''a''
   \<and> or_else [] (stored_type (foldl (wallet_step no_reader) connected_page [Disconnect, Settle 0 Failure])) = []"
  using refused_disconnect_forgets [of connected_page no_reader]
  by (simp add: connected_page_def initial_wallet_def Let_def)

text \<open>
  After a disconnection the wallet, its address and the stored type are gone and a
  reload asks for nothing, but the page keeps the type and the balance of the wallet.
\<close>

theorem disconnect_keeps_balance:
  assumes "injected s = Some Extension" "tasks s = []"
  shows "let d = foldl (wallet_step parse) s [Disconnect, Settle 0 Done] in
    wallet d = None \<and> wallet_address d = None \<and> or_else [] (stored_type d) = [] \<and> tasks d = []
    \<and> wallet_step parse d Restore = d \<and> wallet_type d = wallet_type s \<and> ar_balance d = ar_balance s"
  using assms by (auto simp: wallet_simps remove_at_def Let_def split: option.splits)

lemma disconnect_keeps_balance_witness:
  "ar_balance (foldl (wallet_step no_reader) (connected_page\<lparr>ar_balance := Some 2\<rparr>) [Disconnect, Settle 0 Done]) = Some 2"
  using disconnect_keeps_balance [of "connected_page\<lparr>ar_balance := Some 2\<rparr>" no_reader]
  by (simp add: connected_page_def initial_wallet_def Let_def)

text \<open>
  While an address is known, choosing a wallet only closes the dialog; but when the
  wallet is switched, the page, which remembers how it was first rendered, connects
  again and follows to the other address.
\<close>

theorem switch_is_followed:
  assumes "wallet_address s = Some a" "a \<noteq> []" "t \<noteq> othent" "injected s = Some Extension"
    "stored_type s = Some arConnect" "tasks s = []" "b \<noteq> []" "b \<noteq> a"
  shows "wallet_step parse s (ConnectTo t) = s\<lparr>modal_visible := False\<rparr>
    \<and> (let d = foldl (wallet_step parse) s [Restore, Settle 0 Done, Settle 0 (AnAddress (Some b))] in
       wallet_address d = Some b \<and> tasks d = [BalanceOf b])"
  using assms by (simp add: wallet_simps remove_at_def Let_def)

lemma switch_is_followed_witness:
  "wallet_address (foldl (wallet_step no_reader) connected_page
     [Restore, Settle 0 Done, Settle 0 (AnAddress (Some ''b''))]) = Some ''b''"
  using switch_is_followed [of connected_page "''a''" wander "''b''" no_reader]
  by (simp add: connected_page_def initial_wallet_def Let_def)

text \<open>
  The balances of two addresses may be answered in any order, and the one answered
  last is shown: with the address of the second, possibly, the balance of the first.
\<close>

theorem late_balance_shown:
  assumes "tasks s = [BalanceOf a, BalanceOf b]"
  shows "ar_balance (foldl (wallet_step parse) s [Settle 0 (Amount x), Settle 0 (Amount y)]) = Some (of_int y / 10 ^ 12)
    \<and> ar_balance (foldl (wallet_step parse) s [Settle 1 (Amount y), Settle 0 (Amount x)]) = Some (of_int x / 10 ^ 12)
    \<and> wallet_address (foldl (wallet_step parse) s [Settle 1 (Amount y), Settle 0 (Amount x)]) = wallet_address s"
  using assms by (simp add: remove_at_def)

text \<open>A visit on which the wallet is switched before the first balance has come.\<close>

definition switched_early :: "wallet_event list" where
  "switched_early = first_visit @ [Restore, Settle 1 Done, Settle 1 (AnAddress (Some ''b''))]"

lemma late_balance_shown_witness:
  "let s = foldl (wallet_step no_reader) (initial_wallet None None (Some Extension)) switched_early;
       d = foldl (wallet_step no_reader) s [Settle 1 (Amount 3000000000000), Settle 0 (Amount 1000000000000)]
   in wallet_address d = Some ''b'' \<and> ar_balance d = Some 1"
proof -
  define s where "s = foldl (wallet_step no_reader) (initial_wallet None None (Some Extension)) switched_early"
  have t: "tasks s = [BalanceOf ''a'', BalanceOf ''b'']" "wallet_address s = Some ''b''"
    unfolding s_def by code_simp+
  have "ar_balance (foldl (wallet_step no_reader) s [Settle 1 (Amount 3000000000000), Settle 0 (Amount 1000000000000)]) = Some 1
    \<and> wallet_address (foldl (wallet_step no_reader) s [Settle 1 (Amount 3000000000000), Settle 0 (Amount 1000000000000)]) = Some ''b''"
    using late_balance_shown [OF t(1), of no_reader 1000000000000 3000000000000] t(2)
    by (simp del: foldl_Cons)
  then show ?thesis by (simp only: Let_def s_def)
qed

text \<open>
  Connecting through Othent replaces the extension at its place; once Othent is
  disconnected neither is left, and the wallet of the list does nothing.
\<close>

theorem othent_removes_extension:
  assumes "tasks s = []" "id_token s = None"
  shows "let c = foldl (wallet_step parse) s [ConnectTo othent, Settle 0 (AProfile p)];
      d = foldl (wallet_step parse) c [Disconnect, Settle (length (tasks c)) Done]
    in wallet c = Some OthentKms \<and> injected d = None \<and> wallet d = None
      \<and> wallet_step parse d (ConnectTo wander) = d"
  using assms
  by (auto simp: wallet_simps connect_othent_def othent_connect_def profile_of_def othent_connected_def
      othent_disconnected_def remove_at_def nth_append Let_def split: option.splits)

lemma othent_removes_extension_witness:
  "wallet_step no_reader connected_page (ConnectTo othent) \<noteq> connected_page \<and>
   (let c = foldl (wallet_step no_reader) connected_page [ConnectTo othent, Settle 0 (AProfile [])] in
    injected (foldl (wallet_step no_reader) c [Disconnect, Settle (length (tasks c)) Done]) = None)"
proof
  show "wallet_step no_reader connected_page (ConnectTo othent) \<noteq> connected_page" by code_simp
  have "tasks connected_page = []" "id_token connected_page = None" by code_simp+
  from othent_removes_extension [OF this, of no_reader "[]"]
  show "let c = foldl (wallet_step no_reader) connected_page [ConnectTo othent, Settle 0 (AProfile [])] in
    injected (foldl (wallet_step no_reader) c [Disconnect, Settle (length (tasks c)) Done]) = None"
    by (simp only: Let_def)
qed

end
