(* ===== verification/WalletDialog.thy ===== *)
theory WalletDialog
  imports Machines Controls Wallet
begin

text \<open>
  The dialog of the wallets on the page (\<open>ArweaveProvider\<close>, line 1364 of \<open>bundle.js\<close>): the provider
  draws a modal while \<open>walletModalVisible\<close> is set. Handlers of the wallet, its answers, the
  Escape key and other modals of the page follow each other in any order.
\<close>

section \<open>The page\<close>

text \<open>For every mounted modal, whether it is the dialog of the wallet.\<close>

record dialog_page =
  page_wallet :: wallet_state
  page_scroll_state :: scroll_state
  of_wallet :: "bool list"

definition dialog_index :: "dialog_page \<Rightarrow> nat" where
  "dialog_index s = length (takeWhile Not (of_wallet s))"

text \<open>The provider is drawn again: the modal is mounted, unmounted or left as it is.\<close>

definition draw_dialog :: "bool \<Rightarrow> dialog_page \<Rightarrow> dialog_page" where
  "draw_dialog before s = (let now = modal_visible (page_wallet s) in
     if now \<and> \<not> before then s\<lparr>page_scroll_state := mount_modal True (page_scroll_state s),
         of_wallet := of_wallet s @ [True]\<rparr>
     else if before \<and> \<not> now then s\<lparr>page_scroll_state := unmount_modal (dialog_index s) (page_scroll_state s),
         of_wallet := remove_at (dialog_index s) (of_wallet s)\<rparr>
     else s)"

datatype page_event = OfWallet wallet_event | OpenOther bool | CloseOther nat | PressEscape

fun page_step :: "(code_units \<Rightarrow> claims option) \<Rightarrow> dialog_page \<Rightarrow> page_event \<Rightarrow> dialog_page" where
  "page_step parse s (OfWallet e) = draw_dialog (modal_visible (page_wallet s))
     (s\<lparr>page_wallet := wallet_step parse (page_wallet s) e\<rparr>)"
| "page_step parse s (OpenOther c) = s\<lparr>page_scroll_state := mount_modal c (page_scroll_state s),
     of_wallet := of_wallet s @ [False]\<rparr>"
| "page_step parse s (CloseOther i) = (if i < length (of_wallet s) \<and> \<not> of_wallet s ! i
     then s\<lparr>page_scroll_state := unmount_modal i (page_scroll_state s), of_wallet := remove_at i (of_wallet s)\<rparr>
     else s)"
| "page_step parse s PressEscape = s\<lparr>page_wallet := wallet_step parse (page_wallet s) (ShowModal False),
     page_scroll_state := escape_key (page_scroll_state s),
     of_wallet := map fst (filter (\<lambda>(w, c). \<not> c) (zip (of_wallet s) (modals (page_scroll_state s))))\<rparr>"

definition opened_page :: "string option \<Rightarrow> string option \<Rightarrow> provider option \<Rightarrow> dialog_page" where
  "opened_page stored token present = \<lparr>page_wallet = initial_wallet stored token present,
     page_scroll_state = empty_page, of_wallet = []\<rparr>"

section \<open>Lemmas\<close>

definition dialog_inv :: "dialog_page \<Rightarrow> bool" where
  "dialog_inv s \<longleftrightarrow> list_all2 (\<lambda>w c. w \<longrightarrow> c) (of_wallet s) (modals (page_scroll_state s))
     \<and> count_list (of_wallet s) True = (if modal_visible (page_wallet s) then 1 else 0)"

lemma list_all2_remove_at: "list_all2 R xs ys \<Longrightarrow> list_all2 R (remove_at i xs) (remove_at i ys)"
  by (simp add: remove_at_def list_all2_appendI list_all2_takeI list_all2_dropI)

lemma count_remove_at:
  "i < length xs \<Longrightarrow> count_list (remove_at i xs) x = count_list xs x - (if xs ! i = x then 1 else 0)"
  by (subst (2) id_take_nth_drop [of i xs]) (simp_all add: remove_at_def)

lemma first_true:
  "True \<in> set bs \<Longrightarrow> length (takeWhile Not bs) < length bs \<and> bs ! length (takeWhile Not bs)"
  by (induction bs) auto

lemma dialog_index:
  assumes "count_list (of_wallet s) True = 1"
  shows "dialog_index s < length (of_wallet s) \<and> of_wallet s ! dialog_index s"
proof -
  have "True \<in> set (of_wallet s)" using assms count_list_0_iff [of "of_wallet s" True] by auto
  then show ?thesis unfolding dialog_index_def by (rule first_true)
qed

lemma escape_pairs:
  "list_all2 (\<lambda>w c. w \<longrightarrow> c) ws cs \<Longrightarrow>
    list_all2 (\<lambda>w c. w \<longrightarrow> c) (map fst (filter (\<lambda>(w, c). \<not> c) (zip ws cs))) (filter Not cs)
    \<and> count_list (map fst (filter (\<lambda>(w, c). \<not> c) (zip ws cs))) True = 0"
  by (induction rule: list_all2_induct) auto

lemma scroll_moves [simp]:
  "modals (mount_modal c s) = modals s @ [c]"
  "i < length (modals s) \<Longrightarrow> modals (unmount_modal i s) = remove_at i (modals s)"
  "modals (escape_key s) = filter Not (modals s)"
  by (simp_all add: mount_modal_def unmount_modal_def escape_key_def Let_def)

lemma draw_inv:
  assumes "list_all2 (\<lambda>w c. w \<longrightarrow> c) (of_wallet s) (modals (page_scroll_state s))"
    and "count_list (of_wallet s) True = (if before then 1 else 0)"
  shows "dialog_inv (draw_dialog before s)"
proof -
  let ?now = "modal_visible (page_wallet s)"
  consider "?now" "\<not> before" | "\<not> ?now" "before" | "?now = before" by blast
  then show ?thesis
  proof cases
    case 1
    then show ?thesis using assms
      by (simp add: draw_dialog_def dialog_inv_def list_all2_appendI)
  next
    case 2
    then have i: "dialog_index s < length (of_wallet s)" "of_wallet s ! dialog_index s"
      using assms(2) dialog_index [of s] by simp_all
    moreover have "length (of_wallet s) = length (modals (page_scroll_state s))"
      using assms(1) by (rule list_all2_lengthD)
    ultimately show ?thesis using 2 assms
      by (simp add: draw_dialog_def dialog_inv_def list_all2_remove_at count_remove_at)
  next
    case 3
    then show ?thesis using assms by (simp add: draw_dialog_def dialog_inv_def)
  qed
qed

lemma draw_keeps_others:
  "count_list (of_wallet s) True = (if before then 1 else 0) \<Longrightarrow>
    count_list (of_wallet (draw_dialog before s)) False = count_list (of_wallet s) False"
  using dialog_index [of s] by (auto simp: draw_dialog_def Let_def count_remove_at)

lemma dialog_inv_step:
  assumes "dialog_inv s"
  shows "dialog_inv (page_step parse s e)"
proof (cases e)
  case (OfWallet v)
  moreover have "dialog_inv (draw_dialog (modal_visible (page_wallet s))
      (s\<lparr>page_wallet := wallet_step parse (page_wallet s) v\<rparr>))"
    by (rule draw_inv) (use assms in \<open>simp_all add: dialog_inv_def\<close>)
  ultimately show ?thesis by simp
next
  case (OpenOther c)
  then show ?thesis using assms by (simp add: dialog_inv_def list_all2_appendI)
next
  case (CloseOther i)
  moreover have "length (of_wallet s) = length (modals (page_scroll_state s))"
    using assms list_all2_lengthD by (auto simp: dialog_inv_def)
  ultimately show ?thesis using assms
    by (simp add: dialog_inv_def list_all2_remove_at count_remove_at)
next
  case PressEscape
  then show ?thesis using assms escape_pairs by (simp add: dialog_inv_def)
qed

interpretation dialogs: started "page_step parse" "\<lambda>_ _. True" dialog_inv "opened_page stored token present"
  for parse stored token present
proof
  show "dialog_inv (opened_page stored token present)"
    by (simp add: dialog_inv_def opened_page_def initial_wallet_def empty_page_def)
qed (rule dialog_inv_step)

text \<open>The parts of the page: what an event of the page is to the body and to the wallet.\<close>

definition passed_modals :: "(code_units \<Rightarrow> claims option) \<Rightarrow> dialog_page \<Rightarrow> page_event \<Rightarrow> overlay_event list" where
  "passed_modals parse s e = (case e of
       OfWallet v \<Rightarrow> let before = modal_visible (page_wallet s);
           now = modal_visible (wallet_step parse (page_wallet s) v) in
         if now \<and> \<not> before then [MountModal True]
         else if before \<and> \<not> now then [UnmountModal (dialog_index s)] else []
     | OpenOther c \<Rightarrow> [MountModal c]
     | CloseOther i \<Rightarrow> if i < length (of_wallet s) \<and> \<not> of_wallet s ! i then [UnmountModal i] else []
     | PressEscape \<Rightarrow> [EscapeKey])"

definition passed_wallet :: "dialog_page \<Rightarrow> page_event \<Rightarrow> wallet_event list" where
  "passed_wallet s e = (case e of OfWallet v \<Rightarrow> [v] | PressEscape \<Rightarrow> [ShowModal False] | _ \<Rightarrow> [])"

fun page_ok :: "dialog_page \<Rightarrow> page_event \<Rightarrow> bool" where
  "page_ok s (OfWallet v) = wallet_ok (page_wallet s) v"
| "page_ok s e = True"

lemma draw_keeps_wallet [simp]: "page_wallet (draw_dialog before s) = page_wallet s"
  by (simp add: draw_dialog_def Let_def)

lemma locked_empty: "locked_right empty_page"
  by (simp add: empty_page_def locked_right_def counted_def)

interpretation modal_part: embedded_machine "page_step parse" "\<lambda>_ _. True" "opened_page stored token present"
  scroll_step "\<lambda>s e. modal_only e" empty_page page_scroll_state "passed_modals parse" locked_right
  for parse stored token present
proof
  show "page_scroll_state (opened_page stored token present) = empty_page" by (simp add: opened_page_def)
  show "page_scroll_state (page_step parse s e) = foldl scroll_step (page_scroll_state s) (passed_modals parse s e)"
    for s e
    by (cases e) (simp_all add: passed_modals_def draw_dialog_def dialog_index_def Let_def del: wallet_step.simps)
  show "permitted (\<lambda>s e. modal_only e) scroll_step (page_scroll_state s) (passed_modals parse s e)" for s e
    by (cases e) (simp_all add: passed_modals_def Let_def del: wallet_step.simps)
qed (rule locked_empty)

interpretation wallet_part: embedding "page_step parse" page_ok "opened_page stored token present"
  "wallet_step parse" wallet_ok "initial_wallet stored token present" page_wallet passed_wallet
  for parse stored token present
proof
  show "page_wallet (opened_page stored token present) = initial_wallet stored token present"
    by (simp add: opened_page_def)
  show "page_wallet (page_step parse s e) = foldl (wallet_step parse) (page_wallet s) (passed_wallet s e)" for s e
    by (cases e) (simp_all add: passed_wallet_def del: wallet_step.simps)
  show "permitted wallet_ok (wallet_step parse) (page_wallet s) (passed_wallet s e)" if "page_ok s e" for s e
    using that by (cases e) (simp_all add: passed_wallet_def del: wallet_ok.simps, simp)
qed

lemma count_true_other: "count_list bs True = n \<Longrightarrow> length bs = n + count_list bs False"
  by (induction bs arbitrary: n) (auto split: if_splits)

section \<open>Properties\<close>

text \<open>
  C12. Whatever the user, the wallets and the other modals of the page do, and in whatever order:
  the dialog of the wallets is on the page at most once and exactly while it is to be visible, the page
  is held while it is there, and the page can be scrolled again exactly when neither it nor another
  modal is open; picking a wallet and Escape close it at once, without waiting for an answer.
\<close>

theorem wallet_dialog_holds_page:
  "let s = foldl (page_step parse) (opened_page stored token present) es;
       held = (\<lambda>s. overflowY (page_scroll_state s) = ''hidden'');
       others = (\<lambda>s. count_list (of_wallet s) False)
   in count_list (of_wallet s) True = (if modal_visible (page_wallet s) then 1 else 0)
    \<and> length (modals (page_scroll_state s)) = length (of_wallet s)
    \<and> (held s \<longleftrightarrow> modal_visible (page_wallet s) \<or> others s > 0)
    \<and> (held (page_step parse s (OfWallet (ConnectTo t))) \<longleftrightarrow> others s > 0)
    \<and> True \<notin> set (of_wallet (page_step parse s PressEscape))"
proof -
  have all: "count_list (of_wallet s) True = (if modal_visible (page_wallet s) then 1 else 0)
      \<and> length (modals (page_scroll_state s)) = length (of_wallet s)
      \<and> (overflowY (page_scroll_state s) = ''hidden''
           \<longleftrightarrow> modal_visible (page_wallet s) \<or> count_list (of_wallet s) False > 0)"
    if "dialog_inv s" "locked_right (page_scroll_state s)" for s
  proof -
    have "length (modals (page_scroll_state s)) = length (of_wallet s)"
      using that(1) list_all2_lengthD by (metis dialog_inv_def)
    moreover have "count_list (of_wallet s) True = (if modal_visible (page_wallet s) then 1 else 0)"
      using that by (simp add: dialog_inv_def)
    moreover have "overflowY (page_scroll_state s) = ''hidden'' \<longleftrightarrow> modals (page_scroll_state s) \<noteq> []"
      using that(2) by (simp add: locked_right_def)
    ultimately show ?thesis using count_true_other [of "of_wallet s"]
      by (auto simp flip: length_0_conv split: if_splits)
  qed
  define s where "s = foldl (page_step parse) (opened_page stored token present) es"
  have s: "dialog_inv s" "locked_right (page_scroll_state s)"
    unfolding s_def by (rule dialogs.inv_trace [OF permitted_all] modal_part.whole.inv_trace [OF permitted_all])+
  let ?c = "page_step parse s (OfWallet (ConnectTo t))" and ?e = "page_step parse s PressEscape"
  have c: "dialog_inv (page_step parse s v)" "locked_right (page_scroll_state (page_step parse s v))" for v
    by (rule dialogs.inv_step [OF s(1) TrueI] modal_part.whole.inv_step [OF s(2) TrueI])+
  have gone: "\<not> modal_visible (page_wallet ?c)" "\<not> modal_visible (page_wallet ?e)"
    by (simp_all add: draw_dialog_def handleConnect_def Let_def)
  have same: "count_list (of_wallet ?c) False = count_list (of_wallet s) False"
    using s(1) draw_keeps_others [of "s\<lparr>page_wallet := wallet_step parse (page_wallet s) (ConnectTo t)\<rparr>"]
    by (simp add: dialog_inv_def del: wallet_step.simps)
  have "True \<notin> set (of_wallet ?e)"
    using all [OF c, of PressEscape] gone(2) by (metis count_list_0_iff)
  then show ?thesis using all [OF s] all [OF c, of "OfWallet (ConnectTo t)"] gone(1) same
    by (simp add: Let_def flip: s_def del: page_step.simps)
qed

text \<open>
  On the page the wallet and the body do what they do alone: after any events the wallet is in a
  state its own handlers lead to, the body in one that modals alone lead to; so without Othent
  there is a wallet on the page exactly when there is an address, whatever the modals do.
\<close>

theorem page_moves_its_parts:
  assumes "permitted page_ok (page_step parse) (opened_page stored token present) es"
  shows "let s = foldl (page_step parse) (opened_page stored token present) es in
    (\<exists>ws. permitted wallet_ok (wallet_step parse) (initial_wallet stored token present) ws
       \<and> page_wallet s = foldl (wallet_step parse) (initial_wallet stored token present) ws)
    \<and> (\<exists>ms. list_all modal_only ms \<and> page_scroll_state s = foldl scroll_step empty_page ms)
    \<and> (stored \<noteq> Some othent \<and> present \<noteq> Some OthentKms \<longrightarrow>
        (wallet (page_wallet s) = None \<longleftrightarrow> wallet_address (page_wallet s) = None))"
proof -
  let ?s = "foldl (page_step parse) (opened_page stored token present) es"
  have "reachable page_ok (page_step parse) (opened_page stored token present) ?s"
    using assms by (auto simp: reachable_iff)
  from wallet_part.part_reached [OF this]
  obtain ws where ws: "permitted wallet_ok (wallet_step parse) (initial_wallet stored token present) ws"
    "page_wallet ?s = foldl (wallet_step parse) (initial_wallet stored token present) ws"
    by (auto simp: reachable_iff)
  have "reachable (\<lambda>_ _. True) (page_step parse) (opened_page stored token present) ?s"
    by (rule reachable_run [OF reachable.start permitted_all])
  from modal_part.part_reached [OF this]
  obtain ms where ms: "permitted (\<lambda>s e. modal_only e) scroll_step empty_page ms" "page_scroll_state ?s = foldl scroll_step empty_page ms"
    by (auto simp: reachable_iff)
  have "list_all modal_only es" if "permitted (\<lambda>s e. modal_only e) scroll_step s es" for s es
    using that by (induction es arbitrary: s) auto
  then have "list_all modal_only ms" using ms(1) .
  moreover have "wallet (page_wallet ?s) = None \<longleftrightarrow> wallet_address (page_wallet ?s) = None"
    if "stored \<noteq> Some othent" "present \<noteq> Some OthentKms"
    using wallets.inv_run [OF wallet_inv_initial [OF that] ws(1)] ws(2) by (simp add: wallet_inv_def)
  ultimately show ?thesis using ws ms(2) by (auto simp: Let_def)
qed

text \<open>The visitor opens the list, picks the wallet, and the extension answers while another modal is open.\<close>

definition picked :: "page_event list" where
  "picked = [OfWallet (ShowModal True), OpenOther False, OfWallet (ConnectTo wander), PressEscape,
     OfWallet (Settle 0 Done), OfWallet (Settle 0 (AnAddress (Some ''a'')))]"

theorem page_moves_its_parts_witness:
  "wallet (page_wallet (foldl (page_step (\<lambda>_. None)) (opened_page None None (Some Extension)) picked)) = Some Extension
    \<and> wallet_address (page_wallet (foldl (page_step (\<lambda>_. None)) (opened_page None None (Some Extension)) picked)) \<noteq> None"
proof -
  have "permitted page_ok (page_step (\<lambda>_. None)) (opened_page None None (Some Extension)) picked" by code_simp
  moreover have w: "wallet (page_wallet (foldl (page_step (\<lambda>_. None)) (opened_page None None (Some Extension)) picked)) = Some Extension"
    by code_simp
  ultimately show ?thesis
    using page_moves_its_parts [of "\<lambda>_. None" None None "Some Extension" picked] by (simp add: Let_def)
qed

end
