(* ===== verification/Json.thy ===== *)
theory Json
  imports Format "HOL-Library.Multiset"
begin

text \<open>
  \<open>JSON.parse\<close> and \<open>JSON.stringify\<close> with four blanks of indentation, from the standard of
  the language, as the JSON tree uses them. The type of numbers is a parameter with its
  reading and printing. Texts are the strings of \<open>JS_Prelude\<close>, so that an escape sequence
  of a code unit above 255 is not read.
\<close>

section \<open>Values\<close>

datatype 'n json =
    Null
  | Truth bool
  | Number 'n
  | Text string
  | Items "'n json list"
  | Members "(string \<times> 'n json) list"

text \<open>
  The members of an object in the order of its properties: a repeated key keeps its
  place and takes the last value, and keys that are array indices come first, by number.
\<close>

fun put_member :: "string \<Rightarrow> 'v \<Rightarrow> (string \<times> 'v) list \<Rightarrow> (string \<times> 'v) list" where
  "put_member k v [] = [(k, v)]"
| "put_member k v ((l, w) # es) = (if k = l then (k, v) # es else (l, w) # put_member k v es)"

definition is_index_key :: "string \<Rightarrow> bool" where
  "is_index_key k \<longleftrightarrow> k \<noteq> [] \<and> list_all is_digit k \<and> (k = ''0'' \<or> hd k \<noteq> CHR ''0'') \<and>
     digits_val k < 2 ^ 32 - 1"

definition object_of :: "(string \<times> 'v) list \<Rightarrow> (string \<times> 'v) list" where
  "object_of es = (let ds = foldl (\<lambda>m (k, v). put_member k v m) [] es in
     sort_key (digits_val \<circ> fst) (filter (is_index_key \<circ> fst) ds) @ filter (Not \<circ> is_index_key \<circ> fst) ds)"

section \<open>Reading\<close>

definition is_json_space :: "char \<Rightarrow> bool" where
  "is_json_space c \<longleftrightarrow> c = CHR '' '' \<or> c = CHR 0x09 \<or> c = CHR 0x0A \<or> c = CHR 0x0D"

abbreviation skip :: "string \<Rightarrow> string" where
  "skip \<equiv> dropWhile is_json_space"

text \<open>The parts of a number that a text starts with.\<close>

definition sign_part :: "string \<Rightarrow> string" where
  "sign_part s = (if s \<noteq> [] \<and> hd s = CHR ''-'' then ''-'' else [])"

definition int_part :: "string \<Rightarrow> string" where
  "int_part s = (if s \<noteq> [] \<and> hd s = CHR ''0'' then ''0'' else takeWhile is_digit s)"

definition frac_part :: "string \<Rightarrow> string" where
  "frac_part s = (if s \<noteq> [] \<and> hd s = CHR ''.'' \<and> takeWhile is_digit (tl s) \<noteq> []
     then CHR ''.'' # takeWhile is_digit (tl s) else [])"

definition exp_sign :: "string \<Rightarrow> string" where
  "exp_sign s = (if s \<noteq> [] \<and> (hd s = CHR ''+'' \<or> hd s = CHR ''-'') then [hd s] else [])"

definition exp_part :: "string \<Rightarrow> string" where
  "exp_part s = (let t = drop (length (exp_sign (tl s))) (tl s) in
     if s \<noteq> [] \<and> (hd s = CHR ''e'' \<or> hd s = CHR ''E'') \<and> takeWhile is_digit t \<noteq> []
     then hd s # exp_sign (tl s) @ takeWhile is_digit t else [])"

definition scan_number :: "string \<Rightarrow> (string \<times> string) option" where
  "scan_number s = (let a = drop (length (sign_part s)) s; b = drop (length (int_part a)) a;
       c = drop (length (frac_part b)) b; d = drop (length (exp_part c)) c
     in if int_part a = [] then None else Some (sign_part s @ int_part a @ frac_part b @ exp_part c, d))"

definition hex_value :: "char \<Rightarrow> nat option" where
  "hex_value c = (let n = of_char c in
     if 48 \<le> n \<and> n \<le> 57 then Some (n - 48) else if 97 \<le> n \<and> n \<le> 102 then Some (n - 87)
     else if 65 \<le> n \<and> n \<le> 70 then Some (n - 55) else None)"

definition hex4 :: "string \<Rightarrow> nat option" where
  "hex4 s = (if length s = 4 \<and> list_all (\<lambda>c. hex_value c \<noteq> None) s
     then Some (foldl (\<lambda>n c. 16 * n + the (hex_value c)) 0 s) else None)"

definition unescaped :: "char \<Rightarrow> char option" where
  "unescaped c = map_of [(CHR 0x22, CHR 0x22), (CHR 0x5C, CHR 0x5C), (CHR ''/'', CHR ''/''),
     (CHR ''b'', CHR 0x08), (CHR ''f'', CHR 0x0C), (CHR ''n'', CHR 0x0A), (CHR ''r'', CHR 0x0D),
     (CHR ''t'', CHR 0x09)] c"

definition json_quote :: char where
  "json_quote = CHR 0x22"

definition backslash :: char where
  "backslash = CHR 0x5C"

text \<open>The rest of a string after its opening quote.\<close>

function read_string :: "string \<Rightarrow> (string \<times> string) option" where
  "read_string s = (case s of [] \<Rightarrow> None | c # t \<Rightarrow>
     if c = json_quote then Some ([], t)
     else if c = backslash then (case t of [] \<Rightarrow> None | e # u \<Rightarrow>
       (case unescaped e of Some d \<Rightarrow> map_option (apfst ((#) d)) (read_string u)
        | None \<Rightarrow> if e \<noteq> CHR ''u'' then None else
          (case hex4 (take 4 u) of
             Some n \<Rightarrow> if n < 256 then map_option (apfst ((#) (char_of n))) (read_string (drop 4 u)) else None
           | None \<Rightarrow> None)))
     else if of_char c < (32 :: nat) then None
     else map_option (apfst ((#) c)) (read_string t))"
  by auto
termination
  by (relation "measure length") auto

declare read_string.simps [simp del]

text \<open>
  A value at the start of a text, with what follows it; the first argument reads numbers,
  the second bounds the depth of the recursion.
\<close>

fun read_value :: "(string \<Rightarrow> 'n) \<Rightarrow> nat \<Rightarrow> string \<Rightarrow> ('n json \<times> string) option"
  and read_items :: "(string \<Rightarrow> 'n) \<Rightarrow> nat \<Rightarrow> string \<Rightarrow> ('n json list \<times> string) option"
  and read_members :: "(string \<Rightarrow> 'n) \<Rightarrow> nat \<Rightarrow> string \<Rightarrow> ((string \<times> 'n json) list \<times> string) option"
where
  "read_value num 0 s = None"
| "read_value num (Suc n) s = (case skip s of [] \<Rightarrow> None | c # t \<Rightarrow>
     if c = CHR ''['' then
       (case skip t of [] \<Rightarrow> None | d # u \<Rightarrow>
          if d = CHR '']'' then Some (Items [], u) else map_option (apfst Items) (read_items num n (d # u)))
     else if c = CHR ''{'' then
       (case skip t of [] \<Rightarrow> None | d # u \<Rightarrow>
          if d = CHR ''}'' then Some (Members [], u)
          else map_option (apfst (\<lambda>es. Members (object_of es))) (read_members num n (d # u)))
     else if c = json_quote then map_option (apfst Text) (read_string t)
     else if starts_with (c # t) ''null'' then Some (Null, drop 4 (c # t))
     else if starts_with (c # t) ''true'' then Some (Truth True, drop 4 (c # t))
     else if starts_with (c # t) ''false'' then Some (Truth False, drop 5 (c # t))
     else map_option (apfst (\<lambda>w. Number (num w))) (scan_number (c # t)))"
| "read_items num 0 s = None"
| "read_items num (Suc n) s = (case read_value num n s of None \<Rightarrow> None | Some (v, r) \<Rightarrow>
     (case skip r of [] \<Rightarrow> None | c # t \<Rightarrow>
        if c = CHR '','' then map_option (apfst ((#) v)) (read_items num n t)
        else if c = CHR '']'' then Some ([v], t) else None))"
| "read_members num 0 s = None"
| "read_members num (Suc n) s = (case skip s of [] \<Rightarrow> None | q # s1 \<Rightarrow>
     if q \<noteq> json_quote then None else case read_string s1 of None \<Rightarrow> None | Some (k, s2) \<Rightarrow>
     (case skip s2 of [] \<Rightarrow> None | d # s3 \<Rightarrow> if d \<noteq> CHR '':'' then None else
     (case read_value num n s3 of None \<Rightarrow> None | Some (v, r) \<Rightarrow>
     (case skip r of [] \<Rightarrow> None | c # t \<Rightarrow>
        if c = CHR '','' then map_option (apfst ((#) (k, v))) (read_members num n t)
        else if c = CHR ''}'' then Some ([(k, v)], t) else None))))"

text \<open>Every level takes a character at least, so that this depth is enough.\<close>

definition JSON_parse :: "(string \<Rightarrow> 'n) \<Rightarrow> string \<Rightarrow> 'n json option" where
  "JSON_parse num s = (case read_value num (Suc (length s)) s of
       Some (v, r) \<Rightarrow> if skip r = [] then Some v else None | None \<Rightarrow> None)"

section \<open>Printing\<close>

definition hex_lower :: "nat \<Rightarrow> char" where
  "hex_lower d = ''0123456789abcdef'' ! d"

definition quote_char :: "char \<Rightarrow> string" where
  "quote_char c = (case map_of [(CHR 0x22, CHR 0x22), (CHR 0x5C, CHR 0x5C), (CHR 0x08, CHR ''b''),
       (CHR 0x0C, CHR ''f''), (CHR 0x0A, CHR ''n''), (CHR 0x0D, CHR ''r''), (CHR 0x09, CHR ''t'')] c of
     Some d \<Rightarrow> [backslash, d]
   | None \<Rightarrow> if of_char c < (32 :: nat)
       then [backslash, CHR ''u'', CHR ''0'', CHR ''0'', hex_lower (of_char c div 16), hex_lower (of_char c mod 16)]
       else [c])"

definition quote_text :: "string \<Rightarrow> string" where
  "quote_text s = json_quote # concat (map quote_char s) @ [json_quote]"

definition pad :: "nat \<Rightarrow> string" where
  "pad n = newline # replicate n CHR '' ''"

fun print_json :: "('n \<Rightarrow> string) \<Rightarrow> nat \<Rightarrow> 'n json \<Rightarrow> string" where
  "print_json sh n Null = ''null''"
| "print_json sh n (Truth b) = (if b then ''true'' else ''false'')"
| "print_json sh n (Number x) = sh x"
| "print_json sh n (Text s) = quote_text s"
| "print_json sh n (Items vs) = (if vs = [] then ''[]'' else
     CHR ''['' # pad (n + 4) @ join (CHR '','' # pad (n + 4)) (map (print_json sh (n + 4)) vs) @ pad n @ '']'')"
| "print_json sh n (Members es) = (if es = [] then ''{}'' else
     CHR ''{'' # pad (n + 4) @ join (CHR '','' # pad (n + 4))
       (map (\<lambda>(k, v). quote_text k @ '': '' @ print_json sh (n + 4) v) es) @ pad n @ ''}'')"

definition JSON_stringify :: "('n \<Rightarrow> string) \<Rightarrow> 'n json \<Rightarrow> string" where
  "JSON_stringify sh v = print_json sh 0 v"

section \<open>Lemmas on sizes\<close>

text \<open>The characters of the texts in a value, and one for each node.\<close>

fun json_size :: "'n json \<Rightarrow> nat" where
  "json_size (Text s) = Suc (length s)"
| "json_size (Items vs) = Suc (sum_list (map json_size vs))"
| "json_size (Members es) = Suc (sum_list (map (\<lambda>(k, v). json_size v) es))"
| "json_size v = 1"

lemma read_string_shorter: "read_string s = Some (x, r) \<Longrightarrow> length x + length r < length s"
proof (induction s arbitrary: x r rule: read_string.induct)
  case (1 s)
  show ?case
  proof (cases s)
    case Nil
    then show ?thesis using 1(4) by (simp add: read_string.simps)
  next
    case (Cons c t)
    then show ?thesis
      using 1(4) 1(1,2,3) [OF Cons]
      by (subst (asm) read_string.simps)
        (fastforce split: if_splits list.splits option.splits simp: apfst_def map_prod_def)
  qed
qed

lemma scan_number_shorter: "scan_number s = Some (u, r) \<Longrightarrow> length r < length s"
proof -
  assume a: "scan_number s = Some (u, r)"
  define b where "b = drop (length (sign_part s)) s"
  have i: "int_part b \<noteq> []" using a by (auto simp: scan_number_def Let_def b_def split: if_splits)
  then have "b \<noteq> []" by (auto simp: int_part_def)
  then have "length (drop (length (int_part b)) b) < length b" using i by simp
  moreover have "length r \<le> length (drop (length (int_part b)) b)"
    using a by (auto simp: scan_number_def Let_def b_def split: if_splits)
  moreover have "length b \<le> length s" by (simp add: b_def)
  ultimately show ?thesis by linarith
qed

lemma put_member_sum:
  "sum_list (map (\<lambda>(k, v). f v) (put_member k v es)) \<le> f v + (sum_list (map (\<lambda>(k, v). f v) es) :: nat)"
  by (induction es) auto

lemma put_members_sum:
  "sum_list (map (\<lambda>(k, v). f v) (foldl (\<lambda>m (k, v). put_member k v m) m es)) \<le>
   sum_list (map (\<lambda>(k, v). f v) m) + (sum_list (map (\<lambda>(k, v). f v) es) :: nat)"
proof (induction es arbitrary: m)
  case (Cons e es)
  obtain k v where e: "e = (k, v)" by fastforce
  show ?case using Cons [of "put_member k v m"] put_member_sum [of f k v m] by (simp add: e)
qed simp

lemma sum_sort_key: "sum_list (map g (sort_key h xs)) = (sum_list (map g xs) :: nat)"
  by (metis mset_map mset_sort sum_mset_sum_list)

lemma sum_filters: "sum_list (map g (filter P xs)) + sum_list (map g (filter (Not \<circ> P) xs)) = (sum_list (map g xs) :: nat)"
  by (induction xs) auto

lemma object_of_sum:
  "sum_list (map (\<lambda>(k, v). f v) (object_of es)) \<le> (sum_list (map (\<lambda>(k, v). f v) es) :: nat)"
  using put_members_sum [of f "[]" es] sum_filters [of "\<lambda>(k, v). f v" "is_index_key \<circ> fst"]
  by (simp add: object_of_def Let_def sum_sort_key comp_assoc)

lemma skip_shorter: "skip s = c # t \<Longrightarrow> length t < length s"
  using length_dropWhile_le [of is_json_space s] by simp

text \<open>What is read off a text is smaller than the text it takes.\<close>

lemma read_sizes:
  "read_value num n s = Some (v, r) \<Longrightarrow> json_size v + length r \<le> length s"
  and read_items_sizes: "read_items num n s = Some (vs, r) \<Longrightarrow> Suc (sum_list (map json_size vs)) + length r \<le> length s"
  and read_members_sizes: "read_members num n s = Some (es, r) \<Longrightarrow> Suc (sum_list (map (\<lambda>(k, v). json_size v) es)) + length r \<le> length s"
proof (induction num n s and num n s and num n s arbitrary: v r and vs r and es r
    rule: read_value_read_items_read_members.induct)
  case (2 num n s)
  obtain c t where ct: "skip s = c # t" using 2(3) by (cases "skip s") auto
  note l = skip_shorter [OF ct]
  consider (items) "c = CHR ''[''" | (members) "c = CHR ''{''" | (quoted) "c = json_quote"
    | (other) "c \<noteq> CHR ''[''" "c \<noteq> CHR ''{''" "c \<noteq> json_quote" by blast
  then show ?case
  proof cases
    case items
    then obtain d u where du: "skip t = d # u" using 2(3) ct by (cases "skip t") auto
    show ?thesis
      using 2(1) [OF ct items du] 2(3) ct items du l skip_shorter [OF du]
        length_dropWhile_le [of is_json_space t]
      by (auto split: if_splits simp: du)
  next
    case members
    then have nc: "c \<noteq> CHR ''[''" by simp
    then obtain d u where du: "skip t = d # u" using 2(3) ct members by (cases "skip t") auto
    show ?thesis
    proof (cases "d = CHR ''}''")
      case True
      then show ?thesis using 2(3) ct members du l skip_shorter [OF du] by auto
    next
      case False
      then obtain es where es: "read_members num n (d # u) = Some (es, r)" "v = Members (object_of es)"
        using 2(3) ct members du by auto
      then show ?thesis
        using 2(2) [OF ct nc members du False es(1)] object_of_sum [of json_size es] l skip_shorter [OF du]
        by simp
    qed
  next
    case quoted
    then show ?thesis using 2(3) ct l read_string_shorter
      by (fastforce simp: json_quote_def)
  next
    case other
    then show ?thesis
      using 2(3) ct l scan_number_shorter [of "c # t"] by (fastforce split: if_splits)
  qed
next
  case (4 num n s)
  obtain v r1 where v: "read_value num n s = Some (v, r1)" using 4(3) by (cases "read_value num n s") auto
  obtain c t where ct: "skip r1 = c # t" using 4(3) v by (cases "skip r1") auto
  show ?case
    using 4(1) [OF v] 4(2) [OF v refl ct] 4(3) v ct skip_shorter [OF ct]
    by (fastforce split: if_splits)
next
  case (6 num n s)
  obtain q s1 where q: "skip s = q # s1" using 6(3) by (cases "skip s") auto
  obtain k s2 where k: "read_string s1 = Some (k, s2)" "q = json_quote"
    using 6(3) q by (cases "read_string s1") (auto split: if_splits)
  obtain d s3 where d: "skip s2 = d # s3" "d = CHR '':''"
    using 6(3) q k by (cases "skip s2") (auto split: if_splits)
  obtain v r1 where v: "read_value num n s3 = Some (v, r1)"
    using 6(3) q k d by (cases "read_value num n s3") (auto split: if_splits)
  obtain c t where ct: "skip r1 = c # t" using 6(3) q k d v by (cases "skip r1") auto
  have l: "length s1 < length s" "length s2 < length s1" "length s3 < length s2" "length t < length r1"
    using skip_shorter [OF ct] skip_shorter [OF q] skip_shorter [OF d(1)] read_string_shorter [OF k(1)]
    by simp_all
  show ?case
    using 6(1) [of q s1 "(k, s2)" k s2 d s3] 6(2) [of q s1 "(k, s2)" k s2 d s3 "(v, r1)" v r1 c t] 6(3) q k d v ct l
    by (fastforce split: if_splits)
qed simp_all

lemma json_size_pos [simp]: "0 < json_size v"
  by (cases v) simp_all

text \<open>A bound of as many levels as characters are taken is enough.\<close>

lemma read_enough:
  "read_value num n s = Some (v, r) \<Longrightarrow> length s \<le> m + length r \<Longrightarrow> read_value num m s = Some (v, r)"
  and read_items_enough: "read_items num n s = Some (vs, r) \<Longrightarrow> length s \<le> m + length r \<Longrightarrow> read_items num m s = Some (vs, r)"
  and read_members_enough: "read_members num n s = Some (es, r) \<Longrightarrow> length s \<le> m + length r \<Longrightarrow> read_members num m s = Some (es, r)"
proof (induction num n s and num n s and num n s arbitrary: v r m and vs r m and es r m
    rule: read_value_read_items_read_members.induct)
  case (2 num n s)
  have "length r < length s" using read_sizes [OF 2(3)] json_size_pos [of v] by linarith
  then obtain m' where m: "m = Suc m'" using 2(4) by (cases m) auto
  obtain c t where ct: "skip s = c # t" using 2(3) by (cases "skip s") auto
  note l = skip_shorter [OF ct]
  consider (items) "c = CHR ''[''" | (members) "c = CHR ''{''" | (other) "c \<noteq> CHR ''[''" "c \<noteq> CHR ''{''" by blast
  then show ?case
  proof cases
    case items
    then obtain d u where du: "skip t = d # u" using 2(3) ct by (cases "skip t") auto
    show ?thesis
    proof (cases "d = CHR '']''")
      case True
      then show ?thesis using 2(3) ct items du by (simp add: m)
    next
      case False
      then obtain ws where ws: "read_items num n (d # u) = Some (ws, r)" "v = Items ws"
        using 2(3) ct items du by auto
      have "read_items num m' (d # u) = Some (ws, r)"
        using 2(1) [OF ct items du False ws(1), of m'] 2(4) m l skip_shorter [OF du] by simp
      then show ?thesis using ct items du False ws(2) by (simp add: m)
    qed
  next
    case members
    then have nc: "c \<noteq> CHR ''[''" by simp
    then obtain d u where du: "skip t = d # u" using 2(3) ct members by (cases "skip t") auto
    show ?thesis
    proof (cases "d = CHR ''}''")
      case True
      then show ?thesis using 2(3) ct members du by (simp add: m)
    next
      case False
      then obtain es where es: "read_members num n (d # u) = Some (es, r)" "v = Members (object_of es)"
        using 2(3) ct members du by auto
      have "read_members num m' (d # u) = Some (es, r)"
        using 2(2) [OF ct nc members du False es(1), of m'] 2(4) m l skip_shorter [OF du] by simp
      then show ?thesis using ct members du False es(2) by (simp add: m)
    qed
  next
    case other
    then show ?thesis using 2(3) ct by (simp add: m)
  qed
next
  case (4 num n s)
  have "length r < length s" using read_items_sizes [OF 4(3)] by linarith
  then obtain m' where m: "m = Suc m'" using 4(4) by (cases m) auto
  obtain v r1 where v: "read_value num n s = Some (v, r1)" using 4(3) by (cases "read_value num n s") auto
  obtain c t where ct: "skip r1 = c # t" using 4(3) v by (cases "skip r1") auto
  note l = skip_shorter [OF ct]
  show ?case
  proof (cases "c = CHR '',''")
    case True
    then obtain ws where ws: "read_items num n t = Some (ws, r)" "vs = v # ws" using 4(3) v ct by auto
    have "length r < length t" using read_items_sizes [OF ws(1)] by linarith
    then have "read_value num m' s = Some (v, r1)" "read_items num m' t = Some (ws, r)"
      using 4(1) [OF v, of m'] 4(2) [OF v refl ct True ws(1), of m'] 4(4) m l read_sizes [OF v] json_size_pos [of v]
      by linarith+
    then show ?thesis using True ct ws by (simp add: m)
  next
    case False
    then have "c = CHR '']''" "vs = [v]" "r = t" using 4(3) v ct by (auto split: if_splits)
    moreover have "read_value num m' s = Some (v, r1)"
      using 4(1) [OF v, of m'] 4(4) m l \<open>r = t\<close> by simp
    ultimately show ?thesis using ct by (simp add: m)
  qed
next
  case (6 num n s)
  have "length r < length s" using read_members_sizes [OF 6(3)] by linarith
  then obtain m' where m: "m = Suc m'" using 6(4) by (cases m) auto
  obtain q s1 where q: "skip s = q # s1" using 6(3) by (cases "skip s") auto
  obtain k s2 where k: "read_string s1 = Some (k, s2)" "q = json_quote"
    using 6(3) q by (cases "read_string s1") (auto split: if_splits)
  obtain d s3 where d: "skip s2 = d # s3" "d = CHR '':''"
    using 6(3) q k by (cases "skip s2") (auto split: if_splits)
  obtain v r1 where v: "read_value num n s3 = Some (v, r1)"
    using 6(3) q k d by (cases "read_value num n s3") (auto split: if_splits)
  obtain c t where ct: "skip r1 = c # t" using 6(3) q k d v by (cases "skip r1") auto
  have l: "length s1 < length s" "length s2 < length s1" "length s3 < length s2" "length t < length r1"
    using skip_shorter [OF ct] skip_shorter [OF q] skip_shorter [OF d(1)] read_string_shorter [OF k(1)]
    by simp_all
  have nq: "\<not> q \<noteq> json_quote" "\<not> d \<noteq> CHR '':''" using k d by simp_all
  note IH = 6(1) [OF q nq(1) k(1) refl d(1) nq(2)]
  show ?case
  proof (cases "c = CHR '',''")
    case True
    then obtain ws where ws: "read_members num n t = Some (ws, r)" "es = (k, v) # ws"
      using 6(3) q k d v ct by auto
    have "length r < length t" using read_members_sizes [OF ws(1)] by linarith
    then have "read_value num m' s3 = Some (v, r1)" "read_members num m' t = Some (ws, r)"
      using IH [OF v, of m'] 6(2) [OF q nq(1) k(1) refl d(1) nq(2) v refl ct True ws(1), of m'] 6(4) m l
        read_sizes [OF v] json_size_pos [of v]
      by linarith+
    then show ?thesis using True ct ws q k d by (simp add: m)
  next
    case False
    then have "c = CHR ''}''" "es = [(k, v)]" "r = t" using 6(3) q k d v ct by (auto split: if_splits)
    moreover have "read_value num m' s3 = Some (v, r1)"
      using IH [OF v, of m'] 6(4) m l \<open>r = t\<close> by simp
    ultimately show ?thesis using ct q k d by (simp add: m)
  qed
qed simp_all

section \<open>Lemmas on round trips\<close>

definition number_end :: "string \<Rightarrow> bool" where
  "number_end r \<longleftrightarrow> r = [] \<or> \<not> (is_digit (hd r) \<or> hd r \<in> set ''.eE+-'')"

lemma number_endD:
  assumes "number_end r" "r \<noteq> []"
  shows "\<not> is_digit (hd r)" "hd r \<noteq> CHR ''.''" "hd r \<noteq> CHR ''e''" "hd r \<noteq> CHR ''E''" "hd r \<noteq> CHR ''+''"
    "hd r \<noteq> CHR ''-''" "hd r \<noteq> CHR ''0''"
proof -
  have "is_digit CHR ''0''" by (simp add: is_digit_def)
  then show "hd r \<noteq> CHR ''0''" using assms by (metis number_end_def)
qed (use assms in \<open>auto simp: number_end_def\<close>)

lemma digits_append:
  assumes "number_end r"
  shows "takeWhile is_digit (s @ r) = takeWhile is_digit s"
proof (cases "list_all is_digit s")
  case True
  then have "takeWhile is_digit (s @ r) = s @ takeWhile is_digit r"
    by (intro takeWhile_append2) (simp add: list_all_iff)
  moreover have "takeWhile is_digit r = []" using number_endD(1) [OF assms] by (cases r) auto
  moreover have "takeWhile is_digit s = s" unfolding takeWhile_eq_all_conv using True by (simp add: list_all_iff)
  ultimately show ?thesis by (metis append_Nil2)
next
  case False
  then obtain c where "c \<in> set s" "\<not> is_digit c" by (auto simp: list_all_iff)
  then show ?thesis by (rule takeWhile_append1)
qed

lemma part_append:
  assumes "number_end r"
  shows "sign_part (s @ r) = sign_part s" "int_part (s @ r) = int_part s"
    "frac_part (s @ r) = frac_part s" "exp_sign (s @ r) = exp_sign s"
proof -
  have n: "takeWhile is_digit r = []" using digits_append [OF assms, of "[]"] by simp
  show "sign_part (s @ r) = sign_part s" "int_part (s @ r) = int_part s"
    "frac_part (s @ r) = frac_part s" "exp_sign (s @ r) = exp_sign s"
    using number_endD [OF assms] digits_append [OF assms] n
    by (cases s; auto simp: sign_part_def int_part_def frac_part_def exp_sign_def)+
qed

lemma part_length:
  "length (sign_part s) \<le> length s" "length (int_part s) \<le> length s"
  "length (frac_part s) \<le> length s" "length (exp_sign s) \<le> length s"
  using length_takeWhile_le [of is_digit s] length_takeWhile_le [of is_digit "tl s"]
  by (cases s; simp add: sign_part_def int_part_def frac_part_def exp_sign_def)+

lemma exp_part_length: "length (exp_part s) \<le> length s"
  using length_takeWhile_le [of is_digit "drop (length (exp_sign (tl s))) (tl s)"] part_length(4) [of "tl s"]
  by (cases s) (auto simp: exp_part_def Let_def)

lemma exp_part_append:
  assumes "number_end r"
  shows "exp_part (s @ r) = exp_part s"
proof (cases s)
  case Nil
  then show ?thesis using number_endD [OF assms] by (auto simp: exp_part_def Let_def)
next
  case (Cons c t)
  have "drop (length (exp_sign t)) (t @ r) = drop (length (exp_sign t)) t @ r"
    using part_length(4) [of t] by simp
  then show ?thesis
    using part_append(4) [OF assms, of t] digits_append [OF assms]
    by (simp add: Cons exp_part_def Let_def)
qed

lemma scan_number_append:
  assumes "number_end r" "scan_number s = Some (u, v)"
  shows "scan_number (s @ r) = Some (u, v @ r)"
proof -
  define a where "a = drop (length (sign_part s)) s"
  define b where "b = drop (length (int_part a)) a"
  define c where "c = drop (length (frac_part b)) b"
  have d: "drop (length (sign_part s)) (s @ r) = a @ r" "drop (length (int_part a)) (a @ r) = b @ r"
    "drop (length (frac_part b)) (b @ r) = c @ r"
    "drop (length (exp_part c)) (c @ r) = drop (length (exp_part c)) c @ r"
    using part_length(1) [of s] part_length(2) [of a] part_length(3) [of b] exp_part_length [of c]
    by (simp_all only: drop_append a_def [symmetric] b_def [symmetric] c_def [symmetric] diff_is_0_eq' drop0)
  show ?thesis
    using assms(2) by (auto simp: scan_number_def Let_def part_append [OF assms(1)] exp_part_append [OF assms(1)]
        d a_def [symmetric] b_def [symmetric] c_def [symmetric] simp del: drop_append split: if_splits)
qed

lemma scan_number_first:
  assumes "scan_number s = Some (u, v)"
  obtains c t where "s = c # t" "is_digit c \<or> c = CHR ''-''"
proof -
  obtain c t where s: "s = c # t" using scan_number_shorter [OF assms] by (cases s) auto
  have "is_digit CHR ''0''" by (simp add: is_digit_def)
  then have "is_digit c \<or> c = CHR ''-''"
    using assms by (auto simp: s scan_number_def sign_part_def int_part_def Let_def split: if_splits)
  then show ?thesis using that s by blast
qed

text \<open>Strings.\<close>

lemma hex_lower_value: "d < 16 \<Longrightarrow> hex_value (hex_lower d) = Some d"
proof -
  have "list_all (\<lambda>d. hex_value (hex_lower d) = Some d) [0..<16]" by code_simp
  then show "d < 16 \<Longrightarrow> ?thesis" by (auto simp: list_all_iff)
qed

lemma hex4_low: "n < 256 \<Longrightarrow> hex4 [CHR ''0'', CHR ''0'', hex_lower (n div 16), hex_lower (n mod 16)] = Some n"
proof -
  assume "n < 256"
  moreover have "hex_value CHR ''0'' = Some 0" by code_simp
  ultimately show ?thesis using hex_lower_value [of "n div 16"] hex_lower_value [of "n mod 16"]
    by (simp add: hex4_def)
qed

lemma read_quote_char: "read_string (quote_char c @ t) = map_option (apfst ((#) c)) (read_string t)"
proof (cases "c \<in> set [CHR 0x22, CHR 0x5C, CHR 0x08, CHR 0x0C, CHR 0x0A, CHR 0x0D, CHR 0x09]")
  case True
  then show ?thesis
    by (auto simp: quote_char_def read_string.simps [of "_ # _"] backslash_def json_quote_def unescaped_def)
next
  case False
  then have q: "quote_char c = (if of_char c < (32 :: nat)
       then [backslash, CHR ''u'', CHR ''0'', CHR ''0'', hex_lower (of_char c div 16), hex_lower (of_char c mod 16)]
       else [c])" "c \<noteq> json_quote" "c \<noteq> backslash"
    by (simp_all add: quote_char_def json_quote_def backslash_def)
  show ?thesis
  proof (cases "of_char c < (32 :: nat)")
    case True
    have "unescaped CHR ''u'' = None" by (simp add: unescaped_def)
    moreover have "backslash \<noteq> json_quote" by (simp add: backslash_def json_quote_def)
    ultimately show ?thesis
      using True hex4_low [of "of_char c"] by (simp add: q read_string.simps [of "backslash # _"])
  next
    case False
    then show ?thesis using q by (simp add: read_string.simps [of "c # _"])
  qed
qed

lemma read_quoted: "read_string (concat (map quote_char s) @ json_quote # r) = Some (s, r)"
  by (induction s) (simp_all add: read_quote_char read_string.simps [of "json_quote # r"])

text \<open>White space in front of a value.\<close>

lemma skip_spaces: "list_all is_json_space ws \<Longrightarrow> skip (ws @ s) = skip s"
  by (induction ws) simp_all

lemma read_spaces:
  assumes "list_all is_json_space ws"
  shows "read_value num m (ws @ s) = read_value num m s" "read_items num m (ws @ s) = read_items num m s"
    "read_members num m (ws @ s) = read_members num m s"
proof -
  have v: "read_value num m (ws @ s) = read_value num m s" for m
    by (cases m) (simp_all add: skip_spaces [OF assms])
  then show "read_value num m (ws @ s) = read_value num m s" .
  show "read_items num m (ws @ s) = read_items num m s" by (cases m) (simp_all add: v)
  show "read_members num m (ws @ s) = read_members num m s"
    by (cases m) (simp_all add: skip_spaces [OF assms])
qed

lemma pad_spaces: "list_all is_json_space (pad n)"
  by (simp add: pad_def is_json_space_def newline_def list_all_iff)

text \<open>What can be printed and read back: numbers by the law of their printer, objects in order.\<close>

definition prints_number :: "(string \<Rightarrow> 'n) \<Rightarrow> ('n \<Rightarrow> string) \<Rightarrow> 'n \<Rightarrow> bool" where
  "prints_number num sh x \<longleftrightarrow> scan_number (sh x) = Some (sh x, []) \<and> num (sh x) = x"

fun printable :: "(string \<Rightarrow> 'n) \<Rightarrow> ('n \<Rightarrow> string) \<Rightarrow> 'n json \<Rightarrow> bool" where
  "printable num sh (Number x) = prints_number num sh x"
| "printable num sh (Items vs) = list_all (printable num sh) vs"
| "printable num sh (Members es) = (object_of es = es \<and> list_all (\<lambda>(k, v). printable num sh v) es)"
| "printable num sh v = True"

lemma literal_chars:
  "\<not> is_json_space CHR ''['' \<and> \<not> is_json_space CHR ''{'' \<and> \<not> is_json_space CHR '']'' \<and>
   \<not> is_json_space CHR ''}'' \<and> \<not> is_json_space json_quote \<and> \<not> is_json_space CHR '','' \<and>
   \<not> is_json_space CHR '':'' \<and> \<not> is_json_space CHR ''n'' \<and> \<not> is_json_space CHR ''t'' \<and> \<not> is_json_space CHR ''f''"
  by code_simp

lemma number_first_char:
  assumes "is_digit c \<or> c = CHR ''-''"
  shows "c \<notin> set ''[]{}ntf'' \<and> c \<noteq> json_quote \<and> \<not> is_json_space c"
proof -
  have "list_all (\<lambda>c. c \<notin> set ''[]{}ntf'' \<and> c \<noteq> json_quote \<and> \<not> is_json_space c) ''-0123456789''" by code_simp
  moreover have "c \<in> set ''-0123456789''" using assms by (auto simp: is_digit_def)
  ultimately show ?thesis by (simp only: list_all_iff) blast
qed

lemma print_first:
  assumes "printable num sh v"
  obtains c t where "print_json sh n v = c # t" "\<not> is_json_space c" "c \<noteq> CHR '']''"
proof (cases v)
  case (Number x)
  then have "scan_number (sh x) = Some (sh x, [])" using assms by (simp add: prints_number_def)
  then obtain c t where "sh x = c # t" "is_digit c \<or> c = CHR ''-''" by (rule scan_number_first)
  then show ?thesis using that number_first_char [of c] Number by auto
next
  case (Truth b)
  then show ?thesis using that literal_chars by (cases b) auto
next
  case (Items vs)
  then show ?thesis using that literal_chars by (cases "vs = []") auto
next
  case (Members es)
  then show ?thesis using that literal_chars by (cases "es = []") auto
qed (use that literal_chars in \<open>auto simp: quote_text_def json_quote_def\<close>)

lemma number_end_spaces:
  "list_all is_json_space ws \<Longrightarrow> \<not> (is_digit c \<or> c \<in> set ''.eE+-'') \<Longrightarrow> number_end (ws @ c # r)"
  by (cases ws) (auto simp: number_end_def is_json_space_def is_digit_def)

text \<open>A reader that reads back the parts reads back their joined text.\<close>

lemma read_items_join:
  assumes "vs \<noteq> []" "list_all is_json_space ws" "list_all is_json_space fin"
    and "\<And>v r m. v \<in> set vs \<Longrightarrow> number_end r \<Longrightarrow> length (p v) \<le> m \<Longrightarrow> read_value num m (p v @ r) = Some (v, r)"
    and "Suc (length (join (CHR '','' # ws) (map p vs) @ fin)) \<le> m"
  shows "read_items num m (join (CHR '','' # ws) (map p vs) @ fin @ CHR '']'' # r) = Some (vs, r)"
  using assms(1,4,5)
proof (induction vs arbitrary: m rule: induct_list012)
  case (2 v)
  then obtain m' where m: "m = Suc m'" by (cases m) auto
  have "number_end (fin @ CHR '']'' # r)" using assms(3) by (rule number_end_spaces) (simp add: is_digit_def)
  moreover have "skip (fin @ CHR '']'' # r) = CHR '']'' # r"
    using skip_spaces [OF assms(3)] literal_chars by simp
  ultimately show ?case using 2 by (simp add: m)
next
  case (3 v w vs)
  then obtain m' where m: "m = Suc m'" by (cases m) auto
  let ?rest = "join (CHR '','' # ws) (map p (w # vs)) @ fin @ CHR '']'' # r"
  have t: "join (CHR '','' # ws) (map p (v # w # vs)) @ fin @ CHR '']'' # r = p v @ CHR '','' # ws @ ?rest"
    by simp
  have "number_end (CHR '','' # ws @ ?rest)" by (simp add: number_end_def is_digit_def)
  then have "read_value num m' (p v @ CHR '','' # ws @ ?rest) = Some (v, CHR '','' # ws @ ?rest)"
    using 3 by (simp add: m)
  moreover have "read_items num m' ?rest = Some (w # vs, r)"
    using 3 by (simp add: m)
  ultimately show ?case
    unfolding t m using read_spaces(2) [OF assms(2), of num m' ?rest] literal_chars by simp
qed simp

lemma read_members_join:
  fixes p :: "'n json \<Rightarrow> string" and fin :: string
  defines "q \<equiv> \<lambda>(k, v). quote_text k @ '': '' @ p v"
  assumes "es \<noteq> []" "list_all is_json_space ws" "list_all is_json_space fin"
    and "\<And>k v r m. (k, v) \<in> set es \<Longrightarrow> number_end r \<Longrightarrow> length (p v) \<le> m \<Longrightarrow> read_value num m (p v @ r) = Some (v, r)"
    and "Suc (length (join (CHR '','' # ws) (map q es) @ fin)) \<le> m"
  shows "read_members num m (join (CHR '','' # ws) (map q es) @ fin @ CHR ''}'' # r) = Some (es, r)"
  using assms(2,5,6)
proof (induction es arbitrary: m rule: induct_list012)
  case (2 e)
  obtain k v where e: "e = (k, v)" by fastforce
  obtain m' where m: "m = Suc m'" using 2(3) by (cases m) auto
  have "number_end (fin @ CHR ''}'' # r)" using assms(4) by (rule number_end_spaces) (simp add: is_digit_def)
  then have "read_value num m' ('' '' @ p v @ fin @ CHR ''}'' # r) = Some (v, fin @ CHR ''}'' # r)"
    using 2(2) [of k v "fin @ CHR ''}'' # r" m'] 2(3) read_spaces(1) [of "'' ''" num m' "p v @ fin @ CHR ''}'' # r"]
    by (simp add: e m q_def is_json_space_def)
  moreover have "skip (fin @ CHR ''}'' # r) = CHR ''}'' # r"
    using skip_spaces [OF assms(4)] literal_chars by simp
  ultimately show ?case
    using literal_chars read_quoted [of k "'': '' @ p v @ fin @ CHR ''}'' # r"]
    by (simp add: m e q_def quote_text_def)
next
  case (3 e f es)
  obtain k v where e: "e = (k, v)" by fastforce
  obtain m' where m: "m = Suc m'" using 3(5) by (cases m) auto
  let ?rest = "join (CHR '','' # ws) (map q (f # es)) @ fin @ CHR ''}'' # r"
  have t: "join (CHR '','' # ws) (map q (e # f # es)) @ fin @ CHR ''}'' # r =
      json_quote # concat (map quote_char k) @ json_quote # '': '' @ p v @ CHR '','' # ws @ ?rest"
    by (simp add: e q_def quote_text_def)
  have "number_end (CHR '','' # ws @ ?rest)" by (simp add: number_end_def is_digit_def)
  then have "read_value num m' ('' '' @ p v @ CHR '','' # ws @ ?rest) = Some (v, CHR '','' # ws @ ?rest)"
    using 3(4) [of k v "CHR '','' # ws @ ?rest" m'] 3(5)
      read_spaces(1) [of "'' ''" num m' "p v @ CHR '','' # ws @ ?rest"]
    by (simp add: e m q_def is_json_space_def)
  moreover have "read_members num m' ?rest = Some (f # es, r)"
  proof (rule 3(2))
    show "Suc (length (join (CHR '','' # ws) (map q (f # es)) @ fin)) \<le> m'" using 3(5) by (simp add: m)
  qed (use 3(4) in auto)
  ultimately show ?case
    unfolding t m using read_spaces(3) [OF assms(3), of num m' ?rest] literal_chars
      read_quoted [of k "'': '' @ p v @ CHR '','' # ws @ ?rest"]
    by (simp add: e)
qed simp

text \<open>A printed value is read back, with what follows it.\<close>

lemma read_printed:
  "printable num sh v \<Longrightarrow> number_end r \<Longrightarrow> length (print_json sh n v) \<le> m \<Longrightarrow>
   read_value num m (print_json sh n v @ r) = Some (v, r)"
proof (induction v arbitrary: n r m)
  case Null
  then show ?case using literal_chars by (cases m) (auto simp: json_quote_def)
next
  case (Truth b)
  then show ?case using literal_chars by (cases m; cases b) (auto simp: json_quote_def)
next
  case (Number x)
  then have x: "scan_number (sh x) = Some (sh x, [])" "num (sh x) = x" by (simp_all add: prints_number_def)
  obtain c t where c: "sh x = c # t" "is_digit c \<or> c = CHR ''-''" using x(1) by (rule scan_number_first)
  obtain m' where m: "m = Suc m'" using Number(3) c by (cases m) auto
  have "scan_number (sh x @ r) = Some (sh x, r)" using scan_number_append [OF Number(2) x(1)] by simp
  then show ?case using c(1) x(2) number_first_char [OF c(2)] by (simp add: m)
next
  case (Text s)
  then obtain m' where m: "m = Suc m'" by (cases m) (auto simp: quote_text_def)
  show ?case using literal_chars read_quoted [of s r] by (simp add: m quote_text_def json_quote_def)
next
  case (Items vs)
  then obtain m' where m: "m = Suc m'" by (cases m) (auto split: if_splits)
  show ?case
  proof (cases "vs = []")
    case False
    let ?p = "print_json sh (n + 4)"
    let ?t = "join (CHR '','' # pad (n + 4)) (map ?p vs) @ pad n @ CHR '']'' # r"
    have "read_items num m' ?t = Some (vs, r)"
    proof (rule read_items_join [OF False pad_spaces pad_spaces])
      show "Suc (length (join (CHR '','' # pad (n + 4)) (map ?p vs) @ pad n)) \<le> m'"
        using Items(4) False by (simp add: m pad_def)
    qed (use Items(1,2) in \<open>simp add: list_all_iff\<close>)
    moreover obtain v ws where vs: "vs = v # ws" using False by (cases vs) auto
    then obtain c t where "?p v = c # t" "\<not> is_json_space c" "c \<noteq> CHR '']''"
      using Items(2) by (auto elim: print_first [of num sh v "n + 4"])
    moreover from this have "\<exists>u. ?t = c # u" by (cases ws) (simp_all add: vs)
    ultimately show ?thesis
      using False literal_chars skip_spaces [OF pad_spaces, of "n + 4" ?t] by (auto simp: m)
  qed (use literal_chars in \<open>simp add: m\<close>)
next
  case (Members es)
  then obtain m' where m: "m = Suc m'" by (cases m) (auto split: if_splits)
  show ?case
  proof (cases "es = []")
    case False
    let ?p = "print_json sh (n + 4)" and ?q = "\<lambda>(k, v). quote_text k @ '': '' @ print_json sh (n + 4) v"
    let ?t = "join (CHR '','' # pad (n + 4)) (map ?q es) @ pad n @ CHR ''}'' # r"
    have "read_members num m' ?t = Some (es, r)"
    proof (rule read_members_join [OF False pad_spaces pad_spaces])
      fix k v r m assume "(k, v) \<in> set es" "number_end r" "length (?p v) \<le> m"
      then show "read_value num m (?p v @ r) = Some (v, r)"
        using Members(1) [of "(k, v)" v] Members(2) by (auto simp: list_all_iff)
    next
      show "Suc (length (join (CHR '','' # pad (n + 4)) (map ?q es) @ pad n)) \<le> m'"
        using Members(4) False by (simp add: m pad_def)
    qed
    moreover have "\<exists>u. ?t = json_quote # u"
      using False by (cases es; cases "tl es") (auto simp: quote_text_def split: prod.splits)
    ultimately show ?thesis
      using False Members(2) literal_chars skip_spaces [OF pad_spaces, of "n + 4" ?t]
      by (auto simp: m json_quote_def)
  qed (use literal_chars Members(2) in \<open>simp add: m\<close>)
qed

lemma parse_stringify:
  assumes "printable num sh v"
  shows "JSON_parse num (JSON_stringify sh v) = Some v"
  using read_printed [OF assms, of "[]" 0 "Suc (length (print_json sh 0 v))"]
  by (simp add: JSON_parse_def JSON_stringify_def number_end_def)

text \<open>What is parsed is smaller than its text.\<close>

lemma parse_size: "JSON_parse num s = Some v \<Longrightarrow> json_size v \<le> length s"
proof -
  assume "JSON_parse num s = Some v"
  then obtain r where "read_value num (Suc (length s)) s = Some (v, r)"
    by (auto simp: JSON_parse_def split: option.splits if_splits)
  from read_sizes [OF this] show "json_size v \<le> length s" by linarith
qed

text \<open>Any reader without a bound of its own agrees with the parser.\<close>

lemma parse_enough:
  "read_value num n s = Some (v, r) \<Longrightarrow> skip r = [] \<Longrightarrow> JSON_parse num s = Some v"
  using read_enough [of num n s v r "Suc (length s)"] by (simp add: JSON_parse_def)

end
