(* ===== verification/Devices.thy ===== *)
theory Devices
  imports JS_Value Autocomplete Json
begin

text \<open>
  Requests to the node and the table of devices made of them (line 486 of \<open>bundle.js\<close>):
  \<open>hbFetch\<close> with the endpoints of line 246, and \<open>fetchDeviceNames\<close> with its cache and any
  number of calls in flight. The network is a function from a URL and headers to what is
  answered; \<open>JSON.parse\<close> of the body of an answer (the body may hold any text) and telling whether
  a number is zero are arguments.
\<close>

section \<open>Requests\<close>

datatype node_answer = Unreachable | Answered nat string

datatype hb_error = NoAnswer | NotJson | NullAnswer

datatype 'n hb_body = JsonBody "'n json" | TextBody string

record fetch_options =
  fo_json :: bool
  fo_raw_body_only :: bool
  fo_headers :: "(string \<times> string) list"

definition HB_devices :: string where "HB_devices = ''/~meta@1.0/info/preloaded_devices''"
definition HB_schedule :: "string \<Rightarrow> string" where "HB_schedule p = ''/'' @ p @ ''/schedule''"
definition HB_currentSlot :: "string \<Rightarrow> string" where "HB_currentSlot p = ''/'' @ p @ ''/slot/current''"
definition HB_processNow :: "string \<Rightarrow> string" where "HB_processNow p = ''/'' @ p @ ''~process@1.0/now''"

text \<open>A value that counts as true, and a property of a value.\<close>

fun json_truthy :: "('n \<Rightarrow> bool) \<Rightarrow> 'n json \<Rightarrow> bool" where
  "json_truthy nz json.Null = False"
| "json_truthy nz (Truth b) = b"
| "json_truthy nz (Number x) = nz x"
| "json_truthy nz (Text s) = (s \<noteq> [])"
| "json_truthy nz (Items vs) = True"
| "json_truthy nz (Members es) = True"

definition json_member :: "string \<Rightarrow> 'n json \<Rightarrow> 'n json option" where
  "json_member k v = (case v of Members es \<Rightarrow> map_of es k | _ \<Rightarrow> None)"

definition drop_member :: "('n \<Rightarrow> bool) \<Rightarrow> string \<Rightarrow> 'n json \<Rightarrow> 'n json" where
  "drop_member nz k v = (case (json_member k v, v) of
       (Some w, Members es) \<Rightarrow> if json_truthy nz w then Members (filter (\<lambda>(l, x). l \<noteq> k) es) else v
     | _ \<Rightarrow> v)"

definition request_headers :: "fetch_options \<Rightarrow> (string \<times> string) list" where
  "request_headers p = foldl (\<lambda>hs (k, v). put_member k v hs)
     (if fo_json p then [(''accept'', ''application/json''), (''accept-bundle'', ''true''),
        (''require-codec'', ''application/json'')] else []) (fo_headers p)"

text \<open>The answer as a value: the status is not looked at, and \<open>null\<close> has no properties.\<close>

definition answer_body :: "(string \<Rightarrow> 'n json option) \<Rightarrow> ('n \<Rightarrow> bool) \<Rightarrow> fetch_options \<Rightarrow> node_answer \<Rightarrow> hb_error + 'n hb_body" where
  "answer_body parse nz p a = (case a of
       Unreachable \<Rightarrow> Inl NoAnswer
     | Answered status body \<Rightarrow> if \<not> fo_json p then Inr (TextBody body) else (case parse body of
           None \<Rightarrow> Inl NotJson
         | Some json.Null \<Rightarrow> Inl NullAnswer
         | Some v \<Rightarrow> Inr (JsonBody (if fo_raw_body_only p
             then drop_member nz ''status'' (drop_member nz ''commitments'' v) else v))))"

definition hbFetch :: "(string \<Rightarrow> 'n json option) \<Rightarrow> ('n \<Rightarrow> bool) \<Rightarrow> (string \<Rightarrow> (string \<times> string) list \<Rightarrow> node_answer)
    \<Rightarrow> string \<Rightarrow> string \<Rightarrow> fetch_options \<Rightarrow> hb_error + 'n hb_body" where
  "hbFetch parse nz fetch node path p = answer_body parse nz p (fetch (node @ path) (request_headers p))"

section \<open>The table of devices\<close>

text \<open>
  An entry of an answer: a name that is neither missing, false nor a text makes the call
  of \<open>startsWith\<close> fail.
\<close>

definition device_entry :: "('n \<Rightarrow> bool) \<Rightarrow> 'n json \<Rightarrow> (device_module \<times> string option) option" where
  "device_entry nz v = (case json_member ''name'' v of
       None \<Rightarrow> Some (NoModule, None)
     | Some n \<Rightarrow> if \<not> json_truthy nz n then Some (NoModule, None) else (case n of
           Text t \<Rightarrow> Some (case json_member ''module'' v of None \<Rightarrow> NoModule | Some (Text m) \<Rightarrow> ModuleText m
               | Some _ \<Rightarrow> OtherModule, Some t)
         | _ \<Rightarrow> None))"

fun device_entries :: "('n \<Rightarrow> bool) \<Rightarrow> (string \<times> 'n json) list \<Rightarrow> (string \<times> device_module \<times> string option) list option" where
  "device_entries nz [] = Some []"
| "device_entries nz ((k, v) # es) = (case device_entry nz v of
       None \<Rightarrow> None
     | Some e \<Rightarrow> map_option ((#) (k, e)) (device_entries nz es))"

text \<open>\<open>Object.entries\<close>, for the values whose \<open>typeof\<close> is object.\<close>

definition own_entries :: "'n json \<Rightarrow> (string \<times> 'n json) list option" where
  "own_entries v = (case v of
       Members es \<Rightarrow> Some es
     | Items vs \<Rightarrow> Some (zip (map nat_to_string [0..<length vs]) vs)
     | _ \<Rightarrow> None)"

definition answered_devices :: "('n \<Rightarrow> bool) \<Rightarrow> hb_error + 'n hb_body \<Rightarrow> (string \<times> device_module \<times> string option) list option" where
  "answered_devices nz r = (case r of
       Inr (JsonBody v) \<Rightarrow> (case own_entries v of Some es \<Rightarrow> device_entries nz es | None \<Rightarrow> None)
     | _ \<Rightarrow> None)"

text \<open>
  The calls in flight are counted. A call made while there is a table returns it; every
  other call waits for its answer, which replaces the table whatever it is by then.
\<close>

record device_store = device_cache +
  calls :: nat

datatype device_event = AskDevices | DevicesAnswered node_answer

definition device_options :: fetch_options where
  "device_options = \<lparr>fo_json = True, fo_raw_body_only = True, fo_headers = []\<rparr>"

definition table_of :: "(string \<Rightarrow> 'n json option) \<Rightarrow> ('n \<Rightarrow> bool) \<Rightarrow> node_answer \<Rightarrow> (string \<times> device) list" where
  "table_of parse nz a = (case answered_devices nz (answer_body parse nz device_options a) of
       Some es \<Rightarrow> named_devices es | None \<Rightarrow> FALLBACK_DEVICE_NAMES)"

fun device_step :: "(string \<Rightarrow> 'n json option) \<Rightarrow> ('n \<Rightarrow> bool) \<Rightarrow> device_store \<Rightarrow> device_event \<Rightarrow> device_store" where
  "device_step parse nz s AskDevices = (if deviceNamesCache s = None then s\<lparr>calls := calls s + 1\<rparr> else s)"
| "device_step parse nz s (DevicesAnswered a) = (if calls s = 0 then s else
     (let ds = table_of parse nz a in
        s\<lparr>calls := calls s - 1, deviceNamesCache := Some ds, deviceNamesList := device_names ds\<rparr>))"

definition no_devices :: device_store where
  "no_devices = \<lparr>deviceNamesCache = None, deviceNamesList = [], calls = 0\<rparr>"

section \<open>Lemmas\<close>

lemma put_member_map: "put_member k (f v) (map (apsnd f) es) = map (apsnd f) (put_member k v es)"
  by (induction es) (auto simp: apsnd_def)

lemma put_members_map:
  "foldl (\<lambda>m (k, v). put_member k v m) (map (apsnd f) ms) (map (apsnd f) es)
     = map (apsnd f) (foldl (\<lambda>m (k, v). put_member k v m) ms es)"
proof (induction es arbitrary: ms)
  case (Cons e es)
  obtain k v where e: "e = (k, v)" by (cases e)
  show ?case using Cons.IH [of "put_member k v ms"] by (simp add: e put_member_map)
qed simp

lemma insort_key_map: "insort_key h (f x) (map f xs) = map f (insort_key (h \<circ> f) x xs)"
  by (induction xs) auto

lemma sort_key_map: "sort_key h (map f xs) = map f (sort_key (h \<circ> f) xs)"
proof (induction xs)
  case (Cons x xs)
  then show ?case by (simp add: insort_key_map comp_def)
qed simp

lemma fst_apsnd: "fst \<circ> apsnd f = fst"
  by (auto simp: apsnd_def)

text \<open>The order of the members does not depend on their values.\<close>

lemma object_of_map: "object_of (map (apsnd f) es) = map (apsnd f) (object_of es)"
proof -
  have *: "h \<circ> fst \<circ> apsnd f = h \<circ> fst" for h :: "string \<Rightarrow> 'x" by (auto simp: apsnd_def)
  show ?thesis
    using put_members_map [of f "[]" es]
    by (simp add: object_of_def Let_def sort_key_map filter_map * comp_assoc [symmetric] del: o_apply)
qed

lemma tilde_FALLBACK: "list_all (\<lambda>(k, d). starts_with (dev_name d) ''~'') FALLBACK_DEVICE_NAMES"
  by code_simp

lemma starts_with_tilde: "starts_with (with_tilde n) ''~''"
  by (simp add: with_tilde_def)

lemma tilde_named: "list_all (\<lambda>(k, d). starts_with (dev_name d) ''~'') (named_devices es)"
  by (induction es rule: named_devices.induct) (auto simp: starts_with_tilde split: option.splits list.splits simp del: starts_with.simps)

lemma tilde_table: "list_all (\<lambda>(k, d). starts_with (dev_name d) ''~'') (table_of parse nz a)"
  by (simp add: table_of_def tilde_FALLBACK tilde_named split: option.split)

definition device_inv :: "device_store \<Rightarrow> bool" where
  "device_inv s \<longleftrightarrow> (case deviceNamesCache s of None \<Rightarrow> deviceNamesList s = []
     | Some ds \<Rightarrow> deviceNamesList s = device_names ds \<and> list_all (\<lambda>(k, d). starts_with (dev_name d) ''~'') ds)"

lemma device_inv_step: "device_inv s \<Longrightarrow> device_inv (device_step parse nz s e)"
  by (cases e) (auto simp: device_inv_def tilde_table Let_def)

interpretation device_calls: machine "device_step parse nz" "\<lambda>s e. True" device_inv for parse nz
  by unfold_locales (rule device_inv_step)

lemma device_inv_run: "device_inv (foldl (device_step parse nz) no_devices es)"
  by (rule device_calls.inv_run) (simp_all add: device_inv_def no_devices_def permitted_all)

lemma offered_tilde:
  "device_inv s \<Longrightarrow> list_all (\<lambda>n. starts_with n ''~'') (getDeviceNameListSync (device_cache.truncate s))"
  using tilde_FALLBACK
  by (auto simp: device_inv_def getDeviceNameListSync_def device_cache.truncate_def device_names_def list_all_iff
      split: option.splits)

lemma table_fallback:
  "answered_devices nz (answer_body parse nz device_options a) = None \<Longrightarrow> table_of parse nz a = FALLBACK_DEVICE_NAMES"
  by (simp add: table_of_def)

lemma entries_fail: "(k, v) \<in> set es \<Longrightarrow> device_entry nz v = None \<Longrightarrow> device_entries nz es = None"
  by (induction nz es rule: device_entries.induct) (auto split: option.splits)

text \<open>A table as the node serves it: keys, modules and names, with a tilde or without.\<close>

definition device_json :: "string \<times> string \<Rightarrow> 'n json" where
  "device_json d = Members [(''module'', Text (fst d)), (''name'', Text (snd d))]"

definition served :: "(string \<times> string \<times> string) list \<Rightarrow> 'n json" where
  "served ts = Members (map (apsnd device_json) ts)"

lemma drop_served:
  fixes nz :: "'n \<Rightarrow> bool"
  shows "drop_member nz k (served ts) = served (filter (\<lambda>(l, d). l \<noteq> k) ts)"
proof (cases "k \<in> fst ` set ts")
  case True
  have "map_of (map (apsnd device_json) ts) k \<noteq> (None :: 'n json option)"
    using True by (auto simp: map_of_eq_None_iff image_image)
  then obtain w :: "'n json" where w: "map_of (map (apsnd device_json) ts) k = Some w" by auto
  then have "json_truthy nz w" using map_of_SomeD [OF w] by (auto simp: device_json_def)
  then show ?thesis using w
    by (simp add: drop_member_def json_member_def served_def filter_map comp_def split_def)
next
  case False
  then have "map_of (map (apsnd device_json) ts) k = (None :: 'n json option)"
    by (auto simp: map_of_eq_None_iff image_image)
  moreover have "filter (\<lambda>(l, d). l \<noteq> k) ts = ts" using False by (force simp: filter_id_conv)
  ultimately show ?thesis by (simp add: drop_member_def json_member_def served_def)
qed

lemma served_entries:
  "\<exists>es. device_entries nz (map (apsnd device_json) ts) = Some es \<and> named_devices es
     = [(k, \<lparr>module = ModuleText m, dev_name = with_tilde n\<rparr>). (k, m, n) \<leftarrow> ts, n \<noteq> [] \<and> k \<noteq> ''__proto__'']"
proof (induction ts)
  case (Cons t ts)
  obtain k m n where t: "t = (k, m, n)" by (cases t)
  show ?case using Cons by (cases n) (auto simp: t device_entry_def json_member_def device_json_def)
qed simp

lemma answer_served:
  assumes "parse body = Some (served ts)"
  shows "answer_body parse nz device_options (Answered st body) = Inr (JsonBody
    (served (filter (\<lambda>(l, d). l \<noteq> ''status'') (filter (\<lambda>(l, d). l \<noteq> ''commitments'') ts))))"
  using assms unfolding drop_served [of nz, symmetric]
  by (cases "served ts :: 'a json") (simp_all add: answer_body_def device_options_def, simp_all add: served_def)

lemma served_table:
  assumes "parse body = Some (served ts)"
  shows "table_of parse nz (Answered st body) = [(k, \<lparr>module = ModuleText m, dev_name = with_tilde n\<rparr>).
    (k, m, n) \<leftarrow> ts, n \<noteq> [] \<and> k \<notin> {''__proto__'', ''status'', ''commitments''}]"
proof -
  let ?us = "filter (\<lambda>(l, d). l \<noteq> ''status'') (filter (\<lambda>(l, d). l \<noteq> ''commitments'') ts)"
  have "answered_devices nz (answer_body parse nz device_options (Answered st body))
      = device_entries nz (map (apsnd device_json) ?us)"
    by (simp add: answer_served [where parse = parse and body = body and ts = ts, OF assms] answered_devices_def own_entries_def, simp add: served_def)
  then have "table_of parse nz (Answered st body) = [(k, \<lparr>module = ModuleText m, dev_name = with_tilde n\<rparr>).
      (k, m, n) \<leftarrow> ?us, n \<noteq> [] \<and> k \<noteq> ''__proto__'']"
    using served_entries [of nz ?us] by (auto simp: table_of_def)
  also have "\<dots> = [(k, \<lparr>module = ModuleText m, dev_name = with_tilde n\<rparr>).
    (k, m, n) \<leftarrow> ts, n \<noteq> [] \<and> k \<notin> {''__proto__'', ''status'', ''commitments''}]"
    by (induction ts) auto
  finally show ?thesis .
qed

lemma served_printable:
  fixes num :: "string \<Rightarrow> 'n" and sh :: "'n \<Rightarrow> string"
  assumes "object_of ts = ts"
  shows "printable num sh (served ts)"
proof -
  have "object_of [(''module'', x), (''name'', y)] = [(''module'', x), (''name'', y)]" for x y :: "'n json"
  proof -
    have "put_member ''name'' y [(''module'', x)] = [(''module'', x), (''name'', y)]" "\<not> is_index_key ''module''" "\<not> is_index_key ''name''"
      by (simp_all add: is_index_key_def is_digit_def)
    then show ?thesis by (simp add: object_of_def Let_def)
  qed
  then show ?thesis
    using assms by (auto simp: served_def device_json_def object_of_map list_all_iff)
qed

lemma drop_entries:
  "own_entries v = None \<Longrightarrow> own_entries (drop_member nz k v) = None"
  "own_entries v = Some es \<Longrightarrow> \<exists>fs. own_entries (drop_member nz k v) = Some fs \<and> (\<forall>e \<in> set es. fst e \<noteq> k \<longrightarrow> e \<in> set fs)"
  by (auto simp: own_entries_def drop_member_def json_member_def split: json.splits option.splits)

lemma no_devices_answered:
  assumes "parse body = Some v"
    and "\<And>es. own_entries v = Some es \<Longrightarrow>
      list_ex (\<lambda>(k, w). k \<noteq> ''status'' \<and> k \<noteq> ''commitments'' \<and> device_entry nz w = None) es"
  shows "answered_devices nz (answer_body parse nz device_options (Answered st body)) = None"
proof (cases "own_entries v")
  case None
  note n = drop_entries(1) [OF drop_entries(1) [OF None], of nz "''status''" nz "''commitments''"]
  show ?thesis
    using assms(1) n
    by (cases v) (simp_all add: answer_body_def device_options_def answered_devices_def)
next
  case (Some es)
  then obtain k w where e: "(k, w) \<in> set es" "k \<noteq> ''status''" "k \<noteq> ''commitments''" "device_entry nz w = None"
    using assms(2) by (auto simp: list_ex_iff)
  obtain fs where fs: "own_entries (drop_member nz ''commitments'' v) = Some fs" "(k, w) \<in> set fs"
    using drop_entries(2) [OF Some, of nz "''commitments''"] e by force
  obtain gs where "own_entries (drop_member nz ''status'' (drop_member nz ''commitments'' v)) = Some gs" "(k, w) \<in> set gs"
    using drop_entries(2) [OF fs(1), of nz "''status''"] fs(2) e by force
  then show ?thesis
    using assms(1) entries_fail e(4) Some
    by (cases "v = json.Null") (auto simp: answer_body_def device_options_def answered_devices_def own_entries_def [of "json.Null"] split: json.split)
qed

lemma table_stays:
  "calls s = 0 \<Longrightarrow> deviceNamesCache s = Some ds \<Longrightarrow> foldl (device_step parse nz) s es = s"
proof (induction es)
  case (Cons e es)
  then show ?case by (cases e) simp_all
qed simp

text \<open>
  An answer that makes the call fail: none, no JSON, a value that is no object, or a device
  named with something else than a text.
\<close>

definition answer_fails :: "(string \<Rightarrow> 'n json option) \<Rightarrow> ('n \<Rightarrow> bool) \<Rightarrow> node_answer \<Rightarrow> bool" where
  "answer_fails parse nz a = (case a of Unreachable \<Rightarrow> True
     | Answered st body \<Rightarrow> (case parse body of
           None \<Rightarrow> True
         | Some v \<Rightarrow> (case own_entries v of
               None \<Rightarrow> True
             | Some es \<Rightarrow> list_ex (\<lambda>(k, w). k \<noteq> ''status'' \<and> k \<noteq> ''commitments'' \<and> device_entry nz w = None) es)))"

lemma failing_table: "answer_fails parse nz a \<Longrightarrow> table_of parse nz a = FALLBACK_DEVICE_NAMES"
proof (rule table_fallback)
  assume f: "answer_fails parse nz a"
  show "answered_devices nz (answer_body parse nz device_options a) = None"
  proof (cases a)
    case Unreachable
    then show ?thesis by (simp add: answer_body_def answered_devices_def)
  next
    case (Answered st body)
    show ?thesis
    proof (cases "parse body")
      case None
      then show ?thesis by (simp add: Answered answer_body_def answered_devices_def device_options_def)
    next
      case (Some v)
      show ?thesis
        unfolding Answered by (rule no_devices_answered [where parse = parse and body = body and v = v and nz = nz and st = st, OF Some]) (use f Answered Some in \<open>auto simp: answer_fails_def\<close>)
    qed
  qed
qed

section \<open>Properties\<close>



text \<open>
  C18. In every state, whatever calls are in flight and however they were answered, there
  are names to choose from, in order, and each starts with a tilde; they are those of
  the table that is kept, unless it is empty.
\<close>

theorem device_names_offered:
  "let s = foldl (device_step parse nz) no_devices es; names = getDeviceNameListSync (device_cache.truncate s) in
    names \<noteq> [] \<and> sorted names \<and> list_all (\<lambda>n. starts_with n ''~'') names
    \<and> (case deviceNamesCache s of
         None \<Rightarrow> deviceNamesList s = []
       | Some ds \<Rightarrow> deviceNamesList s = device_names ds \<and> (if ds = [] then names = device_names FALLBACK_DEVICE_NAMES
           else names = device_names ds))"
proof -
  define s where "s = foldl (device_step parse nz) no_devices es"
  have f: "filter (\<lambda>n. n \<noteq> []) (map (dev_name \<circ> snd) FALLBACK_DEVICE_NAMES) = map (dev_name \<circ> snd) FALLBACK_DEVICE_NAMES"
    by code_simp
  have fb: "device_names FALLBACK_DEVICE_NAMES \<noteq> []" "list_all (\<lambda>n. starts_with n ''~'') (device_names FALLBACK_DEVICE_NAMES)"
    using tilde_FALLBACK by (code_simp, auto simp: device_names_def list_all_iff)
  have inv: "device_inv s" unfolding s_def by (rule device_inv_run)
  have "sorted (deviceNamesList s) \<and> list_all (\<lambda>n. starts_with n ''~'') (deviceNamesList s)"
    using inv by (auto simp: device_inv_def device_names_def list_all_iff split: option.splits)
  moreover have "names \<noteq> [] \<longleftrightarrow> ds \<noteq> []" if "names = device_names ds" for names ds
    unfolding that by (metis device_names_def length_0_conv length_map length_sort)
  ultimately show ?thesis
    using fb inv unfolding s_def [symmetric] Let_def getDeviceNameListSync_def f device_names_def [of FALLBACK_DEVICE_NAMES, symmetric]
    by (auto simp: device_cache.truncate_def device_inv_def split: option.splits) (simp_all add: device_names_def)
qed

text \<open>
  C36. As long as every answer fails (the node is not reached, does not answer with JSON,
  answers with a value that is no object, or names a device with something else than a text), in
  whatever number and order calls and answers come, the table is the built-in one once a call is
  answered, its names are offered before and after, and when no other call is in flight the
  table stays for good, whatever comes later.
\<close>

theorem failures_keep_builtin_table:
  assumes "\<forall>a. DevicesAnswered a \<in> set es \<longrightarrow> answer_fails parse nz a"
  shows "let s = foldl (device_step parse nz) no_devices es in
    deviceNamesCache s \<in> {None, Some FALLBACK_DEVICE_NAMES}
    \<and> getDeviceNameListSync (device_cache.truncate s) = device_names FALLBACK_DEVICE_NAMES
    \<and> (calls s = 0 \<and> deviceNamesCache s \<noteq> None \<longrightarrow> foldl (device_step parse nz) s later = s)"
proof -
  define P where "P s \<longleftrightarrow> deviceNamesCache s \<in> {None, Some FALLBACK_DEVICE_NAMES} \<and> device_inv s" for s
  have step: "P (device_step parse nz s e)" if "P s" "e \<in> set es" for s e
    using that assms failing_table [of parse nz] device_inv_step [of s parse nz e]
    by (cases e) (auto simp: P_def Let_def)
  have run: "P (foldl (device_step parse nz) s fs)" if "P s" "set fs \<subseteq> set es" for s fs
    using that step by (induction fs arbitrary: s) auto
  define s where "s = foldl (device_step parse nz) no_devices es"
  have s: "P s" unfolding s_def by (rule run) (simp_all add: P_def no_devices_def device_inv_def)
  have names: "filter (\<lambda>n. n \<noteq> []) (map (dev_name \<circ> snd) FALLBACK_DEVICE_NAMES) = map (dev_name \<circ> snd) FALLBACK_DEVICE_NAMES"
    by code_simp
  have "getDeviceNameListSync (device_cache.truncate s) = device_names FALLBACK_DEVICE_NAMES"
    using s unfolding getDeviceNameListSync_def names
    by (auto simp: P_def device_inv_def device_cache.truncate_def device_names_def)
  then show ?thesis
    using s table_stays [of s _ parse nz later] by (auto simp: P_def s_def [symmetric] Let_def)
qed

theorem failures_keep_builtin_table_witness:
  "deviceNamesCache (foldl (device_step (JSON_parse (\<lambda>t. 0 :: int)) (\<lambda>n. n \<noteq> 0))
      (foldl (device_step (JSON_parse (\<lambda>t. 0 :: int)) (\<lambda>n. n \<noteq> 0)) no_devices
        [AskDevices, AskDevices, DevicesAnswered (Answered 200 ''<html>''), DevicesAnswered Unreachable])
      [AskDevices, DevicesAnswered (Answered 200 ''{}'')]) = Some FALLBACK_DEVICE_NAMES"
proof -
  let ?step = "device_step (JSON_parse (\<lambda>t. 0 :: int)) (\<lambda>n. n \<noteq> 0)"
  let ?es = "[AskDevices, AskDevices, DevicesAnswered (Answered 200 ''<html>''), DevicesAnswered Unreachable]"
  have "JSON_parse (\<lambda>t. 0 :: int) ''<html>'' = None" by code_simp
  then have "\<forall>a. DevicesAnswered a \<in> set ?es \<longrightarrow> answer_fails (JSON_parse (\<lambda>t. 0 :: int)) (\<lambda>n. n \<noteq> 0) a"
    by (auto simp: answer_fails_def)
  note f = failures_keep_builtin_table [OF this, of "[AskDevices, DevicesAnswered (Answered 200 ''{}'')]"]
  have "calls (foldl ?step no_devices ?es) = 0" "deviceNamesCache (foldl ?step no_devices ?es) \<noteq> None"
    by (simp_all add: no_devices_def Let_def)
  then show ?thesis using f unfolding Let_def by (metis insertE singletonD)
qed

end
