(* ===== verification/SearchField.thy ===== *)
theory SearchField
  imports Machines Controls Devices
begin

text \<open>
  The search field (\<open>SearchInput\<close>, line 871 of \<open>bundle.js\<close>): the completion of device names
  over the table of devices, which may be asked for and answered while the user types,
  and the list on the page with its hint.
\<close>

section \<open>The field\<close>

record search_field =
  sf_store :: device_store
  sf_dropdown :: dropdown

datatype field_event = OnDevices device_event | OnField dropdown_event

definition offered_names :: "search_field \<Rightarrow> string list" where
  "offered_names f = getDeviceNameListSync (device_cache.truncate (sf_store f))"

fun field_step :: "(string \<Rightarrow> 'n json option) \<Rightarrow> ('n \<Rightarrow> bool) \<Rightarrow> search_field \<Rightarrow> field_event \<Rightarrow> search_field" where
  "field_step parse nz f (OnDevices e) = f\<lparr>sf_store := device_step parse nz (sf_store f) e\<rparr>"
| "field_step parse nz f (OnField e) = f\<lparr>sf_dropdown := dropdown_step (offered_names f) (sf_dropdown f) e\<rparr>"

fun field_ok :: "search_field \<Rightarrow> field_event \<Rightarrow> bool" where
  "field_ok f (OnDevices e) = True"
| "field_ok f (OnField e) = dropdown_ok (sf_dropdown f) e"

definition empty_field :: search_field where
  "empty_field = \<lparr>sf_store = no_devices, sf_dropdown = initial_dropdown\<rparr>"

text \<open>What is drawn below the field: \<open>showTabHint\<close> is set there.\<close>

definition shown_items :: "dropdown \<Rightarrow> (string \<times> bool \<times> bool) list option" where
  "shown_items d = dropdown_items (shown d) True (selected d) (options d)"

section \<open>Lemmas\<close>

definition field_inv :: "search_field \<Rightarrow> bool" where
  "field_inv f \<longleftrightarrow> device_inv (sf_store f) \<and>
     (\<exists>all. list_all (\<lambda>n. starts_with n ''~'') all \<and> dropdown_inv all (sf_dropdown f))"

lemma dropdown_inv_mono: "dropdown_inv a d \<Longrightarrow> set a \<subseteq> set b \<Longrightarrow> dropdown_inv b d"
  by (auto simp: dropdown_inv_def)

lemma field_inv_step:
  assumes "field_inv f" "field_ok f e"
  shows "field_inv (field_step parse nz f e)"
proof (cases e)
  case (OnDevices v)
  then show ?thesis using assms(1) device_inv_step by (auto simp: field_inv_def)
next
  case (OnField v)
  obtain a where a: "list_all (\<lambda>n. starts_with n ''~'') a" "dropdown_inv a (sf_dropdown f)"
    using assms(1) by (auto simp: field_inv_def)
  have "dropdown_inv (a @ offered_names f) (dropdown_step (offered_names f) (sf_dropdown f) v)"
    using dropdown_step_inv [of "offered_names f" "a @ offered_names f" "sf_dropdown f" v]
      dropdown_inv_mono [OF a(2)] assms(2) by (simp add: OnField)
  moreover have "list_all (\<lambda>n. starts_with n ''~'') (a @ offered_names f)"
    using a(1) offered_tilde assms(1) by (simp add: field_inv_def offered_names_def)
  ultimately have "\<exists>all. list_all (\<lambda>n. starts_with n ''~'') all \<and>
      dropdown_inv all (dropdown_step (offered_names f) (sf_dropdown f) v)" by blast
  then show ?thesis using assms(1) by (simp add: OnField field_inv_def)
qed

interpretation field: started "field_step parse nz" field_ok field_inv empty_field for parse nz
proof
  show "field_inv empty_field"
    by (auto simp: field_inv_def empty_field_def no_devices_def device_inv_def intro!: exI [of _ "[]"])
qed (rule field_inv_step)

lemma filter_enumerate: "k < length xs \<Longrightarrow> filter (\<lambda>(i, x). i = m + k) (enumerate m xs) = [(m + k, xs ! k)]"
proof (induction xs arbitrary: m k)
  case (Cons x xs)
  have none: "filter (\<lambda>(i, x). i = m) (enumerate (Suc m) xs) = []"
    by (auto simp: filter_empty_conv in_set_enumerate_eq)
  show ?case
  proof (cases k)
    case 0
    then show ?thesis using none by simp
  next
    case (Suc j)
    then show ?thesis using Cons.IH [of j "Suc m"] Cons.prems by simp
  qed
qed simp

lemma set_input_value: "input_value (set_input names v c s) = v"
  by (auto simp: set_input_def suggest_def Let_def)

text \<open>A shown list is what a search found, in one of the lists of names \<open>N\<close>, for the text that is there.\<close>

definition found_in :: "string list set \<Rightarrow> dropdown \<Rightarrow> bool" where
  "found_in N d \<longleftrightarrow> (shown d \<longrightarrow>
     (\<exists>names \<in> N. options d = searchDeviceNamesSync names (query_at (input_value d) (cursor d))))"

lemma found_in_mono: "found_in N d \<Longrightarrow> N \<subseteq> M \<Longrightarrow> found_in M d"
  by (auto simp: found_in_def)

lemma suggest_found: "names \<in> N \<Longrightarrow> found_in N (suggest names d)"
  by (auto simp: suggest_def found_in_def Let_def)

lemma set_input_found: "names \<in> N \<Longrightarrow> found_in N d \<Longrightarrow> found_in N (set_input names v c d)"
  by (simp add: set_input_def suggest_found)

lemma accept_found: "names \<in> N \<Longrightarrow> found_in N (acceptAutocomplete names opt d)"
  unfolding acceptAutocomplete_def by (rule set_input_found) (simp_all add: found_in_def)

lemma accept_and_submit_found: "names \<in> N \<Longrightarrow> found_in N (accept_and_submit names opt d)"
  using accept_found [of names N opt d] by (simp add: accept_and_submit_def found_in_def)

lemma dropdown_step_found:
  assumes "names \<in> N" "found_in N d"
  shows "found_in N (dropdown_step names d e)"
  using assms(2) by (cases e)
    (simp_all add: set_input_found accept_found accept_and_submit_found handleKeyDown_def assms(1), simp_all add: found_in_def)

lemma field_found:
  "found_in {offered_names (foldl (field_step parse nz) empty_field (take k es)) | k. k \<le> length es}
     (sf_dropdown (foldl (field_step parse nz) empty_field es))"
proof (induction es rule: rev_induct)
  case Nil
  show ?case by (simp add: found_in_def empty_field_def initial_dropdown_def)
next
  case (snoc e es)
  define N where "N fs = {offered_names (foldl (field_step parse nz) empty_field (take k fs)) | k. k \<le> length fs}" for fs
  have sub: "N es \<subseteq> N (es @ [e])"
  proof
    fix x assume "x \<in> N es"
    then obtain k where "k \<le> length es" "x = offered_names (foldl (field_step parse nz) empty_field (take k es))"
      by (auto simp: N_def)
    then show "x \<in> N (es @ [e])" unfolding N_def by (intro CollectI exI [of _ k]) simp
  qed
  have now: "offered_names (foldl (field_step parse nz) empty_field es) \<in> N es"
    unfolding N_def by (intro CollectI exI [of _ "length es"]) simp
  have "found_in (N es) (sf_dropdown (foldl (field_step parse nz) empty_field es))"
    using snoc.IH by (simp add: N_def)
  then have "found_in (N es) (sf_dropdown (foldl (field_step parse nz) empty_field (es @ [e])))"
    using dropdown_step_found [OF now] by (cases e) simp_all
  then show ?case using found_in_mono [OF _ sub] by (simp add: N_def)
qed

section \<open>Properties\<close>

text \<open>
  C4. Whenever the list is shown, however typing, keys, clicks and answers about devices
  have followed each other, its items are what a search among the device names offered at some
  moment until now finds for the segment before the cursor, exactly one of them carries the
  hint for the Tab key, it is one of these device names and starts with a tilde, and Tab puts
  exactly this name in the place of the segment.
\<close>

theorem hint_names_completion:
  assumes "permitted field_ok (field_step parse nz) empty_field es"
    and "d = sf_dropdown (foldl (field_step parse nz) empty_field es)" "shown d"
  shows "\<exists>items n. shown_items d = Some items \<and> filter (\<lambda>(t, sel, hint). hint) items = [(n, True, True)]
    \<and> starts_with n ''~''
    \<and> (\<exists>k \<le> length es. let offered = offered_names (foldl (field_step parse nz) empty_field (take k es)) in
         n \<in> set offered \<and> map fst items = searchDeviceNamesSync offered (query_at (input_value d) (cursor d)))
    \<and> input_value (dropdown_step names d TabKey) = complete_at n (input_value d) (cursor d)"
proof -
  obtain all where all: "list_all (\<lambda>n. starts_with n ''~'') all" "dropdown_inv all d"
    using field.inv_trace [OF assms(1)] unfolding assms(2) field_inv_def by blast
  define k where "k = nat (selected d)"
  have k: "k < length (options d)" "selected d = int k" "options d \<noteq> []"
    using all(2) assms(3) by (auto simp: dropdown_inv_def k_def)
  let ?g = "\<lambda>(i, n). (n, int i = selected d, True \<and> int i = selected d)"
  have items: "shown_items d = Some (map ?g (enumerate 0 (options d)))"
    using assms(3) k(3) by (simp add: shown_items_def dropdown_items_def)
  have "filter (\<lambda>(t, sel, hint). hint) (map ?g (enumerate 0 (options d)))
      = map ?g (filter (\<lambda>(i, x). i = 0 + k) (enumerate 0 (options d)))"
    by (simp add: filter_map comp_def split_def k(2))
  then have "filter (\<lambda>(t, sel, hint). hint) (map ?g (enumerate 0 (options d))) = [(options d ! k, True, True)]"
    unfolding filter_enumerate [OF k(1)] by (simp add: k(2))
  moreover have "starts_with (options d ! k) ''~''"
    using all k(1) unfolding dropdown_inv_def list_all_iff by (meson nth_mem subsetD)
  moreover have "input_value (dropdown_step names d TabKey) = complete_at (options d ! k) (input_value d) (cursor d)"
    using assms(3) k by (simp add: handleKeyDown_def accept_and_submit_def acceptAutocomplete_def set_input_value)
  moreover have "\<exists>m \<le> length es. let offered = offered_names (foldl (field_step parse nz) empty_field (take m es)) in
      options d ! k \<in> set offered \<and>
      map fst (map ?g (enumerate 0 (options d))) = searchDeviceNamesSync offered (query_at (input_value d) (cursor d))"
  proof -
    obtain m where m: "m \<le> length es" "options d = searchDeviceNamesSync
        (offered_names (foldl (field_step parse nz) empty_field (take m es))) (query_at (input_value d) (cursor d))"
      using field_found [of parse nz es] assms(3) unfolding assms(2) [symmetric] found_in_def by blast
    have "options d ! k \<in> set (offered_names (foldl (field_step parse nz) empty_field (take m es)))"
      using m(2) k(1) search_subset by (metis nth_mem subsetD)
    moreover have "map fst (map ?g (enumerate 0 (options d))) = options d"
    proof -
      have "fst \<circ> ?g = (snd :: nat \<times> string \<Rightarrow> string)" by auto
      then show ?thesis unfolding map_map by simp
    qed
    ultimately show ?thesis using m by (auto simp: Let_def)
  qed
  ultimately show ?thesis using items by blast
qed

text \<open>The user types before the node has answered, and moves to the second suggestion.\<close>

definition typed_early :: "field_event list" where
  "typed_early = [OnDevices AskDevices, OnField (Typed ''/~me'' 4), OnDevices (DevicesAnswered Unreachable),
     OnField ArrowDown]"

theorem hint_names_completion_witness:
  "input_value (dropdown_step [] (sf_dropdown (foldl (field_step (JSON_parse (\<lambda>t. 0 :: int)) (\<lambda>n. n \<noteq> 0)) empty_field typed_early)) TabKey)
    = ''/~meta@1.0''"
proof -
  define d where "d = sf_dropdown (foldl (field_step (JSON_parse (\<lambda>t. 0 :: int)) (\<lambda>n. n \<noteq> 0)) empty_field typed_early)"
  have p: "permitted field_ok (field_step (JSON_parse (\<lambda>t. 0 :: int)) (\<lambda>n. n \<noteq> 0)) empty_field typed_early"
    unfolding typed_early_def by code_simp
  have d: "d = \<lparr>input_value = ''/~me'', cursor = 4, shown = True,
      options = [''~message@1.0'', ''~meta@1.0''], selected = 1, submitted = []\<rparr>"
    unfolding d_def typed_early_def by code_simp
  then have s: "shown d" "input_value d = ''/~me''" "cursor d = 4" by simp_all
  have shown: "shown_items d = Some [(''~message@1.0'', False, False), (''~meta@1.0'', True, True)]"
    by (simp add: d shown_items_def dropdown_items_def)
  obtain items n where i: "shown_items d = Some items" "filter (\<lambda>(t, sel, hint). hint) items = [(n, True, True)]"
    "input_value (dropdown_step [] d TabKey) = complete_at n (input_value d) (cursor d)"
    using hint_names_completion [OF p d_def s(1), of "[]"] by blast
  have "n = ''~meta@1.0''" using i(1,2) shown by auto
  moreover have "complete_at ''~meta@1.0'' ''/~me'' 4 = ''/~meta@1.0''" by code_simp
  ultimately show ?thesis using i(3) s(2,3) by (simp add: d_def)
qed

end
