(* ===== verification/Site.thy ===== *)
theory Site
  imports Explorer Router_Page
begin

text \<open>
  The addresses of the site (\<open>createURLs\<close>, \<open>STORAGE\<close> and the endpoints, line 246 of
  \<open>bundle.js\<close>), and what they mean to the parts that read them: the router that
  follows a link and matches the path, and the reading of a process and its page from a path.
\<close>

section \<open>Addresses\<close>

record urls =
  url_base :: string
  url_explorerBase :: string
  url_explorer :: string
  url_explorerInfo :: "string \<Rightarrow> string"
  url_explorerMessages :: "string \<Rightarrow> string"
  url_explorerRead :: "string \<Rightarrow> string"
  url_explorerWrite :: "string \<Rightarrow> string"
  url_explorerSource :: "string \<Rightarrow> string"
  url_explorerAOS :: "string \<Rightarrow> string"
  url_nodes :: string
  url_aos :: string
  url_docs :: string
  url_docsIntro :: string
  url_notFound :: string

definition createURLs :: urls where
  "createURLs = (let docs = ''/docs/''; base = ''/explorer''; explorer = base @ ''/'' in
     \<lparr>url_base = ''/'', url_explorerBase = base, url_explorer = explorer,
       url_explorerInfo = (\<lambda>i. explorer @ i @ ''/info''), url_explorerMessages = (\<lambda>i. explorer @ i @ ''/messages''),
       url_explorerRead = (\<lambda>i. explorer @ i @ ''/read''), url_explorerWrite = (\<lambda>i. explorer @ i @ ''/write''),
       url_explorerSource = (\<lambda>i. explorer @ i @ ''/source''), url_explorerAOS = (\<lambda>i. explorer @ i @ ''/aos''),
       url_nodes = ''/nodes/'', url_aos = ''/aos/'', url_docs = docs,
       url_docsIntro = docs @ ''overview/introduction'', url_notFound = ''/404''\<rparr>)"

definition DEFAULT_TABS_process :: string where
  "DEFAULT_TABS_process = ''/info''"

text \<open>The keys under which the browser's storage keeps the wallet and the profiles.\<close>

definition STORAGE_walletType :: string where "STORAGE_walletType = ''wallet-type''"
definition STORAGE_profile :: "string \<Rightarrow> string" where "STORAGE_profile a = ''profile-'' @ a"
definition STORAGE_profileByWallet :: "string \<Rightarrow> string" where
  "STORAGE_profileByWallet a = ''profile-by-wallet-'' @ a"

text \<open>The pages of a process, each with its address and the end of its path.\<close>

definition process_pages :: "((string \<Rightarrow> string) \<times> string) list" where
  "process_pages = [(url_explorerInfo createURLs, ''/info''), (url_explorerMessages createURLs, ''/messages''),
     (url_explorerRead createURLs, ''/read''), (url_explorerWrite createURLs, ''/write''),
     (url_explorerSource createURLs, ''/source''), (url_explorerAOS createURLs, ''/aos'')]"

section \<open>Lemmas\<close>

lemma page_address:
  assumes "(u, sub) \<in> set process_pages"
  obtains w where "clean_segment w" "sub = CHR ''/'' # w" "u = (\<lambda>a. CHR ''/'' # join ''/'' [''explorer'', a, w])"
proof -
  have "\<exists>w \<in> {''info'', ''messages'', ''read'', ''write'', ''source'', ''aos''}. sub = CHR ''/'' # w
      \<and> u = (\<lambda>a. CHR ''/'' # join ''/'' [''explorer'', a, w])"
    using assms by (auto simp: process_pages_def createURLs_def Let_def)
  then obtain w where w: "w \<in> {''info'', ''messages'', ''read'', ''write'', ''source'', ''aos''}" "sub = CHR ''/'' # w"
    "u = (\<lambda>a. CHR ''/'' # join ''/'' [''explorer'', a, w])" by blast
  moreover from w(1) have "clean_segment w" by (auto simp: clean_segment_def)
  ultimately show ?thesis using that [of w] by simp
qed

lemma address_chars: "\<not> is_address_char CHR ''/''" "\<not> is_address_char CHR ''#''" "\<not> is_address_char CHR ''?''"
  "\<not> is_address_char CHR '':''"
  by (simp_all add: is_address_char_def is_alpha_def is_digit_def)

lemma address_fragment: "is_address_char c \<Longrightarrow> fragment_char c"
  by (auto simp: is_address_char_def is_alpha_def is_digit_def fragment_char_def Let_def)

lemma address_percent: "\<not> is_address_char CHR ''%''"
  by (simp add: is_address_char_def is_alpha_def is_digit_def)

lemma unescape_plain: "CHR ''%'' \<notin> set s \<Longrightarrow> unescape_slashes s = s"
  by (induction s rule: unescape_slashes.induct) auto

lemma address_clean:
  assumes "checkValidAddress a"
  shows "clean_segment a" "CHR '':'' \<notin> set a"
proof -
  have a: "length a = 43" "\<And>c. c \<in> set a \<Longrightarrow> is_address_char c"
    using assms by (simp_all add: checkValidAddress_def list_all_iff)
  have "a \<noteq> []" "a \<noteq> ''.''" "a \<noteq> ''..''" using a(1) by auto
  then show "clean_segment a" unfolding clean_segment_def list_all_iff using a(2) address_chars by metis
  show "CHR '':'' \<notin> set a" using a(2) address_chars by metis
qed

lemma resolve_absolute:
  assumes "list_all clean_segment ws" "ws \<noteq> []" "CHR '':'' \<notin> set (join ''/'' ws)"
  shows "resolveTo (ToText (CHR ''/'' # join ''/'' ws)) routes here by_path
    = Inr \<lparr>p_pathname = CHR ''/'' # join ''/'' ws, p_search = [], p_hash = []\<rparr>"
proof -
  let ?u = "CHR ''/'' # join ''/'' ws"
  note j = single_slashes_clean [OF assms(1,2)]
  have chars: "CHR ''#'' \<notin> set ?u" "CHR ''?'' \<notin> set ?u"
    using assms(1) clean_segmentD by (auto simp: list_all_iff dest!: set_join_subset)
  then have p: "parsePath ?u = \<lparr>pp_pathname = Some ?u, pp_search = None, pp_hash = None\<rparr>"
    by (simp add: parsePath_def cut_at_def)
  have slashes: "single_slashes ?u = ?u"
    using j by (cases "join ''/'' ws") auto
  have "\<not> isAbsoluteUrl ?u"
    using j(2,3) by (cases "join ''/'' ws") (auto simp: isAbsoluteUrl_def is_alpha_def)
  moreover have "\<not> ends_with ?u ''/''"
    using clean_last [OF assms(1,2), of "[[]]"] by (cases ws) (use assms(2) in \<open>simp_all\<close>)
  moreover have "resolvePathname (join ''/'' ws) ''/'' = ?u"
    using resolve_clean [OF assms(1,2), of "''/''"] by (simp add: strip_slashes_def)
  ultimately show ?thesis
    by (simp add: resolveTo_def target_parts_def p route_base_def resolvePath_def slashes
        Let_def or_else_def normalizeSearch_def normalizeHash_def with_mark_def)
qed

lemma while_absent:
  "x \<notin> set s \<Longrightarrow> takeWhile (\<lambda>c. c \<noteq> x) s = s" "x \<notin> set s \<Longrightarrow> dropWhile (\<lambda>c. c \<noteq> x) s = []"
  by (induction s) auto

lemma page_details:
  assumes "(u, sub) \<in> set process_pages" "checkValidAddress a"
  shows "extractDetailsFromPath (u a) = (a, sub)"
proof -
  obtain w where w: "clean_segment w" "sub = CHR ''/'' # w" "u = (\<lambda>a. CHR ''/'' # join ''/'' [''explorer'', a, w])"
    by (rule page_address [OF assms(1)])
  note s = clean_segmentD [OF w(1)] clean_segmentD [OF address_clean(1) [OF assms(2)]]
  have "split_on CHR ''/'' (join ''/'' [a, w]) = [a, w]"
    by (rule split_on_join) (use s in auto)
  then have "split_on CHR ''/'' (u a) = [[], ''explorer'', a, w]" by (simp add: w(3))
  moreover have "CHR ''#'' \<notin> set (u a)" using s by (simp add: w(3))
  then have "strip_fragment (u a) = u a" by (simp add: strip_fragment_def while_absent)
  ultimately have "path_segments (u a) = [''explorer'', a, w]"
    using s by (simp add: path_segments_def)
  then show ?thesis using s by (simp add: extractDetailsFromPath_def w(2) Let_def)
qed

lemma page_resolves:
  assumes "(u, sub) \<in> set process_pages" "checkValidAddress a"
  shows "useResolvedPath c (ToText (u a)) by_path = Inr \<lparr>p_pathname = u a, p_search = [], p_hash = []\<rparr>"
    "plain_path \<lparr>p_pathname = u a, p_search = [], p_hash = []\<rparr>" "starts_with (u a) ''/''"
proof -
  obtain w where w: "clean_segment w" "sub = CHR ''/'' # w" "u = (\<lambda>a. CHR ''/'' # join ''/'' [''explorer'', a, w])"
    by (rule page_address [OF assms(1)])
  note a = address_clean [OF assms(2)]
  have "CHR '':'' \<notin> set w" using assms(1) w(2)
    by (auto simp: process_pages_def)
  then have "CHR '':'' \<notin> set (join ''/'' [''explorer'', a, w])"
    using a(2) by simp
  moreover have "clean_segment ''explorer''" by (simp add: clean_segment_def)
  ultimately show "useResolvedPath c (ToText (u a)) by_path = Inr \<lparr>p_pathname = u a, p_search = [], p_hash = []\<rparr>"
    unfolding useResolvedPath_def w(3) using w(1) a(1) by (intro resolve_absolute) simp_all
  show "plain_path \<lparr>p_pathname = u a, p_search = [], p_hash = []\<rparr>" "starts_with (u a) ''/''"
    using clean_segmentD [OF w(1)] clean_segmentD [OF a(1)] by (simp_all add: w(3) plain_path_def marked_def)
qed

lemma sub_chars: "(u, sub) \<in> set process_pages \<Longrightarrow> list_all fragment_char (''/explorer/'' @ sub)
    \<and> list_all (\<lambda>c. c \<noteq> CHR ''%'') sub \<and> \<not> is_blank (last sub) \<and> sub \<noteq> []"
  by (auto simp: process_pages_def fragment_char_def is_blank_def)

lemma fragment_kept: "fragment_char c \<Longrightarrow> \<not> dropped_char c \<and> \<not> is_blank c"
  by (auto simp: fragment_char_def dropped_char_def is_blank_def Let_def)

lemma page_written:
  assumes "(u, sub) \<in> set process_pages" "checkValidAddress a"
  shows "percent_path \<lparr>p_pathname = u a, p_search = [], p_hash = []\<rparr> = \<lparr>p_pathname = u a, p_search = [], p_hash = []\<rparr>"
    "kept_text (createPath (given_path \<lparr>p_pathname = u a, p_search = [], p_hash = []\<rparr>))"
proof -
  obtain w where w: "sub = CHR ''/'' # w" "u = (\<lambda>a. CHR ''/'' # join ''/'' [''explorer'', a, w])"
    by (rule page_address [OF assms(1)])
  have a: "list_all fragment_char a"
    using assms(2) address_fragment by (auto simp: checkValidAddress_def list_all_iff)
  have c: "list_all fragment_char (u a)"
    using sub_chars [OF assms(1)] a by (simp add: w)
  then show "percent_path \<lparr>p_pathname = u a, p_search = [], p_hash = []\<rparr> = \<lparr>p_pathname = u a, p_search = [], p_hash = []\<rparr>"
    by (simp add: percent_path_def percent_encode_plain)
  have "createPath (given_path \<lparr>p_pathname = u a, p_search = [], p_hash = []\<rparr>) = u a"
    by (simp add: createPath_def given_path_def or_else_def with_mark_def)
  then show "kept_text (createPath (given_path \<lparr>p_pathname = u a, p_search = [], p_hash = []\<rparr>))"
    using c fragment_kept by (auto simp: kept_text_def list_all_iff)
qed

lemma page_matched:
  assumes "(u, sub) \<in> set process_pages" "checkValidAddress a"
  shows "matchPath (url_explorer createURLs @ ''*'') sensitive whole (u a) = Some
    \<lparr>m_params = [(''*'', Some (a @ sub))], m_pathname = u a, m_base = ''/explorer''\<rparr>"
proof -
  obtain w where w: "sub = CHR ''/'' # w" "u = (\<lambda>a. CHR ''/'' # join ''/'' [''explorer'', a, w])"
    by (rule page_address [OF assms(1)])
  let ?s = "[Static ''explorer'']"
  have a: "c \<in> set (a @ sub) \<Longrightarrow> fragment_char c \<and> c \<noteq> CHR ''%''" for c
    using assms(2) address_fragment address_percent sub_chars [OF assms(1)]
    by (auto simp: checkValidAddress_def list_all_iff)
  have p: "list_all (plain_segment id) ?s" "distinct (segment_names ?s)" "segment_names ?s = []"
    "pattern_text ?s = ''/explorer''" "path_text id ?s = ''/explorer''" by code_simp+
  have "\<not> line_end c" if "fragment_char c" for c
    using that by (auto simp: fragment_char_def line_end_def Let_def)
  then have "\<not> list_ex line_end (path_text id ?s @ a @ sub)"
    using a sub_chars [OF assms(1)] unfolding p(5) by (auto simp: list_ex_iff line_end_def)
  moreover have "unescape_slashes (a @ sub) = a @ sub"
    using a by (intro unescape_plain) auto
  ultimately show ?thesis
    using match_splat [OF p(1) _ p(2), of "a @ sub" sensitive whole] sub_chars [OF assms(1)]
    unfolding p(3-5) by (simp add: createURLs_def Let_def w)
qed

section \<open>Properties\<close>

text \<open>
  C3. A link of the site to a page of a process does what it says: an ordinary click on it,
  anywhere in the application and after any history, shows the address of the page, the route
  of the explorer matches it with process and page behind the slash, and process and page are read
  back from the path.
\<close>

theorem process_links_reach_pages:
  assumes "checkValidAddress a" "(u, sub) \<in> set process_pages"
    and "open_router e0 = Inr pg0" and pg: "pg = foldl (router_step decode enc w) pg0 es"
    and "site_basename w = ''/''" "context_at decode enc w k pg = Some c"
    and "shouldProcessLinkClick e (lk_frame l)" "\<not> lk_reload l" "\<not> prevented_before e"
    and "lk_state l \<noteq> Some []" "key \<noteq> []"
  shows "let pathname = p_pathname (rp_location (router_step decode enc w pg (ClickLink k (ToText (u a), False) l e key)))
    in pathname = u a
      \<and> matchPath (url_explorer createURLs @ ''*'') sensitive whole pathname = Some
          \<lparr>m_params = [(''*'', Some (a @ sub))], m_pathname = pathname, m_base = ''/explorer''\<rparr>
      \<and> extractDetailsFromPath pathname = (a, sub)"
proof -
  note r = page_resolves [OF assms(2,1)] and v = page_written [OF assms(2,1)]
  have "p_pathname (rp_location (router_step decode enc w pg (ClickLink k (ToText (u a), False) l e key))) = u a"
    using click_shown [OF assms(3,4,5,6,7,8,9) r(1,2) _ assms(10,11) v(2)] r(3) by (simp add: v(1) Let_def full_path.defs)
  then show ?thesis
    using page_matched [OF assms(2,1)] page_details [OF assms(2,1)] by (simp add: Let_def)
qed

text \<open>From the sample page a link leads to the messages of a process.\<close>

definition sample_process :: string where
  "sample_process = replicate 43 CHR ''a''"

theorem process_links_reach_pages_witness:
  "map_sum id (\<lambda>pg. p_pathname (rp_location (router_step Some id sample_site pg
      (ClickLink 1 (ToText (''/explorer/'' @ sample_process @ ''/messages''), False) sample_link
        \<lparr>button = 0, modified = False, prevented_before = False\<rparr> ''k'')))) (open_router sample_entry)
    = Inr (''/explorer/'' @ sample_process @ ''/messages'')"
proof -
  let ?e = "\<lparr>button = 0, modified = False, prevented_before = False\<rparr>"
  obtain pg0 where o: "open_router sample_entry = Inr pg0"
    by (auto simp: open_router_def history_listen_def create_history_def sample_entry_def)
  obtain c where c: "context_at Some id sample_site 1 pg0 = Some c"
    by (auto simp: context_at_def router_location_def sample_site_def router_basename_def stripBasename_def)
  have a: "checkValidAddress sample_process" by code_simp
  have u: "(\<lambda>i. ''/explorer/'' @ i @ ''/messages'', ''/messages'') \<in> set process_pages"
    by (simp add: process_pages_def createURLs_def Let_def)
  have start: "pg0 = foldl (router_step Some id sample_site) pg0 []" by simp
  have side: "site_basename sample_site = ''/''" "shouldProcessLinkClick ?e (lk_frame sample_link)"
    "\<not> lk_reload sample_link" "\<not> prevented_before ?e" "lk_state sample_link \<noteq> Some []" "''k'' \<noteq> []"
    by (simp_all add: sample_site_def sample_link_def shouldProcessLinkClick_def)
  show ?thesis
    using process_links_reach_pages [OF a u o start side(1) c side(2-6)] unfolding o by (simp add: Let_def)
qed

text \<open>
  The storage keeps no two things under one key: for addresses the key of a profile, the key
  of the profile of a wallet and the key of the type of the wallet are all different, and each
  gives back the address it was made from.
\<close>

theorem storage_keys_apart:
  assumes "checkValidAddress a" "checkValidAddress b"
  shows "(STORAGE_profile a = STORAGE_profile b \<longleftrightarrow> a = b)
    \<and> (STORAGE_profileByWallet a = STORAGE_profileByWallet b \<longleftrightarrow> a = b)
    \<and> STORAGE_profile a \<noteq> STORAGE_profileByWallet b
    \<and> STORAGE_walletType \<notin> {STORAGE_profile a, STORAGE_profileByWallet b}"
proof -
  have "length (STORAGE_profile a) \<noteq> length (STORAGE_profileByWallet b)"
    using assms by (simp add: checkValidAddress_def STORAGE_profile_def STORAGE_profileByWallet_def)
  then show ?thesis
    by (auto simp: STORAGE_profile_def STORAGE_profileByWallet_def STORAGE_walletType_def)
qed

theorem storage_keys_apart_witness: "STORAGE_profile sample_process \<noteq> STORAGE_profileByWallet sample_process"
proof -
  have "checkValidAddress sample_process" by code_simp
  then show ?thesis using storage_keys_apart [of sample_process sample_process] by blast
qed

text \<open>A text that is no address can take the key of another.\<close>

lemma storage_keys_meet: "STORAGE_profile (''by-wallet-'' @ a) = STORAGE_profileByWallet a"
  by (simp add: STORAGE_profile_def STORAGE_profileByWallet_def)

end
