(* ===== verification/Language.thy ===== *)
theory Language
  imports JS_Prelude
begin

text \<open>
  The texts of the explorer (\<open>language\<close>, \<open>LanguageContext\<close> and \<open>LanguageProvider\<close>, line 516 of
  \<open>bundle.js\<close>). Every component reads its labels from the object of the current language; a
  label that is missing is \<open>undefined\<close>, a language that is missing throws.
\<close>

section \<open>The texts\<close>

text \<open>A label is a text, or the function that tells the range of a list.\<close>

datatype label = Text string | ShowingRange

definition language_en :: "(string \<times> label) list" where
  "language_en = [
    (''action'', Text ''Action''), (''app'', Text ''Hyperbuddy''), (''apply'', Text ''Apply''),
    (''applyFilters'', Text ''Apply Filters''), (''aoLegacynet'', Text ''AO Legacynet''),
    (''aoMainnet'', Text ''AO Mainnet''), (''aos'', Text ''AOS''),
    (''appearance'', Text ''Appearance''),
    (''associatedMessagesInfo'', Text ''Associated messages will display here''),
    (''associatedMessagesLoading'', Text ''Getting associated messages''),
    (''associatedMessagesNotFound'', Text ''No associated messages found''), (''bio'', Text ''Bio''),
    (''blockHeight'', Text ''Block Height''), (''byAction'', Text ''By Action''),
    (''cancel'', Text ''Cancel''), (''checking'', Text ''Checking''),
    (''chooseAppAppearance'', Text ''Choose Appearance''), (''clearTabs'', Text ''Clear Tabs''),
    (''close'', Text ''Close''), (''closeEditor'', Text ''Close Editor''),
    (''connect'', Text ''Connect''), (''connectWallet'', Text ''Connect your wallet''),
    (''connectToAOS'', Text ''Connect to AOS''),
    (''connectToContinue'', Text ''Connect your wallet to continue''), (''console'', Text ''Console''),
    (''copied'', Text ''Copied''), (''copyFullUrl'', Text ''Copy URL''), (''copyId'', Text ''Copy ID''),
    (''copyJSON'', Text ''Copy JSON''), (''copyPath'', Text ''Copy Path''),
    (''create'', Text ''Create''), (''createProfile'', Text ''Create your profile''),
    (''current'', Text ''Current''), (''currentOutput'', Text ''Current Output''),
    (''customAction'', Text ''Custom Action''), (''dashboard'', Text ''Dashboard''),
    (''data'', Text ''Data''), (''dateCreated'', Text ''Date Created''), (''delete'', Text ''Delete''),
    (''disconnect'', Text ''Disconnect''), (''dismiss'', Text ''Dismiss''), (''done'', Text ''Done''),
    (''download'', Text ''Download''), (''edit'', Text ''Edit''),
    (''editProfile'', Text ''Edit your profile''), (''enterFullScreen'', Text ''Enter Full Screen''),
    (''errorUpdatingProfile'', Text ''Error updating profile''),
    (''errorFetchingTx'', Text ''Error getting transaction''),
    (''errorOccurred'', Text ''Error occurred''), (''exitFullScreen'', Text ''Exit Full Screen''),
    (''explorer'', Text ''Explorer''), (''fetching'', Text ''Fetching''), (''filter'', Text ''Filter''),
    (''filterBy'', Text ''Filter by''), (''from'', Text ''From''), (''goBack'', Text ''Go Back''),
    (''goTo'', Text ''Go To''), (''handle'', Text ''Handle''), (''headers'', Text ''Headers''),
    (''healthy'', Text ''Healthy''), (''hideResults'', Text ''Hide Results''), (''id'', Text ''ID''),
    (''io'', Text ''I/O''), (''incoming'', Text ''Incoming''), (''input'', Text ''Input''),
    (''inputHeaders'', Text ''Input Headers''), (''language'', Text ''Language''),
    (''load'', Text ''Load''), (''loading'', Text ''Loading''),
    (''maxCharsReached'', Text ''Max chars reached''), (''message'', Text ''Message''),
    (''messages'', Text ''Messages''), (''messageFilters'', Text ''Message Filters''),
    (''messageInfo'', Text ''Message Info''), (''name'', Text ''Name''),
    (''network'', Text ''Network''), (''new'', Text ''New''), (''newTab'', Text ''New Tab''),
    (''next'', Text ''Next''), (''nodes'', Text ''Nodes''), (''none'', Text ''None''),
    (''noData'', Text ''No Data''), (''noDataToDisplay'', Text ''No data to display''),
    (''openEditor'', Text ''Open Editor''), (''openInNewTab'', Text ''Open in new tab''),
    (''outgoing'', Text ''Outgoing''), (''output'', Text ''Output''), (''overview'', Text ''Overview''),
    (''owner'', Text ''Owner''), (''page'', Text ''Page''), (''pageNotFound'', Text ''Page not found''),
    (''pathNotFound'', Text ''Path not found''), (''pathOrId'', Text ''Path or ID''),
    (''previous'', Text ''Previous''), (''processId'', Text ''Process ID''),
    (''processOrMessageId'', Text ''Process or Message ID''),
    (''processOrMessageTagsInfo'', Text ''Process or Message tags will display here''),
    (''profile'', Text ''Profile''), (''profileCreated'', Text ''Profile created''),
    (''profileCreatingInfo'', Text ''Creating your profile''), (''profileMenu'', Text ''Profile menu''),
    (''profileUpdated'', Text ''Profile updated''),
    (''profileUpdatingInfo'', Text ''Updating your profile''), (''read'', Text ''Read''),
    (''recipient'', Text ''Recipient''), (''refresh'', Text ''Refresh''), (''remove'', Text ''Remove''),
    (''removeAvatar'', Text ''Remove Avatar''), (''removeBanner'', Text ''Remove Banner''),
    (''response'', Text ''Response''), (''result'', Text ''Result''), (''results'', Text ''Results''),
    (''resultsPerPage'', Text ''Results per page''),
    (''resultingMessagesInfo'', Text ''Resulting messages will display here''), (''run'', Text ''Run''),
    (''running'', Text ''Running''), (''runForResponse'', Text ''Run to get a response''),
    (''save'', Text ''Save''), (''sender'', Text ''Sender''),
    (''sidebarClose'', Text ''Close sidebar''), (''sidebarOpen'', Text ''Open sidebar''),
    (''size'', Text ''Size''), (''search'', Text ''Search''), (''searching'', Text ''Searching''),
    (''showResults'', Text ''Show Results''), (''showingRange'', ShowingRange),
    (''slot'', Text ''Slot''), (''sortNewestToOldest'', Text ''Newest to Oldest''),
    (''sortOldestToNewest'', Text ''Oldest to Newest''), (''source'', Text ''Source''),
    (''submit'', Text ''Submit''),
    (''tabsDeleteConfirmationInfo'', Text ''Are you sure you want to clear your tabs ?''),
    (''tags'', Text ''Tags''), (''themes'', Text ''Themes''), (''time'', Text ''Time''),
    (''timestamp'', Text ''Timestamp''), (''to'', Text ''To''), (''top'', Text ''Top''),
    (''txNotFound'', Text ''Transaction not found''), (''type'', Text ''Type''),
    (''unhealthy'', Text ''Unhealthy''), (''untitled'', Text ''Untitled''),
    (''updating'', Text ''Updating''), (''uploadAvatar'', Text ''Upload avatar''),
    (''uploadBanner'', Text ''Upload banner''), (''view'', Text ''View''),
    (''walletAddress'', Text ''Wallet Address''), (''write'', Text ''Write''),
    (''yourProcesses'', Text ''Your processes'')]"

definition language :: "(string \<times> (string \<times> label) list) list" where
  "language = [(''en'', language_en)]"

definition showingRange :: "string \<Rightarrow> string \<Rightarrow> string \<Rightarrow> string" where
  "showingRange a b c = ''Showing '' @ a @ '' - '' @ b @ '' of '' @ c"

section \<open>The provider\<close>

definition initial_language :: string where
  "initial_language = ''en''"

text \<open>\<open>setCurrent\<close> takes any text.\<close>

definition setCurrent :: "string \<Rightarrow> string \<Rightarrow> string" where
  "setCurrent now new = new"

text \<open>\<open>language.object[language.current].label\<close>\<close>

definition label_of :: "string \<Rightarrow> string \<Rightarrow> string + label option" where
  "label_of now l = (case map_of language now of None \<Rightarrow> Inl ''TypeError'' | Some t \<Rightarrow> Inr (map_of t l))"

section \<open>Lemmas\<close>

text \<open>The labels that components of the explorer ask for.\<close>

definition asked_labels :: "(string \<times> string list) list" where
  "asked_labels =
    [(''Copyable'', [''copied'']),
     (''Modal'', [''close'']),
     (''SearchInput'', [''run'']),
     (''Button'', [''loading'']),
     (''ArweaveProvider'', [''connectWallet'']),
     (''Panel'', [''close'']),
     (''Notification'', [''dismiss'']),
     (''WalletConnect'', [''connect'', ''connectToContinue'']),
     (''JSONReader'', [''collapseExpandAll'', ''copied'', ''copyJSON'', ''enterFullScreen'', ''exitFullScreen'', ''noDataToDisplay'', ''output'']),
     (''ExplorerTabPath'', [''loading'', ''pathNotFound'']),
     (''ExplorerTab'', [''copied'', ''copyPath'', ''loading'', ''pathNotFound'', ''pathOrId'', ''refresh'']),
     (''Explorer'', [''cancel'', ''clearTabs'', ''explorer'', ''newTab'', ''tabsDeleteConfirmationInfo'', ''untitled'']),
     (''Console'', [''enterFullScreen'', ''exitFullScreen'', ''run''])]"

definition given_label :: "string \<Rightarrow> bool" where
  "given_label l \<longleftrightarrow> list_ex (\<lambda>(k, v). k = l) language_en"

lemma given_label_iff: "given_label l \<longleftrightarrow> map_of language_en l \<noteq> None"
  by (force simp: given_label_def list_ex_iff map_of_eq_None_iff)

lemma asked_are_given:
  "map (\<lambda>(c, ls). (c, filter (\<lambda>l. \<not> given_label l) ls)) asked_labels
     = map (\<lambda>(c, ls). (c, if c = ''JSONReader'' then [''collapseExpandAll''] else [])) asked_labels"
  unfolding asked_labels_def given_label_def language_en_def by code_simp

text \<open>
  Every label a component asks for is there in the first language, except the one of the
  button that opens and closes all nodes of a JSON tree; any other language makes the first
  label that is asked for throw.
\<close>

lemma labels_given:
  "(\<forall>(c, ls) \<in> set asked_labels. \<forall>l \<in> set ls. c \<noteq> ''JSONReader'' \<or> l \<noteq> ''collapseExpandAll'' \<longrightarrow>
      (\<exists>t. label_of initial_language l = Inr (Some t)))
   \<and> label_of initial_language ''collapseExpandAll'' = Inr None
   \<and> (\<forall>new l. new \<noteq> ''en'' \<longrightarrow> label_of (setCurrent initial_language new) l = Inl ''TypeError'')"
proof (intro conjI ballI allI impI)
  have en: "label_of initial_language l = Inr (map_of language_en l)" for l
    by (simp add: label_of_def language_def initial_language_def)
  have gap: "filter (\<lambda>l. \<not> given_label l) ls = (if c = ''JSONReader'' then [''collapseExpandAll''] else [])"
    if "(c, ls) \<in> set asked_labels" for c ls
    using that asked_are_given unfolding map_eq_conv by fastforce
  show "case x of (c, ls) \<Rightarrow> \<forall>l \<in> set ls. c \<noteq> ''JSONReader'' \<or> l \<noteq> ''collapseExpandAll'' \<longrightarrow>
      (\<exists>t. label_of initial_language l = Inr (Some t))" if "x \<in> set asked_labels" for x
  proof (cases x)
    case (Pair c ls)
    have asked: "(c, ls) \<in> set asked_labels" using that Pair by simp
    have "given_label l" if "l \<in> set ls" "c \<noteq> ''JSONReader'' \<or> l \<noteq> ''collapseExpandAll''" for l
    proof (rule ccontr)
      assume "\<not> given_label l"
      then have "l \<in> set (filter (\<lambda>l. \<not> given_label l) ls)" using that(1) by simp
      then have "l \<in> set (if c = ''JSONReader'' then [''collapseExpandAll''] else [])" unfolding gap [OF asked] .
      then show False using that(2) by (simp split: if_splits)
    qed
    then show ?thesis by (auto simp: Pair en given_label_iff)
  qed
  have "\<not> given_label ''collapseExpandAll''" unfolding given_label_def language_en_def by code_simp
  then show "label_of initial_language ''collapseExpandAll'' = Inr None" by (simp add: en given_label_iff)
  show "label_of (setCurrent initial_language new) l = Inl ''TypeError''" if "new \<noteq> ''en''" for new l
    using that by (simp add: label_of_def setCurrent_def language_def)
qed

end
