(* ===== verification/RequestTab.thy ===== *)
theory RequestTab
  imports Requests
begin

text \<open>
  A tab of the explorer (\<open>ExplorerTab\<close>, line 9920 of \<open>bundle.js\<close>): its input field and
  the request it sends (\<open>H1t\<close>), with the events that send one, and the effect that
  reports what was found to the tab bar (\<open>onPathChange\<close>). The tab does not send while
  a request is in flight, so that the answers of \<^theory_text>\<open>Requests\<close> cannot overtake each
  other here. The contents of an answer are in \<^theory_text>\<open>TabContent\<close>.
\<close>

section \<open>Sending\<close>

text \<open>The paths of the requests in flight, and all that were sent so far.\<close>

record request_tab =
  tab_input :: string
  tab_cursor :: nat
  auto_sent :: bool
  request :: hb_request
  pending :: "string list"
  sent :: "string list"

definition open_tab :: "tab \<Rightarrow> request_tab" where
  "open_tab t = \<lparr>tab_input = (case basePath t of None \<Rightarrow> [] | Some b \<Rightarrow> b), tab_cursor = 0,
     auto_sent = False, request = reset_request, pending = [], sent = []\<rparr>"

definition send :: "string \<Rightarrow> request_tab \<Rightarrow> request_tab" where
  "send given s = (let x = (if given \<noteq> [] then given else tab_input s) in
     if x \<noteq> [] \<and> \<not> loading (request s)
     then s\<lparr>request := submit_path x (request s), pending := pending s @ [x], sent := sent s @ [x]\<rparr> else s)"

datatype tab_event =
    Typed string nat
  | Suggestion string nat
  | AutoSubmit string
  | Enter
  | Activated
  | SamplePath string
  | Refresh
  | Arrived nat "answer option"

text \<open>The requests in flight may be answered in any order.\<close>

fun tab_step ::
    "(8 word list \<Rightarrow> 8 word list) \<Rightarrow> (string \<Rightarrow> string \<Rightarrow> answer \<Rightarrow> bool) \<Rightarrow>
     request_tab \<Rightarrow> tab_event \<Rightarrow> request_tab" where
  "tab_step sha256 verify s (Typed v c) = (let s1 = s\<lparr>tab_input := v, tab_cursor := c\<rparr> in
     if checkValidAddress v then send v s1 else s1)"
| "tab_step sha256 verify s (Suggestion v c) = s\<lparr>tab_input := v, tab_cursor := c\<rparr>"
| "tab_step sha256 verify s (AutoSubmit x) = send x s"
| "tab_step sha256 verify s Enter = send [] s"
| "tab_step sha256 verify s Activated = (if tab_input s \<noteq> [] \<and> \<not> auto_sent s
     then (send [] s)\<lparr>auto_sent := True\<rparr> else s)"
| "tab_step sha256 verify s (SamplePath p) = send p (s\<lparr>tab_input := p\<rparr>)"
| "tab_step sha256 verify s Refresh = send [] s"
| "tab_step sha256 verify s (Arrived i a) = s\<lparr>pending := remove_at i (pending s),
     request := request_step sha256 verify (request s) (Answered (pending s ! i) a)\<rparr>"

text \<open>The field and the refresh button are disabled while loading.\<close>

fun tab_ok :: "request_tab \<Rightarrow> tab_event \<Rightarrow> bool" where
  "tab_ok s (Typed v c) = (\<not> loading (request s))"
| "tab_ok s Refresh = (\<not> loading (request s) \<and> tab_input s \<noteq> [])"
| "tab_ok s (Arrived i a) = (i < length (pending s))"
| "tab_ok s _ = True"

definition tab_inv :: "request_tab \<Rightarrow> bool" where
  "tab_inv s \<longleftrightarrow>
     (if loading (request s) then sent s \<noteq> [] \<and> pending s = [last (sent s)]
      else pending s = [] \<and> (has_content (request s) \<longrightarrow>
        sent s \<noteq> [] \<and> submitted_path (request s) = last (sent s)))"

lemma tab_inv_send: "tab_inv s \<Longrightarrow> tab_inv (send x s)"
  by (auto simp: tab_inv_def send_def submit_path_def Let_def)

lemma tab_inv_input: "tab_inv s \<Longrightarrow> tab_inv (s\<lparr>tab_input := v, tab_cursor := c\<rparr>)"
  "tab_inv s \<Longrightarrow> tab_inv (s\<lparr>tab_input := v\<rparr>)" "tab_inv s \<Longrightarrow> tab_inv (s\<lparr>auto_sent := b\<rparr>)"
  by (simp_all add: tab_inv_def)

lemma tab_inv_arrived:
  assumes "tab_inv s" "i < length (pending s)"
  shows "tab_inv (tab_step sha256 verify s (Arrived i a))"
proof -
  let ?loc = "pending s ! i"
  let ?r = "request_step sha256 verify (request s) (Answered ?loc a)"
  have p: "sent s \<noteq> []" "?loc = last (sent s)" "remove_at i (pending s) = []"
    using assms by (auto simp: tab_inv_def remove_at_def split: if_splits)
  have "\<not> loading ?r"
    by (cases a) (simp_all add: request_failed_def request_answered_def Let_def)
  moreover have "has_content ?r \<Longrightarrow> submitted_path ?r = ?loc"
    by (cases a) (simp_all add: request_failed_def request_answered_def Let_def split: if_splits)
  ultimately show ?thesis using p by (simp add: tab_inv_def)
qed

interpretation request_tabs: machine "tab_step sha256 verify" tab_ok tab_inv
  for sha256 verify
proof
  fix s e assume s: "tab_inv s" "tab_ok s e"
  show "tab_inv (tab_step sha256 verify s e)"
  proof (cases e)
    case (Arrived i a)
    then show ?thesis using tab_inv_arrived s by (simp del: tab_step.simps)
  qed (use s in \<open>auto simp: tab_inv_send tab_inv_input Let_def\<close>)
qed

text \<open>The hook inside the tab: what its request is told by an event of the tab.\<close>

definition sends :: "string \<Rightarrow> request_tab \<Rightarrow> request_event list" where
  "sends given s = (let x = (if given \<noteq> [] then given else tab_input s) in
     if x \<noteq> [] \<and> \<not> loading (request s) then [Submit x] else [])"

fun passed_requests :: "request_tab \<Rightarrow> tab_event \<Rightarrow> request_event list" where
  "passed_requests s (Typed v c) = (if checkValidAddress v then sends v (s\<lparr>tab_input := v\<rparr>) else [])"
| "passed_requests s (Suggestion v c) = []"
| "passed_requests s (AutoSubmit x) = sends x s"
| "passed_requests s Activated = (if tab_input s \<noteq> [] \<and> \<not> auto_sent s then sends [] s else [])"
| "passed_requests s (SamplePath p) = sends p (s\<lparr>tab_input := p\<rparr>)"
| "passed_requests s (Arrived i a) = [Answered (pending s ! i) a]"
| "passed_requests s e = sends [] s"

lemma request_send: "request (send x s) = foldl (request_step sha256 verify) (request s) (sends x s)"
  by (simp add: send_def sends_def Let_def)

lemma sends_same: "sends x (s\<lparr>tab_cursor := c\<rparr>) = sends x s"
  by (simp add: sends_def)

interpretation tab_request: embedded_machine "tab_step sha256 verify" tab_ok "open_tab t"
  "request_step sha256 verify" "\<lambda>_ _. True" reset_request request passed_requests request_inv
  for sha256 verify t
proof
  show "request (open_tab t) = reset_request" by (simp add: open_tab_def)
  show "request (tab_step sha256 verify s e)
      = foldl (request_step sha256 verify) (request s) (passed_requests s e)" for s e
    by (cases e) (simp_all add: request_send [of _ _ sha256 verify] sends_def Let_def del: request_step.simps)
qed (rule permitted_all)

section \<open>Reporting\<close>

text \<open>\<open>replace(p, "")\<close>: the first occurrence is removed.\<close>

fun remove_first :: "string \<Rightarrow> string \<Rightarrow> string" where
  "remove_first p [] = []"
| "remove_first p (c # s) = (if starts_with (c # s) p then drop (length p) (c # s)
     else c # remove_first p s)"

definition path_rest :: "tab \<Rightarrow> string" where
  "path_rest t = (let r = (case path t of None \<Rightarrow> []
       | Some x \<Rightarrow> remove_first (case basePath t of None \<Rightarrow> [] | Some b \<Rightarrow> b) x)
     in if r = [] then ''/info'' else r)"

text \<open>The effect: what the tab reports, if it differs from what the tab bar has.\<close>

definition report :: "tab \<Rightarrow> request_tab \<Rightarrow> tab option" where
  "report t s = (let r = request s in case message_id r of None \<Rightarrow> None | Some m \<Rightarrow>
     if loading r \<or> failed r \<or> m = [] then None else
     let x = tab_input s;
         z = \<lparr>tid = m, kind = req_type r, variant = req_variant r, basePath = Some x,
              path = Some (if req_type r = Some ''process'' then x @ path_rest t else x),
              label = (case shown_headers r of None \<Rightarrow> x
                | Some h \<Rightarrow> (case map_of h ''name'' of None \<Rightarrow> x | Some d \<Rightarrow> d)),
              tabId = []\<rparr>
     in if tid t \<noteq> tid z \<or> kind t \<noteq> kind z \<or> variant t \<noteq> variant z \<or> basePath t \<noteq> basePath z \<or>
          path t \<noteq> path z \<or> label t \<noteq> label z then Some z else None)"

lemma remove_first_prefix: "remove_first p (p @ s) = s"
proof (cases "p @ s")
  case (Cons c r)
  then have "starts_with (c # r) p" "drop (length p) (c # r) = s" by (metis starts_with_append, metis append_eq_conv_conj)
  then show ?thesis by (simp add: Cons)
qed simp

lemma path_rest_not_Nil: "path_rest t \<noteq> []"
  by (simp add: path_rest_def Let_def)

lemma path_rest_again:
  "basePath t' = Some x \<Longrightarrow> path t' = Some (x @ path_rest t) \<Longrightarrow> path_rest t' = path_rest t"
  by (subst path_rest_def) (simp add: remove_first_prefix path_rest_not_Nil Let_def)

section \<open>Properties\<close>

text \<open>
  Whatever is typed, completed, chosen, refreshed and answered: while a request is in
  flight the tab is loading and that request is the only one and the one sent last, and the
  contents shown when none is in flight belong to the path sent last.
\<close>

theorem tab_shows_last_sent:
  assumes "permitted tab_ok (tab_step sha256 verify) (open_tab t) es"
  defines "s \<equiv> foldl (tab_step sha256 verify) (open_tab t) es"
  shows "if loading (request s) then sent s \<noteq> [] \<and> pending s = [last (sent s)]
    else pending s = [] \<and> (has_content (request s) \<longrightarrow>
      sent s \<noteq> [] \<and> submitted_path (request s) = last (sent s) \<and> response (request s) \<noteq> None)"
proof -
  have "tab_inv (open_tab t)"
    by (simp add: tab_inv_def open_tab_def reset_request_def)
  from request_tabs.inv_run [OF this assms(1)] tab_request.whole.inv_trace [OF assms(1)] show ?thesis
    by (auto simp: tab_inv_def s_def request_inv_def)
qed

lemma tab_shows_last_sent_witness:
  "pending (foldl (tab_step id (\<lambda>_ _ _. True)) (open_tab (location_tab ''a'' [] ''k''))
     [Activated, SamplePath ''b'', Arrived 0 None, Enter]) = [''b'']"
  using tab_shows_last_sent [of id "\<lambda>_ _ _. True" "location_tab ''a'' [] ''k''"
      "[Activated, SamplePath ''b'', Arrived 0 None, Enter]"]
  by (simp add: open_tab_def location_tab_def send_def submit_path_def reset_request_def
      request_failed_def remove_at_def Let_def)

text \<open>
  A report that the tab bar takes over is not repeated: with the updated tab the
  effect has nothing to report, and the tab has the reported id, path and label.
\<close>

theorem report_settles:
  assumes "report (tabs b ! i) s = Some z" "\<not> busy b" "i < length (tabs b)"
  shows "let t' = tabs (explorer_step b (PathChange i z)) ! i in
    report t' s = None \<and> tid t' = tid z \<and> path t' = path z \<and> label t' = label z"
proof -
  let ?t' = "tabs (explorer_step b (PathChange i z)) ! i"
  have t': "tid ?t' = tid z" "kind ?t' = kind z" "variant ?t' = variant z" "basePath ?t' = basePath z"
    "path ?t' = path z" "label ?t' = label z"
    using assms(2,3) by (simp_all add: on_path_change_def)
  obtain m where m: "message_id (request s) = Some m" "\<not> (loading (request s) \<or> failed (request s) \<or> m = [])"
    and z: "z = \<lparr>tid = m, kind = req_type (request s), variant = req_variant (request s),
      basePath = Some (tab_input s),
      path = Some (if req_type (request s) = Some ''process'' then tab_input s @ path_rest (tabs b ! i)
        else tab_input s),
      label = (case shown_headers (request s) of None \<Rightarrow> tab_input s
        | Some h \<Rightarrow> (case map_of h ''name'' of None \<Rightarrow> tab_input s | Some d \<Rightarrow> d)), tabId = []\<rparr>"
    using assms(1) by (auto simp: report_def Let_def split: option.splits if_splits)
  have "req_type (request s) = Some ''process'' \<Longrightarrow> path_rest ?t' = path_rest (tabs b ! i)"
    using t' z by (intro path_rest_again) auto
  then have "report ?t' s = None"
    using m t' by (simp add: report_def z Let_def)
  then show ?thesis using t' by (simp add: Let_def)
qed

lemma report_settles_witness:
  "let r = reset_request\<lparr>message_id := Some ''m'', req_type := Some ''process'', req_variant := Some Mainnet\<rparr>;
       s = (open_tab (location_tab ''p'' ''/now'' ''k''))\<lparr>request := r\<rparr>;
       b = \<lparr>tabs = [location_tab ''p'' ''/now'' ''k''], active = 0, clear_modal = False, busy = False,
         mounted = True, skip_effect = False, navigated = []\<rparr>
   in (case report (tabs b ! 0) s of None \<Rightarrow> False
       | Some z \<Rightarrow> report (tabs (explorer_step b (PathChange 0 z)) ! 0) s = None)"
proof -
  let ?r = "reset_request\<lparr>message_id := Some ''m'', req_type := Some ''process'', req_variant := Some Mainnet\<rparr>"
  let ?s = "(open_tab (location_tab ''p'' ''/now'' ''k''))\<lparr>request := ?r\<rparr>"
  let ?b = "\<lparr>tabs = [location_tab ''p'' ''/now'' ''k''], active = 0, clear_modal = False, busy = False,
         mounted = True, skip_effect = False, navigated = []\<rparr>"
  have "report (tabs ?b ! 0) ?s \<noteq> None"
    by (simp add: report_def open_tab_def location_tab_def reset_request_def Let_def)
  then obtain z where z: "report (tabs ?b ! 0) ?s = Some z" by blast
  show ?thesis
    using report_settles [OF z] z by (simp add: Let_def del: explorer_step.simps)
qed

text \<open>
  The report is made of the input field, not of the path that was sent: when another
  text has been typed but not sent, and a new tab is opened (which gives the tab a new
  callback, so that its effect runs again), the tab takes the typed text as its path.
\<close>

theorem typed_text_reported:
  assumes "message_id (request s) = Some m" "m \<noteq> []" "\<not> loading (request s)" "\<not> failed (request s)"
    and "req_type (request s) \<noteq> Some ''process''" "\<not> checkValidAddress y"
    and "i < length (tabs b)" "path (tabs b ! i) \<noteq> Some y"
  shows "let s' = tab_step sha256 verify s (Typed y c);
      b1 = foldl explorer_step b [NewTabClick k, BusyTimeout]
    in sent s' = sent s \<and> (\<exists>z. report (tabs b1 ! i) s' = Some z \<and>
      path (tabs (explorer_step b1 (PathChange i z)) ! i) = Some y)"
proof -
  let ?s = "s\<lparr>tab_input := y, tab_cursor := c\<rparr>" and ?b = "foldl explorer_step b [NewTabClick k, BusyTimeout]"
  have b: "tabs ?b ! i = tabs b ! i" "\<not> busy ?b" "i < length (tabs ?b)"
    using assms(7) by (simp_all add: on_new_tab_def nth_append)
  obtain z where z: "report (tabs ?b ! i) ?s = Some z" "path z = Some y"
    using assms(1-5,8) b(1) by (auto simp: report_def Let_def)
  then have "path (tabs (explorer_step ?b (PathChange i z)) ! i) = Some y"
    using b by (simp add: on_path_change_def)
  then show ?thesis
    using z(1) assms(6) by (auto simp: Let_def)
qed

lemma typed_text_reported_witness:
  "path (tabs (explorer_step (foldl explorer_step \<lparr>tabs = [location_tab ''a'' [] ''k''], active = 0,
       clear_modal = False, busy = False, mounted = True, skip_effect = False, navigated = []\<rparr>
     [NewTabClick ''l'', BusyTimeout]) (PathChange 0 (the (report (location_tab ''a'' [] ''k'')
       ((open_tab (location_tab ''a'' [] ''k''))\<lparr>tab_input := ''b'', request := reset_request\<lparr>message_id := Some ''m''\<rparr>\<rparr>))))) ! 0) = Some ''b''"
  using typed_text_reported [of "(open_tab (location_tab ''a'' [] ''k''))\<lparr>request := reset_request\<lparr>message_id := Some ''m''\<rparr>\<rparr>"
      "''m''" "''b''" 0 "\<lparr>tabs = [location_tab ''a'' [] ''k''], active = 0,
       clear_modal = False, busy = False, mounted = True, skip_effect = False, navigated = []\<rparr>" id "\<lambda>_ _ _. True" 0 "''l''"]
  by (auto simp: open_tab_def reset_request_def location_tab_def checkValidAddress_def on_new_tab_def Let_def)

end
