(* ===== verification/TabContent.thy ===== *)
theory TabContent
  imports RequestTab
begin

text \<open>
  The contents of a request's answer (\<open>ExplorerTabPath\<close> and \<open>resultsCache\<close>, line 8700 of
  \<open>bundle.js\<close>): the effect that reads the body of a new answer and asks the node for its
  formatted form, with the cache of all tabs. What the answer and the node give are
  arguments of the events; a JSON body is a value of a type of its own. A field that
  opens (\<open>InfoLine\<close>) is here as well.
\<close>

section \<open>Contents and their cache\<close>

datatype 'j body = Raw string | Json 'j

text \<open>\<open>bodyType\<close> is kept beside the body.\<close>

record 'j content =
  response_body :: "'j body option"
  buddy_data :: "string option"
  json_type :: bool

record 'j viewer =
  cache :: "string \<rightharpoonup> 'j content"
  content :: "'j content"

text \<open>
  What the reading of a new answer gives: its text or \<^const>\<open>None\<close> when it cannot be read,
  the same for its JSON value, where \<open>Some None\<close> is \<open>null\<close>, and the node's formatted form:
  the text of a good reply, \<open>Some None\<close> for a bad one, and no reply at all.
\<close>

record 'j reading =
  text_reply :: "string option"
  json_reply :: "'j option option"
  buddy_reply :: "string option option"

definition empty_body :: string where
  "empty_body = ''Empty Response Body''"

definition wants_json :: "string \<Rightarrow> bool" where
  "wants_json loc = str_includes loc ''accept=application/json''"

definition body_read :: "string \<Rightarrow> 'j reading \<Rightarrow> 'j body option" where
  "body_read loc x = (if wants_json loc
     then (case json_reply x of Some (Some j) \<Rightarrow> Some (Json j) | _ \<Rightarrow> None)
     else map_option Raw (text_reply x))"

definition buddy_read :: "'j reading \<Rightarrow> string option" where
  "buddy_read x = (case buddy_reply x of None \<Rightarrow> None | Some None \<Rightarrow> Some ''Error Fetching Data''
     | Some (Some t) \<Rightarrow> Some t)"

text \<open>An empty text is shown as such, and kept in the cache as it is.\<close>

definition shown_body :: "'j body \<Rightarrow> 'j body" where
  "shown_body b = (if b = Raw [] then Raw empty_body else b)"

definition show_content :: "string \<Rightarrow> 'j reading \<Rightarrow> 'j viewer \<Rightarrow> 'j viewer" where
  "show_content loc x v = (if loc = [] then v else case cache v loc of
     Some c \<Rightarrow> v\<lparr>content := c\<rparr>
   | None \<Rightarrow> (case body_read loc x of
       None \<Rightarrow> v\<lparr>content := (if wants_json loc \<and> json_reply x = Some None
           then \<lparr>response_body = None, buddy_data = buddy_read x, json_type = True\<rparr>
           else (content v)\<lparr>buddy_data := buddy_read x\<rparr>)\<rparr>
     | Some b \<Rightarrow> v\<lparr>cache := (cache v)(loc \<mapsto> \<lparr>response_body = Some b, buddy_data = buddy_read x,
           json_type = wants_json loc\<rparr>),
         content := \<lparr>response_body = Some (shown_body b), buddy_data = buddy_read x,
           json_type = wants_json loc\<rparr>\<rparr>))"

text \<open>The first answer to a path whose body could be read.\<close>

fun first_read :: "string \<Rightarrow> (string \<times> 'j reading) list \<Rightarrow> 'j content option" where
  "first_read loc [] = None"
| "first_read loc ((l, x) # es) = (case body_read l x of
     Some b \<Rightarrow> if l = loc then Some \<lparr>response_body = Some b, buddy_data = buddy_read x, json_type = wants_json l\<rparr>
       else first_read loc es
   | None \<Rightarrow> first_read loc es)"

definition visits :: "'j viewer \<Rightarrow> (string \<times> 'j reading) list \<Rightarrow> 'j viewer" where
  "visits v es = foldl (\<lambda>v (loc, x). show_content loc x v) v es"

lemma visits_Cons [simp]: "visits v ((l, x) # es) = visits (show_content l x v) es"
  and visits_Nil [simp]: "visits v [] = v"
  and visits_snoc [simp]: "visits v (es @ [(l, x)]) = show_content l x (visits v es)"
  by (simp_all add: visits_def)

lemma cache_visits:
  "loc \<noteq> [] \<Longrightarrow> cache (visits v es) loc = (case cache v loc of Some c \<Rightarrow> Some c | None \<Rightarrow> first_read loc es)"
proof (induction es arbitrary: v)
  case Nil
  then show ?case by (simp split: option.splits)
next
  case (Cons e es)
  obtain l x where e: "e = (l, x)" by fastforce
  have "cache (show_content l x v) loc = (case cache v loc of Some c \<Rightarrow> Some c
      | None \<Rightarrow> if l = loc then (case body_read l x of
          Some b \<Rightarrow> Some \<lparr>response_body = Some b, buddy_data = buddy_read x, json_type = wants_json l\<rparr>
        | None \<Rightarrow> None) else None)"
    using Cons.prems by (auto simp: show_content_def split: option.splits)
  then show ?case
    using Cons by (auto simp: e split: option.splits)
qed

text \<open>A JSON \<open>null\<close> is shown but not kept; an empty body is named at first and blank from the cache.\<close>

lemma empty_body_named_once:
  assumes "loc \<noteq> []" "cache v loc = None" "\<not> wants_json loc" "text_reply x = Some []"
  shows "response_body (content (visits v [(loc, x)])) = Some (Raw empty_body)"
    "response_body (content (visits v [(loc, x), (loc, y)])) = Some (Raw [])"
  using assms by (simp_all add: show_content_def body_read_def shown_body_def)

section \<open>A field that opens\<close>

text \<open>
  A field whose name has \<open>link\<close> in it and whose value is an address can be opened; the
  fields of the linked message are fetched once, when it is open and has none.
\<close>

record info_line =
  line_open :: bool
  line_fields :: "(string \<times> string) list option"

definition is_link :: "string \<Rightarrow> string \<Rightarrow> bool" where
  "is_link key data \<longleftrightarrow> checkValidAddress data \<and> str_includes key ''link''"

definition line_title :: "string \<Rightarrow> string \<Rightarrow> string" where
  "line_title key data = (if is_link key data then remove_first ''+link'' key else key)"

definition toggle_line :: "string \<Rightarrow> string \<Rightarrow> info_line \<Rightarrow> info_line" where
  "toggle_line key data l = (if is_link key data then l\<lparr>line_open := \<not> line_open l\<rparr> else l)"

definition fetches_line :: "info_line \<Rightarrow> bool" where
  "fetches_line l \<longleftrightarrow> line_open l \<and> line_fields l = None"

definition line_fetched :: "(string \<times> string) list option \<Rightarrow> info_line \<Rightarrow> info_line" where
  "line_fetched fs l = (case fs of None \<Rightarrow> l | Some f \<Rightarrow> l\<lparr>line_fields := Some f\<rparr>)"

section \<open>Properties\<close>

text \<open>
  The contents shown for a path are those of the first answer to it that could be
  read, in any tab: visiting or refreshing it again, whatever the node answers by then,
  shows the old contents.
\<close>

theorem contents_never_refreshed:
  assumes "loc \<noteq> []" "cache v loc = None" "first_read loc es = Some c"
  shows "content (visits v (es @ [(loc, x)])) = c"
  using cache_visits [OF assms(1), of v es] assms by (simp add: show_content_def)

lemma contents_never_refreshed_witness:
  "content (visits \<lparr>cache = Map.empty, content = \<lparr>response_body = None, buddy_data = None, json_type = False\<rparr>\<rparr>
     ([(''a'', \<lparr>text_reply = Some ''old'', json_reply = None :: nat option option, buddy_reply = None\<rparr>)] @
      [(''a'', \<lparr>text_reply = Some ''new'', json_reply = None, buddy_reply = None\<rparr>)])) =
   \<lparr>response_body = Some (Raw ''old''), buddy_data = None, json_type = False\<rparr>"
  using contents_never_refreshed [of "''a''" "\<lparr>cache = Map.empty, content = \<lparr>response_body = None,
      buddy_data = None, json_type = False\<rparr>\<rparr>"
      "[(''a'', \<lparr>text_reply = Some ''old'', json_reply = None :: nat option option, buddy_reply = None\<rparr>)]"
      "\<lparr>response_body = Some (Raw ''old''), buddy_data = None, json_type = False\<rparr>"]
  by (simp add: body_read_def buddy_read_def wants_json_def)

end
