(* ===== verification/JsonTree.thy ===== *)
theory JsonTree
  imports Json
begin

text \<open>
  The JSON tree (\<open>_JSONTree\<close>, line 4203 of \<open>bundle.js\<close>): the value that is shown for the
  data it is given, in which texts that are JSON themselves are opened, the text that is
  copied, and the nodes that are collapsed.
\<close>

section \<open>The value that is shown\<close>

lemma length_strip_ansi: "length (strip_ansi s) \<le> length s"
proof (induction s rule: strip_ansi.induct)
  case (1 s)
  show ?case
  proof (cases s)
    case (Cons c cs)
    then show ?thesis
      using 1 [OF Cons] after_escape_shorter [of s]
      by (subst strip_ansi.simps) (fastforce split: option.splits)
  qed simp
qed

text \<open>
  An empty text is \<open>null\<close> to \<open>stripAnsiChars\<close>, and \<open>JSON.parse\<close> takes \<open>null\<close> for the text of
  the value \<open>null\<close>.
\<close>

function shown_value :: "(string \<Rightarrow> 'n) \<Rightarrow> 'n json \<Rightarrow> 'n json" where
  "shown_value num (Text s) = (case stripAnsiChars s of None \<Rightarrow> Null
     | Some t \<Rightarrow> (case JSON_parse num t of Some v \<Rightarrow> shown_value num v | None \<Rightarrow> Text t))"
| "shown_value num (Items vs) = Items (map (shown_value num) vs)"
| "shown_value num (Members es) = Members (object_of (map (\<lambda>(k, v). (k, shown_value num v)) es))"
| "shown_value num Null = Null"
| "shown_value num (Truth b) = Truth b"
| "shown_value num (Number x) = Number x"
  by pat_completeness auto
termination
proof (relation "measure (\<lambda>(num, v). json_size v)")
  fix num :: "string \<Rightarrow> 'n" and s t and v :: "'n json"
  assume "stripAnsiChars s = Some t" "JSON_parse num t = Some v"
  then show "((num, v), num, Text s) \<in> measure (\<lambda>(num, v). json_size v)"
    using parse_size [of num t v] length_strip_ansi [of s] by (auto simp: stripAnsiChars_def split: if_splits)
next
  fix num :: "string \<Rightarrow> 'n" and vs and v :: "'n json"
  assume "v \<in> set vs"
  then show "((num, v), num, Items vs) \<in> measure (\<lambda>(num, v). json_size v)"
    using member_le_sum_list [of "json_size v" "map json_size vs"] by simp
next
  fix num :: "string \<Rightarrow> 'n" and es e and k :: string and v :: "'n json"
  assume "e \<in> set es" "(k, v) = e"
  then have "json_size v \<in> set (map (\<lambda>(k, v). json_size v) es)" by force
  then show "((num, v), num, Members es) \<in> measure (\<lambda>(num, v). json_size v)"
    using member_le_sum_list [of "json_size v" "map (\<lambda>(k, v). json_size v) es"] by simp
qed simp

text \<open>A text alone is shown as the only member of an object.\<close>

definition tree_data :: "(string \<Rightarrow> 'n) \<Rightarrow> 'n json \<Rightarrow> 'n json" where
  "tree_data num data = (case shown_value num data of Text t \<Rightarrow> Members [(''Result'', Text t)] | v \<Rightarrow> v)"

fun texts :: "'n json \<Rightarrow> string list" where
  "texts (Text s) = [s]"
| "texts (Items vs) = concat (map texts vs)"
| "texts (Members es) = concat (map (\<lambda>(k, v). texts v) es)"
| "texts v = []"

section \<open>Copying\<close>

text \<open>The clipboard makes a text of what it is given.\<close>

fun js_string :: "('n \<Rightarrow> string) \<Rightarrow> 'n json \<Rightarrow> string" where
  "js_string sh Null = ''null''"
| "js_string sh (Truth b) = (if b then ''true'' else ''false'')"
| "js_string sh (Number x) = sh x"
| "js_string sh (Text s) = s"
| "js_string sh (Items vs) = join '','' (map (\<lambda>v. if v = Null then [] else js_string sh v) vs)"
| "js_string sh (Members es) = ''[object Object]''"

definition copied :: "('n \<Rightarrow> string) \<Rightarrow> 'n json \<Rightarrow> string" where
  "copied sh v = (case v of
       Members [(k, w)] \<Rightarrow> if k = ''result'' then js_string sh w else JSON_stringify sh v
     | _ \<Rightarrow> JSON_stringify sh v)"

section \<open>Collapsing\<close>

fun nat_text :: "nat \<Rightarrow> string" where
  "nat_text n = (if n < 10 then [char_of (48 + n)] else nat_text (n div 10) @ [char_of (48 + n mod 10)])"

declare nat_text.simps [simp del]

definition item_path :: "string \<Rightarrow> nat \<Rightarrow> string" where
  "item_path p i = p @ CHR ''['' # nat_text i @ '']''"

definition member_path :: "string \<Rightarrow> string \<Rightarrow> string" where
  "member_path p k = p @ CHR ''.'' # k"

fun is_container :: "'n json \<Rightarrow> bool" where
  "is_container (Items vs) = (vs \<noteq> [])"
| "is_container (Members es) = (es \<noteq> [])"
| "is_container v = False"

text \<open>The children of a value with their paths.\<close>

definition parts :: "string \<Rightarrow> 'n json \<Rightarrow> (string \<times> 'n json) list" where
  "parts p v = (case v of
       Items vs \<Rightarrow> map (\<lambda>(i, w). (item_path p i, w)) (enumerate 0 vs)
     | Members es \<Rightarrow> map (\<lambda>(k, w). (member_path p k, w)) es
     | _ \<Rightarrow> [])"

lemma parts_size: "(q, w) \<in> set (parts p v) \<Longrightarrow> json_size w < json_size v"
proof (cases v)
  case (Items vs)
  assume "(q, w) \<in> set (parts p v)"
  then have "json_size w \<in> set (map json_size vs)" by (auto simp: parts_def Items in_set_enumerate_eq)
  then show ?thesis using member_le_sum_list [of "json_size w" "map json_size vs"] by (simp add: Items)
next
  case (Members es)
  assume "(q, w) \<in> set (parts p v)"
  then have "json_size w \<in> set (map (\<lambda>(k, v). json_size v) es)" by (force simp: parts_def Members)
  then show ?thesis
    using member_le_sum_list [of "json_size w" "map (\<lambda>(k, v). json_size v) es"] by (simp add: Members)
qed (simp_all add: parts_def)

text \<open>The paths of the nodes that can be collapsed, and of those that are on the screen.\<close>

function nodes_of :: "string \<Rightarrow> 'n json \<Rightarrow> string list" where
  "nodes_of p v = (if is_container v then p # concat (map (\<lambda>(q, w). nodes_of q w) (parts p v)) else [])"
  by auto
termination
  by (relation "measure (\<lambda>(p, v). json_size v)") (auto dest: parts_size)

declare nodes_of.simps [simp del]

function visible_nodes :: "string set \<Rightarrow> string \<Rightarrow> 'n json \<Rightarrow> string list" where
  "visible_nodes c p v = (if \<not> is_container v then [] else if p \<in> c then [p]
     else p # concat (map (\<lambda>(q, w). visible_nodes c q w) (parts p v)))"
  by auto
termination
  by (relation "measure (\<lambda>(c, p, v). json_size v)") (auto dest: parts_size)

declare visible_nodes.simps [simp del]

record tree_view =
  tree_nodes :: "string set"
  collapsed :: "string set"

definition root_path :: string where
  "root_path = ''root''"

text \<open>
  The viewer is a component made anew by every render of the tree, so that it is mounted
  again whenever the tree renders: when the data change, and around every copy.
\<close>

definition mount_view :: "'n json \<Rightarrow> tree_view" where
  "mount_view v = (let ns = set (nodes_of root_path v) in \<lparr>tree_nodes = ns, collapsed = ns - {root_path}\<rparr>)"

datatype tree_event = Toggle string | CollapseButton | Copy

fun tree_step :: "'n json \<Rightarrow> tree_view \<Rightarrow> tree_event \<Rightarrow> tree_view" where
  "tree_step v t (Toggle p) = t\<lparr>collapsed := (if p \<in> collapsed t then collapsed t - {p} else insert p (collapsed t))\<rparr>"
| "tree_step v t CollapseButton = t\<lparr>collapsed :=
     (if collapsed t \<noteq> {} \<and> card (collapsed t) = card (tree_nodes t) then {} else tree_nodes t)\<rparr>"
| "tree_step v t Copy = mount_view v"

text \<open>Only the arrow of a node can be clicked.\<close>

fun tree_ok :: "tree_view \<Rightarrow> tree_event \<Rightarrow> bool" where
  "tree_ok t (Toggle p) = (p \<in> tree_nodes t)"
| "tree_ok t e = True"

definition tree_inv :: "'n json \<Rightarrow> tree_view \<Rightarrow> bool" where
  "tree_inv v t \<longleftrightarrow> tree_nodes t = set (nodes_of root_path v) \<and> collapsed t \<subseteq> tree_nodes t"

interpretation json_tree: machine "tree_step v" tree_ok "tree_inv v" for v
proof
  fix t e assume "tree_inv v t" "tree_ok t e"
  then show "tree_inv v (tree_step v t e)"
    by (cases e) (auto simp: tree_inv_def mount_view_def Let_def)
qed

section \<open>Lemmas\<close>

lemma set_put_member: "set (put_member k v es) \<subseteq> insert (k, v) (set es)"
  by (induction es) (auto split: if_splits)

lemma set_object_of: "set (object_of es) \<subseteq> set es"
proof -
  have "set (foldl (\<lambda>m (k, v). put_member k v m) m es) \<subseteq> set m \<union> set es" for m
  proof (induction es arbitrary: m)
    case (Cons e es)
    then show ?case using set_put_member by (cases e) fastforce
  qed simp
  from this [of "[]"] show ?thesis by (auto simp: object_of_def Let_def)
qed

lemma nodes_of_container: "is_container v \<Longrightarrow> p \<in> set (nodes_of p v)"
  by (subst nodes_of.simps) simp

lemma nodes_of_part: "(q, w) \<in> set (parts p v) \<Longrightarrow> is_container w \<Longrightarrow> q \<in> set (nodes_of p v)"
proof -
  assume a: "(q, w) \<in> set (parts p v)" "is_container w"
  then have "is_container v" by (cases v) (auto simp: parts_def)
  moreover have "q \<in> set (nodes_of q w)" using a(2) by (rule nodes_of_container)
  moreover have "set (nodes_of q w) \<subseteq> set (concat (map (\<lambda>(q, w). nodes_of q w) (parts p v)))"
    using a(1) unfolding set_concat set_map by fastforce
  ultimately show ?thesis unfolding nodes_of.simps [of p v] by auto
qed

lemma parts_longer: "(q, w) \<in> set (parts p v) \<Longrightarrow> q \<noteq> p"
  by (cases v) (auto simp: parts_def item_path_def member_path_def)

lemma finite_subset_card: "finite b \<Longrightarrow> a \<subseteq> b \<Longrightarrow> card a = card b \<longleftrightarrow> a = b"
  using card_subset_eq by blast

text \<open>A text of a JSON number is shown as the number it is read as, with the digits it keeps.\<close>

lemma numeric_text_becomes_number:
  assumes "scan_number s = Some (s, [])" "CHR 0x1B \<notin> set s"
  shows "shown_value num (Text s) = Number (num s)"
proof -
  obtain c t where c: "s = c # t" "is_digit c \<or> c = CHR ''-''" using assms(1) by (rule scan_number_first)
  have "strip_ansi s = s" using strip_ansi_plain [OF assms(2), of "[]"] by simp
  moreover have "read_value num (Suc n) s = Some (Number (num s), [])" for n
    using assms(1) number_first_char [OF c(2)] by (simp add: c(1))
  ultimately show ?thesis by (simp add: stripAnsiChars_def c(1) JSON_parse_def)
qed

text \<open>Members whose keys have dots share their paths with the members of other objects.\<close>

lemma dotted_keys_share_path:
  assumes "is_container x" "is_container y"
  shows "\<not> distinct (nodes_of root_path (Members [(''a.b'', x), (''a'', Members [(''b'', y)])]))"
proof -
  let ?q = "member_path root_path ''a.b''"
  have q: "member_path (member_path root_path ''a'') ''b'' = ?q" by (simp add: member_path_def)
  have "nodes_of root_path (Members [(''a.b'', x), (''a'', Members [(''b'', y)])]) =
      root_path # nodes_of ?q x @ member_path root_path ''a'' # nodes_of ?q y"
    by (simp add: nodes_of.simps [of root_path] nodes_of.simps [of "member_path root_path ''a''"] parts_def q)
  then show ?thesis using nodes_of_container [OF assms(1)] nodes_of_container [OF assms(2)] by auto
qed

text \<open>
  A text that is shown alone is copied inside an object: the copy looks for the member
  \<open>result\<close>, the tree makes one called \<open>Result\<close>.
\<close>

lemma copied_text_wrapped:
  assumes "JSON_parse num t = None" "t \<noteq> []" "CHR 0x1B \<notin> set t"
  shows "tree_data num (Text t) = Members [(''Result'', Text t)]"
    "copied sh (tree_data num (Text t)) = JSON_stringify sh (Members [(''Result'', Text t)])"
proof -
  have "strip_ansi t = t" using strip_ansi_plain [OF assms(3), of "[]"] by simp
  then show "tree_data num (Text t) = Members [(''Result'', Text t)]"
    using assms by (simp add: tree_data_def stripAnsiChars_def)
  then show "copied sh (tree_data num (Text t)) = JSON_stringify sh (Members [(''Result'', Text t)])"
    by (simp add: copied_def)
qed

section \<open>Properties\<close>

text \<open>
  No text in the tree is JSON: every text of the data that is JSON is opened, at any
  depth and as often as needed; an empty text is shown as \<open>null\<close>.
\<close>

theorem shown_texts_no_json:
  "list_all (\<lambda>u. JSON_parse num u = None) (texts (shown_value num v)) \<and> shown_value num (Text []) = Null"
proof -
  have "list_all (\<lambda>u. JSON_parse num u = None) (texts (shown_value num v))"
  proof (induction num v rule: shown_value.induct)
    case (1 num s)
    then show ?case by (auto split: option.splits)
  next
    case (2 num vs)
    then show ?case by (auto simp: list_all_iff)
  next
    case (3 num es)
    have "JSON_parse num u = None" if "(k, w) \<in> set es" "u \<in> set (texts (shown_value num w))" for k w u
      using 3 that by (auto simp: list_all_iff)
    then show ?case
      using set_object_of [of "map (\<lambda>(k, v). (k, shown_value num v)) es"] by (fastforce simp: list_all_iff)
  qed simp_all
  then show ?thesis by (simp add: stripAnsiChars_def)
qed

text \<open>
  What is copied is JSON text of the tree: it is parsed to the value shown, if its
  numbers are printed as they are read; only the sole member \<open>result\<close> is copied alone.
\<close>

theorem copied_parses_back:
  assumes "printable num sh v" "\<forall>w. v \<noteq> Members [(''result'', w)]"
  shows "JSON_parse num (copied sh v) = Some v"
proof -
  have "copied sh v = JSON_stringify sh v"
    using assms(2) by (auto simp: copied_def split: json.splits list.splits prod.splits)
  then show ?thesis using parse_stringify [OF assms(1)] by simp
qed

lemma copied_parses_back_witness:
  "JSON_parse (\<lambda>_. ()) (copied (\<lambda>_. ''0'') (Members [(''a'', Items [Number (), Null]), (''b'', Text [newline])])) =
   Some (Members [(''a'', Items [Number (), Null]), (''b'', Text [newline])])"
proof (rule copied_parses_back)
  show "printable (\<lambda>_. ()) (\<lambda>_. ''0'') (Members [(''a'', Items [Number (), Null]), (''b'', Text [newline])])"
    by code_simp
qed simp

text \<open>
  At first the tree shows its root with every node below it collapsed. After any
  clicks and copies the button collapses every node, unless every node is collapsed:
  then it opens every node.
\<close>

theorem tree_collapsing:
  assumes "permitted tree_ok (tree_step v) (mount_view v) es"
  defines "t \<equiv> foldl (tree_step v) (mount_view v) es"
  shows "visible_nodes (collapsed (mount_view v)) root_path v =
      (if is_container v then root_path # map fst (filter (is_container \<circ> snd) (parts root_path v)) else []) \<and>
    collapsed (tree_step v t CollapseButton) = (if collapsed t = tree_nodes t then {} else tree_nodes t)"
proof
  have c: "collapsed (mount_view v) = set (nodes_of root_path v) - {root_path}" by (simp add: mount_view_def Let_def)
  have "visible_nodes (collapsed (mount_view v)) q w = (if is_container w then [q] else [])"
    if "(q, w) \<in> set (parts root_path v)" for q w
    using nodes_of_part [OF that] parts_longer [OF that] by (simp add: c visible_nodes.simps [of _ q])
  then have m: "map (\<lambda>(q, w). visible_nodes (collapsed (mount_view v)) q w) (parts root_path v) =
      map (\<lambda>(q, w). if is_container w then [q] else []) (parts root_path v)" by auto
  have cc: "concat (map (\<lambda>(q, w). if is_container w then [q] else []) xs) = map fst (filter (is_container \<circ> snd) xs)"
    for xs :: "(string \<times> 'a json) list" by (induction xs) auto
  have "root_path \<notin> collapsed (mount_view v)" by (simp add: c)
  then show "visible_nodes (collapsed (mount_view v)) root_path v =
      (if is_container v then root_path # map fst (filter (is_container \<circ> snd) (parts root_path v)) else [])"
    by (simp add: visible_nodes.simps [of _ root_path v] m cc)
next
  have "tree_inv v (mount_view v)" by (auto simp: tree_inv_def mount_view_def Let_def)
  from json_tree.inv_run [OF this assms(1)] have "tree_nodes t = set (nodes_of root_path v)" "collapsed t \<subseteq> tree_nodes t"
    unfolding tree_inv_def t_def by blast+
  then have "card (collapsed t) = card (tree_nodes t) \<longleftrightarrow> collapsed t = tree_nodes t"
    by (intro finite_subset_card) simp_all
  then show "collapsed (tree_step v t CollapseButton) = (if collapsed t = tree_nodes t then {} else tree_nodes t)"
    by auto
qed

lemma tree_collapsing_witness:
  "let v = Members [(''a'', Items [Null :: nat json]), (''b'', Null)] in
   visible_nodes (collapsed (mount_view v)) root_path v = [root_path, ''root.a'']"
  using tree_collapsing [of "Members [(''a'', Items [Null :: nat json]), (''b'', Null)]" "[]"]
  by (simp add: parts_def member_path_def root_path_def Let_def)

end
