(* ===== verification/Console.thy ===== *)
theory Console
  imports JS_Value
begin

text \<open>
  The console of the explorer (\<open>Console\<close>, line 10379 of \<open>bundle.js\<close>): a line of text
  is split into words, headers and a body and becomes an HTTP request; the lines
  typed so far can be recalled with the arrow keys. The node's address and its
  answer are arguments.
\<close>

section \<open>From a line to a request\<close>

text \<open>
  \<open>/(?:[^\s']+|'[^']*')+/g\<close>: a word is a run of plain characters and of texts in
  single quotes; a quote that is never closed ends the word and is skipped.
\<close>

definition quote :: char where
  "quote = CHR 0x27"

definition is_plain :: "char \<Rightarrow> bool" where
  "is_plain c \<longleftrightarrow> \<not> is_space c \<and> c \<noteq> quote"

function read_word :: "string \<Rightarrow> string \<times> string" where
  "read_word [] = ([], [])"
| "read_word (c # cs) = (if is_plain c then (let (w, r) = read_word cs in (c # w, r))
     else if c = quote \<and> quote \<in> set cs then
       (let q = takeWhile (\<lambda>x. x \<noteq> quote) cs;
            (w, r) = read_word (tl (dropWhile (\<lambda>x. x \<noteq> quote) cs))
        in (quote # q @ quote # w, r))
     else ([], c # cs))"
  by pat_completeness auto
termination
proof (relation "measure length")
  fix c :: char and cs :: string
  have "length (tl (dropWhile (\<lambda>x. x \<noteq> quote) cs)) \<le> length (dropWhile (\<lambda>x. x \<noteq> quote) cs)" by simp
  also have "\<dots> \<le> length cs" by (rule length_dropWhile_le)
  finally show "(tl (dropWhile (\<lambda>x. x \<noteq> quote) cs), c # cs) \<in> measure length" by simp
qed auto

lemma read_word_length: "read_word s = (w, r) \<Longrightarrow> length r \<le> length s \<and> (w \<noteq> [] \<longrightarrow> length r < length s)"
proof (induction s arbitrary: w r rule: read_word.induct)
  case (2 c cs)
  have "length (tl (dropWhile (\<lambda>x. x \<noteq> quote) cs)) \<le> length cs"
    using length_dropWhile_le [of "\<lambda>x. x \<noteq> quote" cs] by (simp add: le_diff_conv)
  then show ?case using 2 by (force simp: Let_def split: if_splits prod.splits)
qed simp

function words :: "string \<Rightarrow> string list" where
  "words [] = []"
| "words (c # cs) = (case read_word (c # cs) of (w, r) \<Rightarrow>
     if w \<noteq> [] then w # words r else words cs)"
  by pat_completeness auto
termination
  by (relation "measure length") (auto simp del: read_word.simps dest: read_word_length [OF sym])

text \<open>\<open>word.split("==")\<close>, of which the first two pieces are used.\<close>

fun split_eqeq :: "string \<Rightarrow> string \<Rightarrow> string list" where
  "split_eqeq acc [] = [rev acc]"
| "split_eqeq acc [c] = [rev (c # acc)]"
| "split_eqeq acc (c # d # cs) = (if c = CHR ''='' \<and> d = CHR ''='' then rev acc # split_eqeq [] cs
     else split_eqeq (c # acc) (d # cs))"

record console_words =
  headers :: "(string \<times> string) list"
  body :: "string option"
  command :: "string list"

definition body_prefix :: string where
  "body_prefix = ''body:=''"

definition classify :: "console_words \<Rightarrow> string \<Rightarrow> console_words" where
  "classify p w = (if str_includes w ''=='' then
       (case split_eqeq [] w of k # v # _ \<Rightarrow> p\<lparr>headers := headers p @ [(k, v)]\<rparr> | _ \<Rightarrow> p)
     else if starts_with w (body_prefix @ [quote]) \<and> ends_with w [quote] then
       p\<lparr>body := Some (substring 7 (length w - 1) w)\<rparr>
     else if starts_with w body_prefix then p\<lparr>body := Some (drop 6 w)\<rparr>
     else p\<lparr>command := command p @ [w]\<rparr>)"

definition parse_line :: "string \<Rightarrow> console_words" where
  "parse_line line = foldl classify \<lparr>headers = [], body = None, command = []\<rparr> (words line)"

record request =
  req_method :: string
  req_url :: string
  req_headers :: "(string \<times> string) list"
  req_body :: "string option"

text \<open>The method is POST when there is a body that is not empty, or a header.\<close>

definition console_request :: "string \<Rightarrow> string \<Rightarrow> request" where
  "console_request node line = (let p = parse_line line; c = join '' '' (command p) in
     \<lparr>req_method = (if (body p \<noteq> None \<and> body p \<noteq> Some []) \<or> headers p \<noteq> [] then ''POST'' else ''GET''),
      req_url = (if starts_with c ''http://'' \<or> starts_with c ''https://'' then c
        else node @ (if starts_with c ''/'' then c else CHR ''/'' # c)),
      req_headers = headers p, req_body = body p\<rparr>)"

section \<open>The line and its history\<close>

datatype result_kind = Loading | CommandLine | Success | Error | Output

record console =
  line :: string
  history :: "string list"
  index :: int
  results :: "(result_kind \<times> string) list"
  loading :: bool

definition initial_console :: console where
  "initial_console = \<lparr>line = [], history = [], index = - 1, results = [], loading = False\<rparr>"

datatype console_event =
    Type string
  | Submit
  | Answer string nat bool bool bool string
  | Failure string
  | Done
  | Up
  | Down

text \<open>\<open>G1t\<close> up to the request: the line joins the history; a dot command is refused.\<close>

definition submit_line :: "console \<Rightarrow> console" where
  "submit_line s = (let c = trim (line s) in if c = [] then s else
     let s1 = s\<lparr>history := history s @ [c], index := - 1\<rparr> in
     if starts_with c ''.'' then
       s1\<lparr>results := results s1 @ [(Error, if drop 1 c = ''editor''
          then ''Editor mode not available in this view'' else ''Command Not Supported'')]\<rparr>
     else s1\<lparr>loading := True, results := results s1 @ [(Loading, ''Loading...'')]\<rparr>)"

definition not_loading :: "(result_kind \<times> string) list \<Rightarrow> (result_kind \<times> string) list" where
  "not_loading rs = filter (\<lambda>r. fst r \<noteq> Loading) rs"

text \<open>
  An answer: the request line, the status, the headers when there are any, and the
  body when it is not empty, as a tree when it is JSON that parses (\<open>json\<close>).
\<close>

definition show_answer ::
  "string \<Rightarrow> nat \<Rightarrow> bool \<Rightarrow> bool \<Rightarrow> bool \<Rightarrow> string \<Rightarrow> console \<Rightarrow> console" where
  "show_answer req status ok has_headers json body_text s = s\<lparr>loading := False,
     results := not_loading (results s) @
       [(CommandLine, req), (if ok then Success else Error, ''Status: '' @ nat_to_string status)] @
       (if has_headers then [(Output, ''Headers'')] else []) @
       (if body_text = [] then []
        else [(Output, if json then ''Body'' else ''Body'' @ [newline] @ body_text)])\<rparr>"

definition show_failure :: "string \<Rightarrow> console \<Rightarrow> console" where
  "show_failure msg s = s\<lparr>loading := False,
     results := not_loading (results s) @ [(Error, if msg = [] then ''Error occurred'' else msg)]\<rparr>"

definition recall_up :: "console \<Rightarrow> console" where
  "recall_up s = (if history s = [] then s else
     let i = (if index s = - 1 then int (length (history s)) - 1 else max 0 (index s - 1))
     in s\<lparr>index := i, line := history s ! nat i\<rparr>)"

definition recall_down :: "console \<Rightarrow> console" where
  "recall_down s = (if index s = - 1 then s else
     let n = int (length (history s)); i = min (n - 1) (index s + 1) in
     if i = n - 1 \<and> index s = n - 1 then s\<lparr>index := - 1, line := []\<rparr>
     else s\<lparr>index := i, line := history s ! nat i\<rparr>)"

fun console_step :: "console \<Rightarrow> console_event \<Rightarrow> console" where
  "console_step s (Type t) = s\<lparr>line := t\<rparr>"
| "console_step s Submit = submit_line s"
| "console_step s (Answer req st ok h j b) = show_answer req st ok h j b s"
| "console_step s (Failure msg) = show_failure msg s"
| "console_step s Done = s\<lparr>line := []\<rparr>"
| "console_step s Up = recall_up s"
| "console_step s Down = recall_down s"

definition console_inv :: "console \<Rightarrow> bool" where
  "console_inv s \<longleftrightarrow> - 1 \<le> index s \<and> index s < int (length (history s)) \<and>
     (\<forall>c \<in> set (history s). c \<noteq> [])"

interpretation console_lines: machine console_step "\<lambda>_ _. True" console_inv
proof unfold_locales
  fix s e assume "console_inv s"
  then show "console_inv (console_step s e)"
    by (cases e) (auto simp: console_inv_def submit_line_def show_answer_def show_failure_def
        recall_up_def recall_down_def Let_def)
qed

section \<open>Lemmas\<close>

text \<open>A word of the command, a header and a body as they are typed.\<close>

definition plain_word :: "string \<Rightarrow> bool" where
  "plain_word w \<longleftrightarrow> w \<noteq> [] \<and> list_all is_plain w"

lemma read_word_plain:
  assumes "list_all is_plain w" "r = [] \<or> is_space (hd r)"
  shows "read_word (w @ r) = (w, r)"
  using assms(1)
proof (induction w)
  case Nil
  then show ?case using assms(2) by (cases r) (auto simp: is_plain_def is_space_def quote_def)
qed simp

lemma read_word_quoted:
  assumes "list_all is_plain w" "quote \<notin> set q" "r = [] \<or> is_space (hd r)"
  shows "read_word (w @ quote # q @ quote # r) = (w @ quote # q @ [quote], r)"
  using assms(1)
proof (induction w)
  case Nil
  have "takeWhile (\<lambda>x. x \<noteq> quote) (q @ quote # r) = q"
    "dropWhile (\<lambda>x. x \<noteq> quote) (q @ quote # r) = quote # r"
    using assms(2) by (intro scan_stop; auto)+
  moreover have "read_word r = ([], r)"
    using read_word_plain [of "[]" r] assms(3) by simp
  ultimately show ?case by (simp add: is_plain_def)
qed simp

definition word_like :: "string \<Rightarrow> bool" where
  "word_like w \<longleftrightarrow> plain_word w \<or>
     (\<exists>p q. w = p @ quote # q @ [quote] \<and> list_all is_plain p \<and> quote \<notin> set q)"

lemma read_word_like:
  "word_like w \<Longrightarrow> r = [] \<or> is_space (hd r) \<Longrightarrow> read_word (w @ r) = (w, r)"
  using read_word_plain read_word_quoted by (auto simp: word_like_def plain_word_def)

lemma words_space: "words (CHR '' '' # r) = words r"
  by (simp add: is_plain_def is_space_def quote_def)

lemma words_join: "(\<And>w. w \<in> set ws \<Longrightarrow> word_like w) \<Longrightarrow> words (join '' '' ws) = ws"
proof (induction ws rule: induct_list012)
  case (2 w)
  have "w \<noteq> []" using 2 by (auto simp: word_like_def plain_word_def)
  then obtain c cs where w: "w = c # cs" by (cases w) auto
  then show ?case using read_word_like [of w "[]"] 2 by (simp del: read_word.simps)
next
  case (3 w v ws)
  have "w \<noteq> []" using 3 by (auto simp: word_like_def plain_word_def)
  then obtain c cs where w: "w = c # cs" by (cases w) auto
  have "read_word (w @ CHR '' '' # join '' '' (v # ws)) = (w, CHR '' '' # join '' '' (v # ws))"
    using 3 by (intro read_word_like) (auto simp: is_space_def)
  then have "words (w @ CHR '' '' # join '' '' (v # ws)) = w # words (CHR '' '' # join '' '' (v # ws))"
    using w by (simp del: read_word.simps words.simps(2) join.simps add: words.simps(2) [of c])
  then show ?case using 3 by (simp add: words_space del: words.simps(2))
qed simp

lemma split_eqeq_pair:
  "CHR ''='' \<notin> set k \<Longrightarrow> split_eqeq acc (k @ ''=='' @ r) = (rev acc @ k) # split_eqeq [] r"
proof (induction k arbitrary: acc)
  case (Cons c k)
  then show ?case by (cases k) auto
qed simp

lemma split_eqeq_none: "CHR ''='' \<notin> set v \<Longrightarrow> split_eqeq acc v = [rev acc @ v]"
  by (induction acc v rule: split_eqeq.induct) auto

lemma split_eqeq_header:
  "CHR ''='' \<notin> set k \<Longrightarrow> CHR ''='' \<notin> set v \<Longrightarrow> split_eqeq [] (k @ ''=='' @ v) = [k, v]"
  by (subst split_eqeq_pair, assumption, subst split_eqeq_none, assumption, simp)

text \<open>The parts of a command line.\<close>

definition plain_command :: "string \<Rightarrow> bool" where
  "plain_command w \<longleftrightarrow> plain_word w \<and> \<not> str_includes w ''=='' \<and> \<not> starts_with w body_prefix"

definition plain_pair :: "string \<times> string \<Rightarrow> bool" where
  "plain_pair h \<longleftrightarrow> plain_word (fst h) \<and> list_all is_plain (snd h) \<and>
     CHR ''='' \<notin> set (fst h) \<and> CHR ''='' \<notin> set (snd h)"

definition plain_body :: "string \<Rightarrow> bool" where
  "plain_body b \<longleftrightarrow> quote \<notin> set b \<and> \<not> str_includes (body_prefix @ quote # b @ [quote]) ''=='' \<and> b \<noteq> []"

definition header_word :: "string \<times> string \<Rightarrow> string" where
  "header_word h = fst h @ ''=='' @ snd h"

definition body_word :: "string \<Rightarrow> string" where
  "body_word b = body_prefix @ quote # b @ [quote]"

lemma is_plain_eq [simp]: "is_plain CHR ''=''"
  by code_simp

lemma body_prefix_plain: "list_all is_plain body_prefix" "body_prefix \<noteq> []" "length body_prefix = 6"
  by code_simp+

lemma word_like_parts:
  "plain_command w \<Longrightarrow> word_like w" "plain_pair h \<Longrightarrow> word_like (header_word h)"
  "plain_body b \<Longrightarrow> word_like (body_word b)"
  using body_prefix_plain
  by (auto simp: plain_command_def plain_pair_def plain_body_def word_like_def header_word_def
      body_word_def plain_word_def)

lemma classify_command: "plain_command w \<Longrightarrow> classify p w = p\<lparr>command := command p @ [w]\<rparr>"
proof -
  assume w: "plain_command w"
  then have "\<not> starts_with w (body_prefix @ [quote])"
    by (auto simp: plain_command_def starts_with_iff)
  with w show ?thesis by (simp add: classify_def plain_command_def)
qed

lemma classify_header: "plain_pair h \<Longrightarrow> classify p (header_word h) = p\<lparr>headers := headers p @ [h]\<rparr>"
proof -
  assume h: "plain_pair h"
  have "str_includes (header_word h) ''==''" by (auto simp: includes_iff header_word_def)
  then show ?thesis
    using h split_eqeq_header [of "fst h" "snd h"]
    by (simp add: classify_def header_word_def plain_pair_def)
qed

lemma classify_body: "plain_body b \<Longrightarrow> classify p (body_word b) = p\<lparr>body := Some b\<rparr>"
proof -
  assume b: "plain_body b"
  have "starts_with (body_word b) (body_prefix @ [quote])"
    by (auto simp: starts_with_iff body_word_def)
  moreover have "ends_with (body_word b) [quote]"
    by (simp add: ends_with_def body_word_def)
  moreover have "substring 7 (length (body_word b) - 1) (body_word b) = b"
    using body_prefix_plain(3) by (simp add: substring_def body_word_def drop_append)
  ultimately show ?thesis using b by (simp add: classify_def plain_body_def body_word_def)
qed

lemma foldl_command:
  "list_all plain_command ws \<Longrightarrow> foldl classify p ws = p\<lparr>command := command p @ ws\<rparr>"
  by (induction ws arbitrary: p) (simp_all add: classify_command)

lemma foldl_header:
  "list_all plain_pair hs \<Longrightarrow>
    foldl classify p (map header_word hs) = p\<lparr>headers := headers p @ hs\<rparr>"
  by (induction hs arbitrary: p) (simp_all add: classify_header)

section \<open>Properties\<close>

text \<open>
  A console line of a path, headers written \<open>name==value\<close> and a body in quotes
  becomes exactly that request: nothing is lost or mixed up, a body with spaces
  stays whole, and the method is POST exactly when there is a header or a body.
\<close>

theorem console_line_request:
  assumes "plain_command c" "list_all plain_pair hs" "case b of None \<Rightarrow> True | Some t \<Rightarrow> plain_body t"
    and "starts_with c ''/''"
  shows "console_request node
      (join '' '' (c # map header_word hs @ (case b of None \<Rightarrow> [] | Some t \<Rightarrow> [body_word t]))) =
    \<lparr>req_method = (if b = None \<and> hs = [] then ''GET'' else ''POST''), req_url = node @ c,
     req_headers = hs, req_body = b\<rparr>"
proof -
  let ?ws = "c # map header_word hs @ (case b of None \<Rightarrow> [] | Some t \<Rightarrow> [body_word t])"
  have "words (join '' '' ?ws) = ?ws"
    using assms word_like_parts by (intro words_join) (auto simp: list_all_iff split: option.splits)
  then have "parse_line (join '' '' ?ws) = \<lparr>headers = hs, body = b, command = [c]\<rparr>"
    using assms by (cases b) (simp_all add: parse_line_def classify_command foldl_header classify_body)
  moreover have "\<not> starts_with c ''http://''" "\<not> starts_with c ''https://''"
    using assms(4) by (cases c; simp)+
  moreover have "b \<noteq> Some []" using assms(3) by (auto simp: plain_body_def)
  ultimately show ?thesis using assms(4) by (auto simp: console_request_def Let_def)
qed

lemma console_line_request_witness:
  "req_body (console_request ''http://n'' (join '' '' [''/~message@1.0/id'', header_word (''codec'', ''json''),
     body_word ''a b''])) = Some ''a b''"
proof -
  have "plain_command ''/~message@1.0/id''" "list_all plain_pair [(''codec'', ''json'')]"
    "plain_body ''a b''" by code_simp+
  then show ?thesis
    using console_line_request [of "''/~message@1.0/id''" "[(''codec'', ''json'')]" "Some ''a b''" "''http://n''"]
    by simp
qed

text \<open>
  Recalling lines never leaves the history, whatever is typed, submitted,
  answered or recalled in whatever order, and every line in it is not empty.
\<close>

theorem console_history_valid:
  "- 1 \<le> index (foldl console_step initial_console es) \<and>
   index (foldl console_step initial_console es)
     < int (length (history (foldl console_step initial_console es))) \<and>
   [] \<notin> set (history (foldl console_step initial_console es))"
proof -
  have "permitted (\<lambda>_ _. True) console_step s es" for s by (rule permitted_all)
  moreover have "console_inv initial_console" by (simp add: console_inv_def initial_console_def)
  ultimately have "console_inv (foldl console_step initial_console es)"
    using console_lines.inv_run by blast
  then show ?thesis by (auto simp: console_inv_def)
qed

lemma split_eqeq_not_Nil: "split_eqeq acc w \<noteq> []"
  by (induction acc w rule: split_eqeq.induct) auto

text \<open>
  A quoted body with \<open>==\<close> in it (a base64 text, say) is taken for a header:
  whatever precedes the first \<open>==\<close> of the word becomes the name of a header and
  the request has no body.
\<close>

theorem body_with_padding_lost:
  assumes "str_includes b ''==''"
  shows "body (classify p (body_word b)) = body p \<and>
    (\<exists>k v. headers (classify p (body_word b)) = headers p @ [(k, v)])"
proof -
  obtain x y where "b = x @ ''=='' @ y" using assms by (auto simp: includes_iff)
  then have "body_word b = (body_prefix @ quote # x) @ ''=='' @ (y @ [quote])"
    by (simp add: body_word_def)
  then have inc: "str_includes (body_word b) ''==''"
    unfolding includes_iff by blast
  have "\<exists>k v r. split_eqeq acc w = k # v # r" if "str_includes w ''==''" for acc w
    using that
  proof (induction acc w rule: split_eqeq.induct)
    case (3 acc c d cs)
    have "split_eqeq [] cs \<noteq> []" by (rule split_eqeq_not_Nil)
    then obtain v r where "split_eqeq [] cs = v # r" by (cases "split_eqeq [] cs") auto
    with 3 show ?case by auto
  qed simp_all
  from this [OF inc, of "[]"] show ?thesis using inc by (auto simp: classify_def)
qed

lemma body_with_padding_lost_witness:
  "body (classify \<lparr>headers = [], body = None, command = []\<rparr> (body_word ''aGk=='')) = None"
  using body_with_padding_lost [of "''aGk==''" "\<lparr>headers = [], body = None, command = []\<rparr>"] by simp

end
