(* ===== verification/LinkGraph.thy ===== *)
theory LinkGraph
  imports Format JS_Value "HOL-Library.Word"
begin

text \<open>
  The links view of a path (\<open>HyperLinks\<close> and its helpers, line 8356 of
  \<open>bundle.js\<close>): the graph read from the node's cache, the table that lists it as a
  forest, the filters, and the decoding of the selected node's data. The reply of
  the node, the gunzip library and the rounding of a decimal literal to a double
  are arguments. Recursion is bounded by the depth of the call stack, an argument
  too: running out of it is the \<open>RangeError\<close> of the engine, the value \<^const>\<open>None\<close>.
\<close>

section \<open>The graph of a path\<close>

record cache_node =
  raw_id :: string
  raw_type :: "string option"
  raw_data :: jsval

record cache_link =
  raw_source :: string
  raw_target :: string
  raw_label :: "string option"

text \<open>A reply: its status, and its nodes and links when it has both as arrays.\<close>

record reply =
  status :: nat
  cached :: "(cache_node list \<times> cache_link list) option"

record node =
  node_id :: string
  node_label :: string
  node_type :: string
  node_data :: jsval

record link =
  source :: string
  target :: string
  link_label :: string

type_synonym graph = "node list \<times> link list"

definition node_of :: "cache_link list \<Rightarrow> cache_node \<Rightarrow> node" where
  "node_of ls n = \<lparr>
     node_id = raw_id n,
     node_label = (case find (\<lambda>l. raw_target l = raw_id n) ls of
         Some l \<Rightarrow> (case raw_label l of Some t \<Rightarrow> t | None \<Rightarrow> formatAddress (raw_id n) False)
       | None \<Rightarrow> formatAddress (raw_id n) False),
     node_type = (case raw_type n of Some t \<Rightarrow> if t = [] then ''simple'' else t | None \<Rightarrow> ''simple''),
     node_data = raw_data n\<rparr>"

definition link_of :: "cache_link \<Rightarrow> link" where
  "link_of l = \<lparr>source = raw_source l, target = raw_target l,
     link_label = (case raw_label l of Some t \<Rightarrow> t | None \<Rightarrow> [])\<rparr>"

text \<open>
  What the view keeps (\<^const>\<open>None\<close> is the empty object) and what it reports to
  \<open>onError\<close>, when there is such a callback; no reply means that the request failed.
\<close>

definition load_graph :: "bool \<Rightarrow> reply option \<Rightarrow> graph option \<times> bool option" where
  "load_graph has_on_error r = (case r of
       None \<Rightarrow> (None, if has_on_error then Some True else None)
     | Some a \<Rightarrow>
         if status a = 404 \<and> has_on_error then (None, Some True)
         else (case cached a of
               Some (ns, ls) \<Rightarrow> Some (map (node_of ls) ns, map link_of ls)
             | None \<Rightarrow> None,
           if has_on_error then Some False else None))"

text \<open>The node selected first: a composite one, else the first.\<close>

definition first_selected :: "graph \<Rightarrow> node option" where
  "first_selected g = (case fst g of
       [] \<Rightarrow> None
     | n # ns \<Rightarrow> (case find (\<lambda>m. node_type m = ''composite'') (n # ns) of
         Some m \<Rightarrow> Some m | None \<Rightarrow> Some n))"

section \<open>The table\<close>

record row =
  row_node :: node
  row_label :: "string option"
  depth :: nat
  is_last :: bool
  ancestor_lines :: "bool list"
  has_children :: bool

type_synonym child = "node \<times> string option"

definition table_roots :: "graph \<Rightarrow> node list" where
  "table_roots g = [n \<leftarrow> fst g. node_type n = ''composite'' \<or> node_id n \<notin> set (map target (snd g))]"

text \<open>The children of every source, in the order of the links; a link to no node adds none.\<close>

definition add_child :: "node list \<Rightarrow> (string \<rightharpoonup> child list) \<Rightarrow> link \<Rightarrow> (string \<rightharpoonup> child list)" where
  "add_child ns m l = (let cs = (case m (source l) of Some cs \<Rightarrow> cs | None \<Rightarrow> []) in
     m (source l \<mapsto> (case find (\<lambda>n. node_id n = target l) ns of
         Some n \<Rightarrow> cs @ [(n, Some (link_label l))] | None \<Rightarrow> cs)))"

definition child_map :: "graph \<Rightarrow> string \<rightharpoonup> child list" where
  "child_map g = foldl (add_child (fst g)) Map.empty (snd g)"

definition children :: "(string \<rightharpoonup> child list) \<Rightarrow> string \<Rightarrow> child list" where
  "children m i = (case m i of Some cs \<Rightarrow> cs | None \<Rightarrow> [])"

fun add_rows :: "row list option \<Rightarrow> row list option \<Rightarrow> row list option" where
  "add_rows (Some xs) (Some ys) = Some (xs @ ys)"
| "add_rows _ _ = None"

function (sequential) rows_of ::
    "(string \<Rightarrow> child list) \<Rightarrow> nat \<Rightarrow> child \<Rightarrow> nat \<Rightarrow> bool \<Rightarrow> bool list \<Rightarrow> row list option"
  and rows_of_all :: "(string \<Rightarrow> child list) \<Rightarrow> nat \<Rightarrow> child list \<Rightarrow> nat \<Rightarrow> bool list \<Rightarrow> row list option"
where
  "rows_of ch 0 c d l anc = None"
| "rows_of ch (Suc k) c d l anc = (let cs = ch (node_id (fst c)) in
     add_rows (Some [\<lparr>row_node = fst c, row_label = snd c, depth = d, is_last = l,
         ancestor_lines = anc, has_children = cs \<noteq> []\<rparr>])
       (rows_of_all ch k cs (Suc d) (anc @ [\<not> l])))"
| "rows_of_all ch k [] d anc = Some []"
| "rows_of_all ch k (c # cs) d anc =
     add_rows (rows_of ch k c d (cs = []) anc) (rows_of_all ch k cs d anc)"
  by pat_completeness auto

termination
  by (relation "measures [case_sum (\<lambda>(ch, k, _). k) (\<lambda>(ch, k, _). k),
      case_sum (\<lambda>_. 0) (\<lambda>(ch, k, cs, _). Suc (length cs))]") auto

fun concat_rows :: "row list option list \<Rightarrow> row list option" where
  "concat_rows [] = Some []"
| "concat_rows (r # rs) = add_rows r (concat_rows rs)"

definition link_table :: "nat \<Rightarrow> graph \<Rightarrow> row list option" where
  "link_table stack g = concat_rows
     (map (\<lambda>n. rows_of (children (child_map g)) stack (n, None) 0 True []) (table_roots g))"

section \<open>Filters\<close>

definition matches_filter :: "node \<Rightarrow> string \<Rightarrow> bool" where
  "matches_filter n f = (let t = toLowerCase f in
     str_includes (toLowerCase (node_label n)) t \<or>
     (case node_data n of JStr d \<Rightarrow> str_includes (toLowerCase d) t | _ \<Rightarrow> False) \<or>
     str_includes (toLowerCase (node_id n)) t)"

definition passes :: "string list \<Rightarrow> node \<Rightarrow> bool" where
  "passes fs n \<longleftrightarrow> list_ex (matches_filter n) fs"

text \<open>The nodes and the links that the drawing shows.\<close>

definition drawn_nodes :: "string list \<Rightarrow> graph \<Rightarrow> node list" where
  "drawn_nodes fs g = (if fs = [] then fst g else filter (passes fs) (fst g))"

definition drawn_links :: "string list \<Rightarrow> graph \<Rightarrow> link list" where
  "drawn_links fs g = (if fs = [] then snd g else
     (let shown = map node_id (drawn_nodes fs g) in
      [l \<leftarrow> snd g. source l \<in> set shown \<and> target l \<in> set shown]))"

definition filtered_rows :: "string list \<Rightarrow> row list \<Rightarrow> row list" where
  "filtered_rows fs rs = (if fs = [] then rs else [r \<leftarrow> rs. passes fs (row_node r)])"

definition add_filter :: "string list \<Rightarrow> string \<Rightarrow> string list" where
  "add_filter fs t = (if trim t = [] then fs else fs @ [trim t])"

definition remove_filter :: "string list \<Rightarrow> string \<Rightarrow> string list" where
  "remove_filter fs t = [f \<leftarrow> fs. f \<noteq> t]"

text \<open>The nodes shown as connected to the selected one.\<close>

definition connected :: "node option \<Rightarrow> graph \<Rightarrow> string set" where
  "connected sel g = (case sel of
       None \<Rightarrow> {}
     | Some n \<Rightarrow> insert (node_id n) (set (concat (map (\<lambda>l.
         (if source l = node_id n then [target l] else []) @
         (if target l = node_id n then [source l] else [])) (snd g)))))"

section \<open>The data of a node\<close>

text \<open>\<open>match(/<<([\s\S]*?)>>/)\<close>: the text between the first \<open><<\<close> and the next \<open>>>\<close>.\<close>

fun after_first :: "string \<Rightarrow> string \<Rightarrow> string option" where
  "after_first p [] = None"
| "after_first p (c # cs) = (if starts_with (c # cs) p then Some (drop (length p) (c # cs))
     else after_first p cs)"

fun before_first :: "string \<Rightarrow> string \<Rightarrow> string option" where
  "before_first p [] = None"
| "before_first p (c # cs) = (if starts_with (c # cs) p then Some []
     else map_option (Cons c) (before_first p cs))"

definition blob :: "string \<Rightarrow> string option" where
  "blob s = (case after_first ''<<'' s of None \<Rightarrow> None | Some r \<Rightarrow> before_first ''>>'' r)"

text \<open>\<open>split(/[\s,]+/).filter(Boolean)\<close>: the maximal runs without spaces and commas.\<close>

definition is_gap :: "char \<Rightarrow> bool" where
  "is_gap c \<longleftrightarrow> is_space c \<or> c = CHR '',''"

definition blob_words :: "string \<Rightarrow> string list" where
  "blob_words s = words_by is_gap s"

text \<open>
  \<open>Number(w)\<close> of a word: \<^const>\<open>None\<close> is \<open>NaN\<close> or an infinity, \<open>fl\<close> rounds the
  value of a literal to a double.
\<close>

definition hex_digit_val :: "char \<Rightarrow> nat" where
  "hex_digit_val c = (if is_digit c then digit_val c else digit_val (to_lower c) - 39)"

definition radix_val :: "nat \<Rightarrow> string \<Rightarrow> nat" where
  "radix_val b ds = foldl (\<lambda>n c. b * n + hex_digit_val c) 0 ds"

definition scaled :: "nat \<Rightarrow> int \<Rightarrow> rat" where
  "scaled m e = (if e \<ge> 0 then of_nat m * 10 ^ nat e else of_nat m / 10 ^ nat (- e))"

definition decimal_value :: "string \<Rightarrow> rat option" where
  "decimal_value s = (let ip = takeWhile is_digit s; r = dropWhile is_digit s;
       fp = (case r of c # t \<Rightarrow> if c = CHR ''.'' then takeWhile is_digit t else [] | [] \<Rightarrow> []);
       ex = (case r of c # t \<Rightarrow> if c = CHR ''.'' then dropWhile is_digit t else r | [] \<Rightarrow> [])
     in if ip @ fp = [] then None
        else map_option (\<lambda>e. scaled (digits_val (ip @ fp)) (e - int (length fp))) (exponent_of ex))"

definition prefixed_value :: "string \<Rightarrow> rat option" where
  "prefixed_value s = (case s of
       z # x # ds \<Rightarrow>
         if z \<noteq> CHR ''0'' \<or> ds = [] then None
         else if x \<in> set ''xX'' \<and> list_all is_hex_digit ds then Some (of_nat (radix_val 16 ds))
         else if x \<in> set ''oO'' \<and> list_all (\<lambda>c. c \<in> set ''01234567'') ds then Some (of_nat (radix_val 8 ds))
         else if x \<in> set ''bB'' \<and> list_all (\<lambda>c. c \<in> set ''01'') ds then Some (of_nat (radix_val 2 ds))
         else None
     | _ \<Rightarrow> None)"

definition Number :: "(rat \<Rightarrow> rat option) \<Rightarrow> string \<Rightarrow> rat option" where
  "Number fl w = (case prefixed_value w of
       Some q \<Rightarrow> fl q
     | None \<Rightarrow> (case w of
           [] \<Rightarrow> Some 0
         | c # r \<Rightarrow>
             if c = CHR ''-'' then (case decimal_value r of Some q \<Rightarrow> fl (- q) | None \<Rightarrow> None)
             else (case decimal_value (if c = CHR ''+'' then r else w) of
                 Some q \<Rightarrow> fl q | None \<Rightarrow> None)))"

definition byte_value :: "(rat \<Rightarrow> rat option) \<Rightarrow> string \<Rightarrow> rat option" where
  "byte_value fl w = (case Number fl w of
       Some q \<Rightarrow> if q < 0 \<or> q > 255 then None else Some q
     | None \<Rightarrow> None)"

datatype blob_error = NoBlob | InvalidByte string

fun read_bytes :: "(rat \<Rightarrow> rat option) \<Rightarrow> string list \<Rightarrow> blob_error + 8 word list" where
  "read_bytes fl [] = Inr []"
| "read_bytes fl (w # ws) = (case byte_value fl w of
       None \<Rightarrow> Inl (InvalidByte w)
     | Some q \<Rightarrow> (case read_bytes fl ws of
         Inl e \<Rightarrow> Inl e | Inr bs \<Rightarrow> Inr (word_of_int \<lfloor>q\<rfloor> # bs)))"

definition extractBytes :: "(rat \<Rightarrow> rat option) \<Rightarrow> string \<Rightarrow> blob_error + 8 word list" where
  "extractBytes fl s = (case blob s of
       None \<Rightarrow> Inl NoBlob | Some b \<Rightarrow> read_bytes fl (blob_words b))"

definition is_integer_text :: "string \<Rightarrow> bool" where
  "is_integer_text w = (case w of
       [] \<Rightarrow> False
     | c # r \<Rightarrow> if c = CHR ''-'' then r \<noteq> [] \<and> list_all is_digit r else list_all is_digit w)"

fun byte_list :: "(rat \<Rightarrow> rat option) \<Rightarrow> string list \<Rightarrow> rat list option" where
  "byte_list fl [] = Some []"
| "byte_list fl (w # ws) = (if \<not> is_integer_text w then None
     else (case byte_value fl w of
         None \<Rightarrow> None
       | Some q \<Rightarrow> if q \<noteq> of_int \<lfloor>q\<rfloor> then None else map_option (Cons q) (byte_list fl ws)))"

definition isBinary :: "(rat \<Rightarrow> rat option) \<Rightarrow> jsval \<Rightarrow> bool" where
  "isBinary fl v = (case v of
       JStr s \<Rightarrow> (case blob s of
           None \<Rightarrow> False
         | Some b \<Rightarrow>
             if starts_with (trim b) [CHR 0x22] \<or> starts_with (trim b) [CHR 0x27] then False
             else (let ws = blob_words (trim b) in
               if length ws < 3 then False
               else (case byte_list fl ws of
                   None \<Rightarrow> False
                 | Some qs \<Rightarrow> qs ! 0 = 31 \<and> qs ! 1 = 139 \<and> qs ! 2 = 8)))
     | _ \<Rightarrow> False)"

text \<open>\<open>cleanErlangFormatting\<close>: the wrappers around a printed result are removed.\<close>

definition drop_ok :: "string \<Rightarrow> string \<Rightarrow> string" where
  "drop_ok sep s = (let t = trim_left s; u = trim_left (drop 2 t) in
     if starts_with t ''ok'' \<and> starts_with u sep then trim_left (drop (length sep) u) else s)"

definition drop_braces :: "string \<Rightarrow> string" where
  "drop_braces s = (let t = trim s in
     if 2 \<le> length t \<and> hd t = CHR ''{'' \<and> last t = CHR ''}'' then butlast (tl t) else s)"

definition cleanErlangFormatting :: "jsval \<Rightarrow> jsval" where
  "cleanErlangFormatting v = (case v of
       JStr s \<Rightarrow> JStr (trim (drop_ok '':'' (drop_ok '','' (drop_braces (drop_ok ''==>'' s)))))
     | _ \<Rightarrow> v)"

text \<open>The data shown for the selected node; \<^const>\<open>None\<close> is an exception.\<close>

definition shown_data ::
    "(rat \<Rightarrow> rat option) \<Rightarrow> (8 word list \<Rightarrow> string option) \<Rightarrow> node option \<Rightarrow> jsval option" where
  "shown_data fl gunzip sel = (let d = (case sel of None \<Rightarrow> Undef | Some n \<Rightarrow> node_data n) in
     if isBinary fl d then
       (case d of
         JStr s \<Rightarrow> (case extractBytes fl s of
             Inl _ \<Rightarrow> None | Inr bs \<Rightarrow> map_option JStr (gunzip bs))
       | _ \<Rightarrow> None)
     else Some (cleanErlangFormatting (if nullish_val d then JStr ''-'' else d)))"

section \<open>The children of a node\<close>

definition child_of :: "node list \<Rightarrow> string \<Rightarrow> link \<Rightarrow> child option" where
  "child_of ns i l = (if source l = i
     then map_option (\<lambda>n. (n, Some (link_label l))) (find (\<lambda>n. node_id n = target l) ns) else None)"

lemma children_foldl:
  "children (foldl (add_child ns) m ls) i = children m i @ List.map_filter (child_of ns i) ls"
  by (induction ls arbitrary: m)
    (auto simp: add_child_def children_def child_of_def map_filter_simps Let_def split: option.splits)

lemma children_child_map:
  "children (child_map g) i = List.map_filter (child_of (fst g) i) (snd g)"
  unfolding child_map_def by (simp add: children_foldl) (simp add: children_def)

lemma children_links:
  "set (children (child_map g) i) = {(n, Some (link_label l)) | n l. l \<in> set (snd g) \<and> source l = i \<and>
     find (\<lambda>n. node_id n = target l) (fst g) = Some n}"
  by (force simp: children_child_map List.map_filter_def child_of_def)

lemma childE:
  assumes "c \<in> set (children (child_map g) i)"
  obtains l where "l \<in> set (snd g)" "source l = i" "node_id (fst c) = target l" "fst c \<in> set (fst g)"
  using assms by (fastforce simp: children_links find_Some_iff)

lemma child_of_link:
  assumes "l \<in> set (snd g)" "target l \<in> node_id ` set (fst g)"
  obtains c where "c \<in> set (children (child_map g) (source l))" "node_id (fst c) = target l"
proof -
  obtain n where n: "find (\<lambda>n. node_id n = target l) (fst g) = Some n"
    using assms(2) by (cases "find (\<lambda>n. node_id n = target l) (fst g)") (auto simp: find_None_iff)
  then have "node_id n = target l" by (auto simp: find_Some_iff)
  with n assms(1) that show ?thesis by (force simp: children_links)
qed

section \<open>The rows of a tree\<close>

lemma add_rows_Some:
  "add_rows a b = Some rs \<longleftrightarrow> (\<exists>xs ys. a = Some xs \<and> b = Some ys \<and> rs = xs @ ys)"
  by (cases a; cases b) auto

lemma concat_rows_Some:
  "concat_rows os = Some rs \<longleftrightarrow> (\<exists>rss. os = map Some rss \<and> rs = concat rss)"
  by (induction os arbitrary: rs) (auto simp: add_rows_Some Cons_eq_map_conv)

lemma rows_return:
  assumes "\<And>i c. c \<in> set (ch i) \<Longrightarrow> r (node_id (fst c)) < (r i :: nat)"
  shows "r (node_id (fst c)) < k \<Longrightarrow> \<exists>rs. rows_of ch k c d l anc = Some rs"
    "\<forall>c \<in> set cs. r (node_id (fst c)) < k \<Longrightarrow> \<exists>rs. rows_of_all ch k cs d anc = Some rs"
  using assms
proof (induction ch k c d l anc and ch k cs d anc rule: rows_of_rows_of_all.induct)
  case (2 ch k c d l anc)
  then have "\<forall>x \<in> set (ch (node_id (fst c))). r (node_id (fst x)) < k"
    by (metis less_Suc_eq_le order_less_le_trans)
  with 2 show ?case by (fastforce simp: Let_def add_rows_Some)
next
  case (4 ch k c cs d anc)
  then show ?case by (force simp: add_rows_Some)
qed simp_all

definition closed_rows :: "(string \<Rightarrow> child list) \<Rightarrow> row list \<Rightarrow> bool" where
  "closed_rows ch rs \<longleftrightarrow>
    (\<forall>x \<in> set rs. fst ` set (ch (node_id (row_node x))) \<subseteq> row_node ` set rs)"

lemma closed_rows_append: "closed_rows ch xs \<Longrightarrow> closed_rows ch ys \<Longrightarrow> closed_rows ch (xs @ ys)"
  unfolding closed_rows_def by (simp add: image_Un) blast

lemma closed_rows_concat: "list_all (closed_rows ch) rss \<Longrightarrow> closed_rows ch (concat rss)"
  by (induction rss) (auto simp: closed_rows_append, simp add: closed_rows_def)

lemma closed_rowsD:
  "closed_rows ch rs \<Longrightarrow> x \<in> set rs \<Longrightarrow> c \<in> set (ch (node_id (row_node x))) \<Longrightarrow>
    \<exists>y \<in> set rs. row_node y = fst c"
  unfolding closed_rows_def by fastforce

lemma rows_closed:
  "rows_of ch k c d l anc = Some rs \<Longrightarrow> fst c \<in> row_node ` set rs \<and> closed_rows ch rs"
  "rows_of_all ch k cs d anc = Some rs \<Longrightarrow> fst ` set cs \<subseteq> row_node ` set rs \<and> closed_rows ch rs"
proof (induction ch k c d l anc and ch k cs d anc arbitrary: rs and rs rule: rows_of_rows_of_all.induct)
  case (2 ch k c d l anc)
  then obtain ys where ys: "rows_of_all ch k (ch (node_id (fst c))) (Suc d) (anc @ [\<not> l]) = Some ys"
    and rs: "row_node (hd rs) = fst c" "rs = hd rs # ys"
    by (auto simp: Let_def add_rows_Some)
  have *: "fst ` set (ch (node_id (fst c))) \<subseteq> row_node ` set ys" "closed_rows ch ys"
    using "2.IH" [OF refl ys] by blast+
  have "closed_rows ch (hd rs # ys)" using * rs(1) unfolding closed_rows_def by fastforce
  then show ?case using rs by (metis image_eqI list.set_intros(1))
next
  case (4 ch k c cs d anc)
  then obtain xs ys where xs: "rows_of ch k c d (cs = []) anc = Some xs"
    and ys: "rows_of_all ch k cs d anc = Some ys" and "rs = xs @ ys"
    by (auto simp: add_rows_Some)
  with "4.IH" show ?case by (auto intro: closed_rows_append)
qed (auto simp: closed_rows_def)

text \<open>The rows are nodes of the graph, drawn with one line for every level above.\<close>

definition row_ok :: "node set \<Rightarrow> row \<Rightarrow> bool" where
  "row_ok A x \<longleftrightarrow> row_node x \<in> A \<and> length (ancestor_lines x) = depth x"

lemma rows_ok:
  assumes "\<And>i. fst ` set (ch i) \<subseteq> A"
  shows "rows_of ch k c d l anc = Some rs \<Longrightarrow> fst c \<in> A \<Longrightarrow> length anc = d \<Longrightarrow> list_all (row_ok A) rs"
    "rows_of_all ch k cs d anc = Some rs \<Longrightarrow> fst ` set cs \<subseteq> A \<Longrightarrow> length anc = d \<Longrightarrow> list_all (row_ok A) rs"
  using assms
proof (induction ch k c d l anc and ch k cs d anc arbitrary: rs and rs rule: rows_of_rows_of_all.induct)
  case (2 ch k c d l anc)
  then show ?case by (auto simp: Let_def add_rows_Some row_ok_def)
next
  case (4 ch k c cs d anc)
  then show ?case by (auto simp: add_rows_Some)
qed auto

section \<open>The table of an acyclic graph\<close>

text \<open>
  \<open>ranked r k g\<close>: the links join nodes of the graph and go down in rank, and the
  ranks stay below \<open>k\<close>.
\<close>

definition ranked :: "(string \<Rightarrow> nat) \<Rightarrow> nat \<Rightarrow> graph \<Rightarrow> bool" where
  "ranked r k g \<longleftrightarrow> (\<forall>l \<in> set (snd g). source l \<in> node_id ` set (fst g) \<and> r (target l) < r (source l)) \<and>
     (\<forall>n \<in> set (fst g). r (node_id n) < k)"

lemma ranked_child:
  assumes "ranked r k g" "c \<in> set (children (child_map g) i)"
  shows "r (node_id (fst c)) < r i"
  using assms by (elim childE) (auto simp: ranked_def)

lemma ranked_table:
  assumes "ranked r k g"
  shows "\<exists>rows. link_table k g = Some rows"
proof -
  let ?tree = "\<lambda>n. rows_of (children (child_map g)) k (n, None) 0 True []"
  have tree: "\<exists>rs. ?tree n = Some rs" if "n \<in> set (fst g)" for n
    using that assms ranked_child [OF assms]
    by (intro rows_return [where r = r]) (auto simp: ranked_def)
  have "\<exists>rows. concat_rows (map ?tree ns) = Some rows" if "set ns \<subseteq> set (fst g)" for ns
    using that
  proof (induction ns)
    case (Cons n ns)
    then show ?case using tree [of n] by (auto simp: add_rows_Some)
  qed simp
  then show ?thesis by (simp add: link_table_def table_roots_def)
qed

lemma table_rows_ok:
  assumes "link_table k g = Some rows"
  shows "list_all (row_ok (set (fst g))) rows" "closed_rows (children (child_map g)) rows"
    "set (table_roots g) \<subseteq> row_node ` set rows"
proof -
  let ?ch = "children (child_map g)"
  let ?tree = "\<lambda>n. rows_of ?ch k (n, None) 0 True []"
  obtain rss where rss: "map ?tree (table_roots g) = map Some rss" and rows: "rows = concat rss"
    using assms by (auto simp: link_table_def concat_rows_Some)
  have trees: "?tree ` set (table_roots g) = Some ` set rss"
    using arg_cong [OF rss, of set] by simp
  have ch: "fst ` set (?ch i) \<subseteq> set (fst g)" for i by (auto elim: childE)
  have "list_all (row_ok (set (fst g))) rs \<and> closed_rows ?ch rs" if rs: "rs \<in> set rss" for rs
  proof -
    have "Some rs \<in> ?tree ` set (table_roots g)" using trees rs by simp
    then obtain n where n: "Some rs = ?tree n" "n \<in> set (table_roots g)" by (rule imageE)
    have "n \<in> set (fst g)" using n(2) by (simp add: table_roots_def)
    then show ?thesis
      using rows_ok(1) [OF ch n(1) [symmetric]] rows_closed(1) [OF n(1) [symmetric]] by simp
  qed
  then show "list_all (row_ok (set (fst g))) rows" "closed_rows ?ch rows"
    unfolding rows by (auto simp: list_all_iff intro: closed_rows_concat)
  show "set (table_roots g) \<subseteq> row_node ` set rows"
  proof
    fix n assume "n \<in> set (table_roots g)"
    then have "?tree n \<in> Some ` set rss" using trees by blast
    then obtain rs where rs: "?tree n = Some rs" "rs \<in> set rss" by (rule imageE)
    have "n \<in> row_node ` set rs" using rows_closed(1) [OF rs(1)] by simp
    then show "n \<in> row_node ` set rows" using rs(2) rows by auto
  qed
qed

lemma ranked_shown:
  assumes "ranked r k g" "link_table k' g = Some rows" "n \<in> set (fst g)"
  shows "node_id n \<in> (\<lambda>x. node_id (row_node x)) ` set rows"
  using assms(3)
proof (induction "k - r (node_id n)" arbitrary: n rule: less_induct)
  case less
  note facts = table_rows_ok [OF assms(2)]
  show ?case
  proof (cases "n \<in> set (table_roots g)")
    case True
    then show ?thesis using facts(3) by fastforce
  next
    case False
    then obtain l where l: "l \<in> set (snd g)" "target l = node_id n"
      using less.prems by (auto simp: table_roots_def)
    then obtain m where m: "m \<in> set (fst g)" "node_id m = source l" "r (node_id n) < r (node_id m)"
      using assms(1) unfolding ranked_def by (metis image_iff)
    then have "k - r (node_id m) < k - r (node_id n)"
      using assms(1) unfolding ranked_def by (meson diff_less_mono2 order.strict_trans)
    then obtain x where x: "x \<in> set rows" "node_id (row_node x) = source l"
      using less.hyps [OF _ m(1)] m(2) by auto
    obtain c where "c \<in> set (children (child_map g) (source l))" "node_id (fst c) = node_id n"
      using child_of_link [OF l(1)] less.prems l(2) by (metis image_eqI)
    with closed_rowsD [OF facts(2) x(1)] x(2) show ?thesis by (metis image_eqI)
  qed
qed

section \<open>Cycles\<close>

lemma add_rows_None: "add_rows a b = None \<longleftrightarrow> a = None \<or> b = None"
  by (cases a; cases b) auto

lemma rows_of_all_None:
  "c \<in> set cs \<Longrightarrow> (\<And>d l anc. rows_of ch k c d l anc = None) \<Longrightarrow> rows_of_all ch k cs d anc = None"
  by (induction cs) (auto simp: add_rows_None)

lemma rows_overflow:
  assumes "\<And>i. i \<in> A \<Longrightarrow> \<exists>c \<in> set (ch i). node_id (fst c) \<in> A"
  shows "node_id (fst c) \<in> A \<Longrightarrow> rows_of ch k c d l anc = None"
proof (induction k arbitrary: c d l anc)
  case (Suc k)
  obtain x where "x \<in> set (ch (node_id (fst c)))" "node_id (fst x) \<in> A"
    using assms Suc.prems by blast
  then show ?case using Suc.IH rows_of_all_None by (fastforce simp: Let_def add_rows_None)
qed simp

lemma concat_rows_None: "None \<in> set rs \<Longrightarrow> concat_rows rs = None"
  by (induction rs) (auto simp: add_rows_None)

section \<open>Binary data\<close>

lemma blob_words_trim: "blob_words (trim s) = blob_words s"
  by (simp add: blob_words_def is_gap_def words_by_trim)

lemma byte_list_read:
  assumes "byte_list fl ws = Some qs"
  shows "read_bytes fl ws = Inr (map (\<lambda>q. word_of_int \<lfloor>q\<rfloor>) qs) \<and> length qs = length ws"
  using assms by (induction ws arbitrary: qs) (auto split: option.splits if_splits)

section \<open>Properties\<close>

text \<open>
  Listing the links of a message ends and is complete: for links that go down in
  rank, with a call stack deeper than the ranks, there is a table, its nodes are
  exactly the nodes of the graph, every row has one line for each level above it,
  and the children of a listed node are listed.
\<close>

theorem link_table_complete:
  assumes "ranked r k g"
  shows "\<exists>rows. link_table k g = Some rows \<and>
    (\<lambda>x. node_id (row_node x)) ` set rows = node_id ` set (fst g) \<and>
    list_all (row_ok (set (fst g))) rows \<and> closed_rows (children (child_map g)) rows"
proof -
  obtain rows where rows: "link_table k g = Some rows" using ranked_table [OF assms] by blast
  note facts = table_rows_ok [OF rows]
  have "node_id (row_node x) \<in> node_id ` set (fst g)" if "x \<in> set rows" for x
    using facts(1) that by (auto simp: list_all_iff row_ok_def)
  then show ?thesis using rows facts ranked_shown [OF assms rows] by auto
qed

definition sample_graph :: graph where
  "sample_graph = (
     [\<lparr>node_id = ''m'', node_label = ''m'', node_type = ''composite'', node_data = Undef\<rparr>,
      \<lparr>node_id = ''d'', node_label = ''data'', node_type = ''simple'', node_data = JStr ''hi''\<rparr>],
     [\<lparr>source = ''m'', target = ''d'', link_label = ''data''\<rparr>])"

lemma sample_graph_ranked: "ranked (\<lambda>i. if i = ''m'' then 1 else 0) 2 sample_graph"
  by (simp add: ranked_def sample_graph_def)

lemma link_table_complete_witness:
  "\<exists>rows. link_table 2 sample_graph = Some rows \<and>
    (\<lambda>x. node_id (row_node x)) ` set rows = {''m'', ''d''}"
  using link_table_complete [OF sample_graph_ranked] by (auto simp: sample_graph_def)

text \<open>
  A cycle of links below a listed node makes the listing overflow the call
  stack, however deep it is.
\<close>

lemma cyclic_links_overflow:
  assumes "n \<in> set (table_roots g)" "node_id n \<in> A"
    and "\<forall>i \<in> A. \<exists>l \<in> set (snd g). source l = i \<and> target l \<in> A \<and> target l \<in> node_id ` set (fst g)"
  shows "link_table k g = None"
proof -
  have "\<exists>c \<in> set (children (child_map g) i). node_id (fst c) \<in> A" if "i \<in> A" for i
    using assms(3) that by (metis child_of_link)
  then have "rows_of (children (child_map g)) k (n, None) 0 True [] = None"
    using assms(2) by (intro rows_overflow [of A]) auto
  then show ?thesis
    using assms(1) unfolding link_table_def by (intro concat_rows_None) (simp add: image_iff, metis)
qed

text \<open>
  The table and the drawing agree on what a set of filters shows: the nodes of
  the filtered table are exactly the nodes that stay visible in the drawing, and a
  visible link joins two of them.
\<close>

theorem filters_agree:
  assumes "ranked r k g" "distinct (map node_id (fst g))" "link_table k' g = Some rows"
  shows "row_node ` set (filtered_rows fs rows) = set (drawn_nodes fs g) \<and>
    (\<forall>l \<in> set (drawn_links fs g). {source l, target l} \<inter> node_id ` set (fst g)
      \<subseteq> node_id ` set (drawn_nodes fs g))"
proof -
  note facts = table_rows_ok [OF assms(3)]
  have inj: "inj_on node_id (set (fst g))" using assms(2) by (simp add: distinct_map)
  have sub: "row_node x \<in> set (fst g)" if "x \<in> set rows" for x
    using facts(1) that by (auto simp: list_all_iff row_ok_def)
  have "n \<in> row_node ` set rows" if n: "n \<in> set (fst g)" for n
  proof -
    obtain x where "x \<in> set rows" "node_id n = node_id (row_node x)"
      using ranked_shown [OF assms(1,3) n] by auto
    then show ?thesis using inj_onD [OF inj] sub n by (metis imageI)
  qed
  then have "row_node ` set rows = set (fst g)" using sub by auto
  then have "row_node ` set (filtered_rows fs rows) = set (drawn_nodes fs g)"
    by (auto simp: filtered_rows_def drawn_nodes_def)
  then show ?thesis by (auto simp: drawn_links_def drawn_nodes_def)
qed

lemma filters_agree_witness:
  "\<exists>rows. link_table 2 sample_graph = Some rows \<and>
    row_node ` set (filtered_rows [''HI''] rows) = set (drawn_nodes [''HI''] sample_graph)"
proof -
  obtain rows where rows: "link_table 2 sample_graph = Some rows"
    using ranked_table [OF sample_graph_ranked] by blast
  have "distinct (map node_id (fst sample_graph))" by (simp add: sample_graph_def)
  from filters_agree [OF sample_graph_ranked this rows] rows show ?thesis by blast
qed

text \<open>
  Data recognised as compressed is always decoded: reading its bytes cannot fail
  and yields the gzip signature, so that what is shown is what the decompression of
  exactly those bytes gives.
\<close>

theorem binary_data_decodes:
  assumes "isBinary fl (JStr s)"
  shows "\<exists>bs. extractBytes fl s = Inr bs \<and> take 3 bs = [31, 139, 8] \<and>
    (\<forall>n gunzip. shown_data fl gunzip (Some (n\<lparr>node_data := JStr s\<rparr>)) = map_option JStr (gunzip bs))"
proof -
  obtain b qs where b: "blob s = Some b" "byte_list fl (blob_words b) = Some qs"
    "3 \<le> length (blob_words b)" "qs ! 0 = 31" "qs ! 1 = 139" "qs ! 2 = 8"
    using assms by (auto simp: isBinary_def Let_def blob_words_trim split: option.splits if_splits)
  let ?bs = "map (\<lambda>q. word_of_int \<lfloor>q\<rfloor>) qs :: 8 word list"
  have read: "read_bytes fl (blob_words b) = Inr ?bs" and len: "3 \<le> length qs"
    using byte_list_read [OF b(2)] b(3) by auto
  then have bs: "extractBytes fl s = Inr ?bs" using b(1) by (simp add: extractBytes_def)
  obtain x y z r where "qs = x # y # z # r"
    using len by (metis Suc_le_length_iff numeral_3_eq_3)
  then have "take 3 ?bs = [31, 139, 8]" using b(4-6) by simp
  with bs show ?thesis
    using assms by (intro exI [of _ ?bs]) (simp add: shown_data_def)
qed

lemma binary_data_decodes_witness:
  "\<exists>bs. extractBytes Some ''<<31, 139,8,0>>'' = Inr bs \<and> take 3 bs = [31, 139, 8]"
proof -
  have "isBinary Some (JStr ''<<31, 139,8,0>>'')"
    by (simp add: isBinary_def blob_def trim_def trim_left_def trim_right_def is_gap_def is_space_def
        blob_words_def is_integer_text_def is_digit_def byte_value_def Number_def prefixed_value_def decimal_value_def
        digits_val_def exponent_of_def scaled_def)
  from binary_data_decodes [OF this] show ?thesis by blast
qed

end
