(* ===== verification/Metrics.thy ===== *)
theory Metrics
  imports Format
begin

text \<open>
  The metrics of the landing page (\<open>Landing\<close>, line 11069 of \<open>bundle.js\<close>): the text the
  node answers is read line by line into families of samples, and a few samples
  become the figures of the page. The reading of a number as a double
  (\<open>parseFloat\<close>), and the text of a double (\<open>toString\<close>), are arguments.
\<close>

section \<open>Reading the text\<close>

record 'v family =
  fam_name :: "string option"
  fam_help :: string
  samples :: "(string option \<times> 'v) list"

text \<open>
  The groups of the result in one list, newest family first, each with its key (the
  type of the family); the family that lines are added to is the newest one.
\<close>

record 'v scrape =
  families :: "(string \<times> 'v family) list"
  system_load :: string
  ao_results :: string

definition empty_scrape :: "string \<Rightarrow> string \<Rightarrow> 'v scrape" where
  "empty_scrape l a = \<lparr>families = [], system_load = l, ao_results = a\<rparr>"

text \<open>\<open>split(/\s+/)\<close> of a trimmed line.\<close>

definition split_spaces :: "string \<Rightarrow> string list" where
  "split_spaces s = words_by is_space s"

definition nth_word :: "nat \<Rightarrow> string list \<Rightarrow> string option" where
  "nth_word i ws = (if i < length ws then Some (ws ! i) else None)"

text \<open>\<open>/(-?\d+(\.\d+)?)(\s*)$/\<close>: the longest end of a trimmed line that is a number.\<close>

definition is_plain_number :: "string \<Rightarrow> bool" where
  "is_plain_number s = (let t = (case s of c # r \<Rightarrow> if c = CHR ''-'' then r else s | [] \<Rightarrow> []);
       r = dropWhile is_digit t
     in takeWhile is_digit t \<noteq> [] \<and>
       (case r of [] \<Rightarrow> True | c # f \<Rightarrow> c = CHR ''.'' \<and> f \<noteq> [] \<and> list_all is_digit f))"

fun number_at_end :: "string \<Rightarrow> string option" where
  "number_at_end [] = None"
| "number_at_end (c # cs) = (if is_plain_number (c # cs) then Some (c # cs) else number_at_end cs)"

text \<open>\<open>/\{([^}]*)\}/\<close>: what is between the first brace and the next closing one.\<close>

definition label_text :: "string \<Rightarrow> string option" where
  "label_text s = (case dropWhile (\<lambda>c. c \<noteq> CHR ''{'') s of
       [] \<Rightarrow> None
     | _ # r \<Rightarrow> if CHR ''}'' \<in> set r then Some (takeWhile (\<lambda>c. c \<noteq> CHR ''}'') r) else None)"

definition add_sample :: "(string option \<times> 'v) \<Rightarrow> 'v scrape \<Rightarrow> 'v scrape" where
  "add_sample x s = (case families s of
       [] \<Rightarrow> s
     | (k, f) # r \<Rightarrow> s\<lparr>families := (k, f\<lparr>samples := samples f @ [x]\<rparr>) # r\<rparr>)"

definition ao_result_label :: string where
  "ao_result_label = ''topic='' @ [CHR 0x22] @ ''ao_result'' @ [CHR 0x22] @ '',event='' @ [CHR 0x22] @
     ''ao_result'' @ [CHR 0x22]"

text \<open>A line that is no comment: the figures are set as their samples go by.\<close>

definition sample_line :: "(string \<Rightarrow> 'v) \<Rightarrow> ('v \<Rightarrow> string) \<Rightarrow> string \<Rightarrow> 'v scrape \<Rightarrow> 'v scrape" where
  "sample_line parseFloat show line s = (case families s of
       [] \<Rightarrow> s
     | (k, f) # r \<Rightarrow> (case number_at_end line of
           None \<Rightarrow> s
         | Some t \<Rightarrow>
             (let v = parseFloat t;
                  label = (case label_text line of Some l \<Rightarrow> Some l | None \<Rightarrow> fam_name f);
                  s' = (if label = Some ''system_load'' then s\<lparr>system_load := formatCount (show v)\<rparr>
                    else if fam_name f = Some ''event'' \<and>
                      (case label of Some l \<Rightarrow> str_includes l ao_result_label | None \<Rightarrow> False)
                    then s\<lparr>ao_results := formatCount (show v)\<rparr> else s)
              in add_sample (label, v) s')))"

definition metrics_line :: "(string \<Rightarrow> 'v) \<Rightarrow> ('v \<Rightarrow> string) \<Rightarrow> 'v scrape \<Rightarrow> string \<Rightarrow> 'v scrape" where
  "metrics_line parseFloat show s raw = (let line = trim raw; ws = split_spaces line in
     if line = [] then s
     else if starts_with line ''# TYPE'' then
       s\<lparr>families := (case nth_word 3 ws of Some t \<Rightarrow> t | None \<Rightarrow> ''undefined'',
         \<lparr>fam_name = nth_word 2 ws, fam_help = [], samples = []\<rparr>) # families s\<rparr>
     else if starts_with line ''# HELP'' then
       (case families s of
          [] \<Rightarrow> s
        | (k, f) # r \<Rightarrow> if fam_name f = nth_word 2 ws
            then s\<lparr>families := (k, f\<lparr>fam_help := join '' '' (drop 3 ws)\<rparr>) # r\<rparr> else s)
     else if starts_with line ''#'' then s
     else sample_line parseFloat show line s)"

definition read_metrics :: "(string \<Rightarrow> 'v) \<Rightarrow> ('v \<Rightarrow> string) \<Rightarrow> string \<Rightarrow> 'v scrape \<Rightarrow> 'v scrape" where
  "read_metrics parseFloat show txt s = foldl (metrics_line parseFloat show) s (split_on newline txt)"

text \<open>\<open>G[type]\<close>: the families of a type in the order of the text.\<close>

definition group :: "string \<Rightarrow> 'v scrape \<Rightarrow> 'v family list" where
  "group t s = map snd (filter (\<lambda>(k, f). k = t) (rev (families s)))"

section \<open>The page\<close>

definition request_label :: "string \<Rightarrow> string" where
  "request_label m = ''method='' @ [CHR 0x22] @ m @ [CHR 0x22] @ '',reason='' @ [CHR 0x22] @ ''normal'' @
     [CHR 0x22] @ '',status_class='' @ [CHR 0x22] @ ''success'' @ [CHR 0x22]"

text \<open>\<open>values.find(...)?.data || 0\<close>; the sum of no request is zero.\<close>

definition requests :: "string \<Rightarrow> 'v family \<Rightarrow> 'v option" where
  "requests m f = map_option snd (find (\<lambda>(l, v).
     (case l of Some t \<Rightarrow> str_includes t (request_label m) | None \<Rightarrow> False)) (samples f))"

record 'v page_state =
  shown_load :: string
  shown_results :: string
  shown_gets :: string
  shown_posts :: string
  metrics :: "'v scrape option"
  load_failed :: bool
  online :: bool
  uptime :: "'v option"

definition initial_page :: "'v page_state" where
  "initial_page = \<lparr>shown_load = ''-'', shown_results = ''-'', shown_gets = ''-'', shown_posts = ''-'',
     metrics = None, load_failed = False, online = True, uptime = None\<rparr>"

text \<open>
  A load of the metrics: no answer, or an uptime family without a sample, is an
  error that turns the indicator off, the latter after the figures have been set.
\<close>

definition load_metrics ::
    "(string \<Rightarrow> 'v) \<Rightarrow> ('v \<Rightarrow> string) \<Rightarrow> 'v \<Rightarrow> string option \<Rightarrow> 'v page_state \<Rightarrow> 'v page_state" where
  "load_metrics parseFloat show zero answer p = (case answer of
       None \<Rightarrow> p\<lparr>load_failed := True, online := False\<rparr>
     | Some txt \<Rightarrow>
         (let s = read_metrics parseFloat show txt (empty_scrape (shown_load p) (shown_results p));
              count = (\<lambda>m f. formatCount (show (case requests m f of Some v \<Rightarrow> v | None \<Rightarrow> zero)));
              p1 = p\<lparr>shown_load := system_load s, shown_results := ao_results s\<rparr>;
              p2 = (case find (\<lambda>f. fam_name f = Some ''cowboy_spawned_processes_total'') (group ''counter'' s) of
                  None \<Rightarrow> p1
                | Some f \<Rightarrow> p1\<lparr>shown_gets := count ''GET'' f, shown_posts := count ''POST'' f\<rparr>);
              p3 = p2\<lparr>metrics := Some s, load_failed := False, online := True\<rparr>
          in (case find (\<lambda>f. fam_name f = Some ''process_uptime_seconds'') (group ''gauge'' s) of
                None \<Rightarrow> p3
              | Some f \<Rightarrow> (case samples f of
                    [] \<Rightarrow> p3\<lparr>load_failed := True, online := False\<rparr>
                  | (l, v) # _ \<Rightarrow> p3\<lparr>uptime := Some v\<rparr>))))"

section \<open>A text in the exposition format\<close>

record text_family =
  t_name :: string
  t_kind :: string
  t_help :: "string list"
  t_samples :: "(string option \<times> string) list"

definition sample_text :: "string \<Rightarrow> string option \<times> string \<Rightarrow> string" where
  "sample_text n x = n @ (case fst x of None \<Rightarrow> [] | Some l \<Rightarrow> CHR ''{'' # l @ ''}'') @ CHR '' '' # snd x"

definition family_lines :: "text_family \<Rightarrow> string list" where
  "family_lines f =
     join '' '' [''#'', ''TYPE'', t_name f, t_kind f] #
     join '' '' (''#'' # ''HELP'' # t_name f # t_help f) # map (sample_text (t_name f)) (t_samples f)"

definition family_of :: "(string \<Rightarrow> 'v) \<Rightarrow> text_family \<Rightarrow> 'v family" where
  "family_of parseFloat f = \<lparr>fam_name = Some (t_name f), fam_help = join '' '' (t_help f),
     samples = map (\<lambda>(l, v). (Some (case l of None \<Rightarrow> t_name f | Some t \<Rightarrow> t), parseFloat v)) (t_samples f)\<rparr>"

definition is_text_word :: "string \<Rightarrow> bool" where
  "is_text_word w \<longleftrightarrow> w \<noteq> [] \<and> list_all (\<lambda>c. \<not> is_space c) w"

definition plain_sample :: "string option \<times> string \<Rightarrow> bool" where
  "plain_sample x \<longleftrightarrow> is_plain_number (snd x) \<and>
     (case fst x of None \<Rightarrow> True | Some l \<Rightarrow> CHR ''}'' \<notin> set l \<and> newline \<notin> set l)"

definition plain_text_family :: "text_family \<Rightarrow> bool" where
  "plain_text_family f \<longleftrightarrow> is_text_word (t_name f) \<and> CHR ''{'' \<notin> set (t_name f) \<and> hd (t_name f) \<noteq> CHR ''#'' \<and>
     is_text_word (t_kind f) \<and> list_all is_text_word (t_help f) \<and> list_all plain_sample (t_samples f)"

section \<open>Numbers and labels\<close>

lemma number_chars:
  assumes "is_plain_number v" "c \<in> set v"
  shows "is_digit c \<or> c = CHR ''.'' \<or> c = CHR ''-''"
proof -
  define t where "t = (case v of c # r \<Rightarrow> if c = CHR ''-'' then r else v | [] \<Rightarrow> [])"
  have "set v \<subseteq> insert CHR ''-'' (set t)"
  proof (cases v)
    case (Cons c r)
    then have "t = (if c = CHR ''-'' then r else v)" by (simp only: t_def list.case)
    then show ?thesis using Cons by (metis list.simps(15) subset_insertI subset_refl)
  qed simp
  moreover have "is_digit d \<or> d = CHR ''.''" if "d \<in> set t" for d
  proof -
    have parts: "d \<in> set (takeWhile is_digit t) \<or> d \<in> set (dropWhile is_digit t)"
      using that by (metis UnE set_append takeWhile_dropWhile_id)
    have rest: "case dropWhile is_digit t of [] \<Rightarrow> True
        | c # f \<Rightarrow> c = CHR ''.'' \<and> f \<noteq> [] \<and> list_all is_digit f"
      using assms(1) unfolding is_plain_number_def Let_def t_def [symmetric] by blast
    have "is_digit d \<or> d = CHR ''.''" if "d \<in> set (dropWhile is_digit t)"
    proof (cases "dropWhile is_digit t")
      case (Cons c f)
      then have "c = CHR ''.''" "list_all is_digit f" using rest by (simp_all only: list.case)
      moreover have "d = c \<or> d \<in> set f" using that by (simp only: Cons) simp
      ultimately show ?thesis by (metis list_all_iff)
    next
      case Nil
      show ?thesis using that unfolding Nil by simp
    qed
    then show ?thesis using parts by (auto dest: set_takeWhileD)
  qed
  ultimately show ?thesis using assms(2) by auto
qed

lemma blank_not_number_char: "\<not> (is_digit CHR '' '' \<or> CHR '' '' = CHR ''.'' \<or> CHR '' '' = CHR ''-'')"
  by code_simp

lemma brace_not_number_char: "\<not> (is_digit CHR ''{'' \<or> CHR ''{'' = CHR ''.'' \<or> CHR ''{'' = CHR ''-'')"
  by code_simp

lemma number_char_not_space: "is_digit c \<or> c = CHR ''.'' \<or> c = CHR ''-'' \<Longrightarrow> \<not> is_space c"
  using digit_not_space by (elim disjE) (auto, code_simp+)

lemma plain_number_not_Nil: "is_plain_number v \<Longrightarrow> v \<noteq> []"
  by (auto simp: is_plain_number_def)

lemma number_at_end_text: "is_plain_number v \<Longrightarrow> number_at_end (xs @ CHR '' '' # v) = Some v"
proof (induction xs)
  case Nil
  then have "\<not> is_plain_number (CHR '' '' # v)"
    using number_chars blank_not_number_char by (metis list.set_intros(1))
  then show ?case using Nil plain_number_not_Nil [OF Nil] by (cases v) simp_all
next
  case (Cons x xs)
  have "\<not> is_plain_number (x # xs @ CHR '' '' # v)"
    using number_chars [of "x # xs @ CHR '' '' # v" "CHR '' ''"] blank_not_number_char by auto
  then show ?case using Cons by simp
qed

lemma label_text_sample:
  assumes "CHR ''{'' \<notin> set n" "plain_sample x"
  shows "label_text (sample_text n x) = fst x"
proof (cases "fst x")
  case None
  have "CHR ''{'' \<notin> set (snd x)"
    using assms(2) number_chars brace_not_number_char unfolding plain_sample_def by metis
  then have "list_all (\<lambda>c. c \<noteq> CHR ''{'') (sample_text n x)"
    using assms(1) None by (auto simp: sample_text_def list_all_iff)
  then show ?thesis by (simp only: label_text_def while_all list.simps None)
next
  case (Some l)
  then have "dropWhile (\<lambda>c. c \<noteq> CHR ''{'') (sample_text n x) = CHR ''{'' # l @ CHR ''}'' # CHR '' '' # snd x"
    using until_char(2) [OF assms(1)] by (simp add: sample_text_def)
  moreover have "CHR ''}'' \<notin> set l" using assms(2) Some by (simp add: plain_sample_def)
  then have "takeWhile (\<lambda>c. c \<noteq> CHR ''}'') (l @ CHR ''}'' # CHR '' '' # snd x) = l"
    by (rule until_char(1))
  ultimately show ?thesis by (simp add: label_text_def Some)
qed

section \<open>The lines of a family\<close>

lemma text_word_tight: "is_text_word w \<Longrightarrow> tight w"
  by (auto simp: is_text_word_def tight_def list_all_iff)

lemma number_tight: "is_plain_number v \<Longrightarrow> tight v"
  using number_chars number_char_not_space plain_number_not_Nil
  by (metis hd_in_set last_in_set tight_def)

lemma tight_append: "tight a \<Longrightarrow> tight b \<Longrightarrow> tight (a @ m @ b)"
  by (simp add: tight_def)

lemma join_spaces_tight:
  "ws \<noteq> [] \<Longrightarrow> list_all is_text_word ws \<Longrightarrow> tight (join '' '' ws)"
proof (induction ws rule: induct_list012)
  case (3 w v ws)
  then show ?case using tight_append [of w "join '' '' (v # ws)" "'' ''"] by (simp add: text_word_tight)
qed (simp_all add: text_word_tight)

lemma split_spaces_join: "list_all is_text_word ws \<Longrightarrow> split_spaces (join '' '' ws) = ws"
  unfolding split_spaces_def
  by (intro words_by_join) (auto simp: is_text_word_def list_all_iff)

lemma hash_words [simp]: "is_text_word ''#''" "is_text_word ''TYPE''" "is_text_word ''HELP''"
  by code_simp+

lemma metrics_type_line:
  assumes "is_text_word n" "is_text_word k"
  shows "families (metrics_line pf sh s (join '' '' [''#'', ''TYPE'', n, k])) =
    (k, \<lparr>fam_name = Some n, fam_help = [], samples = []\<rparr>) # families s"
proof -
  let ?ws = "[''#'', ''TYPE'', n, k]"
  have ws: "list_all is_text_word ?ws" using assms by simp
  have "starts_with (join '' '' ?ws) ''# TYPE''" by simp
  moreover have "trim (join '' '' ?ws) = join '' '' ?ws" using join_spaces_tight [OF _ ws] tight_trim(1) by blast
  moreover have "join '' '' ?ws \<noteq> []" by simp
  ultimately show ?thesis
    using split_spaces_join [OF ws] unfolding metrics_line_def Let_def by (simp only: if_False if_True)
      (simp add: nth_word_def)
qed

lemma metrics_help_line:
  assumes "is_text_word n" "list_all is_text_word h" "families s = (k, f) # r" "fam_name f = Some n"
  shows "families (metrics_line pf sh s (join '' '' (''#'' # ''HELP'' # n # h))) =
    (k, f\<lparr>fam_help := join '' '' h\<rparr>) # r"
proof -
  let ?ws = "''#'' # ''HELP'' # n # h"
  have ws: "list_all is_text_word ?ws" using assms by simp
  obtain t where t: "join '' '' ?ws = ''# HELP '' @ t" by (cases h) auto
  then have "starts_with (join '' '' ?ws) ''# HELP''" "\<not> starts_with (join '' '' ?ws) ''# TYPE''"
    "join '' '' ?ws \<noteq> []" by simp_all
  moreover have "trim (join '' '' ?ws) = join '' '' ?ws" using join_spaces_tight [OF _ ws] tight_trim(1) by blast
  ultimately show ?thesis
    using split_spaces_join [OF ws] assms(3,4) unfolding metrics_line_def Let_def
    by (simp only: if_False if_True) (simp add: nth_word_def)
qed

lemma sample_text_line:
  assumes "is_text_word n" "hd n \<noteq> CHR ''#''" "plain_sample x"
  shows "trim (sample_text n x) = sample_text n x" "\<not> starts_with (sample_text n x) (CHR ''#'' # w)"
    "sample_text n x \<noteq> []" "number_at_end (sample_text n x) = Some (snd x)"
proof -
  have "sample_text n x = n @ ((case fst x of None \<Rightarrow> [] | Some l \<Rightarrow> CHR ''{'' # l @ ''}'') @ '' '') @ snd x"
    by (simp add: sample_text_def)
  moreover have "tight n" "tight (snd x)"
    using assms text_word_tight number_tight by (simp_all add: plain_sample_def)
  ultimately show "trim (sample_text n x) = sample_text n x" using tight_append tight_trim(1) by metis
  show "sample_text n x \<noteq> []" by (simp add: sample_text_def)
  show "\<not> starts_with (sample_text n x) (CHR ''#'' # w)"
    using assms(1,2) by (cases n) (simp_all add: sample_text_def is_text_word_def)
  show "number_at_end (sample_text n x) = Some (snd x)"
    using assms(3) number_at_end_text [of "snd x" "n @ (case fst x of None \<Rightarrow> [] | Some l \<Rightarrow> CHR ''{'' # l @ ''}'')"]
    by (simp add: sample_text_def plain_sample_def)
qed

lemma metrics_sample_line:
  assumes "is_text_word n" "hd n \<noteq> CHR ''#''" "CHR ''{'' \<notin> set n" "plain_sample x"
    and "families s = (k, f) # r" "fam_name f = Some n"
  shows "families (metrics_line pf sh s (sample_text n x)) =
    (k, f\<lparr>samples := samples f @ [(Some (case fst x of None \<Rightarrow> n | Some t \<Rightarrow> t), pf (snd x))]\<rparr>) # r"
proof -
  note line = sample_text_line [OF assms(1,2,4)] label_text_sample [OF assms(3,4)]
  have "metrics_line pf sh s (sample_text n x) = sample_line pf sh (sample_text n x) s"
    unfolding metrics_line_def Let_def line(1) using line(2,3) by simp
  then show ?thesis
    using assms(5,6) line(4,5)
    by (cases "fst x") (simp_all add: sample_line_def add_sample_def Let_def)
qed

lemma metrics_samples:
  assumes "is_text_word n" "hd n \<noteq> CHR ''#''" "CHR ''{'' \<notin> set n" "list_all plain_sample xs"
    and "families s = (k, f) # r" "fam_name f = Some n"
  shows "families (foldl (metrics_line pf sh) s (map (sample_text n) xs)) =
    (k, f\<lparr>samples := samples f @ map (\<lambda>(l, v). (Some (case l of None \<Rightarrow> n | Some t \<Rightarrow> t), pf v)) xs\<rparr>) # r"
  using assms(4-6)
proof (induction xs arbitrary: s f)
  case (Cons x xs)
  have step: "families (metrics_line pf sh s (sample_text n x)) =
      (k, f\<lparr>samples := samples f @ [(Some (case fst x of None \<Rightarrow> n | Some t \<Rightarrow> t), pf (snd x))]\<rparr>) # r"
    using Cons.prems by (intro metrics_sample_line [OF assms(1-3)]) simp_all
  show ?case using Cons.IH [OF _ step] Cons.prems by (cases x) simp
qed simp

lemma metrics_family:
  assumes "plain_text_family f"
  shows "families (foldl (metrics_line pf sh) s (family_lines f)) = (t_kind f, family_of pf f) # families s"
proof -
  note f = assms [unfolded plain_text_family_def]
  let ?s1 = "metrics_line pf sh s (join '' '' [''#'', ''TYPE'', t_name f, t_kind f])"
  let ?s2 = "metrics_line pf sh ?s1 (join '' '' (''#'' # ''HELP'' # t_name f # t_help f))"
  have s1: "families ?s1 = (t_kind f, \<lparr>fam_name = Some (t_name f), fam_help = [], samples = []\<rparr>) # families s"
    using f by (intro metrics_type_line) simp_all
  have s2: "families ?s2 =
      (t_kind f, \<lparr>fam_name = Some (t_name f), fam_help = join '' '' (t_help f), samples = []\<rparr>) # families s"
    using f metrics_help_line [OF _ _ s1, of "t_name f" "t_help f"] by simp
  show ?thesis
    using f metrics_samples [OF _ _ _ _ s2, of "t_name f" "t_samples f"]
    unfolding family_lines_def foldl.simps family_of_def by simp
qed

lemma newline_space: "is_space newline" "newline \<noteq> CHR '' ''"
  by code_simp+

lemma text_word_no_newline: "is_text_word w \<Longrightarrow> newline \<notin> set w"
  using newline_space by (auto simp: is_text_word_def list_all_iff)

lemma join_no_newline: "list_all is_text_word ws \<Longrightarrow> newline \<notin> set (join '' '' ws)"
  by (induction ws rule: induct_list012) (auto simp: newline_space(2) dest: text_word_no_newline)

lemma family_lines_no_newline:
  assumes "plain_text_family f" "w \<in> set (family_lines f)"
  shows "newline \<notin> set w"
proof -
  note f = assms(1) [unfolded plain_text_family_def]
  have number: "newline \<notin> set v" if "is_plain_number v" for v
    using that number_chars number_char_not_space newline_space by metis
  have chars: "newline \<noteq> CHR ''{''" "newline \<noteq> CHR ''}''" "newline \<noteq> CHR '' ''" by code_simp+
  have "newline \<notin> set (sample_text (t_name f) x)" if "plain_sample x" for x
    using that f chars number text_word_no_newline [of "t_name f"]
    by (auto simp: sample_text_def plain_sample_def split: option.splits)
  moreover have "newline \<notin> set (join '' '' [''#'', ''TYPE'', t_name f, t_kind f])"
    "newline \<notin> set (join '' '' (''#'' # ''HELP'' # t_name f # t_help f))"
    using f join_no_newline [of "[''#'', ''TYPE'', t_name f, t_kind f]"]
      join_no_newline [of "''#'' # ''HELP'' # t_name f # t_help f"] by simp_all
  ultimately show ?thesis using assms(2) f by (auto simp: family_lines_def list_all_iff)
qed

lemma metrics_families:
  assumes "list_all plain_text_family fs"
  shows "families (foldl (metrics_line pf sh) s (concat (map family_lines fs))) =
    rev (map (\<lambda>f. (t_kind f, family_of pf f)) fs) @ families s"
  using assms by (induction fs arbitrary: s) (simp_all add: metrics_family)

section \<open>Properties\<close>

text \<open>
  The metrics of a node are read back family by family: in a text that gives for
  each family its type, its help and its samples, the group of a type holds exactly
  the families of that type, in their order, with name, help, and every sample under
  its labels (or the name of the family when it has none) with its value.
\<close>

theorem metrics_read_back:
  assumes "fs \<noteq> []" "list_all plain_text_family fs" "families s = []"
  shows "group t (read_metrics pf sh (join [newline] (concat (map family_lines fs))) s) =
    map (family_of pf) (filter (\<lambda>f. t_kind f = t) fs)"
proof -
  have "concat (map family_lines fs) \<noteq> []" using assms(1) by (cases fs) (simp_all add: family_lines_def)
  then have "split_on newline (join [newline] (concat (map family_lines fs))) = concat (map family_lines fs)"
    using assms(2) family_lines_no_newline by (intro split_on_join) (auto simp: list_all_iff)
  then have "families (read_metrics pf sh (join [newline] (concat (map family_lines fs))) s) =
      rev (map (\<lambda>f. (t_kind f, family_of pf f)) fs)"
    using metrics_families [OF assms(2), of pf sh s] assms(3) by (simp only: read_metrics_def append_Nil2)
  then show ?thesis by (simp add: group_def filter_map comp_def)
qed

lemma metrics_read_back_witness:
  "group ''gauge'' (read_metrics id id (join [newline] (family_lines
      \<lparr>t_name = ''up'', t_kind = ''gauge'', t_help = [''Is'', ''up''], t_samples = [(None, ''1.5'')]\<rparr>))
      (empty_scrape ''-'' ''-'')) =
    [\<lparr>fam_name = Some ''up'', fam_help = ''Is up'', samples = [(Some ''up'', ''1.5'')]\<rparr>]"
proof -
  let ?f = "\<lparr>t_name = ''up'', t_kind = ''gauge'', t_help = [''Is'', ''up''], t_samples = [(None, ''1.5'')]\<rparr>"
  have "plain_text_family ?f" by code_simp
  then show ?thesis
    using metrics_read_back [of "[?f]" "empty_scrape ''-'' ''-''" "''gauge''" id id]
    by (simp add: empty_scrape_def family_of_def)
qed

text \<open>
  A value in exponent notation is misread: only the digits of the exponent, with
  their minus sign, are taken for the value of the sample.
\<close>

theorem exponent_value_misread:
  assumes "is_plain_number m" "e = CHR ''e'' \<or> e = CHR ''E''" "is_plain_number d"
  shows "number_at_end (n @ CHR '' '' # m @ e # d) = Some d"
  using assms(3)
proof -
  have e: "\<not> (is_digit e \<or> e = CHR ''.'' \<or> e = CHR ''-'')" using assms(2) by (elim disjE) (simp, code_simp)+
  have "number_at_end (xs @ e # d) = Some d" for xs
  proof (induction xs)
    case Nil
    have "\<not> is_plain_number (e # d)" using number_chars e by (metis list.set_intros(1))
    then show ?case using assms(3) plain_number_not_Nil [OF assms(3)] by (cases d) simp_all
  next
    case (Cons x xs)
    have "\<not> is_plain_number (x # xs @ e # d)" using number_chars [of "x # xs @ e # d" e] e by auto
    then show ?case using Cons by simp
  qed
  from this [of "n @ CHR '' '' # m"] show ?thesis by simp
qed

lemma exponent_value_misread_witness: "number_at_end ''load 1.5e-7'' = Some ''-7''"
proof -
  have "is_plain_number ''1.5''" "is_plain_number ''-7''" by code_simp+
  from exponent_value_misread [OF this(1) _ this(2), of "CHR ''e''" "''load''"] show ?thesis by simp
qed

end
