(* ===== verification/Dashboard.thy ===== *)
theory Dashboard
  imports Metrics Explorer
begin

text \<open>
  The lists of the dashboard: the devices of the node in rows of three with a filter
  (\<open>Devices\<close>, line 10563 of \<open>bundle.js\<close>), the metrics by category (\<open>Metrics\<close>, line
  10948, with \<open>HB_METRIC_CATEGORIES\<close>, line 246) and the nodes of the routers
  (\<open>Nodes\<close>, line 11261).
\<close>

section \<open>Devices\<close>

text \<open>
  An entry of the reply is an object with or without a name, or a string, which is
  dropped.
\<close>

datatype device_entry = DeviceText string | Device "string option"

definition named_entries :: "device_entry list \<Rightarrow> string option list" where
  "named_entries es = concat (map (\<lambda>e. case e of DeviceText _ \<Rightarrow> [] | Device n \<Rightarrow> [n]) es)"

function rows_of_three :: "'a list \<Rightarrow> nat \<Rightarrow> 'a list list" where
  "rows_of_three xs i = (if i + 3 \<le> length xs then take 3 (drop i xs) # rows_of_three xs (i + 3)
     else if i < length xs then [drop i xs] else [])"
  by pat_completeness auto

termination
  by (relation "measure (\<lambda>(xs, i). length xs - i)") auto

declare rows_of_three.simps [simp del]

definition name_text :: "string option \<Rightarrow> string" where
  "name_text n = (case n of Some t \<Rightarrow> t | None \<Rightarrow> [])"

definition filter_devices :: "string \<Rightarrow> string option list \<Rightarrow> string option list" where
  "filter_devices q ds = filter (\<lambda>n. trim q = [] \<or> str_includes (toLowerCase (name_text n)) (toLowerCase q)) ds"

definition device_rows :: "string \<Rightarrow> device_entry list \<Rightarrow> string option list list" where
  "device_rows q es = rows_of_three (filter_devices q (named_entries es)) 0"

text \<open>The name and the version shown for a device, its number and where a click leads.\<close>

definition device_cell :: "string option \<Rightarrow> string \<times> string option" where
  "device_cell n = (if name_text n = [] then (''-'', Some ''-'')
     else (let parts = split_on CHR ''@'' (name_text n) in
       (parts ! 0, if 1 < length parts then Some (parts ! 1) else None)))"

definition cell_number :: "nat \<Rightarrow> nat \<Rightarrow> nat" where
  "cell_number row col = row * 3 + col + 1"

definition device_url :: "string option \<Rightarrow> string" where
  "device_url n = explorer_url @ ''~'' @ fst (device_cell n) @ ''@1.0''"

section \<open>Metrics by category\<close>

definition HB_METRIC_CATEGORIES :: "(string \<times> string list) list" where
  "HB_METRIC_CATEGORIES = [
     (''AO Events'', [''event'']),
     (''System Stats'', [''process_uptime_seconds'', ''system_load'', ''outbound_connections'']),
     (''HTTP & Requests'', [''cowboy_requests_total'', ''cowboy_protocol_upgrades_total'',
       ''cowboy_spawned_processes_total'', ''cowboy_errors_total'', ''cowboy_early_errors_total'',
       ''cowboy_request_duration_seconds'', ''http_request_duration_seconds'',
       ''cowboy_receive_body_duration_seconds'']),
     (''Memory'', [''erlang_vm_memory_atom_bytes_total'', ''erlang_vm_memory_bytes_total'',
       ''erlang_vm_memory_dets_tables'', ''erlang_vm_memory_ets_tables'',
       ''erlang_vm_memory_processes_bytes_total'', ''erlang_vm_memory_system_bytes_total'']),
     (''Network Stats'', [''http_client_uploaded_bytes_total'', ''http_client_downloaded_bytes_total'',
       ''gun_requests_total'']),
     (''Telemetry'', [''telemetry_scrape_size_bytes'', ''telemetry_scrape_duration_seconds'',
       ''telemetry_scrape_encoded_size_bytes'']),
     (''VM Stats'', [''erlang_vm_msacc_aux_seconds_total'', ''erlang_vm_msacc_check_io_seconds_total'',
       ''erlang_vm_msacc_emulator_seconds_total'', ''erlang_vm_msacc_gc_seconds_total'',
       ''erlang_vm_msacc_other_seconds_total''])]"

text \<open>
  The families by name, a later one over an earlier one in the order of the types
  (each the first time it occurs); then those a category lists.
\<close>

definition family_key :: "'v family \<Rightarrow> string" where
  "family_key f = (case fam_name f of Some n \<Rightarrow> n | None \<Rightarrow> ''undefined'')"

definition all_metrics :: "'v scrape \<Rightarrow> (string \<times> 'v family) list" where
  "all_metrics s = concat (map (\<lambda>t. map (Pair t) (group t s)) (rev (remdups (map fst (families s)))))"

definition metric_named :: "'v scrape \<Rightarrow> string \<Rightarrow> (string \<times> 'v family) option" where
  "metric_named s n = find (\<lambda>x. family_key (snd x) = n) (rev (all_metrics s))"

definition category_metrics :: "'v scrape \<Rightarrow> string list \<Rightarrow> (string \<times> string \<times> 'v family) list" where
  "category_metrics s ns = concat (map (\<lambda>n. case metric_named s n of
     Some x \<Rightarrow> [(n, x)] | None \<Rightarrow> []) ns)"

definition categorized :: "'v scrape \<Rightarrow> (string \<times> (string \<times> string \<times> 'v family) list) list" where
  "categorized s = map (\<lambda>(c, ns). (c, category_metrics s ns)) HB_METRIC_CATEGORIES"

section \<open>Nodes of a router\<close>

record router_node =
  prefix :: string
  price :: "string option"
  performance :: "string option"

text \<open>The nodes of all routes, of each prefix (which is not empty) the first.\<close>

fun first_by_prefix :: "string list \<Rightarrow> router_node list \<Rightarrow> router_node list" where
  "first_by_prefix seen [] = []"
| "first_by_prefix seen (n # ns) = (if prefix n = [] \<or> prefix n \<in> set seen
     then first_by_prefix seen ns else n # first_by_prefix (prefix n # seen) ns)"

definition node_rows :: "router_node list \<Rightarrow> router_node list list" where
  "node_rows ns = (let r = length ns mod 3 in
     if r \<noteq> 0 then take r ns # rows_of_three ns r else rows_of_three ns 0)"

definition router_rows :: "router_node list list \<Rightarrow> router_node list list" where
  "router_rows routes = node_rows (first_by_prefix [] (concat routes))"

definition node_figure :: "string option \<Rightarrow> string" where
  "node_figure v = formatCount (case v of Some t \<Rightarrow> t | None \<Rightarrow> ''0'')"

section \<open>Rows\<close>

lemma concat_rows_of_three: "concat (rows_of_three xs i) = drop i xs"
proof (induction xs i rule: rows_of_three.induct)
  case (1 xs i)
  have "take 3 (drop i xs) @ drop (i + 3) xs = drop i xs"
    by (metis add.commute append_take_drop_id drop_drop)
  then show ?case using 1 by (subst rows_of_three.simps) auto
qed

lemma rows_of_three_cell:
  "i + j < length xs \<Longrightarrow> j div 3 < length (rows_of_three xs i) \<and>
    j mod 3 < length (rows_of_three xs i ! (j div 3)) \<and>
    rows_of_three xs i ! (j div 3) ! (j mod 3) = xs ! (i + j)"
proof (induction xs i arbitrary: j rule: rows_of_three.induct)
  case (1 xs i)
  show ?case
  proof (cases "i + 3 \<le> length xs")
    case True
    show ?thesis
    proof (cases "j < 3")
      case True
      then show ?thesis using \<open>i + 3 \<le> length xs\<close> by (subst (1 2 3) rows_of_three.simps) simp
    next
      case False
      then obtain k where k: "j = k + 3" by (metis add.commute le_Suc_ex linorder_not_less)
      then have "j div 3 = Suc (k div 3)" "j mod 3 = k mod 3" by simp_all
      then show ?thesis using 1(1) [OF True, of k] 1(2) k True
        by (subst (1 2 3) rows_of_three.simps) (simp add: ac_simps)
    qed
  next
    case False
    then have "j < 3" "i < length xs" using 1(2) by auto
    then show ?thesis using False 1(2) by (subst (1 2 3) rows_of_three.simps) simp
  qed
qed

lemma rows_of_three_bounds: "w \<in> set (rows_of_three xs i) \<Longrightarrow> 0 < length w \<and> length w \<le> 3"
proof (induction xs i rule: rows_of_three.induct)
  case (1 xs i)
  then show ?case by (subst (asm) (2) rows_of_three.simps) (auto split: if_splits)
qed

lemma set_all_metrics: "set (all_metrics s) = set (families s)"
  by (force simp: all_metrics_def group_def)

section \<open>Properties\<close>

text \<open>
  The rows of the device list are the filtered devices in order: nothing is lost
  or repeated, every row has one to three devices, and the device at a place of the
  list stands in the row and column its number says.
\<close>

theorem device_rows_numbered:
  "concat (device_rows q es) = filter_devices q (named_entries es) \<and>
   (\<forall>w \<in> set (device_rows q es). 0 < length w \<and> length w \<le> 3) \<and>
   (\<forall>j < length (filter_devices q (named_entries es)).
      device_rows q es ! (j div 3) ! (j mod 3) = filter_devices q (named_entries es) ! j \<and>
      cell_number (j div 3) (j mod 3) = j + 1)"
  using rows_of_three_cell [of 0 _ "filter_devices q (named_entries es)"]
  by (auto simp: device_rows_def concat_rows_of_three cell_number_def dest: rows_of_three_bounds)

lemma device_rows_numbered_witness:
  "device_rows [] [Device (Some ''a''), DeviceText ''x'', Device None] ! 0 ! 1 = None"
  using device_rows_numbered [of "[]" "[Device (Some ''a''), DeviceText ''x'', Device None]"]
  by (simp add: filter_devices_def named_entries_def trim_def trim_left_def trim_right_def)

text \<open>
  The nodes of a router are numbered with a gap: unless they fill their rows, the
  first node of the second row has the number four although fewer come before it.
\<close>

lemma nodes_numbered_with_gap:
  assumes "length ns mod 3 \<noteq> 0" "3 < length ns"
  shows "concat (node_rows ns) = ns \<and> node_rows ns ! 1 ! 0 = ns ! (length ns mod 3) \<and>
    cell_number 1 0 \<noteq> length ns mod 3 + 1"
proof -
  have "node_rows ns = take (length ns mod 3) ns # rows_of_three ns (length ns mod 3)"
    using assms(1) by (simp add: node_rows_def Let_def)
  moreover have "length ns mod 3 < length ns" using assms(2) by (meson le_less_trans less_imp_le mod_less_divisor zero_less_numeral less_le_trans linorder_not_less)
  then have "rows_of_three ns (length ns mod 3) ! 0 ! 0 = ns ! (length ns mod 3)"
    using rows_of_three_cell [of "length ns mod 3" 0 ns] by simp
  moreover have "length ns mod 3 < 3" by simp
  ultimately show ?thesis
    by (simp add: concat_rows_of_three cell_number_def)
qed

text \<open>A click on a device leads to version 1.0, whatever its version.\<close>

lemma device_url_ignores_version: "device_url (Some ''cron@2.0'') = explorer_url @ ''~cron@1.0''"
  by (simp add: device_url_def device_cell_def name_text_def Let_def)

text \<open>
  A category shows exactly the metrics it lists that the node reports, in the
  order of the category, each with a family of its name.
\<close>

theorem category_shows_reported:
  "map fst (category_metrics s ns) = filter (\<lambda>n. \<exists>x \<in> set (families s). family_key (snd x) = n) ns \<and>
   (\<forall>x \<in> set (category_metrics s ns). family_key (snd (snd x)) = fst x \<and> snd x \<in> set (families s))"
proof -
  have named: "metric_named s n = None \<longleftrightarrow> \<not> (\<exists>x \<in> set (families s). family_key (snd x) = n)" for n
    by (simp only: metric_named_def find_None_iff set_all_metrics set_rev) blast
  have some: "family_key (snd x) = n \<and> x \<in> set (families s)" if "metric_named s n = Some x" for n x
    using that set_all_metrics [of s] by (auto simp: metric_named_def find_Some_iff) (metis nth_mem set_rev length_rev)
  have "map fst (category_metrics s ns) = filter (\<lambda>n. metric_named s n \<noteq> None) ns"
    by (induction ns) (auto simp: category_metrics_def split: option.splits)
  moreover have "family_key (snd (snd x)) = fst x \<and> snd x \<in> set (families s)"
    if "x \<in> set (category_metrics s ns)" for x
  proof -
    have "metric_named s (fst x) = Some (snd x)"
      using that by (auto simp: category_metrics_def split: option.splits)
    then show ?thesis by (rule some)
  qed
  ultimately show ?thesis by (simp add: named)
qed

lemma category_shows_reported_witness:
  "map fst (category_metrics (empty_scrape ''-'' ''-'' :: nat scrape) [''event'']) = []"
  using category_shows_reported [of "empty_scrape ''-'' ''-'' :: nat scrape" "[''event'']"]
  by (simp add: empty_scrape_def)

end
