(* ===== verification/AppShell.thy ===== *)
theory AppShell
  imports Theme
begin

text \<open>
  What frames every page of the explorer: the settings with their storage and the
  theme they select (\<open>SettingsProvider\<close>, line 2307 of \<open>bundle.js\<close>), the panels that lock
  the scrolling of the page (\<open>Panel\<close>, line 1891), the listeners that close a panel
  (\<open>useCloseHandler\<close>, line 1838) and the notifications (line 1957).
\<close>

section \<open>Settings\<close>

text \<open>
  The settings are an object: a stored one may have other keys, or lack some. The
  sizes of the window and its colour scheme come with the event that reads them.
\<close>

type_synonym settings = "string \<rightharpoonup> jsval"

record settings_state =
  current :: settings
  storage :: "settings option"

definition prop_val :: "settings \<Rightarrow> string \<Rightarrow> jsval" where
  "prop_val s k = (case s k of Some v \<Rightarrow> v | None \<Rightarrow> Undef)"

definition or_false :: "jsval \<Rightarrow> jsval" where
  "or_false v = (if nullish_val v then JBool False else v)"

definition window_size :: "nat \<Rightarrow> nat \<Rightarrow> jsval" where
  "window_size w h = JObj [(''width'', JNum (of_nat w)), (''height'', JNum (of_nat h))]"

text \<open>\<open>checkWindowCutoff(parseInt(STYLING.cutoffs.desktop))\<close>\<close>

definition desktop :: "nat \<Rightarrow> bool" where
  "desktop w \<longleftrightarrow> w > 1250"

definition system_theme :: "bool \<Rightarrow> string" where
  "system_theme dark = (if dark then ''dark-primary'' else ''light-primary'')"

definition defaultSettings :: "bool \<Rightarrow> nat \<Rightarrow> nat \<Rightarrow> settings" where
  "defaultSettings dark w h = Map.empty(
     ''theme'' \<mapsto> JStr (system_theme dark), ''sidebarOpen'' \<mapsto> JBool False, ''isDesktop'' \<mapsto> JBool True,
     ''windowSize'' \<mapsto> window_size w h, ''showCategoryAction'' \<mapsto> JBool False,
     ''showTopicAction'' \<mapsto> JBool False, ''showLinkAction'' \<mapsto> JBool False)"

text \<open>A stored object comes back without the properties that are \<open>undefined\<close>.\<close>

definition stringified :: "settings \<Rightarrow> settings" where
  "stringified s = (\<lambda>k. case s k of Some Undef \<Rightarrow> None | v \<Rightarrow> v)"

definition sidebar :: "nat \<Rightarrow> settings \<Rightarrow> jsval" where
  "sidebar w s = (if desktop w then prop_val s ''sidebarOpen'' else JBool False)"

definition initial_settings :: "settings option \<Rightarrow> nat \<Rightarrow> nat \<Rightarrow> bool \<Rightarrow> settings" where
  "initial_settings stored w h dark = (case stored of
       Some s \<Rightarrow> s(''isDesktop'' \<mapsto> JBool (desktop w), ''windowSize'' \<mapsto> window_size w h,
         ''sidebarOpen'' \<mapsto> sidebar w s,
         ''showCategoryAction'' \<mapsto> or_false (prop_val s ''showCategoryAction''),
         ''showTopicAction'' \<mapsto> or_false (prop_val s ''showTopicAction''),
         ''showLinkAction'' \<mapsto> or_false (prop_val s ''showLinkAction''))
     | None \<Rightarrow> (defaultSettings dark w h)(''theme'' \<mapsto> JStr (system_theme dark),
         ''isDesktop'' \<mapsto> JBool (desktop w), ''sidebarOpen'' \<mapsto> JBool (desktop w)))"

definition start_settings :: "settings option \<Rightarrow> nat \<Rightarrow> nat \<Rightarrow> bool \<Rightarrow> settings_state" where
  "start_settings stored w h dark = \<lparr>current = initial_settings stored w h dark, storage = stored\<rparr>"

definition store_settings :: "settings \<Rightarrow> settings_state" where
  "store_settings s = \<lparr>current = s, storage = Some (stringified s)\<rparr>"

definition on_resize :: "nat \<Rightarrow> nat \<Rightarrow> settings \<Rightarrow> settings" where
  "on_resize w h s = s(''isDesktop'' \<mapsto> JBool (desktop w), ''windowSize'' \<mapsto> window_size w h,
     ''sidebarOpen'' \<mapsto> sidebar w s)"

datatype settings_event = Resize nat nat | Update string jsval | SchemeChanged

fun settings_step :: "settings_state \<Rightarrow> settings_event \<Rightarrow> settings_state" where
  "settings_step p (Resize w h) = store_settings (on_resize w h (current p))"
| "settings_step p (Update k v) = store_settings ((current p)(k \<mapsto> v))"
| "settings_step p SchemeChanged = p"

text \<open>The theme the provider hands to the styled components.\<close>

definition selected_palette :: "settings \<Rightarrow> bool \<Rightarrow> palette" where
  "selected_palette s dark = (
     if s ''theme'' = Some (JStr ''light-primary'') then lightTheme
     else if s ''theme'' = Some (JStr ''dark-primary'') then darkTheme
     else if s ''theme'' = Some (JStr ''system'') then (if dark then darkTheme else lightTheme)
     else lightTheme)"

definition selected_theme :: "settings \<Rightarrow> bool \<Rightarrow> jsval" where
  "selected_theme s dark = theme_of (selected_palette s dark)"

section \<open>The scrolling of the page\<close>

text \<open>
  The panels count how many of them are open; the sidebar sets the overflow on its
  own, after clearing it, whenever it or the width class changes.
\<close>

record page_body =
  overflow_y :: string
  panelOpenCounter :: int

definition hideDocumentBody :: "page_body \<Rightarrow> page_body" where
  "hideDocumentBody b = b\<lparr>panelOpenCounter := panelOpenCounter b + 1, overflow_y := ''hidden''\<rparr>"

definition showDocumentBody :: "page_body \<Rightarrow> page_body" where
  "showDocumentBody b = (let n = panelOpenCounter b - 1 in
     if n = 0 then b\<lparr>panelOpenCounter := n, overflow_y := ''auto''\<rparr> else b\<lparr>panelOpenCounter := n\<rparr>)"

definition sidebar_effect :: "settings \<Rightarrow> page_body \<Rightarrow> page_body" where
  "sidebar_effect s b = b\<lparr>overflow_y :=
     (if \<not> truthy (prop_val s ''isDesktop'') \<and> truthy (prop_val s ''sidebarOpen'') then ''hidden'' else ''auto'')\<rparr>"

text \<open>
  Each panel runs its effect when \<open>open\<close> becomes true and its clean-up when \<open>open\<close>
  becomes false or it goes away: the panels on the page with whether they are open.
\<close>

record panels =
  open_panels :: "nat \<Rightarrow> bool"
  body :: page_body

definition set_panel :: "nat \<Rightarrow> bool \<Rightarrow> panels \<Rightarrow> panels" where
  "set_panel i b p = (if open_panels p i = b then p
     else p\<lparr>open_panels := (open_panels p)(i := b),
       body := (if b then hideDocumentBody (body p) else showDocumentBody (body p))\<rparr>)"

definition no_panels :: panels where
  "no_panels = \<lparr>open_panels = (\<lambda>_. False), body = \<lparr>overflow_y = ''auto'', panelOpenCounter = 0\<rparr>\<rparr>"

definition panel_step :: "panels \<Rightarrow> nat \<times> bool \<Rightarrow> panels" where
  "panel_step p e = set_panel (fst e) (snd e) p"

text \<open>\<open>Escape\<close> closes a panel that can be closed.\<close>

definition escape_closes :: "string \<Rightarrow> bool \<Rightarrow> bool \<Rightarrow> bool" where
  "escape_closes key has_close disabled \<longleftrightarrow> key = ''Escape'' \<and> has_close \<and> \<not> disabled"

section \<open>Listeners\<close>

text \<open>
  The listeners of the document as the functions that were added, each known by a
  number. The effect adds a new function, and its clean-up removes another new
  function, which is not among them.
\<close>

record listeners =
  next_fun :: nat
  added :: "nat list"

definition add_listener :: "listeners \<Rightarrow> listeners" where
  "add_listener d = d\<lparr>added := added d @ [next_fun d], next_fun := next_fun d + 1\<rparr>"

definition remove_listener :: "nat \<Rightarrow> listeners \<Rightarrow> listeners" where
  "remove_listener f d = d\<lparr>added := filter (\<lambda>g. g \<noteq> f) (added d)\<rparr>"

definition close_handler_cleanup :: "listeners \<Rightarrow> listeners" where
  "close_handler_cleanup d = (remove_listener (next_fun d) d)\<lparr>next_fun := next_fun d + 1\<rparr>"

text \<open>A render with a new callback: the clean-up of the last effect, then the effect.\<close>

definition rerender :: "listeners \<Rightarrow> listeners" where
  "rerender d = add_listener (close_handler_cleanup d)"

section \<open>Notifications\<close>

record notification =
  visible :: bool
  callbacks :: nat

definition dismiss :: "bool \<Rightarrow> notification \<Rightarrow> notification" where
  "dismiss has_callback n = n\<lparr>visible := False, callbacks := callbacks n + (if has_callback then 1 else 0)\<rparr>"

text \<open>The timer of five seconds is set only for a notification that is no warning.\<close>

definition timer_set :: "string \<Rightarrow> notification \<Rightarrow> bool" where
  "timer_set t n \<longleftrightarrow> visible n \<and> t \<noteq> ''warning''"

section \<open>Settings and their storage\<close>

definition stored_inv :: "settings_state \<Rightarrow> bool" where
  "stored_inv p \<longleftrightarrow> (case storage p of None \<Rightarrow> True | Some s \<Rightarrow>
     (\<forall>k. k \<notin> {''isDesktop'', ''windowSize'', ''sidebarOpen'', ''showCategoryAction'', ''showTopicAction'', ''showLinkAction''}
        \<longrightarrow> s k = stringified (current p) k))"

lemma stored_inv_step: "stored_inv p \<Longrightarrow> stored_inv (settings_step p e)"
  by (cases e) (simp_all add: stored_inv_def store_settings_def)

interpretation stored: machine settings_step "\<lambda>_ _. True" stored_inv
  by unfold_locales (rule stored_inv_step)

lemma last_step_stored:
  assumes "e \<noteq> SchemeChanged"
  shows "storage (settings_step p e) = Some (stringified (current (settings_step p e)))"
  using assms by (cases e) (simp_all add: store_settings_def)

section \<open>Counting panels\<close>

definition panels_inv :: "panels \<Rightarrow> bool" where
  "panels_inv p \<longleftrightarrow> finite {i. open_panels p i} \<and>
     panelOpenCounter (body p) = int (card {i. open_panels p i}) \<and>
     overflow_y (body p) = (if \<exists>i. open_panels p i then ''hidden'' else ''auto'')"

lemma panels_inv_step: "panels_inv p \<Longrightarrow> panels_inv (panel_step p e)"
proof (cases e)
  case (Pair i b)
  let ?I = "{j. open_panels p j}"
  assume inv: "panels_inv p"
  consider "open_panels p i = b" | "b" "\<not> open_panels p i" | "\<not> b" "open_panels p i" by blast
  then show "panels_inv (panel_step p e)"
  proof cases
    case 1
    then show ?thesis using inv Pair by (simp add: panel_step_def set_panel_def)
  next
    case 2
    have "{j. ((open_panels p)(i := True)) j} = insert i ?I" by auto
    then show ?thesis
      using inv Pair 2 by (auto simp: panel_step_def set_panel_def panels_inv_def hideDocumentBody_def)
  next
    case 3
    let ?q = "(open_panels p)(i := False)"
    have I: "{j. ?q j} = ?I - {i}" by auto
    have fin: "finite ?I" using inv by (simp add: panels_inv_def)
    have step: "panel_step p e = p\<lparr>open_panels := ?q, body := showDocumentBody (body p)\<rparr>"
      using Pair 3 by (simp add: panel_step_def set_panel_def)
    have "Suc (card (?I - {i})) = card ?I" using fin 3 by (intro card_Suc_Diff1) simp_all
    then have n: "panelOpenCounter (body p) - 1 = int (card (?I - {i}))"
      using inv unfolding panels_inv_def by linarith
    have hidden: "overflow_y (body p) = ''hidden''" using inv 3 unfolding panels_inv_def by auto
    have none: "card (?I - {i}) = 0 \<longleftrightarrow> \<not> (\<exists>j. ?q j)" using fin I by (metis card_eq_0_iff empty_Collect_eq finite_Diff)
    have "open_panels (panel_step p e) = ?q"
      "panelOpenCounter (body (panel_step p e)) = int (card (?I - {i}))"
      "overflow_y (body (panel_step p e)) = (if card (?I - {i}) = 0 then ''auto'' else ''hidden'')"
      unfolding step using n hidden by (simp_all add: showDocumentBody_def Let_def)
    then show ?thesis unfolding panels_inv_def using fin none by (simp only: I) simp
  qed
qed

interpretation panel_lock: machine panel_step "\<lambda>_ _. True" panels_inv
  by unfold_locales (rule panels_inv_step)

section \<open>Listeners that stay\<close>

definition listeners_inv :: "listeners \<Rightarrow> bool" where
  "listeners_inv d \<longleftrightarrow> (\<forall>f \<in> set (added d). f < next_fun d)"

lemma rerender_grows:
  assumes "listeners_inv d"
  shows "listeners_inv (rerender d) \<and> added (rerender d) = added d @ [next_fun d + 1]"
proof -
  have "filter (\<lambda>g. g \<noteq> next_fun d) (added d) = added d"
    using assms by (auto simp: listeners_inv_def filter_id_conv)
  then show ?thesis
    using assms by (auto simp: listeners_inv_def rerender_def add_listener_def close_handler_cleanup_def
        remove_listener_def less_Suc_eq)
qed

section \<open>Properties\<close>

text \<open>
  The settings survive a reload: after any changes the page that is loaded again
  in the same window selects the same theme and has every other setting the reader
  had, up to those the window decides.
\<close>

theorem settings_survive_reload:
  fixes p0 :: settings_state
  assumes "es \<noteq> []" "last es \<noteq> SchemeChanged"
  defines "p \<equiv> foldl settings_step p0 es"
  shows "selected_palette (initial_settings (storage p) w h dark) dark = selected_palette (current p) dark \<and>
    (\<forall>k. k \<notin> {''isDesktop'', ''windowSize'', ''sidebarOpen''} \<and> \<not> nullish_val (prop_val (current p) k) \<longrightarrow>
       prop_val (initial_settings (storage p) w h dark) k = prop_val (current p) k) \<and>
    (desktop w \<longrightarrow> prop_val (initial_settings (storage p) w h dark) ''sidebarOpen'' =
       prop_val (current p) ''sidebarOpen'')"
proof -
  obtain ds e where "es = ds @ [e]" "e \<noteq> SchemeChanged"
    using assms(1,2) by (cases es rule: rev_cases) auto
  then have st: "storage p = Some (stringified (current p))"
    by (simp add: p_def last_step_stored)
  have val: "prop_val (stringified s) k = prop_val s k" for s k
    by (auto simp: prop_val_def stringified_def split: option.splits jsval.splits)
  have "stringified s k = Some (JStr t) \<longleftrightarrow> s k = Some (JStr t)" for s k t
    by (auto simp: stringified_def split: option.splits jsval.splits)
  then have "selected_palette (initial_settings (storage p) w h dark) dark = selected_palette (current p) dark"
    by (simp add: st selected_palette_def initial_settings_def)
  moreover have "prop_val (initial_settings (storage p) w h dark) k = prop_val (current p) k"
    if "k \<notin> {''isDesktop'', ''windowSize'', ''sidebarOpen''}" "\<not> nullish_val (prop_val (current p) k)" for k
  proof -
    have "prop_val (m(a \<mapsto> v)) k = (if k = a then v else prop_val m k)" for m a v
      by (simp add: prop_val_def)
    moreover have "or_false (prop_val (current p) k) = prop_val (current p) k"
      using that(2) by (simp add: or_false_def)
    ultimately show ?thesis
      using that(1) unfolding st initial_settings_def option.case val by (auto simp only: val insert_iff empty_iff de_Morgan_disj if_False split: if_split)
  qed
  moreover have "prop_val (initial_settings (storage p) w h dark) ''sidebarOpen'' =
       prop_val (current p) ''sidebarOpen''" if "desktop w"
    using that val by (simp add: st initial_settings_def prop_val_def [of "_(_ \<mapsto> _)"] sidebar_def)
  ultimately show ?thesis by blast
qed

lemma settings_survive_reload_witness:
  "selected_palette (initial_settings
     (storage (foldl settings_step (start_settings None 1400 900 True) [Update ''theme'' (JStr ''light-primary'')]))
     1400 900 True) True = lightTheme"
proof -
  have "selected_palette (current (foldl settings_step (start_settings None 1400 900 True)
      [Update ''theme'' (JStr ''light-primary'')])) True = lightTheme"
    by (simp add: store_settings_def selected_palette_def)
  then show ?thesis
    by (subst settings_survive_reload [THEN conjunct1]) simp_all
qed

text \<open>
  The page can be scrolled exactly when no panel is open, in whatever order the
  panels are opened and closed, and the counter is the number of open panels.
\<close>

theorem panels_lock_scrolling:
  "let p = foldl panel_step no_panels es in
     overflow_y (body p) = (if \<exists>i. open_panels p i then ''hidden'' else ''auto'') \<and>
     panelOpenCounter (body p) = int (card {i. open_panels p i})"
proof -
  have "permitted (\<lambda>_ _. True) panel_step s es" for s by (rule permitted_all)
  moreover have "panels_inv no_panels" by (simp add: panels_inv_def no_panels_def)
  ultimately show ?thesis using panel_lock.inv_run by (fastforce simp: panels_inv_def Let_def)
qed

text \<open>The sidebar's effect unlocks the page behind an open panel.\<close>

lemma sidebar_effect_unlocks:
  "let b = sidebar_effect (initial_settings None 1400 900 True) (hideDocumentBody (body no_panels))
   in overflow_y b = ''auto'' \<and> panelOpenCounter b = 1"
  by (simp add: sidebar_effect_def hideDocumentBody_def no_panels_def initial_settings_def defaultSettings_def
      prop_val_def desktop_def)

text \<open>
  No close listener is ever removed: after every render with a new callback the
  document has one listener more, since the clean-up removes a function that was
  never added.
\<close>

theorem close_listeners_accumulate:
  "length (added ((rerender ^^ n) (add_listener \<lparr>next_fun = 0, added = []\<rparr>))) = n + 1"
proof -
  have "listeners_inv ((rerender ^^ n) (add_listener \<lparr>next_fun = 0, added = []\<rparr>)) \<and>
      length (added ((rerender ^^ n) (add_listener \<lparr>next_fun = 0, added = []\<rparr>))) = n + 1"
    by (induction n) (simp_all add: rerender_grows, simp add: listeners_inv_def add_listener_def)
  then show ?thesis by blast
qed

end
