(* ===== verification/Bridge.thy ===== *)
theory Bridge
  imports JS_Prelude "HOL-Library.AList"
begin

text \<open>
  The payment helper \<open>scripts/ao-payment-bridge.mjs\<close>: its command line
  (\<open>parseArgs\<close>), the request it makes to the node's \<open>~ao-payment@1.0\<close> device, and
  what it does with the answer. The server is an argument. The arguments object is
  an association list; a value is a text or the flag the program sets itself.
\<close>

section \<open>The command line\<close>

datatype arg_value = Flag bool | Text string

type_synonym args = "(string \<times> arg_value) list"

datatype bridge_error =
    MissingValue string
  | UnexpectedArgument string
  | RequiredMissing
  | BadQuantity
  | RequestFailed string nat string

datatype parsed = Parsed args | Usage | Failed bridge_error

definition defaults :: args where
  "defaults = [
    (''token'', Text ''0syT13r0s0tgPmIed95bJnuSqaD29HQNN8D3ElLSrsc''),
    (''ledger'', Text ''aqu6pW4GemwbDguS-rtCEBT_CJqsLYAWcmAULnZR-cE''),
    (''node'', Text ''http://localhost:8734''),
    (''quantity'', Text ''1'')]"

definition option_key :: "string \<Rightarrow> string" where
  "option_key arg = map (\<lambda>c. if c = CHR ''-'' then CHR ''_'' else c) (drop 2 arg)"

text \<open>Storing a text under \<open>__proto__\<close> has no effect.\<close>

definition set_arg :: "string \<Rightarrow> arg_value \<Rightarrow> args \<Rightarrow> args" where
  "set_arg k v as = (if k = ''__proto__'' then as else AList.update k v as)"

fun parse_loop :: "args \<Rightarrow> string list \<Rightarrow> parsed" where
  "parse_loop as [] = Parsed as"
| "parse_loop as (arg # rest) =
    (if arg = ''--verify-only'' then parse_loop (set_arg ''verifyOnly'' (Flag True) as) rest
     else if arg = ''--help'' \<or> arg = ''-h'' then Usage
     else if starts_with arg ''--'' then
       (case rest of
          [] \<Rightarrow> Failed (MissingValue arg)
        | value # rest' \<Rightarrow>
            if value = [] \<or> starts_with value ''--'' then Failed (MissingValue arg)
            else parse_loop (set_arg (option_key arg) (Text value) as) rest')
     else Failed (UnexpectedArgument arg))"

definition truthy_arg :: "arg_value option \<Rightarrow> bool" where
  "truthy_arg v = (case v of None \<Rightarrow> False | Some (Flag b) \<Rightarrow> b | Some (Text t) \<Rightarrow> t \<noteq> [])"

definition positive_integer :: "arg_value option \<Rightarrow> bool" where
  "positive_integer v = (case v of
       Some (Text q) \<Rightarrow> q \<noteq> [] \<and> list_all is_digit q \<and> list_ex (\<lambda>c. c \<noteq> CHR ''0'') q
     | _ \<Rightarrow> False)"

definition parseArgs :: "string list \<Rightarrow> parsed" where
  "parseArgs argv =
    (case parse_loop (defaults @ [(''verifyOnly'', Flag False)]) (drop 2 argv) of
       Parsed as \<Rightarrow> (let as = (case map_of as ''message_id'' of
             None \<Rightarrow> AList.delete ''messageId'' as | Some v \<Rightarrow> AList.update ''messageId'' v as) in
         if \<not> truthy_arg (map_of as ''messageId'') \<or> \<not> truthy_arg (map_of as ''slot'')
            \<or> \<not> truthy_arg (map_of as ''sender'') then Failed RequiredMissing
         else if \<not> positive_integer (map_of as ''quantity'') then Failed BadQuantity
         else Parsed as)
     | r \<Rightarrow> r)"

section \<open>The request\<close>

text \<open>The form encoding of \<open>URLSearchParams\<close>, with UTF-8 for the characters above 127.\<close>

definition form_plain :: "char \<Rightarrow> bool" where
  "form_plain c \<longleftrightarrow> is_alpha c \<or> is_digit c \<or> c \<in> set ''*-._''"

definition hex_char :: "nat \<Rightarrow> char" where
  "hex_char n = ''0123456789ABCDEF'' ! n"

definition percent :: "nat \<Rightarrow> string" where
  "percent b = [CHR ''%'', hex_char (b div 16), hex_char (b mod 16)]"

definition utf8 :: "char \<Rightarrow> nat list" where
  "utf8 c = (let n = of_char c in if n < 128 then [n] else [192 + n div 64, 128 + n mod 64])"

definition encode_char :: "char \<Rightarrow> string" where
  "encode_char c = (if form_plain c then [c] else if c = CHR '' '' then ''+''
     else concat (map percent (utf8 c)))"

definition form_encode :: "string \<Rightarrow> string" where
  "form_encode s = concat (map encode_char s)"

definition query_string :: "(string \<times> string) list \<Rightarrow> string" where
  "query_string ps = join ''&'' (map (\<lambda>(k, v). form_encode k @ ''='' @ form_encode v) ps)"

definition text_arg :: "args \<Rightarrow> string \<Rightarrow> string" where
  "text_arg as k = (case map_of as k of
       Some (Text t) \<Rightarrow> t | Some (Flag b) \<Rightarrow> (if b then ''true'' else ''false'')
     | None \<Rightarrow> ''undefined'')"

definition bridge_params :: "args \<Rightarrow> (string \<times> string) list" where
  "bridge_params as = [
     (''token'', text_arg as ''token''), (''ledger'', text_arg as ''ledger''),
     (''message-id'', text_arg as ''messageId''), (''slot'', text_arg as ''slot''),
     (''sender'', text_arg as ''sender''), (''quantity'', text_arg as ''quantity'')]
     @ (if truthy_arg (map_of as ''recipient'') then [(''recipient'', text_arg as ''recipient'')] else [])"

definition bridge_path :: "args \<Rightarrow> string" where
  "bridge_path as = (if truthy_arg (map_of as ''verifyOnly'') then ''verify'' else ''ingest'')"

definition strip_slash :: "string \<Rightarrow> string" where
  "strip_slash s = (if s \<noteq> [] \<and> last s = CHR ''/'' then butlast s else s)"

definition bridge_url :: "args \<Rightarrow> string" where
  "bridge_url as = strip_slash (text_arg as ''node'') @ ''/~ao-payment@1.0/'' @ bridge_path as
     @ ''?'' @ query_string (bridge_params as)"

text \<open>The server answers a POST with a status and a body; 200 to 299 is \<open>ok\<close>.\<close>

datatype outcome = Printed string | HelpShown string | Threw bridge_error

definition usage :: string where
  "usage = join [newline] [
    ''Usage:'',
    ''  node scripts/ao-payment-bridge.mjs --message-id <id> --slot <slot> --sender <addr> [options]'',
    [],
    ''Options:'',
    ''  --token <id>              AO token process (default '' @ text_arg defaults ''token'' @ '')'',
    ''  --ledger <id>             Bulbasaur ledger process (default '' @ text_arg defaults ''ledger'' @ '')'',
    ''  --node <url>              Bulbasaur node URL (default '' @ text_arg defaults ''node'' @ '')'',
    ''  --quantity <raw-units>    AO raw units transferred (default '' @ text_arg defaults ''quantity'' @ '')'',
    ''  --recipient <addr>        local ledger account to credit; defaults to sender'',
    ''  --verify-only             verify without importing'',
    [],
    ''This helper does not talk to AO services directly. It calls the local'',
    ''HyperBEAM ~ao-payment@1.0 device, which verifies against the configured'',
    ''mainnet state endpoint and imports the credit.'']"

definition bridge :: "(string \<Rightarrow> nat \<times> string) \<Rightarrow> string list \<Rightarrow> outcome" where
  "bridge post argv = (case parseArgs argv of
       Usage \<Rightarrow> HelpShown usage
     | Failed e \<Rightarrow> Threw e
     | Parsed as \<Rightarrow> (case post (bridge_url as) of (status, body) \<Rightarrow>
         if 200 \<le> status \<and> status < 300 then Printed body
         else Threw (RequestFailed (bridge_path as) status body)))"

section \<open>Reading the query\<close>

definition hex_val :: "char \<Rightarrow> nat option" where
  "hex_val c = find_index (\<lambda>x. x = c) ''0123456789ABCDEF''"

fun percent_decode :: "string \<Rightarrow> nat list option" where
  "percent_decode [] = Some []"
| "percent_decode (c # cs) = (if c = CHR ''%'' then
     (case cs of x # y # r \<Rightarrow> (case (hex_val x, hex_val y) of
         (Some i, Some j) \<Rightarrow> map_option ((#) (16 * i + j)) (percent_decode r) | _ \<Rightarrow> None)
      | _ \<Rightarrow> None)
     else map_option ((#) (if c = CHR ''+'' then 32 else of_char c)) (percent_decode cs))"

fun utf8_decode :: "nat list \<Rightarrow> string option" where
  "utf8_decode [] = Some []"
| "utf8_decode (b # bs) = (if b < 128 then map_option ((#) (char_of b)) (utf8_decode bs)
     else if b < 192 then None
     else (case bs of c # r \<Rightarrow> map_option ((#) (char_of ((b - 192) * 64 + (c - 128)))) (utf8_decode r)
       | [] \<Rightarrow> None))"

definition form_decode :: "string \<Rightarrow> string option" where
  "form_decode s = (case percent_decode s of None \<Rightarrow> None | Some bs \<Rightarrow> utf8_decode bs)"

definition read_pair :: "string \<Rightarrow> (string option \<times> string option)" where
  "read_pair w = (form_decode (takeWhile (\<lambda>c. c \<noteq> CHR ''='') w),
     form_decode (drop 1 (dropWhile (\<lambda>c. c \<noteq> CHR ''='') w)))"

definition read_query :: "string \<Rightarrow> (string option \<times> string option) list" where
  "read_query q = map read_pair (split_on CHR ''&'' q)"

section \<open>Lemmas on the encoding\<close>

lemma hex_val_char [simp]: "n < 16 \<Longrightarrow> hex_val (hex_char n) = Some n"
proof -
  have "\<forall>n \<in> set [0 ..< 16]. hex_val (hex_char n) = Some n" by code_simp
  then show "n < 16 \<Longrightarrow> hex_val (hex_char n) = Some n" by simp
qed

lemma hex_char_plain:
  assumes "n < 16"
  shows "hex_char n \<noteq> CHR ''&''" "hex_char n \<noteq> CHR ''=''"
proof -
  have "\<forall>n \<in> set [0 ..< 16]. hex_char n \<noteq> CHR ''&'' \<and> hex_char n \<noteq> CHR ''=''" by code_simp
  then show "hex_char n \<noteq> CHR ''&''" "hex_char n \<noteq> CHR ''=''" using assms by auto
qed

lemma percent_decode_percent:
  "b < 256 \<Longrightarrow> percent_decode (percent b @ r) = map_option ((#) b) (percent_decode r)"
  by (simp add: percent_def del: hex_val_char) (subst hex_val_char, simp, subst hex_val_char, simp,
      simp add: option.map_comp)

lemma percent_decode_bytes:
  "list_all (\<lambda>b. b < 256) bs \<Longrightarrow>
    percent_decode (concat (map percent bs) @ r) = map_option ((@) bs) (percent_decode r)"
proof (induction bs)
  case (Cons b bs)
  then show ?case by (simp add: percent_decode_percent option.map_comp comp_def)
qed (cases "percent_decode r"; simp)

lemma char_less_256 [simp]: "(of_char c :: nat) < 256"
  by simp

lemma utf8_bytes: "list_all (\<lambda>b. b < 256) (utf8 c)"
proof -
  have "(of_char c :: nat) div 64 < 4"
    by (rule less_mult_imp_div_less) (use char_less_256 [of c] in simp)
  moreover have "(of_char c :: nat) mod 64 < 128"
    by (rule less_trans [OF mod_less_divisor]) simp_all
  ultimately show ?thesis by (simp add: utf8_def Let_def)
qed

lemma utf8_decode_utf8: "utf8_decode (utf8 c @ r) = map_option ((#) c) (utf8_decode r)"
  by (simp add: utf8_def Let_def)

lemma not_form_plain [simp]:
  "\<not> form_plain CHR ''%''" "\<not> form_plain CHR ''+''" "\<not> form_plain CHR ''&''" "\<not> form_plain CHR ''=''"
  by code_simp+

lemma form_plain_char: "form_plain c \<Longrightarrow> (of_char c :: nat) < 128"
  by (auto simp: form_plain_def is_alpha_def is_digit_def)

lemma percent_decode_encode_char:
  "percent_decode (encode_char c @ r) = map_option ((@) (utf8 c)) (percent_decode r)"
proof (cases "form_plain c")
  case True
  then have "c \<noteq> CHR ''%''" "c \<noteq> CHR ''+''" "(of_char c :: nat) < 128"
    using form_plain_char by auto
  with True show ?thesis
    by (cases "percent_decode r") (simp_all add: encode_char_def utf8_def Let_def)
next
  case False
  show ?thesis
  proof (cases "c = CHR '' ''")
    case True
    with False show ?thesis
      by (cases "percent_decode r") (simp_all add: encode_char_def utf8_def Let_def)
  next
    case c: False
    with False show ?thesis by (simp add: encode_char_def percent_decode_bytes utf8_bytes)
  qed
qed

lemma form_decode_encode: "form_decode (form_encode s) = Some s"
proof -
  have "percent_decode (form_encode s) = Some (concat (map utf8 s))"
    by (induction s) (simp_all add: form_encode_def percent_decode_encode_char)
  moreover have "utf8_decode (concat (map utf8 s)) = Some s"
    by (induction s) (simp_all add: utf8_decode_utf8)
  ultimately show ?thesis by (simp add: form_decode_def)
qed

interpretation form: codec form_encode form_decode "\<lambda>_. True"
  by unfold_locales (rule form_decode_encode)

lemma encode_char_plain: "x \<in> set (encode_char c) \<Longrightarrow> x \<noteq> CHR ''&'' \<and> x \<noteq> CHR ''=''"
proof -
  assume x: "x \<in> set (encode_char c)"
  show ?thesis
  proof (cases "form_plain c \<or> c = CHR '' ''")
    case True
    then show ?thesis using x by (auto simp: encode_char_def split: if_splits)
  next
    case False
    then obtain b where b: "b \<in> set (utf8 c)" "x \<in> set (percent b)"
      using x by (auto simp: encode_char_def)
    then have "b < 256" using utf8_bytes [of c] by (simp add: list_all_iff)
    then have "b div 16 < 16" "b mod 16 < 16" by simp_all
    then show ?thesis using b(2) hex_char_plain by (auto simp: percent_def)
  qed
qed

lemma form_encode_plain: "CHR ''&'' \<notin> set (form_encode s)" "CHR ''='' \<notin> set (form_encode s)"
  using encode_char_plain by (auto simp: form_encode_def)

lemma read_pair_text: "read_pair (form_encode k @ ''='' @ form_encode v) = (Some k, Some v)"
proof -
  have "takeWhile (\<lambda>c. c \<noteq> CHR ''='') (form_encode k @ CHR ''='' # form_encode v) = form_encode k"
    "dropWhile (\<lambda>c. c \<noteq> CHR ''='') (form_encode k @ CHR ''='' # form_encode v)
      = CHR ''='' # form_encode v"
    using form_encode_plain(2) by (intro scan_stop; auto)+
  then show ?thesis by (simp add: read_pair_def form_decode_encode)
qed

lemma read_query_string:
  assumes "ps \<noteq> []"
  shows "read_query (query_string ps) = map (\<lambda>(k, v). (Some k, Some v)) ps"
proof -
  have "split_on CHR ''&'' (query_string ps) = map (\<lambda>(k, v). form_encode k @ ''='' @ form_encode v) ps"
    unfolding query_string_def using assms form_encode_plain(1) by (intro split_on_join) auto
  then show ?thesis using read_pair_text by (auto simp: read_query_def)
qed

section \<open>Lemmas on the command line\<close>

text \<open>An option given by its name and value, and the object after a list of them.\<close>

definition plain_option :: "string \<times> string \<Rightarrow> bool" where
  "plain_option kv \<longleftrightarrow> fst kv \<notin> {''verify-only'', ''help'', ''-proto--''} \<and>
     option_key (''--'' @ fst kv) \<noteq> ''__proto__'' \<and> snd kv \<noteq> [] \<and> \<not> starts_with (snd kv) ''--''"

definition store_option :: "args \<Rightarrow> string \<times> string \<Rightarrow> args" where
  "store_option as kv = AList.update (option_key (''--'' @ fst kv)) (Text (snd kv)) as"

lemma parse_loop_options:
  "list_all plain_option os \<Longrightarrow>
    parse_loop as (concat (map (\<lambda>(k, v). [''--'' @ k, v]) os)) = Parsed (foldl store_option as os)"
proof (induction os arbitrary: as)
  case (Cons x os)
  obtain k v where x: "x = (k, v)" by (cases x)
  have "''--'' @ k \<noteq> ''--verify-only''" "''--'' @ k \<noteq> ''--help''" "''--'' @ k \<noteq> ''-h''"
    using Cons.prems x by (auto simp: plain_option_def)
  then show ?case
    using Cons x by (simp add: plain_option_def set_arg_def store_option_def)
qed simp

definition texts_given :: "args \<Rightarrow> bool" where
  "texts_given as \<longleftrightarrow> (\<forall>k v. map_of as k = Some v \<longrightarrow> (case v of Text t \<Rightarrow> t \<noteq> [] | Flag b \<Rightarrow> k = ''verifyOnly''))"

lemma texts_given_update:
  "texts_given as \<Longrightarrow> t \<noteq> [] \<Longrightarrow> texts_given (set_arg k (Text t) as)"
  "texts_given as \<Longrightarrow> texts_given (set_arg ''verifyOnly'' (Flag b) as)"
  by (auto simp: texts_given_def set_arg_def update_conv' split: arg_value.splits)

lemma texts_given_parse: "texts_given as \<Longrightarrow> parse_loop as l = Parsed r \<Longrightarrow> texts_given r"
proof (induction as l rule: parse_loop.induct)
  case (2 as arg rest)
  then show ?case
    by (auto intro: texts_given_update split: if_splits list.splits)
qed simp

section \<open>Properties\<close>

text \<open>
  C16. When the command line is accepted, the node is asked with exactly the given
  values: reading the query of the request gives back the parameters, the message,
  slot and sender are not empty, and the quantity is a positive decimal number.
\<close>

theorem bridge_request_faithful:
  assumes "parseArgs argv = Parsed as"
  shows "read_query (query_string (bridge_params as)) = map (\<lambda>(k, v). (Some k, Some v)) (bridge_params as) \<and>
    list_all (\<lambda>k. truthy_arg (map_of as k)) [''messageId'', ''slot'', ''sender''] \<and>
    (\<exists>q. map_of as ''quantity'' = Some (Text q) \<and> (''quantity'', q) \<in> set (bridge_params as) \<and>
      q \<noteq> [] \<and> list_all is_digit q \<and> (\<exists>c \<in> set q. c \<noteq> CHR ''0''))"
proof -
  have "positive_integer (map_of as ''quantity'')" "truthy_arg (map_of as ''messageId'')"
    "truthy_arg (map_of as ''slot'')" "truthy_arg (map_of as ''sender'')"
    using assms by (auto simp: parseArgs_def Let_def split: parsed.splits if_splits)
  moreover from this(1) obtain q where "map_of as ''quantity'' = Some (Text q)" "q \<noteq> []"
    "list_all is_digit q" "\<exists>c \<in> set q. c \<noteq> CHR ''0''"
    by (auto simp: positive_integer_def list_ex_iff split: option.splits arg_value.splits)
  moreover from this(1) have "(''quantity'', q) \<in> set (bridge_params as)"
    by (simp add: bridge_params_def text_arg_def)
  ultimately show ?thesis
    by (simp add: read_query_string bridge_params_def)
qed

definition sample_argv :: "string list" where
  "sample_argv = [''node'', ''bridge'', ''--message-id'', ''m'', ''--slot'', ''1'', ''--sender'', ''s'']"

lemma bridge_request_faithful_witness:
  "\<exists>as. parseArgs sample_argv = Parsed as \<and>
    read_query (query_string (bridge_params as)) = map (\<lambda>(k, v). (Some k, Some v)) (bridge_params as)"
proof -
  obtain as where "parseArgs sample_argv = Parsed as"
    by (simp add: parseArgs_def sample_argv_def defaults_def set_arg_def option_key_def truthy_arg_def
        positive_integer_def is_digit_def)
  with bridge_request_faithful [OF this] show ?thesis by blast
qed

text \<open>
  Options with their values are all stored, a later one over an earlier one, in
  whatever order they come; and nothing is ever stored under an empty text.
\<close>

lemma options_stored:
  assumes "list_all plain_option os"
  shows "parse_loop defaults (concat (map (\<lambda>(k, v). [''--'' @ k, v]) os)) =
      Parsed (foldl store_option defaults os) \<and>
    (\<forall>k t. map_of (foldl store_option defaults os) k = Some (Text t) \<longrightarrow> t \<noteq> [])"
proof -
  have "texts_given defaults" by (auto simp: texts_given_def defaults_def split: if_splits)
  then have "texts_given (foldl store_option defaults os)"
    using texts_given_parse parse_loop_options [OF assms] by blast
  then have "t \<noteq> []" if "map_of (foldl store_option defaults os) k = Some (Text t)" for k t
    using that unfolding texts_given_def by fastforce
  then show ?thesis using parse_loop_options [OF assms, of defaults] by blast
qed

text \<open>
  The helper never reports success without the node's consent: it prints an
  answer exactly when the command line is accepted and the node answers the request
  for it with a status in the success range.
\<close>

lemma bridge_prints_only_ok:
  "bridge post argv = Printed body \<longleftrightarrow>
    (\<exists>as status. parseArgs argv = Parsed as \<and> post (bridge_url as) = (status, body) \<and>
      200 \<le> status \<and> status < 300)"
  by (auto simp: bridge_def split: parsed.splits prod.splits)

end
