(* ===== verification/HashBackground.thy ===== *)
theory HashBackground
  imports Base64
begin

text \<open>
  The animated hashes of the node's start page (\<open>script.js\<close>): typing a hash
  character by character, placing it, and fading it in and out on interval timers.
  An element is a record of the style properties the code touches. What an opacity
  reads back as after it has been assigned (the sum in floating point and the
  browser's serialisation of it) is an argument \<open>css\<close>; the lemmas ask that it be
  within a thousandth of the assigned number.
\<close>

section \<open>The element\<close>

text \<open>An opacity or a timer that is not set is \<^const>\<open>None\<close> and \<^const>\<open>False\<close>.\<close>

record element =
  innerHTML :: string
  opacity :: "rat option"
  blur :: rat
  fontSize :: rat
  left_top :: "int \<times> int"
  timer :: bool

definition new_element :: element where
  "new_element = \<lparr>innerHTML = [], opacity = None, blur = 0, fontSize = 0, left_top = (0, 0),
     timer = False\<rparr>"

text \<open>The five elements made when the document has loaded.\<close>

definition number_of_elements :: nat where
  "number_of_elements = 5"

definition loaded :: "element list" where
  "loaded = replicate number_of_elements (new_element)"

section \<open>Typing\<close>

text \<open>One call of \<open>typeNextChar\<close> at an index: the next index, or \<^const>\<open>None\<close> once resolved.\<close>

definition typeNextChar :: "string \<Rightarrow> element \<times> nat option \<Rightarrow> element \<times> nat option" where
  "typeNextChar text s = (case s of (e, None) \<Rightarrow> (e, None)
     | (e, Some i) \<Rightarrow> if i \<ge> length text then (e, None)
         else (e\<lparr>innerHTML := innerHTML e @ [text ! i]\<rparr>, Some (i + 1)))"

definition animate_hash :: "string \<Rightarrow> nat \<Rightarrow> element \<Rightarrow> element \<times> nat option" where
  "animate_hash text calls e = (typeNextChar text ^^ calls) (e\<lparr>innerHTML := []\<rparr>, Some 0)"

section \<open>Placement\<close>

text \<open>
  \<open>toFixed()\<close> rounds to an integer, a half away from zero; the random numbers, the size of the page and of
  the content are arguments.
\<close>

definition to_fixed :: "rat \<Rightarrow> int" where
  "to_fixed x = (if x < 0 then - \<lfloor>- x + 1 / 2\<rfloor> else \<lfloor>x + 1 / 2\<rfloor>)"

definition font_size :: "rat \<Rightarrow> rat" where
  "font_size rnd = rnd * 16 + 8"

definition position :: "rat \<Rightarrow> rat \<Rightarrow> rat \<Rightarrow> int" where
  "position rnd page content = to_fixed (rnd * (page - content * (12 / 10)))"

definition duration :: "rat \<Rightarrow> int" where
  "duration rnd = to_fixed (rnd * 10000 + 1500)"

definition start_animation ::
  "8 word list \<Rightarrow> rat \<times> rat \<times> rat \<times> rat \<Rightarrow> rat \<times> rat \<Rightarrow> (rat \<Rightarrow> rat \<times> rat) \<Rightarrow> element
    \<Rightarrow> element \<times> string \<times> int" where
  "start_animation bytes rnd page content e =
    (case rnd of (r1, r2, r3, r4) \<Rightarrow> let size = font_size r1; c = content size in
      (e\<lparr>fontSize := size,
         left_top := (position r2 (fst page) (fst c), position r3 (snd page) (snd c))\<rparr>,
       generate_hash bytes, duration r4))"

section \<open>Fading\<close>

text \<open>A tick of each interval; the tick that finds the end clears its timer.\<close>

definition fade_in_tick :: "(rat \<Rightarrow> rat) \<Rightarrow> element \<Rightarrow> element" where
  "fade_in_tick css e = (if \<not> timer e then e else
     let o1 = (case opacity e of None \<Rightarrow> css (4 / 10) | Some x \<Rightarrow> x) in
     if o1 \<ge> 95 / 100 then e\<lparr>timer := False, opacity := Some 1, blur := 0\<rparr>
     else let o2 = o1 + 5 / 100 in e\<lparr>opacity := Some (css o2), blur := (1 - o2) * 4\<rparr>)"

definition fade_out_tick :: "(rat \<Rightarrow> rat) \<Rightarrow> element \<Rightarrow> element" where
  "fade_out_tick css e = (if \<not> timer e then e else
     let o1 = (case opacity e of None \<Rightarrow> css 1 | Some x \<Rightarrow> x) in
     if o1 \<le> 5 / 100 then e\<lparr>timer := False, opacity := Some 0, blur := 4\<rparr>
     else let o2 = o1 - 5 / 100 in e\<lparr>opacity := Some (css o2), blur := (1 - o2) * 4\<rparr>)"

definition fade_in :: "(rat \<Rightarrow> rat) \<Rightarrow> nat \<Rightarrow> element \<Rightarrow> element" where
  "fade_in css ticks e = (fade_in_tick css ^^ ticks) (e\<lparr>timer := True\<rparr>)"

definition fade_out :: "(rat \<Rightarrow> rat) \<Rightarrow> nat \<Rightarrow> element \<Rightarrow> element" where
  "fade_out css ticks e = (fade_out_tick css ^^ ticks) (e\<lparr>timer := True\<rparr>)"

section \<open>Lemmas\<close>

lemma typing_step:
  "i \<le> length text \<Longrightarrow> (typeNextChar text ^^ i) (e\<lparr>innerHTML := []\<rparr>, Some 0)
    = (e\<lparr>innerHTML := take i text\<rparr>, Some i)"
  by (induction i) (auto simp: typeNextChar_def take_Suc_conv_app_nth)

lemma typing_resolved: "(typeNextChar text ^^ k) (e, None) = (e, None)"
  by (induction k) (auto simp: typeNextChar_def)

definition close_to :: "(rat \<Rightarrow> rat) \<Rightarrow> bool" where
  "close_to css \<longleftrightarrow> (\<forall>x. x - 1 / 1000 \<le> css x \<and> css x \<le> x + 1 / 1000)"

lemma fade_in_stopped: "\<not> timer e \<Longrightarrow> (fade_in_tick css ^^ k) e = e"
  by (induction k) (auto simp: fade_in_tick_def)

lemma fade_out_stopped: "\<not> timer e \<Longrightarrow> (fade_out_tick css ^^ k) e = e"
  by (induction k) (auto simp: fade_out_tick_def)

definition faded_in :: "element \<Rightarrow> bool" where
  "faded_in e \<longleftrightarrow> \<not> timer e \<and> opacity e = Some 1 \<and> blur e = 0"

definition faded_out :: "element \<Rightarrow> bool" where
  "faded_out e \<longleftrightarrow> \<not> timer e \<and> opacity e = Some 0 \<and> blur e = 4"

lemma fade_in_reaches:
  assumes "close_to css" "timer e" "opacity e = Some x" "95 / 100 - (49 / 1000) * of_nat n \<le> x"
  shows "faded_in ((fade_in_tick css ^^ Suc n) e)"
  using assms(2-)
proof (induction n arbitrary: e x)
  case 0
  then show ?case by (simp add: fade_in_tick_def faded_in_def)
next
  case (Suc n)
  show ?case
  proof (cases "x \<ge> 95 / 100")
    case True
    then have fin: "faded_in (fade_in_tick css e)"
      using Suc.prems by (simp add: fade_in_tick_def faded_in_def)
    then have nt: "\<not> timer (fade_in_tick css e)" by (simp add: faded_in_def)
    show ?thesis using fin
      by (subst funpow_Suc_right) (simp only: comp_def fade_in_stopped [OF nt])
  next
    case False
    let ?e = "fade_in_tick css e" and ?x = "css (x + 5 / 100)"
    have e: "timer ?e" "opacity ?e = Some ?x"
      using Suc.prems False by (simp_all add: fade_in_tick_def Let_def)
    have "x + 5 / 100 - 1 / 1000 \<le> ?x" using assms(1) unfolding close_to_def by blast
    then have "95 / 100 - (49 / 1000) * of_nat n \<le> ?x"
      using Suc.prems(3) unfolding of_nat_Suc distrib_left mult_1_right by linarith
    from Suc.IH [OF e this] show ?thesis
      by (simp only: funpow_Suc_right comp_def)
  qed
qed

lemma fade_out_reaches:
  assumes "close_to css" "timer e" "opacity e = Some x" "x \<le> 5 / 100 + (49 / 1000) * of_nat n"
  shows "faded_out ((fade_out_tick css ^^ Suc n) e)"
  using assms(2-)
proof (induction n arbitrary: e x)
  case 0
  then show ?case by (simp add: fade_out_tick_def faded_out_def)
next
  case (Suc n)
  show ?case
  proof (cases "x \<le> 5 / 100")
    case True
    then have fin: "faded_out (fade_out_tick css e)"
      using Suc.prems by (simp add: fade_out_tick_def faded_out_def)
    then have nt: "\<not> timer (fade_out_tick css e)" by (simp add: faded_out_def)
    show ?thesis using fin
      by (subst funpow_Suc_right) (simp only: comp_def fade_out_stopped [OF nt])
  next
    case False
    let ?e = "fade_out_tick css e" and ?x = "css (x - 5 / 100)"
    have e: "timer ?e" "opacity ?e = Some ?x"
      using Suc.prems False by (simp_all add: fade_out_tick_def Let_def)
    have "?x \<le> x - 5 / 100 + 1 / 1000" using assms(1) unfolding close_to_def by blast
    then have "?x \<le> 5 / 100 + (49 / 1000) * of_nat n"
      using Suc.prems(3) unfolding of_nat_Suc distrib_left mult_1_right by linarith
    from Suc.IH [OF e this] show ?thesis
      by (simp only: funpow_Suc_right comp_def)
  qed
qed

lemma fade_in_fresh:
  assumes "close_to css" "opacity e = None"
  shows "faded_in (fade_in css 13 e)"
proof -
  let ?e = "e\<lparr>timer := True, opacity := Some (css (4 / 10))\<rparr>"
  have "4 / 10 - 1 / 1000 \<le> css (4 / 10)"
    using assms(1) unfolding close_to_def by blast
  then have x: "95 / 100 - (49 / 1000) * of_nat 12 \<le> css (4 / 10)" by simp
  have "fade_in_tick css (e\<lparr>timer := True\<rparr>) = fade_in_tick css ?e"
    using assms(2) by (cases e) (simp add: fade_in_tick_def Let_def)
  moreover have "(13 :: nat) = Suc 12" by simp
  ultimately have "fade_in css 13 e = (fade_in_tick css ^^ Suc 12) ?e"
    by (simp only: fade_in_def funpow_Suc_right comp_def)
  then show ?thesis using fade_in_reaches [OF assms(1) _ _ x, of ?e] by simp
qed

section \<open>Properties\<close>

text \<open>
  Typing a hash ends: after one call more than its length the promise is
  resolved and the element holds exactly the text, and before that its first
  characters.
\<close>

lemma typing_ends:
  "animate_hash text (length text + 1 + extra) e = (e\<lparr>innerHTML := text\<rparr>, None) \<and>
   (\<forall>i \<le> length text. animate_hash text i e = (e\<lparr>innerHTML := take i text\<rparr>, Some i))"
proof (intro conjI allI impI)
  show "animate_hash text i e = (e\<lparr>innerHTML := take i text\<rparr>, Some i)" if "i \<le> length text" for i
    using typing_step [OF that] by (simp add: animate_hash_def)
  have "(typeNextChar text ^^ (length text + 1 + extra)) s
      = (typeNextChar text ^^ extra) (typeNextChar text ((typeNextChar text ^^ length text) s))" for s
    by (simp add: funpow_add add.commute [of _ extra] funpow_swap1)
  then show "animate_hash text (length text + 1 + extra) e = (e\<lparr>innerHTML := text\<rparr>, None)"
    using typing_step [of "length text" "text" e] typing_resolved
    by (simp add: animate_hash_def typeNextChar_def)
qed

text \<open>
  C27. Both fades end, whatever the browser rounds an opacity to within a
  thousandth: from any opacity between 0 and 1 the element is fully shown, without
  blur, after at most 21 ticks of the fade-in, and hidden after at most 21 of the
  fade-out; a fresh element is shown after at most 13.
\<close>

theorem fades_end:
  assumes "close_to css" "opacity e = Some x" "0 \<le> x" "x \<le> 1"
  shows "faded_in (fade_in css 21 e) \<and> faded_out (fade_out css 21 e) \<and>
    (\<forall>e0. opacity e0 = None \<longrightarrow> faded_in (fade_in css 13 e0))"
proof (intro conjI allI impI)
  show "faded_in (fade_in css 21 e)"
    using fade_in_reaches [OF assms(1), of "e\<lparr>timer := True\<rparr>" x 20] assms by (simp add: fade_in_def)
  show "faded_out (fade_out css 21 e)"
    using fade_out_reaches [OF assms(1), of "e\<lparr>timer := True\<rparr>" x 20] assms by (simp add: fade_out_def)
  show "faded_in (fade_in css 13 e0)" if "opacity e0 = None" for e0
    by (rule fade_in_fresh [OF assms(1) that])
qed

lemma fades_end_witness: "faded_out (fade_out id 21 (new_element\<lparr>opacity := Some 1\<rparr>))"
  using fades_end [of id "new_element\<lparr>opacity := Some 1\<rparr>" 1] by (simp add: close_to_def)

end
