(* ===== verification/HashCycle.thy ===== *)
theory HashCycle
  imports HashBackground
begin

text \<open>
  One animated hash of the start page over time (\<open>script.js\<close>, lines 1 to 10 and 33 to 57):
  \<open>start_animation\<close> types a hash, fades it in, fades it out and starts itself again. A tick is
  a call of the timer that is pending, and the clock counts the milliseconds it has waited. The
  random numbers of each round are a function of its number; page and content sizes
  and the rounding of an opacity are arguments, as in \<^theory_text>\<open>HashBackground\<close>.
\<close>

section \<open>Rounds\<close>

datatype stage = Typing string nat int | FadingIn int | FadingOut int

record hash =
  el :: element
  stage :: stage
  rounds :: nat
  clock :: rat

type_synonym draw = "8 word list \<times> rat \<times> rat \<times> rat \<times> rat"

text \<open>
  What follows a call of \<open>typeNextChar\<close>: the next call, or \<open>fade_in\<close> once the promise of
  \<open>animate_hash\<close> is resolved.
\<close>

definition typed_on :: "string \<Rightarrow> int \<Rightarrow> element \<times> nat option \<Rightarrow> element \<times> stage" where
  "typed_on text time s = (case s of (e, Some i) \<Rightarrow> (e, Typing text i time)
     | (e, None) \<Rightarrow> (fade_in id 0 e, FadingIn time))"

definition begin_round :: "(nat \<Rightarrow> draw) \<Rightarrow> rat \<times> rat \<Rightarrow> (rat \<Rightarrow> rat \<times> rat) \<Rightarrow> nat \<Rightarrow> rat \<Rightarrow> element \<Rightarrow> hash" where
  "begin_round draws page content k now e =
    (case start_animation (fst (draws k)) (snd (draws k)) page content e of (e1, text, time) \<Rightarrow>
      case typed_on text time (animate_hash text 1 e1) of (e2, st) \<Rightarrow>
        \<lparr>el = e2, stage = st, rounds = k, clock = now\<rparr>)"

text \<open>The pending timer is called: 40 ms while typing, a hundredth of the duration while fading.\<close>

fun hash_tick :: "(nat \<Rightarrow> draw) \<Rightarrow> rat \<times> rat \<Rightarrow> (rat \<Rightarrow> rat \<times> rat) \<Rightarrow> (rat \<Rightarrow> rat) \<Rightarrow> hash \<Rightarrow> hash" where
  "hash_tick draws page content css h = (case stage h of
     Typing text i time \<Rightarrow>
       (case typed_on text time (typeNextChar text (el h, Some i)) of (e, st) \<Rightarrow>
         h\<lparr>el := e, stage := st, clock := clock h + 40\<rparr>)
   | FadingIn time \<Rightarrow>
       (let e = fade_in_tick css (el h); h1 = h\<lparr>el := e, clock := clock h + of_int time / 100\<rparr>
        in if timer e then h1 else h1\<lparr>el := fade_out css 0 e, stage := FadingOut time\<rparr>)
   | FadingOut time \<Rightarrow>
       (let e = fade_out_tick css (el h); now = clock h + of_int time / 100
        in if timer e then h\<lparr>el := e, clock := now\<rparr>
           else begin_round draws page content (Suc (rounds h)) now e))"

text \<open>The element of the page is made and its first round begins.\<close>

definition loaded_hash :: "(nat \<Rightarrow> draw) \<Rightarrow> rat \<times> rat \<Rightarrow> (rat \<Rightarrow> rat \<times> rat) \<Rightarrow> hash" where
  "loaded_hash draws page content = begin_round draws page content 0 0 new_element"

definition hash_after :: "(nat \<Rightarrow> draw) \<Rightarrow> rat \<times> rat \<Rightarrow> (rat \<Rightarrow> rat \<times> rat) \<Rightarrow> (rat \<Rightarrow> rat) \<Rightarrow> nat \<Rightarrow> hash" where
  "hash_after draws page content css n = (hash_tick draws page content css ^^ n) (loaded_hash draws page content)"

definition shown_hash :: "8 word list \<Rightarrow> hash \<Rightarrow> bool" where
  "shown_hash bytes h \<longleftrightarrow> innerHTML (el h) = generate_hash bytes \<and> opacity (el h) = Some 1 \<and> blur (el h) = 0"

section \<open>Lemmas\<close>

lemma typing_phase:
  assumes "stage h = Typing text i time" "i \<le> length text" "innerHTML (el h) = take i text"
  shows "(hash_tick draws page content css ^^ Suc (length text - i)) h
    = h\<lparr>el := (el h)\<lparr>innerHTML := text, timer := True\<rparr>, stage := FadingIn time,
         clock := clock h + 40 * of_nat (Suc (length text - i))\<rparr>"
  using assms
proof (induction "length text - i" arbitrary: h i)
  case 0
  then show ?case by (simp add: typed_on_def typeNextChar_def fade_in_def)
next
  case (Suc n)
  let ?h = "hash_tick draws page content css h"
  have i: "i < length text" "n = length text - Suc i" using Suc.hyps(2) by auto
  have h: "?h = h\<lparr>el := (el h)\<lparr>innerHTML := take (Suc i) text\<rparr>, stage := Typing text (Suc i) time,
      clock := clock h + 40\<rparr>"
    using Suc.prems i(1) by (simp add: typed_on_def typeNextChar_def take_Suc_conv_app_nth)
  have len: "length text - i = Suc (length text - Suc i)" using i(1) by simp
  have "(hash_tick draws page content css ^^ Suc (length text - Suc i)) ?h
      = ?h\<lparr>el := (el ?h)\<lparr>innerHTML := text, timer := True\<rparr>, stage := FadingIn time,
           clock := clock ?h + 40 * of_nat (Suc (length text - Suc i))\<rparr>"
    by (rule Suc.hyps(1) [OF i(2)]) (use i(1) in \<open>simp_all add: h del: hash_tick.simps\<close>)
  then show ?case
    unfolding len funpow_Suc_right [of "Suc (length text - Suc i)"] comp_def
    by (simp add: h algebra_simps del: hash_tick.simps funpow.simps)
qed

lemma fading_in_phase:
  assumes "stage h = FadingIn t" "timer (el h)" "\<not> timer ((fade_in_tick css ^^ N) (el h))"
  shows "\<exists>n \<le> N. (hash_tick draws page content css ^^ n) h
    = h\<lparr>el := fade_out css 0 ((fade_in_tick css ^^ N) (el h)), stage := FadingOut t,
         clock := clock h + of_nat n * (of_int t / 100)\<rparr>"
  using assms
proof (induction N arbitrary: h)
  case (Suc N)
  let ?e = "fade_in_tick css (el h)" and ?t = "hash_tick draws page content css"
  have e: "(fade_in_tick css ^^ Suc N) (el h) = (fade_in_tick css ^^ N) ?e"
    by (simp only: funpow_Suc_right comp_def)
  show ?case
  proof (cases "timer ?e")
    case False
    then have "?t h = h\<lparr>el := fade_out css 0 ?e, stage := FadingOut t, clock := clock h + of_int t / 100\<rparr>"
      using Suc.prems(1) by (simp add: Let_def)
    then show ?thesis unfolding e fade_in_stopped [OF False]
      by (intro exI [of _ 1]) (simp del: hash_tick.simps)
  next
    case True
    then have h: "?t h = h\<lparr>el := ?e, clock := clock h + of_int t / 100\<rparr>"
      using Suc.prems(1) by (simp add: Let_def)
    obtain n where n: "n \<le> N" "(?t ^^ n) (?t h) = (?t h)\<lparr>el := fade_out css 0 ((fade_in_tick css ^^ N) ?e),
        stage := FadingOut t, clock := clock (?t h) + of_nat n * (of_int t / 100)\<rparr>"
      using Suc.IH [of "?t h"] Suc.prems True unfolding e by (auto simp: h simp del: hash_tick.simps)
    then show ?thesis unfolding e
      by (intro exI [of _ "Suc n"])
        (simp add: funpow_Suc_right h algebra_simps del: hash_tick.simps funpow.simps)
  qed
qed simp

lemma fading_out_phase:
  assumes "stage h = FadingOut t" "timer (el h)" "\<not> timer ((fade_out_tick css ^^ N) (el h))"
  shows "\<exists>n \<le> N. (hash_tick draws page content css ^^ n) h
    = begin_round draws page content (Suc (rounds h)) (clock h + of_nat n * (of_int t / 100))
        ((fade_out_tick css ^^ N) (el h))"
  using assms
proof (induction N arbitrary: h)
  case (Suc N)
  let ?e = "fade_out_tick css (el h)" and ?t = "hash_tick draws page content css"
  have e: "(fade_out_tick css ^^ Suc N) (el h) = (fade_out_tick css ^^ N) ?e"
    by (simp only: funpow_Suc_right comp_def)
  show ?case
  proof (cases "timer ?e")
    case False
    then have "?t h = begin_round draws page content (Suc (rounds h)) (clock h + of_int t / 100) ?e"
      using Suc.prems(1) by (simp add: Let_def)
    then show ?thesis unfolding e fade_out_stopped [OF False]
      by (intro exI [of _ 1]) (simp del: hash_tick.simps)
  next
    case True
    then have h: "?t h = h\<lparr>el := ?e, clock := clock h + of_int t / 100\<rparr>"
      using Suc.prems(1) by (simp add: Let_def)
    obtain n where n: "n \<le> N" "(?t ^^ n) (?t h) = begin_round draws page content (Suc (rounds (?t h)))
        (clock (?t h) + of_nat n * (of_int t / 100)) ((fade_out_tick css ^^ N) ?e)"
      using Suc.IH [of "?t h"] Suc.prems True unfolding e by (auto simp: h simp del: hash_tick.simps)
    then show ?thesis unfolding e
      by (intro exI [of _ "Suc n"])
        (simp add: funpow_Suc_right h algebra_simps add_divide_distrib del: hash_tick.simps funpow.simps)
  qed
qed simp

text \<open>Whatever round begins, and whatever is left of the one before it.\<close>

definition ready :: "element \<Rightarrow> bool" where
  "ready e \<longleftrightarrow> (case opacity e of None \<Rightarrow> True | Some x \<Rightarrow> 0 \<le> x \<and> x \<le> 1)"

definition fair_draw :: "draw \<Rightarrow> bool" where
  "fair_draw d \<longleftrightarrow> (case d of (bytes, r1, r2, r3, r4) \<Rightarrow> length bytes = 32 \<and> 0 \<le> r4 \<and> r4 < 1)"

lemma hash_length: "length bytes = 32 \<Longrightarrow> length (generate_hash bytes) = 43"
  using generate_hash_valid [of bytes] by (simp add: checkValidAddress_def)

lemma duration_bounds: "0 \<le> r \<Longrightarrow> r < 1 \<Longrightarrow> 1500 \<le> duration r \<and> duration r \<le> 11500"
  unfolding duration_def to_fixed_def by (simp add: le_floor_iff floor_le_iff)

lemma begin_round_types:
  assumes "length (fst (draws k)) = 32"
  obtains e1 where "begin_round draws page content k now e
      = \<lparr>el = e1, stage = Typing (generate_hash (fst (draws k))) 1 (duration (snd (snd (snd (snd (draws k)))))),
         rounds = k, clock = now\<rparr>"
    "innerHTML e1 = take 1 (generate_hash (fst (draws k)))" "opacity e1 = opacity e"
proof -
  obtain bytes r1 r2 r3 r4 where d: "draws k = (bytes, r1, r2, r3, r4)" by (cases "draws k")
  obtain c cs where t: "generate_hash bytes = c # cs"
    using hash_length [of bytes] assms d by (cases "generate_hash bytes") auto
  show ?thesis
    by (rule that [of "el (begin_round draws page content k now e)"]) (auto simp: begin_round_def start_animation_def d animate_hash_def typeNextChar_def t
        typed_on_def Let_def)
qed

lemma fade_in_ready:
  assumes "close_to css" "ready e"
  obtains N where "N \<le> 21" "faded_in ((fade_in_tick css ^^ N) (e\<lparr>timer := True\<rparr>))"
proof (cases "opacity e")
  case None
  then show ?thesis using that [of 13] fade_in_fresh [OF assms(1), of e] by (simp add: fade_in_def)
next
  case (Some x)
  then show ?thesis using that [of "Suc 20"] assms fade_in_reaches [OF assms(1), of "e\<lparr>timer := True\<rparr>" x 20]
    by (simp add: ready_def del: funpow.simps)
qed

lemma tick_keeps_text: "innerHTML (fade_in_tick css e) = innerHTML e"
  by (simp add: fade_in_tick_def Let_def)

lemma fading_keeps_text: "innerHTML ((fade_in_tick css ^^ n) e) = innerHTML e"
  by (induction n) (simp_all add: tick_keeps_text)

lemma round_shows:
  assumes "close_to css" "fair_draw (draws k)" "ready e"
  obtains n h where "n \<le> 64" "h = (hash_tick draws page content css ^^ n) (begin_round draws page content k now e)"
    "shown_hash (fst (draws k)) h" "rounds h = k" "now \<le> clock h" "clock h \<le> now + 4135" "timer (el h)"
    "stage h = FadingOut (duration (snd (snd (snd (snd (draws k))))))"
proof -
  let ?t = "hash_tick draws page content css" and ?text = "generate_hash (fst (draws k))"
  let ?d = "duration (snd (snd (snd (snd (draws k)))))"
  have bytes: "length (fst (draws k)) = 32" and d: "0 \<le> ?d" "?d \<le> 11500"
    using assms(2) duration_bounds by (fastforce simp: fair_draw_def split: prod.splits)+
  obtain e1 where s: "begin_round draws page content k now e
        = \<lparr>el = e1, stage = Typing ?text 1 ?d, rounds = k, clock = now\<rparr>"
      "innerHTML e1 = take 1 ?text" "opacity e1 = opacity e"
    by (rule begin_round_types [of draws k page content now e, OF bytes])
  let ?e2 = "e1\<lparr>innerHTML := ?text, timer := True\<rparr>"
  let ?h2 = "\<lparr>el = ?e2, stage = FadingIn ?d, rounds = k, clock = now + 1720\<rparr>"
  have h2: "(?t ^^ 43) (begin_round draws page content k now e) = ?h2"
    using typing_phase [of "begin_round draws page content k now e" ?text 1 ?d draws page content css]
      hash_length [OF bytes] by (simp add: s del: hash_tick.simps funpow.simps)
  obtain N where N: "N \<le> 21" "faded_in ((fade_in_tick css ^^ N) (?e2\<lparr>timer := True\<rparr>))"
    by (rule fade_in_ready [OF assms(1), of ?e2]) (use assms(3) s(3) in \<open>simp_all add: ready_def\<close>)
  let ?e3 = "(fade_in_tick css ^^ N) ?e2"
  obtain n where n: "n \<le> N" "(?t ^^ n) ?h2 = ?h2\<lparr>el := fade_out css 0 ?e3, stage := FadingOut ?d,
      clock := clock ?h2 + of_nat n * (of_int ?d / 100)\<rparr>"
    using fading_in_phase [of ?h2 ?d N css draws page content] N(2) by (auto simp: faded_in_def simp del: hash_tick.simps)
  have time: "0 \<le> (of_int ?d :: rat) / 100" "(of_int ?d :: rat) / 100 \<le> 115" using d by simp_all
  have "of_nat n * ((of_int ?d :: rat) / 100) \<le> 21 * 115"
    by (rule mult_mono) (use n(1) N(1) time in \<open>simp_all\<close>)
  moreover have "0 \<le> of_nat n * ((of_int ?d :: rat) / 100)" using time by simp
  moreover have "innerHTML ?e3 = ?text" by (simp add: fading_keeps_text)
  moreover have "opacity ?e3 = Some 1" "blur ?e3 = 0" using N(2) by (simp_all add: faded_in_def)
  ultimately show ?thesis
    using n N(1) by (intro that [of "n + 43" "(?t ^^ n) ?h2"])
      (simp_all add: funpow_add h2 shown_hash_def fade_out_def del: hash_tick.simps)
qed

lemma round_ends:
  assumes "close_to css" "fair_draw (draws k)" "stage h = FadingOut (duration (snd (snd (snd (snd (draws k))))))"
    "timer (el h)" "opacity (el h) = Some 1"
  obtains m e now where "m \<le> 21" "(hash_tick draws page content css ^^ m) h
      = begin_round draws page content (Suc (rounds h)) now e" "opacity e = Some 0"
    "clock h \<le> now" "now \<le> clock h + 2415"
proof -
  let ?d = "duration (snd (snd (snd (snd (draws k)))))" and ?e = "(fade_out_tick css ^^ 21) (el h)"
  have d: "0 \<le> ?d" "?d \<le> 11500"
    using assms(2) duration_bounds by (fastforce simp: fair_draw_def split: prod.splits)+
  have out: "faded_out ?e"
    using fade_out_reaches [OF assms(1,4,5), of 20] by simp
  obtain m where m: "m \<le> 21" "(hash_tick draws page content css ^^ m) h
      = begin_round draws page content (Suc (rounds h)) (clock h + of_nat m * (of_int ?d / 100)) ?e"
    using fading_out_phase [where N = 21 and css = css and draws = draws and page = page and content = content,
        OF assms(3,4)] out by (auto simp: faded_out_def)
  have time: "0 \<le> (of_int ?d :: rat) / 100" "(of_int ?d :: rat) / 100 \<le> 115" using d by simp_all
  have "of_nat m * ((of_int ?d :: rat) / 100) \<le> 21 * 115"
    by (rule mult_mono) (use m(1) time in \<open>simp_all\<close>)
  moreover have "0 \<le> of_nat m * ((of_int ?d :: rat) / 100)" using time by simp
  ultimately show ?thesis
    using m out by (intro that [of m "clock h + of_nat m * (of_int ?d / 100)" ?e]) (simp_all add: faded_out_def)
qed

lemma round_begins:
  assumes "close_to css" "\<And>k. fair_draw (draws k)"
  shows "\<exists>n now e. n \<le> 85 * k \<and> hash_after draws page content css n = begin_round draws page content k now e
    \<and> ready e \<and> (k > 0 \<longrightarrow> opacity e = Some 0) \<and> now \<le> 6550 * of_nat k"
proof (induction k)
  case 0
  show ?case
    by (intro exI [of _ 0] exI [of _ new_element]) (simp add: hash_after_def loaded_hash_def ready_def new_element_def)
next
  case (Suc k)
  let ?t = "hash_tick draws page content css"
  obtain n now e where n: "n \<le> 85 * k" "hash_after draws page content css n = begin_round draws page content k now e"
    "ready e" "now \<le> 6550 * of_nat k" using Suc.IH by (elim exE conjE) (rule that)
  obtain a h where a: "a \<le> 64" "h = (?t ^^ a) (begin_round draws page content k now e)"
    "shown_hash (fst (draws k)) h" "rounds h = k" "clock h \<le> now + 4135" "timer (el h)"
    "stage h = FadingOut (duration (snd (snd (snd (snd (draws k))))))"
    by (rule round_shows [OF assms(1) assms(2) n(3)])
  obtain b e' now' where b: "b \<le> 21" "(?t ^^ b) h = begin_round draws page content (Suc (rounds h)) now' e'"
    "opacity e' = Some 0" "now' \<le> clock h + 2415"
    by (rule round_ends [where draws = draws and k = k, OF assms(1) assms(2) a(7,6)]) (use a(3) in \<open>simp add: shown_hash_def\<close>)
  have "hash_after draws page content css (b + (a + n)) = (?t ^^ b) h"
    using n(2) by (simp only: hash_after_def funpow_add comp_def a(2))
  moreover have "b + (a + n) \<le> 85 * Suc k" using n(1) a(1) b(1) by simp
  moreover have "now' \<le> 6550 * of_nat (Suc k)" using n(4) a(5) b(4) by simp
  ultimately show ?case using b a(4) by (intro exI conjI) (auto simp: ready_def)
qed

section \<open>Properties\<close>

text \<open>
  C26. The animation never stops: for every k the k-th hash of an element is typed in full and shown
  without blur within 64 ticks of its round, after no more than 6.55 s for each round before
  it and 4.135 s of its own; and within 21 ticks more it is hidden and the next round types its first
  character, on a transparent element.
\<close>

theorem every_hash_shown:
  assumes "close_to css" "\<forall>k. fair_draw (draws k)"
  shows "\<exists>n m. n \<le> 85 * k + 64 \<and> m \<le> 21 \<and>
    (let h = hash_after draws page content css n; h' = hash_after draws page content css (n + m) in
      shown_hash (fst (draws k)) h \<and> rounds h = k \<and> clock h \<le> 6550 * of_nat k + 4135 \<and>
      rounds h' = Suc k \<and> opacity (el h') = Some 0 \<and>
      innerHTML (el h') = take 1 (generate_hash (fst (draws (Suc k)))))"
proof -
  let ?t = "hash_tick draws page content css"
  have fair: "fair_draw (draws k)" for k using assms(2) by blast
  have bytes: "length (fst (draws (Suc k))) = 32" using fair [of "Suc k"] by (auto simp: fair_draw_def split: prod.splits)
  obtain n now e where n: "n \<le> 85 * k" "hash_after draws page content css n = begin_round draws page content k now e"
    "ready e" "now \<le> 6550 * of_nat k" using round_begins [where draws = draws and k = k and page = page and content = content, OF assms(1) fair] by (elim exE conjE) (rule that)
  obtain a h where a: "a \<le> 64" "h = (?t ^^ a) (begin_round draws page content k now e)"
    "shown_hash (fst (draws k)) h" "rounds h = k" "clock h \<le> now + 4135" "timer (el h)"
    "stage h = FadingOut (duration (snd (snd (snd (snd (draws k))))))"
    by (rule round_shows [OF assms(1) fair n(3)])
  obtain b e' now' where b: "b \<le> 21" "(?t ^^ b) h = begin_round draws page content (Suc (rounds h)) now' e'"
    "opacity e' = Some 0"
    by (rule round_ends [where draws = draws and k = k, OF assms(1) fair a(7,6)]) (use a(3) in \<open>simp add: shown_hash_def\<close>)
  have h: "hash_after draws page content css (a + n) = h"
    using n(2) by (simp only: hash_after_def funpow_add comp_def a(2))
  then have h': "hash_after draws page content css (a + n + b) = begin_round draws page content (Suc k) now' e'"
    using b(2) a(4) by (simp only: hash_after_def add.commute [of "a + n"] funpow_add [of b] comp_def)
  obtain e1 where "begin_round draws page content (Suc k) now' e' = \<lparr>el = e1, stage
        = Typing (generate_hash (fst (draws (Suc k)))) 1 (duration (snd (snd (snd (snd (draws (Suc k))))))),
      rounds = Suc k, clock = now'\<rparr>"
    "innerHTML e1 = take 1 (generate_hash (fst (draws (Suc k))))" "opacity e1 = opacity e'"
    by (rule begin_round_types [of draws "Suc k" page content now' e', OF bytes])
  then show ?thesis using n(1,4) a(1,3-5) b(1,3)
    by (intro exI [of _ "a + n"] exI [of _ b]) (simp add: h h' Let_def)
qed

theorem every_hash_shown_witness:
  "\<exists>n \<le> 149. shown_hash (replicate 32 7) (hash_after (\<lambda>k. (replicate 32 7, 0, 0, 0, 1 / 2)) (800, 600) (\<lambda>s. (26 * s, s)) id n)"
  using every_hash_shown [of id "\<lambda>k. (replicate 32 7, 0, 0, 0, 1 / 2)" 1 "(800, 600)" "\<lambda>s. (26 * s, s)"]
  by (auto simp: close_to_def fair_draw_def Let_def)

end
