(* ===== verification/Docs_Header.thy ===== *)
theory Docs_Header
  imports JS_Value
begin

text \<open>
  The scripts behind the header of the documentation site (\<open>docs/js\<close>): the UTC clock
  (\<open>utc-time.js\<close>), the header that hides while scrolling (\<open>header-scroll.js\<close>), the
  home page classes (\<open>custom-header.js\<close>) and the header that fades in
  (\<open>parallax.js\<close>). An element is what the scripts read and write of it; what the
  browser reports (scroll positions, heights, the path, the time) comes with the
  event that makes a script look at it.
\<close>

section \<open>The clock\<close>

text \<open>\<open>toISOString\<close> of a time in milliseconds since 1970, on the proleptic Gregorian calendar.\<close>

definition pad_digits :: "nat \<Rightarrow> nat \<Rightarrow> string" where
  "pad_digits k n = map (\<lambda>i. digit_char (n div 10 ^ i mod 10)) (rev [0..<k])"

definition civil_date :: "int \<Rightarrow> int \<times> int \<times> int" where
  "civil_date days = (let z = days + 719468; era = z div 146097; doe = z mod 146097;
       yoe = (doe - doe div 1460 + doe div 36524 - doe div 146096) div 365;
       doy = doe - (365 * yoe + yoe div 4 - yoe div 100);
       mp = (5 * doy + 2) div 153;
       d = doy - (153 * mp + 2) div 5 + 1;
       m = (if mp < 10 then mp + 3 else mp - 9)
     in (yoe + era * 400 + (if m \<le> 2 then 1 else 0), m, d))"

definition year_text :: "int \<Rightarrow> string" where
  "year_text y = (if 0 \<le> y \<and> y \<le> 9999 then pad_digits 4 (nat y)
     else (if y < 0 then CHR ''-'' else CHR ''+'') # pad_digits 6 (nat \<bar>y\<bar>))"

definition toISOString :: "int \<Rightarrow> string" where
  "toISOString ms = (case civil_date (ms div 86400000) of (y, m, d) \<Rightarrow>
     (let t = nat (ms mod 86400000) in
       year_text y @ ''-'' @ pad_digits 2 (nat m) @ ''-'' @ pad_digits 2 (nat d) @ ''T'' @
       pad_digits 2 (t div 3600000) @ '':'' @ pad_digits 2 (t div 60000 mod 60) @ '':'' @
       pad_digits 2 (t div 1000 mod 60) @ ''.'' @ pad_digits 3 (t mod 1000) @ ''Z''))"

definition utc_text :: "int \<Rightarrow> string" where
  "utc_text now = ''UTC '' @ substring 11 19 (toISOString now)"

record utc_clock =
  text_content :: string
  in_header :: bool

text \<open>
  The clock is set at once and takes the place of the header's option element when
  there is one; the interval timer sets it again.
\<close>

definition start_clock :: "bool \<Rightarrow> int \<Rightarrow> utc_clock" where
  "start_clock has_option now = \<lparr>text_content = utc_text now, in_header = has_option\<rparr>"

definition tick_clock :: "int \<Rightarrow> utc_clock \<Rightarrow> utc_clock" where
  "tick_clock now c = c\<lparr>text_content := utc_text now\<rparr>"

section \<open>The header that hides while scrolling\<close>

record scroll_page =
  header_hidden :: bool
  header_height :: nat
  padding_top :: "string option"
  scroll_padding_top :: "string option"
  initializing :: bool
  reveal_requested :: bool
  content_opacity :: "nat option"

datatype scroll_event =
    PageLoad nat
  | RevealFrame
  | ScrollTo rat rat nat
  | PageResize nat

text \<open>
  The page once the script has run: the content is hidden until the page is loaded;
  \<^const>\<open>None\<close> when one of the three elements is missing and the script gives up.
\<close>

definition start_header_scroll :: "bool \<Rightarrow> bool \<Rightarrow> bool \<Rightarrow> scroll_page option" where
  "start_header_scroll has_header has_content has_main = (if has_header \<and> has_content \<and> has_main
     then Some \<lparr>header_hidden = False, header_height = 0, padding_top = None, scroll_padding_top = None,
       initializing = True, reveal_requested = False, content_opacity = None\<rparr>
     else None)"

definition px :: "nat \<Rightarrow> string" where
  "px n = nat_to_string n @ ''px''"

definition updatePaddings :: "nat \<Rightarrow> scroll_page \<Rightarrow> scroll_page" where
  "updatePaddings current p = (let q = (if current > 0 then p\<lparr>header_height := current\<rparr> else p) in
     if header_hidden q then q\<lparr>padding_top := Some ''75px'', scroll_padding_top := Some ''0''\<rparr>
     else q\<lparr>padding_top := Some (px (header_height q)), scroll_padding_top := Some (px (header_height q))\<rparr>)"

definition initializeHeaderState :: "nat \<Rightarrow> scroll_page \<Rightarrow> scroll_page" where
  "initializeHeaderState current p =
     (updatePaddings current (p\<lparr>header_height := current\<rparr>))\<lparr>initializing := False, reveal_requested := True\<rparr>"

definition on_scroll :: "rat \<Rightarrow> nat \<Rightarrow> scroll_page \<Rightarrow> scroll_page" where
  "on_scroll y current p = (
     if y > 0 then (if \<not> header_hidden p then updatePaddings current (p\<lparr>header_hidden := True\<rparr>) else p)
     else (if header_hidden p then updatePaddings current (p\<lparr>header_hidden := False\<rparr>) else p))"

fun header_scroll_step :: "scroll_page \<Rightarrow> scroll_event \<Rightarrow> scroll_page" where
  "header_scroll_step p (PageLoad h) = initializeHeaderState h p"
| "header_scroll_step p RevealFrame = (if reveal_requested p
     then p\<lparr>reveal_requested := False, content_opacity := Some 1\<rparr> else p)"
| "header_scroll_step p (ScrollTo y d h) = on_scroll (if y \<noteq> 0 then y else d) h p"
| "header_scroll_step p (PageResize h) = updatePaddings h p"

section \<open>The classes of the home page\<close>

text \<open>
  The header and the main element with their classes, the display of the tabs; an
  element that is not on the page is \<^const>\<open>None\<close>.
\<close>

record home_page =
  header_classes :: "string set option"
  main_classes :: "string set option"
  tabs_display :: "string option"
  current_path :: string

definition is_homepage :: "string \<Rightarrow> bool" where
  "is_homepage path = (let segments = filter (\<lambda>w. w \<noteq> []) (split_on CHR ''/'' path) in
     segments = [] \<or> length segments = 1 \<and> length (segments ! 0) = 43)"

definition updateHeaderAndMainClass :: "string \<Rightarrow> home_page \<Rightarrow> home_page" where
  "updateHeaderAndMainClass path p = (case (header_classes p, main_classes p) of
       (Some h, Some m) \<Rightarrow>
         if is_homepage path then
           p\<lparr>header_classes := Some (insert ''custom-homepage-header'' h),
             main_classes := Some (insert ''custom-homepage-main'' m - {''md-main''}),
             tabs_display := map_option (\<lambda>_. ''none'') (tabs_display p)\<rparr>
         else
           p\<lparr>header_classes := Some (h - {''custom-homepage-header''}),
             main_classes := Some (insert ''md-main'' (m - {''custom-homepage-main''})),
             tabs_display := map_option (\<lambda>_. []) (tabs_display p)\<rparr>
     | _ \<Rightarrow> p)"

text \<open>The observer: only a path that has changed is looked at again.\<close>

definition on_mutation :: "string \<Rightarrow> home_page \<Rightarrow> home_page" where
  "on_mutation path p = (if path \<noteq> current_path p
     then updateHeaderAndMainClass path (p\<lparr>current_path := path\<rparr>) else p)"

text \<open>The second handler of the file; without a main element it throws.\<close>

definition updateMainClass :: "string \<Rightarrow> home_page \<Rightarrow> home_page option" where
  "updateMainClass path p = (case main_classes p of
       None \<Rightarrow> None
     | Some m \<Rightarrow> Some (p\<lparr>main_classes := Some (
         if path = ''/'' then insert ''custom-homepage-main'' m - {''md-main''}
         else insert ''md-main'' m - {''custom-homepage-main''})\<rparr>))"

text \<open>
  Loading a page: the first handler runs when the script is read, the second one
  when the document is complete. A click on a link and a move in the history reach
  the second handler through a timer, the latter the first one directly.
\<close>

definition load_page :: "string \<Rightarrow> home_page \<Rightarrow> home_page option" where
  "load_page path p = updateMainClass path (updateHeaderAndMainClass path (p\<lparr>current_path := path\<rparr>))"

datatype path_event = Mutated string | PopState string | MainTimer string

fun home_step :: "home_page option \<Rightarrow> path_event \<Rightarrow> home_page option" where
  "home_step None e = None"
| "home_step (Some p) (Mutated path) = Some (on_mutation path p)"
| "home_step (Some p) (PopState path) = Some (updateHeaderAndMainClass path p)"
| "home_step (Some p) (MainTimer path) = updateMainClass path p"

section \<open>The header that fades in\<close>

record fade_page =
  scroll_top :: rat
  inner_height :: rat
  needs_update :: bool
  frames :: nat
  style :: "(rat \<times> rat) option"

definition fade_opacity :: "rat \<Rightarrow> rat \<Rightarrow> rat" where
  "fade_opacity y h = (let fade_start = h * (135 / 100); fade_end = h * (145 / 100) in
     if y \<le> fade_start then 0
     else if y \<ge> fade_end then 1
     else (y - fade_start) / (fade_end - fade_start))"

text \<open>The opacity of the background and the amount of inversion.\<close>

definition updateHeaderFade :: "fade_page \<Rightarrow> fade_page" where
  "updateHeaderFade p = (let a = fade_opacity (scroll_top p) (inner_height p) in
     p\<lparr>needs_update := False, style := Some (a, 1 - a)\<rparr>)"

datatype fade_event = Scrolled rat | Resized rat rat | Frame

definition start_fade :: "rat \<Rightarrow> rat \<Rightarrow> fade_page" where
  "start_fade y h = \<lparr>scroll_top = y, inner_height = h, needs_update = False, frames = 1, style = None\<rparr>"

fun fade_step :: "fade_page \<Rightarrow> fade_event \<Rightarrow> fade_page" where
  "fade_step p (Scrolled y) = (let q = p\<lparr>scroll_top := y\<rparr> in
     if needs_update q then q else q\<lparr>needs_update := True, frames := frames q + 1\<rparr>)"
| "fade_step p (Resized y h) = updateHeaderFade (p\<lparr>scroll_top := y, inner_height := h\<rparr>)"
| "fade_step p Frame = (if frames p = 0 then p else updateHeaderFade (p\<lparr>frames := frames p - 1\<rparr>))"

section \<open>The clock shows the time\<close>

lemma length_pad_digits [simp]: "length (pad_digits k n) = k"
  by (simp add: pad_digits_def)

lemma pad_digits_2: "pad_digits 2 n = [digit_char (n div 10 mod 10), digit_char (n mod 10)]"
  by (simp add: pad_digits_def upt_rec)

lemma civil_year_bounds:
  assumes "0 \<le> days" "days < 2777777"
  shows "0 \<le> fst (civil_date days) \<and> fst (civil_date days) \<le> 9999"
proof -
  define z where "z = days + 719468"
  define era where "era = z div 146097"
  define doe where "doe = z mod 146097"
  define yoe where "yoe = (doe - doe div 1460 + doe div 36524 - doe div 146096) div 365"
  have doe: "0 \<le> doe" "doe \<le> 146096" by (simp_all add: doe_def)
  have z: "0 \<le> z" "z \<le> 3497244" using assms by (simp_all add: z_def)
  have era: "0 \<le> era" "era \<le> 23"
    using zdiv_mono1 [OF z(2), of 146097] z(1) by (simp_all add: era_def pos_imp_zdiv_nonneg_iff)
  have parts: "0 \<le> doe div 1460" "doe div 36524 \<le> 4" "doe div 146096 \<le> doe div 36524"
    "doe div 1460 \<le> doe"
    using zdiv_mono1 [OF doe(2), of 36524] zdiv_mono2 [of doe 36524 146096] zdiv_mono2 [of doe 1 1460] doe(1)
    by (simp_all add: pos_imp_zdiv_nonneg_iff)
  have "0 \<le> doe div 146096" using doe(1) by (simp add: pos_imp_zdiv_nonneg_iff)
  then have num: "doe - doe div 1460 + doe div 36524 - doe div 146096 \<le> 146100"
    "0 \<le> doe - doe div 1460 + doe div 36524 - doe div 146096"
    using parts doe by linarith+
  then have "0 \<le> yoe" "yoe \<le> 400"
    using zdiv_mono1 [OF num(1), of 365] unfolding yoe_def by (simp_all add: pos_imp_zdiv_nonneg_iff)
  then show ?thesis
    using era unfolding civil_date_def Let_def fst_conv
    by (simp only: z_def [symmetric] era_def [symmetric] doe_def [symmetric] yoe_def [symmetric]) auto
qed

section \<open>The paddings follow the header\<close>

definition paddings_ok :: "scroll_page \<Rightarrow> bool" where
  "paddings_ok p \<longleftrightarrow> \<not> initializing p \<and>
     padding_top p = Some (if header_hidden p then ''75px'' else px (header_height p)) \<and>
     scroll_padding_top p = Some (if header_hidden p then ''0'' else px (header_height p))"

lemma paddings_updated: "\<not> initializing p \<Longrightarrow> paddings_ok (updatePaddings h p)"
  by (simp add: updatePaddings_def paddings_ok_def Let_def)

lemma paddings_initialized: "paddings_ok (initializeHeaderState h p)"
  by (simp add: initializeHeaderState_def updatePaddings_def paddings_ok_def Let_def)

lemma paddings_step:
  assumes "paddings_ok p"
  shows "paddings_ok (header_scroll_step p e)"
proof (cases e)
  case (PageLoad h)
  then show ?thesis by (simp add: paddings_initialized)
next
  case RevealFrame
  then show ?thesis using assms by (simp add: paddings_ok_def)
next
  case (ScrollTo y d h)
  have "\<not> initializing p" using assms by (simp add: paddings_ok_def)
  then show ?thesis using assms ScrollTo by (simp add: on_scroll_def paddings_updated)
next
  case (PageResize h)
  then show ?thesis using assms paddings_updated [of p] by (simp add: paddings_ok_def [of p])
qed

interpretation header_scroll: machine header_scroll_step "\<lambda>_ _. True" paddings_ok
  by unfold_locales (rule paddings_step)

lemma hidden_updatePaddings [simp]: "header_hidden (updatePaddings h p) = header_hidden p"
  by (simp add: updatePaddings_def Let_def)

text \<open>The last scroll position decides whether the header is hidden.\<close>

fun last_hidden :: "bool \<Rightarrow> scroll_event list \<Rightarrow> bool" where
  "last_hidden b [] = b"
| "last_hidden b (ScrollTo y d h # es) = last_hidden (0 < (if y \<noteq> 0 then y else d)) es"
| "last_hidden b (e # es) = last_hidden b es"

lemma hidden_run: "header_hidden (foldl header_scroll_step p es) = last_hidden (header_hidden p) es"
  by (induction "header_hidden p" es arbitrary: p rule: last_hidden.induct)
    (auto simp: initializeHeaderState_def on_scroll_def)

section \<open>A pending update has a pending frame\<close>

definition fade_inv :: "fade_page \<Rightarrow> bool" where
  "fade_inv p \<longleftrightarrow> (needs_update p \<longrightarrow> 0 < frames p)"

interpretation fading: machine fade_step "\<lambda>_ _. True" fade_inv
proof
  show "fade_inv (fade_step p e)" if "fade_inv p" for p e
    using that by (cases e) (auto simp: fade_inv_def Let_def updateHeaderFade_def)
qed

lemma frame_pending:
  "needs_update (foldl fade_step (start_fade y h) es) \<Longrightarrow> 0 < frames (foldl fade_step (start_fade y h) es)"
  using fading.inv_run [OF _ permitted_all, of "start_fade y h" es] by (simp add: start_fade_def fade_inv_def)

lemma fade_opacity_range: "0 \<le> fade_opacity y h \<and> fade_opacity y h \<le> 1"
  by (auto simp: fade_opacity_def Let_def divide_simps)

section \<open>Properties\<close>

text \<open>
  C28. The documentation clock shows the time of day: until the year 9575 the text is
  the hours, minutes and seconds of the day in UTC, each in two digits, whatever the
  date in front of them.
\<close>

theorem clock_shows_time:
  assumes "0 \<le> now" "now < 86400000 * 2777777"
  shows "text_content (tick_clock now c) = (let t = nat (now mod 86400000) in
    ''UTC '' @ pad_digits 2 (t div 3600000) @ '':'' @ pad_digits 2 (t div 60000 mod 60) @ '':'' @
    pad_digits 2 (t div 1000 mod 60))"
proof -
  obtain y m d where date: "civil_date (now div 86400000) = (y, m, d)" by (metis prod_cases3)
  have "0 \<le> now div 86400000" "now div 86400000 < 2777777" using assms by linarith+
  from civil_year_bounds [OF this] have "length (year_text y) = 4"
    by (simp add: date year_text_def)
  then show ?thesis
    by (simp add: tick_clock_def utc_text_def toISOString_def date Let_def substring_def)
qed

lemma clock_shows_time_witness: "text_content (start_clock True 45296789) = ''UTC 12:34:56''"
proof -
  have "pad_digits 2 12 = ''12''" "pad_digits 2 34 = ''34''" "pad_digits 2 56 = ''56''" by code_simp+
  then show ?thesis
    using clock_shows_time [of 45296789 "start_clock True 0"]
    by (simp add: start_clock_def tick_clock_def Let_def)
qed

text \<open>
  C25. Once the page is loaded the paddings always fit the header, whatever is
  scrolled or resized in whatever order: the header is hidden exactly when the page
  was last scrolled away from its top, and the content is shown.
\<close>

theorem paddings_follow_header:
  "paddings_ok (foldl header_scroll_step (header_scroll_step p (PageLoad h)) es) \<and>
   header_hidden (foldl header_scroll_step (header_scroll_step p (PageLoad h)) es) =
     last_hidden (header_hidden p) es"
  using header_scroll.inv_run [OF _ permitted_all] paddings_initialized
  by (simp add: hidden_run) (simp add: initializeHeaderState_def)

text \<open>
  Two handlers set the classes of the home page and only the second one, which
  knows no gateway paths, decides for the main element: after a load the header and
  the main element agree exactly when the path is the root or is not a home page.
\<close>

theorem home_classes_after_load:
  assumes "header_classes p = Some h" "main_classes p = Some m"
  shows "\<exists>q h' m'. load_page path p = Some q \<and> header_classes q = Some h' \<and> main_classes q = Some m' \<and>
    (''custom-homepage-header'' \<in> h' \<longleftrightarrow> is_homepage path) \<and>
    (''custom-homepage-main'' \<in> m' \<longleftrightarrow> path = ''/'') \<and> (''md-main'' \<in> m' \<longleftrightarrow> path \<noteq> ''/'')"
  using assms by (simp add: load_page_def updateMainClass_def updateHeaderAndMainClass_def)

lemma home_classes_after_load_witness:
  "\<exists>q h' m'. load_page (CHR ''/'' # replicate 43 CHR ''a'')
      \<lparr>header_classes = Some {}, main_classes = Some {''md-main''}, tabs_display = None, current_path = []\<rparr> = Some q \<and>
    header_classes q = Some h' \<and> main_classes q = Some m' \<and>
    ''custom-homepage-header'' \<in> h' \<and> ''custom-homepage-main'' \<notin> m'"
proof -
  have "is_homepage (CHR ''/'' # replicate 43 CHR ''a'')"
    by (simp add: is_homepage_def split_on_no_sep Let_def)
  then show ?thesis
    using home_classes_after_load [of "\<lparr>header_classes = Some {}, main_classes = Some {''md-main''},
      tabs_display = None, current_path = []\<rparr>" "{}" "{''md-main''}" "CHR ''/'' # replicate 43 CHR ''a''"]
    by auto
qed

text \<open>
  C24. A scroll is always drawn: whatever happened before, after a scroll a frame is
  pending, and running it gives the header the opacity of the new position, between
  zero and one, the inversion being its complement.
\<close>

theorem scroll_is_drawn:
  fixes y y0 h0 es
  defines "p \<equiv> fade_step (foldl fade_step (start_fade y0 h0) es) (Scrolled y)"
  shows "0 < frames p \<and> (let a = fade_opacity y (inner_height p) in
    style (fade_step p Frame) = Some (a, 1 - a) \<and> 0 \<le> a \<and> a \<le> 1)"
proof -
  have "0 < frames p"
    using frame_pending [of y0 h0 es] by (auto simp: p_def Let_def)
  moreover have "scroll_top p = y" by (simp add: p_def Let_def)
  ultimately show ?thesis using fade_opacity_range by (simp add: updateHeaderFade_def Let_def)
qed

end
