(* ===== verification/Docs_Toc.thy ===== *)
theory Docs_Toc
  imports JS_Prelude
begin

text \<open>
  The highlighting of the documentation's navigation (\<open>docs/js/toc-highlight.js\<close>).
  The page is a tree of elements that the script never changes, each with its
  identity, and a store with the current classes of every element, which the script
  reads and writes. A selector is a predicate on the store; \<open>querySelectorAll\<close> is the
  list of the elements that satisfy it when it is called, in document order.
\<close>

section \<open>The page\<close>

datatype elem = Elem (eid: nat) (tag: string) (kids: "elem list")

type_synonym store = "nat \<Rightarrow> string set"

fun preorder :: "elem \<Rightarrow> elem list" where
  "preorder (Elem i t ks) = Elem i t ks # concat (map preorder ks)"

definition descendants :: "elem \<Rightarrow> elem list" where
  "descendants e = concat (map preorder (kids e))"

definition has_class :: "store \<Rightarrow> string \<Rightarrow> elem \<Rightarrow> bool" where
  "has_class s c e \<longleftrightarrow> c \<in> s (eid e)"

definition link_active :: string where
  "link_active = ''md-nav__link--active''"

definition item_active :: string where
  "item_active = ''md-nav__item--active''"

definition activate :: "elem \<Rightarrow> store \<Rightarrow> store" where
  "activate e s = s(eid e := insert link_active (s (eid e)))"

definition deactivate :: "elem \<Rightarrow> store \<Rightarrow> store" where
  "deactivate e s = s(eid e := s (eid e) - {link_active})"

definition own_links :: "elem \<Rightarrow> elem list" where
  "own_links e = [k \<leftarrow> kids e. tag k = ''a'' \<or> tag k = ''label'']"

section \<open>Fixing the highlighting\<close>

definition fix_label :: "store \<Rightarrow> elem \<Rightarrow> store" where
  "fix_label s item = (
     case (find (\<lambda>e. tag e = ''label'' \<and> has_class s link_active e) (descendants item),
           find (\<lambda>e. tag e = ''a'' \<and> has_class s link_active e) (descendants item)) of
       (Some label, Some link) \<Rightarrow> deactivate label s
     | _ \<Rightarrow> s)"

definition fix_item :: "bool \<Rightarrow> store \<Rightarrow> elem \<Rightarrow> store" where
  "fix_item is_top s item = (
     let has_active = list_ex (has_class s link_active) (descendants item) in
     if has_active \<and> \<not> is_top then
       foldl (\<lambda>s e. deactivate e s) s [e \<leftarrow> own_links item. has_class s link_active e]
     else if \<not> has_active \<and> is_top then
       foldl (\<lambda>s e. activate e s) s [e \<leftarrow> own_links item. has_class s ''md-nav__link'' e]
     else s)"

definition fixNavigationHighlighting :: "elem \<Rightarrow> bool \<Rightarrow> store \<Rightarrow> store" where
  "fixNavigationHighlighting page is_top s = (
     let t = foldl fix_label s [e \<leftarrow> preorder page. has_class s ''md-nav__item'' e] in
     foldl (fix_item is_top) t [e \<leftarrow> preorder page. has_class t item_active e])"

section \<open>When it runs\<close>

text \<open>
  The observer looks at the elements whose classes changed; a scroll starts a timer
  unless one is running; clicks on links and moves in the history end in a timer
  that just runs the function, as loading the page does.
\<close>

record toc =
  classes :: store
  scrolled_to_top :: bool
  scroll_timeout :: bool

datatype toc_event =
    Run
  | ClassesChanged "nat list"
  | ScrolledTo bool
  | ScrollTimeout

definition run_fix :: "elem \<Rightarrow> toc \<Rightarrow> toc" where
  "run_fix page p = p\<lparr>classes := fixNavigationHighlighting page (scrolled_to_top p) (classes p)\<rparr>"

fun toc_step :: "elem \<Rightarrow> toc \<Rightarrow> toc_event \<Rightarrow> toc" where
  "toc_step page p Run = run_fix page p"
| "toc_step page p (ClassesChanged ids) =
     (if list_ex (\<lambda>i. link_active \<in> classes p i \<or> item_active \<in> classes p i) ids then run_fix page p else p)"
| "toc_step page p (ScrolledTo b) = p\<lparr>scrolled_to_top := b, scroll_timeout := True\<rparr>"
| "toc_step page p ScrollTimeout = (if scroll_timeout p
     then (run_fix page p)\<lparr>scroll_timeout := False\<rparr> else p)"

definition start_toc :: "elem \<Rightarrow> bool \<Rightarrow> store \<Rightarrow> toc" where
  "start_toc page is_top s = run_fix page \<lparr>classes = s, scrolled_to_top = is_top, scroll_timeout = False\<rparr>"

text \<open>
  A click on a navigation tab: for a link to the same host (or with none) the
  highlighting is fixed and the page is loaded anew, otherwise nothing is done.
\<close>

definition tab_clicked :: "elem \<Rightarrow> string \<Rightarrow> string \<Rightarrow> string \<Rightarrow> toc \<Rightarrow> toc \<times> string option" where
  "tab_clicked page here host href p =
     (if host = here \<or> host = [] then (run_fix page p, Some href) else (p, None))"

section \<open>Only the highlight of links changes\<close>

lemma has_class_simps [simp]:
  "has_class (activate x s) c e \<longleftrightarrow> has_class s c e \<or> c = link_active \<and> eid e = eid x"
  "has_class (deactivate x s) c e \<longleftrightarrow> has_class s c e \<and> \<not> (c = link_active \<and> eid e = eid x)"
  by (auto simp: has_class_def activate_def deactivate_def)

lemma classes_differ [simp]: "item_active \<noteq> link_active" "''md-nav__item'' \<noteq> link_active"
  by (simp_all add: item_active_def link_active_def)

lemma has_class_folds:
  "has_class (foldl (\<lambda>s e. activate e s) s xs) c e \<longleftrightarrow>
     has_class s c e \<or> c = link_active \<and> eid e \<in> eid ` set xs"
  "has_class (foldl (\<lambda>s e. deactivate e s) s xs) c e \<longleftrightarrow>
     has_class s c e \<and> \<not> (c = link_active \<and> eid e \<in> eid ` set xs)"
  by (induction xs arbitrary: s) auto

lemma fix_label_class:
  "c \<noteq> link_active \<Longrightarrow> has_class (fix_label s item) c e = has_class s c e"
  "has_class (fix_label s item) c e \<Longrightarrow> has_class s c e"
  by (auto simp: fix_label_def split: option.splits)

lemma fix_item_class:
  "c \<noteq> link_active \<Longrightarrow> has_class (fix_item b s item) c e = has_class s c e"
  "has_class (fix_item False s item) c e \<Longrightarrow> has_class s c e"
  "has_class s c e \<Longrightarrow> has_class (fix_item True s item) c e"
  by (auto simp: fix_item_def has_class_folds Let_def split: if_splits)

lemma fix_items_class:
  "c \<noteq> link_active \<Longrightarrow> has_class (foldl (fix_item b) s xs) c e = has_class s c e"
  "has_class (foldl (fix_item False) s xs) c e \<Longrightarrow> has_class s c e"
  "has_class s c e \<Longrightarrow> has_class (foldl (fix_item True) s xs) c e"
  by (induction xs arbitrary: s) (auto simp: fix_item_class(1) dest: fix_item_class(2) intro: fix_item_class(3))

lemma fix_labels_class:
  "c \<noteq> link_active \<Longrightarrow> has_class (foldl fix_label s xs) c e = has_class s c e"
  "has_class (foldl fix_label s xs) c e \<Longrightarrow> has_class s c e"
  by (induction xs arbitrary: s) (auto simp: fix_label_class(1) dest: fix_label_class(2))

lemma fix_keeps_classes:
  "c \<noteq> link_active \<Longrightarrow> has_class (fixNavigationHighlighting page b s) c e = has_class s c e"
  by (simp add: fixNavigationHighlighting_def Let_def fix_items_class(1) fix_labels_class(1))

section \<open>What is highlighted\<close>

lemma own_links_descendants: "set (own_links e) \<subseteq> set (descendants e)"
proof
  fix k assume "k \<in> set (own_links e)"
  then have "k \<in> set (kids e)" by (simp add: own_links_def)
  moreover have "k \<in> set (preorder k)" by (cases k) simp
  ultimately show "k \<in> set (descendants e)" by (auto simp: descendants_def)
qed

text \<open>Away from the top an active item has no highlighted link of its own.\<close>

definition unlit :: "store \<Rightarrow> elem \<Rightarrow> bool" where
  "unlit s item \<longleftrightarrow> (\<forall>k \<in> set (own_links item). \<not> has_class s link_active k)"

text \<open>At the top an active item that has links shows a highlighted one at or below it.\<close>

definition lit :: "store \<Rightarrow> elem \<Rightarrow> bool" where
  "lit s item \<longleftrightarrow> list_ex (has_class s link_active) (descendants item) \<or>
     (\<forall>k \<in> set (own_links item). \<not> has_class s ''md-nav__link'' k)"

lemma fix_item_unlit: "unlit (fix_item False s item) item"
  using own_links_descendants [of item]
  by (auto simp: fix_item_def unlit_def Let_def has_class_folds list_ex_iff)

lemma fix_item_lit: "lit (fix_item True s item) item"
proof (cases "list_ex (has_class s link_active) (descendants item)")
  case False
  then have "fix_item True s item =
      foldl (\<lambda>s e. activate e s) s [e \<leftarrow> own_links item. has_class s ''md-nav__link'' e]"
    by (simp add: fix_item_def)
  then show ?thesis
    using own_links_descendants [of item]
    by (auto simp: lit_def list_ex_iff has_class_folds link_active_def)
qed (simp add: fix_item_def lit_def)

lemma fix_items_lit:
  "x \<in> set xs \<Longrightarrow> unlit (foldl (fix_item False) s xs) x"
  "x \<in> set xs \<Longrightarrow> lit (foldl (fix_item True) s xs) x"
proof (induction xs rule: rev_induct)
  case (snoc y ys)
  {
    case 1
    show ?case
    proof (cases "x \<in> set ys")
      case True
      then have "unlit (foldl (fix_item False) s ys) x" by (rule snoc(1))
      then show ?thesis by (auto simp: unlit_def dest: fix_item_class(2))
    qed (use 1 fix_item_unlit in auto)
  next
    case 2
    show ?case
    proof (cases "x \<in> set ys")
      case True
      then have "lit (foldl (fix_item True) s ys) x" by (rule snoc(2))
      then show ?thesis
        by (auto simp: lit_def list_ex_iff fix_item_class(1) link_active_def dest: fix_item_class(3))
    qed (use 2 fix_item_lit in auto)
  }
qed simp_all

section \<open>Properties\<close>

text \<open>
  C23. Fixing the highlighting settles every active item of the navigation: away from
  the top of the page none of its own links is highlighted, also when it is the item
  of the page itself, and at the top an active item with links has a highlighted link
  at or below it. No other class of any element changes.
\<close>

theorem toc_highlighting:
  assumes "item \<in> set (preorder page)" "has_class s item_active item"
  shows "unlit (fixNavigationHighlighting page False s) item \<and>
    lit (fixNavigationHighlighting page True s) item \<and>
    (\<forall>b c e. c \<noteq> link_active \<longrightarrow> has_class (fixNavigationHighlighting page b s) c e = has_class s c e)"
proof -
  have "item \<in> set [e \<leftarrow> preorder page.
      has_class (foldl fix_label s [e \<leftarrow> preorder page. has_class s ''md-nav__item'' e]) item_active e]"
    using assms by (simp add: fix_labels_class(1))
  then show ?thesis
    unfolding fixNavigationHighlighting_def Let_def
    using fix_items_lit by (simp add: fix_items_class(1) fix_labels_class(1))
qed

lemma toc_highlighting_witness:
  "\<not> has_class (fixNavigationHighlighting (Elem 0 ''li'' [Elem 1 ''a'' []]) False
      (\<lambda>i. if i = 0 then {''md-nav__item'', item_active} else {''md-nav__link'', link_active}))
    link_active (Elem 1 ''a'' [])"
  using toc_highlighting [of "Elem 0 ''li'' [Elem 1 ''a'' []]" "Elem 0 ''li'' [Elem 1 ''a'' []]"
      "\<lambda>i. if i = 0 then {''md-nav__item'', item_active} else {''md-nav__link'', link_active}"]
  by (simp add: has_class_def unlit_def own_links_def)

end
