(* ===== verification/Styles_Shell.thy ===== *)
theory Styles_Shell
  imports Theme
begin

text \<open>
  The styled components of the panel, notifications, profile manager, navigation and settings menu
  (\<open>src/html/hyperbuddy@1.0/bundle.js\<close>, lines 1891 to 2887), in the order of the
  bundle. A component is named as its variable there, with \<open>_\<close> for \<open>$\<close>.
\<close>

section \<open>Templates\<close>

definition Wrapper_l :: styled where
  "Wrapper_l = Styled (Elem ''div'') [
    Decl ''min-width'' [S ''375px''],
    Decl ''max-width'' [S ''50vw''],
    Decl ''position'' [S ''fixed''],
    Decl ''left'' [S ''50%''],
    Decl ''bottom'' [S ''20px''],
    Decl ''transform'' [S ''translate(-50%, 0)''],
    Decl ''z-index'' [S ''20''],
    Decl ''animation'' [K ''open'', S '' '', F (\<lambda>_. Inr (JStr transition1))],
    Decl ''display'' [S ''flex''],
    Decl ''align-items'' [S ''center''],
    Decl ''padding'' [S ''11.5px 17.5px !important''],
    Decl ''gap'' [S ''45px''],
    Decl ''border'' [S ''1px solid '', F (\<lambda>p. theme_at p [''colors'', ''border'', ''alt1'']), S '' !important''],
    Decl ''border-radius'' [F (\<lambda>_. styling_at [''dimensions'', ''radius'', ''primary''])],
    Rule [S ''@media (max-width: '', F (\<lambda>_. styling_at [''cutoffs'', ''secondary'']), S '')''] [
      Decl ''min-width'' [S ''0''],
      Decl ''max-width'' [S ''none''],
      Decl ''width'' [S ''90vw'']]]"

definition MessageWrapper :: styled where
  "MessageWrapper = Styled (Elem ''div'') [
    Decl ''display'' [S ''flex''],
    Decl ''align-items'' [S ''center''],
    Decl ''gap'' [S ''10px''],
    Decl ''overflow'' [S ''hidden''],
    Decl ''text-overflow'' [S ''ellipsis'']]"

definition Icon_2 :: styled where
  "Icon_2 = Styled (Elem ''div'') [
    Decl ''min-height'' [S ''17.5px''],
    Decl ''height'' [S ''17.5px''],
    Decl ''min-width'' [S ''17.5px''],
    Decl ''width'' [S ''17.5px''],
    Decl ''display'' [S ''flex''],
    Decl ''align-items'' [S ''center''],
    Decl ''justify-content'' [S ''center''],
    Decl ''background'' [F (\<lambda>p. ternary (prop_of p ''warning'') (theme_at p [''colors'', ''warning'', ''alt1'']) (theme_at p [''colors'', ''indicator'', ''active'']))],
    Rule [S ''svg''] [
      Decl ''height'' [S ''11.5px''],
      Decl ''width'' [S ''11.5px''],
      Decl ''margin'' [S ''6.5px 0 0 0''],
      Decl ''color'' [F (\<lambda>p. theme_at p [''colors'', ''font'', ''light1''])],
      Decl ''fill'' [F (\<lambda>p. theme_at p [''colors'', ''font'', ''light1''])]]]"

definition Message_1 :: styled where
  "Message_1 = Styled (Elem ''span'') [
    Decl ''display'' [S ''block''],
    Decl ''overflow'' [S ''hidden''],
    Decl ''text-overflow'' [S ''ellipsis''],
    Decl ''white-space'' [S ''nowrap''],
    Decl ''color'' [F (\<lambda>p. theme_at p [''colors'', ''font'', ''light1''])],
    Decl ''font-weight'' [F (\<lambda>p. theme_at p [''typography'', ''weight'', ''bold'']), S '' !important''],
    Decl ''font-size'' [F (\<lambda>p. theme_at p [''typography'', ''size'', ''xSmall'']), S '' !important'']]"

definition Close :: styled where
  "Close = Styled (Elem ''div'') [
    Decl ''margin'' [S ''0 0 0 auto''],
    Rule [S ''button''] [
      Rule [S ''span''] [
        Decl ''color'' [F (\<lambda>p. theme_at p [''colors'', ''font'', ''light1'']), S '' !important''],
        Decl ''font-size'' [F (\<lambda>p. theme_at p [''typography'', ''size'', ''xSmall''])]],
      Rule [S ''&:hover''] [
        Rule [S ''span''] [
          Decl ''color'' [F (\<lambda>p. theme_at p [''colors'', ''font'', ''light1'']), S '' !important''],
          Decl ''opacity'' [S ''0.75'']]]]]"

definition Wrapper_k :: styled where
  "Wrapper_k = Styled (Elem ''div'') [
    Decl ''width'' [S ''100%''],
    Decl ''margin'' [S ''10px 0''],
    Decl ''display'' [S ''flex''],
    Decl ''flex-direction'' [S ''column''],
    Decl ''position'' [S ''relative''],
    Rule [S ''@media (max-width: '', F (\<lambda>_. styling_at [''cutoffs'', ''initial'']), S '')''] [
      Decl ''max-width'' [S ''none'']]]"

definition Label :: styled where
  "Label = Styled (Elem ''label'') [
    Decl ''color'' [F (\<lambda>p. theme_at p [''colors'', ''font'', ''alt1''])],
    Decl ''font-size'' [F (\<lambda>p. theme_at p [''typography'', ''size'', ''xxSmall''])],
    Decl ''font-weight'' [F (\<lambda>p. theme_at p [''typography'', ''weight'', ''bold''])]]"

definition TextArea_1 :: styled where
  "TextArea_1 = Styled (Elem ''textarea'') [
    Decl ''min-height'' [S ''165px''],
    Decl ''color'' [F (\<lambda>p. theme_at p [''colors'', ''font'', ''primary''])],
    Decl ''font-family'' [F (\<lambda>p. theme_at p [''typography'', ''family'', ''primary''])],
    Decl ''font-size'' [F (\<lambda>p. theme_at p [''typography'', ''size'', ''base''])],
    Decl ''font-weight'' [F (\<lambda>p. theme_at p [''typography'', ''weight'', ''bold''])],
    Decl ''letter-spacing'' [S ''0.15px''],
    Decl ''margin'' [S ''7.5px 0 0 0''],
    Decl ''background'' [F (\<lambda>p. theme_at p [''colors'', ''form'', ''background''])],
    Decl ''border'' [S ''1px solid '', F (\<lambda>p. ternary (prop_of p ''invalid'') (theme_at p [''colors'', ''form'', ''invalid'', ''outline'']) (theme_at p [''colors'', ''form'', ''border'']))],
    Decl ''border-radius'' [F (\<lambda>_. styling_at [''dimensions'', ''radius'', ''primary''])],
    Rule [S ''&:focus''] [
      Decl ''outline'' [S ''0''],
      Decl ''border'' [S ''1px solid '', F (\<lambda>p. ternary (prop_of p ''invalid'') (theme_at p [''colors'', ''form'', ''invalid'', ''outline'']) (theme_at p [''colors'', ''form'', ''valid'', ''outline'']))],
      Decl ''outline'' [S ''0.5px solid '', F (\<lambda>p. ternary (prop_of p ''invalid'') (theme_at p [''colors'', ''form'', ''invalid'', ''outline'']) (theme_at p [''colors'', ''form'', ''valid'', ''outline'']))],
      Decl ''box-shadow'' [S ''0 0 0.5px '', F (\<lambda>p. ternary (prop_of p ''invalid'') (theme_at p [''colors'', ''form'', ''invalid'', ''shadow'']) (theme_at p [''colors'', ''form'', ''valid'', ''shadow'']))],
      Decl ''transition'' [S ''box-shadow, border, outline 225ms ease-in-out'']],
    Rule [S ''&:disabled''] [
      Decl ''background'' [F (\<lambda>p. theme_at p [''colors'', ''form'', ''disabled'', ''background''])],
      Decl ''color'' [F (\<lambda>p. theme_at p [''colors'', ''form'', ''disabled'', ''label''])],
      Decl ''box-shadow'' [S ''none''],
      Decl ''border'' [S ''1px solid '', F (\<lambda>p. theme_at p [''colors'', ''form'', ''border''])]],
    Decl ''scrollbar-color'' [S ''transparent transparent''],
    Rule [S ''::-webkit-scrollbar-track''] [
      Decl ''background'' [F (\<lambda>p. theme_at p [''colors'', ''view'', ''background''])],
      Decl ''padding'' [S ''0 5px'']],
    Rule [S ''::-webkit-scrollbar''] [
      Decl ''width'' [S ''15.5px'']],
    Decl ''scrollbar-color'' [F (\<lambda>p. theme_at p [''colors'', ''scrollbar'', ''thumb'']), S '' transparent''],
    Rule [S ''::-webkit-scrollbar-thumb''] [
      Decl ''background-color'' [F (\<lambda>p. theme_at p [''colors'', ''scrollbar'', ''thumb''])],
      Decl ''border'' [S ''3.5px solid transparent''],
      Decl ''background-clip'' [S ''padding-box'']]]"

definition ErrorContainer :: styled where
  "ErrorContainer = Styled (Elem ''div'') [
    Decl ''margin'' [S ''7.5px 0 0 0''],
    Decl ''height'' [S ''25px''],
    Decl ''overflow-x'' [S ''hidden''],
    Decl ''text-overflow'' [S ''ellipsis''],
    Decl ''white-space'' [S ''nowrap'']]"

definition Error_1 :: styled where
  "Error_1 = Styled (Elem ''span'') [
    Decl ''font-size'' [F (\<lambda>p. theme_at p [''typography'', ''size'', ''xSmall''])],
    Decl ''font-weight'' [F (\<lambda>p. theme_at p [''typography'', ''weight'', ''regular''])],
    Decl ''border-left'' [S ''2.75px solid '', F (\<lambda>p. theme_at p [''colors'', ''warning'', ''primary''])],
    Decl ''padding-left'' [S ''5px'']]"

definition Wrapper_j :: styled where
  "Wrapper_j = Styled (Elem ''div'') [
    Decl ''display'' [S ''flex''],
    Decl ''flex-direction'' [S ''column''],
    Decl ''align-items'' [S ''center''],
    Decl ''margin'' [S ''40px auto 0 auto''],
    Decl ''padding'' [S ''20px''],
    Decl ''animation'' [K ''open'', S '' '', F (\<lambda>_. Inr (JStr transition3))],
    Rule [S ''p''] [
      Decl ''font-size'' [F (\<lambda>p. theme_at p [''typography'', ''size'', ''xSmall''])],
      Decl ''font-weight'' [F (\<lambda>p. theme_at p [''typography'', ''weight'', ''medium''])],
      Decl ''text-align'' [S ''center'']],
    Rule [S ''button''] [
      Decl ''margin'' [S ''25px 0 0 0'']]]"

definition Icon_1 :: styled where
  "Icon_1 = Styled (Elem ''div'') [
    Decl ''height'' [S ''125px''],
    Decl ''width'' [S ''125px''],
    Decl ''display'' [S ''flex''],
    Decl ''justify-content'' [S ''center''],
    Decl ''align-items'' [S ''center''],
    Decl ''background'' [F (\<lambda>p. theme_at p [''colors'', ''container'', ''alt1'', ''background''])],
    Decl ''border'' [S ''1px solid '', F (\<lambda>p. theme_at p [''colors'', ''border'', ''alt1''])],
    Decl ''margin'' [S ''0 0 20px 0''],
    Rule [S ''svg''] [
      Decl ''height'' [S ''75px''],
      Decl ''width'' [S ''75px''],
      Decl ''color'' [F (\<lambda>p. theme_at p [''colors'', ''icon'', ''primary'', ''fill''])],
      Decl ''fill'' [F (\<lambda>p. theme_at p [''colors'', ''icon'', ''primary'', ''fill''])],
      Decl ''margin'' [S ''13.5px 0 0 0'']]]"

definition Wrapper_i :: styled where
  "Wrapper_i = Styled (Elem ''div'') []"

definition Body_1 :: styled where
  "Body_1 = Styled (Elem ''div'') [
    Decl ''display'' [S ''flex''],
    Decl ''justify-content'' [S ''center''],
    Decl ''flex-wrap'' [S ''wrap''],
    Decl ''gap'' [S ''10px''],
    Decl ''padding'' [S ''20px'']]"

definition Form :: styled where
  "Form = Styled (Elem ''div'') [
    Decl ''height'' [S ''fit-content''],
    Decl ''width'' [S ''100%''],
    Rule [S ''@media (max-width: calc('', F (\<lambda>_. styling_at [''cutoffs'', ''initial'']), S '' + 105px))''] [
      Decl ''min-width'' [S ''0''],
      Decl ''width'' [S ''100%''],
      Decl ''flex'' [S ''none'']]]"

definition TForm :: styled where
  "TForm = Styled (Elem ''div'') [
    Decl ''margin'' [S ''40px 0 30px 0''],
    Rule [S ''> *''] [
      Rule [S ''&:last-child''] [
        Decl ''margin'' [S ''20px 0 0 0'']]]]"

definition PWrapper_2 :: styled where
  "PWrapper_2 = Styled (Elem ''div'') [
    Decl ''height'' [S ''fit-content''],
    Decl ''min-width'' [S ''500px''],
    Decl ''width'' [S ''calc(50% - 20px)''],
    Decl ''flex'' [S ''1''],
    Rule [S ''input''] [
      Decl ''display'' [S ''none'']],
    Rule [S ''@media (max-width: '', F (\<lambda>_. styling_at [''cutoffs'', ''initial'']), S '')''] [
      Decl ''min-width'' [S ''0''],
      Decl ''width'' [S ''100%''],
      Decl ''flex'' [S ''none'']]]"

definition FileInputWrapper :: styled where
  "FileInputWrapper = Styled (Elem ''div'') [
    Decl ''width'' [S ''100%''],
    Decl ''position'' [S ''relative'']]"

definition BInput :: styled where
  "BInput = Styled (Elem ''button'') [
    Decl ''height'' [S ''200px''],
    Decl ''width'' [S ''100%''],
    Decl ''background'' [F (\<lambda>p. theme_at p [''colors'', ''container'', ''primary'', ''background''])],
    Decl ''border'' [F (\<lambda>p. ternary (prop_of p ''hasBanner'') (Inr (JStr ''none'')) (tmpl [Inr (JStr ''1px dashed ''), theme_at p [''colors'', ''border'', ''primary'']]))],
    Decl ''border-radius'' [F (\<lambda>_. styling_at [''dimensions'', ''radius'', ''primary''])],
    Decl ''overflow'' [S ''hidden''],
    Rule [S ''span''] [
      Decl ''color'' [F (\<lambda>p. theme_at p [''colors'', ''font'', ''alt1''])],
      Decl ''font-size'' [F (\<lambda>p. theme_at p [''typography'', ''size'', ''xSmall''])],
      Decl ''font-weight'' [F (\<lambda>p. theme_at p [''typography'', ''weight'', ''bold''])]],
    Rule [S ''svg''] [
      Decl ''height'' [S ''35px''],
      Decl ''width'' [S ''35px''],
      Decl ''margin'' [S ''0 0 10px 0''],
      Decl ''color'' [F (\<lambda>p. theme_at p [''colors'', ''icon'', ''primary'', ''fill''])],
      Decl ''fill'' [F (\<lambda>p. theme_at p [''colors'', ''icon'', ''primary'', ''fill''])]],
    Rule [S ''img''] [
      Decl ''height'' [S ''200px''],
      Decl ''width'' [S ''100%''],
      Decl ''object-fit'' [S ''cover'']],
    Rule [S ''&:hover''] [
      Decl ''border'' [S ''1px dashed '', F (\<lambda>p. theme_at p [''colors'', ''border'', ''alt2''])],
      Decl ''background'' [F (\<lambda>p. theme_at p [''colors'', ''container'', ''primary'', ''active''])]],
    Rule [S ''&:focus''] [
      Decl ''opacity'' [S ''1'']],
    Rule [S ''&:disabled''] [
      Decl ''background'' [F (\<lambda>p. theme_at p [''colors'', ''button'', ''primary'', ''disabled'', ''background''])],
      Decl ''border'' [S ''1px dashed '', F (\<lambda>p. theme_at p [''colors'', ''button'', ''primary'', ''disabled'', ''border''])],
      Rule [S ''span''] [
        Decl ''color'' [F (\<lambda>p. theme_at p [''colors'', ''button'', ''primary'', ''disabled'', ''color''])]],
      Rule [S ''svg''] [
        Decl ''fill'' [F (\<lambda>p. theme_at p [''colors'', ''button'', ''primary'', ''disabled'', ''color''])],
        Decl ''color'' [F (\<lambda>p. theme_at p [''colors'', ''button'', ''primary'', ''disabled'', ''color''])],
        Rule [S ''g''] [
          Rule [S ''.svg-primary-fill''] [
            Decl ''fill'' [F (\<lambda>p. theme_at p [''colors'', ''button'', ''primary'', ''disabled'', ''color''])],
            Decl ''color'' [F (\<lambda>p. theme_at p [''colors'', ''button'', ''primary'', ''disabled'', ''color''])]]]]],
    Mixin (\<lambda>p. ternary (js_and (prop_of p ''hasBanner'') (js_not (prop_of p ''disabled''))) (tmpl [Inr (JStr ('' pointer-events: all; ::after { content: '' @ [CHR 0x22, CHR 0x22] @ ''; position: absolute; height: 200px; width: 100%; top: 0; left: 0; right: 0; bottom: 0; background-color: '')), theme_at p [''colors'', ''overlay'', ''alt1''], Inr (JStr ''; border-radius: ''), styling_at [''dimensions'', ''radius'', ''primary''], Inr (JStr ''; opacity: 0; transition: all 100ms; } &:hover::after { opacity: 1; } &:focus::after { opacity: 1; } &:hover { cursor: pointer; border: none; } '')]) (Inr (JStr [])))]"

definition AInput :: styled where
  "AInput = Styled (Elem ''button'') [
    Decl ''height'' [S ''115px''],
    Decl ''width'' [S ''115px''],
    Decl ''background'' [F (\<lambda>p. theme_at p [''colors'', ''container'', ''primary'', ''background''])],
    Decl ''border'' [F (\<lambda>p. ternary (prop_of p ''hasAvatar'') (Inr (JStr ''none'')) (tmpl [Inr (JStr ''1px dashed ''), theme_at p [''colors'', ''border'', ''primary'']]))],
    Decl ''position'' [S ''absolute''],
    Decl ''bottom'' [S ''-55px''],
    Decl ''left'' [S ''20px''],
    Decl ''z-index'' [S ''1''],
    Decl ''overflow'' [S ''hidden''],
    Rule [S ''span''] [
      Decl ''color'' [F (\<lambda>p. theme_at p [''colors'', ''font'', ''alt1''])],
      Decl ''font-size'' [F (\<lambda>p. theme_at p [''typography'', ''size'', ''xxxSmall''])],
      Decl ''font-weight'' [F (\<lambda>p. theme_at p [''typography'', ''weight'', ''bold''])]],
    Rule [S ''svg''] [
      Decl ''height'' [S ''25px''],
      Decl ''width'' [S ''25px''],
      Decl ''margin'' [S ''0 0 5px 0''],
      Decl ''color'' [F (\<lambda>p. theme_at p [''colors'', ''icon'', ''primary'', ''fill''])],
      Decl ''fill'' [F (\<lambda>p. theme_at p [''colors'', ''icon'', ''primary'', ''fill''])]],
    Rule [S ''img''] [
      Decl ''height'' [S ''100%''],
      Decl ''width'' [S ''100%''],
      Decl ''object-fit'' [S ''cover'']],
    Rule [S ''&:hover''] [
      Decl ''border'' [S ''1px dashed '', F (\<lambda>p. theme_at p [''colors'', ''border'', ''alt2''])],
      Decl ''background'' [F (\<lambda>p. theme_at p [''colors'', ''container'', ''primary'', ''active''])]],
    Rule [S ''&:focus''] [
      Decl ''opacity'' [S ''1'']],
    Rule [S ''&:disabled''] [
      Decl ''background'' [F (\<lambda>p. theme_at p [''colors'', ''button'', ''primary'', ''disabled'', ''background''])],
      Decl ''border'' [S ''1px dashed '', F (\<lambda>p. theme_at p [''colors'', ''button'', ''primary'', ''disabled'', ''border''])],
      Rule [S ''span''] [
        Decl ''color'' [F (\<lambda>p. theme_at p [''colors'', ''button'', ''primary'', ''disabled'', ''color''])]],
      Rule [S ''svg''] [
        Decl ''fill'' [F (\<lambda>p. theme_at p [''colors'', ''button'', ''primary'', ''disabled'', ''color''])],
        Decl ''color'' [F (\<lambda>p. theme_at p [''colors'', ''button'', ''primary'', ''disabled'', ''color''])]]],
    Mixin (\<lambda>p. ternary (js_and (prop_of p ''hasAvatar'') (js_not (prop_of p ''disabled''))) (tmpl [Inr (JStr ('' pointer-events: all; ::after { content: '' @ [CHR 0x22, CHR 0x22] @ ''; position: absolute; height: 100%; width: 100%; top: 0; left: 0; right: 0; bottom: 0; background-color: '')), theme_at p [''colors'', ''overlay'', ''alt1''], Inr (JStr ''; border-radius: ''), styling_at [''dimensions'', ''radius'', ''primary''], Inr (JStr ''; opacity: 0; transition: all 100ms; } &:hover::after { opacity: 1; } &:focus::after { opacity: 1; } &:hover { cursor: pointer; border: none; } '')]) (Inr (JStr [])))]"

definition PActions :: styled where
  "PActions = Styled (Elem ''div'') [
    Decl ''margin'' [S ''20px 0 0 0''],
    Decl ''display'' [S ''flex''],
    Decl ''justify-content'' [S ''flex-end''],
    Decl ''flex-wrap'' [S ''wrap''],
    Decl ''gap'' [S ''15px''],
    Rule [S ''@media (max-width: '', F (\<lambda>_. styling_at [''cutoffs'', ''secondary'']), S '')''] [
      Decl ''margin'' [S ''80px 0 0 0'']]]"

definition SAction :: styled where
  "SAction = Styled (Elem ''div'') [
    Decl ''width'' [S ''100%''],
    Decl ''display'' [S ''flex''],
    Decl ''justify-content'' [S ''flex-end''],
    Decl ''align-items'' [S ''center''],
    Decl ''flex-wrap'' [S ''wrap''],
    Decl ''gap'' [S ''15px''],
    Decl ''position'' [S ''relative'']]"

definition Wrapper_h :: styled where
  "Wrapper_h = Styled (Elem ''div'') [
    Decl ''height'' [S ''100%''],
    Decl ''display'' [S ''flex''],
    Decl ''position'' [S ''relative''],
    Decl ''animation'' [K ''open'', S '' '', F (\<lambda>_. Inr (JStr transition3))]]"

definition PWrapper_1 :: styled where
  "PWrapper_1 = Styled (Elem ''div'') [
    Decl ''display'' [S ''flex''],
    Decl ''align-items'' [S ''center''],
    Rule [S ''svg''] [
      Decl ''padding'' [S ''2.5px 0 0 0''],
      Decl ''margin'' [S ''2.5px 0 0 0'']]]"

definition Dropdown :: styled where
  "Dropdown = Styled (Elem ''div'') [
    Decl ''max-height'' [S ''65vh''],
    Decl ''width'' [S ''340px''],
    Decl ''max-width'' [S ''75vw''],
    Decl ''padding'' [S ''11.5px 10px''],
    Decl ''position'' [S ''absolute''],
    Decl ''z-index'' [S ''1''],
    Decl ''top'' [S ''47.5px''],
    Decl ''right'' [S ''-1.5px'']]"

definition DHeaderWrapper :: styled where
  "DHeaderWrapper = Styled (Elem ''div'') [
    Decl ''width'' [S ''100%'']]"

definition DHeaderFlex :: styled where
  "DHeaderFlex = Styled (Elem ''div'') [
    Decl ''width'' [S ''100%''],
    Decl ''display'' [S ''flex''],
    Decl ''align-items'' [S ''center''],
    Decl ''gap'' [S ''12.5px''],
    Decl ''padding'' [S ''5px 5px 15px 5px''],
    Decl ''border-bottom'' [S ''1px solid '', F (\<lambda>p. theme_at p [''colors'', ''border'', ''primary''])],
    Rule [S ''svg''] [
      Decl ''padding'' [S ''2.5px 0 0 0''],
      Decl ''margin'' [S ''2.5px 0 0 0'']]]"

definition DHeader :: styled where
  "DHeader = Styled (Elem ''div'') [
    Rule [S ''p''] [
      Decl ''color'' [F (\<lambda>p. theme_at p [''colors'', ''font'', ''primary''])],
      Decl ''font-family'' [F (\<lambda>p. theme_at p [''typography'', ''family'', ''primary''])],
      Decl ''font-size'' [F (\<lambda>p. theme_at p [''typography'', ''size'', ''small''])],
      Decl ''font-weight'' [F (\<lambda>p. theme_at p [''typography'', ''weight'', ''bold''])]]]"

definition DBodyWrapper :: styled where
  "DBodyWrapper = Styled (Elem ''ul'') [
    Decl ''width'' [S ''100%''],
    Decl ''padding'' [S ''10px 0''],
    Decl ''border-bottom'' [S ''1px solid '', F (\<lambda>p. theme_at p [''colors'', ''border'', ''primary''])],
    Rule [S ''li''] [
      Decl ''text-align'' [S ''center''],
      Decl ''height'' [S ''40px''],
      Decl ''display'' [S ''flex''],
      Decl ''align-items'' [S ''center''],
      Decl ''cursor'' [S ''pointer''],
      Decl ''color'' [F (\<lambda>p. theme_at p [''colors'', ''font'', ''primary'']), S '' !important''],
      Decl ''font-size'' [F (\<lambda>p. theme_at p [''typography'', ''size'', ''xxSmall'']), S '' !important''],
      Decl ''font-weight'' [F (\<lambda>p. theme_at p [''typography'', ''weight'', ''bold'']), S '' !important''],
      Decl ''font-family'' [F (\<lambda>p. theme_at p [''typography'', ''family'', ''primary'']), S '' !important''],
      Decl ''border'' [S ''1px solid transparent''],
      Decl ''border-radius'' [F (\<lambda>_. styling_at [''dimensions'', ''radius'', ''primary''])],
      Decl ''transition'' [S ''all 100ms''],
      Decl ''padding'' [S ''0 7.5px''],
      Rule [S ''svg''] [
        Decl ''height'' [S ''16.5px''],
        Decl ''width'' [S ''16.5px''],
        Decl ''margin'' [S ''5.5px 9.5px 0 0''],
        Decl ''color'' [F (\<lambda>p. theme_at p [''colors'', ''font'', ''alt1''])],
        Decl ''fill'' [F (\<lambda>p. theme_at p [''colors'', ''font'', ''alt1''])]],
      Rule [S ''&:hover''] [
        Decl ''color'' [F (\<lambda>p. theme_at p [''colors'', ''font'', ''primary''])],
        Decl ''background'' [F (\<lambda>p. theme_at p [''colors'', ''container'', ''primary'', ''active''])]],
      Rule [S ''a''] [
        Decl ''height'' [S ''100%''],
        Decl ''width'' [S ''100%''],
        Decl ''display'' [S ''flex''],
        Decl ''align-items'' [S ''center''],
        Decl ''border-radius'' [F (\<lambda>_. styling_at [''dimensions'', ''radius'', ''primary''])],
        Rule [S ''&:hover''] [
          Decl ''color'' [F (\<lambda>p. theme_at p [''colors'', ''font'', ''primary''])],
          Decl ''background'' [F (\<lambda>p. theme_at p [''colors'', ''container'', ''primary'', ''active''])]]]]]"

definition DFooterWrapper :: styled where
  "DFooterWrapper = Styled (Extends DBodyWrapper) [
    Decl ''border-bottom'' [S ''none''],
    Decl ''padding'' [S ''10px 0 0 0'']]"

definition ThemeToggleHeader :: styled where
  "ThemeToggleHeader = Styled (Elem ''div'') [
    Decl ''display'' [S ''flex''],
    Decl ''justify-content'' [S ''flex-start''],
    Decl ''padding'' [S ''5px 7.5px''],
    Rule [S ''p''] [
      Decl ''color'' [F (\<lambda>p. theme_at p [''colors'', ''font'', ''primary'']), S '' !important''],
      Decl ''font-size'' [F (\<lambda>p. theme_at p [''typography'', ''size'', ''xxSmall'']), S '' !important''],
      Decl ''font-weight'' [F (\<lambda>p. theme_at p [''typography'', ''weight'', ''bold'']), S '' !important''],
      Decl ''font-family'' [F (\<lambda>p. theme_at p [''typography'', ''family'', ''primary'']), S '' !important''],
      Decl ''border'' [S ''1px solid transparent''],
      Decl ''border-radius'' [F (\<lambda>_. styling_at [''dimensions'', ''radius'', ''primary''])],
      Decl ''transition'' [S ''all 100ms'']],
    Rule [S ''svg''] [
      Decl ''height'' [S ''16.5px''],
      Decl ''width'' [S ''16.5px''],
      Decl ''margin'' [S ''5.5px 9.5px 0 0''],
      Decl ''color'' [F (\<lambda>p. theme_at p [''colors'', ''font'', ''alt1''])],
      Decl ''fill'' [F (\<lambda>p. theme_at p [''colors'', ''font'', ''alt1''])]]]"

definition ThemeToggleBody :: styled where
  "ThemeToggleBody = Styled (Elem ''div'') [
    Decl ''display'' [S ''flex''],
    Decl ''justify-content'' [S ''center''],
    Decl ''padding'' [S ''5px 7.5px''],
    Decl ''margin'' [S ''2.5px 0'']]"

definition Header_8 :: styled where
  "Header_8 = Styled (Elem ''header'') [
    Decl ''height'' [F (\<lambda>_. styling_at [''dimensions'', ''nav'', ''height''])],
    Decl ''width'' [S ''100%''],
    Decl ''position'' [S ''sticky''],
    Decl ''top'' [S ''0''],
    Decl ''z-index'' [S ''4''],
    Decl ''background'' [F (\<lambda>p. theme_at p [''colors'', ''view'', ''background''])],
    Decl ''border-bottom'' [S ''1px solid transparent'']]"

definition Content_3 :: styled where
  "Content_3 = Styled (Elem ''div'') [
    Decl ''height'' [S ''100%''],
    Decl ''width'' [S ''100%''],
    Decl ''max-width'' [F (\<lambda>_. styling_at [''cutoffs'', ''max''])],
    Decl ''padding'' [S ''0 25px''],
    Decl ''margin'' [S ''0 auto''],
    Decl ''display'' [S ''flex''],
    Decl ''align-items'' [S ''center''],
    Decl ''justify-content'' [S ''space-between''],
    Rule [S ''@media (max-width: '', F (\<lambda>_. styling_at [''cutoffs'', ''initial'']), S '')''] [
      Decl ''padding'' [S ''0 15px'']]]"

definition SearchWrapper_2 :: styled where
  "SearchWrapper_2 = Styled (Elem ''form'') [
    Decl ''width'' [S ''510px''],
    Decl ''max-width'' [S ''100%''],
    Decl ''position'' [S ''relative'']]"

definition C1Wrapper :: styled where
  "C1Wrapper = Styled (Elem ''div'') [
    Decl ''width'' [S ''fit-content''],
    Decl ''display'' [S ''flex''],
    Decl ''align-items'' [S ''center''],
    Decl ''gap'' [S ''40px''],
    Rule [S ''@media (max-width: '', F (\<lambda>_. styling_at [''cutoffs'', ''desktop'']), S '')''] [
      Decl ''max-width'' [S ''calc(100% - 60px)'']]]"

definition LogoWrapper :: styled where
  "LogoWrapper = Styled (Elem ''div'') [
    Decl ''margin'' [S ''-5px 0 0 -3.5px''],
    Rule [S ''a''] [
      Decl ''display'' [S ''flex''],
      Decl ''align-items'' [S ''center''],
      Decl ''gap'' [S ''8.5px'']],
    Rule [S ''img''] [
      Decl ''height'' [S ''30px''],
      Decl ''width'' [S ''30px''],
      Decl ''filter'' [S ''invert('', F (\<lambda>p. strict_eq (theme_at p [''scheme'']) (Inr (JStr ''dark''))), S '')''],
      Decl ''padding'' [S ''2.5px 0 0 0''],
      Decl ''margin'' [S ''5.5px 0 0 0'']],
    Rule [S ''p''] [
      Decl ''color'' [F (\<lambda>p. theme_at p [''colors'', ''font'', ''alt1''])],
      Decl ''font-family'' [F (\<lambda>p. theme_at p [''typography'', ''family'', ''primary''])],
      Decl ''font-size'' [F (\<lambda>p. theme_at p [''typography'', ''size'', ''xxSmall''])],
      Decl ''font-weight'' [F (\<lambda>p. theme_at p [''typography'', ''weight'', ''bold''])],
      Decl ''margin'' [S ''10.5px 0 0 7.5px'']],
    Rule [S ''&:hover''] [
      Rule [S ''a''] [
        Rule [S ''p''] [
          Decl ''color'' [F (\<lambda>p. theme_at p [''colors'', ''font'', ''primary''])]]]],
    Rule [S ''@media (max-width: '', F (\<lambda>_. styling_at [''cutoffs'', ''desktop'']), S '')''] [
      Decl ''margin'' [S ''-10px 0 0 -3.5px'']]]"

definition DNavWrapper :: styled where
  "DNavWrapper = Styled (Elem ''div'') [
    Decl ''display'' [S ''flex''],
    Decl ''align-items'' [S ''center''],
    Decl ''gap'' [S ''30px''],
    Rule [S ''@media (max-width: '', F (\<lambda>_. styling_at [''cutoffs'', ''tablet'']), S '')''] [
      Decl ''display'' [S ''none'']]]"

definition DNavLink :: styled where
  "DNavLink = Styled (Elem ''div'') [
    Rule [S ''a''] [
      Decl ''color'' [F (\<lambda>p. ternary (prop_of p ''active'') (theme_at p [''colors'', ''font'', ''primary'']) (theme_at p [''colors'', ''font'', ''alt1'']))],
      Decl ''font-family'' [F (\<lambda>p. theme_at p [''typography'', ''family'', ''primary''])],
      Decl ''font-size'' [F (\<lambda>p. theme_at p [''typography'', ''size'', ''xSmall''])],
      Decl ''letter-spacing'' [S ''0.35px''],
      Decl ''padding'' [S ''0 0 2.5px 0''],
      Decl ''border-bottom'' [S ''2px solid '', F (\<lambda>p. ternary (prop_of p ''active'') (theme_at p [''colors'', ''border'', ''alt4'']) (Inr (JStr ''transparent'')))],
      Rule [S ''&:hover''] [
        Decl ''color'' [F (\<lambda>p. ternary (prop_of p ''active'') (theme_at p [''colors'', ''font'', ''primary'']) (theme_at p [''colors'', ''font'', ''alt1'']))],
        Decl ''font-weight'' [F (\<lambda>p. theme_at p [''typography'', ''weight'', ''medium''])],
        Decl ''border-bottom'' [S ''2px solid '', F (\<lambda>p. ternary (prop_of p ''active'') (theme_at p [''colors'', ''border'', ''alt4'']) (theme_at p [''colors'', ''border'', ''alt2'']))]]]]"

definition ActionsWrapper_3 :: styled where
  "ActionsWrapper_3 = Styled (Elem ''div'') [
    Decl ''display'' [S ''flex''],
    Decl ''align-items'' [S ''center''],
    Decl ''gap'' [S ''20px''],
    Decl ''position'' [S ''relative'']]"

definition DSearchWrapper :: styled where
  "DSearchWrapper = Styled (Elem ''div'') [
    Decl ''position'' [S ''absolute''],
    Decl ''top'' [S ''50%''],
    Decl ''left'' [S ''50%''],
    Decl ''transform'' [S ''translate(-50%, -50%)''],
    Rule [S ''@media (max-width: '', F (\<lambda>_. styling_at [''cutoffs'', ''desktop'']), S '')''] [
      Decl ''display'' [S ''none'']]]"

definition MSearchWrapper :: styled where
  "MSearchWrapper = Styled (Elem ''div'') [
    Decl ''display'' [S ''none''],
    Rule [S ''button''] [
      Decl ''padding'' [S ''3.5px 0 0 0 !important'']],
    Rule [S ''@media (max-width: '', F (\<lambda>_. styling_at [''cutoffs'', ''desktop'']), S '')''] [
      Decl ''display'' [S ''block'']]]"

definition MMenuWrapper :: styled where
  "MMenuWrapper = Styled (Elem ''div'') [
    Decl ''display'' [S ''none''],
    Rule [S ''button''] [
      Decl ''padding'' [S ''3.5px 0 0 0 !important'']],
    Rule [S ''@media (max-width: '', F (\<lambda>_. styling_at [''cutoffs'', ''tablet'']), S '')''] [
      Decl ''display'' [S ''block'']]]"

definition DOperator :: styled where
  "DOperator = Styled (Elem ''div'') [
    Decl ''display'' [S ''flex''],
    Decl ''align-items'' [S ''center''],
    Decl ''height'' [F (\<lambda>_. styling_at [''dimensions'', ''action'', ''height''])],
    Decl ''transition'' [S ''all 100ms''],
    Rule [S ''span''] [
      Decl ''color'' [F (\<lambda>p. theme_at p [''colors'', ''font'', ''primary''])],
      Decl ''font-family'' [F (\<lambda>p. theme_at p [''typography'', ''family'', ''primary''])],
      Decl ''font-size'' [F (\<lambda>p. theme_at p [''typography'', ''size'', ''xxSmall''])],
      Decl ''font-weight'' [F (\<lambda>p. theme_at p [''typography'', ''weight'', ''medium''])]],
    Rule [S ''@media (max-width: '', F (\<lambda>_. styling_at [''cutoffs'', ''desktop'']), S '')''] [
      Decl ''display'' [S ''none'']]]"

definition MSearchContainer :: styled where
  "MSearchContainer = Styled (Elem ''div'') [
    Decl ''max-width'' [S ''calc(100vw - 50px)''],
    Decl ''position'' [S ''absolute''],
    Decl ''top'' [S ''45px''],
    Decl ''right'' [S ''0''],
    Decl ''padding'' [S ''15px 15px 15px 15px''],
    Decl ''border-radius'' [F (\<lambda>_. styling_at [''dimensions'', ''radius'', ''primary'']), S '' !important'']]"

definition MSearchHeader :: styled where
  "MSearchHeader = Styled (Elem ''div'') [
    Decl ''margin'' [S ''0 0 10px 0''],
    Rule [S ''p''] [
      Decl ''color'' [F (\<lambda>p. theme_at p [''colors'', ''font'', ''alt1''])],
      Decl ''font-family'' [F (\<lambda>p. theme_at p [''typography'', ''family'', ''primary''])],
      Decl ''font-size'' [F (\<lambda>p. theme_at p [''typography'', ''size'', ''small''])],
      Decl ''font-weight'' [F (\<lambda>p. theme_at p [''typography'', ''weight'', ''bold''])],
      Decl ''text-transform'' [S ''uppercase'']]]"

definition PWrapper :: styled where
  "PWrapper = Styled (Elem ''div'') [
    Decl ''height'' [S ''calc(100dvh - 15px)''],
    Decl ''width'' [S ''400px''],
    Decl ''max-width'' [S ''85vw''],
    Decl ''position'' [S ''fixed''],
    Decl ''top'' [S ''10px''],
    Decl ''right'' [S ''10px''],
    Decl ''transition'' [S ''width 50ms ease-out''],
    Decl ''animation'' [K ''openRight'', S '' 200ms'']]"

definition PMenu :: styled where
  "PMenu = Styled (Elem ''div'') []"

definition PHeader :: styled where
  "PHeader = Styled (Elem ''div'') [
    Decl ''width'' [S ''100%''],
    Decl ''display'' [S ''flex''],
    Decl ''align-items'' [S ''center''],
    Decl ''justify-content'' [S ''space-between''],
    Decl ''padding'' [S ''10px 15px''],
    Decl ''border-bottom'' [S ''1px solid '', F (\<lambda>p. theme_at p [''colors'', ''border'', ''primary''])],
    Rule [S ''svg''] [
      Decl ''fill'' [F (\<lambda>p. theme_at p [''colors'', ''icon'', ''primary'', ''fill''])]],
    Rule [S ''h4''] [
      Decl ''font-size'' [F (\<lambda>p. theme_at p [''typography'', ''size'', ''lg''])]]]"

definition MNavWrapper :: styled where
  "MNavWrapper = Styled (Elem ''div'') [
    Decl ''display'' [S ''flex''],
    Decl ''flex-direction'' [S ''column''],
    Rule [S ''a''] [
      Decl ''color'' [F (\<lambda>p. theme_at p [''colors'', ''font'', ''primary''])],
      Decl ''font-family'' [F (\<lambda>p. theme_at p [''typography'', ''family'', ''primary''])],
      Decl ''font-size'' [F (\<lambda>p. theme_at p [''typography'', ''size'', ''small''])],
      Decl ''font-weight'' [F (\<lambda>p. theme_at p [''typography'', ''weight'', ''medium''])],
      Decl ''padding'' [S ''15px''],
      Rule [S ''&:hover''] [
        Decl ''color'' [F (\<lambda>p. theme_at p [''colors'', ''font'', ''primary''])],
        Decl ''background'' [F (\<lambda>p. theme_at p [''colors'', ''container'', ''primary'', ''active''])]]],
    Rule [S ''> *''] [
      Decl ''border-bottom'' [S ''1px solid '', F (\<lambda>p. theme_at p [''colors'', ''border'', ''primary''])]]]"

section \<open>Soundness\<close>

text \<open>
  Whatever the palette, no template of the list throws, and with every attribute
  given no declaration is left without a value.
\<close>

definition shell_styles :: "styled list" where
  "shell_styles = [
    Wrapper_l, MessageWrapper, Icon_2, Message_1, Close, Wrapper_k, Label,
    TextArea_1, ErrorContainer, Error_1, Wrapper_j, Icon_1, Wrapper_i, Body_1, Form,
    TForm, PWrapper_2, FileInputWrapper, BInput, AInput, PActions, SAction,
    Wrapper_h, PWrapper_1, Dropdown, DHeaderWrapper, DHeaderFlex, DHeader,
    DBodyWrapper, DFooterWrapper, ThemeToggleHeader, ThemeToggleBody, Header_8,
    Content_3, SearchWrapper_2, C1Wrapper, LogoWrapper, DNavWrapper, DNavLink,
    ActionsWrapper_3, DSearchWrapper, MSearchWrapper, MMenuWrapper, DOperator,
    MSearchContainer, MSearchHeader, PWrapper, PMenu, PHeader, MNavWrapper]"

lemmas shell_styles_defs =
  Wrapper_l_def MessageWrapper_def Icon_2_def Message_1_def Close_def Wrapper_k_def
  Label_def TextArea_1_def ErrorContainer_def Error_1_def Wrapper_j_def Icon_1_def
  Wrapper_i_def Body_1_def Form_def TForm_def PWrapper_2_def FileInputWrapper_def
  BInput_def AInput_def PActions_def SAction_def Wrapper_h_def PWrapper_1_def
  Dropdown_def DHeaderWrapper_def DHeaderFlex_def DHeader_def DBodyWrapper_def
  DFooterWrapper_def ThemeToggleHeader_def ThemeToggleBody_def Header_8_def
  Content_3_def SearchWrapper_2_def C1Wrapper_def LogoWrapper_def DNavWrapper_def
  DNavLink_def ActionsWrapper_3_def DSearchWrapper_def MSearchWrapper_def
  MMenuWrapper_def DOperator_def MSearchContainer_def MSearchHeader_def PWrapper_def
  PMenu_def PHeader_def MNavWrapper_def

lemma shell_styles_run:
  assumes "sized a"
  shows "list_all (runs (themed pal a)) shell_styles"
  using assms by (elim sizedE)
    (simp add: shell_styles_def shell_styles_defs theme_lookups missing_lookups no_throw_if)

lemma shell_styles_resolve:
  assumes "given a"
  shows "list_all (resolves (themed pal a)) shell_styles"
  using given_sized [OF assms] by (elim sizedE)
    (simp add: shell_styles_def shell_styles_defs theme_lookups missing_lookups no_throw_if resolved_if
      given_simps [OF assms])

end
