(* ===== verification/Styles_Global.thy ===== *)
theory Styles_Global
  imports Theme
begin

text \<open>
  The styled components of the global style sheet, the application frame, the documentation pages and the request playground
  (\<open>src/html/hyperbuddy@1.0/bundle.js\<close>, lines 2900 to 3820), in the order of the
  bundle. A component is named as its variable there, with \<open>_\<close> for \<open>$\<close>.
\<close>

section \<open>Templates\<close>

definition GlobalStyle_part1 :: "css list" where
  "GlobalStyle_part1 = [
    Rule [S ''@font-face''] [
      Decl ''font-family'' [S ([CHR 0x27] @ ''DM Sans'' @ [CHR 0x27])],
      Decl ''src'' [S ''url('', A ''DMSansVariable'', S '') format('truetype')''],
      Decl ''font-weight'' [S ''100 900''],
      Decl ''font-style'' [S ''normal''],
      Decl ''font-display'' [S ''swap'']],
    Rule [S ''@font-face''] [
      Decl ''font-family'' [S ([CHR 0x27] @ ''DM Sans'' @ [CHR 0x27])],
      Decl ''src'' [S ''url('', A ''DMSansItalicVariable'', S '') format('truetype')''],
      Decl ''font-weight'' [S ''100 900''],
      Decl ''font-style'' [S ''italic''],
      Decl ''font-display'' [S ''swap'']],
    Rule [S ''@font-face''] [
      Decl ''font-family'' [S ([CHR 0x27] @ ''Geist Mono'' @ [CHR 0x27])],
      Decl ''src'' [S ''url('', A ''GeistMonoVariable'', S '') format('truetype')''],
      Decl ''font-weight'' [S ''100 900''],
      Decl ''font-style'' [S ''normal''],
      Decl ''font-display'' [S ''swap'']],
    Rule [S ''html, body, div, span, applet, object, iframe, h1, h2, h3, h4, h5, h6, p, blockquote, pre, a, abbr, acronym, address, big, cite, code, del, dfn, em, img, ins, kbd, q, s, samp, small, strike, strong, sub, sup, tt, var, b, u, i, center, dl, dt, dd, ol, ul, li, fieldset, form, label, legend, caption, tbody, tfoot, thead, tr, th, td, article, aside, canvas, details, embed, figure, figcaption, footer, header, hgroup, menu, nav, output, ruby, section, summary, time, mark, audio, video''] [
      Decl ''margin'' [S ''0''],
      Decl ''padding'' [S ''0''],
      Decl ''border'' [S ''0''],
      Decl ''font'' [S ''inherit''],
      Decl ''vertical-align'' [S ''baseline'']],
    Rule [S ''article, aside, details, figcaption, figure, footer, header, hgroup, menu, nav, section''] [
      Decl ''display'' [S ''block'']],
    Rule [S ''body''] [
      Decl ''overflow-x'' [S ''hidden''],
      Decl ''background'' [F (\<lambda>p. theme_at p [''colors'', ''view'', ''background''])]],
    Rule [S ''ol, ul''] [
      Decl ''list-style'' [S ''none'']],
    Rule [S ''blockquote, q''] [
      Decl ''quotes'' [S ''none'']],
    Rule [S ''blockquote:before, blockquote:after, q:before, q:after''] [
      Decl ''content'' [S ''none'']],
    Rule [S ''*''] [
      Decl ''box-sizing'' [S ''border-box'']],
    Rule [S ''html, body''] [
      Decl ''margin'' [S ''0''],
      Decl ''color-scheme'' [F (\<lambda>p. theme_at p [''scheme''])],
      Decl ''font-family'' [F (\<lambda>p. theme_at p [''typography'', ''family'', ''primary''])],
      Decl ''font-weight'' [F (\<lambda>p. theme_at p [''typography'', ''weight'', ''medium''])],
      Decl ''color'' [F (\<lambda>p. theme_at p [''colors'', ''font'', ''primary''])],
      Decl ''line-height'' [S ''1.5''],
      Decl ''letter-spacing'' [S ''0.15px''],
      Decl ''-webkit-font-smoothing'' [S ''antialiased''],
      Decl ''-moz-osx-font-smoothing'' [S ''grayscale''],
      Decl ''box-sizing'' [S ''border-box''],
      Decl ''scrollbar-color'' [F (\<lambda>p. theme_at p [''colors'', ''scrollbar'', ''thumb'']), S '' '', F (\<lambda>p. theme_at p [''colors'', ''scrollbar'', ''track''])],
      Rule [S ''::-webkit-scrollbar-track''] [
        Decl ''background'' [F (\<lambda>p. theme_at p [''colors'', ''scrollbar'', ''track''])]],
      Rule [S ''::-webkit-scrollbar''] [
        Decl ''width'' [S ''15px''],
        Decl ''border-left'' [S ''1px solid '', F (\<lambda>p. theme_at p [''colors'', ''border'', ''primary''])]],
      Rule [S ''::-webkit-scrollbar-thumb''] [
        Decl ''background-color'' [F (\<lambda>p. theme_at p [''colors'', ''scrollbar'', ''thumb''])],
        Decl ''border'' [S ''3.5px solid transparent''],
        Decl ''background-clip'' [S ''padding-box'']]]]"

definition GlobalStyle_part2 :: "css list" where
  "GlobalStyle_part2 = [
    Rule [S ''h1, h2, h3, h4, h5, h6''] [
      Decl ''font-family'' [F (\<lambda>p. theme_at p [''typography'', ''family'', ''primary''])],
      Decl ''font-weight'' [F (\<lambda>p. theme_at p [''typography'', ''weight'', ''bold''])],
      Decl ''color'' [F (\<lambda>p. theme_at p [''colors'', ''font'', ''primary''])],
      Decl ''overflow-wrap'' [S ''anywhere''],
      Decl ''line-height'' [S ''1.25'']],
    Rule [S ''h1''] [
      Decl ''font-size'' [F (\<lambda>p. theme_at p [''typography'', ''size'', ''h1''])]],
    Rule [S ''h2''] [
      Decl ''font-size'' [F (\<lambda>p. theme_at p [''typography'', ''size'', ''h2''])]],
    Rule [S ''h4''] [
      Decl ''font-size'' [F (\<lambda>p. theme_at p [''typography'', ''size'', ''h4''])]],
    Rule [S ''button''] [
      Decl ''padding'' [S ''0''],
      Decl ''margin'' [S ''0''],
      Decl ''border'' [S ''none''],
      Decl ''background'' [S ''transparent''],
      Rule [S ''&:hover''] [
        Decl ''cursor'' [S ''pointer'']],
      Rule [S ''&:disabled''] [
        Decl ''cursor'' [S ''default'']]],
    Rule [S ''a''] [
      Decl ''color'' [F (\<lambda>p. theme_at p [''colors'', ''link'', ''color''])],
      Decl ''text-decoration'' [S ''none''],
      Rule [S ''&:hover''] [
        Decl ''color'' [F (\<lambda>p. theme_at p [''colors'', ''link'', ''active''])]]],
    Rule [S ''input, textarea''] [
      Decl ''box-shadow'' [S ''none''],
      Decl ''-webkit-appearance'' [S ''none''],
      Decl ''-moz-appearance'' [S ''none''],
      Decl ''appearance'' [S ''none''],
      Decl ''background-color'' [S ''transparent''],
      Decl ''margin'' [S ''0''],
      Decl ''padding'' [S ''10px''],
      Rule [S ''&:focus''] [
        Decl ''outline'' [S ''0'']],
      Rule [S ''&:disabled''] [
        Decl ''cursor'' [S ''default'']]],
    Rule [S ''textarea''] [
      Decl ''resize'' [S ''none'']],
    Rule [S ''label''] [
      Decl ''cursor'' [S ''text'']],
    Rule [S ''b, strong''] [
      Decl ''font-weight'' [F (\<lambda>p. theme_at p [''typography'', ''weight'', ''bold''])]],
    Rule [S ''.border-wrapper-primary''] [
      Decl ''background'' [F (\<lambda>p. theme_at p [''colors'', ''container'', ''primary'', ''background''])],
      Decl ''border'' [S ''1px solid '', F (\<lambda>p. theme_at p [''colors'', ''border'', ''primary''])],
      Decl ''border-radius'' [F (\<lambda>_. styling_at [''dimensions'', ''radius'', ''primary''])]],
    Rule [S ''.border-wrapper-alt1''] [
      Decl ''background'' [F (\<lambda>p. theme_at p [''colors'', ''container'', ''primary'', ''background''])],
      Decl ''box-shadow'' [S ''0 2.5px 7.5px 0 '', F (\<lambda>p. theme_at p [''colors'', ''shadow'', ''primary''])],
      Decl ''border'' [S ''1px solid '', F (\<lambda>p. theme_at p [''colors'', ''border'', ''primary''])],
      Decl ''border-radius'' [F (\<lambda>_. styling_at [''dimensions'', ''radius'', ''primary''])]],
    Rule [S ''.border-wrapper-alt2''] [
      Decl ''background'' [F (\<lambda>p. theme_at p [''colors'', ''container'', ''primary'', ''background''])],
      Decl ''border'' [S ''1px solid '', F (\<lambda>p. theme_at p [''colors'', ''border'', ''primary''])],
      Decl ''border-radius'' [F (\<lambda>_. styling_at [''dimensions'', ''radius'', ''primary''])]],
    Rule [S ''.border-wrapper-alt3''] [
      Decl ''border'' [S ''1px solid '', F (\<lambda>p. theme_at p [''colors'', ''border'', ''primary''])],
      Decl ''border-radius'' [F (\<lambda>_. styling_at [''dimensions'', ''radius'', ''primary''])],
      Decl ''background'' [F (\<lambda>p. tmpl [theme_at p [''colors'', ''container'', ''alt1'', ''background''], Inr (JStr ''95'')]), S '' !important''],
      Decl ''backdrop-filter'' [S ''blur(7.5px)'']],
    Rule [S ''.border-wrapper-alt4''] [
      Decl ''background'' [F (\<lambda>p. theme_at p [''colors'', ''container'', ''alt1'', ''background''])],
      Decl ''border'' [S ''1px solid '', F (\<lambda>p. theme_at p [''colors'', ''border'', ''primary''])],
      Decl ''border-radius'' [F (\<lambda>_. styling_at [''dimensions'', ''radius'', ''primary''])]]]"

definition GlobalStyle_part3 :: "css list" where
  "GlobalStyle_part3 = [
    Rule [S ''.max-view-wrapper''] [
      Decl ''width'' [S ''100%''],
      Decl ''max-width'' [F (\<lambda>_. styling_at [''cutoffs'', ''max''])],
      Decl ''margin'' [S ''0 auto'']],
    Rule [S ''.modal-wrapper''] [
      Decl ''padding'' [S ''0 20px 20px 20px !important'']],
    Rule [S ''.info''] [
      Decl ''padding'' [S ''0 5px 0.5px 5px !important''],
      Decl ''background'' [F (\<lambda>p. theme_at p [''colors'', ''contrast'', ''background'']), S '' !important''],
      Decl ''border'' [S ''1px solid '', F (\<lambda>p. theme_at p [''colors'', ''border'', ''alt2'']), S '' !important''],
      Decl ''border-radius'' [F (\<lambda>_. styling_at [''dimensions'', ''radius'', ''primary'']), S '' !important''],
      Decl ''animation'' [K ''open'', S '' '', F (\<lambda>_. Inr (JStr transition2)), S '' !important''],
      Rule [S ''span''] [
        Decl ''color'' [F (\<lambda>p. theme_at p [''colors'', ''contrast'', ''color'']), S '' !important''],
        Decl ''font-size'' [F (\<lambda>p. theme_at p [''typography'', ''size'', ''xxxSmall'']), S '' !important''],
        Decl ''font-weight'' [F (\<lambda>p. theme_at p [''typography'', ''weight'', ''bold'']), S '' !important''],
        Decl ''white-space'' [S ''nowrap !important'']]],
    Rule [S ''.update-wrapper''] [
      Decl ''width'' [S ''fit-content''],
      Decl ''padding'' [S ''2.5px 40px''],
      Decl ''display'' [S ''flex''],
      Decl ''align-items'' [S ''center''],
      Decl ''justify-content'' [S ''center''],
      Decl ''background'' [F (\<lambda>p. theme_at p [''colors'', ''container'', ''alt8'', ''background''])],
      Decl ''border'' [S ''1px solid '', F (\<lambda>p. theme_at p [''colors'', ''border'', ''alt4''])],
      Decl ''border-radius'' [F (\<lambda>_. styling_at [''dimensions'', ''radius'', ''primary''])],
      Rule [S ''span''] [
        Decl ''font-size'' [F (\<lambda>p. theme_at p [''typography'', ''size'', ''xxSmall''])],
        Decl ''font-family'' [F (\<lambda>p. theme_at p [''typography'', ''family'', ''primary''])],
        Decl ''font-weight'' [F (\<lambda>p. theme_at p [''typography'', ''weight'', ''bold''])],
        Decl ''color'' [F (\<lambda>p. theme_at p [''colors'', ''font'', ''light1''])],
        Decl ''text-align'' [S ''center'']]],
    Rule [S ''.overlay''] [
      Decl ''min-height'' [S ''100vh''],
      Decl ''height'' [S ''100%''],
      Decl ''width'' [S ''100%''],
      Decl ''position'' [S ''fixed''],
      Decl ''z-index'' [S ''11''],
      Decl ''top'' [S ''0''],
      Decl ''left'' [S ''0''],
      Decl ''background'' [F (\<lambda>p. theme_at p [''colors'', ''overlay'', ''primary''])]],
    Rule [S ''.app-loader''] [
      Decl ''display'' [S ''flex''],
      Decl ''flex-direction'' [S ''column''],
      Decl ''justify-content'' [S ''center''],
      Decl ''align-items'' [S ''center''],
      Decl ''position'' [S ''absolute''],
      Decl ''top'' [S ''50%''],
      Decl ''left'' [S ''50%''],
      Decl ''transform'' [S ''translate(-50%, -50%)''],
      Decl ''animation'' [K ''open'', S '' '', F (\<lambda>_. Inr (JStr transition2))],
      Rule [S ''svg''] [
        Decl ''height'' [S ''auto''],
        Decl ''width'' [S ''50px''],
        Decl ''fill'' [F (\<lambda>p. theme_at p [''colors'', ''font'', ''primary''])]]],
    Rule [S ''.fade-in''] [
      Decl ''animation'' [K ''open'', S '' '', F (\<lambda>_. Inr (JStr transition1))]],
    Rule [S ''.scroll-wrapper''] [
      Decl ''overflow'' [S ''auto''],
      Decl ''scrollbar-color'' [S ''transparent transparent''],
      Rule [S ''::-webkit-scrollbar''] [
        Decl ''width'' [S ''12.5px'']],
      Rule [S ''::-webkit-scrollbar-thumb''] [
        Decl ''background-color'' [S ''transparent'']],
      Rule [S ''&:hover''] [
        Decl ''scrollbar-color'' [F (\<lambda>p. theme_at p [''colors'', ''scrollbar'', ''thumb'']), S '' transparent''],
        Rule [S ''::-webkit-scrollbar-thumb''] [
          Decl ''background-color'' [F (\<lambda>p. theme_at p [''colors'', ''scrollbar'', ''thumb''])]]]],
    Rule [S ''.scroll-wrapper-hidden''] [
      Decl ''overflow'' [S ''auto''],
      Rule [S ''::-webkit-scrollbar''] [
        Decl ''display'' [S ''none'']],
      Decl ''-ms-overflow-style'' [S ''none''],
      Decl ''scrollbar-width'' [S ''none'']]]"

definition GlobalStyle :: styled where
  "GlobalStyle = Styled Global (GlobalStyle_part1 @ GlobalStyle_part2 @ GlobalStyle_part3)"

definition App_1 :: styled where
  "App_1 = Styled (Elem ''div'') [
    Decl ''min-height'' [S ''100vh''],
    Decl ''position'' [S ''relative''],
    Decl ''display'' [S ''flex''],
    Decl ''flex-direction'' [S ''column'']]"

definition View :: styled where
  "View = Styled (Elem ''main'') [
    Decl ''min-height'' [S ''calc(100vh - '', F (\<lambda>_. styling_at [''dimensions'', ''nav'', ''height'']), S '')''],
    Decl ''width'' [S ''100%''],
    Decl ''position'' [S ''relative''],
    Decl ''padding'' [S ''0px 0 20px 0''],
    Decl ''margin'' [S ''0 auto''],
    Decl ''display'' [S ''flex''],
    Decl ''flex-direction'' [S ''column'']]"

definition ViewWrapper :: styled where
  "ViewWrapper = Styled (Elem ''div'') [
    Decl ''width'' [S ''100%''],
    Decl ''max-width'' [F (\<lambda>_. styling_at [''cutoffs'', ''max''])],
    Decl ''padding'' [S ''0 25px''],
    Decl ''margin'' [S ''0 auto''],
    Rule [S ''@media (max-width: '', F (\<lambda>_. styling_at [''cutoffs'', ''initial'']), S '')''] [
      Decl ''padding'' [S ''0 15px'']]]"

definition MetricTabWrapper :: styled where
  "MetricTabWrapper = Styled (Elem ''div'') [
    Decl ''width'' [S ''100%''],
    Decl ''max-width'' [F (\<lambda>_. styling_at [''cutoffs'', ''max''])],
    Decl ''padding'' [S ''0 25px''],
    Decl ''margin'' [S ''0 auto''],
    Rule [S ''@media (max-width: '', F (\<lambda>_. styling_at [''cutoffs'', ''initial'']), S '')''] [
      Decl ''padding'' [S ''0 15px'']]]"

definition Footer :: styled where
  "Footer = Styled (Elem ''footer'') [
    Decl ''width'' [S ''100%''],
    Decl ''display'' [S ''flex''],
    Decl ''gap'' [S ''15px''],
    Decl ''align-items'' [S ''center''],
    Decl ''justify-content'' [S ''space-between''],
    Decl ''height'' [F (\<lambda>_. styling_at [''dimensions'', ''footer'', ''height''])],
    Decl ''padding'' [S ''0 0 20px 0''],
    Rule [S ''p''] [
      Decl ''font-size'' [F (\<lambda>p. theme_at p [''typography'', ''size'', ''xxSmall''])],
      Decl ''font-family'' [F (\<lambda>p. theme_at p [''typography'', ''family'', ''primary''])],
      Decl ''font-weight'' [F (\<lambda>p. theme_at p [''typography'', ''weight'', ''bold''])],
      Decl ''color'' [F (\<lambda>p. theme_at p [''colors'', ''font'', ''alt2''])]],
    Rule [S ''a''] [
      Decl ''font-size'' [F (\<lambda>p. theme_at p [''typography'', ''size'', ''xxSmall''])],
      Decl ''font-family'' [F (\<lambda>p. theme_at p [''typography'', ''family'', ''primary''])],
      Decl ''font-weight'' [F (\<lambda>p. theme_at p [''typography'', ''weight'', ''bold''])],
      Decl ''color'' [F (\<lambda>p. theme_at p [''colors'', ''font'', ''primary''])],
      Decl ''text-decoration'' [S ''underline''],
      Decl ''text-decoration-thickness'' [S ''1.25px''],
      Rule [S ''&:hover''] [
        Decl ''color'' [F (\<lambda>p. theme_at p [''colors'', ''link'', ''color'']), S '' !important'']]],
    Rule [S ''@media (max-width: '', F (\<lambda>_. styling_at [''cutoffs'', ''desktop'']), S '')''] [
      Decl ''padding'' [S ''20px 0'']]]"

definition NWrapper :: styled where
  "NWrapper = Styled (Elem ''div'') [
    Decl ''height'' [S ''100vh''],
    Decl ''width'' [F (\<lambda>_. styling_at [''dimensions'', ''nav'', ''width''])],
    Decl ''position'' [S ''fixed''],
    Decl ''top'' [S ''0''],
    Decl ''left'' [S ''0''],
    Decl ''z-index'' [S ''4''],
    Decl ''background'' [F (\<lambda>p. theme_at p [''colors'', ''container'', ''alt1'', ''background''])],
    Decl ''border-right'' [S ''1px solid '', F (\<lambda>p. theme_at p [''colors'', ''border'', ''primary''])],
    Rule [S ''@media (max-width: '', F (\<lambda>_. styling_at [''cutoffs'', ''initial'']), S '')''] [
      Decl ''height'' [S ''auto''],
      Decl ''width'' [S ''100%''],
      Decl ''position'' [S ''absolute'']]]"

definition NContent :: styled where
  "NContent = Styled (Elem ''div'') [
    Decl ''height'' [S ''100%''],
    Decl ''width'' [S ''100%''],
    Decl ''z-index'' [S ''1''],
    Decl ''padding'' [S ''15px 20px''],
    Rule [S ''@media (max-width: '', F (\<lambda>_. styling_at [''cutoffs'', ''initial'']), S '')''] [
      Decl ''position'' [S ''relative''],
      Decl ''top'' [S ''auto''],
      Decl ''padding'' [S ''0 15px''],
      Decl ''max-height'' [S ''none''],
      Decl ''background'' [F (\<lambda>p. theme_at p [''colors'', ''container'', ''alt3'', ''background''])],
      Decl ''border'' [S ''1px solid '', F (\<lambda>p. theme_at p [''colors'', ''border'', ''primary''])],
      Decl ''border-radius'' [F (\<lambda>_. styling_at [''dimensions'', ''radius'', ''primary''])]]]"

definition NTitle :: styled where
  "NTitle = Styled (Elem ''div'') [
    Decl ''width'' [S ''100%''],
    Decl ''display'' [S ''flex''],
    Decl ''justify-content'' [S ''flex-start''],
    Decl ''align-items'' [S ''center''],
    Decl ''margin'' [S ''0 0 20px 0''],
    Rule [S ''p''] [
      Decl ''font-family'' [F (\<lambda>p. theme_at p [''typography'', ''family'', ''primary''])],
      Decl ''font-size'' [S ''22px !important''],
      Decl ''font-weight'' [F (\<lambda>p. theme_at p [''typography'', ''weight'', ''bold'']), S '' !important''],
      Decl ''color'' [F (\<lambda>p. theme_at p [''colors'', ''font'', ''primary'']), S '' !important'']]]"

definition NTitleMobile :: styled where
  "NTitleMobile = Styled (Elem ''button'') [
    Decl ''height'' [S ''50px''],
    Decl ''width'' [S ''100%''],
    Decl ''display'' [S ''flex''],
    Decl ''justify-content'' [S ''space-between''],
    Decl ''align-items'' [S ''center''],
    Rule [S ''&:hover''] [
      Decl ''cursor'' [S ''pointer'']],
    Rule [S ''&:focus''] [
      Decl ''outline'' [S ''0'']],
    Rule [S ''@media (max-width: '', F (\<lambda>_. styling_at [''cutoffs'', ''initial'']), S '')''] [
      Decl ''height'' [S ''40px'']],
    Rule [S ''p''] [
      Decl ''font-family'' [F (\<lambda>p. theme_at p [''typography'', ''family'', ''primary''])],
      Decl ''font-size'' [F (\<lambda>p. theme_at p [''typography'', ''size'', ''small'']), S '' !important''],
      Decl ''font-weight'' [F (\<lambda>p. theme_at p [''typography'', ''weight'', ''bold'']), S '' !important''],
      Decl ''color'' [F (\<lambda>p. theme_at p [''colors'', ''font'', ''primary'']), S '' !important'']],
    Rule [S ''svg''] [
      Decl ''height'' [S ''12.5px''],
      Decl ''width'' [S ''12.5px''],
      Decl ''margin'' [S ''3.5px 0 0 0''],
      Decl ''transform'' [S ''rotate('', F (\<lambda>p. ternary (prop_of p ''open'') (Inr (JStr ''180deg'')) (Inr (JStr ''0deg''))), S '')''],
      Decl ''fill'' [F (\<lambda>p. theme_at p [''colors'', ''font'', ''primary''])],
      Decl ''color'' [F (\<lambda>p. theme_at p [''colors'', ''font'', ''primary''])]]]"

definition NList :: styled where
  "NList = Styled (Elem ''ul'') [
    Decl ''width'' [S ''100%''],
    Decl ''overflow'' [S ''auto''],
    Decl ''display'' [S ''flex''],
    Decl ''flex-direction'' [S ''column''],
    Decl ''gap'' [S ''20px''],
    Rule [S ''a''] [
      Decl ''width'' [S ''fit-content''],
      Decl ''text-decoration'' [S ''none''],
      Decl ''display'' [S ''block''],
      Rule [S ''&:hover''] [
        Decl ''color'' [F (\<lambda>p. theme_at p [''colors'', ''font'', ''alt1'']), S '' !important'']]]]"

definition NListItem :: styled where
  "NListItem = Styled (Elem ''li'') [
    Decl ''pointer-events'' [F (\<lambda>p. ternary (prop_of p ''disabled'') (Inr (JStr ''none'')) (Inr (JStr ''default'')))],
    Decl ''text-align'' [S ''center''],
    Decl ''display'' [S ''flex''],
    Decl ''align-items'' [S ''center''],
    Decl ''cursor'' [S ''pointer''],
    Decl ''font-size'' [F (\<lambda>p. theme_at p [''typography'', ''size'', ''xSmall''])],
    Decl ''color'' [F (\<lambda>p. ternary (prop_of p ''active'') (theme_at p [''colors'', ''font'', ''alt5'']) (theme_at p [''colors'', ''font'', ''alt1'']))],
    Decl ''font-weight'' [F (\<lambda>p. theme_at p [''typography'', ''weight'', ''bold''])],
    Decl ''margin'' [S ''0 0 7.5px 0''],
    Decl ''line-height'' [S ''1.75''],
    Decl ''text-align'' [S ''left''],
    Decl ''border-radius'' [F (\<lambda>_. styling_at [''dimensions'', ''radius'', ''primary''])],
    Decl ''background'' [S ''transparent''],
    Rule [S ''&:hover''] [
      Decl ''color'' [F (\<lambda>p. ternary (prop_of p ''active'') (theme_at p [''colors'', ''font'', ''alt5'']) (theme_at p [''colors'', ''font'', ''primary'']))]]]"

definition NGroup :: styled where
  "NGroup = Styled (Elem ''div'') []"

definition NSubHeader :: styled where
  "NSubHeader = Styled (Extends NTitle) [
    Decl ''height'' [S ''auto''],
    Decl ''justify-content'' [S ''flex-start''],
    Decl ''font-size'' [F (\<lambda>p. theme_at p [''typography'', ''size'', ''small''])],
    Decl ''border-top-left-radius'' [S ''0''],
    Decl ''border-top-right-radius'' [S ''0''],
    Decl ''margin'' [S ''0 0 10px 0''],
    Rule [S ''p''] [
      Decl ''font-family'' [F (\<lambda>p. theme_at p [''typography'', ''family'', ''primary''])],
      Decl ''font-size'' [F (\<lambda>p. theme_at p [''typography'', ''size'', ''small'']), S '' !important''],
      Decl ''color'' [F (\<lambda>p. theme_at p [''colors'', ''font'', ''primary'']), S '' !important'']]]"

definition NSubList :: styled where
  "NSubList = Styled (Elem ''div'') [
    Decl ''padding'' [S ''0 0 0 15px''],
    Decl ''border-left'' [S ''1px solid '', F (\<lambda>p. theme_at p [''colors'', ''border'', ''primary''])]]"

definition Wrapper_g :: styled where
  "Wrapper_g = Styled (Elem ''div'') [
    Decl ''width'' [F (\<lambda>p. ternary (prop_of p ''isView'') (tmpl [Inr (JStr ''calc(100% - ''), styling_at [''dimensions'', ''nav'', ''width''], Inr (JStr '')'')]) (Inr (JStr ''100%'')))],
    Decl ''padding'' [F (\<lambda>p. ternary (prop_of p ''isView'') (Inr (JStr ''20px 40px 20px 30px'')) (Inr (JStr ''0'')))],
    Decl ''animation'' [K ''open'', S '' '', F (\<lambda>_. Inr (JStr transition2))],
    Decl ''margin'' [S ''0 0 0 auto''],
    Rule [S ''@media (max-width: '', F (\<lambda>_. styling_at [''cutoffs'', ''initial'']), S '')''] [
      Decl ''width'' [S ''100%''],
      Decl ''padding'' [S ''20px''],
      Decl ''margin'' [S ''50px 0 0 0'']],
    Rule [S ''h1, h2, h3, h4, h5, h6''] [
      Decl ''font-size'' [S ''clamp(32px, 3.75vw, 44px) !important''],
      Decl ''font-weight'' [F (\<lambda>p. theme_at p [''typography'', ''weight'', ''bold'']), S '' !important''],
      Decl ''font-family'' [F (\<lambda>p. theme_at p [''typography'', ''family'', ''primary'']), S '' !important''],
      Decl ''color'' [F (\<lambda>p. theme_at p [''colors'', ''font'', ''primary'']), S '' !important''],
      Decl ''margin'' [S ''0 0 5px 0''],
      Decl ''padding'' [S ''0 0 2.5px 0'']],
    Rule [S ''h3, h4, h5, h6''] [
      Decl ''margin'' [S ''50px 0 10px 0'']],
    Rule [S ''h2''] [
      Decl ''font-size'' [S ''clamp(22px, 3.15vw, 38px) !important''],
      Decl ''scroll-margin-top'' [S ''100px''],
      Rule [S ''a''] [
        Decl ''font-size'' [S ''clamp(22px, 3.05vw, 34px) !important'']]],
    Rule [S ''h3, h4, h5''] [
      Decl ''font-size'' [S ''clamp(18px, 2.5vw, 28px) !important'']],
    Rule [S ''h6''] [
      Decl ''font-size'' [S ''clamp(16px, 1.95vw, 22px) !important''],
      Decl ''color'' [F (\<lambda>p. theme_at p [''colors'', ''font'', ''alt1'']), S '' !important''],
      Decl ''border-bottom'' [S ''1px solid transparent''],
      Decl ''margin'' [S ''35px 0 0 0''],
      Rule [S ''a''] [
        Decl ''font-size'' [S ''clamp(16px, 1.95vw, 22px) !important''],
        Decl ''text-decoration-thickness'' [S ''2px''],
        Rule [S ''&:hover''] [
          Decl ''color'' [F (\<lambda>p. theme_at p [''colors'', ''font'', ''alt1''])],
          Decl ''text-decoration-thickness'' [S ''2px'']]]],
    Rule [S ''strong, b''] [
      Decl ''font-weight'' [F (\<lambda>p. theme_at p [''typography'', ''weight'', ''bold'']), S '' !important'']],
    Rule [S ''p, span, li, div, pre''] [
      Decl ''font-size'' [F (\<lambda>p. theme_at p [''typography'', ''size'', ''base'']), S '' !important''],
      Decl ''font-weight'' [F (\<lambda>p. theme_at p [''typography'', ''weight'', ''medium'']), S '' !important''],
      Decl ''font-family'' [F (\<lambda>p. theme_at p [''typography'', ''family'', ''primary'']), S '' !important''],
      Decl ''color'' [F (\<lambda>p. theme_at p [''colors'', ''font'', ''alt1'']), S '' !important''],
      Decl ''line-height'' [S ''1.65 !important'']],
    Rule [S ''a''] [
      Decl ''font-size'' [F (\<lambda>p. theme_at p [''typography'', ''size'', ''base'']), S '' !important''],
      Decl ''text-decoration'' [S ''underline'']],
    Rule [S ''ol, ul''] [
      Decl ''display'' [S ''flex''],
      Decl ''flex-direction'' [S ''column''],
      Decl ''gap'' [S ''7.5px''],
      Decl ''margin'' [S ''7.5px 0 0 0''],
      Rule [S ''li''] [
        Decl ''list-style-type'' [S ''none''],
        Decl ''padding'' [S ''0 0 0 20px''],
        Decl ''margin'' [S ''0 0 0 10px''],
        Decl ''position'' [S ''relative'']]],
    Rule [S ''ul''] [
      Rule [S ''li''] [
        Rule [S ''&::before''] [
          Decl ''content'' [S ([CHR 0x27, CHR 0x5C] @ ''u2022'' @ [CHR 0x27])],
          Decl ''position'' [S ''absolute''],
          Decl ''left'' [S ''0''],
          Decl ''text-align'' [S ''center'']]]],
    Rule [S ''ol''] [
      Decl ''counter-reset'' [S ''my-counter''],
      Rule [S ''li''] [
        Rule [S ''&::before''] [
          Decl ''counter-increment'' [S ''my-counter''],
          Decl ''content'' [S (''counter(my-counter) '. '' @ [CHR 0x27])],
          Decl ''position'' [S ''absolute''],
          Decl ''left'' [S ''0''],
          Decl ''text-align'' [S ''center'']]]],
    Rule [S ''a''] [
      Decl ''color'' [F (\<lambda>p. theme_at p [''colors'', ''font'', ''primary'', ''alt4''])],
      Rule [S ''&:hover''] [
        Decl ''text-decoration-thickness'' [S ''1.65px'']]],
    Rule [S ''code''] [
      Decl ''padding'' [S ''2.5px 10px !important''],
      Decl ''background'' [F (\<lambda>p. theme_at p [''colors'', ''container'', ''alt3'', ''background'']), S '' !important''],
      Decl ''border-radius'' [F (\<lambda>_. styling_at [''dimensions'', ''radius'', ''primary'']), S '' !important''],
      Decl ''color'' [F (\<lambda>p. theme_at p [''colors'', ''font'', ''primary'', ''alt1'']), S '' !important''],
      Decl ''font-weight'' [F (\<lambda>p. theme_at p [''typography'', ''weight'', ''regular'']), S '' !important''],
      Decl ''font-size'' [F (\<lambda>p. theme_at p [''typography'', ''size'', ''small'']), S '' !important'']],
    Rule [S ''pre''] [
      Decl ''padding'' [S ''10px !important''],
      Decl ''background'' [F (\<lambda>p. theme_at p [''colors'', ''container'', ''alt3'', ''background'']), S '' !important''],
      Decl ''border-radius'' [F (\<lambda>_. styling_at [''dimensions'', ''radius'', ''primary'']), S '' !important''],
      Decl ''overflow'' [S ''auto''],
      Rule [S ''code''] [
        Decl ''padding'' [S ''0 !important''],
        Decl ''background'' [F (\<lambda>p. theme_at p [''colors'', ''transparent'']), S '' !important''],
        Decl ''color'' [F (\<lambda>p. theme_at p [''colors'', ''font'', ''primary'', ''alt1'']), S '' !important''],
        Decl ''font-weight'' [F (\<lambda>p. theme_at p [''typography'', ''weight'', ''regular'']), S '' !important''],
        Decl ''font-size'' [F (\<lambda>p. theme_at p [''typography'', ''size'', ''small'']), S '' !important''],
        Decl ''border-radius'' [F (\<lambda>_. styling_at [''dimensions'', ''radius'', ''primary'']), S '' !important''],
        Decl ''line-height'' [S ''1.5 !important'']]],
    Rule [S ''img''] [
      Decl ''width'' [S ''100%''],
      Decl ''max-width'' [S ''700px''],
      Decl ''background'' [F (\<lambda>p. theme_at p [''colors'', ''container'', ''primary'', ''background''])],
      Decl ''border'' [S ''1px solid '', F (\<lambda>p. theme_at p [''colors'', ''border'', ''primary''])],
      Decl ''border-radius'' [F (\<lambda>_. styling_at [''dimensions'', ''radius'', ''primary''])],
      Decl ''margin'' [S ''30px 0 0 0'']]]"

definition Wrapper_f :: styled where
  "Wrapper_f = Styled (Elem ''div'') [
    Decl ''height'' [S ''100%''],
    Decl ''width'' [S ''100%'']]"

definition BodyWrapper_3 :: styled where
  "BodyWrapper_3 = Styled (Elem ''div'') [
    Decl ''width'' [S ''100%''],
    Decl ''display'' [S ''flex''],
    Decl ''position'' [S ''relative''],
    Rule [S ''@media (max-width: '', F (\<lambda>_. styling_at [''cutoffs'', ''initial'']), S '')''] [
      Decl ''flex-direction'' [S ''column'']]]"

definition HeaderWrapper_4 :: styled where
  "HeaderWrapper_4 = Styled (Elem ''div'') [
    Decl ''width'' [S ''100%''],
    Decl ''margin'' [S ''15px 0 35px 0'']]"

definition HeaderContent_2 :: styled where
  "HeaderContent_2 = Styled (Elem ''div'') [
    Decl ''width'' [S ''100%''],
    Decl ''display'' [S ''flex''],
    Decl ''justify-content'' [S ''space-between''],
    Decl ''flex-wrap'' [S ''wrap''],
    Decl ''gap'' [S ''30px 40px''],
    Rule [S ''h4''] [
      Decl ''line-height'' [S ''1''],
      Decl ''font-size'' [F (\<lambda>p. theme_at p [''typography'', ''size'', ''h4''])],
      Decl ''font-family'' [F (\<lambda>p. theme_at p [''typography'', ''family'', ''primary''])],
      Decl ''color'' [F (\<lambda>p. theme_at p [''colors'', ''font'', ''primary''])],
      Decl ''font-weight'' [F (\<lambda>p. theme_at p [''typography'', ''weight'', ''light''])]]]"

definition HeaderActions :: styled where
  "HeaderActions = Styled (Elem ''div'') [
    Decl ''display'' [S ''flex''],
    Decl ''align-items'' [S ''center''],
    Decl ''flex-wrap'' [S ''wrap''],
    Decl ''gap'' [S ''20px'']]"

definition Wrapper_e :: styled where
  "Wrapper_e = Styled (Elem ''div'') [
    Decl ''max-width'' [S ''800px''],
    Decl ''margin'' [S ''0 auto''],
    Decl ''padding'' [S ''40px 20px'']]"

definition Header_7 :: styled where
  "Header_7 = Styled (Elem ''div'') [
    Decl ''text-align'' [S ''center''],
    Decl ''margin-bottom'' [S ''40px'']]"

definition HeaderTitle :: styled where
  "HeaderTitle = Styled (Elem ''div'') [
    Decl ''display'' [S ''flex''],
    Decl ''align-items'' [S ''center''],
    Decl ''justify-content'' [S ''center''],
    Decl ''gap'' [S ''4px''],
    Decl ''margin-bottom'' [S ''8px''],
    Decl ''color'' [F (\<lambda>p. theme_at p [''colors'', ''font'', ''primary''])],
    Rule [S ''svg''] [
      Decl ''height'' [S ''20px''],
      Decl ''width'' [S ''20px''],
      Decl ''fill'' [F (\<lambda>p. theme_at p [''colors'', ''font'', ''primary''])]],
    Rule [S ''h3''] [
      Decl ''color'' [F (\<lambda>p. theme_at p [''colors'', ''font'', ''primary''])],
      Decl ''font-size'' [S ''20px''],
      Decl ''font-weight'' [S ''500''],
      Decl ''margin'' [S ''0'']]]"

definition HeaderDescription :: styled where
  "HeaderDescription = Styled (Elem ''p'') [
    Decl ''color'' [F (\<lambda>p. theme_at p [''colors'', ''font'', ''primary''])],
    Decl ''font-size'' [S ''14px''],
    Decl ''margin'' [S ''0''],
    Decl ''font-weight'' [S ''300'']]"

definition PathList :: styled where
  "PathList = Styled (Elem ''div'') [
    Decl ''display'' [S ''flex''],
    Decl ''flex-direction'' [S ''column''],
    Decl ''gap'' [S ''20px''],
    Decl ''justify-content'' [S ''center''],
    Decl ''align-items'' [S ''center'']]"

definition PathCard :: styled where
  "PathCard = Styled (Elem ''div'') [
    Decl ''width'' [S ''100%''],
    Decl ''max-width'' [S ''500px''],
    Decl ''background'' [F (\<lambda>p. tmpl [theme_at p [''colors'', ''container'', ''alt1'', ''background''], Inr (JStr ''90'')]), S '' !important''],
    Decl ''backdrop-filter'' [S ''blur(7.5px)''],
    Decl ''border'' [S ''1px solid '', F (\<lambda>p. theme_at p [''colors'', ''border'', ''primary''])],
    Decl ''padding'' [S ''12px 16px''],
    Decl ''cursor'' [S ''pointer''],
    Decl ''display'' [S ''flex''],
    Decl ''align-items'' [S ''flex-start''],
    Decl ''gap'' [S ''12px''],
    Rule [S ''&:hover''] [
      Decl ''border-color'' [F (\<lambda>p. theme_at p [''colors'', ''border'', ''alt4''])],
      Decl ''background'' [F (\<lambda>p. theme_at p [''colors'', ''container'', ''alt1'', ''background''])],
      Decl ''box-shadow'' [S ''0 4px 12px '', F (\<lambda>p. theme_at p [''colors'', ''shadow'', ''primary'']), S ''20'']]]"

definition PathIcon :: styled where
  "PathIcon = Styled (Elem ''div'') [
    Decl ''background'' [S ''transparent''],
    Decl ''padding'' [S ''2px 8px''],
    Decl ''flex-shrink'' [S ''0''],
    Decl ''display'' [S ''flex''],
    Decl ''align-items'' [S ''center''],
    Decl ''justify-content'' [S ''center''],
    Rule [S ''& > div''] [
      Decl ''display'' [S ''flex''],
      Decl ''align-items'' [S ''center''],
      Decl ''justify-content'' [S ''center''],
      Decl ''height'' [S ''18px''],
      Decl ''width'' [S ''18px'']],
    Rule [S ''svg''] [
      Decl ''height'' [S ''18px''],
      Decl ''width'' [S ''18px''],
      Decl ''fill'' [F (\<lambda>p. theme_at p [''colors'', ''font'', ''primary''])],
      Decl ''margin'' [S ''7.5px 0 0 0'']]]"

definition PathContent :: styled where
  "PathContent = Styled (Elem ''div'') [
    Decl ''flex'' [S ''1''],
    Decl ''min-width'' [S ''0'']]"

definition PathLabel :: styled where
  "PathLabel = Styled (Elem ''h4'') [
    Decl ''color'' [F (\<lambda>p. theme_at p [''colors'', ''font'', ''primary''])],
    Decl ''font-size'' [S ''15px''],
    Decl ''font-weight'' [S ''500''],
    Decl ''margin'' [S ''0 0 4px 0''],
    Decl ''line-height'' [S ''1.2'']]"

definition PathDescription :: styled where
  "PathDescription = Styled (Elem ''p'') [
    Decl ''color'' [F (\<lambda>p. theme_at p [''colors'', ''font'', ''primary''])],
    Decl ''font-weight'' [S ''300''],
    Decl ''font-size'' [S ''13px''],
    Decl ''margin'' [S ''0 0 20px 0''],
    Decl ''line-height'' [S ''1.3'']]"

definition PathValue :: styled where
  "PathValue = Styled (Elem ''div'') [
    Rule [S ''code''] [
      Decl ''background'' [F (\<lambda>p. theme_at p [''colors'', ''container'', ''primary'', ''background''])],
      Decl ''color'' [F (\<lambda>p. theme_at p [''colors'', ''font'', ''primary''])],
      Decl ''font-family'' [F (\<lambda>p. theme_at p [''typography'', ''family'', ''alt2''])],
      Decl ''font-weight'' [F (\<lambda>p. theme_at p [''typography'', ''weight'', ''bold''])],
      Decl ''font-size'' [S ''12px''],
      Decl ''padding'' [S ''2px 6px''],
      Decl ''border'' [S ''1px solid '', F (\<lambda>p. theme_at p [''colors'', ''border'', ''primary''])],
      Decl ''word-wrap'' [S ''break-word'']]]"

definition PathAction :: styled where
  "PathAction = Styled (Elem ''div'') [
    Decl ''flex-shrink'' [S ''0''],
    Decl ''margin-top'' [S ''2px''],
    Rule [S ''svg''] [
      Decl ''height'' [S ''14px''],
      Decl ''width'' [S ''14px''],
      Decl ''fill'' [F (\<lambda>p. theme_at p [''colors'', ''font'', ''alt1''])]],
    Rule [C ''PathCard'', S '':hover & svg''] [
      Decl ''fill'' [F (\<lambda>p. theme_at p [''colors'', ''font'', ''primary''])]]]"

section \<open>Soundness\<close>

text \<open>
  Whatever the palette, no template of the list throws, and with every attribute
  given no declaration is left without a value. \<open>Wrapper_g\<close> names a path the
  theme does not have and is left out; they are treated in \<open>Styles\<close>.
\<close>

definition global_styles :: "styled list" where
  "global_styles = [
    GlobalStyle, App_1, View, ViewWrapper, MetricTabWrapper, Footer, NWrapper,
    NContent, NTitle, NTitleMobile, NList, NListItem, NGroup, NSubHeader, NSubList,
    Wrapper_f, BodyWrapper_3, HeaderWrapper_4, HeaderContent_2, HeaderActions,
    Wrapper_e, Header_7, HeaderTitle, HeaderDescription, PathList, PathCard,
    PathIcon, PathContent, PathLabel, PathDescription, PathValue, PathAction]"

lemmas global_styles_defs =
  GlobalStyle_def App_1_def View_def ViewWrapper_def MetricTabWrapper_def Footer_def
  NWrapper_def NContent_def NTitle_def NTitleMobile_def NList_def NListItem_def
  NGroup_def NSubHeader_def NSubList_def Wrapper_f_def BodyWrapper_3_def
  HeaderWrapper_4_def HeaderContent_2_def HeaderActions_def Wrapper_e_def
  Header_7_def HeaderTitle_def HeaderDescription_def PathList_def PathCard_def
  PathIcon_def PathContent_def PathLabel_def PathDescription_def PathValue_def
  PathAction_def GlobalStyle_part1_def GlobalStyle_part2_def GlobalStyle_part3_def

lemma global_styles_run:
  assumes "sized a"
  shows "list_all (runs (themed pal a)) global_styles"
  using assms by (elim sizedE)
    (simp add: global_styles_def global_styles_defs theme_lookups missing_lookups no_throw_if)

lemma global_styles_resolve:
  assumes "given a"
  shows "list_all (resolves (themed pal a)) global_styles"
  using given_sized [OF assms] by (elim sizedE)
    (simp add: global_styles_def global_styles_defs theme_lookups missing_lookups no_throw_if resolved_if
      given_simps [OF assms])

end
