(* ===== verification/Styles_Editor.thy ===== *)
theory Styles_Editor
  imports Theme
begin

text \<open>
  The styled components of tabs, the code editor and the JSON tree
  (\<open>src/html/hyperbuddy@1.0/bundle.js\<close>, lines 3846 to 8356), in the order of the
  bundle. A component is named as its variable there, with \<open>_\<close> for \<open>$\<close>.
\<close>

section \<open>Templates\<close>

definition Wrapper_d :: styled where
  "Wrapper_d = Styled (Elem ''div'') [
    Decl ''width'' [S ''100%'']]"

definition Container_3 :: styled where
  "Container_3 = Styled (Elem ''div'') [
    Decl ''width'' [S ''100%''],
    Decl ''position'' [S ''relative'']]"

definition Header_6 :: styled where
  "Header_6 = Styled (Elem ''div'') [
    Decl ''display'' [S ''flex''],
    Decl ''height'' [F (\<lambda>_. styling_at [''dimensions'', ''button'', ''height''])],
    Decl ''position'' [F (\<lambda>p. ternary (prop_of p ''stickyTop'') (Inr (JStr ''sticky'')) (Inr (JStr ''relative'')))],
    Decl ''top'' [F (\<lambda>p. ternary (prop_of p ''stickyTop'') (prop_of p ''stickyTop'') (Inr (JStr ''auto'')))],
    Decl ''z-index'' [F (\<lambda>p. ternary (prop_of p ''stickyTop'') (Inr (JNum 10)) (Inr (JStr ''auto'')))],
    Decl ''background'' [F (\<lambda>p. ternary (prop_of p ''stickyTop'') (theme_at p [''colors'', ''container'', ''primary'', ''background'']) (Inr (JStr ''transparent'')))]]"

definition Placeholder_5 :: styled where
  "Placeholder_5 = Styled (Elem ''div'') [
    Decl ''height'' [S ''1px''],
    Decl ''flex'' [S ''1''],
    Decl ''margin'' [S ''auto 0 0px 0''],
    Decl ''border-bottom'' [S ''1px solid '', F (\<lambda>p. theme_at p [''colors'', ''border'', ''primary''])]]"

definition PlaceholderFull_1 :: styled where
  "PlaceholderFull_1 = Styled (Extends Placeholder_5) [
    Decl ''margin'' [F (\<lambda>p. comma (prop_of p ''hasStickyTop'') (Inr (JStr ''auto -26.5px -19.5px -26.5px'')))],
    Rule [S ''@media (max-width: '', F (\<lambda>_. styling_at [''cutoffs'', ''initial'']), S '')''] [
      Decl ''margin'' [S ''auto -14.5px -19.5px -14.5px''],
      Rule [S ''&[id='placeholder-start']''] [
        Decl ''margin'' [S ''auto -15.5px -19.5px 0'']],
      Rule [S ''&[id='placeholder-end']''] [
        Decl ''margin'' [S ''auto 0 -19.5px -15.5px'']]]]"

definition HeaderEnd :: styled where
  "HeaderEnd = Styled (Elem ''div'') [
    Decl ''display'' [S ''flex''],
    Decl ''align-items'' [S ''center''],
    Decl ''gap'' [S ''15px''],
    Decl ''margin-left'' [S ''auto'']]"

definition List_s :: styled where
  "List_s = Styled (Elem ''div'') [
    Decl ''width'' [S ''100%''],
    Decl ''display'' [S ''flex''],
    Decl ''gap'' [F (\<lambda>p. ternary (prop_of p ''useGap'') (Inr (JStr ''15px'')) (Inr (JStr ''0'')))]]"

definition Content_2 :: styled where
  "Content_2 = Styled (Elem ''div'') [
    Decl ''width'' [S ''100%''],
    Decl ''display'' [S ''flex''],
    Decl ''align-items'' [S ''center''],
    Decl ''position'' [S ''relative''],
    Decl ''margin'' [F (\<lambda>p. ternary (prop_of p ''top'') (tmpl [to_string (prop_of p ''top''), Inr (JStr ''px 0 0 0'')]) (Inr (JStr ''40px 0 0 0'')))]]"

definition Tab_3 :: styled where
  "Tab_3 = Styled (Elem ''div'') [
    Decl ''width'' [S ''fit-content''],
    Decl ''display'' [S ''flex''],
    Decl ''height'' [F (\<lambda>_. styling_at [''dimensions'', ''button'', ''height''])],
    Decl ''flex'' [S ''1''],
    Rule [S ''button''] [
      Decl ''flex'' [S ''1''],
      Decl ''height'' [F (\<lambda>_. styling_at [''dimensions'', ''button'', ''height'']), S '' !important''],
      Rule [S ''path, rect''] [
        Decl ''color'' [F (\<lambda>p. theme_at p [''colors'', ''button'', ''primary'', ''color''])],
        Decl ''fill'' [F (\<lambda>p. theme_at p [''colors'', ''button'', ''primary'', ''color''])]]]]"

definition AltTab :: styled where
  "AltTab = Styled (Elem ''div'') [
    Decl ''position'' [S ''relative''],
    Decl ''display'' [S ''flex''],
    Decl ''justify-content'' [S ''center''],
    Decl ''flex'' [S ''1'']]"

definition AltTabAction :: styled where
  "AltTabAction = Styled (Elem ''div'') [
    Decl ''font-size'' [F (\<lambda>p. theme_at p [''typography'', ''size'', ''xSmall''])],
    Decl ''font-weight'' [F (\<lambda>p. ternary (prop_of p ''active'') (theme_at p [''typography'', ''weight'', ''bold'']) (theme_at p [''typography'', ''weight'', ''medium'']))],
    Decl ''font-family'' [F (\<lambda>p. theme_at p [''typography'', ''family'', ''primary''])],
    Decl ''color'' [F (\<lambda>p. ternary (prop_of p ''active'') (theme_at p [''colors'', ''font'', ''primary'']) (theme_at p [''colors'', ''font'', ''alt3'']))],
    Decl ''cursor'' [S ''pointer''],
    Decl ''position'' [S ''relative''],
    Decl ''z-index'' [S ''1''],
    Decl ''flex'' [S ''1''],
    Decl ''display'' [S ''flex''],
    Decl ''justify-content'' [S ''center''],
    Decl ''align-items'' [S ''center''],
    Decl ''gap'' [S ''12.5px''],
    Decl ''height'' [F (\<lambda>_. styling_at [''dimensions'', ''landingTab'', ''height''])],
    Decl ''padding'' [S ''0 25.5px 0 21.5px''],
    Decl ''margin'' [S ''0 0 -1.5px 0''],
    Decl ''background'' [F (\<lambda>p. ternary (prop_of p ''active'') (theme_at p [''colors'', ''view'', ''background'']) (Inr (JStr ''transparent'')))],
    Decl ''border-bottom'' [S ''1px solid '', F (\<lambda>p. ternary (prop_of p ''active'') (Inr (JStr ''transparent'')) (theme_at p [''colors'', ''border'', ''primary'']))],
    Decl ''border-top'' [S ''2px solid '', F (\<lambda>p. ternary (prop_of p ''active'') (theme_at p [''colors'', ''border'', ''alt5'']) (Inr (JStr ''transparent'')))],
    Decl ''white-space'' [S ''nowrap''],
    Decl ''transition'' [S ''all 100ms''],
    Rule [S ''svg''] [
      Decl ''height'' [S ''12.5px''],
      Decl ''width'' [S ''12.5px''],
      Decl ''color'' [F (\<lambda>p. ternary (prop_of p ''active'') (theme_at p [''colors'', ''font'', ''primary'']) (theme_at p [''colors'', ''font'', ''alt3'']))],
      Decl ''fill'' [F (\<lambda>p. ternary (prop_of p ''active'') (theme_at p [''colors'', ''font'', ''primary'']) (theme_at p [''colors'', ''font'', ''alt3'']))]],
    Rule [S ''&:hover''] [
      Decl ''color'' [F (\<lambda>p. theme_at p [''colors'', ''font'', ''primary''])],
      Rule [S ''svg''] [
        Decl ''color'' [F (\<lambda>p. theme_at p [''colors'', ''font'', ''primary''])],
        Decl ''fill'' [F (\<lambda>p. theme_at p [''colors'', ''font'', ''primary''])]]],
    Rule [S ''&:before''] [
      Decl ''display'' [S ''block''],
      Decl ''content'' [S [CHR 0x27, CHR 0x27]],
      Decl ''position'' [S ''absolute''],
      Decl ''z-index'' [S ''1''],
      Decl ''left'' [S ''0''],
      Decl ''transform'' [S ''translate(-50%, 0)''],
      Decl ''top'' [S ''-2px''],
      Decl ''background'' [F (\<lambda>p. ternary (prop_of p ''active'') (theme_at p [''colors'', ''border'', ''primary'']) (Inr (JStr ''transparent'')))],
      Decl ''height'' [S ''calc(100% + 3px)''],
      Decl ''width'' [S ''1px''],
      Decl ''pointer-events'' [S ''none'']],
    Rule [S ''&:after''] [
      Decl ''display'' [S ''block''],
      Decl ''content'' [S [CHR 0x27, CHR 0x27]],
      Decl ''position'' [S ''absolute''],
      Decl ''z-index'' [S ''1''],
      Decl ''right'' [S ''-1px''],
      Decl ''transform'' [S ''translate(-50%, 0)''],
      Decl ''top'' [S ''-2px''],
      Decl ''background'' [F (\<lambda>p. ternary (prop_of p ''active'') (theme_at p [''colors'', ''border'', ''primary'']) (Inr (JStr ''transparent'')))],
      Decl ''height'' [S ''calc(100% + 3px)''],
      Decl ''width'' [S ''1px''],
      Decl ''pointer-events'' [S ''none'']]]"

definition Icon :: styled where
  "Icon = Styled (Elem ''div'') [
    Rule [S ''svg''] [
      Decl ''height'' [S ''12.5px''],
      Decl ''width'' [S ''12.5px''],
      Decl ''margin'' [S ''0 0 2.5px 0''],
      Decl ''color'' [F (\<lambda>p. ternary (prop_of p ''active'') (theme_at p [''colors'', ''font'', ''primary'']) (theme_at p [''colors'', ''font'', ''alt3'']))],
      Decl ''fill'' [F (\<lambda>p. ternary (prop_of p ''active'') (theme_at p [''colors'', ''font'', ''primary'']) (theme_at p [''colors'', ''font'', ''alt3'']))]]]"

definition Wrapper_c :: styled where
  "Wrapper_c = Styled (Elem ''div'') [
    Decl ''height'' [S ''100%''],
    Decl ''width'' [S ''100%''],
    Decl ''display'' [S ''flex''],
    Decl ''flex-direction'' [S ''column''],
    Decl ''gap'' [S ''7.5px'']]"

definition Header_5 :: styled where
  "Header_5 = Styled (Elem ''div'') [
    Decl ''display'' [S ''flex''],
    Decl ''align-items'' [S ''center''],
    Decl ''justify-content'' [S ''space-between''],
    Decl ''flex-wrap'' [S ''wrap''],
    Decl ''gap'' [S ''15px''],
    Decl ''margin'' [S ''0 0 2.5px 0''],
    Rule [S ''p''] [
      Decl ''color'' [F (\<lambda>p. theme_at p [''colors'', ''font'', ''primary''])],
      Decl ''font-family'' [F (\<lambda>p. theme_at p [''typography'', ''family'', ''primary''])],
      Decl ''font-weight'' [F (\<lambda>p. theme_at p [''typography'', ''weight'', ''bold''])],
      Decl ''font-size'' [F (\<lambda>p. theme_at p [''typography'', ''size'', ''lg''])]]]"

definition EditorWrapper :: styled where
  "EditorWrapper = Styled (Elem ''div'') [
    Decl ''min-height'' [S ''175px''],
    Decl ''max-height'' [F (\<lambda>p. ternary (prop_of p ''useFixedHeight'') (Inr (JStr ''100%'')) (Inr (JStr ''calc(100vh - 190px)'')))],
    Decl ''width'' [S ''100%''],
    Decl ''display'' [S ''flex''],
    Decl ''align-items'' [S ''flex-start''],
    Decl ''position'' [S ''relative'']]"

definition Editor :: styled where
  "Editor = Styled (Elem ''div'') [
    Decl ''height'' [S ''100%''],
    Decl ''width'' [S ''100%''],
    Decl ''flex'' [S ''1''],
    Decl ''position'' [S ''relative''],
    Decl ''padding'' [F (\<lambda>p. ternary (prop_of p ''noWrapper'') (Inr (JStr ''0'')) (Inr (JStr ''18.5px 0 0 0'')))],
    Decl ''background'' [F (\<lambda>p. ternary (prop_of p ''noWrapper'') (Inr (JStr ''transparent'')) (theme_at p [''colors'', ''container'', ''alt1'', ''background'']))],
    Rule [S ''> div''] [
      Decl ''height'' [S ''100% !important''],
      Decl ''background'' [F (\<lambda>p. theme_at p [''colors'', ''container'', ''alt1'', ''background'']), S '' !important'']],
    Rule [S ''> *''] [
      Decl ''font-family'' [F (\<lambda>p. theme_at p [''typography'', ''family'', ''alt2'']), S '' !important'']],
    Rule [S ''.monaco-editor .mtk1''] [
      Decl ''font-size'' [F (\<lambda>p. theme_at p [''typography'', ''size'', ''xxSmall'']), S '' !important''],
      Decl ''font-weight'' [F (\<lambda>p. theme_at p [''typography'', ''weight'', ''regular'']), S '' !important'']],
    Rule [S ''.mtk1''] [
      Decl ''font-size'' [F (\<lambda>p. theme_at p [''typography'', ''size'', ''xxSmall'']), S '' !important''],
      Decl ''font-weight'' [F (\<lambda>p. theme_at p [''typography'', ''weight'', ''regular'']), S '' !important'']]]"

definition ActionsWrapper_2 :: styled where
  "ActionsWrapper_2 = Styled (Elem ''div'') [
    Decl ''width'' [S ''fit-content''],
    Decl ''display'' [S ''flex''],
    Decl ''align-items'' [S ''center''],
    Decl ''gap'' [S ''20px''],
    Decl ''position'' [S ''absolute''],
    Decl ''bottom'' [S ''20px''],
    Decl ''right'' [S ''32.5px''],
    Rule [S ''button''] [
      Decl ''padding'' [S ''3.5px 0 0 0 !important'']]]"

definition Wrapper_b :: styled where
  "Wrapper_b = Styled (Elem ''div'') [
    Decl ''padding'' [F (\<lambda>p. ternary (prop_of p ''noWrapper'') (Inr (JStr ''0'')) (Inr (JStr ''15px'')))],
    Decl ''font-family'' [F (\<lambda>p. theme_at p [''typography'', ''family'', ''alt2''])],
    Decl ''font-weight'' [F (\<lambda>p. theme_at p [''typography'', ''weight'', ''bold''])],
    Decl ''font-size'' [F (\<lambda>p. theme_at p [''typography'', ''size'', ''xxSmall''])],
    Decl ''letter-spacing'' [S ''0''],
    Decl ''position'' [S ''relative''],
    Rule [S ''ul''] [
      Decl ''margin'' [S ''0 0 0 1.5px !important'']]]"

definition Header_4 :: styled where
  "Header_4 = Styled (Elem ''div'') [
    Decl ''height'' [S ''32.5px''],
    Decl ''display'' [S ''flex''],
    Decl ''align-items'' [S ''flex-start''],
    Decl ''justify-content'' [S ''space-between''],
    Decl ''flex-wrap'' [S ''wrap''],
    Rule [S ''p''] [
      Decl ''color'' [F (\<lambda>p. theme_at p [''colors'', ''font'', ''primary''])],
      Decl ''font-family'' [F (\<lambda>p. theme_at p [''typography'', ''family'', ''primary''])],
      Decl ''font-weight'' [F (\<lambda>p. theme_at p [''typography'', ''weight'', ''bold''])],
      Decl ''font-size'' [F (\<lambda>p. theme_at p [''typography'', ''size'', ''xSmall''])]]]"

definition Placeholder_4 :: styled where
  "Placeholder_4 = Styled (Elem ''div'') [
    Decl ''margin'' [S ''10px 0 0 0''],
    Rule [S ''p''] [
      Decl ''font-size'' [F (\<lambda>p. theme_at p [''typography'', ''size'', ''xxxSmall''])],
      Decl ''font-family'' [F (\<lambda>p. theme_at p [''typography'', ''family'', ''primary''])],
      Decl ''font-weight'' [F (\<lambda>p. theme_at p [''typography'', ''weight'', ''bold''])],
      Decl ''color'' [F (\<lambda>p. theme_at p [''colors'', ''font'', ''alt1''])],
      Decl ''text-transform'' [S ''uppercase'']]]"

definition ActionsWrapper_1 :: styled where
  "ActionsWrapper_1 = Styled (Elem ''div'') [
    Decl ''width'' [S ''fit-content''],
    Decl ''display'' [S ''flex''],
    Decl ''gap'' [S ''15px''],
    Rule [S ''button''] [
      Decl ''padding'' [S ''5px 0 0 0 !important'']]]"

definition JSONViewerRoot :: styled where
  "JSONViewerRoot = Styled (Elem ''div'') [
    Decl ''height'' [S ''calc(100% - 32.5px)''],
    Decl ''max-height'' [F (\<lambda>p. ternary (prop_of p ''maxHeight'') (tmpl [to_string (prop_of p ''maxHeight''), Inr (JStr ''px'')]) (Inr (JStr ''none'')))],
    Decl ''font-family'' [F (\<lambda>p. theme_at p [''typography'', ''family'', ''alt2''])],
    Decl ''font-size'' [F (\<lambda>p. theme_at p [''typography'', ''size'', ''xxSmall''])],
    Decl ''line-height'' [S ''1.6''],
    Decl ''color'' [F (\<lambda>p. theme_at p [''colors'', ''editor'', ''primary''])]]"

definition JSONIndent :: styled where
  "JSONIndent = Styled (Elem ''div'') [
    Decl ''padding-left'' [S ''22.5px'']]"

definition JSONProperty :: styled where
  "JSONProperty = Styled (Elem ''div'') [
    Decl ''display'' [S ''block''],
    Decl ''position'' [S ''relative'']]"

definition CollapseArrow :: styled where
  "CollapseArrow = Styled (Elem ''span'') [
    Decl ''display'' [S ''inline-flex''],
    Decl ''position'' [S ''absolute''],
    Decl ''top'' [S ''-4.5px''],
    Decl ''left'' [S ''-12.5px''],
    Decl ''color'' [F (\<lambda>p. theme_at p [''colors'', ''font'', ''alt1''])],
    Decl ''font-size'' [F (\<lambda>p. theme_at p [''typography'', ''size'', ''base''])],
    Decl ''transform'' [S ''rotate('', F (\<lambda>p. ternary (prop_of p ''isCollapsed'') (Inr (JStr ''0deg'')) (Inr (JStr ''90deg''))), S '')''],
    Decl ''transition'' [S ''all 100ms''],
    Rule [S ''&:hover''] [
      Decl ''cursor'' [S ''pointer''],
      Decl ''color'' [F (\<lambda>p. theme_at p [''colors'', ''font'', ''alt2''])]]]"

definition JSONArrayItem :: styled where
  "JSONArrayItem = Styled (Elem ''div'') [
    Decl ''display'' [S ''block''],
    Decl ''position'' [S ''relative'']]"

definition JSONKey :: styled where
  "JSONKey = Styled (Elem ''span'') [
    Decl ''color'' [F (\<lambda>p. theme_at p [''colors'', ''editor'', ''alt5''])],
    Decl ''font-weight'' [F (\<lambda>p. theme_at p [''typography'', ''weight'', ''bold''])]]"

definition JSONColon :: styled where
  "JSONColon = Styled (Elem ''span'') [
    Decl ''color'' [F (\<lambda>p. theme_at p [''colors'', ''editor'', ''alt4''])],
    Decl ''margin-right'' [S ''4px'']]"

definition JSONComma :: styled where
  "JSONComma = Styled (Elem ''span'') [
    Decl ''color'' [F (\<lambda>p. theme_at p [''colors'', ''editor'', ''alt5''])],
    Rule [S ''&::before''] [
      Decl ''content'' [S [CHR 0x27, CHR 0x27]],
      Decl ''display'' [S ''inline'']]]"

definition JSONString :: styled where
  "JSONString = Styled (Elem ''span'') [
    Decl ''color'' [F (\<lambda>p. theme_at p [''colors'', ''editor'', ''primary''])]]"

definition JSONStringIDFlex :: styled where
  "JSONStringIDFlex = Styled (Elem ''span'') [
    Decl ''display'' [S ''inline-flex''],
    Decl ''align-items'' [S ''center''],
    Decl ''gap'' [S ''5px''],
    Decl ''position'' [S ''relative'']]"

definition JSONStringID :: styled where
  "JSONStringID = Styled (Elem ''span'') [
    Decl ''color'' [F (\<lambda>p. theme_at p [''colors'', ''editor'', ''alt8''])],
    Decl ''cursor'' [S ''pointer''],
    Decl ''text-decoration'' [F (\<lambda>p. ternary (prop_of p ''copied'') (Inr (JStr ''none'')) (Inr (JStr ''underline'')))],
    Decl ''text-decoration-thickness'' [S ''1.25px''],
    Decl ''position'' [S ''relative''],
    Decl ''transition'' [S ''all 100ms''],
    Rule [S ''&:hover''] [
      Decl ''opacity'' [S ''0.8''],
      Decl ''text-decoration'' [S ''underline''],
      Decl ''text-decoration-style'' [S ''solid'']],
    Mixin (\<lambda>p. js_and (prop_of p ''copied'') (tmpl [Inr (JStr ('' &::after { content: '' @ [CHR 0x27, CHR 0xE2, CHR 0x9C, CHR 0x93, CHR 0x27] @ ''; position: absolute; right: -75px; top: -2.5px; color: '')), theme_at p [''colors'', ''success''], Inr (JStr ''; font-size: ''), theme_at p [''typography'', ''size'', ''base''], Inr (JStr ''; } '')]))]"

definition JSONStringIDOpen :: styled where
  "JSONStringIDOpen = Styled (Elem ''div'') [
    Decl ''display'' [S ''inline-flex''],
    Decl ''font-size'' [F (\<lambda>p. theme_at p [''typography'', ''size'', ''xxxSmall''])],
    Decl ''color'' [F (\<lambda>p. theme_at p [''colors'', ''font'', ''alt1''])],
    Decl ''transition'' [S ''all 100ms''],
    Rule [S ''&:hover''] [
      Decl ''cursor'' [S ''pointer''],
      Decl ''color'' [F (\<lambda>p. theme_at p [''colors'', ''font'', ''alt2''])]]]"

definition JSONNumber :: styled where
  "JSONNumber = Styled (Elem ''span'') [
    Decl ''color'' [F (\<lambda>p. theme_at p [''colors'', ''editor'', ''alt8''])]]"

definition JSONBoolean :: styled where
  "JSONBoolean = Styled (Elem ''span'') [
    Decl ''color'' [F (\<lambda>p. theme_at p [''colors'', ''editor'', ''alt8''])]]"

definition JSONNull :: styled where
  "JSONNull = Styled (Elem ''span'') [
    Decl ''color'' [F (\<lambda>p. theme_at p [''colors'', ''font'', ''alt1''])]]"

definition JSONUndefined :: styled where
  "JSONUndefined = Styled (Elem ''span'') [
    Decl ''color'' [F (\<lambda>p. theme_at p [''colors'', ''font'', ''alt1''])]]"

definition JSONBracket :: styled where
  "JSONBracket = Styled (Elem ''span'') [
    Decl ''color'' [F (\<lambda>p. theme_at p [''colors'', ''font'', ''alt1''])],
    Decl ''font-weight'' [F (\<lambda>p. theme_at p [''typography'', ''weight'', ''bold''])]]"

definition JSONObject :: styled where
  "JSONObject = Styled (Elem ''span'') [
    Decl ''color'' [F (\<lambda>p. theme_at p [''colors'', ''font'', ''alt1''])]]"

definition JSONArray :: styled where
  "JSONArray = Styled (Elem ''span'') [
    Decl ''color'' [F (\<lambda>p. theme_at p [''colors'', ''font'', ''alt1''])]]"

definition Wrapper_a :: styled where
  "Wrapper_a = Styled (Elem ''div'') [
    Decl ''width'' [S ''100%''],
    Decl ''display'' [S ''flex''],
    Decl ''flex-direction'' [S ''column''],
    Decl ''gap'' [S ''25px''],
    Decl ''position'' [S ''relative''],
    Decl ''padding'' [F (\<lambda>p. ternary (prop_of p ''isFullScreen'') (Inr (JStr ''20px'')) (Inr (JStr ''0'')))],
    Decl ''background'' [F (\<lambda>p. ternary (prop_of p ''isFullScreen'') (theme_at p [''colors'', ''container'', ''primary'', ''background'']) (Inr (JStr ''transparent'')))]]"

definition InfoWrapper_1 :: styled where
  "InfoWrapper_1 = Styled (Elem ''div'') [
    Decl ''width'' [S ''100%''],
    Decl ''display'' [S ''flex''],
    Decl ''flex-direction'' [S ''column''],
    Decl ''gap'' [S ''12.5px''],
    Decl ''padding'' [S ''15px'']]"

definition InfoLine_2 :: styled where
  "InfoLine_2 = Styled (Elem ''div'') [
    Decl ''width'' [S ''100%''],
    Decl ''display'' [S ''flex''],
    Decl ''flex-wrap'' [S ''wrap''],
    Decl ''align-items'' [S ''center''],
    Decl ''justify-content'' [S ''space-between''],
    Decl ''gap'' [S ''12.5px'']]"

definition InfoLineDivider :: styled where
  "InfoLineDivider = Styled (Elem ''div'') [
    Decl ''height'' [S ''1px''],
    Decl ''width'' [S ''100%''],
    Decl ''border-top'' [S ''1px solid '', F (\<lambda>p. theme_at p [''colors'', ''border'', ''primary''])]]"

definition InfoBlockFlex :: styled where
  "InfoBlockFlex = Styled (Elem ''div'') [
    Decl ''display'' [S ''flex''],
    Decl ''align-items'' [S ''center''],
    Decl ''gap'' [S ''12.5px''],
    Decl ''flex-wrap'' [S ''wrap'']]"

definition InfoBlockKey :: styled where
  "InfoBlockKey = Styled (Extends InfoBlockFlex) [
    Decl ''gap'' [S ''17.5px'']]"

definition InfoBlock :: styled where
  "InfoBlock = Styled (Elem ''div'') [
    Decl ''display'' [S ''flex''],
    Decl ''align-items'' [S ''center''],
    Decl ''gap'' [S ''5px''],
    Decl ''max-width'' [S ''100%''],
    Rule [S ''p''] [
      Decl ''font-size'' [F (\<lambda>p. theme_at p [''typography'', ''size'', ''xxSmall''])],
      Decl ''font-family'' [F (\<lambda>p. theme_at p [''typography'', ''family'', ''primary''])],
      Decl ''font-weight'' [F (\<lambda>p. theme_at p [''typography'', ''weight'', ''medium''])],
      Decl ''color'' [F (\<lambda>p. theme_at p [''colors'', ''font'', ''primary''])],
      Decl ''white-space'' [S ''nowrap''],
      Decl ''display'' [S ''block''],
      Decl ''margin'' [S ''0.5px 0 0 0'']],
    Rule [S ''span''] [
      Decl ''font-size'' [F (\<lambda>p. theme_at p [''typography'', ''size'', ''xxSmall''])],
      Decl ''font-family'' [F (\<lambda>p. theme_at p [''typography'', ''family'', ''primary''])],
      Decl ''font-weight'' [F (\<lambda>p. theme_at p [''typography'', ''weight'', ''regular''])],
      Decl ''color'' [F (\<lambda>p. theme_at p [''colors'', ''font'', ''alt2''])],
      Decl ''white-space'' [S ''nowrap''],
      Decl ''overflow'' [S ''hidden''],
      Decl ''text-overflow'' [S ''ellipsis'']],
    Rule [S ''code''] [
      Decl ''font-size'' [F (\<lambda>p. theme_at p [''typography'', ''size'', ''xxxSmall''])],
      Decl ''font-family'' [F (\<lambda>p. theme_at p [''typography'', ''family'', ''alt1''])],
      Decl ''font-weight'' [F (\<lambda>p. theme_at p [''typography'', ''weight'', ''medium''])],
      Decl ''color'' [F (\<lambda>p. theme_at p [''colors'', ''font'', ''primary''])],
      Decl ''white-space'' [S ''nowrap''],
      Decl ''overflow'' [S ''hidden''],
      Decl ''text-overflow'' [S ''ellipsis''],
      Decl ''background'' [F (\<lambda>p. theme_at p [''colors'', ''button'', ''primary'', ''background''])],
      Decl ''border'' [S ''1px solid '', F (\<lambda>p. theme_at p [''colors'', ''button'', ''primary'', ''border''])],
      Decl ''border-radius'' [F (\<lambda>_. styling_at [''dimensions'', ''radius'', ''primary''])],
      Decl ''padding'' [S ''1.5px 7.5px''],
      Decl ''cursor'' [S ''pointer''],
      Decl ''transition'' [S ''all 100ms''],
      Rule [S ''&:hover''] [
        Decl ''color'' [F (\<lambda>p. theme_at p [''colors'', ''button'', ''primary'', ''active'', ''color''])],
        Decl ''background'' [F (\<lambda>p. theme_at p [''colors'', ''button'', ''primary'', ''active'', ''background''])],
        Decl ''border'' [S ''1px solid '', F (\<lambda>p. theme_at p [''colors'', ''button'', ''primary'', ''active'', ''border''])]]],
    Rule [S ''.indicator''] [
      Decl ''height'' [F (\<lambda>_. styling_at [''dimensions'', ''indicator'', ''height''])],
      Decl ''width'' [F (\<lambda>_. styling_at [''dimensions'', ''indicator'', ''width''])],
      Decl ''background'' [F (\<lambda>p. nullish (prop_of p ''background'') (theme_at p [''colors'', ''container'', ''primary'', ''active'']))],
      Decl ''border-radius'' [F (\<lambda>_. styling_at [''dimensions'', ''radius'', ''primary''])]]]"

definition FilterForm :: styled where
  "FilterForm = Styled (Elem ''form'') [
    Decl ''position'' [S ''relative''],
    Decl ''margin'' [S ''0 0 2.5px 0''],
    Rule [S ''input''] [
      Decl ''height'' [S ''37.5px''],
      Decl ''width'' [S ''375px''],
      Decl ''max-width'' [S ''100%''],
      Decl ''background'' [F (\<lambda>p. theme_at p [''colors'', ''container'', ''alt1'', ''background'']), S '' !important''],
      Decl ''padding'' [S ''10px 10px 10px 36.5px !important'']],
    Rule [S ''svg''] [
      Decl ''height'' [S ''15px''],
      Decl ''width'' [S ''15px''],
      Decl ''color'' [F (\<lambda>p. theme_at p [''colors'', ''font'', ''alt1''])],
      Decl ''fill'' [F (\<lambda>p. theme_at p [''colors'', ''font'', ''alt1''])],
      Decl ''position'' [S ''absolute''],
      Decl ''z-index'' [S ''1''],
      Decl ''top'' [S ''10.5px''],
      Decl ''left'' [S ''11.5px'']]]"

definition InfoBlockMaxWidth :: styled where
  "InfoBlockMaxWidth = Styled (Extends InfoBlock) [
    Decl ''max-width'' [S ''50%'']]"

definition InfoBlockDivider :: styled where
  "InfoBlockDivider = Styled (Elem ''div'') [
    Decl ''height'' [S ''20px''],
    Decl ''width'' [S ''1px''],
    Decl ''border-right'' [S ''1px solid '', F (\<lambda>p. theme_at p [''colors'', ''border'', ''primary''])]]"

definition TableWrapper :: styled where
  "TableWrapper = Styled (Elem ''div'') [
    Decl ''width'' [S ''100%''],
    Decl ''position'' [S ''relative''],
    Decl ''display'' [S ''flex''],
    Decl ''flex-direction'' [S ''row''],
    Decl ''gap'' [S ''20px'']]"

definition Table :: styled where
  "Table = Styled (Elem ''div'') [
    Decl ''min-height'' [S ''500px''],
    Decl ''height'' [S ''fit-content''],
    Decl ''max-height'' [S ''calc(100vh - '', F (\<lambda>p. ternary (prop_of p ''isFullScreen'') (Inr (JStr ''410px'')) (Inr (JStr ''260px''))), S '')''],
    Decl ''width'' [F (\<lambda>p. ternary (js_and (prop_of p ''isFullScreen'') (prop_of p ''hasActiveData'')) (Inr (JStr ''55%'')) (Inr (JStr ''100%'')))],
    Decl ''position'' [S ''relative''],
    Decl ''display'' [S ''flex''],
    Decl ''flex-direction'' [S ''column''],
    Decl ''padding'' [S ''7.5px 0'']]"

definition TableRow :: styled where
  "TableRow = Styled (Elem ''div'') [
    Decl ''min-width'' [S ''100%''],
    Decl ''width'' [S ''fit-content''],
    Decl ''position'' [S ''relative''],
    Decl ''display'' [S ''flex''],
    Decl ''align-items'' [S ''flex-start''],
    Decl ''gap'' [S ''10px''],
    Decl ''padding'' [S ''7.5px 15px''],
    Decl ''padding-left'' [F (\<lambda>p. js_plus (Inr (JNum 15)) (js_times (js_or (prop_of p ''depth'') (Inr (JNum 0))) (Inr (JNum (295 / 10))))), S ''px''],
    Decl ''transition'' [S ''all 100ms''],
    Rule [S ''&:hover''] [
      Decl ''background'' [F (\<lambda>p. theme_at p [''colors'', ''container'', ''primary'', ''active''])],
      Decl ''cursor'' [S ''pointer'']],
    Rule [S ''p''] [
      Decl ''font-size'' [F (\<lambda>p. theme_at p [''typography'', ''size'', ''xxxSmall''])],
      Decl ''font-family'' [F (\<lambda>p. theme_at p [''typography'', ''family'', ''alt1''])],
      Decl ''font-weight'' [F (\<lambda>p. theme_at p [''typography'', ''weight'', ''medium''])],
      Decl ''color'' [F (\<lambda>p. theme_at p [''colors'', ''font'', ''primary''])],
      Decl ''line-height'' [S ''1.5'']]]"

definition ThreadLine :: styled where
  "ThreadLine = Styled (Elem ''div'') [
    Decl ''position'' [S ''absolute''],
    Decl ''left'' [S ''15px''],
    Decl ''top'' [S ''0''],
    Decl ''height'' [S ''100%''],
    Decl ''display'' [S ''flex''],
    Decl ''align-items'' [S ''flex-start'']]"

definition AncestorLine :: styled where
  "AncestorLine = Styled (Elem ''div'') [
    Decl ''width'' [S ''29.5px''],
    Decl ''height'' [S ''100%''],
    Decl ''position'' [S ''relative''],
    Mixin (\<lambda>p. js_and (prop_of p ''show'') (tmpl [Inr (JStr ('' &::before { content: '' @ [CHR 0x27, CHR 0x27] @ ''; position: absolute; left: 6.25px; top: 0; height: 100%; border-left: 1px solid '')), js_or (js_and (prop_of p ''isConnected'') (if_nullish (theme_at p [''colors'', ''editor'']) (Inr Undef) (mem (theme_at p [''colors'', ''editor'']) ''alt5''))) (theme_at p [''colors'', ''border'', ''primary'']), Inr (JStr ''; } '')]))]"

definition HorizontalLine :: styled where
  "HorizontalLine = Styled (Elem ''div'') [
    Decl ''width'' [S ''15.5px''],
    Decl ''height'' [S ''calc(50% + 0.5px)''],
    Decl ''position'' [S ''absolute''],
    Decl ''left'' [F (\<lambda>p. tmpl [Inr (JStr ''calc(''), js_minus (dflt (prop_of p ''depth'') (Inr (JNum 0))) (Inr (JNum 1)), Inr (JStr '' * 29.5px + 7.5px)'')])],
    Decl ''border-bottom'' [S ''1px solid '', F (\<lambda>p. js_or (js_and (prop_of p ''isConnected'') (if_nullish (theme_at p [''colors'', ''editor'']) (Inr Undef) (mem (theme_at p [''colors'', ''editor'']) ''alt5''))) (theme_at p [''colors'', ''border'', ''primary'']))]]"

definition NodeContent :: styled where
  "NodeContent = Styled (Elem ''div'') [
    Decl ''flex'' [S ''1''],
    Decl ''display'' [S ''flex''],
    Decl ''align-items'' [S ''center''],
    Decl ''justify-content'' [S ''space-between''],
    Decl ''gap'' [S ''10px''],
    Decl ''margin-left'' [F (\<lambda>p. comma (js_leq (prop_of p ''depth'') (Inr (JNum 0))) (Inr (JStr ''1.5px'')))]]"

definition NodeContentHeader :: styled where
  "NodeContentHeader = Styled (Elem ''div'') [
    Decl ''display'' [S ''flex''],
    Decl ''align-items'' [S ''center''],
    Decl ''gap'' [S ''8.5px''],
    Rule [S ''p''] [
      Decl ''padding'' [S ''0 0 0.5px 1.5px'']],
    Rule [S ''.indicator''] [
      Decl ''height'' [F (\<lambda>_. styling_at [''dimensions'', ''indicator'', ''height''])],
      Decl ''width'' [F (\<lambda>_. styling_at [''dimensions'', ''indicator'', ''width''])],
      Decl ''background'' [F (\<lambda>p. nullish (prop_of p ''background'') (theme_at p [''colors'', ''container'', ''primary'', ''active'']))],
      Decl ''border-radius'' [F (\<lambda>_. styling_at [''dimensions'', ''radius'', ''primary''])]]]"

definition NodeContentDetail :: styled where
  "NodeContentDetail = Styled (Elem ''div'') [
    Decl ''display'' [S ''flex''],
    Decl ''align-items'' [S ''center''],
    Decl ''gap'' [S ''7.5px''],
    Rule [S ''p''] [
      Decl ''padding'' [S ''0 0 0.5px 1.5px'']],
    Rule [S ''.indicator''] [
      Decl ''height'' [F (\<lambda>_. styling_at [''dimensions'', ''indicator'', ''height''])],
      Decl ''width'' [F (\<lambda>_. styling_at [''dimensions'', ''indicator'', ''width''])],
      Decl ''background'' [F (\<lambda>p. nullish (prop_of p ''background'') (theme_at p [''colors'', ''container'', ''primary'', ''active'']))],
      Decl ''border-radius'' [F (\<lambda>_. styling_at [''dimensions'', ''radius'', ''primary''])]]]"

definition GraphWrapper :: styled where
  "GraphWrapper = Styled (Elem ''div'') [
    Decl ''min-height'' [S ''500px''],
    Decl ''height'' [S ''calc(100vh - 260px)''],
    Decl ''width'' [S ''100%''],
    Decl ''position'' [S ''relative''],
    Decl ''display'' [S ''flex''],
    Decl ''flex-direction'' [S ''row''],
    Decl ''gap'' [S ''20px'']]"

definition Graph :: styled where
  "Graph = Styled (Elem ''div'') [
    Decl ''height'' [S ''100%''],
    Decl ''width'' [F (\<lambda>p. ternary (js_and (prop_of p ''isFullScreen'') (prop_of p ''hasActiveData'')) (Inr (JStr ''55%'')) (Inr (JStr ''100%'')))],
    Decl ''position'' [S ''relative''],
    Decl ''display'' [S ''flex''],
    Decl ''flex-direction'' [S ''column''],
    Decl ''justify-content'' [S ''center''],
    Decl ''align-items'' [S ''center'']]"

definition GraphCanvas :: styled where
  "GraphCanvas = Styled (Elem ''div'') [
    Decl ''height'' [S ''100%''],
    Decl ''width'' [S ''100%''],
    Decl ''position'' [S ''relative'']]"

definition FullScreenDataPanel :: styled where
  "FullScreenDataPanel = Styled (Elem ''div'') [
    Decl ''width'' [S ''45%''],
    Decl ''height'' [S ''100%''],
    Decl ''display'' [S ''flex''],
    Decl ''flex-direction'' [S ''column'']]"

definition DataPanelContent :: styled where
  "DataPanelContent = Styled (Elem ''div'') [
    Decl ''flex'' [S ''1''],
    Decl ''overflow'' [S ''hidden''],
    Rule [S ''.modal-wrapper''] [
      Decl ''height'' [S ''100%''],
      Rule [S ''> div''] [
        Decl ''height'' [S ''100% !important''],
        Decl ''border-radius'' [F (\<lambda>_. styling_at [''dimensions'', ''radius'', ''primary'']), S '' !important''],
        Decl ''border'' [S ''none !important'']]]]"

definition WrapperEmpty :: styled where
  "WrapperEmpty = Styled (Elem ''div'') [
    Decl ''width'' [S ''100%''],
    Decl ''padding'' [S ''15px''],
    Rule [S ''span''] [
      Decl ''font-size'' [F (\<lambda>p. theme_at p [''typography'', ''size'', ''xxSmall''])],
      Decl ''font-family'' [F (\<lambda>p. theme_at p [''typography'', ''family'', ''primary''])],
      Decl ''font-weight'' [F (\<lambda>p. theme_at p [''typography'', ''weight'', ''medium''])],
      Decl ''color'' [F (\<lambda>p. theme_at p [''colors'', ''font'', ''primary''])]]]"

definition LoadingWrapper_3 :: styled where
  "LoadingWrapper_3 = Styled (Elem ''div'') [
    Decl ''margin'' [S ''20px auto 0 auto'']]"

definition PanelWrapper :: styled where
  "PanelWrapper = Styled (Elem ''div'') [
    Decl ''height'' [S ''100%'']]"

definition PanelHeaderWrapper :: styled where
  "PanelHeaderWrapper = Styled (Elem ''div'') [
    Decl ''display'' [S ''flex''],
    Decl ''flex-direction'' [S ''column''],
    Decl ''gap'' [S ''7.5px''],
    Decl ''margin'' [S ''0 0 7.5px 0'']]"

definition PanelBodyWrapper :: styled where
  "PanelBodyWrapper = Styled (Elem ''div'') [
    Decl ''height'' [S ''calc(100% - 120px)''],
    Decl ''border-top'' [S ''1px solid '', F (\<lambda>p. theme_at p [''colors'', ''border'', ''primary''])],
    Decl ''border-bottom'' [S ''1px solid '', F (\<lambda>p. theme_at p [''colors'', ''border'', ''primary''])],
    Decl ''padding'' [S ''15px 0'']]"

definition PanelActionWrapper :: styled where
  "PanelActionWrapper = Styled (Elem ''div'') [
    Decl ''margin'' [S ''20px 0 0 0'']]"

section \<open>Soundness\<close>

text \<open>
  Whatever the palette, no template of the list throws, and with every attribute
  given no declaration is left without a value.
\<close>

definition editor_styles :: "styled list" where
  "editor_styles = [
    Wrapper_d, Container_3, Header_6, Placeholder_5, PlaceholderFull_1, HeaderEnd,
    List_s, Content_2, Tab_3, AltTab, AltTabAction, Icon, Wrapper_c, Header_5,
    EditorWrapper, Editor, ActionsWrapper_2, Wrapper_b, Header_4, Placeholder_4,
    ActionsWrapper_1, JSONViewerRoot, JSONIndent, JSONProperty, CollapseArrow,
    JSONArrayItem, JSONKey, JSONColon, JSONComma, JSONString, JSONStringIDFlex,
    JSONStringID, JSONStringIDOpen, JSONNumber, JSONBoolean, JSONNull,
    JSONUndefined, JSONBracket, JSONObject, JSONArray, Wrapper_a, InfoWrapper_1,
    InfoLine_2, InfoLineDivider, InfoBlockFlex, InfoBlockKey, InfoBlock, FilterForm,
    InfoBlockMaxWidth, InfoBlockDivider, TableWrapper, Table, TableRow, ThreadLine,
    AncestorLine, HorizontalLine, NodeContent, NodeContentHeader, NodeContentDetail,
    GraphWrapper, Graph, GraphCanvas, FullScreenDataPanel, DataPanelContent,
    WrapperEmpty, LoadingWrapper_3, PanelWrapper, PanelHeaderWrapper,
    PanelBodyWrapper, PanelActionWrapper]"

lemmas editor_styles_defs =
  Wrapper_d_def Container_3_def Header_6_def Placeholder_5_def PlaceholderFull_1_def
  HeaderEnd_def List_s_def Content_2_def Tab_3_def AltTab_def AltTabAction_def
  Icon_def Wrapper_c_def Header_5_def EditorWrapper_def Editor_def
  ActionsWrapper_2_def Wrapper_b_def Header_4_def Placeholder_4_def
  ActionsWrapper_1_def JSONViewerRoot_def JSONIndent_def JSONProperty_def
  CollapseArrow_def JSONArrayItem_def JSONKey_def JSONColon_def JSONComma_def
  JSONString_def JSONStringIDFlex_def JSONStringID_def JSONStringIDOpen_def
  JSONNumber_def JSONBoolean_def JSONNull_def JSONUndefined_def JSONBracket_def
  JSONObject_def JSONArray_def Wrapper_a_def InfoWrapper_1_def InfoLine_2_def
  InfoLineDivider_def InfoBlockFlex_def InfoBlockKey_def InfoBlock_def
  FilterForm_def InfoBlockMaxWidth_def InfoBlockDivider_def TableWrapper_def
  Table_def TableRow_def ThreadLine_def AncestorLine_def HorizontalLine_def
  NodeContent_def NodeContentHeader_def NodeContentDetail_def GraphWrapper_def
  Graph_def GraphCanvas_def FullScreenDataPanel_def DataPanelContent_def
  WrapperEmpty_def LoadingWrapper_3_def PanelWrapper_def PanelHeaderWrapper_def
  PanelBodyWrapper_def PanelActionWrapper_def

lemma editor_styles_run:
  assumes "sized a"
  shows "list_all (runs (themed pal a)) editor_styles"
  using assms by (elim sizedE)
    (simp add: editor_styles_def editor_styles_defs theme_lookups missing_lookups no_throw_if)

lemma editor_styles_resolve:
  assumes "given a"
  shows "list_all (resolves (themed pal a)) editor_styles"
  using given_sized [OF assms] by (elim sizedE)
    (simp add: editor_styles_def editor_styles_defs theme_lookups missing_lookups no_throw_if resolved_if
      given_simps [OF assms])

end
