(* ===== verification/Styles_Links.thy ===== *)
theory Styles_Links
  imports Theme
begin

text \<open>
  The styled components of the link graph, the explorer path header, the signature view and the message tables
  (\<open>src/html/hyperbuddy@1.0/bundle.js\<close>, lines 8356 to 9517), in the order of the
  bundle. A component is named as its variable there, with \<open>_\<close> for \<open>$\<close>.
\<close>

section \<open>Templates\<close>

definition Wrapper_9 :: styled where
  "Wrapper_9 = Styled (Elem ''div'') [
    Decl ''width'' [S ''100%''],
    Decl ''display'' [S ''flex''],
    Decl ''justify-content'' [S ''space-between''],
    Decl ''gap'' [S ''25px''],
    Decl ''position'' [S ''relative''],
    Decl ''z-index'' [S ''1''],
    Rule [S ''@media (max-width: '', F (\<lambda>_. styling_at [''cutoffs'', ''desktop'']), S '')''] [
      Decl ''flex-direction'' [S ''column'']]]"

definition InfoWrapper :: styled where
  "InfoWrapper = Styled (Elem ''div'') [
    Decl ''width'' [S ''510px''],
    Decl ''display'' [S ''flex''],
    Decl ''flex-direction'' [S ''column''],
    Decl ''gap'' [S ''25px''],
    Rule [S ''@media (max-width: '', F (\<lambda>_. styling_at [''cutoffs'', ''desktop'']), S '')''] [
      Decl ''width'' [S ''100%'']]]"

definition BodyWrapper_2 :: styled where
  "BodyWrapper_2 = Styled (Elem ''div'') [
    Decl ''width'' [S ''calc(100% - 535px)''],
    Decl ''display'' [S ''flex''],
    Decl ''flex-direction'' [S ''column''],
    Decl ''gap'' [S ''25px''],
    Decl ''position'' [S ''relative''],
    Rule [S ''@media (max-width: '', F (\<lambda>_. styling_at [''cutoffs'', ''desktop'']), S '')''] [
      Decl ''width'' [S ''100%'']]]"

definition Tab_1 :: styled where
  "Tab_1 = Styled (Elem ''div'') []"

definition InfoSection :: styled where
  "InfoSection = Styled (Elem ''div'') [
    Decl ''width'' [S ''100%''],
    Decl ''display'' [S ''flex''],
    Decl ''flex-direction'' [S ''column''],
    Decl ''overflow'' [S ''hidden'']]"

definition InfoHeader :: styled where
  "InfoHeader = Styled (Elem ''div'') [
    Decl ''display'' [S ''flex''],
    Decl ''align-items'' [S ''center''],
    Decl ''justify-content'' [S ''space-between''],
    Decl ''padding'' [S ''12.5px''],
    Decl ''background'' [F (\<lambda>p. theme_at p [''colors'', ''container'', ''alt1'', ''background''])],
    Decl ''border-bottom'' [S ''1px solid '', F (\<lambda>p. theme_at p [''colors'', ''border'', ''primary''])],
    Rule [S ''p''] [
      Decl ''font-size'' [F (\<lambda>p. theme_at p [''typography'', ''size'', ''base''])],
      Decl ''font-family'' [F (\<lambda>p. theme_at p [''typography'', ''family'', ''primary''])],
      Decl ''font-weight'' [F (\<lambda>p. theme_at p [''typography'', ''weight'', ''bold''])],
      Decl ''color'' [F (\<lambda>p. theme_at p [''colors'', ''font'', ''primary''])]],
    Rule [S ''span''] [
      Decl ''font-size'' [F (\<lambda>p. theme_at p [''typography'', ''size'', ''xSmall''])],
      Decl ''font-family'' [F (\<lambda>p. theme_at p [''typography'', ''family'', ''primary''])],
      Decl ''font-weight'' [F (\<lambda>p. theme_at p [''typography'', ''weight'', ''bold''])],
      Decl ''color'' [F (\<lambda>p. theme_at p [''colors'', ''font'', ''alt2''])]]]"

definition InfoTitle :: styled where
  "InfoTitle = Styled (Elem ''div'') [
    Decl ''display'' [S ''flex''],
    Decl ''align-items'' [S ''center''],
    Decl ''gap'' [S ''10px''],
    Rule [S ''svg''] [
      Decl ''height'' [S ''15px''],
      Decl ''width'' [S ''15px''],
      Decl ''margin'' [S ''8.5px 0 0 0''],
      Decl ''color'' [F (\<lambda>p. theme_at p [''colors'', ''font'', ''primary''])],
      Decl ''fill'' [F (\<lambda>p. theme_at p [''colors'', ''font'', ''primary''])]]]"

definition SignatureHeader :: styled where
  "SignatureHeader = Styled (Extends InfoHeader) [
    Decl ''border-bottom'' [S ''none''],
    Decl ''background'' [S ''transparent''],
    Decl ''padding'' [S ''12.5px 12.5px 8.5px 12.5px'']]"

definition InfoBody :: styled where
  "InfoBody = Styled (Elem ''div'') [
    Decl ''max-height'' [S ''calc(100vh - 240px)''],
    Decl ''display'' [S ''flex''],
    Decl ''flex-direction'' [S ''column''],
    Rule [S ''> *''] [
      Rule [S ''&:not(:last-child)''] [
        Decl ''border-bottom'' [S ''1px solid '', F (\<lambda>p. theme_at p [''colors'', ''border'', ''primary''])]]],
    Rule [S ''> *:nth-child(even)''] [
      Decl ''background'' [F (\<lambda>p. theme_at p [''colors'', ''container'', ''alt1'', ''background''])]],
    Rule [S ''@media (max-width: '', F (\<lambda>_. styling_at [''cutoffs'', ''desktop'']), S '')''] [
      Decl ''max-height'' [S ''none'']]]"

definition InfoBodyChild :: styled where
  "InfoBodyChild = Styled (Extends InfoBody) [
    Decl ''max-height'' [S ''none''],
    Decl ''border-top'' [S ''1px solid '', F (\<lambda>p. theme_at p [''colors'', ''border'', ''primary''])]]"

definition SignatureBody :: styled where
  "SignatureBody = Styled (Extends InfoBody) [
    Decl ''padding'' [S ''2.5px 0''],
    Rule [S ''> *''] [
      Rule [S ''&:not(:last-child)''] [
        Decl ''border-bottom'' [S ''none'']]]]"

definition InfoLineWrapper :: styled where
  "InfoLineWrapper = Styled (Elem ''div'') [
    Decl ''width'' [S ''100%'']]"

definition InfoLine_1 :: styled where
  "InfoLine_1 = Styled (Elem ''div'') [
    Decl ''height'' [S ''45px''],
    Decl ''width'' [S ''100%''],
    Decl ''display'' [S ''flex''],
    Decl ''align-items'' [S ''center''],
    Decl ''justify-content'' [S ''space-between''],
    Decl ''gap'' [S ''7.5px''],
    Decl ''padding'' [F (\<lambda>p. tmpl [Inr (JStr ''12.5px 12.5px 12.5px ''), to_string (js_times (prop_of p ''depth'') (Inr (JNum (125 / 10)))), Inr (JStr ''px'')])],
    Rule [S ''p, span''] [
      Decl ''display'' [S ''block''],
      Decl ''max-width'' [S ''calc(65% - 15px)''],
      Decl ''white-space'' [S ''nowrap''],
      Decl ''text-overflow'' [S ''ellipsis''],
      Decl ''overflow'' [S ''hidden'']],
    Rule [S ''span''] [
      Decl ''font-size'' [F (\<lambda>p. theme_at p [''typography'', ''size'', ''xxSmall''])],
      Decl ''font-family'' [F (\<lambda>p. theme_at p [''typography'', ''family'', ''primary''])],
      Decl ''font-weight'' [F (\<lambda>p. theme_at p [''typography'', ''weight'', ''regular''])],
      Decl ''color'' [F (\<lambda>p. theme_at p [''colors'', ''font'', ''alt2''])]],
    Rule [S ''p''] [
      Decl ''font-size'' [F (\<lambda>p. theme_at p [''typography'', ''size'', ''xxSmall''])],
      Decl ''font-family'' [F (\<lambda>p. theme_at p [''typography'', ''family'', ''primary''])],
      Decl ''font-weight'' [F (\<lambda>p. theme_at p [''typography'', ''weight'', ''medium''])],
      Decl ''color'' [F (\<lambda>p. theme_at p [''colors'', ''font'', ''primary''])]],
    Rule [S ''svg''] [
      Decl ''height'' [S ''12.5px''],
      Decl ''width'' [S ''12.5px''],
      Decl ''margin'' [S ''7.5px 0 0 0''],
      Decl ''color'' [F (\<lambda>p. theme_at p [''colors'', ''font'', ''primary''])],
      Decl ''fill'' [F (\<lambda>p. theme_at p [''colors'', ''font'', ''primary''])]],
    Mixin (\<lambda>p. js_and (prop_of p ''isLink'') (css_tmpl [Inr (JStr '' &:hover { cursor: pointer; background: ''), theme_at p [''colors'', ''container'', ''alt2'', ''background''], Inr (JStr ''; } '')]))]"

definition SignatureLine :: styled where
  "SignatureLine = Styled (Elem ''div'') [
    Decl ''display'' [S ''flex''],
    Decl ''align-items'' [S ''center''],
    Decl ''justify-content'' [S ''space-between''],
    Decl ''gap'' [S ''7.5px''],
    Decl ''padding'' [S ''10px 12.5px''],
    Decl ''background'' [S ''transparent !important''],
    Rule [S ''p, span''] [
      Decl ''display'' [S ''block''],
      Decl ''max-width'' [S ''calc(50% - 15px)''],
      Decl ''white-space'' [S ''nowrap''],
      Decl ''text-overflow'' [S ''ellipsis''],
      Decl ''overflow'' [S ''hidden'']],
    Rule [S ''p''] [
      Decl ''font-size'' [F (\<lambda>p. theme_at p [''typography'', ''size'', ''xxSmall''])],
      Decl ''font-family'' [F (\<lambda>p. theme_at p [''typography'', ''family'', ''primary''])],
      Decl ''font-weight'' [F (\<lambda>p. theme_at p [''typography'', ''weight'', ''medium''])],
      Decl ''color'' [F (\<lambda>p. theme_at p [''colors'', ''font'', ''primary''])]],
    Rule [S ''span''] [
      Decl ''font-size'' [F (\<lambda>p. theme_at p [''typography'', ''size'', ''xSmall''])],
      Decl ''font-family'' [F (\<lambda>p. theme_at p [''typography'', ''family'', ''primary''])],
      Decl ''font-weight'' [F (\<lambda>p. theme_at p [''typography'', ''weight'', ''regular''])],
      Decl ''color'' [F (\<lambda>p. theme_at p [''colors'', ''font'', ''alt2''])]]]"

definition InfoLineHeader :: styled where
  "InfoLineHeader = Styled (Elem ''div'') [
    Decl ''width'' [S ''45%''],
    Decl ''display'' [S ''flex''],
    Decl ''align-items'' [S ''center''],
    Decl ''gap'' [S ''10px''],
    Rule [S ''svg''] [
      Decl ''transition'' [S ''all 150ms''],
      Decl ''transform'' [S ''rotate('', F (\<lambda>p. ternary (prop_of p ''open'') (Inr (JStr ''90deg'')) (Inr (JStr ''0deg''))), S '')'']]]"

definition InfoLineEnd :: styled where
  "InfoLineEnd = Styled (Elem ''div'') [
    Decl ''width'' [S ''55%''],
    Decl ''display'' [S ''flex''],
    Decl ''align-items'' [S ''center''],
    Decl ''justify-content'' [S ''flex-end''],
    Decl ''gap'' [S ''10px''],
    Rule [S ''span''] [
      Decl ''max-width'' [S ''none'']],
    Rule [S ''svg''] [
      Decl ''margin'' [S ''0 0 0.75px 0'']]]"

definition Placeholder_3 :: styled where
  "Placeholder_3 = Styled (Elem ''div'') [
    Decl ''width'' [S ''100%''],
    Decl ''display'' [S ''flex''],
    Decl ''flex-direction'' [S ''column''],
    Decl ''align-items'' [S ''center''],
    Decl ''justify-content'' [S ''center''],
    Decl ''gap'' [S ''20px''],
    Decl ''padding'' [S ''80px 0'']]"

definition PlaceholderIcon_1 :: styled where
  "PlaceholderIcon_1 = Styled (Elem ''div'') [
    Decl ''height'' [S ''150px''],
    Decl ''width'' [S ''150px''],
    Decl ''display'' [S ''flex''],
    Decl ''justify-content'' [S ''center''],
    Decl ''align-items'' [S ''center''],
    Decl ''background'' [F (\<lambda>p. theme_at p [''colors'', ''container'', ''alt1'', ''background''])],
    Decl ''border'' [S ''1px solid '', F (\<lambda>p. theme_at p [''colors'', ''border'', ''primary''])],
    Decl ''border-radius'' [F (\<lambda>_. styling_at [''dimensions'', ''radius'', ''circle''])],
    Rule [S ''svg''] [
      Decl ''height'' [S ''85px''],
      Decl ''width'' [S ''85px''],
      Decl ''color'' [F (\<lambda>p. theme_at p [''colors'', ''icon'', ''primary'', ''fill''])],
      Decl ''fill'' [F (\<lambda>p. theme_at p [''colors'', ''icon'', ''primary'', ''fill''])],
      Decl ''margin'' [S ''5px 0 0 0'']]]"

definition PlaceholderDescription_1 :: styled where
  "PlaceholderDescription_1 = Styled (Elem ''div'') [
    Decl ''display'' [S ''flex''],
    Decl ''flex-direction'' [S ''column''],
    Decl ''justify-content'' [S ''center''],
    Decl ''align-items'' [S ''center''],
    Decl ''gap'' [S ''10px''],
    Rule [S ''p, span''] [
      Decl ''text-align'' [S ''center'']],
    Rule [S ''p''] [
      Decl ''font-size'' [F (\<lambda>p. theme_at p [''typography'', ''size'', ''xxSmall''])],
      Decl ''font-family'' [F (\<lambda>p. theme_at p [''typography'', ''family'', ''primary''])],
      Decl ''font-weight'' [F (\<lambda>p. theme_at p [''typography'', ''weight'', ''bold''])],
      Decl ''color'' [F (\<lambda>p. theme_at p [''colors'', ''font'', ''alt2''])],
      Decl ''text-transform'' [S ''uppercase'']],
    Rule [S ''span''] [
      Decl ''display'' [S ''block''],
      Decl ''max-width'' [S ''350px''],
      Decl ''font-size'' [F (\<lambda>p. theme_at p [''typography'', ''size'', ''xSmall''])],
      Decl ''font-family'' [F (\<lambda>p. theme_at p [''typography'', ''family'', ''primary''])],
      Decl ''font-weight'' [F (\<lambda>p. theme_at p [''typography'', ''weight'', ''medium''])],
      Decl ''color'' [F (\<lambda>p. theme_at p [''colors'', ''font'', ''alt1''])]]]"

definition Wrapper_8 :: styled where
  "Wrapper_8 = Styled (Elem ''div'') [
    Decl ''min-height'' [S ''100vh''],
    Decl ''width'' [S ''100%''],
    Decl ''display'' [S ''flex''],
    Decl ''flex-direction'' [S ''column''],
    Decl ''justify-content'' [S ''center''],
    Decl ''align-items'' [S ''center''],
    Decl ''gap'' [S ''25px''],
    Decl ''padding'' [S ''20px'']]"

definition Content_1 :: styled where
  "Content_1 = Styled (Elem ''div'') [
    Decl ''display'' [S ''flex''],
    Decl ''justify-content'' [S ''center''],
    Decl ''align-items'' [S ''center'']]"

definition Header_3 :: styled where
  "Header_3 = Styled (Elem ''h2'') [
    Decl ''font-size'' [S ''28px''],
    Decl ''font-family'' [F (\<lambda>p. theme_at p [''typography'', ''family'', ''primary''])]]"

definition Divider :: styled where
  "Divider = Styled (Elem ''div'') [
    Decl ''height'' [S ''25px''],
    Decl ''width'' [S ''1px''],
    Decl ''margin'' [S ''0 22.5px''],
    Decl ''border-right'' [S ''1px solid '', F (\<lambda>p. theme_at p [''colors'', ''border'', ''alt3''])]]"

definition Message :: styled where
  "Message = Styled (Elem ''p'') [
    Decl ''font-size'' [F (\<lambda>p. theme_at p [''typography'', ''size'', ''base''])]]"

definition ActionsWrapper :: styled where
  "ActionsWrapper = Styled (Elem ''div'') [
    Decl ''position'' [S ''absolute''],
    Decl ''bottom'' [S ''20px''],
    Decl ''right'' [S ''20px''],
    Decl ''display'' [S ''flex''],
    Decl ''flex-direction'' [S ''column''],
    Decl ''gap'' [S ''15px''],
    Rule [S ''button''] [
      Decl ''padding'' [S ''3.5px 0 0 0 !important'']]]"

definition ElementItem :: styled where
  "ElementItem = Styled (Elem ''div'') [
    Decl ''display'' [S ''flex'']]"

definition Action :: styled where
  "Action = Styled (Extends ElementItem) [
    Decl ''min-width'' [S ''200px''],
    Decl ''width'' [S ''200px'']]"

definition ActionTooltip :: styled where
  "ActionTooltip = Styled (Elem ''div'') [
    Decl ''position'' [S ''absolute''],
    Decl ''z-index'' [S ''2''],
    Decl ''top'' [S ''2.5px''],
    Decl ''left'' [S ''calc(100% + 10px)''],
    Decl ''display'' [S ''none''],
    Decl ''white-space'' [S ''nowrap''],
    Rule [S ''span''] [
      Decl ''display'' [S ''block''],
      Decl ''line-height'' [S ''1.65'']]]"

definition InputWrapper_1 :: styled where
  "InputWrapper_1 = Styled (Elem ''div'') [
    Decl ''margin'' [S ''0 0 15px 0'']]"

definition PageCounter :: styled where
  "PageCounter = Styled (Elem ''div'') [
    Decl ''display'' [S ''flex''],
    Decl ''align-items'' [S ''center''],
    Decl ''gap'' [S ''7.5px''],
    Rule [S ''p, label, input''] [
      Decl ''font-size'' [F (\<lambda>p. theme_at p [''typography'', ''size'', ''xxSmall''])],
      Decl ''font-family'' [F (\<lambda>p. theme_at p [''typography'', ''family'', ''primary''])],
      Decl ''font-weight'' [F (\<lambda>p. theme_at p [''typography'', ''weight'', ''bold''])],
      Decl ''color'' [F (\<lambda>p. theme_at p [''colors'', ''font'', ''alt1''])]]]"

definition SectionWrapper :: styled where
  "SectionWrapper = Styled (Elem ''div'') [
    Decl ''width'' [S ''100%''],
    Decl ''padding'' [S ''15px''],
    Decl ''position'' [S ''relative'']]"

section \<open>Soundness\<close>

text \<open>
  Whatever the palette, no template of the list throws, and with every attribute
  given no declaration is left without a value.
\<close>

definition links_styles :: "styled list" where
  "links_styles = [
    Wrapper_9, InfoWrapper, BodyWrapper_2, Tab_1, InfoSection, InfoHeader,
    InfoTitle, SignatureHeader, InfoBody, InfoBodyChild, SignatureBody,
    InfoLineWrapper, InfoLine_1, SignatureLine, InfoLineHeader, InfoLineEnd,
    Placeholder_3, PlaceholderIcon_1, PlaceholderDescription_1, Wrapper_8,
    Content_1, Header_3, Divider, Message, ActionsWrapper, ElementItem, Action,
    ActionTooltip, InputWrapper_1, PageCounter, SectionWrapper]"

lemmas links_styles_defs =
  Wrapper_9_def InfoWrapper_def BodyWrapper_2_def Tab_1_def InfoSection_def
  InfoHeader_def InfoTitle_def SignatureHeader_def InfoBody_def InfoBodyChild_def
  SignatureBody_def InfoLineWrapper_def InfoLine_1_def SignatureLine_def
  InfoLineHeader_def InfoLineEnd_def Placeholder_3_def PlaceholderIcon_1_def
  PlaceholderDescription_1_def Wrapper_8_def Content_1_def Header_3_def Divider_def
  Message_def ActionsWrapper_def ElementItem_def Action_def ActionTooltip_def
  InputWrapper_1_def PageCounter_def SectionWrapper_def

lemma links_styles_run:
  assumes "sized a"
  shows "list_all (runs (themed pal a)) links_styles"
  using assms by (elim sizedE)
    (simp add: links_styles_def links_styles_defs theme_lookups missing_lookups no_throw_if)

lemma links_styles_resolve:
  assumes "given a"
  shows "list_all (resolves (themed pal a)) links_styles"
  using given_sized [OF assms] by (elim sizedE)
    (simp add: links_styles_def links_styles_defs theme_lookups missing_lookups no_throw_if resolved_if
      given_simps [OF assms])

end
