(* ===== verification/Styles_Explorer.thy ===== *)
theory Styles_Explorer
  imports Theme Styles_Links
begin

text \<open>
  The styled components of the explorer tab, the tab bar and the splash screen
  (\<open>src/html/hyperbuddy@1.0/bundle.js\<close>, lines 9517 to 10379), in the order of the
  bundle. A component is named as its variable there, with \<open>_\<close> for \<open>$\<close>.
\<close>

section \<open>Templates\<close>

definition SectionWrapperFull :: styled where
  "SectionWrapperFull = Styled (Extends SectionWrapper) [
    Decl ''padding'' [S ''0'']]"

definition Header_2 :: styled where
  "Header_2 = Styled (Elem ''div'') [
    Decl ''width'' [S ''100%''],
    Decl ''display'' [S ''flex''],
    Decl ''align-items'' [S ''center''],
    Decl ''justify-content'' [S ''space-between''],
    Decl ''margin'' [S ''0 0 15px 0''],
    Rule [S ''p''] [
      Decl ''font-size'' [F (\<lambda>p. theme_at p [''typography'', ''size'', ''lg''])],
      Decl ''font-family'' [F (\<lambda>p. theme_at p [''typography'', ''family'', ''primary''])],
      Decl ''font-weight'' [F (\<lambda>p. theme_at p [''typography'', ''weight'', ''bold''])],
      Decl ''color'' [F (\<lambda>p. theme_at p [''colors'', ''font'', ''primary''])]]]"

definition Body :: styled where
  "Body = Styled (Elem ''div'') [
    Decl ''display'' [S ''flex''],
    Decl ''flex-direction'' [S ''column''],
    Decl ''gap'' [S ''15px'']]"

definition Line :: styled where
  "Line = Styled (Elem ''div'') [
    Decl ''display'' [S ''flex''],
    Decl ''align-items'' [S ''center''],
    Decl ''justify-content'' [S ''space-between''],
    Rule [S ''p, span''] [
      Decl ''font-size'' [F (\<lambda>p. theme_at p [''typography'', ''size'', ''xSmall''])],
      Decl ''font-family'' [F (\<lambda>p. theme_at p [''typography'', ''family'', ''primary''])],
      Decl ''font-weight'' [F (\<lambda>p. theme_at p [''typography'', ''weight'', ''bold''])]],
    Rule [S ''p''] [
      Decl ''color'' [F (\<lambda>p. theme_at p [''colors'', ''font'', ''primary''])],
      Decl ''text-align'' [S ''right'']],
    Rule [S ''span''] [
      Decl ''color'' [F (\<lambda>p. theme_at p [''colors'', ''font'', ''alt1''])]],
    Rule [S ''@media (max-width: '', F (\<lambda>_. styling_at [''cutoffs'', ''secondary'']), S '')''] [
      Decl ''flex-direction'' [S ''column''],
      Decl ''align-items'' [S ''flex-start''],
      Decl ''justify-content'' [S ''flex-start''],
      Decl ''gap'' [S ''5px''],
      Rule [S ''p''] [
        Decl ''text-align'' [S ''left'']]]]"

definition Wrapper_7 :: styled where
  "Wrapper_7 = Styled (Elem ''div'') [
    Decl ''display'' [S ''flex''],
    Decl ''flex-direction'' [S ''column''],
    Decl ''gap'' [S ''25px'']]"

definition HeaderWrapper_3 :: styled where
  "HeaderWrapper_3 = Styled (Elem ''form'') [
    Decl ''width'' [S ''100%''],
    Decl ''display'' [S ''flex''],
    Decl ''flex-wrap'' [S ''wrap''],
    Decl ''align-items'' [S ''center''],
    Decl ''justify-content'' [S ''space-between''],
    Decl ''gap'' [S ''20px''],
    Decl ''position'' [S ''relative''],
    Decl ''z-index'' [S ''1''],
    Decl ''overflow'' [S ''visible''],
    Rule [S ''@media (max-width: '', F (\<lambda>_. styling_at [''cutoffs'', ''initial'']), S '')''] [
      Decl ''flex-direction'' [S ''column''],
      Decl ''align-items'' [S ''flex-start'']]]"

definition HeaderActionsWrapper :: styled where
  "HeaderActionsWrapper = Styled (Elem ''div'') [
    Decl ''display'' [S ''flex''],
    Decl ''align-items'' [S ''center''],
    Decl ''gap'' [S ''20px''],
    Rule [S ''@media (max-width: '', F (\<lambda>_. styling_at [''cutoffs'', ''initial'']), S '')''] [
      Decl ''width'' [S ''100%'']]]"

definition SearchWrapper_1 :: styled where
  "SearchWrapper_1 = Styled (Elem ''div'') [
    Decl ''max-width'' [S ''100%''],
    Decl ''display'' [S ''flex''],
    Decl ''align-items'' [S ''center''],
    Decl ''flex-wrap'' [S ''wrap''],
    Decl ''gap'' [S ''15px''],
    Decl ''position'' [S ''relative''],
    Decl ''overflow'' [S ''visible'']]"

definition SearchInputWrapper :: styled where
  "SearchInputWrapper = Styled (Elem ''div'') [
    Decl ''width'' [S ''510px''],
    Decl ''max-width'' [S ''100%''],
    Decl ''position'' [S ''relative''],
    Decl ''overflow'' [S ''visible''],
    Rule [S ''input''] [
      Decl ''padding'' [S ''10px 10px 10px 43.5px !important''],
      Decl ''border'' [S ''1px solid '', F (\<lambda>p. ternary (strict_eq (prop_of p ''cacheStatus'') (Inr (JStr ''success''))) (theme_at p [''colors'', ''form'', ''valid'', ''outline'']) (ternary (strict_eq (prop_of p ''cacheStatus'') (Inr (JStr ''error''))) (theme_at p [''colors'', ''form'', ''invalid'', ''outline'']) (theme_at p [''colors'', ''form'', ''border'']))), S '' !important''],
      Rule [S ''&:focus''] [
        Decl ''outline'' [S ''0''],
        Decl ''border'' [S ''1px solid '', F (\<lambda>p. ternary (strict_eq (prop_of p ''cacheStatus'') (Inr (JStr ''success''))) (theme_at p [''colors'', ''form'', ''valid'', ''outline'']) (ternary (strict_eq (prop_of p ''cacheStatus'') (Inr (JStr ''error''))) (theme_at p [''colors'', ''form'', ''invalid'', ''outline'']) (theme_at p [''colors'', ''form'', ''default'', ''outline'']))), S '' !important''],
        Decl ''outline'' [S ''0.5px solid '', F (\<lambda>p. ternary (strict_eq (prop_of p ''cacheStatus'') (Inr (JStr ''success''))) (theme_at p [''colors'', ''form'', ''valid'', ''outline'']) (ternary (strict_eq (prop_of p ''cacheStatus'') (Inr (JStr ''error''))) (theme_at p [''colors'', ''form'', ''invalid'', ''outline'']) (theme_at p [''colors'', ''form'', ''default'', ''outline'']))), S '' !important''],
        Decl ''box-shadow'' [S ''0 0 0.5px solid '', F (\<lambda>p. ternary (strict_eq (prop_of p ''cacheStatus'') (Inr (JStr ''success''))) (theme_at p [''colors'', ''form'', ''valid'', ''shadow'']) (ternary (strict_eq (prop_of p ''cacheStatus'') (Inr (JStr ''error''))) (theme_at p [''colors'', ''form'', ''invalid'', ''shadow'']) (theme_at p [''colors'', ''form'', ''default'', ''outline'']))), S '' !important''],
        Decl ''transition'' [S ''box-shadow, border, outline 225ms ease-in-out'']]],
    Rule [S ''svg''] [
      Decl ''height'' [S ''15px''],
      Decl ''width'' [S ''15px''],
      Decl ''color'' [F (\<lambda>p. theme_at p [''colors'', ''font'', ''alt1''])],
      Decl ''fill'' [F (\<lambda>p. theme_at p [''colors'', ''font'', ''alt1''])],
      Decl ''position'' [S ''absolute''],
      Decl ''z-index'' [S ''1''],
      Decl ''top'' [S ''11.5px''],
      Decl ''left'' [S ''14.5px'']]]"

definition PathInfoWrapper :: styled where
  "PathInfoWrapper = Styled (Elem ''div'') [
    Decl ''display'' [S ''flex''],
    Decl ''align-items'' [S ''center''],
    Decl ''gap'' [S ''15px''],
    Decl ''flex-wrap'' [S ''wrap''],
    Decl ''flex-shrink'' [S ''0''],
    Rule [S ''@media (max-width: '', F (\<lambda>_. styling_at [''cutoffs'', ''initial'']), S '')''] [
      Decl ''width'' [S ''100%'']]]"

definition UpdateWrapper :: styled where
  "UpdateWrapper = Styled (Elem ''div'') [
    Decl ''width'' [S ''fit-content''],
    Decl ''padding'' [S ''4.5px 15px''],
    Decl ''display'' [S ''flex''],
    Decl ''align-items'' [S ''center''],
    Decl ''justify-content'' [S ''center''],
    Decl ''gap'' [S ''12.5px''],
    Decl ''height'' [F (\<lambda>_. styling_at [''dimensions'', ''action'', ''height''])],
    Decl ''background'' [F (\<lambda>p. theme_at p [''colors'', ''container'', ''alt1'', ''background''])],
    Decl ''border'' [S ''1px solid '', F (\<lambda>p. theme_at p [''colors'', ''border'', ''primary''])],
    Decl ''border-radius'' [F (\<lambda>_. styling_at [''dimensions'', ''radius'', ''primary''])],
    Rule [S ''span''] [
      Decl ''font-size'' [F (\<lambda>p. theme_at p [''typography'', ''size'', ''xxxSmall''])],
      Decl ''font-family'' [F (\<lambda>p. theme_at p [''typography'', ''family'', ''alt1''])],
      Decl ''font-weight'' [F (\<lambda>p. theme_at p [''typography'', ''weight'', ''medium''])],
      Decl ''color'' [F (\<lambda>p. theme_at p [''colors'', ''font'', ''primary''])],
      Decl ''text-align'' [S ''center''],
      Decl ''text-transform'' [S ''uppercase'']],
    Rule [S ''@media (max-width: '', F (\<lambda>_. styling_at [''cutoffs'', ''initial'']), S '')''] [
      Decl ''width'' [S ''100%''],
      Decl ''padding'' [S ''7.5px 15px'']]]"

definition Indicator_2 :: styled where
  "Indicator_2 = Styled (Elem ''div'') [
    Decl ''height'' [S ''10.5px''],
    Decl ''width'' [S ''10.5px''],
    Decl ''border-radius'' [F (\<lambda>_. styling_at [''dimensions'', ''radius'', ''circle''])],
    Decl ''animation'' [S ''pulse 1.075s infinite''],
    Rule [S ''@keyframes pulse''] [
      Rule [S ''0%, 100%''] [
        Decl ''background'' [F (\<lambda>p. theme_at p [''colors'', ''indicator'', ''active''])],
        Decl ''transform'' [S ''scale(1)'']],
      Rule [S ''50%''] [
        Decl ''background'' [F (\<lambda>p. theme_at p [''colors'', ''indicator'', ''primary''])],
        Decl ''transform'' [S ''scale(1.15)'']]]]"

definition BodyWrapper_1 :: styled where
  "BodyWrapper_1 = Styled (Elem ''div'') [
    Decl ''width'' [S ''100%'']]"

definition Placeholder_2 :: styled where
  "Placeholder_2 = Styled (Elem ''div'') [
    Decl ''width'' [S ''100%''],
    Decl ''display'' [S ''flex''],
    Decl ''flex-direction'' [S ''column''],
    Decl ''align-items'' [S ''center''],
    Decl ''justify-content'' [S ''center''],
    Decl ''gap'' [S ''20px''],
    Decl ''padding'' [S ''80px 0'']]"

definition PlaceholderIcon :: styled where
  "PlaceholderIcon = Styled (Elem ''div'') [
    Decl ''height'' [S ''150px''],
    Decl ''width'' [S ''150px''],
    Decl ''display'' [S ''flex''],
    Decl ''justify-content'' [S ''center''],
    Decl ''align-items'' [S ''center''],
    Decl ''background'' [F (\<lambda>p. theme_at p [''colors'', ''container'', ''alt1'', ''background''])],
    Decl ''border'' [S ''1px solid '', F (\<lambda>p. theme_at p [''colors'', ''border'', ''primary''])],
    Decl ''border-radius'' [S ''50%''],
    Rule [S ''svg''] [
      Decl ''height'' [S ''85px''],
      Decl ''width'' [S ''85px''],
      Decl ''color'' [F (\<lambda>p. theme_at p [''colors'', ''icon'', ''primary'', ''fill''])],
      Decl ''fill'' [F (\<lambda>p. theme_at p [''colors'', ''icon'', ''primary'', ''fill''])],
      Decl ''margin'' [S ''5px 0 0 0'']]]"

definition PlaceholderDescription :: styled where
  "PlaceholderDescription = Styled (Elem ''div'') [
    Decl ''display'' [S ''flex''],
    Decl ''flex-direction'' [S ''column''],
    Decl ''justify-content'' [S ''center''],
    Decl ''align-items'' [S ''center''],
    Decl ''gap'' [S ''10px''],
    Rule [S ''p, span''] [
      Decl ''text-align'' [S ''center'']],
    Rule [S ''p''] [
      Decl ''font-size'' [F (\<lambda>p. theme_at p [''typography'', ''size'', ''xxSmall''])],
      Decl ''font-family'' [F (\<lambda>p. theme_at p [''typography'', ''family'', ''primary''])],
      Decl ''font-weight'' [F (\<lambda>p. theme_at p [''typography'', ''weight'', ''bold''])],
      Decl ''color'' [F (\<lambda>p. theme_at p [''colors'', ''font'', ''alt2''])],
      Decl ''text-transform'' [S ''uppercase'']],
    Rule [S ''span''] [
      Decl ''display'' [S ''block''],
      Decl ''max-width'' [S ''350px''],
      Decl ''font-size'' [F (\<lambda>p. theme_at p [''typography'', ''size'', ''xSmall''])],
      Decl ''font-family'' [F (\<lambda>p. theme_at p [''typography'', ''family'', ''primary''])],
      Decl ''font-weight'' [F (\<lambda>p. theme_at p [''typography'', ''weight'', ''medium''])],
      Decl ''color'' [F (\<lambda>p. theme_at p [''colors'', ''font'', ''alt1''])]]]"

definition Wrapper_6 :: styled where
  "Wrapper_6 = Styled (Elem ''div'') [
    Decl ''width'' [S ''100%''],
    Decl ''display'' [S ''flex''],
    Decl ''flex-direction'' [S ''column''],
    Decl ''gap'' [S ''25px''],
    Decl ''position'' [S ''relative''],
    Decl ''z-index'' [S ''1'']]"

definition HeaderWrapper_2 :: styled where
  "HeaderWrapper_2 = Styled (Elem ''div'') [
    Decl ''width'' [S ''100%''],
    Decl ''background'' [F (\<lambda>p. theme_at p [''colors'', ''container'', ''alt1'', ''background''])],
    Decl ''position'' [S ''relative''],
    Decl ''z-index'' [S ''1'']]"

definition TabsWrapper_1 :: styled where
  "TabsWrapper_1 = Styled (Elem ''div'') [
    Decl ''width'' [S ''100%''],
    Decl ''display'' [S ''flex''],
    Decl ''align-items'' [S ''center''],
    Decl ''position'' [S ''relative''],
    Decl ''margin'' [S ''25px 0 0 0'']]"

definition TabsContent :: styled where
  "TabsContent = Styled (Elem ''div'') [
    Decl ''width'' [S ''100%''],
    Decl ''display'' [S ''flex''],
    Decl ''align-items'' [S ''center''],
    Decl ''position'' [S ''relative''],
    Decl ''z-index'' [S ''0''],
    Decl ''white-space'' [S ''nowrap''],
    Decl ''overflow-x'' [S ''auto''],
    Decl ''overflow-y'' [S ''hidden''],
    Decl ''padding'' [S ''0 1px 1.5px 1px'']]"

definition TabAction :: styled where
  "TabAction = Styled (Elem ''div'') [
    Decl ''max-width'' [S ''200px''],
    Decl ''cursor'' [S ''pointer''],
    Decl ''position'' [S ''relative''],
    Decl ''z-index'' [S ''1''],
    Decl ''display'' [S ''flex''],
    Decl ''justify-content'' [S ''space-between''],
    Decl ''align-items'' [S ''center''],
    Decl ''gap'' [S ''12.5px''],
    Decl ''padding'' [S ''12.5px 18px 13.5px 21.5px''],
    Decl ''margin'' [S ''0 0 -1.5px 0''],
    Decl ''background'' [F (\<lambda>p. ternary (prop_of p ''active'') (theme_at p [''colors'', ''view'', ''background'']) (Inr (JStr ''transparent'')))],
    Decl ''border-bottom'' [S ''1px solid '', F (\<lambda>p. ternary (prop_of p ''active'') (Inr (JStr ''transparent'')) (theme_at p [''colors'', ''border'', ''primary'']))],
    Decl ''border-top'' [S ''2px solid '', F (\<lambda>p. ternary (prop_of p ''active'') (theme_at p [''colors'', ''border'', ''alt4'']) (Inr (JStr ''transparent'')))],
    Decl ''white-space'' [S ''nowrap''],
    Decl ''transition'' [S ''all 100ms''],
    Rule [S ''.right-icons''] [
      Decl ''display'' [S ''flex''],
      Decl ''align-items'' [S ''center''],
      Decl ''gap'' [S ''7.5px''],
      Decl ''margin'' [S ''0 0 0 5.5px'']],
    Rule [S ''.icon-wrapper''] [
      Decl ''position'' [S ''relative''],
      Decl ''width'' [S ''12.5px''],
      Decl ''height'' [S ''12.5px'']],
    Rule [S ''.normal-icon, .delete-icon''] [
      Decl ''position'' [S ''absolute''],
      Decl ''top'' [S ''0''],
      Decl ''left'' [S ''0''],
      Decl ''width'' [S ''100%''],
      Decl ''height'' [S ''100%''],
      Decl ''transition'' [S ''all 100ms'']],
    Rule [S ''.normal-icon''] [
      Rule [S ''svg''] [
        Decl ''margin'' [S ''0 0 5.5px 0'']]],
    Rule [S ''.delete-icon''] [
      Decl ''display'' [S ''none''],
      Decl ''margin'' [S ''0.5px 0 0 0'']],
    Rule [S ''&:hover .normal-icon''] [
      Decl ''display'' [S ''none'']],
    Rule [S ''&:hover .delete-icon''] [
      Decl ''display'' [S ''block''],
      Rule [S ''button''] [
        Decl ''background'' [S ''transparent !important''],
        Rule [S ''&:hover''] [
          Rule [S ''svg''] [
            Decl ''color'' [F (\<lambda>p. theme_at p [''colors'', ''warning'', ''primary'']), S '' !important''],
            Decl ''fill'' [F (\<lambda>p. theme_at p [''colors'', ''warning'', ''primary'']), S '' !important'']]]]],
    Rule [S ''span''] [
      Decl ''max-width'' [S ''125px''],
      Decl ''text-overflow'' [S ''ellipsis''],
      Decl ''overflow'' [S ''hidden''],
      Decl ''font-size'' [F (\<lambda>p. theme_at p [''typography'', ''size'', ''xSmall''])],
      Decl ''font-weight'' [F (\<lambda>p. theme_at p [''typography'', ''weight'', ''bold''])],
      Decl ''font-family'' [F (\<lambda>p. theme_at p [''typography'', ''family'', ''primary''])],
      Decl ''color'' [F (\<lambda>p. ternary (prop_of p ''active'') (theme_at p [''colors'', ''font'', ''primary'']) (theme_at p [''colors'', ''font'', ''alt3'']))]],
    Rule [S ''svg''] [
      Decl ''height'' [S ''12.5px''],
      Decl ''width'' [S ''12.5px''],
      Decl ''color'' [F (\<lambda>p. ternary (prop_of p ''active'') (theme_at p [''colors'', ''font'', ''primary'']) (theme_at p [''colors'', ''font'', ''alt3'']))],
      Decl ''fill'' [F (\<lambda>p. ternary (prop_of p ''active'') (theme_at p [''colors'', ''font'', ''primary'']) (theme_at p [''colors'', ''font'', ''alt3'']))]],
    Rule [S ''&:hover''] [
      Rule [S ''span''] [
        Decl ''color'' [F (\<lambda>p. theme_at p [''colors'', ''font'', ''primary''])]],
      Rule [S ''svg''] [
        Decl ''color'' [F (\<lambda>p. theme_at p [''colors'', ''font'', ''primary''])],
        Decl ''fill'' [F (\<lambda>p. theme_at p [''colors'', ''font'', ''primary''])]]],
    Rule [S ''&:before''] [
      Decl ''display'' [S ''block''],
      Decl ''content'' [S [CHR 0x27, CHR 0x27]],
      Decl ''position'' [S ''absolute''],
      Decl ''z-index'' [S ''1''],
      Decl ''left'' [S ''0''],
      Decl ''transform'' [S ''translate(-50%, 0)''],
      Decl ''top'' [S ''-2px''],
      Decl ''background'' [F (\<lambda>p. ternary (prop_of p ''active'') (theme_at p [''colors'', ''border'', ''primary'']) (Inr (JStr ''transparent'')))],
      Decl ''height'' [S ''calc(100% + 3px)''],
      Decl ''width'' [S ''1px''],
      Decl ''pointer-events'' [S ''none'']],
    Rule [S ''&:after''] [
      Decl ''display'' [S ''block''],
      Decl ''content'' [S [CHR 0x27, CHR 0x27]],
      Decl ''position'' [S ''absolute''],
      Decl ''z-index'' [S ''1''],
      Decl ''right'' [S ''-1px''],
      Decl ''transform'' [S ''translate(-50%, 0)''],
      Decl ''top'' [S ''-2px''],
      Decl ''background'' [F (\<lambda>p. ternary (prop_of p ''active'') (theme_at p [''colors'', ''border'', ''primary'']) (Inr (JStr ''transparent'')))],
      Decl ''height'' [S ''calc(100% + 3px)''],
      Decl ''width'' [S ''1px''],
      Decl ''pointer-events'' [S ''none'']]]"

definition NewTab :: styled where
  "NewTab = Styled (Extends TabAction) [
    Decl ''border-bottom'' [S ''1px solid '', F (\<lambda>p. theme_at p [''colors'', ''border'', ''primary'']), S '' !important''],
    Rule [S ''.add-icon''] [
      Decl ''height'' [S ''20px'']],
    Rule [S ''svg''] [
      Decl ''margin'' [S ''0 0 1px 2.5px'']]]"

definition Placeholder_1 :: styled where
  "Placeholder_1 = Styled (Elem ''div'') [
    Decl ''height'' [S ''1px''],
    Decl ''flex'' [S ''1''],
    Decl ''margin'' [S ''auto 0 -1.5px 0''],
    Decl ''border-bottom'' [S ''1px solid '', F (\<lambda>p. theme_at p [''colors'', ''border'', ''primary''])]]"

definition PlaceholderFull :: styled where
  "PlaceholderFull = Styled (Extends Placeholder_1) [
    Decl ''margin'' [S ''auto -26.5px 0 -26.5px''],
    Rule [S ''@media (max-width: '', F (\<lambda>_. styling_at [''cutoffs'', ''initial'']), S '')''] [
      Decl ''margin'' [S ''auto -14.5px 0 -14.5px''],
      Rule [S ''&[id='placeholder-start']''] [
        Decl ''margin'' [S ''auto -15.5px 0 0'']],
      Rule [S ''&[id='placeholder-end']''] [
        Decl ''margin'' [S ''auto 0 0 -15.5px'']]]]"

definition TabWrapper :: styled where
  "TabWrapper = Styled (Elem ''div'') [
    Decl ''display'' [F (\<lambda>p. ternary (prop_of p ''active'') (Inr (JStr ''block'')) (Inr (JStr ''none'')))]]"

definition ModalWrapper :: styled where
  "ModalWrapper = Styled (Elem ''div'') [
    Decl ''display'' [S ''flex''],
    Decl ''flex-direction'' [S ''column''],
    Decl ''gap'' [S ''20px''],
    Decl ''padding'' [S ''0 20px 20px 20px !important'']]"

definition ModalBodyWrapper :: styled where
  "ModalBodyWrapper = Styled (Elem ''div'') [
    Rule [S ''p''] [
      Decl ''color'' [F (\<lambda>p. theme_at p [''colors'', ''font'', ''alt1''])],
      Decl ''font-size'' [F (\<lambda>p. theme_at p [''typography'', ''size'', ''xSmall'']), S '' !important''],
      Decl ''font-weight'' [F (\<lambda>p. theme_at p [''typography'', ''weight'', ''bold'']), S '' !important''],
      Decl ''font-family'' [F (\<lambda>p. theme_at p [''typography'', ''family'', ''primary'']), S '' !important'']]]"

definition ModalActionsWrapper :: styled where
  "ModalActionsWrapper = Styled (Elem ''div'') [
    Decl ''display'' [S ''flex''],
    Decl ''align-items'' [S ''center''],
    Decl ''justify-content'' [S ''flex-end''],
    Decl ''flex-wrap'' [S ''wrap''],
    Decl ''gap'' [S ''15px'']]"

definition Wrapper_5 :: styled where
  "Wrapper_5 = Styled (Elem ''div'') [
    Decl ''min-height'' [S ''500px''],
    Decl ''height'' [S ''calc(100vh - 175px)''],
    Decl ''width'' [S ''100%''],
    Decl ''position'' [S ''relative''],
    Decl ''display'' [S ''flex''],
    Decl ''gap'' [S ''25px''],
    Decl ''padding'' [F (\<lambda>p. ternary (prop_of p ''fullScreenMode'') (Inr (JStr ''15px'')) (Inr (JStr ''0'')))],
    Decl ''background'' [F (\<lambda>p. theme_at p [''colors'', ''view'', ''background''])],
    Rule [S ''@media (max-width: '', F (\<lambda>_. styling_at [''cutoffs'', ''initial'']), S '')''] [
      Decl ''flex-direction'' [S ''column-reverse'']]]"

definition ConsoleWrapper :: styled where
  "ConsoleWrapper = Styled (Elem ''div'') [
    Decl ''height'' [S ''100%''],
    Decl ''width'' [F (\<lambda>p. ternary (prop_of p ''editorMode'') (Inr (JStr ''50%'')) (Inr (JStr ''100%'')))],
    Decl ''max-width'' [F (\<lambda>p. comma (prop_of p ''editorMode'') (Inr (JStr ''none'')))],
    Decl ''display'' [S ''flex''],
    Decl ''gap'' [S ''25px''],
    Decl ''flex-direction'' [S ''column''],
    Decl ''position'' [S ''relative''],
    Decl ''margin'' [S ''0 auto''],
    Decl ''padding'' [S ''1.5px 0''],
    Rule [S ''@media (max-width: '', F (\<lambda>_. styling_at [''cutoffs'', ''initial'']), S '')''] [
      Decl ''width'' [S ''100%'']]]"

definition ResultsWrapper :: styled where
  "ResultsWrapper = Styled (Elem ''div'') [
    Decl ''width'' [S ''100%''],
    Decl ''flex'' [S ''1''],
    Decl ''overflow-y'' [S ''auto''],
    Decl ''display'' [S ''flex''],
    Decl ''flex-direction'' [S ''column''],
    Decl ''gap'' [S ''20px''],
    Decl ''padding'' [S ''0 15px 0 0''],
    Rule [S ''.result-command''] [
      Decl ''width'' [S ''fit-content''],
      Decl ''color'' [F (\<lambda>p. theme_at p [''colors'', ''font'', ''primary''])],
      Decl ''font-family'' [F (\<lambda>p. theme_at p [''typography'', ''family'', ''primary''])],
      Decl ''font-size'' [F (\<lambda>p. theme_at p [''typography'', ''size'', ''xxSmall''])],
      Decl ''background'' [F (\<lambda>p. theme_at p [''colors'', ''container'', ''alt2'', ''background''])],
      Decl ''border'' [S ''1px solid '', F (\<lambda>p. theme_at p [''colors'', ''border'', ''alt2''])],
      Decl ''border-radius'' [F (\<lambda>_. styling_at [''dimensions'', ''radius'', ''primary''])],
      Decl ''padding'' [S ''1.5px 7.5px'']],
    Rule [S ''.result-error''] [
      Decl ''font-family'' [F (\<lambda>p. theme_at p [''typography'', ''family'', ''primary''])],
      Decl ''color'' [F (\<lambda>p. theme_at p [''colors'', ''warning'', ''primary''])]],
    Rule [S ''.result-loading''] [
      Decl ''font-family'' [F (\<lambda>p. theme_at p [''typography'', ''family'', ''primary''])],
      Decl ''color'' [F (\<lambda>p. theme_at p [''colors'', ''font'', ''alt1''])]],
    Rule [S ''.result-success''] [
      Decl ''letter-spacing'' [S ''-0.35px''],
      Decl ''font-family'' [F (\<lambda>p. theme_at p [''typography'', ''family'', ''primary''])],
      Decl ''color'' [F (\<lambda>p. theme_at p [''colors'', ''font'', ''primary''])]]]"

definition ResultLine :: styled where
  "ResultLine = Styled (Elem ''div'') [
    Decl ''font-family'' [F (\<lambda>p. theme_at p [''typography'', ''family'', ''primary''])],
    Decl ''font-size'' [F (\<lambda>p. theme_at p [''typography'', ''size'', ''xxSmall''])],
    Decl ''font-weight'' [F (\<lambda>p. theme_at p [''typography'', ''weight'', ''bold''])],
    Decl ''color'' [F (\<lambda>p. theme_at p [''colors'', ''font'', ''primary''])],
    Decl ''white-space'' [S ''pre-wrap''],
    Decl ''word-wrap'' [S ''break-word''],
    Decl ''display'' [S ''flex''],
    Decl ''align-items'' [S ''center''],
    Decl ''gap'' [S ''8px'']]"

definition Spinner :: styled where
  "Spinner = Styled (Elem ''span'') [
    Decl ''display'' [S ''inline-block''],
    Decl ''width'' [S ''12px''],
    Decl ''height'' [S ''12px''],
    Decl ''border'' [S ''2px solid '', F (\<lambda>p. theme_at p [''colors'', ''font'', ''alt3''])],
    Decl ''border-top-color'' [F (\<lambda>p. theme_at p [''colors'', ''editor'', ''alt1''])],
    Decl ''border-radius'' [S ''50%''],
    Decl ''animation'' [S ''spin 0.5s linear infinite''],
    Rule [S ''@keyframes spin''] [
      Rule [S ''to''] [
        Decl ''transform'' [S ''rotate(360deg)'']]]]"

definition LoadingText :: styled where
  "LoadingText = Styled (Elem ''span'') [
    Rule [S ''&::after''] [
      Decl ''content'' [S [CHR 0x27, CHR 0x27]],
      Decl ''animation'' [S ''ellipsis 0.65s steps(4, end) infinite'']],
    Rule [S ''@keyframes ellipsis''] [
      Rule [S ''0%''] [
        Decl ''content'' [S [CHR 0x27, CHR 0x27]]],
      Rule [S ''25%''] [
        Decl ''content'' [S ([CHR 0x27] @ ''.'' @ [CHR 0x27])]],
      Rule [S ''50%''] [
        Decl ''content'' [S ([CHR 0x27] @ ''..'' @ [CHR 0x27])]],
      Rule [S ''75%''] [
        Decl ''content'' [S ([CHR 0x27] @ ''...'' @ [CHR 0x27])]],
      Rule [S ''100%''] [
        Decl ''content'' [S [CHR 0x27, CHR 0x27]]]]]"

definition SplashScreen :: styled where
  "SplashScreen = Styled (Elem ''div'') [
    Decl ''padding'' [S ''15px''],
    Decl ''display'' [S ''flex''],
    Decl ''flex-direction'' [S ''column''],
    Decl ''gap'' [S ''7.5px''],
    Decl ''position'' [S ''relative'']]"

definition SplashScreenHeader :: styled where
  "SplashScreenHeader = Styled (Elem ''div'') [
    Decl ''display'' [S ''flex''],
    Decl ''font-family'' [F (\<lambda>p. theme_at p [''typography'', ''family'', ''primary''])],
    Decl ''font-size'' [F (\<lambda>p. theme_at p [''typography'', ''size'', ''xxSmall''])],
    Decl ''font-weight'' [F (\<lambda>p. theme_at p [''typography'', ''weight'', ''bold''])],
    Decl ''color'' [F (\<lambda>p. theme_at p [''colors'', ''font'', ''alt1''])],
    Decl ''margin'' [S ''0 0 1.5px 0'']]"

definition SplashScreenLine :: styled where
  "SplashScreenLine = Styled (Elem ''div'') [
    Decl ''display'' [S ''flex''],
    Decl ''gap'' [S ''10px''],
    Rule [S ''p, span''] [
      Decl ''font-size'' [F (\<lambda>p. theme_at p [''typography'', ''size'', ''xxSmall''])],
      Decl ''font-weight'' [F (\<lambda>p. theme_at p [''typography'', ''weight'', ''bold''])]],
    Rule [S ''span''] [
      Decl ''font-family'' [F (\<lambda>p. theme_at p [''typography'', ''family'', ''alt2''])],
      Decl ''color'' [F (\<lambda>p. theme_at p [''colors'', ''font'', ''alt1''])],
      Decl ''letter-spacing'' [S ''-0.5px'']],
    Rule [S ''p''] [
      Decl ''font-family'' [F (\<lambda>p. theme_at p [''typography'', ''family'', ''primary''])],
      Decl ''color'' [F (\<lambda>p. theme_at p [''colors'', ''font'', ''primary''])]]]"

definition SplashScreenDivider :: styled where
  "SplashScreenDivider = Styled (Elem ''div'') [
    Decl ''height'' [S ''1px''],
    Decl ''width'' [S ''100%''],
    Decl ''border-top'' [S ''1px solid '', F (\<lambda>p. theme_at p [''colors'', ''border'', ''primary'']), S '' !important''],
    Decl ''margin'' [S ''10px 0'']]"

definition InputWrapper :: styled where
  "InputWrapper = Styled (Elem ''div'') [
    Decl ''width'' [S ''100%''],
    Decl ''display'' [S ''flex''],
    Decl ''flex-direction'' [S ''column''],
    Decl ''padding'' [S ''15px''],
    Decl ''background'' [F (\<lambda>p. ternary (prop_of p ''disabled'') (theme_at p [''colors'', ''button'', ''primary'', ''disabled'', ''background'']) (theme_at p [''colors'', ''container'', ''alt1'', ''background''])), S '' !important''],
    Decl ''border'' [S ''1px solid '', F (\<lambda>p. ternary (prop_of p ''disabled'') (theme_at p [''colors'', ''border'', ''primary'']) (theme_at p [''colors'', ''border'', ''alt1''])), S '' !important''],
    Decl ''position'' [S ''relative''],
    Decl ''transition'' [S ''border-color 100ms ease''],
    Decl ''cursor'' [S ''text''],
    Rule [S ''&:focus-within''] [
      Decl ''border-color'' [F (\<lambda>p. js_and (js_not (prop_of p ''disabled'')) (theme_at p [''colors'', ''border'', ''alt4''])), S '' !important'']]]"

definition Input_1 :: styled where
  "Input_1 = Styled (Elem ''div'') [
    Decl ''height'' [S ''fit-content''],
    Decl ''width'' [S ''100%''],
    Decl ''font-family'' [F (\<lambda>p. theme_at p [''typography'', ''family'', ''primary''])],
    Decl ''font-size'' [F (\<lambda>p. theme_at p [''typography'', ''size'', ''xxSmall''])],
    Decl ''font-weight'' [F (\<lambda>p. theme_at p [''typography'', ''weight'', ''bold''])],
    Decl ''color'' [F (\<lambda>p. ternary (prop_of p ''disabled'') (theme_at p [''colors'', ''button'', ''primary'', ''disabled'', ''color'']) (theme_at p [''colors'', ''font'', ''primary'']))],
    Decl ''opacity'' [F (\<lambda>p. comma (prop_of p ''disabled'') (Inr (JNum 1)))],
    Decl ''line-height'' [S ''1.5''],
    Decl ''border'' [S ''none''],
    Decl ''outline'' [S ''none''],
    Decl ''resize'' [S ''none''],
    Decl ''padding'' [S ''0''],
    Decl ''white-space'' [S ''pre-wrap''],
    Decl ''overflow-wrap'' [S ''break-word''],
    Decl ''caret-color'' [F (\<lambda>p. theme_at p [''colors'', ''editor'', ''alt1''])],
    Rule [S ''&.placeholder:before''] [
      Decl ''content'' [S ''attr(data-placeholder)''],
      Decl ''color'' [F (\<lambda>p. theme_at p [''colors'', ''font'', ''alt2''])],
      Decl ''pointer-events'' [S ''none'']],
    Rule [S ''&.loading:before''] [
      Decl ''content'' [S ''attr(data-placeholder)''],
      Decl ''color'' [F (\<lambda>p. theme_at p [''colors'', ''font'', ''alt3''])],
      Decl ''pointer-events'' [S ''none'']],
    Decl ''position'' [S ''relative'']]"

definition InputActionsWrapper :: styled where
  "InputActionsWrapper = Styled (Elem ''div'') [
    Decl ''width'' [S ''100%''],
    Decl ''display'' [S ''flex''],
    Decl ''gap'' [S ''15px''],
    Decl ''align-items'' [S ''center''],
    Decl ''justify-content'' [S ''space-between''],
    Decl ''margin'' [S ''12.5px 0 0 0'']]"

definition InputActionsSection :: styled where
  "InputActionsSection = Styled (Elem ''div'') [
    Decl ''width'' [S ''fit-content''],
    Decl ''display'' [S ''flex''],
    Decl ''gap'' [S ''10px''],
    Decl ''margin'' [S ''0 0 0 -3.5px'']]"

section \<open>Soundness\<close>

text \<open>
  Whatever the palette, no template of the list throws, and with every attribute
  given no declaration is left without a value. \<open>Indicator_2\<close> names a path the
  theme does not have and is left out; they are treated in \<open>Styles\<close>.
\<close>

definition explorer_styles :: "styled list" where
  "explorer_styles = [
    SectionWrapperFull, Header_2, Body, Line, Wrapper_7, HeaderWrapper_3,
    HeaderActionsWrapper, SearchWrapper_1, SearchInputWrapper, PathInfoWrapper,
    UpdateWrapper, BodyWrapper_1, Placeholder_2, PlaceholderIcon,
    PlaceholderDescription, Wrapper_6, HeaderWrapper_2, TabsWrapper_1, TabsContent,
    TabAction, NewTab, Placeholder_1, PlaceholderFull, TabWrapper, ModalWrapper,
    ModalBodyWrapper, ModalActionsWrapper, Wrapper_5, ConsoleWrapper,
    ResultsWrapper, ResultLine, Spinner, LoadingText, SplashScreen,
    SplashScreenHeader, SplashScreenLine, SplashScreenDivider, InputWrapper,
    Input_1, InputActionsWrapper, InputActionsSection]"

lemmas explorer_styles_defs =
  SectionWrapperFull_def Header_2_def Body_def Line_def Wrapper_7_def
  HeaderWrapper_3_def HeaderActionsWrapper_def SearchWrapper_1_def
  SearchInputWrapper_def PathInfoWrapper_def UpdateWrapper_def BodyWrapper_1_def
  Placeholder_2_def PlaceholderIcon_def PlaceholderDescription_def Wrapper_6_def
  HeaderWrapper_2_def TabsWrapper_1_def TabsContent_def TabAction_def NewTab_def
  Placeholder_1_def PlaceholderFull_def TabWrapper_def ModalWrapper_def
  ModalBodyWrapper_def ModalActionsWrapper_def Wrapper_5_def ConsoleWrapper_def
  ResultsWrapper_def ResultLine_def Spinner_def LoadingText_def SplashScreen_def
  SplashScreenHeader_def SplashScreenLine_def SplashScreenDivider_def
  InputWrapper_def Input_1_def InputActionsWrapper_def InputActionsSection_def

lemma explorer_styles_run:
  assumes "sized a"
  shows "list_all (runs (themed pal a)) explorer_styles"
  using assms by (elim sizedE)
    (simp add: explorer_styles_def explorer_styles_defs links_styles_defs theme_lookups missing_lookups no_throw_if)

lemma explorer_styles_resolve:
  assumes "given a"
  shows "list_all (resolves (themed pal a)) explorer_styles"
  using given_sized [OF assms] by (elim sizedE)
    (simp add: explorer_styles_def explorer_styles_defs links_styles_defs theme_lookups missing_lookups no_throw_if resolved_if
      given_simps [OF assms])

end
