(* ===== verification/Styles_Landing.thy ===== *)
theory Styles_Landing
  imports Theme
begin

text \<open>
  The styled components of the console, the devices page, the metrics page and the landing page
  (\<open>src/html/hyperbuddy@1.0/bundle.js\<close>, lines 10381 to 11245), in the order of the
  bundle. A component is named as its variable there, with \<open>_\<close> for \<open>$\<close>.
\<close>

section \<open>Templates\<close>

definition Container_2 :: styled where
  "Container_2 = Styled (Elem ''div'') [
    Decl ''box-sizing'' [S ''border-box''],
    Decl ''width'' [S ''100%''],
    Decl ''height'' [S ''100%''],
    Decl ''display'' [S ''flex''],
    Decl ''flex-direction'' [S ''column''],
    Decl ''align-items'' [S ''center''],
    Decl ''justify-content'' [S ''center''],
    Decl ''position'' [F (\<lambda>p. ternary (prop_of p ''relative'') (Inr (JStr ''relative'')) (Inr (JStr ''fixed'')))],
    Decl ''top'' [F (\<lambda>p. ternary (prop_of p ''relative'') (Inr (JStr ''auto'')) (Inr (JStr ''0'')))],
    Decl ''left'' [F (\<lambda>p. ternary (prop_of p ''relative'') (Inr (JStr ''auto'')) (Inr (JStr ''0'')))],
    Decl ''perspective'' [S ''1200px''],
    Decl ''z-index'' [S ''11''],
    Decl ''min-height'' [F (\<lambda>p. js_times (prop_of p ''$size'') (Inr (JNum 2))), S ''px''],
    Decl ''min-width'' [F (\<lambda>p. js_times (prop_of p ''$size'') (Inr (JNum 2))), S ''px''],
    Decl ''--cube-size'' [F (\<lambda>p. prop_of p ''$size''), S ''px''],
    Decl ''--rotX'' [S ''0deg''],
    Decl ''--rotY'' [S ''0deg''],
    Decl ''--rotZ'' [S ''0deg'']]"

definition Cube :: styled where
  "Cube = Styled (Elem ''div'') [
    Decl ''position'' [S ''absolute''],
    Decl ''left'' [S ''50%''],
    Decl ''top'' [S ''50%''],
    Decl ''width'' [S ''var(--cube-size)''],
    Decl ''height'' [S ''var(--cube-size)''],
    Decl ''transform-style'' [S ''preserve-3d''],
    Decl ''transform'' [S ''translate(-50%, -50%) rotateX(var(--rotX)) rotateY(var(--rotY)) rotateZ(var(--rotZ))'']]"

definition Face :: styled where
  "Face = Styled (Elem ''div'') [
    Decl ''position'' [S ''absolute''],
    Decl ''left'' [S ''0''],
    Decl ''top'' [S ''0''],
    Decl ''width'' [S ''var(--cube-size)''],
    Decl ''height'' [S ''var(--cube-size)''],
    Decl ''background'' [S ''transparent''],
    Decl ''border'' [S ''0.5px dashed '', F (\<lambda>p. theme_at p [''colors'', ''font'', ''primary''])],
    Decl ''transform'' [F (\<lambda>p. ternary (strict_eq (prop_of p ''$face'') (Inr (JStr ''front''))) (tmpl [Inr (JStr ''rotateY(0deg) translateZ(''), Inr (JStr ''calc(var(--cube-size) / 2)''), Inr (JStr '')'')]) (ternary (strict_eq (prop_of p ''$face'') (Inr (JStr ''back''))) (tmpl [Inr (JStr ''rotateY(180deg) translateZ(''), Inr (JStr ''calc(var(--cube-size) / 2)''), Inr (JStr '')'')]) (ternary (strict_eq (prop_of p ''$face'') (Inr (JStr ''right''))) (tmpl [Inr (JStr ''rotateY(90deg) translateZ(''), Inr (JStr ''calc(var(--cube-size) / 2)''), Inr (JStr '')'')]) (ternary (strict_eq (prop_of p ''$face'') (Inr (JStr ''left''))) (tmpl [Inr (JStr ''rotateY(-90deg) translateZ(''), Inr (JStr ''calc(var(--cube-size) / 2)''), Inr (JStr '')'')]) (ternary (strict_eq (prop_of p ''$face'') (Inr (JStr ''top''))) (tmpl [Inr (JStr ''rotateX(90deg) translateZ(''), Inr (JStr ''calc(var(--cube-size) / 2)''), Inr (JStr '')'')]) (ternary (strict_eq (prop_of p ''$face'') (Inr (JStr ''bottom''))) (tmpl [Inr (JStr ''rotateX(-90deg) translateZ(''), Inr (JStr ''calc(var(--cube-size) / 2)''), Inr (JStr '')'')]) (tmpl [Inr (JStr ''translateZ(''), Inr (JStr ''calc(var(--cube-size) / 2)''), Inr (JStr '')'')])))))))],
    Decl ''transform-style'' [S ''preserve-3d'']]"

definition Container_1 :: styled where
  "Container_1 = Styled (Elem ''div'') [
    Decl ''width'' [S ''100%''],
    Decl ''display'' [S ''flex''],
    Decl ''flex-direction'' [S ''column''],
    Decl ''min-height'' [S ''calc( 100vh - '', F (\<lambda>_. styling_at [''dimensions'', ''nav'', ''height'']), S '' - '', F (\<lambda>_. styling_at [''dimensions'', ''landingTab'', ''height'']), S '' - '', F (\<lambda>_. styling_at [''dimensions'', ''footer'', ''height'']), S '' - '', F (\<lambda>_. styling_at [''dimensions'', ''landingHeader'', ''padding'']), S '' )'']]"

definition Header_1 :: styled where
  "Header_1 = Styled (Elem ''div'') [
    Decl ''width'' [S ''100%''],
    Decl ''display'' [S ''flex''],
    Decl ''justify-content'' [S ''space-between''],
    Decl ''align-items'' [S ''center''],
    Decl ''gap'' [S ''16px''],
    Decl ''flex-wrap'' [S ''wrap''],
    Decl ''padding'' [F (\<lambda>_. styling_at [''dimensions'', ''landingHeader'', ''padding'']), S '' 0px '', F (\<lambda>_. styling_at [''dimensions'', ''landingHeader'', ''padding'']), S '' 0px''],
    Rule [S ''@media (max-width: '', F (\<lambda>_. styling_at [''cutoffs'', ''initial'']), S '')''] [
      Decl ''flex-direction'' [S ''column''],
      Decl ''align-items'' [S ''flex-start'']]]"

definition HeaderContent_1 :: styled where
  "HeaderContent_1 = Styled (Elem ''div'') [
    Decl ''display'' [S ''flex''],
    Decl ''flex-direction'' [S ''column''],
    Decl ''gap'' [S ''6px'']]"

definition Title_1 :: styled where
  "Title_1 = Styled (Elem ''h2'') [
    Decl ''font-size'' [F (\<lambda>p. theme_at p [''typography'', ''size'', ''xLg''])],
    Decl ''font-family'' [F (\<lambda>p. theme_at p [''typography'', ''family'', ''primary''])],
    Decl ''font-weight'' [F (\<lambda>p. theme_at p [''typography'', ''weight'', ''bold''])],
    Decl ''color'' [F (\<lambda>p. theme_at p [''colors'', ''font'', ''primary''])]]"

definition Subtitle_1 :: styled where
  "Subtitle_1 = Styled (Elem ''span'') [
    Decl ''font-size'' [F (\<lambda>p. theme_at p [''typography'', ''size'', ''xSmall''])],
    Decl ''font-family'' [F (\<lambda>p. theme_at p [''typography'', ''family'', ''primary''])],
    Decl ''font-weight'' [F (\<lambda>p. theme_at p [''typography'', ''weight'', ''light''])],
    Decl ''color'' [F (\<lambda>p. theme_at p [''colors'', ''font'', ''alt1''])]]"

definition SearchWrapper :: styled where
  "SearchWrapper = Styled (Elem ''div'') [
    Decl ''display'' [S ''flex''],
    Decl ''align-items'' [S ''center''],
    Decl ''min-width'' [S ''500px''],
    Rule [S ''@media (max-width: '', F (\<lambda>_. styling_at [''cutoffs'', ''initial'']), S '')''] [
      Decl ''width'' [S ''100%''],
      Decl ''min-width'' [S ''auto'']]]"

definition Wrapper_4 :: styled where
  "Wrapper_4 = Styled (Elem ''div'') [
    Decl ''width'' [S ''100%''],
    Decl ''overflow'' [S ''hidden''],
    Rule [S ''> *''] [
      Rule [S ''&:not(:last-child)''] [
        Decl ''border-bottom'' [S ''1px solid '', F (\<lambda>p. theme_at p [''colors'', ''border'', ''primary''])]]]]"

definition DeviceRow :: styled where
  "DeviceRow = Styled (Elem ''div'') [
    Decl ''display'' [S ''grid''],
    Decl ''grid-template-columns'' [S ''repeat('', F (\<lambda>p. prop_of p ''count''), S '', 1fr)''],
    Rule [S ''> *''] [
      Rule [S ''&:not(:last-child)''] [
        Decl ''border-right'' [S ''1px solid '', F (\<lambda>p. theme_at p [''colors'', ''border'', ''primary''])]]],
    Rule [S ''@media (max-width: '', F (\<lambda>_. styling_at [''cutoffs'', ''initial'']), S '')''] [
      Decl ''grid-template-columns'' [S ''repeat(1, 1fr)''],
      Rule [S ''> *''] [
        Rule [S ''&:not(:last-child)''] [
          Decl ''border-bottom'' [S ''1px solid '', F (\<lambda>p. theme_at p [''colors'', ''border'', ''primary''])]]]]]"

definition DeviceWrapper :: styled where
  "DeviceWrapper = Styled (Elem ''button'') [
    Decl ''width'' [S ''100%''],
    Decl ''display'' [S ''flex''],
    Decl ''align-items'' [S ''center''],
    Decl ''justify-content'' [S ''space-between''],
    Decl ''gap'' [S ''25px''],
    Decl ''padding'' [S ''20px''],
    Decl ''background'' [F (\<lambda>p. theme_at p [''colors'', ''container'', ''primary'', ''background''])],
    Decl ''cursor'' [S ''pointer''],
    Rule [S ''&:hover''] [
      Decl ''background'' [F (\<lambda>p. theme_at p [''colors'', ''container'', ''primary'', ''active''])]]]"

definition DeviceNameWrapper :: styled where
  "DeviceNameWrapper = Styled (Elem ''div'') [
    Decl ''position'' [S ''relative''],
    Decl ''display'' [S ''flex''],
    Decl ''align-items'' [S ''center''],
    Rule [S ''p''] [
      Decl ''font-size'' [F (\<lambda>p. theme_at p [''typography'', ''size'', ''small''])],
      Decl ''font-family'' [F (\<lambda>p. theme_at p [''typography'', ''family'', ''primary''])],
      Decl ''font-weight'' [F (\<lambda>p. theme_at p [''typography'', ''weight'', ''medium''])],
      Decl ''color'' [F (\<lambda>p. theme_at p [''colors'', ''font'', ''primary''])]]]"

definition DeviceVersionWrapper :: styled where
  "DeviceVersionWrapper = Styled (Elem ''div'') [
    Rule [S ''p''] [
      Decl ''font-size'' [F (\<lambda>p. theme_at p [''typography'', ''size'', ''xSmall''])],
      Decl ''font-weight'' [F (\<lambda>p. theme_at p [''typography'', ''weight'', ''light''])],
      Decl ''color'' [F (\<lambda>p. theme_at p [''colors'', ''font'', ''primary''])]]]"

definition CubeSpinWrapper :: styled where
  "CubeSpinWrapper = Styled (Elem ''div'') [
    Decl ''position'' [S ''absolute''],
    Decl ''left'' [S ''100%''],
    Decl ''top'' [S ''50%''],
    Decl ''transform'' [S ''translateY(0%) scale(0)''],
    Decl ''display'' [S ''none''],
    Decl ''align-items'' [S ''center''],
    Decl ''justify-content'' [S ''center''],
    Decl ''width'' [F (\<lambda>_. styling_at [''dimensions'', ''action'', ''height''])],
    Decl ''height'' [F (\<lambda>_. styling_at [''dimensions'', ''action'', ''height''])],
    Decl ''opacity'' [S ''0''],
    Decl ''pointer-events'' [S ''none''],
    Rule [C ''DeviceWrapper'', S '':hover &''] [
      Decl ''display'' [S ''flex''],
      Decl ''opacity'' [S ''1''],
      Decl ''transform'' [S ''translateY(-50%) scale(1)''],
      Decl ''animation'' [S ''fadeInScale 175ms ease-out forwards'']],
    Rule [S ''@keyframes fadeInScale''] [
      Rule [S ''0%''] [
        Decl ''opacity'' [S ''0''],
        Decl ''transform'' [S ''translateY(0%) scale(0)'']],
      Rule [S ''1%''] [
        Decl ''opacity'' [S ''0''],
        Decl ''transform'' [S ''translateY(0%) scale(0)'']],
      Rule [S ''100%''] [
        Decl ''opacity'' [S ''1''],
        Decl ''transform'' [S ''translateY(-50%) scale(1)'']]]]"

definition EmptyState_1 :: styled where
  "EmptyState_1 = Styled (Elem ''div'') [
    Decl ''padding'' [S ''60px 24px''],
    Decl ''text-align'' [S ''center''],
    Decl ''font-size'' [F (\<lambda>p. theme_at p [''typography'', ''size'', ''small''])],
    Decl ''font-family'' [F (\<lambda>p. theme_at p [''typography'', ''family'', ''primary''])],
    Decl ''font-weight'' [F (\<lambda>p. theme_at p [''typography'', ''weight'', ''medium''])],
    Decl ''color'' [F (\<lambda>p. theme_at p [''colors'', ''font'', ''alt1''])]]"

definition LoadingWrapper_2 :: styled where
  "LoadingWrapper_2 = Styled (Elem ''div'') [
    Decl ''margin'' [S ''40px auto'']]"

definition Container :: styled where
  "Container = Styled (Elem ''div'') [
    Decl ''width'' [S ''100%''],
    Decl ''display'' [S ''flex''],
    Decl ''flex-direction'' [S ''column''],
    Decl ''height'' [S ''calc( 100vh - '', F (\<lambda>_. styling_at [''dimensions'', ''nav'', ''height'']), S '' - '', F (\<lambda>_. styling_at [''dimensions'', ''landingTab'', ''height'']), S '' - '', F (\<lambda>_. styling_at [''dimensions'', ''footer'', ''height'']), S '' - '', F (\<lambda>_. styling_at [''dimensions'', ''landingHeader'', ''padding'']), S '' )''],
    Decl ''background'' [F (\<lambda>p. theme_at p [''colors'', ''container'', ''primary'', ''background''])]]"

definition Header :: styled where
  "Header = Styled (Elem ''div'') [
    Decl ''width'' [S ''100%''],
    Decl ''display'' [S ''flex''],
    Decl ''justify-content'' [S ''space-between''],
    Decl ''align-items'' [S ''center''],
    Decl ''gap'' [S ''16px''],
    Decl ''flex-wrap'' [S ''wrap''],
    Decl ''padding'' [F (\<lambda>_. styling_at [''dimensions'', ''landingHeader'', ''padding'']), S '' 0px '', F (\<lambda>_. styling_at [''dimensions'', ''landingHeader'', ''padding'']), S '' 0px''],
    Rule [S ''@media (max-width: '', F (\<lambda>_. styling_at [''cutoffs'', ''initial'']), S '')''] [
      Decl ''flex-direction'' [S ''column''],
      Decl ''align-items'' [S ''flex-start'']]]"

definition HeaderContent :: styled where
  "HeaderContent = Styled (Elem ''div'') [
    Decl ''display'' [S ''flex''],
    Decl ''flex-direction'' [S ''column''],
    Decl ''gap'' [S ''6px'']]"

definition Title :: styled where
  "Title = Styled (Elem ''h2'') [
    Decl ''font-size'' [F (\<lambda>p. theme_at p [''typography'', ''size'', ''xLg''])],
    Decl ''font-family'' [F (\<lambda>p. theme_at p [''typography'', ''family'', ''primary''])],
    Decl ''font-weight'' [F (\<lambda>p. theme_at p [''typography'', ''weight'', ''bold''])],
    Decl ''color'' [F (\<lambda>p. theme_at p [''colors'', ''font'', ''primary''])]]"

definition Subtitle :: styled where
  "Subtitle = Styled (Elem ''span'') [
    Decl ''font-size'' [F (\<lambda>p. theme_at p [''typography'', ''size'', ''xSmall''])],
    Decl ''font-family'' [F (\<lambda>p. theme_at p [''typography'', ''family'', ''primary''])],
    Decl ''font-weight'' [F (\<lambda>p. theme_at p [''typography'', ''weight'', ''light''])],
    Decl ''color'' [F (\<lambda>p. theme_at p [''colors'', ''font'', ''alt1''])]]"

definition Wrapper_3 :: styled where
  "Wrapper_3 = Styled (Elem ''div'') [
    Decl ''width'' [S ''100%'']]"

definition ErrorWrapper_1 :: styled where
  "ErrorWrapper_1 = Styled (Elem ''div'') [
    Decl ''padding'' [S ''15px''],
    Rule [S ''p''] [
      Decl ''font-size'' [F (\<lambda>p. theme_at p [''typography'', ''size'', ''small''])],
      Decl ''font-family'' [F (\<lambda>p. theme_at p [''typography'', ''family'', ''primary''])],
      Decl ''font-weight'' [F (\<lambda>p. theme_at p [''typography'', ''weight'', ''bold''])],
      Decl ''color'' [F (\<lambda>p. theme_at p [''colors'', ''font'', ''primary''])]]]"

definition LoadingWrapper_1 :: styled where
  "LoadingWrapper_1 = Styled (Elem ''div'') [
    Decl ''margin'' [S ''40px auto'']]"

definition Wrapper_2 :: styled where
  "Wrapper_2 = Styled (Elem ''div'') [
    Decl ''width'' [S ''100%''],
    Decl ''display'' [S ''flex''],
    Decl ''align-items'' [S ''stretch''],
    Decl ''margin'' [S ''20px 0 0 0''],
    Decl ''border-bottom'' [S ''1px solid '', F (\<lambda>p. theme_at p [''colors'', ''border'', ''primary''])],
    Rule [S ''@media (max-width: '', F (\<lambda>_. styling_at [''cutoffs'', ''initial'']), S '')''] [
      Decl ''flex-direction'' [S ''column''],
      Decl ''gap'' [S ''0'']],
    Decl ''height'' [S ''calc( 100vh - '', F (\<lambda>_. styling_at [''dimensions'', ''nav'', ''height'']), S '' - '', F (\<lambda>_. styling_at [''dimensions'', ''landingTab'', ''height'']), S '' - '', F (\<lambda>_. styling_at [''dimensions'', ''footer'', ''height'']), S '' - '', F (\<lambda>_. styling_at [''dimensions'', ''landingHeader'', ''padding'']), S '' )'']]"

definition Sidebar :: styled where
  "Sidebar = Styled (Elem ''aside'') [
    Decl ''width'' [S ''300px''],
    Decl ''display'' [S ''flex''],
    Decl ''flex-direction'' [S ''column''],
    Decl ''position'' [S ''relative''],
    Decl ''padding'' [S ''0 0 24px 0''],
    Decl ''border-right'' [S ''1px solid '', F (\<lambda>p. theme_at p [''colors'', ''border'', ''primary''])],
    Rule [S ''@media (max-width: '', F (\<lambda>_. styling_at [''cutoffs'', ''initial'']), S '')''] [
      Decl ''width'' [S ''100%''],
      Decl ''padding'' [S ''0 0 16px 0''],
      Decl ''border-right'' [S ''none''],
      Decl ''border-bottom'' [S ''1px solid '', F (\<lambda>p. theme_at p [''colors'', ''border'', ''primary''])]]]"

definition SidebarContent :: styled where
  "SidebarContent = Styled (Elem ''div'') [
    Decl ''position'' [S ''relative''],
    Decl ''z-index'' [S ''1''],
    Decl ''display'' [S ''flex''],
    Decl ''flex-direction'' [S ''column''],
    Decl ''flex'' [S ''1''],
    Rule [S ''@media (max-width: '', F (\<lambda>_. styling_at [''cutoffs'', ''initial'']), S '')''] [
      Decl ''min-height'' [S ''auto'']]]"

definition SidebarHeader :: styled where
  "SidebarHeader = Styled (Elem ''div'') [
    Decl ''padding'' [F (\<lambda>_. styling_at [''dimensions'', ''landingHeader'', ''padding''])],
    Decl ''display'' [S ''flex''],
    Decl ''min-height'' [S ''98.5px''],
    Decl ''flex-direction'' [S ''column''],
    Decl ''gap'' [S ''10px''],
    Decl ''border-bottom'' [S ''1px solid '', F (\<lambda>p. theme_at p [''colors'', ''border'', ''primary''])],
    Decl ''justify-content'' [S ''space-between''],
    Decl ''align-items'' [S ''flex-start''],
    Rule [S ''@media (max-width: '', F (\<lambda>_. styling_at [''cutoffs'', ''initial'']), S '')''] [
      Decl ''padding'' [S ''20px '', F (\<lambda>_. styling_at [''dimensions'', ''landingHeader'', ''padding'']), S '' 16px '', F (\<lambda>_. styling_at [''dimensions'', ''landingHeader'', ''padding''])],
      Decl ''min-height'' [S ''auto''],
      Decl ''flex-direction'' [S ''row''],
      Decl ''align-items'' [S ''center''],
      Decl ''gap'' [S ''16px'']]]"

definition SidebarHeaderBody :: styled where
  "SidebarHeaderBody = Styled (Elem ''div'') [
    Decl ''display'' [S ''flex''],
    Decl ''flex-direction'' [S ''column''],
    Decl ''gap'' [S ''6px''],
    Rule [S ''@media (max-width: '', F (\<lambda>_. styling_at [''cutoffs'', ''initial'']), S '')''] [
      Decl ''gap'' [S ''6px'']]]"

definition SidebarTitle :: styled where
  "SidebarTitle = Styled (Elem ''h3'') [
    Decl ''font-size'' [F (\<lambda>p. theme_at p [''typography'', ''size'', ''base''])],
    Decl ''font-family'' [F (\<lambda>p. theme_at p [''typography'', ''family'', ''primary''])],
    Decl ''font-weight'' [F (\<lambda>p. theme_at p [''typography'', ''weight'', ''bold''])],
    Decl ''color'' [F (\<lambda>p. theme_at p [''colors'', ''font'', ''primary''])]]"

definition SidebarMeta :: styled where
  "SidebarMeta = Styled (Elem ''span'') [
    Decl ''font-size'' [F (\<lambda>p. theme_at p [''typography'', ''size'', ''xSmall''])],
    Decl ''font-family'' [F (\<lambda>p. theme_at p [''typography'', ''family'', ''primary''])],
    Decl ''font-weight'' [F (\<lambda>p. theme_at p [''typography'', ''weight'', ''light''])],
    Decl ''color'' [F (\<lambda>p. theme_at p [''colors'', ''font'', ''alt1''])]]"

definition SidebarList :: styled where
  "SidebarList = Styled (Elem ''div'') [
    Decl ''display'' [S ''flex''],
    Decl ''flex-direction'' [S ''column''],
    Decl ''background'' [F (\<lambda>p. theme_at p [''colors'', ''container'', ''primary'', ''background''])],
    Rule [S ''@media (max-width: '', F (\<lambda>_. styling_at [''cutoffs'', ''initial'']), S '')''] [
      Decl ''display'' [S ''grid''],
      Decl ''grid-template-columns'' [S ''repeat(4, minmax(0, 1fr))''],
      Decl ''gap'' [S ''12px''],
      Decl ''padding'' [S ''16px 24px 24px 24px'']],
    Rule [S ''@media (max-width: '', F (\<lambda>_. styling_at [''cutoffs'', ''tablet'']), S '')''] [
      Decl ''grid-template-columns'' [S ''repeat(3, minmax(0, 1fr))'']],
    Rule [S ''@media (max-width: '', F (\<lambda>_. styling_at [''cutoffs'', ''secondary'']), S '')''] [
      Decl ''grid-template-columns'' [S ''repeat(2, minmax(0, 1fr))'']],
    Rule [S ''@media (max-width: 360px)''] [
      Decl ''grid-template-columns'' [S ''repeat(1, minmax(0, 1fr))'']]]"

definition SidebarHeaderLabel :: styled where
  "SidebarHeaderLabel = Styled (Elem ''div'') [
    Decl ''display'' [S ''none''],
    Rule [S ''@media (max-width: '', F (\<lambda>_. styling_at [''cutoffs'', ''initial'']), S '')''] [
      Decl ''display'' [S ''flex''],
      Decl ''align-items'' [S ''center''],
      Decl ''gap'' [S ''12px''],
      Decl ''margin-left'' [S ''auto''],
      Decl ''color'' [F (\<lambda>p. theme_at p [''colors'', ''font'', ''alt1''])],
      Decl ''font-size'' [F (\<lambda>p. theme_at p [''typography'', ''size'', ''xxxSmall''])],
      Decl ''text-transform'' [S ''uppercase''],
      Decl ''letter-spacing'' [S ''0.4px'']]]"

definition SidebarHeaderLabelText :: styled where
  "SidebarHeaderLabelText = Styled (Elem ''span'') [
    Decl ''display'' [S ''flex''],
    Decl ''align-items'' [S ''center''],
    Decl ''gap'' [S ''8px''],
    Rule [S ''svg''] [
      Decl ''width'' [S ''16px''],
      Decl ''height'' [S ''16px'']]]"

definition SidebarItemInner :: styled where
  "SidebarItemInner = Styled (Elem ''div'') [
    Decl ''width'' [S ''100%''],
    Decl ''height'' [S ''100%''],
    Decl ''display'' [S ''flex''],
    Decl ''align-items'' [S ''center''],
    Decl ''justify-content'' [S ''space-between''],
    Decl ''gap'' [S ''12px''],
    Decl ''padding'' [S ''8px''],
    Rule [S ''@media (max-width: '', F (\<lambda>_. styling_at [''cutoffs'', ''initial'']), S '')''] [
      Decl ''padding'' [S ''7px 14px 7px 14px''],
      Decl ''border'' [S ''1px solid '', F (\<lambda>p. theme_at p [''colors'', ''border'', ''primary''])],
      Decl ''background'' [F (\<lambda>p. ternary (prop_of p ''$active'') (theme_at p [''colors'', ''container'', ''alt2'', ''background'']) (theme_at p [''colors'', ''container'', ''primary'', ''background'']))]]]"

definition SidebarItem :: styled where
  "SidebarItem = Styled (Elem ''button'') [
    Decl ''width'' [S ''100%''],
    Decl ''height'' [S ''100%''],
    Decl ''max-height'' [S ''52.5px''],
    Decl ''padding'' [S ''10px 16px 10px 24px''],
    Decl ''display'' [S ''flex''],
    Decl ''align-items'' [S ''center''],
    Decl ''justify-content'' [S ''space-between''],
    Decl ''background'' [F (\<lambda>p. ternary (prop_of p ''$active'') (theme_at p [''colors'', ''container'', ''alt1'', ''background'']) (Inr (JStr ''transparent'')))],
    Decl ''border'' [S ''none''],
    Decl ''cursor'' [S ''pointer''],
    Decl ''text-align'' [S ''left''],
    Rule [S ''&:hover''] [
      Decl ''background'' [F (\<lambda>p. comma (prop_of p ''$active'') (theme_at p [''colors'', ''container'', ''alt1'', ''background'']))]],
    Rule [S ''@media (max-width: '', F (\<lambda>_. styling_at [''cutoffs'', ''initial'']), S '')''] [
      Decl ''width'' [S ''100%''],
      Decl ''height'' [S ''100%''],
      Decl ''padding'' [S ''0''],
      Decl ''background'' [S ''transparent'']]]"

definition SidebarInfo :: styled where
  "SidebarInfo = Styled (Elem ''div'') [
    Decl ''display'' [S ''flex''],
    Decl ''align-items'' [S ''center''],
    Decl ''gap'' [S ''12px'']]"

definition SidebarIcon :: styled where
  "SidebarIcon = Styled (Elem ''div'') [
    Decl ''width'' [S ''16px''],
    Decl ''height'' [S ''16px''],
    Decl ''display'' [S ''flex''],
    Decl ''align-items'' [S ''center''],
    Decl ''justify-content'' [S ''center''],
    Rule [S ''div, svg''] [
      Decl ''width'' [S ''16px''],
      Decl ''height'' [S ''16px'']]]"

definition SidebarLabel :: styled where
  "SidebarLabel = Styled (Elem ''span'') [
    Decl ''font-size'' [F (\<lambda>p. theme_at p [''typography'', ''size'', ''small''])],
    Decl ''font-family'' [F (\<lambda>p. theme_at p [''typography'', ''family'', ''primary''])],
    Decl ''font-weight'' [F (\<lambda>p. theme_at p [''typography'', ''weight'', ''medium''])],
    Decl ''color'' [F (\<lambda>p. theme_at p [''colors'', ''font'', ''primary''])]]"

definition SidebarDescription :: styled where
  "SidebarDescription = Styled (Elem ''span'') [
    Decl ''font-size'' [F (\<lambda>p. theme_at p [''typography'', ''size'', ''xxxSmall''])],
    Decl ''font-family'' [F (\<lambda>p. theme_at p [''typography'', ''family'', ''primary''])],
    Decl ''font-weight'' [F (\<lambda>p. theme_at p [''typography'', ''weight'', ''light''])],
    Decl ''color'' [F (\<lambda>p. theme_at p [''colors'', ''font'', ''alt1''])],
    Decl ''text-transform'' [S ''uppercase''],
    Decl ''letter-spacing'' [S ''0.45px''],
    Rule [S ''@media (max-width: '', F (\<lambda>_. styling_at [''cutoffs'', ''initial'']), S '')''] [
      Decl ''display'' [S ''none'']]]"

definition SidebarEmpty :: styled where
  "SidebarEmpty = Styled (Elem ''div'') [
    Decl ''padding'' [S ''40px 24px''],
    Decl ''text-align'' [S ''center''],
    Decl ''font-size'' [F (\<lambda>p. theme_at p [''typography'', ''size'', ''xSmall''])],
    Decl ''font-family'' [F (\<lambda>p. theme_at p [''typography'', ''family'', ''primary''])],
    Decl ''font-weight'' [F (\<lambda>p. theme_at p [''typography'', ''weight'', ''medium''])],
    Decl ''color'' [F (\<lambda>p. theme_at p [''colors'', ''font'', ''alt1''])]]"

definition Content :: styled where
  "Content = Styled (Elem ''section'') [
    Decl ''flex'' [S ''1''],
    Decl ''display'' [S ''flex''],
    Decl ''width'' [S ''100%''],
    Decl ''flex-direction'' [S ''column''],
    Decl ''background'' [F (\<lambda>p. theme_at p [''colors'', ''container'', ''primary'', ''background''])]]"

definition ContentHeader :: styled where
  "ContentHeader = Styled (Elem ''div'') [
    Decl ''padding'' [F (\<lambda>_. styling_at [''dimensions'', ''landingHeader'', ''padding''])],
    Decl ''display'' [S ''flex''],
    Decl ''justify-content'' [S ''space-between''],
    Decl ''align-items'' [S ''center''],
    Decl ''gap'' [S ''16px''],
    Decl ''flex-wrap'' [S ''wrap''],
    Decl ''border-bottom'' [S ''1px solid '', F (\<lambda>p. theme_at p [''colors'', ''border'', ''primary''])]]"

definition ContentHeading :: styled where
  "ContentHeading = Styled (Elem ''div'') [
    Decl ''display'' [S ''flex''],
    Decl ''flex-direction'' [S ''column''],
    Decl ''gap'' [S ''6px'']]"

definition ContentTitleWrapper :: styled where
  "ContentTitleWrapper = Styled (Elem ''div'') [
    Decl ''display'' [S ''flex''],
    Decl ''align-items'' [S ''center''],
    Decl ''gap'' [S ''10px'']]"

definition ContentTitle :: styled where
  "ContentTitle = Styled (Elem ''h2'') [
    Decl ''font-size'' [F (\<lambda>p. theme_at p [''typography'', ''size'', ''lg''])],
    Decl ''font-family'' [F (\<lambda>p. theme_at p [''typography'', ''family'', ''primary''])],
    Decl ''font-weight'' [F (\<lambda>p. theme_at p [''typography'', ''weight'', ''bold''])],
    Decl ''color'' [F (\<lambda>p. theme_at p [''colors'', ''font'', ''primary''])]]"

definition ContentTitleIcon :: styled where
  "ContentTitleIcon = Styled (Elem ''div'') [
    Decl ''width'' [S ''20px''],
    Decl ''height'' [S ''20px''],
    Decl ''display'' [S ''flex''],
    Decl ''align-items'' [S ''center''],
    Decl ''justify-content'' [S ''center''],
    Rule [S ''div, svg''] [
      Decl ''width'' [S ''18px''],
      Decl ''height'' [S ''18px'']]]"

definition ContentMeta :: styled where
  "ContentMeta = Styled (Elem ''span'') [
    Decl ''font-size'' [F (\<lambda>p. theme_at p [''typography'', ''size'', ''xSmall''])],
    Decl ''font-family'' [F (\<lambda>p. theme_at p [''typography'', ''family'', ''primary''])],
    Decl ''font-weight'' [F (\<lambda>p. theme_at p [''typography'', ''weight'', ''light''])],
    Decl ''color'' [F (\<lambda>p. theme_at p [''colors'', ''font'', ''alt1''])]]"

definition ContentBody :: styled where
  "ContentBody = Styled (Elem ''div'') [
    Decl ''flex'' [S ''1''],
    Decl ''display'' [S ''flex''],
    Decl ''flex-direction'' [S ''column''],
    Decl ''background'' [F (\<lambda>p. theme_at p [''colors'', ''container'', ''primary'', ''background''])],
    Decl ''overflow-y'' [S ''auto''],
    Rule [S ''> div:not(:last-child)''] [
      Decl ''border-bottom'' [S ''1px solid '', F (\<lambda>p. theme_at p [''colors'', ''border'', ''alt1''])]]]"

definition EmptyState :: styled where
  "EmptyState = Styled (Elem ''div'') [
    Decl ''padding'' [S ''60px 24px''],
    Decl ''text-align'' [S ''center''],
    Decl ''font-size'' [F (\<lambda>p. theme_at p [''typography'', ''size'', ''small''])],
    Decl ''font-family'' [F (\<lambda>p. theme_at p [''typography'', ''family'', ''primary''])],
    Decl ''font-weight'' [F (\<lambda>p. theme_at p [''typography'', ''weight'', ''medium''])],
    Decl ''color'' [F (\<lambda>p. theme_at p [''colors'', ''font'', ''alt1''])]]"

definition Group :: styled where
  "Group = Styled (Elem ''div'') [
    Decl ''width'' [S ''100%''],
    Decl ''display'' [S ''flex''],
    Decl ''flex-direction'' [S ''column''],
    Rule [S ''> *:not(:last-child)''] [
      Decl ''border-bottom'' [S ''1px solid '', F (\<lambda>p. theme_at p [''colors'', ''border'', ''primary''])]]]"

definition GroupHeader :: styled where
  "GroupHeader = Styled (Elem ''div'') [
    Decl ''background'' [F (\<lambda>p. theme_at p [''colors'', ''container'', ''alt1'', ''background''])],
    Decl ''padding'' [S ''16px 24px''],
    Rule [S ''p''] [
      Decl ''font-size'' [F (\<lambda>p. theme_at p [''typography'', ''size'', ''xxSmall''])],
      Decl ''font-family'' [F (\<lambda>p. theme_at p [''typography'', ''family'', ''primary''])],
      Decl ''font-weight'' [F (\<lambda>p. theme_at p [''typography'', ''weight'', ''bold''])],
      Decl ''color'' [F (\<lambda>p. theme_at p [''colors'', ''font'', ''primary''])],
      Decl ''text-transform'' [S ''uppercase''],
      Decl ''letter-spacing'' [S ''0.55px'']]]"

definition GroupBody :: styled where
  "GroupBody = Styled (Elem ''div'') [
    Decl ''background'' [F (\<lambda>p. theme_at p [''colors'', ''container'', ''primary'', ''background''])],
    Rule [S ''> *:not(:last-child)''] [
      Decl ''border-bottom'' [S ''1px solid '', F (\<lambda>p. theme_at p [''colors'', ''border'', ''alt1''])]]]"

definition GroupLine :: styled where
  "GroupLine = Styled (Elem ''div'') [
    Decl ''padding'' [S ''14px 24px''],
    Decl ''display'' [S ''grid''],
    Decl ''grid-template-columns'' [S ''minmax(0, 2.5fr) minmax(0, 1fr)''],
    Decl ''align-items'' [S ''center''],
    Decl ''gap'' [S ''16px''],
    Rule [S ''p''] [
      Decl ''font-size'' [F (\<lambda>p. theme_at p [''typography'', ''size'', ''xSmall''])],
      Decl ''font-family'' [F (\<lambda>p. theme_at p [''typography'', ''family'', ''primary''])],
      Decl ''font-weight'' [F (\<lambda>p. theme_at p [''typography'', ''weight'', ''medium''])],
      Decl ''color'' [F (\<lambda>p. theme_at p [''colors'', ''font'', ''primary''])],
      Decl ''white-space'' [S ''normal'']],
    Rule [S ''span''] [
      Decl ''justify-self'' [S ''end''],
      Decl ''font-size'' [F (\<lambda>p. theme_at p [''typography'', ''size'', ''xSmall''])],
      Decl ''font-family'' [F (\<lambda>p. theme_at p [''typography'', ''family'', ''primary''])],
      Decl ''font-weight'' [F (\<lambda>p. theme_at p [''typography'', ''weight'', ''bold''])],
      Decl ''color'' [F (\<lambda>p. theme_at p [''colors'', ''font'', ''alt1''])]]]"

definition SubGroup :: styled where
  "SubGroup = Styled (Extends Group) []"

definition SubGroupHeader :: styled where
  "SubGroupHeader = Styled (Extends GroupHeader) [
    Decl ''background'' [S ''none''],
    Decl ''padding'' [S ''16px 24px''],
    Rule [S ''p''] [
      Decl ''color'' [F (\<lambda>p. theme_at p [''colors'', ''font'', ''alt2''])],
      Decl ''font-weight'' [F (\<lambda>p. theme_at p [''typography'', ''weight'', ''light''])]]]"

definition SubGroupBody :: styled where
  "SubGroupBody = Styled (Extends GroupBody) []"

definition SubGroupLine :: styled where
  "SubGroupLine = Styled (Extends GroupLine) []"

definition LoadingWrapper :: styled where
  "LoadingWrapper = Styled (Elem ''div'') [
    Decl ''margin'' [S ''40px auto'']]"

definition Wrapper_1 :: styled where
  "Wrapper_1 = Styled (Elem ''div'') [
    Decl ''width'' [S ''100%''],
    Decl ''display'' [S ''flex''],
    Decl ''flex-direction'' [S ''column'']]"

definition MetricsWrapper :: styled where
  "MetricsWrapper = Styled (Elem ''div'') [
    Decl ''position'' [S ''relative''],
    Decl ''z-index'' [S ''1'']]"

definition MetricsBody :: styled where
  "MetricsBody = Styled (Elem ''div'') [
    Decl ''width'' [S ''100%''],
    Decl ''display'' [S ''flex''],
    Decl ''flex-direction'' [S ''column''],
    Decl ''gap'' [S ''25px'']]"

definition MetricsRow :: styled where
  "MetricsRow = Styled (Elem ''div'') [
    Decl ''width'' [S ''100%''],
    Decl ''display'' [S ''flex''],
    Decl ''gap'' [S ''25px''],
    Rule [S ''@media (max-width: '', F (\<lambda>_. styling_at [''cutoffs'', ''initial'']), S '')''] [
      Decl ''flex-direction'' [S ''column'']]]"

definition MetricsSection :: styled where
  "MetricsSection = Styled (Elem ''div'') [
    Decl ''width'' [S ''100%''],
    Decl ''height'' [S ''100%''],
    Decl ''min-width'' [S ''0''],
    Decl ''display'' [S ''flex''],
    Decl ''flex-direction'' [S ''column''],
    Decl ''gap'' [S ''10px''],
    Decl ''padding'' [S ''20px''],
    Decl ''background'' [F (\<lambda>p. tmpl [theme_at p [''colors'', ''container'', ''alt1'', ''background''], Inr (JStr ''90'')]), S '' !important''],
    Rule [S ''p''] [
      Decl ''width'' [S ''100%''],
      Decl ''font-size'' [S ''clamp(0.75rem, 0.6rem + 0.5vw, '', F (\<lambda>p. theme_at p [''typography'', ''size'', ''xxxSmall'']), S '')''],
      Decl ''font-family'' [F (\<lambda>p. theme_at p [''typography'', ''family'', ''primary''])],
      Decl ''color'' [F (\<lambda>p. theme_at p [''colors'', ''font'', ''primary''])],
      Decl ''font-weight'' [F (\<lambda>p. theme_at p [''typography'', ''weight'', ''medium''])],
      Decl ''white-space'' [S ''nowrap'']],
    Rule [S ''span''] [
      Decl ''font-size'' [S ''clamp(0.65rem, 0.5rem + 0.05vw, '', F (\<lambda>p. theme_at p [''typography'', ''size'', ''xxSmall'']), S '')''],
      Decl ''font-family'' [F (\<lambda>p. theme_at p [''typography'', ''family'', ''primary''])],
      Decl ''font-weight'' [F (\<lambda>p. theme_at p [''typography'', ''weight'', ''light''])],
      Decl ''color'' [F (\<lambda>p. theme_at p [''colors'', ''font'', ''alt1''])],
      Decl ''letter-spacing'' [S ''0.08em''],
      Decl ''text-transform'' [S ''uppercase'']],
    Rule [S ''.metric-value''] [
      Decl ''font-family'' [F (\<lambda>p. theme_at p [''typography'', ''family'', ''primary''])],
      Decl ''font-size'' [S ''clamp(1.3rem, 1rem + 1vw, '', F (\<lambda>p. theme_at p [''typography'', ''size'', ''xLg'']), S '')''],
      Decl ''font-weight'' [F (\<lambda>p. theme_at p [''typography'', ''weight'', ''xBold''])],
      Decl ''color'' [F (\<lambda>p. theme_at p [''colors'', ''font'', ''primary''])],
      Decl ''opacity'' [S ''1'']]]"

definition TabsWrapper :: styled where
  "TabsWrapper = Styled (Elem ''div'') [
    Decl ''width'' [S ''100%''],
    Decl ''position'' [S ''relative''],
    Decl ''z-index'' [S ''3''],
    Decl ''margin'' [S ''40px 0 0 0''],
    Decl ''background'' [F (\<lambda>p. theme_at p [''colors'', ''container'', ''primary'', ''background''])]]"

definition Tab :: styled where
  "Tab = Styled (Elem ''div'') []"

definition HeaderWrapper_1 :: styled where
  "HeaderWrapper_1 = Styled (Elem ''div'') []"

definition Subheader_1 :: styled where
  "Subheader_1 = Styled (Elem ''div'') [
    Decl ''width'' [S ''fit-content''],
    Decl ''display'' [S ''flex''],
    Decl ''align-items'' [S ''center''],
    Decl ''justify-content'' [S ''center''],
    Decl ''gap'' [S ''12.5px''],
    Decl ''border-radius'' [F (\<lambda>_. styling_at [''dimensions'', ''radius'', ''primary''])],
    Rule [S ''span''] [
      Decl ''font-size'' [F (\<lambda>p. theme_at p [''typography'', ''size'', ''small''])],
      Decl ''font-family'' [F (\<lambda>p. theme_at p [''typography'', ''family'', ''primary''])],
      Decl ''font-weight'' [F (\<lambda>p. theme_at p [''typography'', ''weight'', ''medium''])],
      Decl ''color'' [F (\<lambda>p. theme_at p [''colors'', ''font'', ''primary''])]]]"

definition Indicator_1 :: styled where
  "Indicator_1 = Styled (Elem ''div'') [
    Decl ''height'' [S ''10.5px''],
    Decl ''width'' [S ''10.5px''],
    Decl ''border-radius'' [F (\<lambda>_. styling_at [''dimensions'', ''radius'', ''circle''])],
    Decl ''background'' [F (\<lambda>p. ternary (prop_of p ''$isOnline'') (theme_at p [''colors'', ''indicator'', ''active'']) (theme_at p [''colors'', ''warning'', ''primary'']))],
    Decl ''animation'' [F (\<lambda>p. ternary (prop_of p ''$isOnline'') (Inr (JStr ''pulse 1.075s infinite'')) (Inr (JStr ''none'')))],
    Rule [S ''@keyframes pulse''] [
      Rule [S ''0%, 100%''] [
        Decl ''background'' [F (\<lambda>p. theme_at p [''colors'', ''indicator'', ''active''])],
        Decl ''transform'' [S ''scale(1)'']],
      Rule [S ''50%''] [
        Decl ''background'' [F (\<lambda>p. theme_at p [''colors'', ''indicator'', ''primary''])],
        Decl ''transform'' [S ''scale(1.15)'']]]]"

definition ErrorWrapper :: styled where
  "ErrorWrapper = Styled (Elem ''div'') [
    Decl ''display'' [S ''flex''],
    Decl ''align-items'' [S ''center''],
    Decl ''justify-content'' [S ''center''],
    Decl ''padding'' [S ''25px 0''],
    Decl ''text-align'' [S ''center''],
    Decl ''margin'' [S ''0 auto'']]"

definition ErrorMessage :: styled where
  "ErrorMessage = Styled (Elem ''div'') [
    Decl ''font-size'' [F (\<lambda>p. theme_at p [''typography'', ''size'', ''xSmall''])],
    Decl ''font-family'' [F (\<lambda>p. theme_at p [''typography'', ''family'', ''primary''])],
    Decl ''font-weight'' [F (\<lambda>p. theme_at p [''typography'', ''weight'', ''regular''])],
    Decl ''color'' [F (\<lambda>p. theme_at p [''colors'', ''warning'', ''primary''])]]"

definition Graphic :: styled where
  "Graphic = Styled (Elem ''div'') [
    Rule [S ''video''] [
      Decl ''width'' [S ''100%''],
      Decl ''max-width'' [F (\<lambda>_. styling_at [''cutoffs'', ''max''])],
      Decl ''filter'' [S ''invert('', F (\<lambda>p. strict_eq (theme_at p [''scheme'']) (Inr (JStr ''dark''))), S '')''],
      Decl ''position'' [S ''fixed''],
      Decl ''opacity'' [S ''0.1''],
      Decl ''z-index'' [S ''0''],
      Decl ''top'' [S ''-'', F (\<lambda>_. styling_at [''dimensions'', ''nav'', ''height''])],
      Decl ''left'' [S ''50%''],
      Decl ''transform'' [S ''translate(-50%, 0)'']],
    Rule [S ''@media (max-width: '', F (\<lambda>_. styling_at [''cutoffs'', ''initial'']), S '')''] [
      Decl ''display'' [S ''none'']]]"

definition Wrapper :: styled where
  "Wrapper = Styled (Elem ''div'') [
    Decl ''width'' [S ''100%''],
    Decl ''display'' [S ''flex''],
    Decl ''flex-direction'' [S ''column''],
    Decl ''gap'' [S ''15px'']]"

definition HeaderWrapper :: styled where
  "HeaderWrapper = Styled (Elem ''div'') [
    Decl ''position'' [S ''relative''],
    Decl ''z-index'' [S ''1'']]"

definition BodyWrapper :: styled where
  "BodyWrapper = Styled (Elem ''div'') [
    Decl ''width'' [S ''100%''],
    Decl ''display'' [S ''flex''],
    Decl ''flex-direction'' [S ''column''],
    Decl ''gap'' [S ''35px''],
    Decl ''position'' [S ''relative''],
    Decl ''z-index'' [S ''1'']]"

definition RouterWrapper :: styled where
  "RouterWrapper = Styled (Elem ''div'') [
    Decl ''width'' [S ''100%''],
    Decl ''display'' [S ''flex''],
    Decl ''flex-direction'' [S ''column''],
    Decl ''gap'' [S ''15px'']]"

definition RouterBody :: styled where
  "RouterBody = Styled (Elem ''div'') [
    Decl ''width'' [S ''100%''],
    Decl ''border'' [S ''1px solid '', F (\<lambda>p. theme_at p [''colors'', ''border'', ''primary''])],
    Decl ''border-radius'' [F (\<lambda>_. styling_at [''dimensions'', ''radius'', ''primary''])],
    Decl ''overflow'' [S ''hidden''],
    Rule [S ''> *''] [
      Rule [S ''&:not(:last-child)''] [
        Decl ''border-bottom'' [S ''1px solid '', F (\<lambda>p. theme_at p [''colors'', ''border'', ''primary''])]]]]"

definition RouterFooter :: styled where
  "RouterFooter = Styled (Elem ''div'') [
    Decl ''width'' [S ''100%''],
    Decl ''display'' [S ''flex''],
    Decl ''align-items'' [S ''center''],
    Decl ''justify-content'' [S ''flex-end'']]"

definition NodeRow :: styled where
  "NodeRow = Styled (Elem ''div'') [
    Decl ''display'' [S ''grid''],
    Decl ''grid-template-columns'' [S ''repeat('', F (\<lambda>p. prop_of p ''count''), S '', 1fr)''],
    Rule [S ''> *''] [
      Rule [S ''&:not(:last-child)''] [
        Decl ''border-right'' [S ''1px solid '', F (\<lambda>p. theme_at p [''colors'', ''border'', ''primary''])]],
      Rule [S ''&:last-child''] []],
    Rule [S ''@media (max-width: '', F (\<lambda>_. styling_at [''cutoffs'', ''initial'']), S '')''] [
      Decl ''grid-template-columns'' [S ''repeat(1, 1fr)''],
      Rule [S ''> *''] [
        Rule [S ''&:not(:last-child)''] [
          Decl ''border-bottom'' [S ''1px solid '', F (\<lambda>p. theme_at p [''colors'', ''border'', ''primary''])]]]]]"

definition NodeWrapper :: styled where
  "NodeWrapper = Styled (Elem ''a'') [
    Decl ''width'' [S ''100%''],
    Decl ''display'' [S ''flex''],
    Decl ''flex-direction'' [S ''column''],
    Decl ''gap'' [S ''25px''],
    Decl ''padding'' [S ''17.5px''],
    Decl ''background'' [F (\<lambda>p. theme_at p [''colors'', ''container'', ''alt1'', ''background''])],
    Rule [S ''&:hover''] [
      Decl ''background'' [F (\<lambda>p. theme_at p [''colors'', ''container'', ''primary'', ''active''])]]]"

definition NodeHeader :: styled where
  "NodeHeader = Styled (Elem ''div'') [
    Decl ''width'' [S ''100%''],
    Decl ''display'' [S ''flex''],
    Decl ''flex-wrap'' [S ''wrap''],
    Decl ''gap'' [S ''20px''],
    Decl ''align-items'' [S ''center''],
    Decl ''justify-content'' [S ''space-between''],
    Rule [S ''p''] [
      Decl ''font-size'' [F (\<lambda>p. theme_at p [''typography'', ''size'', ''small''])],
      Decl ''font-family'' [F (\<lambda>p. theme_at p [''typography'', ''family'', ''primary''])],
      Decl ''font-weight'' [F (\<lambda>p. theme_at p [''typography'', ''weight'', ''bold''])],
      Decl ''color'' [F (\<lambda>p. theme_at p [''colors'', ''font'', ''alt1''])],
      Decl ''text-decoration'' [S ''underline''],
      Decl ''text-decoration-thickness'' [S ''1.25px'']],
    Rule [S ''span''] [
      Decl ''font-size'' [F (\<lambda>p. theme_at p [''typography'', ''size'', ''xSmall''])],
      Decl ''font-family'' [F (\<lambda>p. theme_at p [''typography'', ''family'', ''primary''])],
      Decl ''font-weight'' [F (\<lambda>p. theme_at p [''typography'', ''weight'', ''bold''])],
      Decl ''color'' [F (\<lambda>p. theme_at p [''colors'', ''font'', ''alt1''])]]]"

definition IndicatorWrapper :: styled where
  "IndicatorWrapper = Styled (Elem ''div'') [
    Decl ''display'' [S ''flex''],
    Decl ''gap'' [S ''10px''],
    Decl ''align-items'' [S ''center''],
    Rule [S ''span''] [
      Decl ''font-size'' [F (\<lambda>p. theme_at p [''typography'', ''size'', ''xSmall''])],
      Decl ''font-family'' [F (\<lambda>p. theme_at p [''typography'', ''family'', ''primary''])],
      Decl ''font-weight'' [F (\<lambda>p. theme_at p [''typography'', ''weight'', ''bold''])],
      Decl ''color'' [F (\<lambda>p. theme_at p [''colors'', ''font'', ''alt1''])]]]"

definition Indicator :: styled where
  "Indicator = Styled (Elem ''div'') [
    Decl ''height'' [S ''11.5px''],
    Decl ''width'' [S ''11.5px''],
    Decl ''margin'' [S ''1.5px 0 0 0''],
    Decl ''border-radius'' [F (\<lambda>_. styling_at [''dimensions'', ''radius'', ''circle''])],
    Decl ''background'' [F (\<lambda>p. ternary (strict_eq (prop_of p ''status'') (Inr (JStr ''healthy''))) (theme_at p [''colors'', ''indicator'', ''active'']) (theme_at p [''colors'', ''warning'', ''primary'']))],
    Decl ''animation'' [F (\<lambda>p. ternary (strict_eq (prop_of p ''status'') (Inr (JStr ''healthy''))) (Inr (JStr ''pulse-healthy'')) (Inr (JStr ''pulse-unhealthy''))), S '' 1.075s infinite''],
    Rule [S ''@keyframes pulse-healthy''] [
      Rule [S ''0%, 100%''] [
        Decl ''transform'' [S ''scale(1)'']],
      Rule [S ''50%''] [
        Decl ''transform'' [S ''scale(1.15)'']]],
    Rule [S ''@keyframes pulse-unhealthy''] [
      Rule [S ''0%, 100%''] [
        Decl ''transform'' [S ''scale(1)'']],
      Rule [S ''50%''] [
        Decl ''transform'' [S ''scale(1)'']]]]"

definition NodeBody :: styled where
  "NodeBody = Styled (Elem ''div'') [
    Decl ''width'' [S ''100%''],
    Decl ''display'' [S ''flex''],
    Decl ''flex-wrap'' [S ''wrap''],
    Decl ''gap'' [S ''12.5px''],
    Decl ''align-items'' [S ''center''],
    Decl ''justify-content'' [S ''space-between'']]"

definition NodeLine :: styled where
  "NodeLine = Styled (Elem ''div'') [
    Decl ''display'' [S ''flex''],
    Decl ''gap'' [S ''5px''],
    Decl ''align-items'' [S ''center''],
    Rule [S ''p''] [
      Decl ''font-size'' [F (\<lambda>p. theme_at p [''typography'', ''size'', ''small''])],
      Decl ''font-family'' [F (\<lambda>p. theme_at p [''typography'', ''family'', ''primary''])],
      Decl ''font-weight'' [F (\<lambda>p. theme_at p [''typography'', ''weight'', ''xBold''])],
      Decl ''color'' [F (\<lambda>p. theme_at p [''colors'', ''font'', ''primary''])]],
    Rule [S ''span''] [
      Decl ''font-size'' [F (\<lambda>p. theme_at p [''typography'', ''size'', ''xSmall''])],
      Decl ''font-family'' [F (\<lambda>p. theme_at p [''typography'', ''family'', ''primary''])],
      Decl ''font-weight'' [F (\<lambda>p. theme_at p [''typography'', ''weight'', ''bold''])],
      Decl ''color'' [F (\<lambda>p. theme_at p [''colors'', ''font'', ''alt1''])]]]"

definition Subheader :: styled where
  "Subheader = Styled (Elem ''div'') [
    Decl ''width'' [S ''fit-content''],
    Decl ''padding'' [S ''6px 12px''],
    Decl ''display'' [S ''flex''],
    Decl ''align-items'' [S ''center''],
    Decl ''justify-content'' [S ''center''],
    Decl ''background'' [F (\<lambda>p. theme_at p [''colors'', ''container'', ''alt8'', ''background''])],
    Decl ''border-radius'' [F (\<lambda>_. styling_at [''dimensions'', ''radius'', ''primary''])],
    Rule [S ''span''] [
      Decl ''font-size'' [F (\<lambda>p. theme_at p [''typography'', ''size'', ''xxSmall''])],
      Decl ''font-family'' [F (\<lambda>p. theme_at p [''typography'', ''family'', ''primary''])],
      Decl ''font-weight'' [F (\<lambda>p. theme_at p [''typography'', ''weight'', ''bold''])],
      Decl ''color'' [F (\<lambda>p. theme_at p [''colors'', ''font'', ''light1''])],
      Decl ''text-align'' [S ''center''],
      Decl ''text-transform'' [S ''uppercase'']]]"

definition Placeholder :: styled where
  "Placeholder = Styled (Elem ''div'') [
    Decl ''height'' [S ''150px''],
    Decl ''width'' [S ''100%'']]"

section \<open>Soundness\<close>

text \<open>
  Whatever the palette, no template of the list throws, and with every attribute
  given no declaration is left without a value. \<open>Indicator_1\<close> names a path the
  theme does not have and is left out; they are treated in \<open>Styles\<close>.
\<close>

definition landing_styles :: "styled list" where
  "landing_styles = [
    Container_2, Cube, Face, Container_1, Header_1, HeaderContent_1, Title_1,
    Subtitle_1, SearchWrapper, Wrapper_4, DeviceRow, DeviceWrapper,
    DeviceNameWrapper, DeviceVersionWrapper, CubeSpinWrapper, EmptyState_1,
    LoadingWrapper_2, Container, Header, HeaderContent, Title, Subtitle, Wrapper_3,
    ErrorWrapper_1, LoadingWrapper_1, Wrapper_2, Sidebar, SidebarContent,
    SidebarHeader, SidebarHeaderBody, SidebarTitle, SidebarMeta, SidebarList,
    SidebarHeaderLabel, SidebarHeaderLabelText, SidebarItemInner, SidebarItem,
    SidebarInfo, SidebarIcon, SidebarLabel, SidebarDescription, SidebarEmpty,
    Content, ContentHeader, ContentHeading, ContentTitleWrapper, ContentTitle,
    ContentTitleIcon, ContentMeta, ContentBody, EmptyState, Group, GroupHeader,
    GroupBody, GroupLine, SubGroup, SubGroupHeader, SubGroupBody, SubGroupLine,
    LoadingWrapper, Wrapper_1, MetricsWrapper, MetricsBody, MetricsRow,
    MetricsSection, TabsWrapper, Tab, HeaderWrapper_1, Subheader_1, ErrorWrapper,
    ErrorMessage, Graphic, Wrapper, HeaderWrapper, BodyWrapper, RouterWrapper,
    RouterBody, RouterFooter, NodeRow, NodeWrapper, NodeHeader, IndicatorWrapper,
    Indicator, NodeBody, NodeLine, Subheader, Placeholder]"

lemmas landing_styles_defs =
  Container_2_def Cube_def Face_def Container_1_def Header_1_def HeaderContent_1_def
  Title_1_def Subtitle_1_def SearchWrapper_def Wrapper_4_def DeviceRow_def
  DeviceWrapper_def DeviceNameWrapper_def DeviceVersionWrapper_def
  CubeSpinWrapper_def EmptyState_1_def LoadingWrapper_2_def Container_def Header_def
  HeaderContent_def Title_def Subtitle_def Wrapper_3_def ErrorWrapper_1_def
  LoadingWrapper_1_def Wrapper_2_def Sidebar_def SidebarContent_def
  SidebarHeader_def SidebarHeaderBody_def SidebarTitle_def SidebarMeta_def
  SidebarList_def SidebarHeaderLabel_def SidebarHeaderLabelText_def
  SidebarItemInner_def SidebarItem_def SidebarInfo_def SidebarIcon_def
  SidebarLabel_def SidebarDescription_def SidebarEmpty_def Content_def
  ContentHeader_def ContentHeading_def ContentTitleWrapper_def ContentTitle_def
  ContentTitleIcon_def ContentMeta_def ContentBody_def EmptyState_def Group_def
  GroupHeader_def GroupBody_def GroupLine_def SubGroup_def SubGroupHeader_def
  SubGroupBody_def SubGroupLine_def LoadingWrapper_def Wrapper_1_def
  MetricsWrapper_def MetricsBody_def MetricsRow_def MetricsSection_def
  TabsWrapper_def Tab_def HeaderWrapper_1_def Subheader_1_def ErrorWrapper_def
  ErrorMessage_def Graphic_def Wrapper_def HeaderWrapper_def BodyWrapper_def
  RouterWrapper_def RouterBody_def RouterFooter_def NodeRow_def NodeWrapper_def
  NodeHeader_def IndicatorWrapper_def Indicator_def NodeBody_def NodeLine_def
  Subheader_def Placeholder_def

lemma landing_styles_run:
  assumes "sized a"
  shows "list_all (runs (themed pal a)) landing_styles"
  using assms by (elim sizedE)
    (simp add: landing_styles_def landing_styles_defs theme_lookups missing_lookups no_throw_if)

lemma landing_styles_resolve:
  assumes "given a"
  shows "list_all (resolves (themed pal a)) landing_styles"
  using given_sized [OF assms] by (elim sizedE)
    (simp add: landing_styles_def landing_styles_defs theme_lookups missing_lookups no_throw_if resolved_if
      given_simps [OF assms])

end
