(* ===== verification/Styles_Unused.thy ===== *)
theory Styles_Unused
  imports Styles_Global Styles_Editor Styles_Links
begin

text \<open>
  Styled components of the bundle that no variable keeps (the build removed the
  variable, but the template is still evaluated): \<open>bundle.js\<close>, lines 2059 to 8789. Each is
  named after the line of its template.
\<close>

section \<open>Templates\<close>

definition unnamed_2059 :: styled where
  "unnamed_2059 = Styled (Elem ''div'') [
    Decl ''height'' [S ''auto'']]"

definition unnamed_2061 :: styled where
  "unnamed_2061 = Styled (Elem ''div'') [
    Decl ''display'' [S ''flex''],
    Decl ''justify-content'' [S ''space-between''],
    Decl ''flex-wrap'' [S ''wrap''],
    Decl ''gap'' [S ''15px''],
    Rule [S ''h4''] [
      Decl ''color'' [F (\<lambda>p. theme_at p [''colors'', ''font'', ''primary''])],
      Decl ''font-size'' [S ''clamp(18px, 3.25vw, 24px)''],
      Decl ''font-weight'' [F (\<lambda>p. theme_at p [''typography'', ''weight'', ''bold''])],
      Decl ''line-height'' [S ''1.5'']]]"

definition unnamed_2106 :: styled where
  "unnamed_2106 = Styled (Elem ''div'') [
    Decl ''display'' [S ''flex''],
    Decl ''align-items'' [S ''center''],
    Rule [S ''span''] [
      Decl ''font-size'' [F (\<lambda>p. theme_at p [''typography'', ''size'', ''xSmall'']), S '' !important''],
      Decl ''font-weight'' [F (\<lambda>p. theme_at p [''typography'', ''weight'', ''bold'']), S '' !important''],
      Decl ''display'' [S ''block''],
      Decl ''max-width'' [S ''75%''],
      Decl ''white-space'' [S ''nowrap''],
      Decl ''overflow'' [S ''hidden''],
      Decl ''text-overflow'' [S ''ellipsis'']],
    Rule [S ''.c-wrapper-checkbox''] [
      Decl ''margin'' [S ''4.5px 0 0 7.5px'']]]"

definition unnamed_2291 :: styled where
  "unnamed_2291 = Styled (Elem ''div'') [
    Decl ''padding'' [S ''0 20px 20px 20px'']]"

definition unnamed_2293 :: styled where
  "unnamed_2293 = Styled (Elem ''div'') [
    Decl ''margin'' [S ''0 0 20px 0''],
    Rule [S ''span''] [
      Decl ''color'' [F (\<lambda>p. theme_at p [''colors'', ''font'', ''primary''])],
      Decl ''font-size'' [F (\<lambda>p. theme_at p [''typography'', ''size'', ''small''])],
      Decl ''font-weight'' [F (\<lambda>p. theme_at p [''typography'', ''weight'', ''medium''])],
      Decl ''line-height'' [S ''1.5'']]]"

definition unnamed_2301 :: styled where
  "unnamed_2301 = Styled (Elem ''div'') [
    Decl ''margin'' [S ''10px 0 0 0''],
    Decl ''display'' [S ''flex''],
    Decl ''justify-content'' [S ''flex-end''],
    Decl ''flex-wrap'' [S ''wrap''],
    Decl ''gap'' [S ''15px'']]"

definition unnamed_2320 :: styled where
  "unnamed_2320 = Styled (Elem ''div'') [
    Decl ''margin'' [S ''0 15px 0 0''],
    Rule [S ''@media (max-width: '', F (\<lambda>_. styling_at [''cutoffs'', ''initial'']), S '')''] [
      Decl ''display'' [S ''none'']]]"

definition unnamed_2326 :: styled where
  "unnamed_2326 = Styled (Elem ''button'') [
    Decl ''height'' [S ''35px''],
    Decl ''padding'' [S ''0 17.5px''],
    Decl ''margin'' [S ''0 15px 0 0''],
    Decl ''display'' [S ''none''],
    Rule [S ''span''] [
      Decl ''color'' [F (\<lambda>p. theme_at p [''colors'', ''font'', ''primary''])],
      Decl ''font-family'' [F (\<lambda>p. theme_at p [''typography'', ''family'', ''primary''])],
      Decl ''font-size'' [F (\<lambda>p. theme_at p [''typography'', ''size'', ''base''])],
      Decl ''font-weight'' [F (\<lambda>p. theme_at p [''typography'', ''weight'', ''bold''])],
      Decl ''display'' [S ''block'']],
    Rule [S ''&:hover''] [
      Decl ''background'' [F (\<lambda>p. theme_at p [''colors'', ''container'', ''primary'', ''active''])]],
    Rule [S ''@media (max-width: '', F (\<lambda>_. styling_at [''cutoffs'', ''initial'']), S '')''] [
      Decl ''display'' [S ''none'']]]"

definition unnamed_2344 :: styled where
  "unnamed_2344 = Styled (Elem ''div'') [
    Decl ''display'' [S ''flex''],
    Decl ''align-items'' [S ''center''],
    Rule [S ''svg''] [
      Decl ''height'' [S ''25px''],
      Decl ''width'' [S ''20px''],
      Decl ''margin'' [S ''0 -2.5px 0 11.5px'']]]"

definition unnamed_2363 :: styled where
  "unnamed_2363 = Styled (Elem ''div'') [
    Decl ''padding'' [S ''0 7.5px''],
    Rule [S ''p''] [
      Decl ''color'' [F (\<lambda>p. theme_at p [''colors'', ''font'', ''alt1''])],
      Decl ''font-size'' [F (\<lambda>p. theme_at p [''typography'', ''size'', ''xSmall'']), S '' !important''],
      Decl ''font-weight'' [F (\<lambda>p. theme_at p [''typography'', ''weight'', ''medium'']), S '' !important''],
      Decl ''font-family'' [F (\<lambda>p. theme_at p [''typography'', ''family'', ''primary'']), S '' !important''],
      Decl ''text-transform'' [S ''uppercase'']]]"

definition unnamed_2465 :: styled where
  "unnamed_2465 = Styled (Elem ''div'') [
    Decl ''display'' [S ''flex''],
    Decl ''flex-direction'' [S ''column''],
    Decl ''gap'' [S ''30px'']]"

definition unnamed_2492 :: styled where
  "unnamed_2492 = Styled (Elem ''div'') [
    Decl ''height'' [S ''100vh''],
    Decl ''width'' [S ''100%''],
    Decl ''position'' [S ''fixed''],
    Decl ''z-index'' [S ''3''],
    Decl ''top'' [S ''0''],
    Decl ''left'' [S ''0''],
    Decl ''background'' [F (\<lambda>p. theme_at p [''colors'', ''overlay'', ''primary''])],
    Decl ''animation'' [K ''open'', S '' '', F (\<lambda>_. Inr (JStr transition2))],
    Decl ''display'' [S ''none''],
    Rule [S ''@media (max-width: '', F (\<lambda>_. styling_at [''cutoffs'', ''desktop'']), S '')''] [
      Decl ''display'' [F (\<lambda>p. ternary (prop_of p ''open'') (Inr (JStr ''block'')) (Inr (JStr ''none'')))]]]"

definition unnamed_2506 :: styled where
  "unnamed_2506 = Styled (Elem ''nav'') [
    Decl ''height'' [S ''100vh''],
    Decl ''width'' [F (\<lambda>_. styling_at [''dimensions'', ''nav'', ''width''])],
    Decl ''position'' [S ''fixed''],
    Decl ''top'' [S ''0''],
    Decl ''left'' [S ''0''],
    Decl ''z-index'' [S ''5''],
    Decl ''transform'' [S ''translateX('', F (\<lambda>p. ternary (prop_of p ''open'') (Inr (JStr ''0'')) (Inr (JStr ''-100%''))), S '')''],
    Decl ''transition'' [S ''transform '', F (\<lambda>_. Inr (JStr transition2))],
    Decl ''background'' [F (\<lambda>p. theme_at p [''colors'', ''container'', ''alt1'', ''background''])],
    Decl ''border-right'' [S ''1px solid '', F (\<lambda>p. theme_at p [''colors'', ''border'', ''primary''])]]"

definition unnamed_2517 :: styled where
  "unnamed_2517 = Styled (Elem ''div'') [
    Decl ''height'' [F (\<lambda>_. styling_at [''dimensions'', ''nav'', ''height''])],
    Decl ''width'' [S ''100%''],
    Decl ''display'' [S ''flex''],
    Decl ''align-items'' [S ''center''],
    Decl ''padding'' [S ''0 15px'']]"

definition unnamed_2523 :: styled where
  "unnamed_2523 = Styled (Elem ''div'') [
    Decl ''height'' [F (\<lambda>_. styling_at [''dimensions'', ''nav'', ''height''])],
    Decl ''display'' [S ''flex''],
    Decl ''align-items'' [S ''center''],
    Decl ''gap'' [S ''7.5px'']]"

definition unnamed_2528 :: styled where
  "unnamed_2528 = Styled (Elem ''div'') [
    Decl ''height'' [S ''calc(100vh - ('', F (\<lambda>_. styling_at [''dimensions'', ''nav'', ''height'']), S '' + 70px))''],
    Decl ''padding'' [S ''0 15px 15px 15px''],
    Rule [S ''a''] [
      Decl ''height'' [S ''40.5px''],
      Decl ''display'' [S ''flex''],
      Decl ''align-items'' [S ''center''],
      Decl ''cursor'' [S ''pointer''],
      Decl ''color'' [F (\<lambda>p. theme_at p [''colors'', ''font'', ''primary''])],
      Decl ''font-family'' [F (\<lambda>p. theme_at p [''typography'', ''family'', ''alt1''])],
      Decl ''font-size'' [F (\<lambda>p. theme_at p [''typography'', ''size'', ''xxSmall''])],
      Decl ''font-weight'' [F (\<lambda>p. theme_at p [''typography'', ''weight'', ''medium''])],
      Decl ''border'' [S ''1px solid transparent''],
      Decl ''border-radius'' [F (\<lambda>_. styling_at [''dimensions'', ''radius'', ''primary''])],
      Decl ''transition'' [S ''all 100ms''],
      Decl ''padding'' [S ''0 10px''],
      Rule [S ''svg''] [
        Decl ''height'' [S ''17.5px''],
        Decl ''width'' [S ''17.5px''],
        Decl ''margin'' [S ''6.5px 12.5px 0 0''],
        Decl ''color'' [F (\<lambda>p. theme_at p [''colors'', ''font'', ''primary''])],
        Decl ''fill'' [F (\<lambda>p. theme_at p [''colors'', ''font'', ''primary''])]],
      Rule [S ''&:hover''] [
        Decl ''color'' [F (\<lambda>p. theme_at p [''colors'', ''font'', ''primary''])],
        Decl ''background'' [F (\<lambda>p. theme_at p [''colors'', ''container'', ''alt2'', ''background''])],
        Rule [S ''svg''] [
          Decl ''color'' [F (\<lambda>p. theme_at p [''colors'', ''font'', ''primary''])],
          Decl ''fill'' [F (\<lambda>p. theme_at p [''colors'', ''font'', ''primary''])]]]]]"

definition unnamed_2562 :: styled where
  "unnamed_2562 = Styled (Elem ''div'') [
    Decl ''height'' [S ''70px''],
    Decl ''width'' [S ''100%''],
    Decl ''padding'' [S ''15px''],
    Rule [S ''a''] [
      Decl ''height'' [S ''40.5px''],
      Decl ''display'' [S ''flex''],
      Decl ''align-items'' [S ''center''],
      Decl ''cursor'' [S ''pointer''],
      Decl ''color'' [F (\<lambda>p. theme_at p [''colors'', ''font'', ''primary''])],
      Decl ''font-family'' [F (\<lambda>p. theme_at p [''typography'', ''family'', ''primary''])],
      Decl ''font-size'' [F (\<lambda>p. theme_at p [''typography'', ''size'', ''xSmall''])],
      Decl ''font-weight'' [F (\<lambda>p. theme_at p [''typography'', ''weight'', ''bold''])],
      Decl ''border'' [S ''1px solid '', F (\<lambda>p. theme_at p [''colors'', ''border'', ''primary''])],
      Decl ''border-radius'' [F (\<lambda>_. styling_at [''dimensions'', ''radius'', ''primary''])],
      Decl ''transition'' [S ''all 100ms''],
      Decl ''padding'' [S ''0 10px''],
      Rule [S ''svg''] [
        Decl ''height'' [S ''17.5px''],
        Decl ''width'' [S ''17.5px''],
        Decl ''margin'' [S ''6.5px 12.5px 0 0''],
        Decl ''color'' [F (\<lambda>p. theme_at p [''colors'', ''font'', ''primary''])],
        Decl ''fill'' [F (\<lambda>p. theme_at p [''colors'', ''font'', ''primary''])]],
      Rule [S ''&:hover''] [
        Decl ''color'' [F (\<lambda>p. theme_at p [''colors'', ''font'', ''primary''])],
        Decl ''background'' [F (\<lambda>p. theme_at p [''colors'', ''container'', ''alt2'', ''background''])],
        Decl ''border'' [S ''1px solid '', F (\<lambda>p. theme_at p [''colors'', ''border'', ''alt2''])],
        Rule [S ''svg''] [
          Decl ''color'' [F (\<lambda>p. theme_at p [''colors'', ''font'', ''primary''])],
          Decl ''fill'' [F (\<lambda>p. theme_at p [''colors'', ''font'', ''primary''])]]]]]"

definition unnamed_2602 :: styled where
  "unnamed_2602 = Styled (Elem ''div'') [
    Decl ''position'' [S ''absolute''],
    Decl ''top'' [S ''2.5px''],
    Decl ''right'' [S ''4.5px'']]"

definition unnamed_2606 :: styled where
  "unnamed_2606 = Styled (Elem ''div'') [
    Decl ''width'' [S ''100%''],
    Decl ''position'' [S ''relative''],
    Rule [S ''input''] [
      Decl ''background'' [S ''transparent''],
      Decl ''padding'' [S ''10px 10px 10px 43.5px !important''],
      Decl ''border'' [S ''1px solid '', F (\<lambda>p. ternary (strict_eq (prop_of p ''cacheStatus'') (Inr (JStr ''success''))) (theme_at p [''colors'', ''form'', ''valid'', ''outline'']) (ternary (strict_eq (prop_of p ''cacheStatus'') (Inr (JStr ''error''))) (theme_at p [''colors'', ''form'', ''invalid'', ''outline'']) (theme_at p [''colors'', ''form'', ''border'']))), S '' !important''],
      Rule [S ''&:focus''] [
        Decl ''border'' [S ''1px solid '', F (\<lambda>p. ternary (strict_eq (prop_of p ''cacheStatus'') (Inr (JStr ''success''))) (theme_at p [''colors'', ''form'', ''valid'', ''outline'']) (ternary (strict_eq (prop_of p ''cacheStatus'') (Inr (JStr ''error''))) (theme_at p [''colors'', ''form'', ''invalid'', ''outline'']) (theme_at p [''colors'', ''form'', ''default'', ''outline'']))), S '' !important''],
        Decl ''outline'' [S ''0.5px solid '', F (\<lambda>p. ternary (strict_eq (prop_of p ''cacheStatus'') (Inr (JStr ''success''))) (theme_at p [''colors'', ''form'', ''valid'', ''outline'']) (ternary (strict_eq (prop_of p ''cacheStatus'') (Inr (JStr ''error''))) (theme_at p [''colors'', ''form'', ''invalid'', ''outline'']) (theme_at p [''colors'', ''form'', ''default'', ''outline'']))), S '' !important''],
        Decl ''transition'' [S ''border, outline 225ms ease-in-out'']]],
    Rule [S ''svg''] [
      Decl ''height'' [S ''15px''],
      Decl ''width'' [S ''15px''],
      Decl ''color'' [F (\<lambda>p. theme_at p [''colors'', ''font'', ''alt1''])],
      Decl ''fill'' [F (\<lambda>p. theme_at p [''colors'', ''font'', ''alt1''])],
      Decl ''position'' [S ''absolute''],
      Decl ''z-index'' [S ''1''],
      Decl ''top'' [S ''11.5px''],
      Decl ''left'' [S ''14.5px'']]]"

definition unnamed_2637 :: styled where
  "unnamed_2637 = Styled (Elem ''div'') [
    Decl ''width'' [S ''100%''],
    Decl ''position'' [S ''absolute''],
    Decl ''top'' [S ''45px''],
    Decl ''overflow'' [S ''hidden''],
    Rule [S ''p''] [
      Decl ''color'' [F (\<lambda>p. theme_at p [''colors'', ''font'', ''alt1''])],
      Decl ''font-size'' [F (\<lambda>p. theme_at p [''typography'', ''size'', ''xxSmall'']), S '' !important''],
      Decl ''font-weight'' [F (\<lambda>p. theme_at p [''typography'', ''weight'', ''bold'']), S '' !important''],
      Decl ''font-family'' [F (\<lambda>p. theme_at p [''typography'', ''family'', ''primary'']), S '' !important'']],
    Rule [S ''@media (max-width: '', F (\<lambda>_. styling_at [''cutoffs'', ''initial'']), S '')''] [
      Decl ''position'' [S ''relative''],
      Decl ''top'' [S ''auto''],
      Decl ''margin'' [S ''15px 0 0 0'']]]"

definition unnamed_2655 :: styled where
  "unnamed_2655 = Styled (Elem ''div'') [
    Decl ''padding'' [S ''20px 15px''],
    Decl ''background'' [F (\<lambda>p. theme_at p [''colors'', ''container'', ''alt1'', ''background''])],
    Decl ''border-radius'' [F (\<lambda>_. styling_at [''dimensions'', ''radius'', ''primary''])],
    Decl ''border'' [S ''1px solid '', F (\<lambda>p. theme_at p [''colors'', ''border'', ''primary''])],
    Rule [S ''p''] [
      Decl ''color'' [F (\<lambda>p. theme_at p [''colors'', ''font'', ''alt1''])],
      Decl ''font-size'' [F (\<lambda>p. theme_at p [''typography'', ''size'', ''xxSmall'']), S '' !important''],
      Decl ''font-weight'' [F (\<lambda>p. theme_at p [''typography'', ''weight'', ''bold'']), S '' !important''],
      Decl ''font-family'' [F (\<lambda>p. theme_at p [''typography'', ''family'', ''primary'']), S '' !important'']]]"

definition unnamed_2666 :: styled where
  "unnamed_2666 = Styled (Elem ''div'') [
    Rule [S ''a''] [
      Decl ''height'' [S ''100%''],
      Decl ''width'' [S ''100%''],
      Decl ''display'' [S ''flex''],
      Decl ''align-items'' [S ''center''],
      Decl ''justify-content'' [S ''space-between''],
      Decl ''padding'' [S ''15px''],
      Decl ''background'' [F (\<lambda>p. theme_at p [''colors'', ''container'', ''alt1'', ''background''])],
      Decl ''border-radius'' [F (\<lambda>_. styling_at [''dimensions'', ''radius'', ''primary''])],
      Decl ''border'' [S ''1px solid '', F (\<lambda>p. theme_at p [''colors'', ''border'', ''primary''])],
      Decl ''font-size'' [F (\<lambda>p. theme_at p [''typography'', ''size'', ''xSmall'']), S '' !important''],
      Decl ''font-weight'' [F (\<lambda>p. theme_at p [''typography'', ''weight'', ''bold'']), S '' !important''],
      Decl ''font-family'' [F (\<lambda>p. theme_at p [''typography'', ''family'', ''primary'']), S '' !important''],
      Rule [S ''svg''] [
        Decl ''height'' [S ''23.5px''],
        Decl ''width'' [S ''23.5px''],
        Decl ''padding'' [S ''5.5px 0 0 0''],
        Decl ''color'' [F (\<lambda>p. theme_at p [''colors'', ''link'', ''color''])],
        Decl ''fill'' [F (\<lambda>p. theme_at p [''colors'', ''link'', ''color''])]],
      Rule [S ''&:hover''] [
        Decl ''background'' [F (\<lambda>p. theme_at p [''colors'', ''container'', ''alt3'', ''background''])],
        Decl ''border'' [S ''1px solid '', F (\<lambda>p. theme_at p [''colors'', ''border'', ''alt4''])],
        Rule [S ''svg''] [
          Decl ''color'' [F (\<lambda>p. theme_at p [''colors'', ''link'', ''active''])],
          Decl ''fill'' [F (\<lambda>p. theme_at p [''colors'', ''link'', ''active''])]]]]]"

definition unnamed_2842 :: styled where
  "unnamed_2842 = Styled (Elem ''div'') [
    Decl ''display'' [S ''none''],
    Rule [S ''@media (max-width: '', F (\<lambda>_. styling_at [''cutoffs'', ''secondary'']), S '')''] [
      Decl ''display'' [S ''block'']]]"

definition unnamed_2887 :: styled where
  "unnamed_2887 = Styled (Elem ''div'') [
    Decl ''padding'' [S ''7.5px 16.5px''],
    Rule [S ''span''] [
      Decl ''color'' [F (\<lambda>p. theme_at p [''colors'', ''font'', ''alt1''])],
      Decl ''font-size'' [F (\<lambda>p. theme_at p [''typography'', ''size'', ''lg'']), S '' !important''],
      Decl ''font-weight'' [F (\<lambda>p. theme_at p [''typography'', ''weight'', ''bold'']), S '' !important''],
      Decl ''font-family'' [F (\<lambda>p. theme_at p [''typography'', ''family'', ''primary'']), S '' !important''],
      Decl ''display'' [S ''block''],
      Decl ''white-space'' [S ''nowrap''],
      Decl ''text-overflow'' [S ''ellipsis''],
      Decl ''overflow'' [S ''hidden'']]]"

definition unnamed_3219 :: styled where
  "unnamed_3219 = Styled (Elem ''div'') [
    Decl ''display'' [S ''flex''],
    Decl ''align-items'' [S ''center''],
    Decl ''justify-content'' [S ''center''],
    Decl ''background'' [F (\<lambda>p. theme_at p [''colors'', ''view'', ''background''])]]"

definition unnamed_3240 :: styled where
  "unnamed_3240 = Styled (Elem ''div'') [
    Decl ''display'' [S ''flex''],
    Decl ''flex-direction'' [S ''column''],
    Decl ''align-items'' [S ''center''],
    Decl ''justify-content'' [S ''center''],
    Decl ''gap'' [S ''20px''],
    Decl ''padding'' [S ''12.5px 30px''],
    Rule [S ''p''] [
      Decl ''font-size'' [F (\<lambda>p. theme_at p [''typography'', ''size'', ''xSmall''])],
      Decl ''font-family'' [F (\<lambda>p. theme_at p [''typography'', ''family'', ''primary''])],
      Decl ''font-weight'' [F (\<lambda>p. theme_at p [''typography'', ''weight'', ''bold''])],
      Decl ''color'' [F (\<lambda>p. theme_at p [''colors'', ''font'', ''alt1''])]]]"

definition unnamed_3595 :: styled where
  "unnamed_3595 = Styled (Elem ''div'') [
    Decl ''display'' [S ''flex''],
    Decl ''justify-content'' [S ''space-between''],
    Decl ''position'' [S ''relative''],
    Decl ''margin'' [S ''0 !important''],
    Rule [S ''pre, code''] [
      Decl ''padding'' [S ''0 !important''],
      Decl ''margin'' [S ''0 !important''],
      Decl ''background'' [F (\<lambda>p. theme_at p [''colors'', ''transparent'']), S '' !important''],
      Decl ''border'' [S ''1px solid '', F (\<lambda>p. theme_at p [''colors'', ''transparent'']), S '' !important''],
      Decl ''color'' [F (\<lambda>p. theme_at p [''colors'', ''font'', ''primary'', ''alt1'']), S '' !important''],
      Decl ''font-weight'' [F (\<lambda>p. theme_at p [''typography'', ''weight'', ''regular'']), S '' !important''],
      Decl ''font-size'' [F (\<lambda>p. theme_at p [''typography'', ''size'', ''small'']), S '' !important''],
      Decl ''border-radius'' [F (\<lambda>_. styling_at [''dimensions'', ''radius'', ''primary'']), S '' !important''],
      Decl ''line-height'' [S ''1.5 !important'']],
    Rule [S ''div''] [
      Decl ''margin'' [S ''0 !important'']],
    Rule [S ''button''] [
      Decl ''margin'' [S ''1.5px 0 0 10px !important'']]]"

definition unnamed_3621 :: styled where
  "unnamed_3621 = Styled (Elem ''button'') [
    Decl ''height'' [F (\<lambda>p. ternary (prop_of p ''dimensions'') (tmpl [to_string (mem (prop_of p ''dimensions'') ''wrapper''), Inr (JStr ''px'')]) (Inr (JStr ''32.5px'')))],
    Decl ''min-width'' [F (\<lambda>p. ternary (prop_of p ''dimensions'') (tmpl [to_string (mem (prop_of p ''dimensions'') ''wrapper''), Inr (JStr ''px'')]) (Inr (JStr ''32.5px'')))],
    Decl ''display'' [S ''flex''],
    Decl ''justify-content'' [S ''center''],
    Decl ''align-items'' [S ''center''],
    Decl ''padding'' [S ''2.5px 0 0 0''],
    Decl ''background'' [F (\<lambda>p. theme_at p [''colors'', ''button'', ''alt1'', ''background''])],
    Decl ''border-radius'' [F (\<lambda>_. styling_at [''dimensions'', ''radius'', ''primary''])],
    Decl ''position'' [S ''relative''],
    Decl ''border'' [S ''none''],
    Decl ''padding'' [S ''0''],
    Decl ''font'' [S ''inherit''],
    Rule [S ''&:focus''] [
      Decl ''outline'' [S ''none''],
      Rule [S ''svg''] [
        Decl ''opacity'' [F (\<lambda>p. ternary (prop_of p ''disabled'') (Inr (JStr ''1'')) (Inr (JStr ''0.75'')))]]],
    Rule [S ''&:hover''] [
      Decl ''background'' [F (\<lambda>p. theme_at p [''colors'', ''button'', ''alt1'', ''hover''])]],
    Rule [S ''svg''] [
      Decl ''height'' [F (\<lambda>p. ternary (prop_of p ''dimensions'') (tmpl [to_string (mem (prop_of p ''dimensions'') ''icon''), Inr (JStr ''px'')]) (Inr (JStr ''17.5px'')))],
      Decl ''width'' [F (\<lambda>p. ternary (prop_of p ''dimensions'') (tmpl [to_string (mem (prop_of p ''dimensions'') ''icon''), Inr (JStr ''px'')]) (Inr (JStr ''17.5px'')))],
      Decl ''fill'' [F (\<lambda>p. theme_at p [''colors'', ''button'', ''alt1'', ''label''])],
      Decl ''position'' [S ''absolute''],
      Decl ''top'' [S ''50%''],
      Decl ''left'' [S ''50%''],
      Decl ''transform'' [S ''translate(-50%, -50%)''],
      Rule [S ''&:hover''] [
        Decl ''cursor'' [F (\<lambda>p. ternary (prop_of p ''disabled'') (Inr (JStr ''default'')) (Inr (JStr ''pointer'')))],
        Decl ''opacity'' [S ''1'']]],
    Rule [S ''&:disabled''] [
      Decl ''background'' [F (\<lambda>p. theme_at p [''colors'', ''button'', ''alt1'', ''disabled'', ''background''])],
      Decl ''color'' [F (\<lambda>p. theme_at p [''colors'', ''button'', ''alt1'', ''disabled'', ''label''])],
      Rule [S ''svg''] [
        Decl ''fill'' [F (\<lambda>p. theme_at p [''colors'', ''button'', ''alt1'', ''disabled'', ''label''])]]]]"

definition unnamed_4051 :: styled where
  "unnamed_4051 = Styled (Elem ''div'') [
    Rule [S ''span''] [
      Decl ''color'' [F (\<lambda>p. theme_at p [''colors'', ''warning'', ''primary''])],
      Decl ''font-family'' [F (\<lambda>p. theme_at p [''typography'', ''family'', ''primary''])],
      Decl ''font-weight'' [F (\<lambda>p. theme_at p [''typography'', ''weight'', ''bold''])],
      Decl ''font-size'' [F (\<lambda>p. theme_at p [''typography'', ''size'', ''xxSmall''])]]]"

definition unnamed_4069 :: styled where
  "unnamed_4069 = Styled (Elem ''div'') [
    Decl ''height'' [S ''100%'']]"

definition unnamed_4129 :: styled where
  "unnamed_4129 = Styled (Elem ''span'') [
    Decl ''display'' [S ''inline'']]"

definition unnamed_4195 :: styled where
  "unnamed_4195 = Styled (Elem ''div'') [
    Decl ''display'' [S ''block'']]"

definition unnamed_4197 :: styled where
  "unnamed_4197 = Styled (Elem ''div'') [
    Decl ''display'' [S ''block'']]"

definition unnamed_8266 :: styled where
  "unnamed_8266 = Styled (Elem ''span'') [
    Decl ''font-size'' [F (\<lambda>p. theme_at p [''typography'', ''size'', ''xxSmall''])],
    Decl ''font-family'' [F (\<lambda>p. theme_at p [''typography'', ''family'', ''primary''])],
    Decl ''font-weight'' [F (\<lambda>p. theme_at p [''typography'', ''weight'', ''medium''])],
    Decl ''color'' [F (\<lambda>p. theme_at p [''colors'', ''font'', ''alt2''])],
    Decl ''font-style'' [S ''italic'']]"

definition unnamed_8297 :: styled where
  "unnamed_8297 = Styled (Elem ''div'') [
    Decl ''padding'' [S ''15px 20px''],
    Decl ''border-bottom'' [S ''1px solid '', F (\<lambda>p. theme_at p [''colors'', ''border'', ''primary''])],
    Decl ''display'' [S ''flex''],
    Decl ''align-items'' [S ''center''],
    Decl ''justify-content'' [S ''space-between''],
    Decl ''background'' [F (\<lambda>p. theme_at p [''colors'', ''container'', ''alt1'', ''background''])],
    Decl ''font-weight'' [S ''500''],
    Decl ''font-size'' [S ''14px''],
    Decl ''color'' [F (\<lambda>p. theme_at p [''colors'', ''font'', ''primary''])]]"

definition unnamed_8320 :: styled where
  "unnamed_8320 = Styled (Elem ''div'') [
    Decl ''background'' [F (\<lambda>p. ternary (theme_at p [''colors'', ''editor'', ''alt1'']) (tmpl [theme_at p [''colors'', ''editor'', ''alt1''], Inr (JStr ''20'')]) (Inr (JStr ''rgba(255, 85, 0, 0.1)'')))],
    Decl ''border'' [S ''1px solid '', F (\<lambda>p. js_or (theme_at p [''colors'', ''editor'', ''alt1'']) (Inr (JStr ''#FF5500'')))],
    Decl ''border-radius'' [F (\<lambda>_. styling_at [''dimensions'', ''radius'', ''primary''])],
    Decl ''padding'' [S ''12px 15px''],
    Decl ''margin-top'' [S ''5px''],
    Rule [S ''.info-line-active''] [
      Decl ''margin'' [S ''0'']]]"

definition unnamed_8376 :: styled where
  "unnamed_8376 = Styled (Elem ''div'') [
    Decl ''max-width'' [S ''100%''],
    Decl ''display'' [S ''flex''],
    Decl ''align-items'' [S ''center''],
    Decl ''gap'' [S ''8px''],
    Decl ''position'' [S ''relative''],
    Decl ''overflow'' [S ''visible'']]"

definition unnamed_8383 :: styled where
  "unnamed_8383 = Styled (Elem ''div'') [
    Decl ''width'' [S ''100%''],
    Decl ''max-width'' [S ''100%''],
    Decl ''position'' [S ''relative''],
    Decl ''overflow'' [S ''visible''],
    Rule [S ''input''] [
      Decl ''padding'' [S ''10px 10px 10px 43.5px !important''],
      Decl ''border'' [S ''1px solid '', F (\<lambda>p. ternary (strict_eq (prop_of p ''cacheStatus'') (Inr (JStr ''success''))) (theme_at p [''colors'', ''form'', ''valid'', ''outline'']) (ternary (strict_eq (prop_of p ''cacheStatus'') (Inr (JStr ''error''))) (theme_at p [''colors'', ''form'', ''invalid'', ''outline'']) (theme_at p [''colors'', ''form'', ''border'']))), S '' !important''],
      Rule [S ''&:focus''] [
        Decl ''outline'' [S ''0.5px solid '', F (\<lambda>p. ternary (strict_eq (prop_of p ''cacheStatus'') (Inr (JStr ''success''))) (theme_at p [''colors'', ''form'', ''valid'', ''outline'']) (ternary (strict_eq (prop_of p ''cacheStatus'') (Inr (JStr ''error''))) (theme_at p [''colors'', ''form'', ''invalid'', ''outline'']) (theme_at p [''colors'', ''form'', ''default'', ''outline'']))), S '' !important''],
        Decl ''transition'' [S ''border, outline 225ms ease-in-out'']]],
    Rule [S ''svg''] [
      Decl ''height'' [S ''15px''],
      Decl ''width'' [S ''15px''],
      Decl ''color'' [F (\<lambda>p. theme_at p [''colors'', ''font'', ''alt1''])],
      Decl ''fill'' [F (\<lambda>p. theme_at p [''colors'', ''font'', ''alt1''])],
      Decl ''position'' [S ''absolute''],
      Decl ''z-index'' [S ''1''],
      Decl ''top'' [S ''11.5px''],
      Decl ''left'' [S ''14.5px'']]]"

definition unnamed_8422 :: styled where
  "unnamed_8422 = Styled (Elem ''div'') [
    Decl ''display'' [S ''flex''],
    Decl ''align-items'' [S ''center''],
    Decl ''gap'' [S ''15px''],
    Decl ''flex-wrap'' [S ''wrap''],
    Decl ''flex-shrink'' [S ''0''],
    Rule [S ''@media (max-width: '', F (\<lambda>_. styling_at [''cutoffs'', ''initial'']), S '')''] [
      Decl ''width'' [S ''100%'']]]"

definition unnamed_8432 :: styled where
  "unnamed_8432 = Styled (Elem ''div'') [
    Decl ''width'' [S ''fit-content''],
    Decl ''padding'' [S ''4.5px 15px''],
    Decl ''display'' [S ''flex''],
    Decl ''align-items'' [S ''center''],
    Decl ''justify-content'' [S ''center''],
    Decl ''gap'' [S ''12.5px''],
    Decl ''height'' [F (\<lambda>_. styling_at [''dimensions'', ''action'', ''height''])],
    Decl ''background'' [F (\<lambda>p. theme_at p [''colors'', ''container'', ''alt1'', ''background''])],
    Decl ''border'' [S ''1px solid '', F (\<lambda>p. theme_at p [''colors'', ''border'', ''primary''])],
    Decl ''border-radius'' [F (\<lambda>_. styling_at [''dimensions'', ''radius'', ''primary''])],
    Rule [S ''span''] [
      Decl ''font-size'' [F (\<lambda>p. theme_at p [''typography'', ''size'', ''xxxSmall''])],
      Decl ''font-family'' [F (\<lambda>p. theme_at p [''typography'', ''family'', ''alt1''])],
      Decl ''font-weight'' [F (\<lambda>p. theme_at p [''typography'', ''weight'', ''medium''])],
      Decl ''color'' [F (\<lambda>p. theme_at p [''colors'', ''font'', ''primary''])],
      Decl ''text-align'' [S ''center''],
      Decl ''text-transform'' [S ''uppercase'']],
    Rule [S ''@media (max-width: '', F (\<lambda>_. styling_at [''cutoffs'', ''initial'']), S '')''] [
      Decl ''width'' [S ''100%''],
      Decl ''padding'' [S ''7.5px 15px'']]]"

definition unnamed_8456 :: styled where
  "unnamed_8456 = Styled (Elem ''div'') [
    Decl ''height'' [S ''10.5px''],
    Decl ''width'' [S ''10.5px''],
    Decl ''border-radius'' [F (\<lambda>_. styling_at [''dimensions'', ''radius'', ''circle''])],
    Decl ''animation'' [S ''pulse 1.075s infinite''],
    Rule [S ''@keyframes pulse''] [
      Rule [S ''0%, 100%''] [
        Decl ''background'' [F (\<lambda>p. theme_at p [''colors'', ''indicator'', ''active''])],
        Decl ''transform'' [S ''scale(1)'']],
      Rule [S ''50%''] [
        Decl ''background'' [F (\<lambda>p. theme_at p [''colors'', ''indicator'', ''primary''])],
        Decl ''transform'' [S ''scale(1.15)'']]]]"

definition unnamed_8723 :: styled where
  "unnamed_8723 = Styled (Elem ''div'') [
    Decl ''height'' [S ''100%''],
    Decl ''width'' [S ''100%'']]"

definition unnamed_8726 :: styled where
  "unnamed_8726 = Styled (Elem ''div'') [
    Decl ''width'' [S ''100%''],
    Decl ''display'' [S ''flex''],
    Decl ''gap'' [S ''20px''],
    Decl ''align-items'' [S ''center''],
    Decl ''justify-content'' [S ''space-between''],
    Decl ''overflow-x'' [S ''auto''],
    Rule [S ''@media (max-width: '', F (\<lambda>_. styling_at [''cutoffs'', ''secondary'']), S '')''] [
      Decl ''position'' [S ''relative''],
      Decl ''top'' [S ''auto'']]]"

definition unnamed_8737 :: styled where
  "unnamed_8737 = Styled (Elem ''div'') [
    Decl ''width'' [S ''100%''],
    Decl ''display'' [S ''flex''],
    Decl ''align-items'' [S ''center''],
    Decl ''gap'' [S ''20px'']]"

definition unnamed_8742 :: styled where
  "unnamed_8742 = Styled (Elem ''div'') [
    Decl ''display'' [S ''flex''],
    Decl ''justify-content'' [S ''center''],
    Decl ''align-items'' [S ''center''],
    Decl ''gap'' [S ''15px''],
    Decl ''flex'' [S ''1''],
    Rule [S ''button''] [
      Decl ''min-width'' [S ''160px''],
      Decl ''flex'' [S ''1'']]]"

definition unnamed_8753 :: styled where
  "unnamed_8753 = Styled (Elem ''div'') []"

definition unnamed_8753b :: styled where
  "unnamed_8753b = Styled (Elem ''div'') [
    Decl ''display'' [S ''flex''],
    Decl ''justify-content'' [S ''center''],
    Decl ''align-items'' [S ''center''],
    Decl ''position'' [S ''relative''],
    Decl ''flex'' [S ''1''],
    Rule [S ''button''] [
      Decl ''flex'' [S ''1'']]]"

definition unnamed_8763 :: styled where
  "unnamed_8763 = Styled (Elem ''div'') [
    Decl ''height'' [S ''100%''],
    Decl ''width'' [S ''100%''],
    Decl ''position'' [S ''relative''],
    Decl ''margin'' [S ''25px 0 0 0'']]"

definition unnamed_8776 :: styled where
  "unnamed_8776 = Styled (Elem ''div'') [
    Decl ''min-height'' [S ''500px''],
    Decl ''height'' [S ''calc(100vh - 145px)''],
    Decl ''width'' [S ''100%''],
    Decl ''position'' [S ''relative''],
    Decl ''display'' [S ''flex''],
    Decl ''gap'' [S ''15px''],
    Decl ''padding'' [F (\<lambda>p. ternary (prop_of p ''fullScreenMode'') (Inr (JStr ''15px'')) (Inr (JStr ''0'')))],
    Decl ''background'' [F (\<lambda>p. theme_at p [''colors'', ''view'', ''background''])],
    Rule [S ''@media (max-width: '', F (\<lambda>_. styling_at [''cutoffs'', ''initial'']), S '')''] [
      Decl ''flex-direction'' [S ''column'']]]"

section \<open>Soundness\<close>

definition unused_styles :: "styled list" where
  "unused_styles = [
    unnamed_2059, unnamed_2061, unnamed_2106, unnamed_2291, unnamed_2293,
    unnamed_2301, unnamed_2320, unnamed_2326, unnamed_2344, unnamed_2363,
    unnamed_2465, unnamed_2492, unnamed_2506, unnamed_2517, unnamed_2523,
    unnamed_2528, unnamed_2562, unnamed_2602, unnamed_2606, unnamed_2637,
    unnamed_2655, unnamed_2666, unnamed_2842, unnamed_2887, unnamed_3219,
    unnamed_3240, unnamed_4051, unnamed_4069, unnamed_4129, unnamed_4195,
    unnamed_4197, unnamed_8266, unnamed_8297, unnamed_8320, unnamed_8376,
    unnamed_8383, unnamed_8422, unnamed_8432, unnamed_8723, unnamed_8726,
    unnamed_8737, unnamed_8742, unnamed_8753, unnamed_8753b, unnamed_8763,
    unnamed_8776]"

lemmas unused_styles_defs =
  unnamed_2059_def unnamed_2061_def unnamed_2106_def unnamed_2291_def
  unnamed_2293_def unnamed_2301_def unnamed_2320_def unnamed_2326_def
  unnamed_2344_def unnamed_2363_def unnamed_2465_def unnamed_2492_def
  unnamed_2506_def unnamed_2517_def unnamed_2523_def unnamed_2528_def
  unnamed_2562_def unnamed_2602_def unnamed_2606_def unnamed_2637_def
  unnamed_2655_def unnamed_2666_def unnamed_2842_def unnamed_2887_def
  unnamed_3219_def unnamed_3240_def unnamed_4051_def unnamed_4069_def
  unnamed_4129_def unnamed_4195_def unnamed_4197_def unnamed_8266_def
  unnamed_8297_def unnamed_8320_def unnamed_8376_def unnamed_8383_def
  unnamed_8422_def unnamed_8432_def unnamed_8723_def unnamed_8726_def
  unnamed_8737_def unnamed_8742_def unnamed_8753_def unnamed_8753b_def
  unnamed_8763_def unnamed_8776_def

definition unused_styles_gaps :: "styled list" where
  "unused_styles_gaps = [unnamed_3595, unnamed_3621, unnamed_8456]"

lemmas unused_styles_gap_defs =
  unnamed_3595_def unnamed_3621_def unnamed_8456_def

lemma unused_styles_run:
  assumes "sized a"
  shows "list_all (runs (themed pal a)) unused_styles"
  using assms by (elim sizedE)
    (simp add: unused_styles_def unused_styles_defs theme_lookups missing_lookups no_throw_if)

lemma unused_styles_resolve:
  assumes "given a"
  shows "list_all (resolves (themed pal a)) unused_styles"
  using given_sized [OF assms] by (elim sizedE)
    (simp add: unused_styles_def unused_styles_defs theme_lookups missing_lookups no_throw_if resolved_if
      given_simps [OF assms])

lemma unused_styles_gaps_run: "sized a \<Longrightarrow> list_all (runs (themed pal a)) unused_styles_gaps"
  by (elim sizedE) (simp add: unused_styles_gaps_def unused_styles_gap_defs theme_lookups missing_lookups no_throw_if)

lemma unused_styles_gaps_open: "list_all (\<lambda>s. \<not> resolves (themed pal a) s) unused_styles_gaps"
  by (simp add: unused_styles_gaps_def unused_styles_gap_defs theme_lookups missing_lookups ternary_def)

end
