(* ===== verification/Styles_Unused_Tables.thy ===== *)
theory Styles_Unused_Tables
  imports Styles_Links Styles_Explorer
begin

text \<open>
  Styled components of the bundle that no variable keeps (the build removed the
  variable, but the template is still evaluated): \<open>bundle.js\<close>, lines 8801 to 9408. Each is
  named after the line of its template.
\<close>

section \<open>Templates\<close>

definition unnamed_8801 :: styled where
  "unnamed_8801 = Styled (Extends ActionsWrapper) [
    Decl ''bottom'' [S ''20px''],
    Decl ''right'' [S ''27.5px''],
    Decl ''bottom'' [F (\<lambda>p. ternary (prop_of p ''fullScreenMode'') (Inr (JStr ''30px'')) (Inr (JStr ''20px'')))],
    Decl ''right'' [F (\<lambda>p. ternary (prop_of p ''fullScreenMode'') (Inr (JStr ''42.5px'')) (Inr (JStr ''27.5px'')))]]"

definition unnamed_8806 :: styled where
  "unnamed_8806 = Styled (Elem ''div'') [
    Decl ''width'' [F (\<lambda>p. ternary (prop_of p ''editorMode'') (Inr (JStr ''50%'')) (Inr (JStr ''100%'')))],
    Decl ''display'' [S ''flex''],
    Decl ''gap'' [S ''15px''],
    Decl ''flex-direction'' [F (\<lambda>p. ternary (prop_of p ''editorMode'') (Inr (JStr ''column'')) (Inr (JStr ''row'')))],
    Decl ''position'' [S ''relative''],
    Rule [S ''@media (max-width: '', F (\<lambda>_. styling_at [''cutoffs'', ''initial'']), S '')''] [
      Decl ''flex-direction'' [S ''column'']]]"

definition unnamed_8816 :: styled where
  "unnamed_8816 = Styled (Elem ''div'') [
    Decl ''height'' [F (\<lambda>p. ternary (prop_of p ''editorMode'') (Inr (JStr ''1px'')) (Inr (JStr ''100%'')))],
    Decl ''width'' [F (\<lambda>p. ternary (prop_of p ''editorMode'') (Inr (JStr ''100%'')) (Inr (JStr ''1px'')))],
    Decl ''border-top'' [S ''1px solid '', F (\<lambda>p. ternary (prop_of p ''editorMode'') (theme_at p [''colors'', ''border'', ''primary'']) (Inr (JStr ''transparent'')))],
    Decl ''border-left'' [S ''1px solid '', F (\<lambda>p. ternary (prop_of p ''editorMode'') (Inr (JStr ''transparent'')) (theme_at p [''colors'', ''border'', ''primary'']))],
    Rule [S ''@media (max-width: '', F (\<lambda>_. styling_at [''cutoffs'', ''initial'']), S '')''] [
      Decl ''height'' [S ''1px''],
      Decl ''width'' [S ''100%''],
      Decl ''border-top'' [S ''1px solid '', F (\<lambda>p. theme_at p [''colors'', ''border'', ''primary''])],
      Decl ''border-left'' [S ''1px solid transparent'']]]"

definition unnamed_8828 :: styled where
  "unnamed_8828 = Styled (Elem ''div'') [
    Decl ''height'' [S ''100%''],
    Decl ''flex'' [S ''1''],
    Rule [S ''.terminal''] [
      Decl ''height'' [S ''100% !important''],
      Decl ''overflow'' [S ''hidden !important''],
      Decl ''padding'' [S ''15px''],
      Rule [S ''span''] [
        Decl ''letter-spacing'' [S ''0 !important'']]],
    Rule [S ''.xterm-rows''] [
      Decl ''height'' [S ''100% !important''],
      Decl ''overflow'' [S ''hidden !important''],
      Decl ''letter-spacing'' [S ''0'']],
    Rule [S ''.xterm-screen''] [
      Decl ''height'' [S ''100% !important''],
      Decl ''width'' [S ''100% !important'']],
    Rule [S ''@media (max-width: '', F (\<lambda>_. styling_at [''cutoffs'', ''initial'']), S '')''] [
      Decl ''width'' [S ''100%'']]]"

definition unnamed_8855 :: styled where
  "unnamed_8855 = Styled (Elem ''div'') [
    Decl ''height'' [S ''100%''],
    Decl ''width'' [S ''50%''],
    Decl ''position'' [S ''relative''],
    Rule [S ''@media (max-width: '', F (\<lambda>_. styling_at [''cutoffs'', ''initial'']), S '')''] [
      Decl ''width'' [S ''100%'']]]"

definition unnamed_8863 :: styled where
  "unnamed_8863 = Styled (Elem ''div'') [
    Decl ''height'' [S ''fit-content''],
    Decl ''max-height'' [S ''calc(100% - 130px)''],
    Decl ''width'' [S ''450px''],
    Decl ''max-width'' [S ''90vw''],
    Decl ''display'' [S ''flex''],
    Decl ''flex-direction'' [S ''column''],
    Decl ''gap'' [S ''15px''],
    Decl ''margin'' [S ''0 auto''],
    Decl ''position'' [S ''relative''],
    Decl ''top'' [S ''20px''],
    Decl ''padding'' [S ''20px 15px 20px 30px''],
    Decl ''overflow'' [S ''scroll''],
    Decl ''border-radius'' [F (\<lambda>_. styling_at [''dimensions'', ''radius'', ''primary'']), S '' !important'']]"

definition unnamed_8877 :: styled where
  "unnamed_8877 = Styled (Elem ''div'') [
    Decl ''display'' [S ''flex''],
    Decl ''align-items'' [S ''center''],
    Decl ''justify-content'' [S ''space-between''],
    Rule [S ''p''] [
      Decl ''font-size'' [F (\<lambda>p. theme_at p [''typography'', ''size'', ''xxSmall''])],
      Decl ''font-family'' [F (\<lambda>p. theme_at p [''typography'', ''family'', ''primary''])],
      Decl ''font-weight'' [F (\<lambda>p. theme_at p [''typography'', ''weight'', ''medium''])],
      Decl ''color'' [F (\<lambda>p. theme_at p [''colors'', ''font'', ''alt1''])],
      Decl ''text-transform'' [S ''uppercase'']],
    Rule [S ''span''] [
      Decl ''font-size'' [F (\<lambda>p. theme_at p [''typography'', ''size'', ''xxSmall''])],
      Decl ''font-family'' [F (\<lambda>p. theme_at p [''typography'', ''family'', ''primary''])],
      Decl ''font-weight'' [F (\<lambda>p. theme_at p [''typography'', ''weight'', ''bold''])],
      Decl ''color'' [F (\<lambda>p. theme_at p [''colors'', ''font'', ''alt1''])]]]"

definition unnamed_8894 :: styled where
  "unnamed_8894 = Styled (Elem ''div'') [
    Decl ''margin'' [S ''0 0 15px 0'']]"

definition unnamed_8896 :: styled where
  "unnamed_8896 = Styled (Elem ''div'') [
    Decl ''height'' [S ''1px''],
    Decl ''width'' [S ''100%''],
    Decl ''border-top'' [S ''1px solid '', F (\<lambda>p. theme_at p [''colors'', ''border'', ''primary''])]]"

definition unnamed_8900 :: styled where
  "unnamed_8900 = Styled (Elem ''div'') [
    Decl ''display'' [S ''flex''],
    Decl ''flex-direction'' [S ''column''],
    Decl ''gap'' [S ''15px''],
    Rule [S ''button''] [
      Decl ''border-radius'' [F (\<lambda>_. styling_at [''dimensions'', ''radius'', ''primary'']), S '' !important'']]]"

definition unnamed_8908 :: styled where
  "unnamed_8908 = Styled (Elem ''div'') [
    Decl ''display'' [S ''flex''],
    Decl ''align-items'' [S ''center''],
    Decl ''justify-content'' [S ''space-between'']]"

definition unnamed_8912 :: styled where
  "unnamed_8912 = Styled (Elem ''div'') [
    Decl ''position'' [S ''relative'']]"

definition unnamed_8914 :: styled where
  "unnamed_8914 = Styled (Elem ''div'') [
    Decl ''position'' [S ''absolute''],
    Decl ''bottom'' [S ''0''],
    Decl ''right'' [S ''20px'']]"

definition unnamed_8918 :: styled where
  "unnamed_8918 = Styled (Elem ''div'') [
    Decl ''height'' [S ''100%''],
    Decl ''width'' [S ''100%''],
    Decl ''display'' [S ''flex''],
    Decl ''flex-direction'' [S ''column''],
    Decl ''gap'' [S ''20px'']]"

definition unnamed_8924 :: styled where
  "unnamed_8924 = Styled (Elem ''div'') [
    Decl ''height'' [S ''100%''],
    Decl ''width'' [S ''100%''],
    Decl ''display'' [S ''flex''],
    Decl ''align-items'' [S ''flex-start''],
    Decl ''position'' [S ''relative'']]"

definition unnamed_8930 :: styled where
  "unnamed_8930 = Styled (Elem ''div'') [
    Decl ''height'' [S ''100%''],
    Decl ''width'' [S ''100%''],
    Decl ''flex'' [S ''1''],
    Decl ''position'' [S ''relative''],
    Decl ''padding'' [S ''15px 0 0 0''],
    Decl ''background'' [F (\<lambda>p. theme_at p [''colors'', ''container'', ''alt1'', ''background''])],
    Rule [S ''> div''] [
      Decl ''height'' [S ''100% !important''],
      Decl ''background'' [F (\<lambda>p. theme_at p [''colors'', ''container'', ''alt1'', ''background'']), S '' !important'']],
    Rule [S ''> *''] [
      Decl ''font-family'' [F (\<lambda>p. theme_at p [''typography'', ''family'', ''alt2'']), S '' !important'']]]"

definition unnamed_8946 :: styled where
  "unnamed_8946 = Styled (Elem ''div'') [
    Decl ''width'' [S ''fit-content''],
    Decl ''display'' [S ''flex''],
    Decl ''align-items'' [S ''center''],
    Decl ''gap'' [S ''20px''],
    Decl ''position'' [S ''absolute''],
    Decl ''bottom'' [S ''20px''],
    Decl ''right'' [S ''20px'']]"

definition unnamed_8954 :: styled where
  "unnamed_8954 = Styled (Elem ''div'') [
    Rule [S ''span''] [
      Decl ''color'' [F (\<lambda>p. theme_at p [''colors'', ''warning'', ''primary''])],
      Decl ''font-family'' [F (\<lambda>p. theme_at p [''typography'', ''family'', ''primary''])],
      Decl ''font-weight'' [F (\<lambda>p. theme_at p [''typography'', ''weight'', ''bold''])],
      Decl ''font-size'' [F (\<lambda>p. theme_at p [''typography'', ''size'', ''xxSmall''])]]]"

definition unnamed_8961 :: styled where
  "unnamed_8961 = Styled (Elem ''div'') [
    Decl ''height'' [S ''calc(100vh - 275px)''],
    Decl ''width'' [S ''100%''],
    Decl ''display'' [S ''flex''],
    Decl ''gap'' [S ''25px''],
    Rule [S ''@media (max-width: '', F (\<lambda>_. styling_at [''cutoffs'', ''initial'']), S '')''] [
      Decl ''flex-direction'' [S ''column'']]]"

definition unnamed_8970 :: styled where
  "unnamed_8970 = Styled (Elem ''div'') [
    Decl ''height'' [S ''100%''],
    Decl ''flex'' [S ''1'']]"

definition unnamed_8973 :: styled where
  "unnamed_8973 = Styled (Elem ''div'') [
    Decl ''height'' [S ''100%''],
    Decl ''flex'' [S ''1''],
    Rule [S ''> *''] [
      Rule [S ''&:first-child''] [
        Decl ''height'' [S ''100%''],
        Decl ''overflow'' [S ''auto'']]]]"

definition unnamed_8983 :: styled where
  "unnamed_8983 = Styled (Elem ''div'') [
    Decl ''height'' [S ''calc(100vh - 195px)''],
    Decl ''width'' [S ''100%''],
    Decl ''scroll-margin-top'' [S ''120px'']]"

definition unnamed_8987 :: styled where
  "unnamed_8987 = Styled (Elem ''div'') [
    Decl ''scroll-margin-top'' [S ''80px'']]"

definition unnamed_8989 :: styled where
  "unnamed_8989 = Styled (Elem ''div'') [
    Decl ''padding'' [S ''15px''],
    Decl ''margin'' [S ''0''],
    Decl ''display'' [S ''flex''],
    Decl ''flex-wrap'' [S ''wrap''],
    Decl ''align-items'' [S ''center''],
    Decl ''justify-content'' [S ''space-between''],
    Decl ''gap'' [S ''20px''],
    Decl ''background'' [F (\<lambda>p. theme_at p [''colors'', ''container'', ''primary'', ''background''])],
    Decl ''border-top'' [S ''1px solid '', F (\<lambda>p. theme_at p [''colors'', ''border'', ''primary''])],
    Decl ''border-right'' [S ''1px solid '', F (\<lambda>p. theme_at p [''colors'', ''border'', ''primary''])],
    Decl ''border-left'' [S ''1px solid '', F (\<lambda>p. theme_at p [''colors'', ''border'', ''primary''])],
    Decl ''border-top-right-radius'' [F (\<lambda>_. styling_at [''dimensions'', ''radius'', ''primary''])],
    Decl ''border-top-left-radius'' [F (\<lambda>_. styling_at [''dimensions'', ''radius'', ''primary''])]]"

definition unnamed_9003 :: styled where
  "unnamed_9003 = Styled (Elem ''div'') [
    Decl ''display'' [S ''flex''],
    Decl ''align-items'' [S ''center''],
    Decl ''flex-wrap'' [S ''wrap''],
    Decl ''gap'' [S ''25px''],
    Rule [S ''p''] [
      Decl ''font-size'' [F (\<lambda>p. theme_at p [''typography'', ''size'', ''lg''])],
      Decl ''font-family'' [F (\<lambda>p. theme_at p [''typography'', ''family'', ''primary''])],
      Decl ''font-weight'' [F (\<lambda>p. theme_at p [''typography'', ''weight'', ''bold''])],
      Decl ''color'' [F (\<lambda>p. theme_at p [''colors'', ''font'', ''primary''])],
      Decl ''display'' [S ''flex''],
      Decl ''align-items'' [S ''center''],
      Decl ''gap'' [S ''7.5px''],
      Rule [S ''span''] [
        Decl ''font-size'' [F (\<lambda>p. theme_at p [''typography'', ''size'', ''base''])],
        Decl ''font-family'' [F (\<lambda>p. theme_at p [''typography'', ''family'', ''primary''])],
        Decl ''font-weight'' [F (\<lambda>p. theme_at p [''typography'', ''weight'', ''bold''])],
        Decl ''color'' [F (\<lambda>p. theme_at p [''colors'', ''font'', ''alt1''])]]],
    Rule [S ''.update-wrapper''] [
      Decl ''padding'' [S ''2.5px 25px'']],
    Rule [S ''.loader''] [
      Rule [S ''> div''] [
        Decl ''height'' [S ''fit-content''],
        Decl ''width'' [S ''fit-content'']]]]"

definition unnamed_9036 :: styled where
  "unnamed_9036 = Styled (Elem ''div'') [
    Decl ''display'' [S ''flex''],
    Decl ''align-items'' [S ''center''],
    Decl ''flex-wrap'' [S ''wrap''],
    Decl ''gap'' [S ''12.5px'']]"

definition unnamed_9041 :: styled where
  "unnamed_9041 = Styled (Elem ''div'') [
    Decl ''position'' [S ''relative''],
    Decl ''display'' [S ''flex''],
    Decl ''align-items'' [S ''center''],
    Decl ''gap'' [S ''12.5px'']]"

definition unnamed_9046 :: styled where
  "unnamed_9046 = Styled (Elem ''div'') [
    Decl ''display'' [S ''flex''],
    Decl ''flex-direction'' [S ''column''],
    Decl ''gap'' [S ''12.5px''],
    Decl ''padding'' [S ''0 15px 25px 15px'']]"

definition unnamed_9051 :: styled where
  "unnamed_9051 = Styled (Elem ''div'') [
    Rule [S ''p''] [
      Decl ''color'' [F (\<lambda>p. theme_at p [''colors'', ''font'', ''alt1''])],
      Decl ''font-size'' [F (\<lambda>p. theme_at p [''typography'', ''size'', ''xxSmall'']), S '' !important''],
      Decl ''font-weight'' [F (\<lambda>p. theme_at p [''typography'', ''weight'', ''medium'']), S '' !important''],
      Decl ''font-family'' [F (\<lambda>p. theme_at p [''typography'', ''family'', ''primary'']), S '' !important''],
      Decl ''text-transform'' [S ''uppercase'']]]"

definition unnamed_9059 :: styled where
  "unnamed_9059 = Styled (Elem ''div'') [
    Decl ''height'' [S ''1px''],
    Decl ''width'' [S ''100%''],
    Decl ''margin'' [S ''15px 0''],
    Decl ''border-top'' [S ''1px solid '', F (\<lambda>p. theme_at p [''colors'', ''border'', ''primary''])]]"

definition unnamed_9064 :: styled where
  "unnamed_9064 = Styled (Elem ''div'') [
    Decl ''width'' [S ''100%''],
    Decl ''display'' [S ''flex''],
    Decl ''flex-direction'' [S ''column''],
    Decl ''gap'' [S ''15px''],
    Rule [S ''button''] [
      Decl ''border-radius'' [F (\<lambda>_. styling_at [''dimensions'', ''radius'', ''primary'']), S '' !important'']]]"

definition unnamed_9073 :: styled where
  "unnamed_9073 = Styled (Elem ''div'') [
    Decl ''margin'' [S ''15px 0 0 0'']]"

definition unnamed_9075 :: styled where
  "unnamed_9075 = Styled (Elem ''div'') [
    Decl ''height'' [S ''20px''],
    Decl ''width'' [S ''1px''],
    Decl ''border-right'' [S ''1px solid '', F (\<lambda>p. theme_at p [''colors'', ''border'', ''primary''])],
    Rule [S ''@media (max-width: '', F (\<lambda>_. styling_at [''cutoffs'', ''initial'']), S '')''] [
      Decl ''display'' [S ''none'']]]"

definition unnamed_9083 :: styled where
  "unnamed_9083 = Styled (Elem ''div'') [
    Decl ''width'' [S ''100%''],
    Decl ''overflow'' [S ''auto''],
    Decl ''background'' [F (\<lambda>p. ternary (prop_of p ''childList'') (theme_at p [''colors'', ''container'', ''alt2'', ''background'']) (theme_at p [''colors'', ''container'', ''primary'', ''background'']))]]"

definition unnamed_9087 :: styled where
  "unnamed_9087 = Styled (Elem ''div'') [
    Decl ''height'' [S ''40px''],
    Decl ''min-width'' [S ''100%''],
    Decl ''width'' [S ''fit-content''],
    Decl ''display'' [S ''flex''],
    Decl ''align-items'' [S ''center''],
    Decl ''justify-content'' [S ''space-between''],
    Decl ''gap'' [S ''15px''],
    Decl ''padding'' [S ''0 15px''],
    Decl ''border'' [S ''1px solid '', F (\<lambda>p. theme_at p [''colors'', ''border'', ''primary''])],
    Decl ''background'' [F (\<lambda>p. theme_at p [''colors'', ''container'', ''alt1'', ''background''])],
    Rule [S ''div, p''] [
      Decl ''font-size'' [F (\<lambda>p. theme_at p [''typography'', ''size'', ''xSmall''])],
      Decl ''font-family'' [F (\<lambda>p. theme_at p [''typography'', ''family'', ''primary''])],
      Decl ''font-weight'' [F (\<lambda>p. theme_at p [''typography'', ''weight'', ''bold''])],
      Decl ''color'' [F (\<lambda>p. theme_at p [''colors'', ''font'', ''alt1''])]],
    Rule [S ''>''] [
      Rule [S ''&:last-child, &:nth-child(3)''] [
        Decl ''display'' [S ''flex''],
        Decl ''justify-content'' [S ''flex-end''],
        Decl ''text-align'' [S ''right'']]]]"

definition unnamed_9115 :: styled where
  "unnamed_9115 = Styled (Elem ''div'') [
    Decl ''width'' [S ''100%''],
    Rule [S ''> *:last-child''] [
      Decl ''border-bottom'' [S ''1px solid '', F (\<lambda>p. ternary (js_and (prop_of p ''childList'') (js_not (prop_of p ''isOverallLast''))) (theme_at p [''colors'', ''border'', ''alt4'']) (theme_at p [''colors'', ''border'', ''primary''])), S '' !important'']],
    Rule [S ''.message-list-element''] [
      Decl ''border-left'' [S ''1px solid '', F (\<lambda>p. ternary (prop_of p ''childList'') (theme_at p [''colors'', ''border'', ''alt4'']) (theme_at p [''colors'', ''border'', ''primary'']))],
      Decl ''border-right'' [S ''1px solid '', F (\<lambda>p. ternary (prop_of p ''childList'') (theme_at p [''colors'', ''border'', ''alt4'']) (theme_at p [''colors'', ''border'', ''primary'']))],
      Decl ''border-bottom'' [S ''1px solid '', F (\<lambda>p. theme_at p [''colors'', ''border'', ''primary''])]]]"

definition unnamed_9130 :: styled where
  "unnamed_9130 = Styled (Elem ''div'') [
    Decl ''height'' [S ''42.5px''],
    Decl ''min-width'' [S ''100%''],
    Decl ''width'' [S ''fit-content''],
    Decl ''position'' [S ''relative''],
    Decl ''display'' [S ''flex''],
    Decl ''align-items'' [S ''center''],
    Decl ''justify-content'' [S ''space-between''],
    Decl ''gap'' [S ''15px''],
    Decl ''padding'' [S ''0 15px''],
    Decl ''cursor'' [F (\<lambda>p. ternary (prop_of p ''disabled'') (Inr (JStr ''default'')) (Inr (JStr ''pointer'')))],
    Decl ''background'' [F (\<lambda>p. comma (prop_of p ''disabled'') (theme_at p [''colors'', ''container'', ''primary'', ''background'']))],
    Rule [S ''p''] [
      Decl ''font-size'' [F (\<lambda>p. theme_at p [''typography'', ''size'', ''xSmall''])],
      Decl ''font-family'' [F (\<lambda>p. theme_at p [''typography'', ''family'', ''primary''])],
      Decl ''font-weight'' [F (\<lambda>p. theme_at p [''typography'', ''weight'', ''bold''])],
      Decl ''color'' [F (\<lambda>p. theme_at p [''colors'', ''font'', ''primary''])],
      Decl ''white-space'' [S ''nowrap''],
      Decl ''overflow'' [S ''hidden''],
      Decl ''text-overflow'' [S ''ellipsis'']],
    Rule [S ''&:hover''] [
      Decl ''background'' [F (\<lambda>p. ternary (prop_of p ''disabled'') (theme_at p [''colors'', ''container'', ''primary'', ''background'']) (theme_at p [''colors'', ''container'', ''primary'', ''active'']))],
      Mixin (\<lambda>p. js_and (js_not (prop_of p ''disabled'')) (tmpl [Inr (JStr '' border-left: 1px solid ''), theme_at p [''colors'', ''border'', ''alt4''], Inr (JStr '' !important; border-right: 1px solid ''), theme_at p [''colors'', ''border'', ''alt4''], Inr (JStr '' !important; border-bottom: 1px solid ''), theme_at p [''colors'', ''border'', ''alt4''], Inr (JStr '' !important; '')]))],
    Rule [S ''&:hover::after''] [
      Decl ''content'' [F (\<lambda>p. ternary (prop_of p ''disabled'') (Inr (JStr ''none'')) (Inr (JStr [CHR 0x27, CHR 0x27])))],
      Decl ''position'' [S ''absolute''],
      Decl ''height'' [S ''1px''],
      Decl ''width'' [S ''calc(100% + 2px)''],
      Decl ''top'' [S ''-1px''],
      Decl ''left'' [S ''-1px''],
      Decl ''right'' [S ''0''],
      Decl ''bottom'' [S ''0''],
      Decl ''border-top'' [S ''1px solid '', F (\<lambda>p. theme_at p [''colors'', ''border'', ''alt4''])],
      Decl ''transition'' [S ''all 100ms'']],
    Mixin (\<lambda>p. js_and (prop_of p ''open'') (css_tmpl [Inr (JStr '' border-left: 1px solid ''), theme_at p [''colors'', ''border'', ''alt4''], Inr (JStr '' !important; border-right: 1px solid ''), theme_at p [''colors'', ''border'', ''alt4''], Inr (JStr '' !important; border-bottom: 1px solid ''), theme_at p [''colors'', ''border'', ''alt4''], Inr (JStr '' !important; background: ''), theme_at p [''colors'', ''container'', ''primary'', ''active''], Inr (JStr (''; &::after { content: '' @ [CHR 0x27, CHR 0x27] @ ''; position: absolute; height: 1px; width: calc(100% + 2px); top: -1px; left: -1px; right: 0; bottom: 0; border-top: 1px solid '')), theme_at p [''colors'', ''border'', ''alt4''], Inr (JStr ''; transition: all 100ms; } '')]))]"

definition unnamed_9198 :: styled where
  "unnamed_9198 = Styled (Extends ElementItem) [
    Decl ''min-width'' [S ''185px''],
    Decl ''width'' [S ''185px''],
    Decl ''display'' [S ''flex''],
    Decl ''align-items'' [S ''center''],
    Decl ''gap'' [S ''12.5px'']]"

definition unnamed_9204 :: styled where
  "unnamed_9204 = Styled (Extends ElementItem) [
    Decl ''min-width'' [S ''65px''],
    Decl ''width'' [S ''65px''],
    Decl ''display'' [S ''flex''],
    Decl ''align-items'' [S ''center''],
    Decl ''gap'' [S ''12.5px''],
    Rule [S ''p''] [
      Decl ''font-size'' [F (\<lambda>p. theme_at p [''typography'', ''size'', ''xSmall''])],
      Decl ''font-family'' [F (\<lambda>p. theme_at p [''typography'', ''family'', ''primary''])],
      Decl ''font-weight'' [F (\<lambda>p. theme_at p [''typography'', ''weight'', ''bold''])],
      Decl ''color'' [F (\<lambda>p. theme_at p [''colors'', ''font'', ''alt1''])],
      Decl ''white-space'' [S ''nowrap''],
      Decl ''overflow'' [S ''hidden''],
      Decl ''text-overflow'' [S ''ellipsis'']]]"

definition unnamed_9220 :: styled where
  "unnamed_9220 = Styled (Elem ''div'') [
    Rule [S ''p''] [
      Decl ''background'' [F (\<lambda>p. theme_at p [''colors'', ''button'', ''primary'', ''background''])],
      Decl ''border'' [S ''1px solid '', F (\<lambda>p. theme_at p [''colors'', ''button'', ''primary'', ''border''])],
      Decl ''border-radius'' [F (\<lambda>_. styling_at [''dimensions'', ''radius'', ''primary''])],
      Decl ''font-size'' [F (\<lambda>p. theme_at p [''typography'', ''size'', ''xxxSmall''])],
      Decl ''font-family'' [F (\<lambda>p. theme_at p [''typography'', ''family'', ''primary''])],
      Decl ''font-weight'' [F (\<lambda>p. theme_at p [''typography'', ''weight'', ''bold''])],
      Decl ''color'' [F (\<lambda>p. theme_at p [''colors'', ''font'', ''primary''])],
      Decl ''padding'' [S ''0.5px 10px 1px 10px''],
      Decl ''min-width'' [S ''40px''],
      Decl ''text-align'' [S ''center'']]]"

definition unnamed_9248 :: styled where
  "unnamed_9248 = Styled (Extends Action) [
    Decl ''min-width'' [F (\<lambda>p. ternary (prop_of p ''noMinWidth'') (Inr (JStr ''0'')) (Inr (JStr ''200px'')))],
    Decl ''width'' [F (\<lambda>p. ternary (prop_of p ''noMinWidth'') (Inr (JStr ''fit-content'')) (Inr (JStr ''200px'')))],
    Decl ''position'' [S ''relative''],
    Rule [S ''.action-indicator''] [
      Decl ''position'' [S ''relative''],
      Decl ''width'' [F (\<lambda>p. ternary (prop_of p ''useMaxWidth'') (Inr (JStr ''105px'')) (Inr (JStr ''fit-content'')))],
      Decl ''display'' [S ''flex''],
      Decl ''justify-content'' [S ''center''],
      Decl ''align-items'' [S ''center''],
      Decl ''padding'' [S ''2.15px 7.5px''],
      Decl ''background'' [F (\<lambda>p. ternary (prop_of p ''background'') (prop_of p ''background'') (theme_at p [''colors'', ''container'', ''alt8'', ''background'']))],
      Decl ''border-radius'' [F (\<lambda>_. styling_at [''dimensions'', ''radius'', ''primary''])],
      Rule [S ''&:hover''] [
        Rule [C ''ActionTooltip''] [
          Decl ''display'' [S ''block'']]]],
    Rule [S ''p''] [
      Decl ''max-width'' [S ''100%''],
      Decl ''color'' [F (\<lambda>p. theme_at p [''colors'', ''font'', ''light1'']), S '' !important''],
      Decl ''font-size'' [F (\<lambda>p. theme_at p [''typography'', ''size'', ''xxSmall'']), S '' !important''],
      Decl ''font-weight'' [F (\<lambda>p. theme_at p [''typography'', ''weight'', ''bold'']), S '' !important''],
      Decl ''text-align'' [S ''center''],
      Decl ''white-space'' [S ''nowrap''],
      Decl ''overflow'' [S ''hidden''],
      Decl ''text-overflow'' [S ''ellipsis''],
      Decl ''white-space'' [S ''nowrap'']]]"

definition unnamed_9281 :: styled where
  "unnamed_9281 = Styled (Extends ElementItem) [
    Decl ''min-width'' [S ''150px''],
    Decl ''width'' [S ''150px''],
    Decl ''justify-content'' [S ''flex-end''],
    Rule [S ''p''] [
      Decl ''text-align'' [S ''right'']]]"

definition unnamed_9288 :: styled where
  "unnamed_9288 = Styled (Extends ElementItem) [
    Decl ''min-width'' [S ''150px''],
    Decl ''width'' [S ''150px''],
    Decl ''justify-content'' [S ''flex-end''],
    Rule [S ''p''] [
      Decl ''text-align'' [S ''right'']]]"

definition unnamed_9295 :: styled where
  "unnamed_9295 = Styled (Extends ElementItem) [
    Decl ''min-width'' [S ''75px''],
    Decl ''width'' [S ''75px''],
    Decl ''justify-content'' [S ''center''],
    Rule [S ''p''] [
      Decl ''text-align'' [S ''right'']],
    Rule [S ''button''] [
      Decl ''padding'' [S ''4.5px 12.5px !important'']]]"

definition unnamed_9307 :: styled where
  "unnamed_9307 = Styled (Extends ElementItem) [
    Decl ''min-width'' [S ''75px''],
    Decl ''width'' [S ''75px''],
    Decl ''justify-content'' [S ''center''],
    Rule [S ''p''] [
      Decl ''text-align'' [S ''right'']],
    Rule [S ''button''] [
      Decl ''padding'' [S ''4.5px 12.5px !important'']]]"

definition unnamed_9319 :: styled where
  "unnamed_9319 = Styled (Extends ElementItem) [
    Decl ''min-width'' [S ''75px''],
    Decl ''width'' [S ''75px''],
    Decl ''justify-content'' [S ''center''],
    Rule [S ''p''] [
      Decl ''text-align'' [S ''right'']],
    Rule [S ''button''] [
      Decl ''padding'' [S ''4.5px 12.5px !important'']]]"

definition unnamed_9331 :: styled where
  "unnamed_9331 = Styled (Extends ElementItem) [
    Decl ''min-width'' [S ''115px''],
    Decl ''width'' [S ''115px''],
    Decl ''justify-content'' [S ''flex-end''],
    Rule [S ''p''] [
      Decl ''text-align'' [S ''right'']]]"

definition unnamed_9338 :: styled where
  "unnamed_9338 = Styled (Extends ElementItem) [
    Decl ''min-width'' [S ''65px''],
    Decl ''width'' [S ''65px''],
    Decl ''justify-content'' [S ''flex-end''],
    Rule [S ''svg''] [
      Decl ''height'' [S ''15px''],
      Decl ''width'' [S ''15px''],
      Decl ''margin'' [S ''3.5px 0 0 0''],
      Decl ''transform'' [S ''rotate('', F (\<lambda>p. ternary (prop_of p ''open'') (Inr (JStr ''180deg'')) (Inr (JStr ''0deg''))), S '')''],
      Decl ''transition'' [S ''transform 0.15s ease-in-out'']]]"

definition unnamed_9349 :: styled where
  "unnamed_9349 = Styled (Elem ''div'') [
    Decl ''display'' [S ''flex''],
    Decl ''flex-direction'' [S ''column''],
    Decl ''gap'' [S ''15px''],
    Decl ''padding'' [S ''0 20px 20px 20px'']]"

definition unnamed_9354 :: styled where
  "unnamed_9354 = Styled (Elem ''div'') [
    Decl ''display'' [S ''flex''],
    Decl ''flex-direction'' [S ''column''],
    Decl ''gap'' [S ''15px''],
    Decl ''padding'' [S ''15px'']]"

definition unnamed_9359 :: styled where
  "unnamed_9359 = Styled (Elem ''div'') [
    Decl ''display'' [S ''flex''],
    Decl ''justify-content'' [S ''space-between''],
    Rule [S ''p''] [
      Decl ''font-size'' [F (\<lambda>p. theme_at p [''typography'', ''size'', ''small''])],
      Decl ''font-family'' [F (\<lambda>p. theme_at p [''typography'', ''family'', ''primary''])],
      Decl ''font-weight'' [F (\<lambda>p. theme_at p [''typography'', ''weight'', ''bold''])],
      Decl ''color'' [F (\<lambda>p. theme_at p [''colors'', ''font'', ''primary''])]],
    Rule [S ''span''] [
      Decl ''font-size'' [F (\<lambda>p. theme_at p [''typography'', ''size'', ''xSmall''])],
      Decl ''font-family'' [F (\<lambda>p. theme_at p [''typography'', ''family'', ''primary''])],
      Decl ''font-weight'' [F (\<lambda>p. theme_at p [''typography'', ''weight'', ''bold''])],
      Decl ''color'' [F (\<lambda>p. theme_at p [''colors'', ''font'', ''alt1''])]]]"

definition unnamed_9374 :: styled where
  "unnamed_9374 = Styled (Elem ''div'') [
    Decl ''display'' [S ''flex''],
    Decl ''align-items'' [S ''center''],
    Decl ''justify-content'' [S ''space-between''],
    Rule [S ''p, span''] [
      Decl ''font-size'' [F (\<lambda>p. theme_at p [''typography'', ''size'', ''xSmall''])]],
    Rule [S ''p''] [
      Decl ''color'' [F (\<lambda>p. theme_at p [''colors'', ''font'', ''primary''])],
      Decl ''text-align'' [S ''right''],
      Decl ''text-align'' [S ''right''],
      Decl ''max-width'' [S ''50%''],
      Decl ''white-space'' [S ''nowrap''],
      Decl ''overflow'' [S ''hidden''],
      Decl ''text-overflow'' [S ''ellipsis'']],
    Rule [S ''span''] [
      Decl ''color'' [F (\<lambda>p. theme_at p [''colors'', ''font'', ''alt1''])]],
    Rule [S ''@media (max-width: '', F (\<lambda>_. styling_at [''cutoffs'', ''secondary'']), S '')''] [
      Decl ''flex-direction'' [S ''column''],
      Decl ''align-items'' [S ''flex-start''],
      Decl ''justify-content'' [S ''flex-start''],
      Decl ''gap'' [S ''5px''],
      Rule [S ''p''] [
        Decl ''text-align'' [S ''left'']]]]"

section \<open>Soundness\<close>

definition unused_table_styles :: "styled list" where
  "unused_table_styles = [
    unnamed_8801, unnamed_8806, unnamed_8816, unnamed_8828, unnamed_8855,
    unnamed_8863, unnamed_8877, unnamed_8894, unnamed_8896, unnamed_8900,
    unnamed_8908, unnamed_8912, unnamed_8914, unnamed_8918, unnamed_8924,
    unnamed_8930, unnamed_8946, unnamed_8954, unnamed_8961, unnamed_8970,
    unnamed_8973, unnamed_8983, unnamed_8987, unnamed_8989, unnamed_9003,
    unnamed_9036, unnamed_9041, unnamed_9046, unnamed_9051, unnamed_9059,
    unnamed_9064, unnamed_9073, unnamed_9075, unnamed_9083, unnamed_9087,
    unnamed_9115, unnamed_9130, unnamed_9198, unnamed_9204, unnamed_9220,
    unnamed_9248, unnamed_9281, unnamed_9288, unnamed_9295, unnamed_9307,
    unnamed_9319, unnamed_9331, unnamed_9338, unnamed_9349, unnamed_9354,
    unnamed_9359, unnamed_9374]"

lemmas unused_table_styles_defs =
  unnamed_8801_def unnamed_8806_def unnamed_8816_def unnamed_8828_def
  unnamed_8855_def unnamed_8863_def unnamed_8877_def unnamed_8894_def
  unnamed_8896_def unnamed_8900_def unnamed_8908_def unnamed_8912_def
  unnamed_8914_def unnamed_8918_def unnamed_8924_def unnamed_8930_def
  unnamed_8946_def unnamed_8954_def unnamed_8961_def unnamed_8970_def
  unnamed_8973_def unnamed_8983_def unnamed_8987_def unnamed_8989_def
  unnamed_9003_def unnamed_9036_def unnamed_9041_def unnamed_9046_def
  unnamed_9051_def unnamed_9059_def unnamed_9064_def unnamed_9073_def
  unnamed_9075_def unnamed_9083_def unnamed_9087_def unnamed_9115_def
  unnamed_9130_def unnamed_9198_def unnamed_9204_def unnamed_9220_def
  unnamed_9248_def unnamed_9281_def unnamed_9288_def unnamed_9295_def
  unnamed_9307_def unnamed_9319_def unnamed_9331_def unnamed_9338_def
  unnamed_9349_def unnamed_9354_def unnamed_9359_def unnamed_9374_def

lemma unused_table_styles_run:
  assumes "sized a"
  shows "list_all (runs (themed pal a)) unused_table_styles"
  using assms by (elim sizedE)
    (simp add: unused_table_styles_def unused_table_styles_defs Action_def ActionsWrapper_def ElementItem_def theme_lookups missing_lookups no_throw_if)

lemma unused_table_styles_resolve:
  assumes "given a"
  shows "list_all (resolves (themed pal a)) unused_table_styles"
  using given_sized [OF assms] by (elim sizedE)
    (simp add: unused_table_styles_def unused_table_styles_defs Action_def ActionsWrapper_def ElementItem_def theme_lookups missing_lookups no_throw_if resolved_if
      given_simps [OF assms])

end
