(* ===== verification/Styles_Unused_Pages.thy ===== *)
theory Styles_Unused_Pages
  imports Styles_Links Styles_Explorer Styles_Landing
begin

text \<open>
  Styled components of the bundle that no variable keeps (the build removed the
  variable, but the template is still evaluated): \<open>bundle.js\<close>, lines 9408 to 11261. Each is
  named after the line of its template.
\<close>

section \<open>Templates\<close>

definition unnamed_9408 :: styled where
  "unnamed_9408 = Styled (Elem ''div'') [
    Decl ''display'' [S ''flex''],
    Decl ''flex-direction'' [S ''column''],
    Decl ''gap'' [S ''15px'']]"

definition unnamed_9412 :: styled where
  "unnamed_9412 = Styled (Elem ''div'') [
    Decl ''display'' [S ''flex''],
    Decl ''flex-direction'' [S ''column''],
    Decl ''gap'' [S ''15px'']]"

definition unnamed_9416 :: styled where
  "unnamed_9416 = Styled (Elem ''div'') [
    Decl ''display'' [S ''flex''],
    Decl ''gap'' [S ''7.5px'']]"

definition unnamed_9419 :: styled where
  "unnamed_9419 = Styled (Elem ''div'') [
    Rule [S ''p''] [
      Decl ''font-size'' [F (\<lambda>p. theme_at p [''typography'', ''size'', ''xSmall''])],
      Decl ''font-family'' [F (\<lambda>p. theme_at p [''typography'', ''family'', ''primary''])],
      Decl ''font-weight'' [F (\<lambda>p. theme_at p [''typography'', ''weight'', ''bold''])],
      Decl ''color'' [F (\<lambda>p. theme_at p [''colors'', ''font'', ''primary''])]]]"

definition unnamed_9426 :: styled where
  "unnamed_9426 = Styled (Elem ''div'') [
    Decl ''width'' [S ''100%''],
    Rule [S ''p''] [
      Decl ''font-size'' [F (\<lambda>p. theme_at p [''typography'', ''size'', ''xSmall''])],
      Decl ''font-family'' [F (\<lambda>p. theme_at p [''typography'', ''family'', ''primary''])],
      Decl ''font-weight'' [F (\<lambda>p. theme_at p [''typography'', ''weight'', ''bold''])],
      Decl ''color'' [F (\<lambda>p. theme_at p [''colors'', ''font'', ''primary''])]]]"

definition unnamed_9435 :: styled where
  "unnamed_9435 = Styled (Elem ''div'') [
    Decl ''width'' [S ''fit-content''],
    Decl ''display'' [S ''flex''],
    Decl ''align-items'' [S ''center''],
    Decl ''gap'' [S ''15px''],
    Decl ''margin'' [S ''5px 0 0 auto'']]"

definition unnamed_9441 :: styled where
  "unnamed_9441 = Styled (Elem ''div'') [
    Decl ''height'' [S ''600px''],
    Decl ''width'' [S ''100%'']]"

definition unnamed_9446 :: styled where
  "unnamed_9446 = Styled (Extends InputWrapper_1) []"

definition unnamed_9446b :: styled where
  "unnamed_9446b = Styled (Elem ''div'') []"

definition unnamed_9446c :: styled where
  "unnamed_9446c = Styled (Elem ''div'') [
    Decl ''width'' [S ''100%''],
    Decl ''display'' [S ''flex''],
    Decl ''align-items'' [S ''center''],
    Decl ''flex-wrap'' [S ''wrap''],
    Decl ''justify-content'' [S ''space-between''],
    Decl ''gap'' [S ''15px''],
    Decl ''padding'' [S ''15px''],
    Decl ''background'' [F (\<lambda>p. theme_at p [''colors'', ''container'', ''alt1'', ''background''])],
    Decl ''border-left'' [S ''1px solid '', F (\<lambda>p. theme_at p [''colors'', ''border'', ''primary''])],
    Decl ''border-right'' [S ''1px solid '', F (\<lambda>p. theme_at p [''colors'', ''border'', ''primary''])],
    Decl ''border-bottom'' [S ''1px solid '', F (\<lambda>p. theme_at p [''colors'', ''border'', ''primary'']), S '' !important''],
    Decl ''border-bottom-left-radius'' [F (\<lambda>_. styling_at [''dimensions'', ''radius'', ''primary''])],
    Decl ''border-bottom-right-radius'' [F (\<lambda>_. styling_at [''dimensions'', ''radius'', ''primary''])]]"

definition unnamed_9473 :: styled where
  "unnamed_9473 = Styled (Extends PageCounter) [
    Decl ''display'' [S ''flex''],
    Rule [S ''@media (max-width: '', F (\<lambda>_. styling_at [''cutoffs'', ''secondary'']), S '')''] [
      Decl ''display'' [S ''none'']]]"

definition unnamed_9479 :: styled where
  "unnamed_9479 = Styled (Extends PageCounter) [
    Decl ''display'' [S ''none''],
    Rule [S ''@media (max-width: '', F (\<lambda>_. styling_at [''cutoffs'', ''secondary'']), S '')''] [
      Decl ''display'' [S ''flex'']]]"

definition unnamed_9485 :: styled where
  "unnamed_9485 = Styled (Elem ''div'') [
    Decl ''padding'' [F (\<lambda>p. ternary (prop_of p ''childList'') (Inr (JStr ''15px'')) (Inr (JStr ''0 15px 15px 15px'')))],
    Decl ''border-left'' [S ''1px solid '', F (\<lambda>p. ternary (prop_of p ''childList'') (theme_at p [''colors'', ''border'', ''alt4'']) (theme_at p [''colors'', ''border'', ''primary'']))],
    Decl ''border-right'' [S ''1px solid '', F (\<lambda>p. ternary (prop_of p ''childList'') (theme_at p [''colors'', ''border'', ''alt4'']) (theme_at p [''colors'', ''border'', ''primary'']))],
    Decl ''border-bottom'' [S ''1px solid '', F (\<lambda>p. ternary (prop_of p ''childList'') (theme_at p [''colors'', ''border'', ''alt4'']) (theme_at p [''colors'', ''border'', ''primary''])), S '' !important''],
    Decl ''background'' [F (\<lambda>p. ternary (prop_of p ''childList'') (theme_at p [''colors'', ''container'', ''alt2'', ''background'']) (theme_at p [''colors'', ''container'', ''primary'', ''background'']))],
    Rule [S ''p''] [
      Decl ''font-size'' [F (\<lambda>p. theme_at p [''typography'', ''size'', ''xSmall''])],
      Decl ''font-family'' [F (\<lambda>p. theme_at p [''typography'', ''family'', ''primary''])],
      Decl ''font-weight'' [F (\<lambda>p. theme_at p [''typography'', ''weight'', ''bold''])],
      Decl ''color'' [F (\<lambda>p. theme_at p [''colors'', ''font'', ''primary''])]]]"

definition unnamed_9501 :: styled where
  "unnamed_9501 = Styled (Elem ''div'') []"

definition unnamed_9501b :: styled where
  "unnamed_9501b = Styled (Elem ''div'') [
    Decl ''display'' [S ''flex''],
    Decl ''justify-content'' [S ''flex-end''],
    Decl ''padding'' [S ''0 0 15px 0''],
    Decl ''border-bottom'' [S ''1px solid '', F (\<lambda>p. theme_at p [''colors'', ''border'', ''primary''])],
    Decl ''margin-bottom'' [S ''15px'']]"

definition unnamed_9507 :: styled where
  "unnamed_9507 = Styled (Elem ''div'') [
    Decl ''width'' [S ''100%''],
    Decl ''position'' [S ''relative''],
    Decl ''display'' [S ''flex''],
    Decl ''flex-direction'' [S ''column''],
    Decl ''gap'' [S ''25px'']]"

definition unnamed_9519 :: styled where
  "unnamed_9519 = Styled (Extends SectionWrapperFull) []"

definition unnamed_9531 :: styled where
  "unnamed_9531 = Styled (Extends Header_2) [
    Decl ''margin'' [S ''0'']]"

definition unnamed_9533 :: styled where
  "unnamed_9533 = Styled (Elem ''div'') [
    Decl ''display'' [S ''flex''],
    Decl ''align-items'' [S ''center''],
    Decl ''gap'' [S ''5px'']]"

definition unnamed_9541 :: styled where
  "unnamed_9541 = Styled (Elem ''div'') []"

definition unnamed_9541b :: styled where
  "unnamed_9541b = Styled (Elem ''div'') [
    Decl ''margin'' [S ''0 0 5px 0''],
    Rule [S ''p''] [
      Decl ''font-size'' [F (\<lambda>p. theme_at p [''typography'', ''size'', ''xSmall''])],
      Decl ''font-family'' [F (\<lambda>p. theme_at p [''typography'', ''family'', ''primary''])],
      Decl ''font-weight'' [F (\<lambda>p. theme_at p [''typography'', ''weight'', ''bold''])]]]"

definition unnamed_9548 :: styled where
  "unnamed_9548 = Styled (Elem ''div'') [
    Decl ''display'' [S ''flex''],
    Decl ''flex-direction'' [S ''column''],
    Decl ''gap'' [S ''2.5px'']]"

definition unnamed_9583 :: styled where
  "unnamed_9583 = Styled (Extends Body) [
    Decl ''max-height'' [S ''500px'']]"

definition unnamed_9585 :: styled where
  "unnamed_9585 = Styled (Elem ''div'') [
    Decl ''font-family'' [F (\<lambda>p. theme_at p [''typography'', ''family'', ''primary''])],
    Decl ''font-weight'' [F (\<lambda>p. theme_at p [''typography'', ''weight'', ''bold''])],
    Decl ''font-size'' [F (\<lambda>p. theme_at p [''typography'', ''size'', ''xxSmall''])]]"

definition unnamed_9589 :: styled where
  "unnamed_9589 = Styled (Elem ''div'') [
    Decl ''margin'' [S ''15px 0 0 0''],
    Rule [S ''p''] [
      Decl ''font-family'' [F (\<lambda>p. theme_at p [''typography'', ''family'', ''primary''])],
      Decl ''font-weight'' [F (\<lambda>p. theme_at p [''typography'', ''weight'', ''medium''])],
      Decl ''font-size'' [F (\<lambda>p. theme_at p [''typography'', ''size'', ''xSmall''])]]]"

definition unnamed_9596 :: styled where
  "unnamed_9596 = Styled (Extends Line) [
    Rule [S ''p, span''] [
      Decl ''color'' [F (\<lambda>p. theme_at p [''colors'', ''warning'', ''primary''])]]]"

definition unnamed_9601 :: styled where
  "unnamed_9601 = Styled (Elem ''div'') [
    Decl ''position'' [S ''absolute''],
    Decl ''bottom'' [S ''0''],
    Decl ''right'' [S ''0'']]"

definition unnamed_9605 :: styled where
  "unnamed_9605 = Styled (Elem ''div'') [
    Decl ''width'' [S ''100%''],
    Decl ''display'' [S ''flex''],
    Decl ''justify-content'' [S ''space-between''],
    Decl ''gap'' [S ''25px''],
    Rule [S ''@media (max-width: '', F (\<lambda>_. styling_at [''cutoffs'', ''initial'']), S '')''] [
      Decl ''flex-direction'' [S ''column-reverse'']]]"

definition unnamed_9614 :: styled where
  "unnamed_9614 = Styled (Elem ''div'') [
    Decl ''height'' [S ''fit-content''],
    Decl ''width'' [S ''450px''],
    Decl ''padding'' [S ''15px''],
    Rule [S ''@media (max-width: '', F (\<lambda>_. styling_at [''cutoffs'', ''initial'']), S '')''] [
      Decl ''width'' [S ''100%'']]]"

definition unnamed_9622 :: styled where
  "unnamed_9622 = Styled (Elem ''div'') [
    Decl ''display'' [S ''flex''],
    Decl ''justify-content'' [S ''space-between''],
    Rule [S ''h4''] [
      Decl ''font-size'' [F (\<lambda>p. theme_at p [''typography'', ''size'', ''lg''])],
      Decl ''font-family'' [F (\<lambda>p. theme_at p [''typography'', ''family'', ''primary''])],
      Decl ''font-weight'' [F (\<lambda>p. theme_at p [''typography'', ''weight'', ''medium''])],
      Decl ''color'' [F (\<lambda>p. theme_at p [''colors'', ''font'', ''primary''])]],
    Rule [S ''span''] [
      Decl ''font-size'' [F (\<lambda>p. theme_at p [''typography'', ''size'', ''xSmall''])],
      Decl ''font-family'' [F (\<lambda>p. theme_at p [''typography'', ''family'', ''primary''])],
      Decl ''font-weight'' [F (\<lambda>p. theme_at p [''typography'', ''weight'', ''medium''])],
      Decl ''color'' [F (\<lambda>p. theme_at p [''colors'', ''font'', ''alt1''])]]]"

definition unnamed_9639 :: styled where
  "unnamed_9639 = Styled (Elem ''div'') [
    Decl ''width'' [S ''100%''],
    Decl ''margin'' [S ''15px 0 0 0''],
    Decl ''display'' [S ''flex''],
    Decl ''flex-direction'' [S ''column''],
    Decl ''gap'' [S ''15px'']]"

definition unnamed_9645 :: styled where
  "unnamed_9645 = Styled (Elem ''div'') [
    Decl ''display'' [S ''flex''],
    Decl ''align-items'' [S ''center''],
    Decl ''justify-content'' [S ''space-between''],
    Rule [S ''p, span''] [
      Decl ''font-size'' [F (\<lambda>p. theme_at p [''typography'', ''size'', ''xSmall''])],
      Decl ''font-family'' [F (\<lambda>p. theme_at p [''typography'', ''family'', ''primary''])],
      Decl ''font-weight'' [F (\<lambda>p. theme_at p [''typography'', ''weight'', ''medium''])]],
    Rule [S ''p''] [
      Decl ''color'' [F (\<lambda>p. theme_at p [''colors'', ''font'', ''primary''])],
      Decl ''text-align'' [S ''right''],
      Decl ''text-align'' [S ''right''],
      Decl ''max-width'' [S ''50%''],
      Decl ''white-space'' [S ''nowrap''],
      Decl ''overflow'' [S ''hidden''],
      Decl ''text-overflow'' [S ''ellipsis'']],
    Rule [S ''span''] [
      Decl ''color'' [F (\<lambda>p. theme_at p [''colors'', ''font'', ''alt1''])]],
    Rule [S ''@media (max-width: '', F (\<lambda>_. styling_at [''cutoffs'', ''secondary'']), S '')''] [
      Decl ''flex-direction'' [S ''column''],
      Decl ''align-items'' [S ''flex-start''],
      Decl ''justify-content'' [S ''flex-start''],
      Decl ''gap'' [S ''5px''],
      Rule [S ''p''] [
        Decl ''text-align'' [S ''left'']]]]"

definition unnamed_9681 :: styled where
  "unnamed_9681 = Styled (Elem ''div'') [
    Decl ''width'' [S ''calc(100% - 475px)''],
    Decl ''display'' [S ''flex''],
    Decl ''flex-direction'' [S ''column''],
    Decl ''gap'' [S ''25px''],
    Rule [S ''@media (max-width: '', F (\<lambda>_. styling_at [''cutoffs'', ''initial'']), S '')''] [
      Decl ''width'' [S ''100%'']]]"

definition unnamed_9690 :: styled where
  "unnamed_9690 = Styled (Elem ''div'') []"

definition unnamed_9690b :: styled where
  "unnamed_9690b = Styled (Elem ''div'') [
    Decl ''display'' [S ''flex''],
    Decl ''align-items'' [S ''center''],
    Decl ''gap'' [S ''15px''],
    Decl ''flex-wrap'' [S ''wrap''],
    Decl ''flex-shrink'' [S ''0''],
    Rule [S ''@media (max-width: '', F (\<lambda>_. styling_at [''cutoffs'', ''initial'']), S '')''] [
      Decl ''width'' [S ''100%'']]]"

definition unnamed_9700 :: styled where
  "unnamed_9700 = Styled (Elem ''div'') [
    Decl ''width'' [S ''fit-content''],
    Decl ''padding'' [S ''4.5px 15px''],
    Decl ''display'' [S ''flex''],
    Decl ''align-items'' [S ''center''],
    Decl ''justify-content'' [S ''center''],
    Decl ''gap'' [S ''12.5px''],
    Decl ''height'' [F (\<lambda>_. styling_at [''dimensions'', ''action'', ''height''])],
    Decl ''background'' [F (\<lambda>p. theme_at p [''colors'', ''container'', ''alt1'', ''background''])],
    Decl ''border'' [S ''1px solid '', F (\<lambda>p. theme_at p [''colors'', ''border'', ''primary''])],
    Decl ''border-radius'' [F (\<lambda>_. styling_at [''dimensions'', ''radius'', ''primary''])],
    Rule [S ''span''] [
      Decl ''font-size'' [F (\<lambda>p. theme_at p [''typography'', ''size'', ''xxxSmall''])],
      Decl ''font-family'' [F (\<lambda>p. theme_at p [''typography'', ''family'', ''alt1''])],
      Decl ''font-weight'' [F (\<lambda>p. theme_at p [''typography'', ''weight'', ''medium''])],
      Decl ''color'' [F (\<lambda>p. theme_at p [''colors'', ''font'', ''primary''])],
      Decl ''text-align'' [S ''center''],
      Decl ''text-transform'' [S ''uppercase'']],
    Rule [S ''@media (max-width: '', F (\<lambda>_. styling_at [''cutoffs'', ''initial'']), S '')''] [
      Decl ''width'' [S ''100%''],
      Decl ''padding'' [S ''7.5px 15px'']]]"

definition unnamed_9724 :: styled where
  "unnamed_9724 = Styled (Elem ''div'') [
    Decl ''height'' [S ''10.5px''],
    Decl ''width'' [S ''10.5px''],
    Decl ''border-radius'' [F (\<lambda>_. styling_at [''dimensions'', ''radius'', ''circle''])],
    Decl ''animation'' [S ''pulse 1.075s infinite''],
    Rule [S ''@keyframes pulse''] [
      Rule [S ''0%, 100%''] [
        Decl ''background'' [F (\<lambda>p. theme_at p [''colors'', ''indicator'', ''active''])],
        Decl ''transform'' [S ''scale(1)'']],
      Rule [S ''50%''] [
        Decl ''background'' [F (\<lambda>p. theme_at p [''colors'', ''indicator'', ''primary''])],
        Decl ''transform'' [S ''scale(1.15)'']]]]"

definition unnamed_9938 :: styled where
  "unnamed_9938 = Styled (Elem ''div'') [
    Decl ''width'' [S ''100%'']]"

definition unnamed_9950 :: styled where
  "unnamed_9950 = Styled (Elem ''div'') [
    Decl ''display'' [S ''none''],
    Decl ''position'' [S ''absolute''],
    Decl ''right'' [S ''4.5px''],
    Decl ''right'' [S ''0''],
    Decl ''bottom'' [S ''50%''],
    Decl ''transform'' [S ''translate(0, 25%)''],
    Rule [S ''svg''] [
      Decl ''margin'' [S ''3.5px 0 0 0 !important'']],
    Rule [S ''&:hover''] [
      Rule [S ''button''] [
        Decl ''background'' [S ''transparent !important'']],
      Rule [S ''svg''] [
        Decl ''color'' [F (\<lambda>p. theme_at p [''colors'', ''warning'', ''primary'']), S '' !important''],
        Decl ''fill'' [F (\<lambda>p. theme_at p [''colors'', ''warning'', ''primary'']), S '' !important'']]]]"

definition unnamed_10139 :: styled where
  "unnamed_10139 = Styled (Elem ''div'') [
    Decl ''display'' [S ''flex''],
    Decl ''flex-direction'' [S ''column''],
    Decl ''gap'' [S ''1.5px''],
    Decl ''margin'' [S ''15px 0 0 0'']]"

definition unnamed_10144 :: styled where
  "unnamed_10144 = Styled (Elem ''div'') [
    Rule [S ''span''] [
      Decl ''color'' [F (\<lambda>p. theme_at p [''colors'', ''font'', ''primary''])],
      Decl ''font-size'' [F (\<lambda>p. theme_at p [''typography'', ''size'', ''xSmall'']), S '' !important''],
      Decl ''font-weight'' [F (\<lambda>p. theme_at p [''typography'', ''weight'', ''bold'']), S '' !important''],
      Decl ''font-family'' [F (\<lambda>p. theme_at p [''typography'', ''family'', ''primary'']), S '' !important''],
      Decl ''text-transform'' [S ''uppercase'']]]"

definition unnamed_10158 :: styled where
  "unnamed_10158 = Styled (Elem ''div'') [
    Rule [S ''video''] [
      Decl ''width'' [S ''100%''],
      Decl ''max-width'' [F (\<lambda>_. styling_at [''cutoffs'', ''max''])],
      Decl ''filter'' [S ''invert('', F (\<lambda>p. strict_eq (theme_at p [''scheme'']) (Inr (JStr ''dark''))), S '')''],
      Decl ''position'' [S ''fixed''],
      Decl ''opacity'' [S ''0.35''],
      Decl ''z-index'' [S ''-1''],
      Decl ''top'' [S ''60px''],
      Decl ''left'' [S ''50%''],
      Decl ''transform'' [S ''translate(-50%, 0)'']],
    Rule [S ''@media (max-width: '', F (\<lambda>_. styling_at [''cutoffs'', ''initial'']), S '')''] [
      Decl ''display'' [S ''none'']]]"

definition unnamed_10685 :: styled where
  "unnamed_10685 = Styled (Elem ''button'') [
    Decl ''width'' [S ''fit-content''],
    Decl ''padding'' [S ''6px 14px 7px 14px''],
    Decl ''border'' [S ''1px solid '', F (\<lambda>p. theme_at p [''colors'', ''border'', ''primary''])],
    Decl ''background'' [F (\<lambda>p. theme_at p [''colors'', ''container'', ''primary'', ''background''])],
    Decl ''font-size'' [F (\<lambda>p. theme_at p [''typography'', ''size'', ''xxxSmall''])],
    Decl ''font-family'' [F (\<lambda>p. theme_at p [''typography'', ''family'', ''primary''])],
    Decl ''font-weight'' [F (\<lambda>p. theme_at p [''typography'', ''weight'', ''bold''])],
    Decl ''color'' [F (\<lambda>p. theme_at p [''colors'', ''font'', ''alt1''])],
    Decl ''letter-spacing'' [S ''0.35px''],
    Decl ''text-transform'' [S ''uppercase''],
    Decl ''cursor'' [S ''pointer''],
    Rule [S ''&:hover''] [
      Decl ''background'' [F (\<lambda>p. theme_at p [''colors'', ''container'', ''alt2'', ''background''])]],
    Rule [S ''&:focus''] [
      Decl ''outline'' [S ''none''],
      Decl ''box-shadow'' [S ''0 0 0 1px '', F (\<lambda>p. theme_at p [''colors'', ''border'', ''alt5''])]]]"

definition unnamed_10870 :: styled where
  "unnamed_10870 = Styled (Elem ''div'') [
    Decl ''display'' [S ''flex''],
    Decl ''align-items'' [S ''center''],
    Decl ''gap'' [S ''12px''],
    Decl ''flex-wrap'' [S ''wrap'']]"

definition unnamed_11245 :: styled where
  "unnamed_11245 = Styled (Elem ''div'') [
    Rule [S ''video''] [
      Decl ''width'' [S ''100%''],
      Decl ''max-width'' [F (\<lambda>_. styling_at [''cutoffs'', ''max''])],
      Decl ''filter'' [S ''invert('', F (\<lambda>p. strict_eq (theme_at p [''scheme'']) (Inr (JStr ''dark''))), S '')''],
      Decl ''position'' [S ''fixed''],
      Decl ''opacity'' [S ''0.35''],
      Decl ''z-index'' [S ''0''],
      Decl ''top'' [S ''-88.5px''],
      Decl ''left'' [S ''50%''],
      Decl ''transform'' [S ''translate(-50%, 0)'']],
    Rule [S ''@media (max-width: '', F (\<lambda>_. styling_at [''cutoffs'', ''initial'']), S '')''] [
      Decl ''display'' [S ''none'']]]"

section \<open>Soundness\<close>

definition unused_page_styles :: "styled list" where
  "unused_page_styles = [
    unnamed_9408, unnamed_9412, unnamed_9416, unnamed_9419, unnamed_9426,
    unnamed_9435, unnamed_9441, unnamed_9446, unnamed_9446b, unnamed_9446c,
    unnamed_9473, unnamed_9479, unnamed_9485, unnamed_9501, unnamed_9501b,
    unnamed_9507, unnamed_9519, unnamed_9531, unnamed_9533, unnamed_9541,
    unnamed_9541b, unnamed_9548, unnamed_9583, unnamed_9585, unnamed_9589,
    unnamed_9596, unnamed_9601, unnamed_9605, unnamed_9614, unnamed_9622,
    unnamed_9639, unnamed_9645, unnamed_9681, unnamed_9690, unnamed_9690b,
    unnamed_9700, unnamed_9938, unnamed_9950, unnamed_10139, unnamed_10144,
    unnamed_10158, unnamed_10685, unnamed_10870, unnamed_11245]"

lemmas unused_page_styles_defs =
  unnamed_9408_def unnamed_9412_def unnamed_9416_def unnamed_9419_def
  unnamed_9426_def unnamed_9435_def unnamed_9441_def unnamed_9446_def
  unnamed_9446b_def unnamed_9446c_def unnamed_9473_def unnamed_9479_def
  unnamed_9485_def unnamed_9501_def unnamed_9501b_def unnamed_9507_def
  unnamed_9519_def unnamed_9531_def unnamed_9533_def unnamed_9541_def
  unnamed_9541b_def unnamed_9548_def unnamed_9583_def unnamed_9585_def
  unnamed_9589_def unnamed_9596_def unnamed_9601_def unnamed_9605_def
  unnamed_9614_def unnamed_9622_def unnamed_9639_def unnamed_9645_def
  unnamed_9681_def unnamed_9690_def unnamed_9690b_def unnamed_9700_def
  unnamed_9938_def unnamed_9950_def unnamed_10139_def unnamed_10144_def
  unnamed_10158_def unnamed_10685_def unnamed_10870_def unnamed_11245_def

definition unused_page_styles_gaps :: "styled list" where
  "unused_page_styles_gaps = [unnamed_9724]"

lemmas unused_page_styles_gap_defs =
  unnamed_9724_def

lemma unused_page_styles_run:
  assumes "sized a"
  shows "list_all (runs (themed pal a)) unused_page_styles"
  using assms by (elim sizedE)
    (simp add: unused_page_styles_def unused_page_styles_defs Body_def Header_2_def InputWrapper_1_def Line_def PageCounter_def SectionWrapperFull_def SectionWrapper_def theme_lookups missing_lookups no_throw_if)

lemma unused_page_styles_resolve:
  assumes "given a"
  shows "list_all (resolves (themed pal a)) unused_page_styles"
  using given_sized [OF assms] by (elim sizedE)
    (simp add: unused_page_styles_def unused_page_styles_defs Body_def Header_2_def InputWrapper_1_def Line_def PageCounter_def SectionWrapperFull_def SectionWrapper_def theme_lookups missing_lookups no_throw_if resolved_if
      given_simps [OF assms])

lemma unused_page_styles_gaps_run: "sized a \<Longrightarrow> list_all (runs (themed pal a)) unused_page_styles_gaps"
  by (elim sizedE) (simp add: unused_page_styles_gaps_def unused_page_styles_gap_defs Body_def Header_2_def InputWrapper_1_def Line_def PageCounter_def SectionWrapperFull_def SectionWrapper_def theme_lookups missing_lookups no_throw_if)

lemma unused_page_styles_gaps_open: "list_all (\<lambda>s. \<not> resolves (themed pal a) s) unused_page_styles_gaps"
  by (simp add: unused_page_styles_gaps_def unused_page_styles_gap_defs Body_def Header_2_def InputWrapper_1_def Line_def PageCounter_def SectionWrapperFull_def SectionWrapper_def theme_lookups missing_lookups ternary_def)

end
