(* ===== verification/Styles.thy ===== *)
theory Styles
  imports Styles_Controls Styles_Shell Styles_Global Styles_Editor Styles_Links Styles_Explorer Styles_Landing Styles_Unused Styles_Unused_Tables Styles_Unused_Pages
begin

text \<open>
  The style sheet of the explorer as a whole: every styled component of the
  bundle under a theme built from any palette.
\<close>

definition themed_styles :: "styled list" where
  "themed_styles = controls_styles @ shell_styles @ global_styles @ editor_styles @ links_styles @ explorer_styles @ landing_styles @ unused_styles @ unused_table_styles @ unused_page_styles"

text \<open>
  The components with a declaration that reads a path the theme lacks:
  \<open>colors.button.primary.alt1\<close>, \<open>colors.button.alt1.hover\<close> and \<open>label\<close>,
  \<open>colors.font.primary.alt4\<close> and \<open>alt1\<close>, \<open>colors.transparent\<close> and
  \<open>colors.indicator.primary\<close>.
\<close>

definition unthemed_styles :: "styled list" where
  "unthemed_styles = [Wrapper_u, EndText, Wrapper_g, Indicator_2, Indicator_1] @ unused_styles_gaps @ unused_page_styles_gaps"

lemmas unthemed_styles_defs = Wrapper_u_def EndText_def Wrapper_g_def Indicator_2_def Indicator_1_def

lemma themed_styles_run: "sized a \<Longrightarrow> list_all (runs (themed pal a)) themed_styles"
  by (simp add: themed_styles_def controls_styles_run
    shell_styles_run
    global_styles_run
    editor_styles_run
    links_styles_run
    explorer_styles_run
    landing_styles_run
    unused_styles_run
    unused_table_styles_run
    unused_page_styles_run)

lemma unthemed_styles_run: "sized a \<Longrightarrow> list_all (runs (themed pal a)) unthemed_styles"
  by (simp add: unthemed_styles_def unused_styles_gaps_run unused_page_styles_gaps_run unthemed_styles_defs theme_lookups
      missing_lookups no_throw_if)

lemma themed_styles_resolve: "given a \<Longrightarrow> list_all (resolves (themed pal a)) themed_styles"
  by (simp add: themed_styles_def controls_styles_resolve
    shell_styles_resolve
    global_styles_resolve
    editor_styles_resolve
    links_styles_resolve
    explorer_styles_resolve
    landing_styles_resolve
    unused_styles_resolve
    unused_table_styles_resolve
    unused_page_styles_resolve)

lemma unthemed_styles_gap:
  "\<not> truthy (a ''disabled'') \<Longrightarrow> list_all (\<lambda>s. \<not> resolves (themed pal a) s) unthemed_styles"
  by (simp add: unthemed_styles_def unused_styles_gaps_open unused_page_styles_gaps_open unthemed_styles_defs theme_lookups
      missing_lookups ternary_def)

section \<open>What a reader sees\<close>

text \<open>
  No component of the explorer fails to render: with the sizes the size-driven
  components need, every style sheet is produced, whatever the palette, the class
  names and the other attributes.
\<close>

lemma styles_never_throw:
  assumes "sized a" "s \<in> set (themed_styles @ unthemed_styles)"
  shows "\<exists>t. render e (themed pal a) s = Inr t"
proof (rule render_runs)
  from assms(2) consider "s \<in> set themed_styles" | "s \<in> set unthemed_styles" by auto
  then show "runs (themed pal a) s"
    using themed_styles_run [OF assms(1), of pal] unthemed_styles_run [OF assms(1), of pal]
    by cases (simp_all add: list_all_iff)
qed

text \<open>
  Every theme path the style sheets read is defined by every palette: with the
  attributes given, no declaration of a themed component is left without a value.
\<close>

theorem themed_styles_have_values:
  assumes "given a" "s \<in> set themed_styles"
  shows "resolves (themed pal a) s"
  using themed_styles_resolve [OF assms(1), of pal] assms(2) by (simp add: list_all_iff)

lemma themed_styles_have_values_witness:
  "resolves (themed darkTheme all_given) DeviceRow"
  by (rule themed_styles_have_values [OF all_given_given])
    (simp add: themed_styles_def landing_styles_def)

text \<open>
  Nine components read a theme path that no palette defines: they render, but
  with a declaration whose value is missing.
\<close>

theorem unthemed_styles_lack_values:
  assumes "sized a" "\<not> truthy (a ''disabled'')" "s \<in> set unthemed_styles"
  shows "(\<exists>t. render e (themed pal a) s = Inr t) \<and> \<not> resolves (themed pal a) s"
proof
  have "runs (themed pal a) s"
    using unthemed_styles_run [OF assms(1), of pal] assms(3) by (simp add: list_all_iff)
  then show "\<exists>t. render e (themed pal a) s = Inr t" by (rule render_runs)
  show "\<not> resolves (themed pal a) s"
    using unthemed_styles_gap [of a pal] assms(2,3) by (simp add: list_all_iff)
qed

lemma unthemed_styles_lack_values_witness:
  "\<not> resolves (themed lightTheme all_given) Indicator_1"
  using unthemed_styles_lack_values [of all_given Indicator_1] given_sized [OF all_given_given]
  by (simp add: all_given_def unthemed_styles_def)

end
