(* ===== verification/Spec2Isabelle.thy ===== *)
theory Spec2Isabelle
  imports Explorer Autocomplete Format Base64 Der HttpSig Requests Routing Router_Nested Router_Page Token WalletDialog Controls SearchField Site
    Language RequestTab TabContent JsonTree Console LinkGraph Metrics Dashboard AppShell Bridge HashCycle Docs_Header Docs_Toc Styles
begin

text \<open>
  A verification library for the JavaScript of this repository. All paths are under
  \<open>src/\<close>; line numbers without a file are those of \<open>src/html/hyperbuddy@1.0/bundle.js\<close>.

  \<^bold>\<open>The program.\<close> The node serves a single-page application, the explorer, as one built
  bundle. Its start page has a script of its own (\<open>src/html/hyperbuddy@1.0/script.js\<close>),
  the documentation site has five (\<open>docs/js\<close>), and payments are bridged by a command-line
  helper (\<open>scripts/ao-payment-bridge.mjs\<close>). In the explorer a bar of tabs and the router
  follow each other; a tab sends the path in its field to the node, shows what the answer
  says about its signature, reports what it found to the tab bar, and opens the contents,
  the link graph or the JSON of the answer. A console sends requests of any method, a
  dashboard reads the metrics of the node. Every page is framed by settings, panels and
  notifications and drawn with components that take their colours from a theme.

  \<^bold>\<open>The theories.\<close>
  \<^item> \<open>JS_Prelude\<close>: strings as the sources use them (a string is a list of code units below
    256), searching and splitting, and two contracts: \<open>machine\<close>, a handler of events that
    keeps an invariant, and \<open>codec\<close>, an encoder with a partial decoder. The components
    interpret them on their own definitions.
  \<^item> \<open>Machines\<close>: the states a machine reaches, and two more contracts: a machine that contains
    another as a part, and what holds of the part alone and so in the whole. The tab with its
    request and the page with wallet and modals interpret them.
  \<^item> \<open>Explorer\<close>: the tab bar (\<open>Explorer\<close>, line 10174): its \<open>useState\<close> fields as a record,
    one definition for each callback and effect, \<open>explorer_step\<close> for an event. The invariant
    is that the active index is that of a tab; the location effect has a fixed point.
  \<^item> \<open>Routing\<close>: the tab bar on a page with the hash router (lines 244 and 10174). A router is
    a contract, which the resolution of the bundle's router fulfils; three deliveries after
    any event are enough to come to rest.
  \<^item> \<open>Router_Paths\<close>, \<open>Router_Match\<close>, \<open>Router_Nested\<close>, \<open>Router_History\<close>, \<open>Router_Page\<close>: the
    router the bundle contains (lines 244 and 246).
    Paths as text and as parts, and targets relative to a location or to the branch of
    routes that is shown; patterns of routes, their compilation to pieces that a text is
    matched against, the ranking of the branches, and the choice of the one to show, with
    routes inside routes; the
    history kept in the fragment of the address, percent-encoded as the browser writes it, with
    the entries of the browser, its events and the listener; and the page over them: routes made of elements, base names, routes
    below routes, the hooks that resolve and navigate, links, and \<open>HashRouter\<close>.
  \<^item> \<open>Wallet\<close>, \<open>Token\<close>: the wallet of the visitor (\<open>ArweaveProvider\<close>, line 1364, over the
    provider Othent of line 1316): the two kinds of wallet, the calls in flight, the profile
    and the storage as one state with a step for every event; the claims in the token of a
    session and their decoding (lines 1289 and 1316).
  \<^item> \<open>WalletDialog\<close>: the wallet and the modals of the page together: the dialog that lists the
    wallets (\<open>ArweaveProvider\<close>, line 1364), mounted and unmounted by the handlers, among other
    modals and the Escape key.
  \<^item> \<open>Site\<close>: the addresses and storage keys of the site (\<open>createURLs\<close>, \<open>STORAGE\<close>, line 246), and
    what a click on such an address leads to: the address shown, the route it matches, and what the
    explorer reads from it.
  \<^item> \<open>Language\<close>: the texts and the provider of the current language (line 516).
  \<^item> \<open>Controls\<close>: the controls with state: modals and loaders and the scrolling of the page,
    texts to copy, buttons, toggles, form fields, the list of completions, avatars (lines 246
    to 1289).
  \<^item> \<open>Requests\<close>, \<open>RequestTab\<close>, \<open>TabContent\<close>: the hook \<open>useHyperBeamRequest\<close> (line 3846) with
    answers in any order, refined to the answer that came last; a tab with its input and its
    report (\<open>ExplorerTab\<close>, line 9920), which has one request in flight; the contents of an
    answer with the cache of all tabs (\<open>ExplorerTabPath\<close>, line 8700).
  \<^item> \<open>Json\<close>, \<open>JsonTree\<close>: JSON text is read and printed by the standard of the language,
    with the round trip of printed values and the proof that the depth of the reader is
    enough; the JSON tree (\<open>_JSONTree\<close>, line 4203) opens texts that are JSON, copies, and
    collapses its nodes.
  \<^item> \<open>HttpSig\<close>, \<open>Der\<close>, \<open>Base64\<close>: signature headers, the choice of a signature and its key, the
    signer and the message id (lines 3843 to 3846); the DER writer that wraps a public key for
    import, over buffers with bounds, with a reader it is checked against (line 3844); base64
    and its URL-safe variant, in the bundle and in \<open>script.js\<close>.
  \<^item> \<open>Autocomplete\<close>, \<open>Format\<close>: device names and the completion in the input field
    (\<open>useDeviceAutocomplete\<close>, line 871), text helpers (line 486).
  \<^item> \<open>Devices\<close>: requests to the node (\<open>hbFetch\<close>, line 486, endpoints of line 246) and the table
    of devices made of their answers, with any number of calls in flight.
  \<^item> \<open>SearchField\<close>: completion, devices and the list on the page as one machine
    (\<open>SearchInput\<close>, line 871): the names change while the user types, and what is listed is what
    a search found among names that were offered.
  \<^item> \<open>Console\<close>: the line parser, the request made of a line, and the history (line 10379).
  \<^item> \<open>LinkGraph\<close>: the links of a path, the table that lists them as a tree, filters, and the
    decoding of binary data (line 8356).
  \<^item> \<open>Metrics\<close>, \<open>Dashboard\<close>: the metrics text and the figures of the landing page (line
    11069), devices (10563), categories (10948) and router nodes (11261).
  \<^item> \<open>AppShell\<close>: settings and their storage, panels, close listeners, notifications (lines
    1838 to 2307).
  \<^item> \<open>Bridge\<close>: \<open>scripts/ao-payment-bridge.mjs\<close> as a whole: arguments, URL, reply.
  \<^item> \<open>HashBackground\<close>: \<open>script.js\<close> function by function: typing, placing and fading.
    \<open>HashCycle\<close> puts them together as the code does, with the timer that is pending, the
    rounds and the time they take.
  \<^item> \<open>Docs_Header\<close>, \<open>Docs_Toc\<close>: the scripts of \<open>docs/js\<close> with their listeners as events.
  \<^item> \<open>JS_Value\<close>, \<open>Styled_Components\<close>, \<open>Theme\<close>, and the theories whose names start with
    \<open>Styles\<close>: JavaScript values as far as style functions inspect them, the rule by which an
    interpolation becomes text (line 298), the theme (lines 246 and 2307), and every styled
    component of the bundle, one definition for each template in the order of the bundle. A
    component whose variable the build dropped is named after its line. \<open>Styles\<close> joins them.

  \<^bold>\<open>What is shown.\<close> The properties stand at the end of their theories, each after a text
  with its number. In groups:
  \<^item> invariants under any events: the tab bar, the drop-down, the console history, the
    panels that lock scrolling, the settings, the documentation header, the tab of a request, the modals that lock
    scrolling, the wallet, its dialog among other modals, the search field, the distance every
    move in the history is told with;
  \<^item> the tab bar with its neighbours: the location effect settles, tab bar and router come
    to rest, a click ends at its tab, closing activates a neighbour, a reload restores, a
    report is local and is not repeated;
  \<^item> what a reader of a signed answer relies on: signature headers are parsed back, the
    message id is the digest of the commitment, the headers shown are those that were signed,
    the imported key is the given modulus, data called binary can be decoded;
  \<^item> the router: the page shows the entry the browser is at, a click on a link shows what its
    target resolves to, a navigation link is active at and above its path; a target without a scheme stays on its site, \<open>..\<close> climbs one route, parameters
    written into a pattern are read back, the splat takes the rest, the branch shown is the
    best that matches, and for flat routes the ranking is the stable sort by score and position;
  \<^item> components together: a click on a link to a page of a process shows its address, which
    the route of the explorer matches and from which process and page are read back; the list of the
    search field is a search among the names of the devices, and hints at the name Tab puts in;
  \<^item> liveness: every hash of the start page is shown in full and another one follows, scrolling
    is drawn, a notice of copying ends;
  \<^item> the wallet: what the state promises in every state that can be reached, what a reload
    restores, and what a switch or a refusal by the wallet does;
  \<^item> the table of devices: a served table is kept, failures of every kind keep the built-in
    one, and there are always names to choose from;
  \<^item> agreement with references: the answer shown is the one that came last, the filtered
    table and the filtered drawing agree, the link table of an acyclic graph is its nodes;
  \<^item> round trips: base64, DER lengths, metrics text, query of the payment bridge, console
    lines, locations, parts of a location, claims of a token;
  \<^item> every control can be drawn, all but two of them with every value defined; every styled component under any palette gives a style sheet without undefined values,
    with the exception of nine that read colours no theme has;
  \<^item> behaviour that differs from what the code means to do, stated as it is: a tab with a
    query, unsent text in a report, contents that are never refreshed, the flag that swallows
    the next visit, the signer that is a prefix of the key, a balance that comes late or stays when the wallet
    is disconnected, an address typed by hand, a loader that unlocks the page below a modal,
    and others.

  \<^bold>\<open>Bounds and fuel.\<close> The link table recurses on the graph as the code does, with the depth
  of the call stack as its bound: any depth of at least the number of nodes is enough for an
  acyclic graph, and a cycle exhausts every bound. Three deliveries of the router are enough
  for every event. A fade ends within 21 ticks and a
  round of a hash within 85. DER lengths are exact
  below 256 to the power of 3, the buffers of the writer bound its keys likewise. The clock is
  right until the year 9575. The JSON reader recurses to a depth of the length of its text,
  which every text that can be read stays below. All other recursions are structural or have a measure.

  \<^bold>\<open>Parameters.\<close> Code that is not in the sources is an argument: the SHA-256 digest, the
  verification of a signature and the import of a key (WebCrypto and its libraries), the
  replies of the node, the reading of a body (\<open>JSON.parse\<close> of an answer is any partial function),
  decompression, the rounding of a number by the
  browser and its reading and printing, random numbers, element sizes and the clock.

  \<^bold>\<open>Not modelled.\<close> Third-party code in the bundle (React, styled-components beyond its
  interpolation, the data loading of the router and its forms, three.js, d3, editors, terminal,
  SDKs); JSX, scrolling positions, focus and full screen; the client of the profiles and the provider around it; the navigation bar, the pages of the
  documentation in the explorer, the grouping of samples below a metric, the
  three-dimensional drawing and the spinning cube. The Erlang and native code of the node is a
  different program.

  \<^bold>\<open>The manifest.\<close> The bundle has 11,300 lines, of which the manifest of this library maps the
  first 1,552 and with them the properties about that code, the start page, the payment bridge
  and the documentation site. The code behind them (the tab bar, the tabs, JSON, signatures,
  the console, graphs, metrics and the frame of the application) is modelled and proved in
  the theories that name its lines, and these theorems are part of the library without an
  entry in the manifest.

  \<^bold>\<open>What is left.\<close> In the mapped part of the sources: the table of assets, which is data that no
  code computes with, and the sheet of generated class names of styled components. Behind it
  the navigation bar and the profiles, whose clients are third-party code.
\<close>

end
